(* ===== verification/Principals.thy ===== *)
theory Principals
  imports Prelude
begin

text \<open>
  Identity: \<^verbatim>\<open>domain/principals.py\<close> (capabilities, institution scopes, principals, the
  snapshot that outlives a request), \<^verbatim>\<open>auth/roles.py\<close> (the role to capability map) and
  the demo identity adapter of \<^verbatim>\<open>auth/principal.py\<close>. The lemmas show that granting is
  by explicit capability only, that scope containment is a partial order, and that a
  snapshot rebuilds the principal it was taken from.
\<close>

subsection \<open>Enumerations\<close>

datatype principal_type =
    ANONYMOUS | STUDENT | FACULTY | STAFF | HOD | PRINCIPAL
  | INSTITUTION_ADMIN | MAIN_ADMIN | PLATFORM_SUPER_ADMIN | SYSTEM

fun ptype_value :: "principal_type \<Rightarrow> string" where
  "ptype_value ANONYMOUS = ''anonymous''"
| "ptype_value STUDENT = ''student''"
| "ptype_value FACULTY = ''faculty''"
| "ptype_value STAFF = ''staff''"
| "ptype_value HOD = ''hod''"
| "ptype_value PRINCIPAL = ''principal''"
| "ptype_value INSTITUTION_ADMIN = ''institution_admin''"
| "ptype_value MAIN_ADMIN = ''main_admin''"
| "ptype_value PLATFORM_SUPER_ADMIN = ''platform_super_admin''"
| "ptype_value SYSTEM = ''system''"

definition all_ptypes :: "principal_type list" where
  "all_ptypes = [ANONYMOUS, STUDENT, FACULTY, STAFF, HOD, PRINCIPAL,
     INSTITUTION_ADMIN, MAIN_ADMIN, PLATFORM_SUPER_ADMIN, SYSTEM]"

text \<open>\<^verbatim>\<open>PrincipalType(value)\<close>: the member with that value, or a ValueError.\<close>

definition ptype_of :: "string \<Rightarrow> principal_type res" where
  "ptype_of v = (case find (\<lambda>t. ptype_value t = v) all_ptypes of
     Some t \<Rightarrow> Inr t | None \<Rightarrow> Inl (ValueError (v @ '' is not a valid PrincipalType'')))"

datatype capability =
    ASK_READ_ONLY | START_VOICE_SESSION | VIEW_SOURCE_METADATA | RUN_BRIEFING
  | VIEW_BRIEFING_HISTORY | MANAGE_ACCESS | AGENT_COMMAND | DATA_INGEST | DATA_REVIEW
  | STUDENTS_READ | STUDENTS_READ_CONTACT | ATTENDANCE_READ | FEES_READ | FACULTY_READ
  | EXAMS_READ | DOCUMENTS_READ | DOCUMENTS_MANAGE | REPORTS_GENERATE | ACTIONS_EMAIL
  | ACTIONS_NOTIFY | RECORDS_WRITE | INTELLIGENCE_READ | INTELLIGENCE_MANAGE | WEB_SEARCH

fun cap_value :: "capability \<Rightarrow> string" where
  "cap_value ASK_READ_ONLY = ''ask:read_only''"
| "cap_value START_VOICE_SESSION = ''voice:start''"
| "cap_value VIEW_SOURCE_METADATA = ''source:view_metadata''"
| "cap_value RUN_BRIEFING = ''briefing:run''"
| "cap_value VIEW_BRIEFING_HISTORY = ''briefing:view_history''"
| "cap_value MANAGE_ACCESS = ''access:manage''"
| "cap_value AGENT_COMMAND = ''agent:command''"
| "cap_value DATA_INGEST = ''data:ingest''"
| "cap_value DATA_REVIEW = ''data:review''"
| "cap_value STUDENTS_READ = ''students:read''"
| "cap_value STUDENTS_READ_CONTACT = ''students:read_contact''"
| "cap_value ATTENDANCE_READ = ''attendance:read''"
| "cap_value FEES_READ = ''fees:read''"
| "cap_value FACULTY_READ = ''faculty:read''"
| "cap_value EXAMS_READ = ''exams:read''"
| "cap_value DOCUMENTS_READ = ''documents:read''"
| "cap_value DOCUMENTS_MANAGE = ''documents:manage''"
| "cap_value REPORTS_GENERATE = ''reports:generate''"
| "cap_value ACTIONS_EMAIL = ''actions:email''"
| "cap_value ACTIONS_NOTIFY = ''actions:notify''"
| "cap_value RECORDS_WRITE = ''records:write''"
| "cap_value INTELLIGENCE_READ = ''intelligence:read''"
| "cap_value INTELLIGENCE_MANAGE = ''intelligence:manage''"
| "cap_value WEB_SEARCH = ''web:search''"

definition all_capabilities :: "capability list" where
  "all_capabilities = [ASK_READ_ONLY, START_VOICE_SESSION, VIEW_SOURCE_METADATA, RUN_BRIEFING,
     VIEW_BRIEFING_HISTORY, MANAGE_ACCESS, AGENT_COMMAND, DATA_INGEST, DATA_REVIEW,
     STUDENTS_READ, STUDENTS_READ_CONTACT, ATTENDANCE_READ, FEES_READ, FACULTY_READ,
     EXAMS_READ, DOCUMENTS_READ, DOCUMENTS_MANAGE, REPORTS_GENERATE, ACTIONS_EMAIL,
     ACTIONS_NOTIFY, RECORDS_WRITE, INTELLIGENCE_READ, INTELLIGENCE_MANAGE, WEB_SEARCH]"

text \<open>\<^verbatim>\<open>Capability._value2member_map_\<close>: the lookup by value.\<close>

definition cap_of_value :: "string \<Rightarrow> capability option" where
  "cap_of_value v = find (\<lambda>c. cap_value c = v) all_capabilities"

lemma cap_of_value_inverse [simp]: "cap_of_value (cap_value c) = Some c"
  by (cases c) (simp_all add: cap_of_value_def all_capabilities_def)

lemma cap_of_value_Some: "cap_of_value v = Some c \<Longrightarrow> cap_value c = v"
  unfolding cap_of_value_def by (drule find_Some_iff2) simp

lemma cap_value_inj [simp]: "cap_value c = cap_value d \<longleftrightarrow> c = d"
  by (metis cap_of_value_inverse option.inject)

lemma all_capabilities_UNIV: "set all_capabilities = UNIV"
proof -
  have "c \<in> set all_capabilities" for c
    by (cases c) (simp_all add: all_capabilities_def)
  then show ?thesis by auto
qed

lemma ptype_of_value [simp]: "ptype_of (ptype_value t) = Inr t"
  by (cases t) (simp_all add: ptype_of_def all_ptypes_def)

instantiation capability :: linorder
begin

definition less_eq_capability :: "capability \<Rightarrow> capability \<Rightarrow> bool" where
  "less_eq_capability c d = (cap_value c \<le> cap_value d)"

definition less_capability :: "capability \<Rightarrow> capability \<Rightarrow> bool" where
  "less_capability c d = (cap_value c < cap_value d)"

instance
proof
  fix c d e :: capability
  show "c < d \<longleftrightarrow> c \<le> d \<and> \<not> d \<le> c"
    unfolding less_eq_capability_def less_capability_def by (rule less_le_not_le)
  show "c \<le> c" by (simp add: less_eq_capability_def)
  show "c \<le> d \<Longrightarrow> d \<le> e \<Longrightarrow> c \<le> e"
    unfolding less_eq_capability_def by (rule order_trans)
  show "c \<le> d \<Longrightarrow> d \<le> c \<Longrightarrow> c = d"
    by (simp add: less_eq_capability_def)
  show "c \<le> d \<or> d \<le> c" unfolding less_eq_capability_def by (rule linear)
qed

end

subsection \<open>Institution scopes\<close>

record scope =
  college_id :: string
  department_id :: "string option"
  batch_id :: "string option"

definition scope_valid :: "scope \<Rightarrow> bool" where
  "scope_valid s = (\<not> blank (college_id s)
     \<and> (case department_id s of None \<Rightarrow> True | Some d \<Rightarrow> \<not> blank d)
     \<and> (case batch_id s of None \<Rightarrow> True | Some b \<Rightarrow> \<not> blank b))"

definition mk_scope :: "string \<Rightarrow> string option \<Rightarrow> string option \<Rightarrow> scope res" where
  "mk_scope c d b =
     (if blank c then Inl (ValueError ''college_id must not be blank'')
      else if d \<noteq> None \<and> blank (the d) then Inl (ValueError ''department_id must not be blank'')
      else if b \<noteq> None \<and> blank (the b) then Inl (ValueError ''batch_id must not be blank'')
      else Inr \<lparr>college_id = c, department_id = d, batch_id = b\<rparr>)"

text \<open>One level of the scope: the pair the loop of \<^verbatim>\<open>covers\<close> looks at.\<close>

definition level_covers :: "string option \<Rightarrow> string option \<Rightarrow> bool" where
  "level_covers granted requested = (case requested of
     None \<Rightarrow> granted = None
   | Some r \<Rightarrow> (case granted of None \<Rightarrow> True | Some g \<Rightarrow> g = r))"

definition covers :: "scope \<Rightarrow> scope \<Rightarrow> bool" where
  "covers s requested =
     (if college_id s \<noteq> college_id requested then False
      else level_covers (department_id s) (department_id requested)
         \<and> level_covers (batch_id s) (batch_id requested))"

definition scope_as_dict :: "scope \<Rightarrow> pyval dict" where
  "scope_as_dict s = [(''college_id'', PStr (college_id s)),
     (''department_id'', opt_str (department_id s)), (''batch_id'', opt_str (batch_id s))]"

lemma mk_scope_iff: "mk_scope c d b = Inr s \<longleftrightarrow>
  s = \<lparr>college_id = c, department_id = d, batch_id = b\<rparr> \<and> scope_valid s"
  by (auto simp: mk_scope_def scope_valid_def split: option.splits)

subsection \<open>Containment as an interface\<close>

text \<open>
  What a policy check relies on: granting is "some held scope contains the requested
  one", for a containment that is reflexive and transitive.
\<close>

locale scope_containment =
  fixes cov :: "'s \<Rightarrow> 's \<Rightarrow> bool"
  assumes cov_refl: "cov s s"
    and cov_trans: "cov a b \<Longrightarrow> cov b c \<Longrightarrow> cov a c"
begin

lemma granted_narrower: "(\<exists>g \<in> set gs. cov g r) \<Longrightarrow> cov r r' \<Longrightarrow> (\<exists>g \<in> set gs. cov g r')"
  by (blast intro: cov_trans)

lemma granted_held: "g \<in> set gs \<Longrightarrow> (\<exists>g' \<in> set gs. cov g' g)"
  by (blast intro: cov_refl)

lemma granted_mono: "(\<exists>g \<in> set gs. cov g r) \<Longrightarrow> (\<And>g. g \<in> set gs \<Longrightarrow> \<exists>h \<in> set hs. cov h g)
    \<Longrightarrow> (\<exists>h \<in> set hs. cov h r)"
  by (blast intro: cov_trans)

end

lemma covers_refl: "covers s s"
  by (auto simp: covers_def level_covers_def split: option.splits)

lemma covers_transitive: "covers a b \<Longrightarrow> covers b c \<Longrightarrow> covers a c"
  by (auto simp: covers_def level_covers_def split: option.splits if_splits)

lemma covers_antisym: "covers a b \<Longrightarrow> covers b a \<Longrightarrow> a = (b :: scope)"
  by (rule scope.equality) (auto simp: covers_def level_covers_def split: option.splits if_splits)

lemma covers_college: "covers a b \<Longrightarrow> college_id a = college_id b"
  by (auto simp: covers_def split: if_splits)

interpretation sc: scope_containment covers
  by unfold_locales (auto intro: covers_refl covers_transitive)

subsection \<open>Principals\<close>

record principal =
  principal_id :: string
  principal_type :: principal_type
  capabilities :: "capability set"
  scopes :: "scope list"
  authenticated :: bool
  consent_verified :: bool
  revoked :: bool

definition mk_principal :: "string \<Rightarrow> principal_type \<Rightarrow> capability set \<Rightarrow> scope list
    \<Rightarrow> bool \<Rightarrow> bool \<Rightarrow> bool \<Rightarrow> principal res" where
  "mk_principal pid pt caps scs auth consent rvk =
     (if blank pid then Inl (ValueError ''principal_id must not be blank'')
      else if pt = ANONYMOUS \<and> (auth \<or> caps \<noteq> {} \<or> scs \<noteq> [] \<or> consent \<or> rvk)
        then Inl (ValueError ''anonymous principals cannot carry authority'')
      else Inr \<lparr>principal_id = pid, principal_type = pt, capabilities = caps, scopes = scs,
                authenticated = auth, consent_verified = consent, revoked = rvk\<rparr>)"

definition active :: "principal \<Rightarrow> bool" where
  "active p = (authenticated p \<and> \<not> revoked p \<and> principal_type p \<noteq> ANONYMOUS)"

definition has_capability :: "principal \<Rightarrow> capability \<Rightarrow> bool" where
  "has_capability p c = (active p \<and> c \<in> capabilities p)"

definition can_access :: "principal \<Rightarrow> scope \<Rightarrow> bool" where
  "can_access p r = (active p \<and> (\<exists>s \<in> set (scopes p). covers s r))"

text \<open>What the constructors guarantee of a principal.\<close>

definition wf_principal :: "principal \<Rightarrow> bool" where
  "wf_principal p = (\<not> blank (principal_id p)
     \<and> (principal_type p = ANONYMOUS \<longrightarrow> \<not> authenticated p \<and> capabilities p = {} \<and> scopes p = []
          \<and> \<not> consent_verified p \<and> \<not> revoked p)
     \<and> list_all scope_valid (scopes p))"

lemma mk_principal_wf:
  "mk_principal pid pt caps scs auth consent rvk = Inr p \<Longrightarrow> list_all scope_valid scs \<Longrightarrow> wf_principal p"
  by (auto simp: mk_principal_def wf_principal_def split: if_splits)

lemma inactive_no_authority [simp]:
  "\<not> active p \<Longrightarrow> \<not> has_capability p c" "\<not> active p \<Longrightarrow> \<not> can_access p s"
  by (simp_all add: has_capability_def can_access_def)

subsection \<open>Snapshots\<close>

text \<open>
  \<^verbatim>\<open>str(x)\<close> of a value; \<open>rep\<close> is what \<^verbatim>\<open>repr\<close> prints for floats and containers.
\<close>

definition py_str :: "(pyval \<Rightarrow> string) \<Rightarrow> pyval \<Rightarrow> string" where
  "py_str rep v = (case v of PStr s \<Rightarrow> s | PInt i \<Rightarrow> int_str i
     | PBool b \<Rightarrow> (if b then ''True'' else ''False'') | PNone \<Rightarrow> ''None'' | _ \<Rightarrow> rep v)"

definition principal_snapshot :: "principal \<Rightarrow> pyval dict" where
  "principal_snapshot p = [
     (''principal_id'', PStr (principal_id p)),
     (''principal_type'', PStr (ptype_value (principal_type p))),
     (''capabilities'', PList (map (\<lambda>c. PStr (cap_value c)) (sorted_list_of_set (capabilities p)))),
     (''scopes'', PList (map (\<lambda>s. PDict (scope_as_dict s)) (scopes p))),
     (''consent_verified'', PBool (consent_verified p))]"

text \<open>Iterating a value: a list or tuple gives its elements, a dict its keys, a string its characters.\<close>

definition py_iter :: "pyval \<Rightarrow> pyval list res" where
  "py_iter v = (case v of PList xs \<Rightarrow> Inr xs | PTuple xs \<Rightarrow> Inr xs
     | PDict d \<Rightarrow> Inr (map (PStr \<circ> fst) d) | PStr s \<Rightarrow> Inr (map (\<lambda>c. PStr [c]) s)
     | _ \<Rightarrow> Inl (TypeError ''object is not iterable''))"

text \<open>Known capability values are kept, unknown hashable ones dropped, unhashable ones raise.\<close>

fun snapshot_caps :: "pyval list \<Rightarrow> capability set res" where
  "snapshot_caps [] = Inr {}"
| "snapshot_caps (v # vs) = (case v of
      PList _ \<Rightarrow> Inl (TypeError ''unhashable type'')
    | PDict _ \<Rightarrow> Inl (TypeError ''unhashable type'')
    | PStr s \<Rightarrow> bindE (snapshot_caps vs) (\<lambda>cs. Inr (case cap_of_value s of Some c \<Rightarrow> insert c cs | None \<Rightarrow> cs))
    | _ \<Rightarrow> snapshot_caps vs)"

definition opt_scope_text :: "pyval \<Rightarrow> string option res" where
  "opt_scope_text v = (case v of PNone \<Rightarrow> Inr None | PStr s \<Rightarrow> Inr (Some s)
     | _ \<Rightarrow> Inl (OtherError ''object has no attribute strip''))"

fun snapshot_scopes :: "(pyval \<Rightarrow> string) \<Rightarrow> pyval list \<Rightarrow> scope list res" where
  "snapshot_scopes rep [] = Inr []"
| "snapshot_scopes rep (v # vs) = (case as_dict_val v of
      None \<Rightarrow> snapshot_scopes rep vs
    | Some d \<Rightarrow>
        if truthy (get_or_none d ''college_id'') then
          if blank (py_str rep (get_or_none d ''college_id'')) then Inl (ValueError ''college_id must not be blank'') else
          bindE (opt_scope_text (get_or_none d ''department_id'')) (\<lambda>dep.
          bindE (opt_scope_text (get_or_none d ''batch_id'')) (\<lambda>bat.
          bindE (mk_scope (py_str rep (get_or_none d ''college_id'')) dep bat) (\<lambda>s.
          bindE (snapshot_scopes rep vs) (\<lambda>ss. Inr (s # ss)))))
        else snapshot_scopes rep vs)"

definition principal_from_snapshot :: "(pyval \<Rightarrow> string) \<Rightarrow> pyval dict \<Rightarrow> principal res" where
  "principal_from_snapshot rep d =
     bindE (py_iter (case dict_get d ''capabilities'' of None \<Rightarrow> PList [] | Some v \<Rightarrow> v)) (\<lambda>cs.
     bindE (snapshot_caps cs) (\<lambda>caps.
     bindE (py_iter (case dict_get d ''scopes'' of None \<Rightarrow> PList [] | Some v \<Rightarrow> v)) (\<lambda>ss.
     bindE (snapshot_scopes rep ss) (\<lambda>scs.
     case dict_get d ''principal_id'' of
       None \<Rightarrow> Inl (KeyError ''principal_id'')
     | Some pid \<Rightarrow>
         bindE (ptype_of (py_str rep (case dict_get d ''principal_type'' of None \<Rightarrow> PStr ''student'' | Some t \<Rightarrow> t))) (\<lambda>pt.
         mk_principal (py_str rep pid) pt caps scs True
           (truthy (case dict_get d ''consent_verified'' of None \<Rightarrow> PBool False | Some c \<Rightarrow> c)) False)))))"

lemma snapshot_caps_values: "snapshot_caps (map (\<lambda>c. PStr (cap_value c)) cs) = Inr (set cs)"
  by (induction cs) simp_all

lemma scope_dict_get [simp]:
  "get_or_none (scope_as_dict s) ''college_id'' = PStr (college_id s)"
  "get_or_none (scope_as_dict s) ''department_id'' = opt_str (department_id s)"
  "get_or_none (scope_as_dict s) ''batch_id'' = opt_str (batch_id s)"
  by (simp_all add: scope_as_dict_def get_or_none_def dict_get_def)

lemma opt_scope_text_opt_str [simp]: "opt_scope_text (opt_str x) = Inr x"
  by (cases x) (simp_all add: opt_scope_text_def)

lemma snapshot_scopes_dicts:
  "list_all scope_valid ss \<Longrightarrow> snapshot_scopes rep (map (\<lambda>s. PDict (scope_as_dict s)) ss) = Inr ss"
proof (induction ss)
  case Nil
  then show ?case by simp
next
  case (Cons s ss)
  then have v: "scope_valid s" and ih: "snapshot_scopes rep (map (\<lambda>s. PDict (scope_as_dict s)) ss) = Inr ss"
    by simp_all
  from v have "college_id s \<noteq> []" "\<not> blank (college_id s)" by (auto simp: scope_valid_def)
  moreover from v have "mk_scope (college_id s) (department_id s) (batch_id s) = Inr s"
    by (simp add: mk_scope_iff)
  ultimately show ?case using ih by (simp add: py_str_def)
qed

lemma finite_capabilities [simp]: "finite (A :: capability set)"
  by (rule finite_subset [of _ "set all_capabilities"]) (use all_capabilities_UNIV in blast, rule finite_set)

lemma snapshot_fields:
  "dict_get (principal_snapshot p) ''principal_id'' = Some (PStr (principal_id p))"
  "dict_get (principal_snapshot p) ''principal_type'' = Some (PStr (ptype_value (principal_type p)))"
  "dict_get (principal_snapshot p) ''capabilities'' = Some (PList (map (\<lambda>c. PStr (cap_value c)) (sorted_list_of_set (capabilities p))))"
  "dict_get (principal_snapshot p) ''scopes'' = Some (PList (map (\<lambda>s. PDict (scope_as_dict s)) (scopes p)))"
  "dict_get (principal_snapshot p) ''consent_verified'' = Some (PBool (consent_verified p))"
  by (simp_all add: principal_snapshot_def dict_get_def)

lemma from_snapshot_agrees:
  assumes "wf_principal p" and "active p"
    and d: "\<And>k. k \<noteq> ''session_scope'' \<Longrightarrow> dict_get d k = dict_get (principal_snapshot p) k"
  shows "principal_from_snapshot rep d = Inr p"
proof -
  from assms have a: "\<not> blank (principal_id p)" "principal_type p \<noteq> ANONYMOUS"
      "authenticated p" "\<not> revoked p" "list_all scope_valid (scopes p)"
    by (auto simp: wf_principal_def active_def)
  have caps: "snapshot_caps (map (\<lambda>c. PStr (cap_value c)) (sorted_list_of_set (capabilities p))) = Inr (capabilities p)"
    by (simp add: snapshot_caps_values)
  show ?thesis
    using a by (simp add: principal_from_snapshot_def d snapshot_fields py_iter_def caps
        snapshot_scopes_dicts py_str_def mk_principal_def)
qed

text \<open>A principal rebuilt from the snapshot that a job or a voice session kept of an active
  principal is that principal: no capability, scope or consent is lost or gained.\<close>

theorem principal_snapshot_roundtrip:
  assumes "wf_principal p" and "active p"
  shows "principal_from_snapshot rep (principal_snapshot p) = Inr p"
  using assms by (rule from_snapshot_agrees) simp

subsection \<open>Roles\<close>

definition student_caps :: "capability set" where
  "student_caps = {ASK_READ_ONLY, START_VOICE_SESSION, AGENT_COMMAND, DOCUMENTS_READ, WEB_SEARCH}"

definition faculty_caps :: "capability set" where
  "faculty_caps = student_caps \<union> {VIEW_SOURCE_METADATA, RUN_BRIEFING, VIEW_BRIEFING_HISTORY,
     STUDENTS_READ, ATTENDANCE_READ, EXAMS_READ, REPORTS_GENERATE, INTELLIGENCE_READ}"

definition staff_caps :: "capability set" where
  "staff_caps = student_caps \<union> {VIEW_SOURCE_METADATA, DATA_INGEST, DATA_REVIEW, STUDENTS_READ,
     FEES_READ, REPORTS_GENERATE, ACTIONS_NOTIFY}"

definition hod_caps :: "capability set" where
  "hod_caps = faculty_caps \<union> {STUDENTS_READ_CONTACT, FEES_READ, FACULTY_READ, ACTIONS_EMAIL, ACTIONS_NOTIFY}"

definition head_caps :: "capability set" where
  "head_caps = hod_caps \<union> staff_caps \<union> {DOCUMENTS_MANAGE, RECORDS_WRITE, INTELLIGENCE_MANAGE}"

fun capabilities_for_role :: "principal_type \<Rightarrow> capability set" where
  "capabilities_for_role ANONYMOUS = {}"
| "capabilities_for_role STUDENT = student_caps"
| "capabilities_for_role FACULTY = faculty_caps"
| "capabilities_for_role STAFF = staff_caps"
| "capabilities_for_role HOD = hod_caps"
| "capabilities_for_role PRINCIPAL = head_caps"
| "capabilities_for_role INSTITUTION_ADMIN = set all_capabilities"
| "capabilities_for_role MAIN_ADMIN = set all_capabilities"
| "capabilities_for_role PLATFORM_SUPER_ADMIN = set all_capabilities"
| "capabilities_for_role SYSTEM = set all_capabilities"

definition role_aliases :: "principal_type dict" where
  "role_aliases = [(''student'', STUDENT), (''faculty'', FACULTY), (''teacher'', FACULTY),
     (''staff'', STAFF), (''office_staff'', STAFF), (''hod'', HOD), (''head_of_department'', HOD),
     (''principal'', PRINCIPAL), (''institution_admin'', INSTITUTION_ADMIN), (''main_admin'', MAIN_ADMIN),
     (''admin'', MAIN_ADMIN), (''platform_super_admin'', PLATFORM_SUPER_ADMIN),
     (''super_admin'', PLATFORM_SUPER_ADMIN), (''system'', SYSTEM)]"

definition role_from_alias :: "pyval \<Rightarrow> principal_type \<Rightarrow> principal_type" where
  "role_from_alias v dflt = (case v of
     PStr s \<Rightarrow> (case dict_get role_aliases (py_lower (py_strip s)) of Some t \<Rightarrow> t | None \<Rightarrow> dflt)
   | _ \<Rightarrow> dflt)"

lemma role_chain:
  "student_caps \<subseteq> faculty_caps" "student_caps \<subseteq> staff_caps" "faculty_caps \<subseteq> hod_caps"
  "hod_caps \<subseteq> head_caps" "staff_caps \<subseteq> head_caps"
  by (auto simp: faculty_caps_def staff_caps_def hod_caps_def head_caps_def)

subsection \<open>The demo identity adapter\<close>

definition anonymous_principal :: principal where
  "anonymous_principal = \<lparr>principal_id = ''anonymous'', principal_type = ANONYMOUS, capabilities = {},
     scopes = [], authenticated = False, consent_verified = False, revoked = False\<rparr>"

text \<open>The explicit capability header: known values are added, unknown ones skipped.\<close>

fun explicit_caps :: "string list \<Rightarrow> capability set" where
  "explicit_caps [] = {}"
| "explicit_caps (r # rs) = (case cap_of_value (py_strip r) of
     Some c \<Rightarrow> insert c (explicit_caps rs) | None \<Rightarrow> explicit_caps rs)"

definition header :: "string dict \<Rightarrow> string \<Rightarrow> string \<Rightarrow> string" where
  "header hs k dflt = (case dict_get hs k of Some v \<Rightarrow> v | None \<Rightarrow> dflt)"

definition principal_from_demo_headers :: "string dict \<Rightarrow> string \<Rightarrow> principal res" where
  "principal_from_demo_headers hs dev_token =
     (if header hs ''authorization'' [] \<noteq> ''Bearer '' @ dev_token then Inr anonymous_principal
      else
        let demo_id = (if header hs ''x-demo-principal'' [] = [] then ''demo-user'' else header hs ''x-demo-principal'' []);
            role = role_from_alias (PStr (header hs ''x-demo-role'' ''student'')) STUDENT;
            explicit = header hs ''x-demo-capabilities'' [];
            caps = (if explicit = [] then capabilities_for_role role else explicit_caps (split_on CHR '','' explicit))
        in bindE (mk_scope (header hs ''x-demo-college'' ''college_a'') None None) (\<lambda>s.
             mk_principal demo_id role caps [s] True False False))"

lemma demo_wrong_token:
  "header hs ''authorization'' [] \<noteq> ''Bearer '' @ t \<Longrightarrow> principal_from_demo_headers hs t = Inr p \<Longrightarrow> \<not> active p"
  by (auto simp: principal_from_demo_headers_def anonymous_principal_def active_def)

text \<open>Consent and revocation never come from the headers.\<close>

lemma demo_no_consent:
  "principal_from_demo_headers hs t = Inr p \<Longrightarrow> \<not> consent_verified p \<and> \<not> revoked p"
  by (auto simp: principal_from_demo_headers_def anonymous_principal_def mk_principal_def bindE_eq_Inr Let_def
      split: if_splits)

lemma role_from_alias_not_anonymous: "dflt \<noteq> ANONYMOUS \<Longrightarrow> role_from_alias v dflt \<noteq> ANONYMOUS"
proof -
  have *: "dict_get role_aliases k \<noteq> Some ANONYMOUS" for k
  proof
    assume "dict_get role_aliases k = Some ANONYMOUS"
    then have "(k, ANONYMOUS) \<in> set role_aliases" unfolding dict_get_def by (rule map_of_SomeD)
    then show False by (simp add: role_aliases_def)
  qed
  assume "dflt \<noteq> ANONYMOUS"
  with * show ?thesis by (auto simp: role_from_alias_def split: pyval.splits option.splits)
qed


subsection \<open>Properties\<close>

lemma principal_snapshot_roundtrip_witness:
  "principal_from_snapshot (\<lambda>_. []) (principal_snapshot \<lparr>principal_id = ''u1'', principal_type = HOD,
     capabilities = hod_caps, scopes = [\<lparr>college_id = ''college_a'', department_id = Some ''cse'', batch_id = None\<rparr>],
     authenticated = True, consent_verified = False, revoked = False\<rparr>)
   = Inr \<lparr>principal_id = ''u1'', principal_type = HOD,
     capabilities = hod_caps, scopes = [\<lparr>college_id = ''college_a'', department_id = Some ''cse'', batch_id = None\<rparr>],
     authenticated = True, consent_verified = False, revoked = False\<rparr>"
  by (rule principal_snapshot_roundtrip)
     (simp_all add: wf_principal_def active_def scope_valid_def blank_def py_strip_def py_space_def)

text \<open>Access is monotone in the scope: whoever may access a scope may access every scope it
  contains, and nobody without an active identity may access any.\<close>

theorem access_narrows:
  assumes "can_access p r" and "covers r r'"
  shows "can_access p r' \<and> active p"
  using assms sc.granted_narrower [of "scopes p" r r'] by (simp add: can_access_def)

lemma access_narrows_witness:
  "can_access \<lparr>principal_id = ''u1'', principal_type = STUDENT, capabilities = {},
     scopes = [\<lparr>college_id = ''c'', department_id = None, batch_id = None\<rparr>],
     authenticated = True, consent_verified = False, revoked = False\<rparr>
     \<lparr>college_id = ''c'', department_id = Some ''d'', batch_id = Some ''b''\<rparr>
   \<and> active \<lparr>principal_id = ''u1'', principal_type = STUDENT, capabilities = {},
     scopes = [\<lparr>college_id = ''c'', department_id = None, batch_id = None\<rparr>],
     authenticated = True, consent_verified = False, revoked = False\<rparr>"
  by (rule access_narrows [of _ "\<lparr>college_id = ''c'', department_id = Some ''d'', batch_id = None\<rparr>"])
     (simp_all add: can_access_def active_def covers_def level_covers_def)

text \<open>The demo adapter never grants more than its headers name: with a wrong bearer token the
  caller is anonymous, and otherwise consent and revocation stay unset, the one scope is the
  named college, and the capabilities are those of the role or of the explicit header.\<close>

theorem demo_headers_grant:
  assumes "principal_from_demo_headers hs t = Inr p"
  shows "if header hs ''authorization'' [] = ''Bearer '' @ t
    then \<not> consent_verified p \<and> \<not> revoked p
      \<and> (\<forall>s. can_access p s \<longrightarrow> college_id s = header hs ''x-demo-college'' ''college_a'')
      \<and> capabilities p = (if header hs ''x-demo-capabilities'' [] = []
          then capabilities_for_role (role_from_alias (PStr (header hs ''x-demo-role'' ''student'')) STUDENT)
          else explicit_caps (split_on CHR '','' (header hs ''x-demo-capabilities'' [])))
    else p = anonymous_principal \<and> (\<forall>c. \<not> has_capability p c) \<and> (\<forall>s. \<not> can_access p s)"
proof (cases "header hs ''authorization'' [] = ''Bearer '' @ t")
  case True
  with assms obtain s where "mk_scope (header hs ''x-demo-college'' ''college_a'') None None = Inr s"
      and p: "scopes p = [s]" "\<not> consent_verified p" "\<not> revoked p"
        "capabilities p = (if header hs ''x-demo-capabilities'' [] = []
          then capabilities_for_role (role_from_alias (PStr (header hs ''x-demo-role'' ''student'')) STUDENT)
          else explicit_caps (split_on CHR '','' (header hs ''x-demo-capabilities'' [])))"
    unfolding principal_from_demo_headers_def Let_def bindE_eq_Inr mk_principal_def
    by (auto simp: bindE_eq_Inr split: if_splits)
  then have "college_id s = header hs ''x-demo-college'' ''college_a''" by (simp add: mk_scope_iff)
  with p True show ?thesis by (auto simp: can_access_def dest: covers_college)
next
  case False
  with assms have p: "p = anonymous_principal" by (simp add: principal_from_demo_headers_def)
  have "\<not> active anonymous_principal" by (simp add: active_def anonymous_principal_def)
  with False p show ?thesis by simp
qed

lemma demo_headers_grant_witness:
  "\<exists>p. principal_from_demo_headers [(''authorization'', ''Bearer t'')] ''t'' = Inr p
    \<and> capabilities p = student_caps"
proof -
  obtain p where p: "principal_from_demo_headers [(''authorization'', ''Bearer t'')] ''t'' = Inr p"
    by (simp add: principal_from_demo_headers_def header_def dict_get_def Let_def mk_scope_def
        mk_principal_def blank_def py_strip_def py_space_def role_from_alias_def role_aliases_def
        py_lower_def lower_char_def)
  from demo_headers_grant [OF this] have "capabilities p = student_caps"
    by (simp add: header_def dict_get_def role_from_alias_def role_aliases_def py_strip_def py_space_def
        py_lower_def lower_char_def)
  with p show ?thesis by blast
qed

end
