(* ===== verification/Contracts.thy ===== *)
theory Contracts
  imports Principals
begin

text \<open>
  The validated value objects of \<^verbatim>\<open>app/domain/\<close>: errors, provenance, requests, responses,
  results, audit events, briefings and source health. Each dataclass is a record, and
  each \<^verbatim>\<open>__post_init__\<close> is a constructor \<open>mk_...\<close> that returns the normalised object or the
  error it raises, its checks in the order of the code. An enumeration argument is the
  text of the member, since a \<^verbatim>\<open>StrEnum\<close> member is the string of its value.
\<close>

subsection \<open>Shared checks\<close>

definition by_value :: "('a \<Rightarrow> string) \<Rightarrow> 'a list \<Rightarrow> string \<Rightarrow> 'a res" where
  "by_value val members v = (case find (\<lambda>m. val m = v) members of
     Some m \<Rightarrow> Inr m | None \<Rightarrow> Inl (ValueError (v @ '' is not a valid member'')))"

lemma by_value_Inr: "by_value val members v = Inr m \<Longrightarrow> val m = v \<and> m \<in> set members"
  by (auto simp: by_value_def find_Some_iff split: option.splits)

definition require_text :: "string \<Rightarrow> string \<Rightarrow> string res" where
  "require_text field_name v =
     (if blank v then Inl (ValueError (field_name @ '' must not be blank'')) else Inr (py_strip v))"

lemma require_text_Inr [py_simps]: "require_text f v = Inr t \<longleftrightarrow> \<not> blank v \<and> t = py_strip v"
  by (auto simp: require_text_def)

lemma require_text_result: "require_text f v = Inr t \<Longrightarrow> \<not> blank t \<and> py_strip t = t"
  by (auto simp: require_text_Inr)

text \<open>A datetime is aware (an instant) or naive (no offset).\<close>

datatype py_datetime = Aware int | Naive int

fun require_aware :: "string \<Rightarrow> py_datetime \<Rightarrow> int res" where
  "require_aware f (Aware t) = Inr t"
| "require_aware f (Naive t) = Inl (ValueError (f @ '' must be timezone-aware''))"

lemma require_aware_Inr [py_simps]: "require_aware f d = Inr t \<longleftrightarrow> d = Aware t"
  by (cases d) auto


definition opt_text :: "string \<Rightarrow> string option \<Rightarrow> string option res" where
  "opt_text f v = (case v of None \<Rightarrow> Inr None | Some s \<Rightarrow> bindE (require_text f s) (Inr \<circ> Some))"

lemma opt_text_Inr [py_simps]: "opt_text f v = Inr t \<longleftrightarrow>
    (v = None \<and> t = None) \<or> (\<exists>s. v = Some s \<and> \<not> blank s \<and> t = Some (py_strip s))"
  by (auto simp: opt_text_def bindE_eq_Inr require_text_Inr split: option.splits)

lemma texts_ok: "mapE (require_text f) xs = Inr ts \<Longrightarrow> t \<in> set ts \<Longrightarrow> \<not> blank t \<and> py_strip t = t"
  using mapE_set require_text_result by fast

subsection \<open>Errors: \<^verbatim>\<open>domain/errors.py\<close>\<close>

datatype error_code =
    INVALID_REQUEST | AUTHENTICATION_REQUIRED | AUTHENTICATION_INVALID | AUTHORIZATION_DENIED
  | SOURCE_NOT_ALLOWED | TOOL_NOT_ALLOWED | SOURCE_UNAVAILABLE | SOURCE_TIMEOUT | RATE_LIMITED
  | PAYLOAD_TOO_LARGE | NOT_FOUND | INTERNAL_ERROR | SERVICE_UNAVAILABLE

fun error_code_value :: "error_code \<Rightarrow> string" where
  "error_code_value INVALID_REQUEST = ''invalid_request''"
| "error_code_value AUTHENTICATION_REQUIRED = ''authentication_required''"
| "error_code_value AUTHENTICATION_INVALID = ''authentication_invalid''"
| "error_code_value AUTHORIZATION_DENIED = ''authorization_denied''"
| "error_code_value SOURCE_NOT_ALLOWED = ''source_not_allowed''"
| "error_code_value TOOL_NOT_ALLOWED = ''tool_not_allowed''"
| "error_code_value SOURCE_UNAVAILABLE = ''source_unavailable''"
| "error_code_value SOURCE_TIMEOUT = ''source_timeout''"
| "error_code_value RATE_LIMITED = ''rate_limited''"
| "error_code_value PAYLOAD_TOO_LARGE = ''payload_too_large''"
| "error_code_value NOT_FOUND = ''not_found''"
| "error_code_value INTERNAL_ERROR = ''internal_error''"
| "error_code_value SERVICE_UNAVAILABLE = ''service_unavailable''"

record public_error =
  pe_code :: error_code
  pe_message :: string
  pe_request_id :: string
  pe_retry_after_seconds :: "int option"

subsection \<open>Provenance: \<^verbatim>\<open>domain/provenance.py\<close>\<close>

datatype source_kind = INTERNAL_DATABASE | INTERNAL_API | PUBLIC_WEB | CONTROL_PLANE

fun source_kind_value :: "source_kind \<Rightarrow> string" where
  "source_kind_value INTERNAL_DATABASE = ''internal_database''"
| "source_kind_value INTERNAL_API = ''internal_api''"
| "source_kind_value PUBLIC_WEB = ''public_web''"
| "source_kind_value CONTROL_PLANE = ''control_plane''"

definition source_kind_of :: "string \<Rightarrow> source_kind res" where
  "source_kind_of = by_value source_kind_value [INTERNAL_DATABASE, INTERNAL_API, PUBLIC_WEB, CONTROL_PLANE]"

record data_period =
  started_at :: int
  ended_at :: int

definition mk_data_period :: "py_datetime \<Rightarrow> py_datetime \<Rightarrow> data_period res" where
  "mk_data_period s e =
     bindE (require_aware ''started_at'' s) (\<lambda>sa.
     bindE (require_aware ''ended_at'' e) (\<lambda>ea.
     if ea < sa then Inl (ValueError ''ended_at must not precede started_at'')
     else Inr \<lparr>started_at = sa, ended_at = ea\<rparr>))"

record provenance =
  prov_source_id :: string
  prov_source_type :: source_kind
  prov_retrieved_at :: int
  prov_complete :: bool
  prov_rows_used :: int
  prov_data_period :: "data_period option"
  prov_redactions :: "string list"

definition mk_provenance :: "string \<Rightarrow> string \<Rightarrow> py_datetime \<Rightarrow> bool \<Rightarrow> int \<Rightarrow> data_period option
    \<Rightarrow> string list \<Rightarrow> provenance res" where
  "mk_provenance sid kind tm cmpl rows period reds =
     bindE (require_text ''source_id'' sid) (\<lambda>sid'.
     bindE (source_kind_of kind) (\<lambda>k.
     bindE (require_aware ''retrieved_at'' tm) (\<lambda>t.
     if rows < 0 then Inl (ValueError ''rows_used must not be negative'') else
     bindE (mapE (require_text ''redaction'') reds) (\<lambda>rs.
     Inr \<lparr>prov_source_id = sid', prov_source_type = k, prov_retrieved_at = t, prov_complete = cmpl,
          prov_rows_used = rows, prov_data_period = period, prov_redactions = rs\<rparr>))))"

record warning =
  warn_code :: string
  warn_message :: string
  warn_source_id :: "string option"

definition mk_warning :: "string \<Rightarrow> string \<Rightarrow> string option \<Rightarrow> warning res" where
  "mk_warning c m s =
     bindE (require_text ''code'' c) (\<lambda>c'.
     bindE (require_text ''message'' m) (\<lambda>m'.
     bindE (opt_text ''source_id'' s) (\<lambda>s'.
     Inr \<lparr>warn_code = c', warn_message = m', warn_source_id = s'\<rparr>)))"

definition wf_provenance :: "provenance \<Rightarrow> bool" where
  "wf_provenance p = (\<not> blank (prov_source_id p) \<and> 0 \<le> prov_rows_used p
     \<and> list_all (\<lambda>r. \<not> blank r) (prov_redactions p))"

lemma mk_provenance_wf [inv_intros]: "mk_provenance sid kind tm cmpl rows period reds = Inr p \<Longrightarrow> wf_provenance p"
  using texts_ok [of "''redaction''" reds]
  by (auto simp: mk_provenance_def wf_provenance_def bindE_eq_Inr require_text_Inr list_all_iff split: if_splits)

subsection \<open>Requests: \<^verbatim>\<open>domain/requests.py\<close>\<close>

definition MAX_PROMPT_CHARS :: nat where "MAX_PROMPT_CHARS = 12000"
definition MAX_SOURCE_IDS :: nat where "MAX_SOURCE_IDS = 20"

datatype channel = TEXT | VOICE

fun channel_value :: "channel \<Rightarrow> string" where
  "channel_value TEXT = ''text''"
| "channel_value VOICE = ''voice''"

definition channel_of :: "string \<Rightarrow> channel res" where
  "channel_of = by_value channel_value [TEXT, VOICE]"

record chat_request =
  cr_request_id :: string
  cr_principal_id :: string
  cr_prompt :: string
  cr_scope :: scope
  cr_source_ids :: "string list"
  cr_conversation_id :: "string option"
  cr_channel :: channel

definition mk_chat_request :: "string \<Rightarrow> string \<Rightarrow> string \<Rightarrow> scope \<Rightarrow> string list \<Rightarrow> string option
    \<Rightarrow> string \<Rightarrow> chat_request res" where
  "mk_chat_request rid pid prompt sc sids conv chan =
     bindE (require_text ''request_id'' rid) (\<lambda>rid'.
     bindE (require_text ''principal_id'' pid) (\<lambda>pid'.
     bindE (require_text ''prompt'' prompt) (\<lambda>pr.
     if MAX_PROMPT_CHARS < length pr then Inl (ValueError ''prompt exceeds 12000 characters'') else
     bindE (opt_text ''conversation_id'' conv) (\<lambda>conv'.
     bindE (channel_of chan) (\<lambda>ch.
     bindE (mapE (require_text ''source_id'') sids) (\<lambda>ids.
     if MAX_SOURCE_IDS < length ids then Inl (ValueError ''source_ids exceeds 20 entries'')
     else if card (set ids) \<noteq> length ids then Inl (ValueError ''source_ids must be unique'')
     else Inr \<lparr>cr_request_id = rid', cr_principal_id = pid', cr_prompt = pr, cr_scope = sc,
               cr_source_ids = ids, cr_conversation_id = conv', cr_channel = ch\<rparr>))))))"

text \<open>What every later component may assume of a request.\<close>

definition wf_chat_request :: "chat_request \<Rightarrow> bool" where
  "wf_chat_request r = (\<not> blank (cr_request_id r) \<and> \<not> blank (cr_principal_id r) \<and> \<not> blank (cr_prompt r)
     \<and> length (cr_prompt r) \<le> MAX_PROMPT_CHARS \<and> length (cr_source_ids r) \<le> MAX_SOURCE_IDS
     \<and> distinct (cr_source_ids r) \<and> list_all (\<lambda>s. \<not> blank s) (cr_source_ids r))"

lemma mk_chat_request_wf [inv_intros]:
  "mk_chat_request rid pid prompt sc sids conv chan = Inr r \<Longrightarrow> wf_chat_request r"
  using texts_ok [of "''source_id''" sids]
  by (auto simp: mk_chat_request_def wf_chat_request_def bindE_eq_Inr require_text_Inr list_all_iff
      card_distinct split: if_splits)

lemma mk_chat_request_scope:
  "mk_chat_request rid pid prompt sc sids conv chan = Inr r \<Longrightarrow> cr_scope r = sc"
  by (auto simp: mk_chat_request_def bindE_eq_Inr split: if_splits)

subsection \<open>Responses: \<^verbatim>\<open>domain/responses.py\<close>\<close>

datatype response_status = R_COMPLETE | R_PARTIAL | R_REFUSED

fun response_status_value :: "response_status \<Rightarrow> string" where
  "response_status_value R_COMPLETE = ''complete''"
| "response_status_value R_PARTIAL = ''partial''"
| "response_status_value R_REFUSED = ''refused''"

definition response_status_of :: "string \<Rightarrow> response_status res" where
  "response_status_of = by_value response_status_value [R_COMPLETE, R_PARTIAL, R_REFUSED]"

record citation =
  cit_source_id :: string
  cit_title :: string
  cit_locator :: string

definition mk_citation :: "string \<Rightarrow> string \<Rightarrow> string \<Rightarrow> citation res" where
  "mk_citation s t l =
     bindE (require_text ''source_id'' s) (\<lambda>s'.
     bindE (require_text ''title'' t) (\<lambda>t'.
     bindE (require_text ''locator'' l) (\<lambda>l'.
     Inr \<lparr>cit_source_id = s', cit_title = t', cit_locator = l'\<rparr>)))"

record answer_response =
  ar_request_id :: string
  ar_status :: response_status
  ar_answer :: string
  ar_citations :: "citation list"
  ar_refusal_reason :: "string option"

definition mk_answer_response :: "string \<Rightarrow> string \<Rightarrow> string \<Rightarrow> citation list \<Rightarrow> string option
    \<Rightarrow> answer_response res" where
  "mk_answer_response rid status answer cits reason =
     bindE (require_text ''request_id'' rid) (\<lambda>rid'.
     bindE (response_status_of status) (\<lambda>st.
     if st \<noteq> R_REFUSED \<and> py_strip answer = []
       then Inl (ValueError ''answer must not be blank unless the response is refused'')
     else if 50 < length cits then Inl (ValueError ''a response cannot contain more than 50 citations'')
     else if st = R_REFUSED then
       (case reason of
          None \<Rightarrow> Inl (ValueError ''refusal_reason is required for refused responses'')
        | Some why \<Rightarrow> bindE (require_text ''refusal_reason'' why) (\<lambda>why'.
            Inr \<lparr>ar_request_id = rid', ar_status = st, ar_answer = py_strip answer,
                 ar_citations = cits, ar_refusal_reason = Some why'\<rparr>))
     else if reason \<noteq> None then Inl (ValueError ''refusal_reason is only valid for refused responses'')
     else Inr \<lparr>ar_request_id = rid', ar_status = st, ar_answer = py_strip answer,
               ar_citations = cits, ar_refusal_reason = None\<rparr>))"

definition answer_as_dict :: "answer_response \<Rightarrow> pyval dict" where
  "answer_as_dict r = [
     (''request_id'', PStr (ar_request_id r)),
     (''status'', PStr (response_status_value (ar_status r))),
     (''answer'', PStr (ar_answer r)),
     (''citations'', PList (map (\<lambda>c. PDict [(''source_id'', PStr (cit_source_id c)),
        (''title'', PStr (cit_title c)), (''locator'', PStr (cit_locator c))]) (ar_citations r))),
     (''refusal_reason'', opt_str (ar_refusal_reason r))]"

text \<open>An answer is refused exactly when it gives a reason; otherwise it says something.\<close>

definition wf_answer :: "answer_response \<Rightarrow> bool" where
  "wf_answer r = (\<not> blank (ar_request_id r) \<and> length (ar_citations r) \<le> 50
     \<and> (case ar_refusal_reason r of None \<Rightarrow> ar_status r \<noteq> R_REFUSED \<and> \<not> blank (ar_answer r)
        | Some why \<Rightarrow> ar_status r = R_REFUSED \<and> \<not> blank why))"

lemma mk_answer_wf [inv_intros]: "mk_answer_response rid st a cits why = Inr r \<Longrightarrow> wf_answer r"
  by (auto simp: mk_answer_response_def wf_answer_def bindE_eq_Inr require_text_Inr
      blank_def [of a] split: if_splits option.splits)

subsection \<open>Tool results: \<^verbatim>\<open>domain/results.py\<close>\<close>

datatype result_status =
    T_SUCCESS | T_PARTIAL | T_STALE | T_UNAUTHORIZED | T_UNAVAILABLE | T_TIMEOUT | T_INVALID_RESULT

fun result_status_value :: "result_status \<Rightarrow> string" where
  "result_status_value T_SUCCESS = ''success''"
| "result_status_value T_PARTIAL = ''partial''"
| "result_status_value T_STALE = ''stale''"
| "result_status_value T_UNAUTHORIZED = ''unauthorized''"
| "result_status_value T_UNAVAILABLE = ''unavailable''"
| "result_status_value T_TIMEOUT = ''timeout''"
| "result_status_value T_INVALID_RESULT = ''invalid_result''"

definition result_status_of :: "string \<Rightarrow> result_status res" where
  "result_status_of = by_value result_status_value
     [T_SUCCESS, T_PARTIAL, T_STALE, T_UNAUTHORIZED, T_UNAVAILABLE, T_TIMEOUT, T_INVALID_RESULT]"

record tool_result =
  tr_tool_name :: string
  tr_status :: result_status
  tr_data :: pyval
  tr_provenance :: "provenance list"
  tr_warnings :: "warning list"

definition mk_tool_result :: "string \<Rightarrow> string \<Rightarrow> pyval \<Rightarrow> provenance list \<Rightarrow> warning list \<Rightarrow> tool_result res" where
  "mk_tool_result name status v provs warns =
     (if blank name then Inl (ValueError ''tool_name must not be blank'')
      else bindE (result_status_of status) (\<lambda>st.
        Inr \<lparr>tr_tool_name = name, tr_status = st, tr_data = v, tr_provenance = provs, tr_warnings = warns\<rparr>))"

subsection \<open>Audit events: \<^verbatim>\<open>domain/audit.py\<close>\<close>

datatype audit_outcome = A_SUCCESS | A_PARTIAL | A_DENIED | A_FAILED

fun audit_outcome_value :: "audit_outcome \<Rightarrow> string" where
  "audit_outcome_value A_SUCCESS = ''success''"
| "audit_outcome_value A_PARTIAL = ''partial''"
| "audit_outcome_value A_DENIED = ''denied''"
| "audit_outcome_value A_FAILED = ''failed''"

definition audit_outcome_of :: "string \<Rightarrow> audit_outcome res" where
  "audit_outcome_of = by_value audit_outcome_value [A_SUCCESS, A_PARTIAL, A_DENIED, A_FAILED]"

record audit_event =
  ae_event_id :: string
  ae_event_type :: string
  ae_request_id :: string
  ae_occurred_at :: int
  ae_principal_id :: "string option"
  ae_endpoint :: "string option"
  ae_conversation_id :: "string option"
  ae_source_ids :: "string list"
  ae_tool_names :: "string list"
  ae_outcome :: audit_outcome
  ae_redactions :: "string list"
  ae_metadata :: "(string \<times> pyval) list"
  ae_duration_ms :: "int option"

fun is_scalar :: "pyval \<Rightarrow> bool" where
  "is_scalar (PStr s) = True"
| "is_scalar (PInt i) = True"
| "is_scalar (PBool b) = True"
| "is_scalar PNone = True"
| "is_scalar _ = False"

definition audit_meta_entry :: "string \<times> pyval \<Rightarrow> (string \<times> pyval) res" where
  "audit_meta_entry kv = (case kv of (k, v) \<Rightarrow>
     if blank k then Inl (ValueError ''decision metadata keys must not be blank'')
     else if \<not> is_scalar v then Inl (ValueError ''decision metadata values must be scalar'')
     else Inr (py_strip k, v))"

definition mk_audit_event :: "string \<Rightarrow> string \<Rightarrow> string \<Rightarrow> py_datetime \<Rightarrow> string option \<Rightarrow> string option
    \<Rightarrow> string option \<Rightarrow> string list \<Rightarrow> string list \<Rightarrow> string \<Rightarrow> string list
    \<Rightarrow> (string \<times> pyval) list \<Rightarrow> int option \<Rightarrow> audit_event res" where
  "mk_audit_event eid ety rid tm pid ep conv sids tools outcome reds meta dur =
     (if blank eid then Inl (ValueError ''event_id must not be blank'')
      else if blank ety then Inl (ValueError ''event_type must not be blank'')
      else if blank rid then Inl (ValueError ''request_id must not be blank'')
      else
        bindE (audit_outcome_of outcome) (\<lambda>oc.
        bindE (mapE audit_meta_entry meta) (\<lambda>ms.
        bindE (require_aware ''occurred_at'' tm) (\<lambda>t.
        if (case dur of None \<Rightarrow> False | Some d \<Rightarrow> d < 0)
          then Inl (ValueError ''duration_ms must not be negative'')
        else Inr \<lparr>ae_event_id = eid, ae_event_type = ety, ae_request_id = rid, ae_occurred_at = t,
             ae_principal_id = pid, ae_endpoint = ep, ae_conversation_id = conv, ae_source_ids = sids,
             ae_tool_names = tools, ae_outcome = oc, ae_redactions = reds, ae_metadata = ms,
             ae_duration_ms = dur\<rparr>))))"

text \<open>No audit event carries anything but scalars in its metadata.\<close>

lemma audit_meta_entry_ok: "audit_meta_entry kv = Inr kv' \<Longrightarrow> is_scalar (snd kv') \<and> \<not> blank (fst kv')"
  by (auto simp: audit_meta_entry_def split: if_splits prod.splits)

lemma mk_audit_event_meta:
  assumes "mk_audit_event eid ety rid tm pid ep conv sids tools oc reds meta dur = Inr ev"
  shows "mapE audit_meta_entry meta = Inr (ae_metadata ev)"
proof -
  from assms have "\<not> blank eid" "\<not> blank ety" "\<not> blank rid"
    unfolding mk_audit_event_def by (metis Inl_Inr_False)+
  with assms show ?thesis
    unfolding mk_audit_event_def
    by (cases "audit_outcome_of oc"; cases "mapE audit_meta_entry meta"; cases "require_aware ''occurred_at'' tm")
       (simp_all split: if_split_asm, auto)
qed

lemma mk_audit_event_scalar:
  "mk_audit_event eid ety rid tm pid ep conv sids tools oc reds meta dur = Inr ev
    \<Longrightarrow> kv \<in> set (ae_metadata ev) \<Longrightarrow> is_scalar (snd kv) \<and> \<not> blank (fst kv)"
  by (drule mk_audit_event_meta, drule (1) mapE_set) (blast dest: audit_meta_entry_ok)

subsection \<open>Briefings and source health: \<^verbatim>\<open>domain/briefing.py\<close>, \<^verbatim>\<open>domain/source_health.py\<close>\<close>

datatype briefing_type = DAILY_INSTITUTIONAL

fun briefing_type_value :: "briefing_type \<Rightarrow> string" where
  "briefing_type_value DAILY_INSTITUTIONAL = ''daily_institutional''"

datatype source_health_status = H_HEALTHY | H_DEGRADED | H_UNAVAILABLE | H_DISABLED | H_UNKNOWN
datatype freshness = F_CURRENT | F_STALE | F_UNKNOWN

fun health_value :: "source_health_status \<Rightarrow> string" where
  "health_value H_HEALTHY = ''healthy''"
| "health_value H_DEGRADED = ''degraded''"
| "health_value H_UNAVAILABLE = ''unavailable''"
| "health_value H_DISABLED = ''disabled''"
| "health_value H_UNKNOWN = ''unknown''"

fun freshness_value :: "freshness \<Rightarrow> string" where
  "freshness_value F_CURRENT = ''current''"
| "freshness_value F_STALE = ''stale''"
| "freshness_value F_UNKNOWN = ''unknown''"

definition health_of :: "string \<Rightarrow> source_health_status res" where
  "health_of = by_value health_value [H_HEALTHY, H_DEGRADED, H_UNAVAILABLE, H_DISABLED, H_UNKNOWN]"

definition freshness_of :: "string \<Rightarrow> freshness res" where
  "freshness_of = by_value freshness_value [F_CURRENT, F_STALE, F_UNKNOWN]"

text \<open>A calendar date is the number of days since the epoch.\<close>

record briefing_request =
  br_type :: briefing_type
  br_report_date :: int
  br_institution_ids :: "string list"
  br_include_web :: bool

definition mk_briefing_request :: "string \<Rightarrow> int \<Rightarrow> string list \<Rightarrow> bool \<Rightarrow> briefing_request res" where
  "mk_briefing_request bt d ids web =
     bindE (by_value briefing_type_value [DAILY_INSTITUTIONAL] bt) (\<lambda>t.
     Inr \<lparr>br_type = t, br_report_date = d,
          br_institution_ids = map py_strip (filter (\<lambda>i. py_strip i \<noteq> []) ids), br_include_web = web\<rparr>)"

record briefing_response =
  bs_briefing_id :: string
  bs_type :: briefing_type
  bs_report_date :: int
  bs_generated_at :: int
  bs_answer :: string
  bs_partial :: bool
  bs_citations :: "citation list"
  bs_warnings :: "warning list"
  bs_statuses :: "source_health_status list"

record source_health =
  sh_source_id :: string
  sh_institution_id :: string
  sh_status :: source_health_status
  sh_checked_at :: int
  sh_display_name :: string
  sh_connector_type :: string
  sh_last_success_at :: "int option"
  sh_latency_ms :: "int option"
  sh_freshness :: freshness
  sh_detail :: string

definition mk_source_health :: "string \<Rightarrow> string \<Rightarrow> string \<Rightarrow> py_datetime \<Rightarrow> string \<Rightarrow> string
    \<Rightarrow> int option \<Rightarrow> int option \<Rightarrow> string \<Rightarrow> string \<Rightarrow> source_health res" where
  "mk_source_health sid iid status tm dn ct lst lat fr det =
     (if blank sid then Inl (ValueError ''source_id must not be blank'')
      else if blank iid then Inl (ValueError ''institution_id must not be blank'')
      else
        bindE (health_of status) (\<lambda>st.
        bindE (freshness_of fr) (\<lambda>f.
        bindE (require_aware ''checked_at'' tm) (\<lambda>t.
        if (case lat of None \<Rightarrow> False | Some d \<Rightarrow> d < 0)
          then Inl (ValueError ''latency_ms must not be negative'')
        else Inr \<lparr>sh_source_id = sid, sh_institution_id = iid, sh_status = st, sh_checked_at = t,
             sh_display_name = dn, sh_connector_type = ct, sh_last_success_at = lst,
             sh_latency_ms = lat, sh_freshness = f, sh_detail = det\<rparr>))))"

end
