(* ===== verification/Streaming.thy ===== *)
theory Streaming
  imports Contracts
begin

text \<open>
  The streaming event contract of \<^verbatim>\<open>domain/streaming.py\<close>: the event models with the field
  bounds they declare, and the \<^verbatim>\<open>StreamSequenceValidator\<close> as a function on its state. The
  main lemma characterises, without reference to the validator's flags, exactly the event
  lists it accepts.
\<close>

subsection \<open>Events\<close>

datatype end_status = E_COMPLETE | E_PARTIAL | E_REFUSED | E_FAILED | E_DEGRADED

datatype stream_body =
    MessageStart
  | CitationEvent "pyval dict"
  | WarningEvent "pyval dict"
  | Delta string
  | Answer "pyval dict"
  | MessageEnd end_status
  | ErrorEvent string string
  | DoneEvent

record stream_event =
  ev_request_id :: string
  ev_conversation_id :: "string option"
  ev_sequence :: int
  ev_body :: stream_body

fun ev_type :: "stream_body \<Rightarrow> string" where
  "ev_type MessageStart = ''message_start''"
| "ev_type (CitationEvent c) = ''citation''"
| "ev_type (WarningEvent w) = ''warning''"
| "ev_type (Delta t) = ''delta''"
| "ev_type (Answer a) = ''answer''"
| "ev_type (MessageEnd s) = ''message_end''"
| "ev_type (ErrorEvent c m) = ''error''"
| "ev_type DoneEvent = ''done''"

text \<open>The bounds declared on the fields of each model.\<close>

fun body_valid :: "stream_body \<Rightarrow> bool" where
  "body_valid (Delta t) = (length t \<le> 12000)"
| "body_valid (ErrorEvent c m) = (1 \<le> length c \<and> length c \<le> 128 \<and> 1 \<le> length m \<and> length m \<le> 1000)"
| "body_valid _ = True"

definition event_valid :: "stream_event \<Rightarrow> bool" where
  "event_valid e = (1 \<le> length (ev_request_id e) \<and> length (ev_request_id e) \<le> 128
     \<and> (case ev_conversation_id e of None \<Rightarrow> True | Some c \<Rightarrow> length c \<le> 128)
     \<and> 1 \<le> ev_sequence e \<and> body_valid (ev_body e))"

definition validate_event :: "stream_event \<Rightarrow> stream_event res" where
  "validate_event e = (if event_valid e then Inr e else Inl (ValueError ''validation error for StreamEvent''))"

subsection \<open>The sequence validator\<close>

record validator =
  last_sequence :: int
  started :: bool
  ended :: bool
  vdone :: bool

definition new_validator :: validator where
  "new_validator = \<lparr>last_sequence = 0, started = False, ended = False, vdone = False\<rparr>"

definition content_types :: "string set" where
  "content_types = {''citation'', ''warning'', ''delta'', ''answer''}"

text \<open>
  One call: the validator afterwards and the result. The flags are assigned in the order
  of the code, before the checks that follow them.
\<close>

definition accept :: "validator \<Rightarrow> stream_event \<Rightarrow> validator \<times> stream_event res" where
  "accept v event = (case validate_event event of Inl e \<Rightarrow> (v, Inl e) | Inr e \<Rightarrow>
     let ty = ev_type (ev_body e) in
     if vdone v then (v, Inl (ValueError ''events cannot be emitted after done''))
     else if ev_sequence e \<noteq> last_sequence v + 1
       then (v, Inl (ValueError ''stream sequence must be contiguous and monotonic''))
     else if \<not> started v \<and> ty \<noteq> ''message_start''
       then (v, Inl (ValueError ''message_start must be the first stream event''))
     else if ty = ''message_start'' \<and> started v
       then (v, Inl (ValueError ''message_start may only be emitted once''))
     else
       let v1 = (if ty = ''message_start'' then v\<lparr>started := True\<rparr> else v) in
       if ty = ''message_end'' \<and> ended v1
         then (v1, Inl (ValueError ''message_end may only be emitted once''))
       else
         let v2 = (if ty = ''message_end'' then v1\<lparr>ended := True\<rparr> else v1) in
         if ty = ''done'' \<and> \<not> ended v2 then (v2, Inl (ValueError ''done requires message_end''))
         else
           let v3 = (if ty = ''done'' then v2\<lparr>vdone := True\<rparr> else v2) in
           if ended v3 \<and> ty \<in> content_types
             then (v3, Inl (ValueError ''content events cannot follow message_end''))
           else (v3\<lparr>last_sequence := ev_sequence e\<rparr>, Inr e))"

text \<open>A caller that feeds a list and stops at the first error.\<close>

fun accept_all :: "validator \<Rightarrow> stream_event list \<Rightarrow> validator res" where
  "accept_all v [] = Inr v"
| "accept_all v (e # es) = (case accept v e of
     (v', Inl err) \<Rightarrow> Inl err | (v', Inr _) \<Rightarrow> accept_all v' es)"

abbreviation ety :: "stream_event \<Rightarrow> string" where
  "ety e \<equiv> ev_type (ev_body e)"

text \<open>A rejected event leaves the validator as it was: no flag is set by a failing call.\<close>

lemma accept_reject_unchanged: "accept v e = (v', Inl err) \<Longrightarrow> v' = v"
  by (auto simp: accept_def Let_def content_types_def split: sum.splits if_splits)

text \<open>The acceptance condition of one event.\<close>

definition acceptable :: "validator \<Rightarrow> stream_event \<Rightarrow> bool" where
  "acceptable v e = (event_valid e \<and> \<not> vdone v \<and> ev_sequence e = last_sequence v + 1
     \<and> (ety e = ''message_start'' \<longleftrightarrow> \<not> started v)
     \<and> (ended v \<longrightarrow> ety e \<notin> insert ''message_end'' content_types)
     \<and> (ety e = ''done'' \<longrightarrow> ended v))"

definition advance :: "validator \<Rightarrow> stream_event \<Rightarrow> validator" where
  "advance v e = \<lparr>last_sequence = ev_sequence e, started = (started v \<or> ety e = ''message_start''),
     ended = (ended v \<or> ety e = ''message_end''), vdone = (vdone v \<or> ety e = ''done'')\<rparr>"

lemma accept_Inr: "accept v e = (v', Inr e') \<longleftrightarrow> acceptable v e \<and> v' = advance v e \<and> e' = e"
  by (cases "ev_body e")
     (auto simp: accept_def Let_def acceptable_def advance_def validate_event_def content_types_def
      split: if_splits intro!: validator.equality)

lemma accept_all_snoc:
  "accept_all v (es @ [e]) = bindE (accept_all v es) (\<lambda>v'. case accept v' e of (v'', Inl err) \<Rightarrow> Inl err | (v'', Inr _) \<Rightarrow> Inr v'')"
  by (induction es arbitrary: v) (auto split: prod.splits sum.splits)

lemma accept_all_snoc_Inr:
  "accept_all v (es @ [e]) = Inr w \<longleftrightarrow> (\<exists>v'. accept_all v es = Inr v' \<and> acceptable v' e \<and> w = advance v' e)"
proof -
  have "(case accept v' e of (v'', Inl err) \<Rightarrow> Inl err | (v'', Inr _) \<Rightarrow> Inr v'') = Inr w
      \<longleftrightarrow> acceptable v' e \<and> w = advance v' e" for v'
  proof (cases "acceptable v' e")
    case True
    then have "accept v' e = (advance v' e, Inr e)" by (simp add: accept_Inr)
    with True show ?thesis by auto
  next
    case False
    then have "accept v' e \<noteq> (v'', Inr e')" for v'' e' by (simp add: accept_Inr)
    with False show ?thesis by (auto split: prod.splits sum.splits)
  qed
  then show ?thesis by (simp add: accept_all_snoc bindE_eq_Inr)
qed

subsection \<open>What the validator accepts\<close>

text \<open>The contract, over positions of the list.\<close>

definition well_formed_stream :: "stream_event list \<Rightarrow> bool" where
  "well_formed_stream es = (list_all event_valid es
     \<and> map ev_sequence es = map int [1..<Suc (length es)]
     \<and> (\<forall>i < length es. ety (es ! i) = ''message_start'' \<longleftrightarrow> i = 0)
     \<and> (\<forall>i < length es. ety (es ! i) = ''message_end'' \<longrightarrow>
          (\<forall>j < length es. i < j \<longrightarrow> ety (es ! j) \<notin> insert ''message_end'' content_types))
     \<and> (\<forall>i < length es. ety (es ! i) = ''done'' \<longrightarrow>
          Suc i = length es \<and> (\<exists>j < i. ety (es ! j) = ''message_end'')))"

definition summary :: "stream_event list \<Rightarrow> validator" where
  "summary es = \<lparr>last_sequence = int (length es), started = (es \<noteq> []),
     ended = (\<exists>e \<in> set es. ety e = ''message_end''), vdone = (\<exists>e \<in> set es. ety e = ''done'')\<rparr>"

lemma all_less_Suc: "(\<forall>i < Suc n. P i) \<longleftrightarrow> (\<forall>i < n. P i) \<and> P n"
  using less_Suc_eq by auto

lemma has_type_nth: "(\<exists>e \<in> set es. ety e = t) \<longleftrightarrow> (\<exists>i < length es. ety (es ! i) = t)"
  by (metis in_set_conv_nth)

lemma wf_stream_snoc:
  "well_formed_stream (es @ [e]) \<longleftrightarrow> well_formed_stream es \<and> acceptable (summary es) e"
proof -
  let ?n = "length es"
  have seq: "map ev_sequence (es @ [e]) = map int [1..<Suc (length (es @ [e]))]
      \<longleftrightarrow> map ev_sequence es = map int [1..<Suc ?n] \<and> ev_sequence e = int ?n + 1" by auto
  have start: "(\<forall>i < length (es @ [e]). ety ((es @ [e]) ! i) = ''message_start'' \<longleftrightarrow> i = 0)
      \<longleftrightarrow> (\<forall>i < ?n. ety (es ! i) = ''message_start'' \<longleftrightarrow> i = 0) \<and> (ety e = ''message_start'' \<longleftrightarrow> es = [])"
    by (simp add: all_less_Suc nth_append)
  have fin: "(\<forall>i < length (es @ [e]). ety ((es @ [e]) ! i) = ''message_end'' \<longrightarrow>
        (\<forall>j < length (es @ [e]). i < j \<longrightarrow> ety ((es @ [e]) ! j) \<notin> insert ''message_end'' content_types))
      \<longleftrightarrow> (\<forall>i < ?n. ety (es ! i) = ''message_end'' \<longrightarrow>
        (\<forall>j < ?n. i < j \<longrightarrow> ety (es ! j) \<notin> insert ''message_end'' content_types))
       \<and> ((\<exists>x \<in> set es. ety x = ''message_end'') \<longrightarrow> ety e \<notin> insert ''message_end'' content_types)"
    by (simp add: has_type_nth all_less_Suc nth_append) blast
  have fini: "(\<forall>i < length (es @ [e]). ety ((es @ [e]) ! i) = ''done'' \<longrightarrow>
        Suc i = length (es @ [e]) \<and> (\<exists>j < i. ety ((es @ [e]) ! j) = ''message_end''))
      \<longleftrightarrow> \<not> (\<exists>x \<in> set es. ety x = ''done'')
       \<and> (ety e = ''done'' \<longrightarrow> (\<exists>x \<in> set es. ety x = ''message_end''))"
    by (auto simp: has_type_nth all_less_Suc nth_append)
  have vac: "\<not> (\<exists>x \<in> set es. ety x = ''done'') \<Longrightarrow> \<forall>i < ?n. ety (es ! i) = ''done'' \<longrightarrow>
          Suc i = ?n \<and> (\<exists>j < i. ety (es ! j) = ''message_end'')"
    by (simp add: has_type_nth)
  show ?thesis
    unfolding well_formed_stream_def seq start fin fini acceptable_def summary_def
    using vac by auto
qed

text \<open>C34: The stream validator accepts exactly the well-formed streams: sequence numbers 1, 2, ...
  without gap, one message_start and it comes first, at most one message_end with no content
  after it, and done only last and only after message_end.\<close>

theorem accept_all_iff: "accept_all new_validator es = Inr v \<longleftrightarrow> well_formed_stream es \<and> v = summary es"
proof (induction es arbitrary: v rule: rev_induct)
  case Nil
  then show ?case by (auto simp: well_formed_stream_def summary_def new_validator_def)
next
  case (snoc e es)
  have "advance (summary es) e = summary (es @ [e])" if "acceptable (summary es) e"
    using that by (auto simp: advance_def summary_def acceptable_def)
  then show ?case by (auto simp: accept_all_snoc_Inr snoc.IH wf_stream_snoc)
qed

end
