(* ===== verification/Policy.thy ===== *)
theory Policy
  imports Contracts
begin

text \<open>
  Policy decisions: \<^verbatim>\<open>policy/authorization.py\<close>, the policy decision points of
  \<^verbatim>\<open>policy/pdp.py\<close> and \<^verbatim>\<open>policy/cerbos.py\<close>, \<^verbatim>\<open>policy/institution_scope.py\<close>,
  \<^verbatim>\<open>policy/data_classification.py\<close> and \<^verbatim>\<open>policy/query_limits.py\<close>. The locale
  \<open>policy_decision_point\<close> is the fail-closed contract the tool gateway and the
  orchestration rely on; it is interpreted on both decision points.
\<close>

subsection \<open>Authorization\<close>

datatype denial_reason =
    UNAUTHENTICATED | REVOKED | MISSING_CAPABILITY | OUT_OF_SCOPE
  | PARENTAL_CONSENT_REQUIRED | UNKNOWN_ACTION | PDP_UNAVAILABLE | STALE_POLICY

fun denial_value :: "denial_reason \<Rightarrow> string" where
  "denial_value UNAUTHENTICATED = ''unauthenticated''"
| "denial_value REVOKED = ''revoked''"
| "denial_value MISSING_CAPABILITY = ''missing_capability''"
| "denial_value OUT_OF_SCOPE = ''out_of_scope''"
| "denial_value PARENTAL_CONSENT_REQUIRED = ''parental_consent_required''"
| "denial_value UNKNOWN_ACTION = ''unknown_action''"
| "denial_value PDP_UNAVAILABLE = ''pdp_unavailable''"
| "denial_value STALE_POLICY = ''stale_policy''"

record authorization_decision =
  az_allowed :: bool
  az_reason :: "denial_reason option"

definition mk_authorization_decision :: "bool \<Rightarrow> denial_reason option \<Rightarrow> authorization_decision res" where
  "mk_authorization_decision a r =
     (if a \<and> r \<noteq> None then Inl (ValueError ''allowed decisions cannot contain a denial reason'')
      else if \<not> a \<and> r = None then Inl (ValueError ''denied decisions require a denial reason'')
      else Inr \<lparr>az_allowed = a, az_reason = r\<rparr>)"

definition allow :: authorization_decision where
  "allow = \<lparr>az_allowed = True, az_reason = None\<rparr>"

definition deny :: "denial_reason \<Rightarrow> authorization_decision" where
  "deny r = \<lparr>az_allowed = False, az_reason = Some r\<rparr>"

text \<open>The two class methods are instances of the checked constructor.\<close>

lemma allow_deny_checked:
  "mk_authorization_decision True None = Inr allow"
  "mk_authorization_decision False (Some r) = Inr (deny r)"
  by (simp_all add: mk_authorization_decision_def allow_def deny_def)

text \<open>A student needs verified consent for a batch-level scope.\<close>

definition consent_missing :: "principal \<Rightarrow> scope \<Rightarrow> bool" where
  "consent_missing p s = (principal_type p = STUDENT \<and> batch_id s \<noteq> None \<and> \<not> consent_verified p)"

definition authorize :: "principal \<Rightarrow> capability \<Rightarrow> scope \<Rightarrow> authorization_decision" where
  "authorize p c s =
     (if \<not> authenticated p \<or> principal_type p = ANONYMOUS then deny UNAUTHENTICATED
      else if revoked p then deny REVOKED
      else if \<not> has_capability p c then deny MISSING_CAPABILITY
      else if consent_missing p s then deny PARENTAL_CONSENT_REQUIRED
      else if \<not> can_access p s then deny OUT_OF_SCOPE
      else allow)"

lemma authorize_allowed: "az_allowed (authorize p c s) \<longleftrightarrow>
    has_capability p c \<and> can_access p s \<and> \<not> consent_missing p s"
  by (auto simp: authorize_def allow_def deny_def has_capability_def active_def)

lemma authorize_wf: "az_allowed (authorize p c s) \<longleftrightarrow> az_reason (authorize p c s) = None"
  by (simp add: authorize_def allow_def deny_def)

definition scope_denial :: "principal \<Rightarrow> scope \<Rightarrow> denial_reason option" where
  "scope_denial p s = (if \<not> active p then Some UNAUTHENTICATED
     else if \<not> can_access p s then Some OUT_OF_SCOPE else None)"

lemma scope_denial_None: "scope_denial p s = None \<longleftrightarrow> can_access p s"
  by (auto simp: scope_denial_def can_access_def)

subsection \<open>The policy decision point interface\<close>

record policy_decision =
  pd_allowed :: bool
  pd_action :: string
  pd_resource_type :: string
  pd_resource_id :: string
  pd_policy_version :: string
  pd_decision_id :: string
  pd_matched_scope :: "scope option"
  pd_reason :: "string option"

definition mk_policy_decision :: "bool \<Rightarrow> string \<Rightarrow> string \<Rightarrow> string \<Rightarrow> string \<Rightarrow> string
    \<Rightarrow> scope option \<Rightarrow> string option \<Rightarrow> policy_decision res" where
  "mk_policy_decision alw act rt ri pv did ms why =
     (if blank act then Inl (ValueError ''action must not be blank'')
      else if blank rt then Inl (ValueError ''resource_type must not be blank'')
      else if blank ri then Inl (ValueError ''resource_id must not be blank'')
      else if blank pv then Inl (ValueError ''policy_version must not be blank'')
      else if blank did then Inl (ValueError ''decision_id must not be blank'')
      else if alw \<and> why \<noteq> None then Inl (ValueError ''allowed policy decisions cannot contain a reason'')
      else if \<not> alw \<and> why = None then Inl (ValueError ''denied policy decisions require a reason'')
      else Inr \<lparr>pd_allowed = alw, pd_action = act, pd_resource_type = rt, pd_resource_id = ri,
                pd_policy_version = pv, pd_decision_id = did, pd_matched_scope = ms, pd_reason = why\<rparr>)"

lemma mk_policy_decision_Inr: "mk_policy_decision alw act rt ri pv did ms why = Inr d \<longleftrightarrow>
    \<not> blank act \<and> \<not> blank rt \<and> \<not> blank ri \<and> \<not> blank pv \<and> \<not> blank did \<and> (alw \<longleftrightarrow> why = None)
    \<and> d = \<lparr>pd_allowed = alw, pd_action = act, pd_resource_type = rt, pd_resource_id = ri,
           pd_policy_version = pv, pd_decision_id = did, pd_matched_scope = ms, pd_reason = why\<rparr>"
  by (auto simp: mk_policy_decision_def)

definition known_actions :: "string list" where
  "known_actions = [''list'', ''search'', ''retrieve'', ''mcp.tool.call'', ''execute'', ''write'', ''high_risk'']"

type_synonym evaluator =
  "principal \<Rightarrow> capability \<Rightarrow> string \<Rightarrow> string \<Rightarrow> string \<Rightarrow> scope \<Rightarrow> policy_decision res"

locale policy_decision_point =
  fixes evaluate :: evaluator
  assumes allow_sound: "evaluate p c act rt ri s = Inr d \<Longrightarrow> pd_allowed d \<Longrightarrow>
      has_capability p c \<and> act \<in> set known_actions \<and> \<not> consent_missing p s
      \<and> (\<exists>m. pd_matched_scope d = Some m \<and> covers m s)"
    and reasoned: "evaluate p c act rt ri s = Inr d \<Longrightarrow> pd_allowed d \<longleftrightarrow> pd_reason d = None"
begin

lemma no_allow_inactive: "\<not> active p \<Longrightarrow> evaluate p c act rt ri s = Inr d \<Longrightarrow> \<not> pd_allowed d"
  using allow_sound inactive_no_authority by blast

lemma no_allow_without_capability:
  "c \<notin> capabilities p \<Longrightarrow> evaluate p c act rt ri s = Inr d \<Longrightarrow> \<not> pd_allowed d"
  using allow_sound by (auto simp: has_capability_def)

lemma denied_has_reason:
  "evaluate p c act rt ri s = Inr d \<Longrightarrow> \<not> pd_allowed d \<Longrightarrow> \<exists>why. pd_reason d = Some why"
  using reasoned by auto

lemma matched_same_college:
  "evaluate p c act rt ri s = Inr d \<Longrightarrow> pd_allowed d \<Longrightarrow> pd_matched_scope d = Some m
    \<Longrightarrow> college_id m = college_id s"
  using allow_sound covers_college by fastforce

end

subsection \<open>The local decision point: \<^verbatim>\<open>policy/pdp.py\<close>\<close>

definition local_policy_version :: string where
  "local_policy_version = ''guru-local-v1''"

definition pdp_denied :: "string \<Rightarrow> string \<Rightarrow> string \<Rightarrow> string \<Rightarrow> string \<Rightarrow> string \<Rightarrow> scope option
    \<Rightarrow> policy_decision res" where
  "pdp_denied act rt ri pv did why ms = mk_policy_decision False act rt ri pv did ms (Some why)"

definition local_evaluate :: "string \<Rightarrow> evaluator" where
  "local_evaluate fresh p c act rt ri s =
     (let did = ''pdp-'' @ fresh;
          dn = (\<lambda>why. pdp_denied act rt ri local_policy_version did (denial_value why) None)
      in if act \<notin> set known_actions then dn UNKNOWN_ACTION
         else if \<not> authenticated p \<or> principal_type p = ANONYMOUS then dn UNAUTHENTICATED
         else if revoked p then dn REVOKED
         else if \<not> has_capability p c then dn MISSING_CAPABILITY
         else if consent_missing p s then dn PARENTAL_CONSENT_REQUIRED
         else (case find (\<lambda>g. covers g s) (scopes p) of
             None \<Rightarrow> dn OUT_OF_SCOPE
           | Some m \<Rightarrow> mk_policy_decision True act rt ri local_policy_version did (Some m) None))"

lemma local_evaluate_allowed:
  assumes "local_evaluate fresh p c act rt ri s = Inr d" and "pd_allowed d"
  shows "has_capability p c \<and> act \<in> set known_actions \<and> \<not> consent_missing p s
    \<and> (\<exists>m. pd_matched_scope d = Some m \<and> m \<in> set (scopes p) \<and> covers m s)"
  using assms
  by (auto simp: local_evaluate_def Let_def pdp_denied_def mk_policy_decision_Inr
      dest!: find_Some_iff2 split: if_splits option.splits)

interpretation local_pdp: policy_decision_point "local_evaluate fresh" for fresh
proof
  fix p c act rt ri s d
  assume e: "local_evaluate fresh p c act rt ri s = Inr d"
  then show "pd_allowed d \<longleftrightarrow> pd_reason d = None"
    by (auto simp: local_evaluate_def Let_def pdp_denied_def mk_policy_decision_Inr split: if_splits option.splits)
  show "pd_allowed d \<Longrightarrow> has_capability p c \<and> act \<in> set known_actions \<and> \<not> consent_missing p s
      \<and> (\<exists>m. pd_matched_scope d = Some m \<and> covers m s)"
    using local_evaluate_allowed [OF e] by blast
qed

lemma not_blank_append_dash: "\<not> blank (''pdp-'' @ x)"
proof -
  have "\<not> py_space (CHR ''p'')" by (simp add: py_space_def)
  then show ?thesis by (auto simp: blank_def py_strip_def dropWhile_append dropWhile_eq_Nil_conv)
qed

lemma known_action_not_blank: "act \<in> set known_actions \<Longrightarrow> \<not> blank act"
  by (auto simp: known_actions_def blank_def py_strip_def py_space_def)

lemma local_version_not_blank: "\<not> blank local_policy_version"
  by (simp add: local_policy_version_def blank_def py_strip_def py_space_def)

lemma local_total:
  "act \<in> set known_actions \<Longrightarrow> \<not> blank rt \<Longrightarrow> \<not> blank ri \<Longrightarrow> is_ok (local_evaluate fresh p c act rt ri s)"
proof -
  assume "act \<in> set known_actions" and nb: "\<not> blank rt" "\<not> blank ri"
  then have na: "\<not> blank act" by (simp add: known_action_not_blank)
  then have ok: "is_ok (mk_policy_decision False act rt ri local_policy_version (''pdp-'' @ fresh) ms (Some w))"
      "is_ok (mk_policy_decision True act rt ri local_policy_version (''pdp-'' @ fresh) ms None)" for ms w
    using nb local_version_not_blank not_blank_append_dash [of fresh] by (simp_all add: is_ok_iff mk_policy_decision_Inr)
  show ?thesis
    by (simp add: local_evaluate_def Let_def pdp_denied_def ok [simplified] split: option.splits)
qed

text \<open>For every known action the local decision point and the in-process authorize check
  agree: both allow, or both deny for the same reason, and the evaluation always returns.\<close>

theorem local_decides:
  assumes "act \<in> set known_actions" and "\<not> blank rt" and "\<not> blank ri"
  shows "\<exists>d. local_evaluate fresh p c act rt ri s = Inr d \<and> pd_allowed d = az_allowed (authorize p c s)
    \<and> pd_reason d = map_option denial_value (az_reason (authorize p c s))"
proof -
  note nb = known_action_not_blank [OF assms(1)] assms(2,3) local_version_not_blank not_blank_append_dash
  have mk: "mk_policy_decision b act rt ri local_policy_version (''pdp-'' @ fresh) ms why =
      Inr \<lparr>pd_allowed = b, pd_action = act, pd_resource_type = rt, pd_resource_id = ri,
           pd_policy_version = local_policy_version, pd_decision_id = ''pdp-'' @ fresh,
           pd_matched_scope = ms, pd_reason = why\<rparr>" if "b \<longleftrightarrow> why = None" for b ms why
    using that nb by (simp add: mk_policy_decision_Inr)
  have acc: "can_access p s \<longleftrightarrow> active p \<and> find (\<lambda>g. covers g s) (scopes p) \<noteq> None"
    by (auto simp: can_access_def find_None_iff)
  show ?thesis
  proof (cases "find (\<lambda>g. covers g s) (scopes p)")
    case None
    with assms(1) show ?thesis
      by (simp add: local_evaluate_def Let_def pdp_denied_def mk [simplified] authorize_def acc allow_def deny_def)
  next
    case (Some m)
    with assms(1) show ?thesis
      by (simp add: local_evaluate_def Let_def pdp_denied_def mk [simplified] authorize_def acc allow_def deny_def
          has_capability_def active_def)
  qed
qed

subsection \<open>Disclosure and limits\<close>

datatype classification = C_PUBLIC | C_INTERNAL | C_CONFIDENTIAL | C_RESTRICTED
datatype disclosure = D_AGGREGATE | D_ROW | D_IDENTIFIER

fun classification_value :: "classification \<Rightarrow> string" where
  "classification_value C_PUBLIC = ''public''"
| "classification_value C_INTERNAL = ''internal''"
| "classification_value C_CONFIDENTIAL = ''confidential''"
| "classification_value C_RESTRICTED = ''restricted''"

fun disclosure_value :: "disclosure \<Rightarrow> string" where
  "disclosure_value D_AGGREGATE = ''aggregate''"
| "disclosure_value D_ROW = ''row''"
| "disclosure_value D_IDENTIFIER = ''identifier''"

fun disclosure_allowed :: "classification \<Rightarrow> disclosure set" where
  "disclosure_allowed C_PUBLIC = {D_AGGREGATE, D_ROW, D_IDENTIFIER}"
| "disclosure_allowed C_INTERNAL = {D_AGGREGATE, D_ROW}"
| "disclosure_allowed C_CONFIDENTIAL = {D_AGGREGATE}"
| "disclosure_allowed C_RESTRICTED = {}"

definition can_disclose :: "string \<Rightarrow> string \<Rightarrow> bool res" where
  "can_disclose cl lv =
     bindE (by_value classification_value [C_PUBLIC, C_INTERNAL, C_CONFIDENTIAL, C_RESTRICTED] cl) (\<lambda>c.
     bindE (by_value disclosure_value [D_AGGREGATE, D_ROW, D_IDENTIFIER] lv) (\<lambda>l.
     Inr (l \<in> disclosure_allowed c)))"

record query_limits =
  max_duration_ms :: int
  max_rows :: int
  max_response_bytes :: int
  max_tool_calls :: int
  max_parallel_sources :: int

definition default_query_limits :: query_limits where
  "default_query_limits = \<lparr>max_duration_ms = 10000, max_rows = 500, max_response_bytes = 1000000,
     max_tool_calls = 8, max_parallel_sources = 5\<rparr>"

definition mk_query_limits :: "int \<Rightarrow> int \<Rightarrow> int \<Rightarrow> int \<Rightarrow> int \<Rightarrow> query_limits res" where
  "mk_query_limits d r b t p =
     (if d \<le> 0 then Inl (ValueError ''max_duration_ms must be positive'')
      else if r \<le> 0 then Inl (ValueError ''max_rows must be positive'')
      else if b \<le> 0 then Inl (ValueError ''max_response_bytes must be positive'')
      else if t \<le> 0 then Inl (ValueError ''max_tool_calls must be positive'')
      else if p \<le> 0 then Inl (ValueError ''max_parallel_sources must be positive'')
      else Inr \<lparr>max_duration_ms = d, max_rows = r, max_response_bytes = b,
                max_tool_calls = t, max_parallel_sources = p\<rparr>)"


definition sample_student :: principal where
  "sample_student = \<lparr>principal_id = ''u1'', principal_type = STUDENT, capabilities = student_caps,
     scopes = [\<lparr>college_id = ''c'', department_id = None, batch_id = None\<rparr>],
     authenticated = True, consent_verified = False, revoked = False\<rparr>"

lemma local_decides_witness:
  "\<exists>d. local_evaluate ''0'' sample_student WEB_SEARCH ''execute'' ''tool'' ''t''
       \<lparr>college_id = ''c'', department_id = None, batch_id = Some ''b''\<rparr> = Inr d
     \<and> \<not> pd_allowed d \<and> pd_reason d = Some ''parental_consent_required''"
proof -
  let ?s = "\<lparr>college_id = ''c'', department_id = None, batch_id = Some ''b''\<rparr>"
  have "authorize sample_student WEB_SEARCH ?s = deny PARENTAL_CONSENT_REQUIRED"
    by (simp add: authorize_def sample_student_def has_capability_def active_def student_caps_def consent_missing_def)
  then show ?thesis
    using local_decides [of "''execute''" "''tool''" "''t''" "''0''" sample_student WEB_SEARCH ?s]
    by (simp add: known_actions_def blank_def py_strip_def py_space_def deny_def)
qed

end
