(* ===== verification/Cerbos.thy ===== *)
theory Cerbos
  imports Policy
begin

text \<open>
  The HTTP policy decision point of \<^verbatim>\<open>policy/cerbos.py\<close>. The HTTP exchange is a parameter:
  it answers a request document with a decoded body, or with one of the exceptions the
  adapter catches. \<open>rep\<close> is \<^verbatim>\<open>repr\<close> of containers and floats; the three fresh arguments are
  the \<^verbatim>\<open>uuid4().hex\<close> texts of one call.
\<close>

subsection \<open>Building the request and reading the response\<close>

record cerbos =
  cb_policy_version :: string
  cb_require_fresh :: bool

datatype http_answer = HttpError | Body pyval

type_synonym http_post = "pyval dict \<Rightarrow> http_answer"

definition str_or_none :: "pyval \<Rightarrow> string option" where
  "str_or_none v = (case v of PStr s \<Rightarrow> Some s | _ \<Rightarrow> None)"

definition scope_from_payload :: "pyval \<Rightarrow> scope option" where
  "scope_from_payload v = (case v of
     PDict d \<Rightarrow> (case get_or_none d ''college_id'' of
        PStr c \<Rightarrow> (case mk_scope c (str_or_none (get_or_none d ''department_id'')) (str_or_none (get_or_none d ''batch_id'')) of
            Inr s \<Rightarrow> Some s | Inl _ \<Rightarrow> None)
      | _ \<Rightarrow> None)
   | _ \<Rightarrow> None)"

definition nonblank_text :: "pyval \<Rightarrow> string option" where
  "nonblank_text v = (case v of PStr s \<Rightarrow> (if blank s then None else Some (py_strip s)) | _ \<Rightarrow> None)"

definition decision_id :: "string \<Rightarrow> pyval dict \<Rightarrow> string" where
  "decision_id fresh payload =
     (case nonblank_text (py_or (py_or (get_or_none payload ''callId'') (get_or_none payload ''decisionId''))
         (get_or_none payload ''requestId'')) of
        Some s \<Rightarrow> s | None \<Rightarrow> ''pdp-'' @ fresh)"

definition cerbos_denied :: "cerbos \<Rightarrow> string \<Rightarrow> string \<Rightarrow> string \<Rightarrow> string \<Rightarrow> string \<Rightarrow> string \<Rightarrow> policy_decision res" where
  "cerbos_denied cb act rt ri why did pv =
     mk_policy_decision False act rt ri (if pv = [] then cb_policy_version cb else pv) did None (Some why)"

definition request_payload :: "string \<Rightarrow> principal \<Rightarrow> string \<Rightarrow> string \<Rightarrow> string \<Rightarrow> scope \<Rightarrow> capability option \<Rightarrow> pyval dict" where
  "request_payload fresh p act rt ri s c = [
     (''requestId'', PStr (''saffron-'' @ fresh)),
     (''principal'', PDict [
        (''id'', PStr (principal_id p)),
        (''roles'', PList [PStr (ptype_value (principal_type p))]),
        (''attr'', PDict [
           (''capabilities'', PList (map (\<lambda>k. PStr (cap_value k)) (sorted_list_of_set (capabilities p)))),
           (''institution_scopes'', PList (map (\<lambda>g. PDict (scope_as_dict g)) (scopes p))),
           (''consent_verified'', PBool (consent_verified p)),
           (''revoked'', PBool (revoked p))])]),
     (''resourceInstances'', PDict [(ri, PDict [
        (''resource'', PDict [(''id'', PStr ri), (''kind'', PStr rt),
           (''attr'', PDict ((''institution_scope'', PDict (scope_as_dict s)) #
              (case c of None \<Rightarrow> [] | Some k \<Rightarrow> [(''required_capability'', PStr (cap_value k))])))]),
        (''actions'', PList [PStr act])])])]"

definition extract_resource :: "pyval dict \<Rightarrow> string \<Rightarrow> pyval dict option" where
  "extract_resource payload ri = (case get_or_none payload ''resourceInstances'' of
     PDict insts \<Rightarrow> as_dict_val (get_or_none insts ri) | _ \<Rightarrow> None)"

text \<open>The effect, reason and matched scope read from the action results.\<close>

fun list_effect :: "pyval list \<Rightarrow> string \<Rightarrow> pyval \<times> string option \<times> scope option" where
  "list_effect [] act = (PNone, None, None)"
| "list_effect (item # items) act = (case item of
     PDict d \<Rightarrow> if get_or_none d ''action'' = PStr act then
         (py_or (get_or_none d ''effect'') (get_or_none d ''decision''),
          nonblank_text (get_or_none d ''reason''),
          scope_from_payload (py_or (get_or_none d ''matchedScope'') (get_or_none d ''matched_scope'')))
       else list_effect items act
   | _ \<Rightarrow> list_effect items act)"

definition read_effect :: "pyval dict \<Rightarrow> string \<Rightarrow> pyval \<times> string option \<times> scope option" where
  "read_effect resource act = (case get_or_none resource ''actions'' of
     PDict acts \<Rightarrow> (case get_or_none acts act of
        PDict d \<Rightarrow> (py_or (py_or (get_or_none d ''effect'') (get_or_none d ''decision'')) (get_or_none d ''outcome''),
                    nonblank_text (get_or_none d ''reason''),
                    scope_from_payload (py_or (get_or_none d ''matchedScope'') (get_or_none d ''matched_scope'')))
      | v \<Rightarrow> (v, None, None))
   | PList items \<Rightarrow> list_effect items act
   | _ \<Rightarrow> (PNone, None, None))"

definition dict_default :: "pyval dict \<Rightarrow> string \<Rightarrow> pyval \<Rightarrow> pyval" where
  "dict_default d k v = (case dict_get d k of None \<Rightarrow> v | Some x \<Rightarrow> x)"

definition parse_response :: "cerbos \<Rightarrow> (pyval \<Rightarrow> string) \<Rightarrow> string \<Rightarrow> pyval dict \<Rightarrow> principal
    \<Rightarrow> string \<Rightarrow> string \<Rightarrow> string \<Rightarrow> scope \<Rightarrow> policy_decision res" where
  "parse_response cb rep fresh payload p act rt ri s =
     (let did = decision_id fresh payload;
          raw = py_or (get_or_none payload ''policyVersion'') (get_or_none payload ''policy_version'');
          rv0 = (case raw of PStr v \<Rightarrow> py_strip v | _ \<Rightarrow> []);
          rv = (if rv0 = [] then cb_policy_version cb else rv0);
          status = py_lower (py_strip (py_str rep
             (dict_default payload ''policyStatus'' (dict_default payload ''status'' (PStr ''current'')))))
      in if rv0 = [] \<and> cb_require_fresh cb then cerbos_denied cb act rt ri (denial_value STALE_POLICY) did []
         else if rv \<noteq> cb_policy_version cb then cerbos_denied cb act rt ri (denial_value STALE_POLICY) did rv
         else if cb_require_fresh cb \<and> (status \<in> {''stale'', ''unknown'', ''unavailable''}
              \<or> get_or_none payload ''stale'' = PBool True)
           then cerbos_denied cb act rt ri (denial_value STALE_POLICY) did []
         else (case extract_resource payload ri of
             None \<Rightarrow> cerbos_denied cb act rt ri (denial_value PDP_UNAVAILABLE) did []
           | Some resource \<Rightarrow>
               (case read_effect resource act of (eff, why, ms) \<Rightarrow>
                  if ascii_upper (py_str rep eff) \<in> {''EFFECT_ALLOW'', ''ALLOW'', ''ALLOWED''} then
                    (let m = (case ms of None \<Rightarrow> s | Some x \<Rightarrow> x) in
                     if \<not> covers m s then cerbos_denied cb act rt ri (denial_value OUT_OF_SCOPE) did rv
                     else if consent_missing p s then cerbos_denied cb act rt ri (denial_value PARENTAL_CONSENT_REQUIRED) did rv
                     else mk_policy_decision True act rt ri rv did (Some m) None)
                  else cerbos_denied cb act rt ri (case why of None \<Rightarrow> ''pdp_denied'' | Some w \<Rightarrow> w) did rv)))"

text \<open>
  One evaluation. The exceptions raised while asking and parsing are caught and answered
  with a denial; every guard before the request denies without asking.
\<close>

definition cerbos_evaluate :: "cerbos \<Rightarrow> (pyval \<Rightarrow> string) \<Rightarrow> http_post \<Rightarrow> string \<Rightarrow> string \<Rightarrow> string \<Rightarrow> evaluator" where
  "cerbos_evaluate cb rep post f0 f1 f2 p c act rt ri s =
     (let did = ''pdp-'' @ f0; dn = (\<lambda>why. cerbos_denied cb act rt ri (denial_value why) did []) in
      if revoked p then dn REVOKED
      else if \<not> active p then dn UNAUTHENTICATED
      else if \<not> has_capability p c then dn MISSING_CAPABILITY
      else if act \<notin> set known_actions then dn UNKNOWN_ACTION
      else (case post (request_payload f2 p act rt ri s (Some c)) of
          HttpError \<Rightarrow> dn PDP_UNAVAILABLE
        | Body (PDict payload) \<Rightarrow> (case parse_response cb rep f1 payload p act rt ri s of
            Inr d \<Rightarrow> Inr d
          | Inl (ValueError m) \<Rightarrow> dn PDP_UNAVAILABLE
          | Inl (TypeError m) \<Rightarrow> dn PDP_UNAVAILABLE
          | Inl e \<Rightarrow> Inl e)
        | Body _ \<Rightarrow> dn PDP_UNAVAILABLE))"

subsection \<open>Fail closed\<close>

lemma cerbos_denied_not_allowed [simp]: "cerbos_denied cb act rt ri why did pv = Inr d
    \<Longrightarrow> \<not> pd_allowed d \<and> pd_reason d = Some why"
  by (auto simp: cerbos_denied_def mk_policy_decision_Inr)

lemma parse_response_allowed:
  assumes "parse_response cb rep fresh payload p act rt ri s = Inr d" and "pd_allowed d"
  shows "\<not> consent_missing p s \<and> (\<exists>m. pd_matched_scope d = Some m \<and> covers m s) \<and> pd_reason d = None
    \<and> pd_policy_version d = cb_policy_version cb
    \<and> (\<exists>resource. extract_resource payload ri = Some resource
        \<and> ascii_upper (py_str rep (fst (read_effect resource act))) \<in> {''EFFECT_ALLOW'', ''ALLOW'', ''ALLOWED''})"
  using assms
  by (auto simp: parse_response_def Let_def mk_policy_decision_Inr covers_refl
      dest!: cerbos_denied_not_allowed split: if_splits option.splits prod.splits)

lemma cerbos_evaluate_cases:
  assumes "cerbos_evaluate cb rep post f0 f1 f2 p c act rt ri s = Inr d"
  shows "(\<not> pd_allowed d \<and> (\<exists>why. pd_reason d = Some why))
    \<or> (has_capability p c \<and> act \<in> set known_actions \<and> (\<exists>payload.
        post (request_payload f2 p act rt ri s (Some c)) = Body (PDict payload)
        \<and> parse_response cb rep f1 payload p act rt ri s = Inr d))"
  using assms
  by (auto simp: cerbos_evaluate_def Let_def dest!: cerbos_denied_not_allowed
      split: if_splits http_answer.splits pyval.splits sum.splits pyerr.splits)

lemma parse_response_reasoned:
  "parse_response cb rep fresh payload p act rt ri s = Inr d \<Longrightarrow> pd_allowed d \<longleftrightarrow> pd_reason d = None"
  by (auto simp: parse_response_def Let_def mk_policy_decision_Inr
      dest!: cerbos_denied_not_allowed split: if_splits option.splits prod.splits)

interpretation cerbos_pdp: policy_decision_point "cerbos_evaluate cb rep post f0 f1 f2" for cb rep post f0 f1 f2
proof
  fix p c act rt ri s d
  assume e: "cerbos_evaluate cb rep post f0 f1 f2 p c act rt ri s = Inr d"
  show "pd_allowed d \<longleftrightarrow> pd_reason d = None"
    using cerbos_evaluate_cases [OF e] parse_response_reasoned by auto
  show "pd_allowed d \<Longrightarrow> has_capability p c \<and> act \<in> set known_actions \<and> \<not> consent_missing p s
      \<and> (\<exists>m. pd_matched_scope d = Some m \<and> covers m s)"
    using cerbos_evaluate_cases [OF e] parse_response_allowed by blast
qed

text \<open>An allow rests on an answer for exactly this resource, at the configured version.\<close>

lemma cerbos_allow_needs_answer:
  assumes "cerbos_evaluate cb rep post f0 f1 f2 p c act rt ri s = Inr d" and "pd_allowed d"
  shows "\<exists>payload resource. post (request_payload f2 p act rt ri s (Some c)) = Body (PDict payload)
    \<and> extract_resource payload ri = Some resource
    \<and> ascii_upper (py_str rep (fst (read_effect resource act))) \<in> {''EFFECT_ALLOW'', ''ALLOW'', ''ALLOWED''}
    \<and> pd_policy_version d = cb_policy_version cb"
  using cerbos_evaluate_cases [OF assms(1)] assms(2) parse_response_allowed by metis

text \<open>With a pinned version and freshness required, a stale or unversioned answer never allows.\<close>

lemma cerbos_fresh_only:
  assumes "cerbos_evaluate cb rep (\<lambda>_. Body (PDict payload)) f0 f1 f2 p c act rt ri s = Inr d" and "pd_allowed d"
    and "cb_require_fresh cb"
  shows "(\<exists>v. py_or (get_or_none payload ''policyVersion'') (get_or_none payload ''policy_version'') = PStr v
      \<and> py_strip v = cb_policy_version cb) \<and> get_or_none payload ''stale'' \<noteq> PBool True"
  using cerbos_evaluate_cases [OF assms(1)] assms(2,3)
  by (auto simp: parse_response_def Let_def dest!: cerbos_denied_not_allowed
      split: if_splits option.splits prod.splits pyval.splits)


subsection \<open>Properties\<close>


definition sample_config :: cerbos where
  "sample_config = \<lparr>cb_policy_version = ''v1'', cb_require_fresh = True\<rparr>"

definition sample_allow :: http_post where
  "sample_allow q = Body (PDict [(''policyVersion'', PStr ''v1''), (''resourceInstances'',
     PDict [(''t'', PDict [(''actions'', PDict [(''execute'', PStr ''EFFECT_ALLOW'')])])])])"

definition unscoped :: principal where
  "unscoped = \<lparr>principal_id = ''u1'', principal_type = FACULTY, capabilities = {WEB_SEARCH}, scopes = [],
     authenticated = True, consent_verified = False, revoked = False\<rparr>"

definition campus :: scope where
  "campus = \<lparr>college_id = ''c'', department_id = None, batch_id = None\<rparr>"

lemma sample_allowed:
  "\<exists>d. cerbos_evaluate sample_config (\<lambda>_. []) sample_allow ''0'' ''1'' ''2'' unscoped WEB_SEARCH
     ''execute'' ''tool'' ''t'' campus = Inr d \<and> pd_allowed d"
  by (simp add: cerbos_evaluate_def sample_config_def sample_allow_def unscoped_def campus_def Let_def
      active_def has_capability_def known_actions_def parse_response_def get_or_none_def dict_get_def py_or_def
      decision_id_def nonblank_text_def dict_default_def py_str_def py_strip_def py_space_def blank_def
      py_lower_def lower_char_def extract_resource_def read_effect_def ascii_upper_def upper_char_def
      covers_refl consent_missing_def mk_policy_decision_def)


text \<open>Unlike the local decision point, the adapter does not compare the requested scope with
  the scopes of the principal: there is a principal without any scope that an allow answer
  without a matched scope lets into a college, where the local decision point denies.\<close>

theorem cerbos_scope_not_checked:
  "\<exists>cb post p s d. scopes p = [] \<and> \<not> can_access p s
     \<and> cerbos_evaluate cb (\<lambda>_. []) post ''0'' ''1'' ''2'' p WEB_SEARCH ''execute'' ''tool'' ''t'' s = Inr d
     \<and> pd_allowed d \<and> pd_matched_scope d = Some s
     \<and> (\<exists>d'. local_evaluate ''0'' p WEB_SEARCH ''execute'' ''tool'' ''t'' s = Inr d' \<and> \<not> pd_allowed d'
          \<and> pd_reason d' = Some ''out_of_scope'')"
proof -
  let ?d = "\<lparr>pd_allowed = True, pd_action = ''execute'', pd_resource_type = ''tool'', pd_resource_id = ''t'',
     pd_policy_version = ''v1'', pd_decision_id = ''pdp-1'', pd_matched_scope = Some campus, pd_reason = None\<rparr>"
  have "cerbos_evaluate sample_config (\<lambda>_. []) sample_allow ''0'' ''1'' ''2'' unscoped WEB_SEARCH
     ''execute'' ''tool'' ''t'' campus = Inr ?d"
    by (simp add: cerbos_evaluate_def sample_config_def sample_allow_def unscoped_def campus_def Let_def
      active_def has_capability_def known_actions_def parse_response_def get_or_none_def dict_get_def py_or_def
      decision_id_def nonblank_text_def dict_default_def py_str_def py_strip_def py_space_def blank_def
      py_lower_def lower_char_def extract_resource_def read_effect_def ascii_upper_def upper_char_def
      covers_refl consent_missing_def mk_policy_decision_def)
  moreover have "\<not> can_access unscoped campus" "scopes unscoped = []"
    by (simp_all add: can_access_def unscoped_def)
  moreover have "\<exists>d'. local_evaluate ''0'' unscoped WEB_SEARCH ''execute'' ''tool'' ''t'' campus = Inr d' \<and> \<not> pd_allowed d'
      \<and> pd_reason d' = Some ''out_of_scope''"
    by (simp add: local_evaluate_def Let_def known_actions_def unscoped_def has_capability_def active_def
        consent_missing_def campus_def pdp_denied_def mk_policy_decision_def blank_def py_strip_def py_space_def
        local_policy_version_def)
  ultimately show ?thesis
    by (intro exI [of _ sample_config] exI [of _ sample_allow] exI [of _ unscoped] exI [of _ campus] exI [of _ ?d])
       simp
qed

end
