(* ===== verification/SqlTable.thy ===== *)
theory SqlTable
  imports Contracts
begin

text \<open>
  What the stores use of SQL, over a table that is the list of its rows in insertion
  order: INSERT under a primary key, UPDATE and DELETE with a row predicate and the number
  of rows they touched, SELECT of the first row, ORDER BY (stable, so rows with equal keys
  keep their insertion order) and LIMIT. A JSON column holds the value it encodes. The
  locale \<open>tenant_machine\<close> is the contract of a store shared by tenants, with the
  noninterference lemma for whole runs.
\<close>

subsection \<open>Statements\<close>

definition tbl_insert :: "('r \<Rightarrow> string) \<Rightarrow> 'r \<Rightarrow> 'r list \<Rightarrow> 'r list res" where
  "tbl_insert key r t = (if list_ex (\<lambda>x. key x = key r) t
     then Inl (IntegrityError ''UNIQUE constraint failed'') else Inr (t @ [r]))"

fun tbl_insert_all :: "('r \<Rightarrow> string) \<Rightarrow> 'r list \<Rightarrow> 'r list \<Rightarrow> 'r list res" where
  "tbl_insert_all key [] t = Inr t"
| "tbl_insert_all key (r # rs) t = bindE (tbl_insert key r t) (tbl_insert_all key rs)"

definition tbl_update :: "('r \<Rightarrow> bool) \<Rightarrow> ('r \<Rightarrow> 'r) \<Rightarrow> 'r list \<Rightarrow> 'r list" where
  "tbl_update P f t = map (\<lambda>r. if P r then f r else r) t"

definition tbl_count :: "('r \<Rightarrow> bool) \<Rightarrow> 'r list \<Rightarrow> nat" where
  "tbl_count P t = length (filter P t)"

definition tbl_delete :: "('r \<Rightarrow> bool) \<Rightarrow> 'r list \<Rightarrow> 'r list" where
  "tbl_delete P t = filter (\<lambda>r. \<not> P r) t"

text \<open>Every inner list of \<^verbatim>\<open>_chunks\<close> but the last has the chunk n, and nothing is lost.\<close>

fun chunks_aux :: "nat \<Rightarrow> 'a list \<Rightarrow> 'a list \<Rightarrow> 'a list list" where
  "chunks_aux n batch [] = (if batch = [] then [] else [batch])"
| "chunks_aux n batch (x # xs) = (let b = batch @ [x] in
     if n \<le> length b then b # chunks_aux n [] xs else chunks_aux n b xs)"

definition chunks :: "nat \<Rightarrow> 'a list \<Rightarrow> 'a list list" where
  "chunks n xs = chunks_aux n [] xs"

lemma chunks_aux_concat: "concat (chunks_aux n batch xs) = batch @ xs"
  by (induction xs arbitrary: batch) (auto simp: Let_def)

lemma chunks_concat [simp]: "concat (chunks n xs) = xs"
  by (simp add: chunks_def chunks_aux_concat)

lemma chunks_aux_bound: "0 < n \<Longrightarrow> length batch < n \<Longrightarrow> \<forall>c \<in> set (chunks_aux n batch xs). length c \<le> n \<and> c \<noteq> []"
proof (induction xs arbitrary: batch)
  case Nil
  then show ?case by simp
next
  case (Cons x xs)
  show ?case
  proof (cases "n \<le> length (batch @ [x])")
    case True
    with Cons.prems Cons.IH [of "[]"] show ?thesis by (auto simp: Let_def)
  next
    case False
    with Cons.prems Cons.IH [of "batch @ [x]"] show ?thesis by (auto simp: Let_def)
  qed
qed

lemma chunks_bound: "0 < n \<Longrightarrow> c \<in> set (chunks n xs) \<Longrightarrow> length c \<le> n \<and> c \<noteq> []"
  unfolding chunks_def using chunks_aux_bound [of n "[]" xs] by auto

lemma tbl_insert_Inr: "tbl_insert key r t = Inr t' \<longleftrightarrow> key r \<notin> key ` set t \<and> t' = t @ [r]"
proof -
  have "list_ex (\<lambda>x. key x = key r) t \<longleftrightarrow> key r \<in> key ` set t" unfolding list_ex_iff image_iff by metis
  then show ?thesis by (auto simp: tbl_insert_def)
qed

lemma tbl_insert_all_Inr: "tbl_insert_all key rs t = Inr t' \<Longrightarrow> t' = t @ rs"
proof (induction rs arbitrary: t)
  case (Cons r rs)
  then obtain u where "tbl_insert key r t = Inr u" and "tbl_insert_all key rs u = Inr t'"
    by (auto simp: bindE_eq_Inr)
  with Cons.IH [of u] show ?case by (simp add: tbl_insert_Inr)
qed simp

lemma tbl_insert_all_append:
  "tbl_insert_all key (rs @ ss) t = bindE (tbl_insert_all key rs t) (tbl_insert_all key ss)"
  by (induction rs arbitrary: t) (auto simp: bindE_def split: sum.splits)

lemma tbl_insert_distinct: "tbl_insert key r t = Inr t' \<Longrightarrow> distinct (map key t) \<Longrightarrow> distinct (map key t')"
  by (auto simp: tbl_insert_Inr)

lemma tbl_insert_all_distinct:
  "tbl_insert_all key rs t = Inr t' \<Longrightarrow> distinct (map key t) \<Longrightarrow> distinct (map key t')"
proof (induction rs arbitrary: t)
  case (Cons r rs)
  then obtain u where "tbl_insert key r t = Inr u" and "tbl_insert_all key rs u = Inr t'"
    by (auto simp: bindE_eq_Inr)
  with Cons.IH [of u] Cons.prems(2) show ?case by (blast dest: tbl_insert_distinct)
qed simp

lemma tbl_update_keys [simp]: "(\<And>r. key (f r) = key r) \<Longrightarrow> map key (tbl_update P f t) = map key t"
  by (induction t) (simp_all add: tbl_update_def)

lemma tbl_update_find:
  "(\<And>r. Q (f r) = Q r) \<Longrightarrow> find Q (tbl_update P f t) = map_option (\<lambda>r. if P r then f r else r) (find Q t)"
  unfolding tbl_update_def by (subst find_map_same) auto

lemma tbl_update_filter_other:
  "(\<And>r. P r \<Longrightarrow> \<not> Q r \<and> \<not> Q (f r)) \<Longrightarrow> filter Q (tbl_update P f t) = filter Q t"
  by (induction t) (auto simp: tbl_update_def)

lemma tbl_update_filter_same:
  "(\<And>r. Q (f r) = Q r) \<Longrightarrow> filter Q (tbl_update P f t) = tbl_update P f (filter Q t)"
  by (induction t) (auto simp: tbl_update_def)

lemma tbl_delete_filter_other: "(\<And>r. P r \<Longrightarrow> \<not> Q r) \<Longrightarrow> filter Q (tbl_delete P t) = filter Q t"
  by (induction t) (auto simp: tbl_delete_def)

lemma tbl_delete_filter_same: "filter Q (tbl_delete P t) = tbl_delete P (filter Q t)"
  by (simp add: tbl_delete_def conj_commute)

lemma tbl_count_filter: "(\<And>r. P r \<Longrightarrow> Q r) \<Longrightarrow> tbl_count P (filter Q t) = tbl_count P t"
  unfolding tbl_count_def by (induction t) auto

lemma find_filter_sub: "(\<And>r. P r \<Longrightarrow> Q r) \<Longrightarrow> find P (filter Q t) = find P t"
  by (induction t) auto

lemma filter_filter_sub: "(\<And>r. P r \<Longrightarrow> Q r) \<Longrightarrow> filter P (filter Q t) = filter P t"
  by (induction t) auto

lemma find_unique:
  "distinct (map key t) \<Longrightarrow> r \<in> set t \<Longrightarrow> P r \<Longrightarrow> (\<And>x. P x \<Longrightarrow> key x = key r) \<Longrightarrow> find P t = Some r"
proof (induction t)
  case (Cons a t)
  show ?case
  proof (cases "P a")
    case True
    then have "key a = key r" using Cons.prems(4) by blast
    with Cons.prems(1,2) have "a = r" by (metis distinct.simps(2) image_eqI list.set_map list.simps(9) set_ConsD)
    with True show ?thesis by simp
  next
    case False
    with Cons.prems(2,3) have "r \<in> set t" by auto
    moreover from Cons.prems(1) have "distinct (map key t)" by simp
    ultimately have "find P t = Some r" using Cons.IH Cons.prems(3,4) by blast
    with False show ?thesis by simp
  qed
qed simp

subsection \<open>Limits\<close>

definition MAX_QUERY_ROWS :: int where "MAX_QUERY_ROWS = 5000"
definition WRITE_CHUNK_ROWS :: nat where "WRITE_CHUNK_ROWS = 500"

definition clamp_limit :: "int \<Rightarrow> int \<Rightarrow> int" where
  "clamp_limit limit maximum = (if limit \<le> 0 then 1 else min limit maximum)"

lemma clamp_limit_range: "1 \<le> maximum \<Longrightarrow> 1 \<le> clamp_limit n maximum \<and> clamp_limit n maximum \<le> maximum"
  by (auto simp: clamp_limit_def)

text \<open>\<^verbatim>\<open>ORDER BY k LIMIT n OFFSET o\<close>, ascending and descending in the key.\<close>

definition page :: "('r \<Rightarrow> 'k::linorder) \<Rightarrow> int \<Rightarrow> int \<Rightarrow> 'r list \<Rightarrow> 'r list" where
  "page k limit offset t = take_int limit (drop (nat (max 0 offset)) (sort_key k t))"

definition newest :: "('r \<Rightarrow> int) \<Rightarrow> int \<Rightarrow> 'r list \<Rightarrow> 'r list" where
  "newest k limit t = page (\<lambda>r. - k r) limit 0 t"

lemma page_set: "set (page k limit offset t) \<subseteq> set t"
  unfolding page_def take_int_def by (metis order_trans set_drop_subset set_sort set_take_subset)

lemma page_length: "length (page k limit offset t) \<le> nat limit"
  by (simp add: page_def take_int_def)

lemma newest_set: "set (newest k limit t) \<subseteq> set t"
  by (simp add: newest_def page_set)

subsection \<open>Stores shared by tenants\<close>

text \<open>A run of operations, and the replies among it that go to one tenant.\<close>

fun run_ops :: "('op \<Rightarrow> 'db \<Rightarrow> 'db \<times> 'reply) \<Rightarrow> 'op list \<Rightarrow> 'db \<Rightarrow> 'db" where
  "run_ops exec [] db = db"
| "run_ops exec (a # as) db = run_ops exec as (fst (exec a db))"

fun seen_by :: "('op \<Rightarrow> 'db \<Rightarrow> 'db \<times> 'reply) \<Rightarrow> ('op \<Rightarrow> string) \<Rightarrow> string \<Rightarrow> 'op list \<Rightarrow> 'db \<Rightarrow> 'reply list" where
  "seen_by exec owner i [] db = []"
| "seen_by exec owner i (a # as) db =
     (if owner a = i then snd (exec a db) # seen_by exec owner i as (fst (exec a db))
      else seen_by exec owner i as (fst (exec a db)))"

fun run_ok :: "('op \<Rightarrow> 'db \<Rightarrow> 'db \<times> 'reply) \<Rightarrow> ('op \<Rightarrow> 'db \<Rightarrow> bool) \<Rightarrow> 'op list \<Rightarrow> 'db \<Rightarrow> bool" where
  "run_ok exec ok [] db = True"
| "run_ok exec ok (a # as) db = (ok a db \<and> run_ok exec ok as (fst (exec a db)))"

text \<open>
  \<open>owner\<close> is the tenant an operation is called for, \<open>view i\<close> what of the state belongs to
  tenant \<open>i\<close>, and \<open>ok\<close> the condition under which an operation may be called (generated
  identifiers are new).
\<close>

locale tenant_machine =
  fixes exec :: "'op \<Rightarrow> 'db \<Rightarrow> 'db \<times> 'reply"
    and owner :: "'op \<Rightarrow> string"
    and view :: "string \<Rightarrow> 'db \<Rightarrow> 'v"
    and ok :: "'op \<Rightarrow> 'db \<Rightarrow> bool"
  assumes foreign: "owner a \<noteq> i \<Longrightarrow> view i (fst (exec a db)) = view i db"
    and local_reply: "ok a db \<Longrightarrow> ok a db' \<Longrightarrow> view (owner a) db = view (owner a) db'
      \<Longrightarrow> snd (exec a db) = snd (exec a db')"
    and local_state: "ok a db \<Longrightarrow> ok a db' \<Longrightarrow> view (owner a) db = view (owner a) db'
      \<Longrightarrow> view (owner a) (fst (exec a db)) = view (owner a) (fst (exec a db'))"
begin

lemma purge:
  "view i db = view i db' \<Longrightarrow> run_ok exec ok as db
    \<Longrightarrow> run_ok exec ok (filter (\<lambda>a. owner a = i) as) db'
    \<Longrightarrow> seen_by exec owner i as db = seen_by exec owner i (filter (\<lambda>a. owner a = i) as) db'"
proof (induction as arbitrary: db db')
  case Nil
  then show ?case by simp
next
  case (Cons a as)
  show ?case
  proof (cases "owner a = i")
    case True
    with Cons.prems have "snd (exec a db) = snd (exec a db')"
        and "view i (fst (exec a db)) = view i (fst (exec a db'))"
      using local_reply [of a db db'] local_state [of a db db'] by auto
    with Cons.IH [of "fst (exec a db)" "fst (exec a db')"] True Cons.prems show ?thesis by simp
  next
    case False
    with Cons.IH [of "fst (exec a db)" db'] Cons.prems foreign [of a i db] show ?thesis by simp
  qed
qed

lemma foreign_run: "(\<And>a. a \<in> set as \<Longrightarrow> owner a \<noteq> i) \<Longrightarrow> view i (run_ops exec as db) = view i db"
  by (induction as arbitrary: db) (simp_all add: foreign)

end

end
