(* ===== verification/BackgroundJobs.thy ===== *)
theory BackgroundJobs
  imports SqlTable
begin

text \<open>
  The background job table of \<^verbatim>\<open>institution_data/store.py\<close> (lines 1302-1425): enqueue,
  claim, heartbeat, hand back, sweep of stale jobs, finish. A job is queued, running,
  succeeded or failed. The lemmas show that a finished row is never written again, that a
  claim is one-shot, and that the attempts of a job are bounded by the sweep.
\<close>

subsection \<open>State\<close>

record bg_job =
  bj_id :: string
  bj_institution_id :: string
  bj_type :: string
  bj_payload :: "pyval dict"
  bj_status :: string
  bj_attempts :: int
  bj_created_at :: int
  bj_started_at :: "int option"
  bj_finished_at :: "int option"
  bj_result :: "pyval dict"
  bj_error :: "string option"
  bj_heartbeat_at :: "int option"

subsection \<open>Operations\<close>

definition get_background_job :: "string \<Rightarrow> bg_job list \<Rightarrow> bg_job option" where
  "get_background_job j t = find (\<lambda>r. bj_id r = j) t"

definition enqueue_background_job :: "int \<Rightarrow> string \<Rightarrow> string \<Rightarrow> string \<Rightarrow> pyval dict \<Rightarrow> bg_job list
    \<Rightarrow> (bg_job list \<times> bg_job option) res" where
  "enqueue_background_job now i j ty payload t =
     bindE (tbl_insert bj_id \<lparr>bj_id = j, bj_institution_id = i, bj_type = ty, bj_payload = payload,
        bj_status = ''queued'', bj_attempts = 0, bj_created_at = now, bj_started_at = None,
        bj_finished_at = None, bj_result = [], bj_error = None, bj_heartbeat_at = None\<rparr> t)
       (\<lambda>t'. Inr (t', get_background_job j t'))"

definition with_status :: "string \<Rightarrow> string \<Rightarrow> bg_job \<Rightarrow> bool" where
  "with_status j st r = (bj_id r = j \<and> bj_status r = st)"

definition to_running :: "int \<Rightarrow> bg_job \<Rightarrow> bg_job" where
  "to_running now r = r\<lparr>bj_status := ''running'', bj_started_at := Some now,
     bj_heartbeat_at := Some now, bj_attempts := bj_attempts r + 1\<rparr>"

definition to_queued :: "bg_job \<Rightarrow> bg_job" where
  "to_queued r = r\<lparr>bj_status := ''queued'', bj_started_at := None, bj_heartbeat_at := None\<rparr>"

definition claim_background_job :: "int \<Rightarrow> string \<Rightarrow> bg_job list \<Rightarrow> bg_job list \<times> bg_job option" where
  "claim_background_job now j t =
     (let t' = tbl_update (with_status j ''queued'') (to_running now) t
      in if tbl_count (with_status j ''queued'') t = 0 then (t', None) else (t', get_background_job j t'))"

text \<open>The loop of \<^verbatim>\<open>claim_background_jobs\<close>; \<open>clock j\<close> is the instant read for job \<open>j\<close>.\<close>

fun claim_each :: "(string \<Rightarrow> int) \<Rightarrow> string list \<Rightarrow> bg_job list \<Rightarrow> bg_job list \<times> bg_job list" where
  "claim_each clock [] t = (t, [])"
| "claim_each clock (j # js) t = (case claim_background_job (clock j) j t of
      (t', None) \<Rightarrow> claim_each clock js t'
    | (t', Some job) \<Rightarrow> (case claim_each clock js t' of (t'', jobs) \<Rightarrow> (t'', job # jobs)))"

definition queued_ids :: "int \<Rightarrow> bg_job list \<Rightarrow> string list" where
  "queued_ids limit t = map bj_id (page bj_created_at (clamp_limit limit 100) 0
     (filter (\<lambda>r. bj_status r = ''queued'') t))"

definition claim_background_jobs :: "(string \<Rightarrow> int) \<Rightarrow> int \<Rightarrow> bg_job list \<Rightarrow> bg_job list \<times> bg_job list" where
  "claim_background_jobs clock limit t = claim_each clock (queued_ids limit t) t"

definition heartbeat_background_job :: "int \<Rightarrow> string \<Rightarrow> bg_job list \<Rightarrow> bg_job list \<times> bool" where
  "heartbeat_background_job now j t =
     (tbl_update (with_status j ''running'') (\<lambda>r. r\<lparr>bj_heartbeat_at := Some now\<rparr>) t,
      tbl_count (with_status j ''running'') t > 0)"

definition requeue_background_job :: "string \<Rightarrow> bg_job list \<Rightarrow> bg_job list \<times> bool" where
  "requeue_background_job j t =
     (tbl_update (with_status j ''running'') to_queued t, tbl_count (with_status j ''running'') t > 0)"

definition last_sign :: "bg_job \<Rightarrow> int" where
  "last_sign r = (case bj_heartbeat_at r of Some h \<Rightarrow> h
     | None \<Rightarrow> (case bj_started_at r of Some s \<Rightarrow> s | None \<Rightarrow> bj_created_at r))"

definition exhausted_error :: string where
  "exhausted_error = ''worker did not finish the job after repeated attempts''"

definition to_exhausted :: "int \<Rightarrow> bg_job \<Rightarrow> bg_job" where
  "to_exhausted now r = r\<lparr>bj_status := ''failed'', bj_finished_at := Some now, bj_error := Some exhausted_error\<rparr>"

text \<open>
  The sweep, over the (identifier, attempts) pairs its SELECT returned: the table, the jobs
  put back and the jobs given up.
\<close>

fun sweep_each :: "(string \<Rightarrow> int) \<Rightarrow> int \<Rightarrow> (string \<times> int) list \<Rightarrow> bg_job list
    \<Rightarrow> bg_job list \<times> bg_job list \<times> bg_job list" where
  "sweep_each clock m [] t = (t, [], [])"
| "sweep_each clock m ((j, n) # rows) t =
     (if m \<le> n then
        (let t' = tbl_update (with_status j ''running'') (to_exhausted (clock j)) t;
             lost = (if tbl_count (with_status j ''running'') t = 0 then None else get_background_job j t')
         in case sweep_each clock m rows t' of (t'', back, gone) \<Rightarrow>
              (t'', back, (case lost of None \<Rightarrow> gone | Some job \<Rightarrow> job # gone)))
      else
        (case requeue_background_job j t of (t', updated) \<Rightarrow>
           let job = (if updated then get_background_job j t' else None)
           in case sweep_each clock m rows t' of (t'', back, gone) \<Rightarrow>
                (t'', (case job of None \<Rightarrow> back | Some x \<Rightarrow> x # back), gone)))"

text \<open>Durations are in microseconds; \<^verbatim>\<open>max(0.001, seconds)\<close> is at least one millisecond.\<close>

definition stale_rows :: "int \<Rightarrow> int \<Rightarrow> bg_job list \<Rightarrow> (string \<times> int) list" where
  "stale_rows now older t = map (\<lambda>r. (bj_id r, bj_attempts r)) (page bj_created_at 500 0
     (filter (\<lambda>r. bj_status r = ''running'' \<and> last_sign r < now - max 1000 older) t))"

definition requeue_stale_background_jobs :: "(string \<Rightarrow> int) \<Rightarrow> int \<Rightarrow> int \<Rightarrow> int \<Rightarrow> bg_job list
    \<Rightarrow> bg_job list \<times> bg_job list \<times> bg_job list" where
  "requeue_stale_background_jobs clock now older m t = sweep_each clock m (stale_rows now older t) t"

definition finishable :: "string \<Rightarrow> int option \<Rightarrow> bg_job \<Rightarrow> bool" where
  "finishable j attempt r = (bj_id r = j \<and> bj_status r \<in> {''queued'', ''running''}
     \<and> (case attempt of None \<Rightarrow> True | Some n \<Rightarrow> bj_attempts r = n))"

definition finish_background_job :: "int \<Rightarrow> string \<Rightarrow> string \<Rightarrow> pyval dict \<Rightarrow> string option \<Rightarrow> int option
    \<Rightarrow> bg_job list \<Rightarrow> (bg_job list \<times> bool) res" where
  "finish_background_job now j status result err attempt t =
     (if status \<notin> {''succeeded'', ''failed''}
        then Inl (ValueError ''background job status must be succeeded or failed'')
      else Inr (tbl_update (finishable j attempt)
          (\<lambda>r. r\<lparr>bj_status := status, bj_finished_at := Some now, bj_result := result, bj_error := err\<rparr>) t,
        tbl_count (finishable j attempt) t > 0))"

definition list_background_jobs :: "string \<Rightarrow> int \<Rightarrow> bg_job list \<Rightarrow> bg_job list" where
  "list_background_jobs i limit t =
     newest bj_created_at (clamp_limit limit 500) (filter (\<lambda>r. bj_institution_id r = i) t)"

subsection \<open>Steps\<close>

datatype job_op =
    Enqueue int string string string "pyval dict"
  | ClaimMany "string \<Rightarrow> int" int
  | ClaimOne int string
  | Heartbeat int string
  | Requeue string
  | Sweep "string \<Rightarrow> int" int int int
  | Finish int string string "pyval dict" "string option" "int option"

fun job_step :: "job_op \<Rightarrow> bg_job list \<Rightarrow> bg_job list" where
  "job_step (Enqueue now i j ty payload) t = (case enqueue_background_job now i j ty payload t of
     Inl _ \<Rightarrow> t | Inr (t', _) \<Rightarrow> t')"
| "job_step (ClaimMany clock limit) t = fst (claim_background_jobs clock limit t)"
| "job_step (ClaimOne now j) t = fst (claim_background_job now j t)"
| "job_step (Heartbeat now j) t = fst (heartbeat_background_job now j t)"
| "job_step (Requeue j) t = fst (requeue_background_job j t)"
| "job_step (Sweep clock now older m) t = fst (requeue_stale_background_jobs clock now older m t)"
| "job_step (Finish now j status result err attempt) t =
     (case finish_background_job now j status result err attempt t of Inl _ \<Rightarrow> t | Inr (t', _) \<Rightarrow> t')"

definition job_run :: "job_op list \<Rightarrow> bg_job list \<Rightarrow> bg_job list" where
  "job_run ops t = foldl (\<lambda>t op. job_step op t) t ops"

text \<open>
  What one statement may do to a row. \<open>swept m\<close> is every move but the explicit hand-back:
  the sweep with limit \<open>m\<close> puts a row back only while it has attempts left.
\<close>

definition terminal :: "string \<Rightarrow> bool" where
  "terminal st = (st = ''succeeded'' \<or> st = ''failed'')"

inductive swept :: "int \<Rightarrow> bg_job \<Rightarrow> bg_job \<Rightarrow> bool" for m where
  swept_claim: "bj_status r = ''queued'' \<Longrightarrow> swept m r (to_running now r)"
| swept_beat: "bj_status r = ''running'' \<Longrightarrow> swept m r (r\<lparr>bj_heartbeat_at := Some now\<rparr>)"
| swept_back: "bj_status r = ''running'' \<Longrightarrow> bj_attempts r < m \<Longrightarrow> swept m r (to_queued r)"
| swept_give_up: "bj_status r = ''running'' \<Longrightarrow> m \<le> bj_attempts r \<Longrightarrow> swept m r (to_exhausted now r)"
| swept_finish: "bj_status r \<in> {''queued'', ''running''} \<Longrightarrow> terminal st
    \<Longrightarrow> swept m r (r\<lparr>bj_status := st, bj_finished_at := Some now, bj_result := res, bj_error := err\<rparr>)"

inductive job_move :: "bg_job \<Rightarrow> bg_job \<Rightarrow> bool" where
  move_swept: "swept m r r' \<Longrightarrow> job_move r r'"
| move_back: "bj_status r = ''running'' \<Longrightarrow> job_move r (to_queued r)"

inductive_cases swept_E: "swept m r r'"
inductive_cases job_move_E: "job_move r r'"

definition pointwise :: "('r \<Rightarrow> 'r \<Rightarrow> bool) \<Rightarrow> 'r list \<Rightarrow> 'r list \<Rightarrow> bool" where
  "pointwise R t t' = list_all2 R\<^sup>*\<^sup>* t t'"

lemma pointwise_refl: "pointwise R t t"
  by (simp add: pointwise_def list_all2_refl)

lemma pointwise_trans: "pointwise R t u \<Longrightarrow> pointwise R u v \<Longrightarrow> pointwise R t v"
  unfolding pointwise_def by (rule list_all2_trans [of "R\<^sup>*\<^sup>*" "R\<^sup>*\<^sup>*" "R\<^sup>*\<^sup>*"]) (auto intro: rtranclp_trans)

lemma pointwise_update: "(\<And>r. r \<in> set t \<Longrightarrow> P r \<Longrightarrow> R r (f r)) \<Longrightarrow> pointwise R t (tbl_update P f t)"
  by (induction t) (auto simp: pointwise_def tbl_update_def)

lemma pointwise_mono: "(\<And>r r'. R r r' \<Longrightarrow> S r r') \<Longrightarrow> pointwise R t t' \<Longrightarrow> pointwise S t t'"
  unfolding pointwise_def by (rule list_all2_mono, assumption, rule rtranclp_mono [THEN predicate2D, of R S]) auto

lemma pointwise_inv:
  "pointwise R t t' \<Longrightarrow> (\<And>r r'. R r r' \<Longrightarrow> I r \<Longrightarrow> I r') \<Longrightarrow> list_all I t \<Longrightarrow> list_all I t'"
proof -
  assume step: "\<And>r r'. R r r' \<Longrightarrow> I r \<Longrightarrow> I r'"
  have *: "R\<^sup>*\<^sup>* r r' \<Longrightarrow> I r \<Longrightarrow> I r'" for r r'
    by (induction rule: rtranclp_induct) (auto intro: step)
  show "pointwise R t t' \<Longrightarrow> list_all I t \<Longrightarrow> list_all I t'"
    unfolding pointwise_def by (induction rule: list_all2_induct) (auto intro: *)
qed

lemma terminal_simps [simp]: "terminal ''succeeded''" "terminal ''failed''"
    "\<not> terminal ''queued''" "\<not> terminal ''running''"
  by (simp_all add: terminal_def)

lemma swept_not_terminal: "swept m r r' \<Longrightarrow> \<not> terminal (bj_status r)"
  by (auto elim!: swept_E)

lemma swept_id: "swept m r r' \<Longrightarrow> bj_id r' = bj_id r"
  by (auto elim!: swept_E simp: to_running_def to_queued_def to_exhausted_def)

lemma job_move_not_terminal: "job_move r r' \<Longrightarrow> \<not> terminal (bj_status r)"
  by (auto elim!: job_move_E dest: swept_not_terminal)

lemma job_move_id: "job_move r r' \<Longrightarrow> bj_id r' = bj_id r"
  by (auto elim!: job_move_E dest: swept_id simp: to_queued_def)

subsection \<open>Every operation is made of moves\<close>

definition jobs_ok :: "bg_job list \<Rightarrow> bool" where
  "jobs_ok t = distinct (map bj_id t)"

lemma claim_one_pointwise: "pointwise (swept m) t (fst (claim_background_job now j t))"
  by (auto simp: claim_background_job_def Let_def with_status_def intro!: pointwise_update swept_claim)

lemma claim_each_pointwise: "pointwise (swept m) t (fst (claim_each clock js t))"
proof (induction clock js t rule: claim_each.induct)
  case (1 clock t)
  then show ?case by (simp add: pointwise_refl)
next
  case (2 clock j js t)
  obtain t' c where c: "claim_background_job (clock j) j t = (t', c)" by force
  then have "pointwise (swept m) t t'" using claim_one_pointwise [of m t "clock j" j] by simp
  moreover have "pointwise (swept m) t' (fst (claim_each clock js t'))"
    using 2 c by (cases c) auto
  ultimately have "pointwise (swept m) t (fst (claim_each clock js t'))" by (rule pointwise_trans)
  with c show ?case by (auto split: option.splits prod.splits)
qed

lemma sweep_each_pointwise:
  "(\<And>r j n. r \<in> set t \<Longrightarrow> (j, n) \<in> set rows \<Longrightarrow> bj_id r = j \<Longrightarrow> bj_attempts r = n)
    \<Longrightarrow> pointwise (swept m) t (fst (sweep_each clock m rows t))"
proof (induction clock m rows t rule: sweep_each.induct)
  case (1 clock m t)
  then show ?case by (simp add: pointwise_refl)
next
  case (2 clock m j n rows t)
  define t' where "t' = (if m \<le> n then tbl_update (with_status j ''running'') (to_exhausted (clock j)) t
     else fst (requeue_background_job j t))"
  have known: "bj_attempts r = n" if "r \<in> set t" "bj_id r = j" for r using 2(3) that by auto
  have one: "pointwise (swept m) t t'"
  proof (cases "m \<le> n")
    case True
    then show ?thesis
      unfolding t'_def using known by (auto simp: with_status_def intro!: pointwise_update swept_give_up)
  next
    case False
    then show ?thesis
      unfolding t'_def using known
      by (auto simp: requeue_background_job_def with_status_def intro!: pointwise_update swept_back)
  qed
  have "bj_attempts r = n'" if "r \<in> set t'" "(j', n') \<in> set rows" "bj_id r = j'" for r j' n'
  proof -
    from that(1) obtain x where "x \<in> set t" "bj_id x = bj_id r" "bj_attempts x = bj_attempts r"
      unfolding t'_def
      by (auto simp: tbl_update_def requeue_background_job_def to_exhausted_def to_queued_def split: if_splits)
    with that(2,3) 2(3) [of x j' n'] show ?thesis by simp
  qed
  then have "pointwise (swept m) t' (fst (sweep_each clock m rows t'))"
    using 2(1,2) unfolding t'_def by (cases "m \<le> n") (auto simp: requeue_background_job_def)
  with one have "pointwise (swept m) t (fst (sweep_each clock m rows t'))" by (rule pointwise_trans)
  then show ?case
    unfolding t'_def by (auto simp: Let_def requeue_background_job_def split: prod.splits if_splits)
qed

lemma stale_rows_known:
  "jobs_ok t \<Longrightarrow> r \<in> set t \<Longrightarrow> (j, n) \<in> set (stale_rows now older t) \<Longrightarrow> bj_id r = j \<Longrightarrow> bj_attempts r = n"
proof -
  assume ok: "jobs_ok t" and r: "r \<in> set t" "bj_id r = j" and mem: "(j, n) \<in> set (stale_rows now older t)"
  from mem obtain x where "x \<in> set t" "bj_id x = j" "bj_attempts x = n"
    unfolding stale_rows_def using page_set by fastforce
  moreover from ok r calculation have "x = r"
    unfolding jobs_ok_def distinct_map inj_on_def by metis
  ultimately show ?thesis by simp
qed

lemma sweep_pointwise:
  "jobs_ok t \<Longrightarrow> pointwise (swept m) t (fst (requeue_stale_background_jobs clock now older m t))"
  unfolding requeue_stale_background_jobs_def by (rule sweep_each_pointwise) (blast dest: stale_rows_known)

lemma heartbeat_pointwise: "pointwise (swept m) t (fst (heartbeat_background_job now j t))"
  by (auto simp: heartbeat_background_job_def with_status_def intro!: pointwise_update swept_beat)

lemma requeue_pointwise: "pointwise job_move t (fst (requeue_background_job j t))"
  by (auto simp: requeue_background_job_def with_status_def intro!: pointwise_update move_back)

lemma finish_pointwise: "finish_background_job now j st res err a t = Inr (t', b) \<Longrightarrow> pointwise (swept m) t t'"
  by (auto simp: finish_background_job_def finishable_def terminal_def split: if_splits
      intro!: pointwise_update swept_finish)

lemma enqueue_append: "enqueue_background_job now i j ty payload t = Inr (t', r) \<Longrightarrow>
    \<exists>x. t' = t @ [x] \<and> bj_id x = j \<and> bj_id x \<notin> bj_id ` set t \<and> bj_status x = ''queued'' \<and> bj_attempts x = 0"
  by (auto simp: enqueue_background_job_def bindE_eq_Inr tbl_insert_Inr)

text \<open>One step of the table: rows move, or one new queued row is appended.\<close>

fun sweeps_with :: "int \<Rightarrow> job_op \<Rightarrow> bool" where
  "sweeps_with m (Sweep clock now older k) = (k = m)"
| "sweeps_with m (Requeue j) = False"
| "sweeps_with m _ = True"

lemma job_step_shape:
  assumes "jobs_ok t"
  shows "pointwise job_move t (job_step op t) \<and> (sweeps_with m op \<longrightarrow> pointwise (swept m) t (job_step op t))
    \<or> (\<exists>x. job_step op t = t @ [x] \<and> bj_id x \<notin> bj_id ` set t \<and> bj_status x = ''queued'' \<and> bj_attempts x = 0)"
proof -
  have mono: "pointwise (swept k) t t' \<Longrightarrow> pointwise job_move t t'" for k t'
    by (rule pointwise_mono [of "swept k"]) (auto intro: move_swept)
  show ?thesis
  proof (cases op)
    case (Enqueue now i j ty payload)
    then show ?thesis
      by (cases "enqueue_background_job now i j ty payload t")
         (auto simp: pointwise_refl dest!: enqueue_append)
  next
    case (ClaimMany clock limit)
    then show ?thesis using claim_each_pointwise mono by (auto simp: claim_background_jobs_def)
  next
    case (ClaimOne now j)
    then show ?thesis using claim_one_pointwise mono by auto
  next
    case (Heartbeat now j)
    then show ?thesis using heartbeat_pointwise mono by auto
  next
    case (Requeue j)
    then show ?thesis using requeue_pointwise by auto
  next
    case (Sweep clock now older k)
    have "pointwise (swept k) t (fst (requeue_stale_background_jobs clock now older k t))"
      using sweep_pointwise [OF assms] .
    with Sweep show ?thesis using mono by auto
  next
    case (Finish now j st res err a)
    then show ?thesis
      by (cases "finish_background_job now j st res err a t")
         (auto simp: pointwise_refl intro: mono dest: finish_pointwise)
  qed
qed

lemma pointwise_ids: "pointwise job_move t t' \<Longrightarrow> map bj_id t' = map bj_id t"
proof -
  have *: "job_move\<^sup>*\<^sup>* r r' \<Longrightarrow> bj_id r' = bj_id r" for r r'
    by (induction rule: rtranclp_induct) (auto dest: job_move_id)
  show "pointwise job_move t t' \<Longrightarrow> map bj_id t' = map bj_id t"
    unfolding pointwise_def by (induction rule: list_all2_induct) (auto dest: *)
qed

lemma job_step_ok [inv_intros]: "jobs_ok t \<Longrightarrow> jobs_ok (job_step op t)"
  using job_step_shape [of t op 0] by (auto simp: jobs_ok_def dest: pointwise_ids)

lemma job_run_ok [inv_intros]: "jobs_ok t \<Longrightarrow> jobs_ok (job_run ops t)"
  unfolding job_run_def by (induction ops arbitrary: t) (simp_all add: job_step_ok)

lemma job_run_simps [simp]: "job_run [] t = t" "job_run (op # ops) t = job_run ops (job_step op t)"
  by (simp_all add: job_run_def)

subsection \<open>Following one row\<close>

lemma get_append: "get_background_job j (t @ u) = (case get_background_job j t of Some r \<Rightarrow> Some r | None \<Rightarrow> get_background_job j u)"
  by (simp add: get_background_job_def find_append split: option.splits)

lemma pointwise_get:
  "pointwise R t t' \<Longrightarrow> (\<And>r r'. R r r' \<Longrightarrow> bj_id r' = bj_id r) \<Longrightarrow> get_background_job j t = Some r
    \<Longrightarrow> \<exists>r'. get_background_job j t' = Some r' \<and> R\<^sup>*\<^sup>* r r'"
proof -
  assume id: "\<And>r r'. R r r' \<Longrightarrow> bj_id r' = bj_id r"
  have *: "R\<^sup>*\<^sup>* r r' \<Longrightarrow> bj_id r' = bj_id r" for r r'
    by (induction rule: rtranclp_induct) (auto simp: id)
  show "pointwise R t t' \<Longrightarrow> get_background_job j t = Some r \<Longrightarrow> ?thesis"
    unfolding pointwise_def get_background_job_def
    by (induction rule: list_all2_induct) (auto simp: * split: if_splits)
qed

lemma job_step_get:
  "jobs_ok t \<Longrightarrow> get_background_job j t = Some r
    \<Longrightarrow> \<exists>r'. get_background_job j (job_step op t) = Some r' \<and> job_move\<^sup>*\<^sup>* r r'"
  using job_step_shape [of t op 0] pointwise_get [OF _ job_move_id]
  by (auto simp: get_append)

lemma job_run_get:
  "jobs_ok t \<Longrightarrow> get_background_job j t = Some r
    \<Longrightarrow> \<exists>r'. get_background_job j (job_run ops t) = Some r' \<and> job_move\<^sup>*\<^sup>* r r'"
proof (induction ops arbitrary: t r)
  case (Cons op ops)
  then obtain r1 where "get_background_job j (job_step op t) = Some r1" "job_move\<^sup>*\<^sup>* r r1"
    using job_step_get by blast
  with Cons.IH [of "job_step op t" r1] Cons.prems(1) show ?case
    by (auto simp: job_step_ok intro: rtranclp_trans)
qed auto

lemma get_job_mem: "jobs_ok t \<Longrightarrow> get_background_job j t = Some r \<longleftrightarrow> r \<in> set t \<and> bj_id r = j"
proof
  assume "get_background_job j t = Some r"
  then show "r \<in> set t \<and> bj_id r = j" unfolding get_background_job_def by (rule find_Some_iff2)
next
  assume ok: "jobs_ok t" and "r \<in> set t \<and> bj_id r = j"
  then show "get_background_job j t = Some r"
    unfolding get_background_job_def jobs_ok_def by (intro find_unique [of bj_id]) auto
qed

lemma get_job_unique: "jobs_ok t \<Longrightarrow> get_background_job j t = Some c \<Longrightarrow> x \<in> set t \<Longrightarrow> bj_id x = j \<Longrightarrow> x = c"
  using get_job_mem [of t j x] by simp

lemma attempts_grow: "job_move\<^sup>*\<^sup>* r r' \<Longrightarrow> bj_attempts r \<le> bj_attempts r'"
proof (induction rule: rtranclp_induct)
  case (step y z)
  from step(2) have "bj_attempts y \<le> bj_attempts z"
    by (auto elim!: job_move_E swept_E simp: to_running_def to_queued_def to_exhausted_def)
  with step(3) show ?case by simp
qed simp

lemma terminal_stuck: "job_move\<^sup>*\<^sup>* r r' \<Longrightarrow> terminal (bj_status r) \<Longrightarrow> r' = r"
  by (induction rule: rtranclp_induct) (auto dest: job_move_not_terminal)

lemma claim_won_row:
  assumes "jobs_ok t" and "claim_background_job now j t = (t', Some b)"
  shows "\<exists>r. get_background_job j t = Some r \<and> bj_status r = ''queued'' \<and> b = to_running now r
    \<and> get_background_job j t' = Some b \<and> jobs_ok t'"
proof -
  from assms(2) have c: "tbl_count (with_status j ''queued'') t \<noteq> 0"
      and t': "t' = tbl_update (with_status j ''queued'') (to_running now) t"
      and b: "get_background_job j t' = Some b"
    by (auto simp: claim_background_job_def Let_def split: if_splits)
  from c obtain r where r: "r \<in> set t" "with_status j ''queued'' r"
    by (auto simp: tbl_count_def filter_empty_conv)
  with assms(1) have g: "get_background_job j t = Some r" by (simp add: get_job_mem with_status_def)
  have "get_background_job j t' = Some (to_running now r)"
    using g r(2) unfolding t' get_background_job_def by (subst tbl_update_find) (auto simp: to_running_def)
  moreover have "jobs_ok t'"
    using job_step_ok [OF assms(1), of "ClaimOne now j"] assms(2) by simp
  ultimately show ?thesis using g b r(2) by (auto simp: with_status_def)
qed

text \<open>Attempts left: a queued job has run fewer than \<open>m\<close> times, no job more than \<open>m\<close>.\<close>

definition within_budget :: "int \<Rightarrow> bg_job \<Rightarrow> bool" where
  "within_budget m r = (bj_attempts r \<le> m \<and> (bj_status r = ''queued'' \<longrightarrow> bj_attempts r < m))"

lemma swept_within_budget: "swept m r r' \<Longrightarrow> within_budget m r \<Longrightarrow> within_budget m r'"
  by (auto elim!: swept_E simp: within_budget_def to_running_def to_queued_def to_exhausted_def terminal_def)

lemma job_run_within_budget:
  "jobs_ok t \<Longrightarrow> 0 < m \<Longrightarrow> list_all (sweeps_with m) ops \<Longrightarrow> list_all (within_budget m) t
    \<Longrightarrow> list_all (within_budget m) (job_run ops t)"
proof (induction ops arbitrary: t)
  case (Cons op ops)
  have new: "within_budget m x" if "bj_status x = ''queued''" "bj_attempts x = 0" for x
    using that Cons.prems(2) by (simp add: within_budget_def)
  have "list_all (within_budget m) (job_step op t)"
    using job_step_shape [of t op m] Cons.prems new
    by (auto dest: pointwise_inv [OF _ swept_within_budget])
  with Cons show ?case by (simp add: job_step_ok)
qed simp

text \<open>Without a hand-back or a sweep, a job that left the queue does not come back to it.\<close>

fun hands_back :: "job_op \<Rightarrow> bool" where
  "hands_back (Requeue j) = True"
| "hands_back (Sweep clock now older m) = True"
| "hands_back _ = False"

definition left_queue :: "bg_job \<Rightarrow> bool" where
  "left_queue r = (bj_status r \<noteq> ''queued'' \<and> 0 \<le> bj_attempts r)"

lemma swept_left_queue: "swept 0 r r' \<Longrightarrow> left_queue r \<Longrightarrow> left_queue r'"
  by (auto elim!: swept_E simp: left_queue_def to_exhausted_def terminal_def to_running_def)

lemma left_queue_run:
  "jobs_ok t \<Longrightarrow> get_background_job j t = Some r \<Longrightarrow> left_queue r \<Longrightarrow> list_all (\<lambda>op. \<not> hands_back op) ops
    \<Longrightarrow> \<exists>r'. get_background_job j (job_run ops t) = Some r' \<and> left_queue r'"
proof (induction ops arbitrary: t r)
  case (Cons op ops)
  have "sweeps_with 0 op" using Cons.prems(4) by (cases op) auto
  moreover have "(swept 0)\<^sup>*\<^sup>* x r' \<Longrightarrow> left_queue x \<Longrightarrow> left_queue r'" for x r'
    by (induction rule: rtranclp_induct) (auto dest: swept_left_queue)
  ultimately obtain r1 where "get_background_job j (job_step op t) = Some r1" "left_queue r1"
    using job_step_shape [of t op 0] Cons.prems(1-3) pointwise_get [of "swept 0" t "job_step op t" j r] swept_id
    by (auto simp: get_append)
  with Cons.IH [of "job_step op t" r1] Cons.prems show ?case by (simp add: job_step_ok)
qed auto

subsection \<open>Properties\<close>

text \<open>A job that succeeded or failed is never written again: whatever any caller does
  afterwards, its row (status, result, error, attempts, instants) stays as it was.\<close>

theorem finished_job_frozen:
  assumes "jobs_ok t" and "r \<in> set t" and "terminal (bj_status r)"
  shows "r \<in> set (job_run ops t)"
proof -
  from assms have g: "get_background_job (bj_id r) t = Some r" by (simp add: get_job_mem)
  from job_run_get [OF assms(1) g] obtain r' where "get_background_job (bj_id r) (job_run ops t) = Some r'"
      and "job_move\<^sup>*\<^sup>* r r'" by blast
  with assms show ?thesis using terminal_stuck job_run_ok get_job_mem by metis
qed

text \<open>C31: a worker whose job was handed back and claimed again cannot overwrite the new
  attempt: finishing with the old attempt number changes nothing, ever after.\<close>

theorem late_finish_ignored:
  assumes "jobs_ok t" and "claim_background_job now j t = (t1, Some a)"
    and "claim_background_job now' j (job_run ops t1) = (t2, Some b)"
    and "st \<in> {''succeeded'', ''failed''}"
  shows "finish_background_job now'' j st res err (Some (bj_attempts a)) (job_run ops' t2)
    = Inr (job_run ops' t2, False)"
proof -
  from claim_won_row [OF assms(1,2)] have a: "get_background_job j t1 = Some a" "jobs_ok t1" by auto
  then have ok: "jobs_ok (job_run ops t1)" by (simp add: job_run_ok)
  from claim_won_row [OF ok assms(3)] obtain r where r: "get_background_job j (job_run ops t1) = Some r"
      "b = to_running now' r" "get_background_job j t2 = Some b" "jobs_ok t2" by blast
  from job_run_get [OF a(2,1), of ops] r(1) have "bj_attempts a \<le> bj_attempts r" by (auto dest: attempts_grow)
  then have lt: "bj_attempts a < bj_attempts b" using r(2) by (simp add: to_running_def)
  from job_run_get [OF r(4,3)] obtain c where c: "get_background_job j (job_run ops' t2) = Some c"
      "job_move\<^sup>*\<^sup>* b c" by blast
  have "bj_attempts a < bj_attempts c" using lt attempts_grow [OF c(2)] by linarith
  then have no: "\<not> finishable j (Some (bj_attempts a)) x" if "x \<in> set (job_run ops' t2)" for x
    using that get_job_unique [OF job_run_ok [OF r(4)] c(1) that] \<open>bj_attempts a < bj_attempts c\<close>
    by (auto simp: finishable_def)
  then have "tbl_update (finishable j (Some (bj_attempts a))) f (job_run ops' t2) = job_run ops' t2" for f
    unfolding tbl_update_def by (rule map_upd_id)
  moreover have "tbl_count (finishable j (Some (bj_attempts a))) (job_run ops' t2) = 0"
    using no by (simp add: tbl_count_def filter_empty_conv)
  ultimately show ?thesis using assms(4) by (auto simp: finish_background_job_def)
qed


text \<open>A claim is one-shot: of the workers that try to claim a job, one gets it; until the
  job is handed back or swept, every later claim returns nothing.\<close>

theorem claim_one_shot:
  assumes "jobs_ok t" and "\<forall>r \<in> set t. 0 \<le> bj_attempts r"
    and "claim_background_job now j t = (t1, Some a)" and "list_all (\<lambda>op. \<not> hands_back op) ops"
  shows "snd (claim_background_job now' j (job_run ops t1)) = None"
proof -
  from claim_won_row [OF assms(1,3)] obtain r where r: "get_background_job j t = Some r" "a = to_running now r"
      "get_background_job j t1 = Some a" "jobs_ok t1" by auto
  have "left_queue a"
    using r(1,2) assms(1,2) get_job_mem by (auto simp: left_queue_def to_running_def)
  from left_queue_run [OF r(4,3) this assms(4)] obtain c where
    c: "get_background_job j (job_run ops t1) = Some c" "left_queue c" by blast
  then have "tbl_count (with_status j ''queued'') (job_run ops t1) = 0"
    using get_job_unique [OF job_run_ok [OF r(4)] c(1)]
    by (auto simp: tbl_count_def filter_empty_conv with_status_def left_queue_def)
  then show ?thesis by (simp add: claim_background_job_def Let_def)
qed

definition sample_job :: "string \<Rightarrow> string \<Rightarrow> int \<Rightarrow> bg_job" where
  "sample_job j st n = \<lparr>bj_id = j, bj_institution_id = ''college_a'', bj_type = ''ingestion.process'',
     bj_payload = [], bj_status = st, bj_attempts = n, bj_created_at = 5, bj_started_at = None,
     bj_finished_at = None, bj_result = [], bj_error = None, bj_heartbeat_at = None\<rparr>"

lemma finished_job_frozen_witness:
  "sample_job ''j'' ''failed'' 1 \<in> set (job_run [ClaimOne 9 ''j'', Finish 10 ''j'' ''succeeded'' [] None None]
     [sample_job ''j'' ''failed'' 1])"
  by (rule finished_job_frozen) (simp_all add: jobs_ok_def sample_job_def)

lemma late_finish_ignored_witness:
  "\<exists>t2 b. claim_background_job 9 ''j'' (job_run [Requeue ''j''] (fst (claim_background_job 7 ''j'' [sample_job ''j'' ''queued'' 0])))
      = (t2, Some b)
    \<and> finish_background_job 11 ''j'' ''succeeded'' [] None (Some 1) (job_run [] t2) = Inr (job_run [] t2, False)"
proof -
  let ?t = "[sample_job ''j'' ''queued'' 0]"
  let ?t1 = "fst (claim_background_job 7 ''j'' ?t)"
  note defs = claim_background_job_def get_background_job_def with_status_def to_running_def to_queued_def
    sample_job_def tbl_update_def tbl_count_def Let_def requeue_background_job_def
  have c1: "claim_background_job 7 ''j'' ?t = (?t1, Some (to_running 7 (sample_job ''j'' ''queued'' 0)))"
    by (simp add: defs)
  obtain t2 b where c2: "claim_background_job 9 ''j'' (job_run [Requeue ''j''] ?t1) = (t2, Some b)"
    by (simp add: defs)
  have "bj_attempts (to_running 7 (sample_job ''j'' ''queued'' 0)) = 1" by (simp add: defs)
  with late_finish_ignored [OF _ c1 c2, of "''succeeded''" 11 "[]" None "[]"] c2 show ?thesis
    by (auto simp: jobs_ok_def)
qed


lemma claim_one_shot_witness:
  "snd (claim_background_job 9 ''j'' (job_run [Heartbeat 8 ''j''] (fst (claim_background_job 7 ''j'' [sample_job ''j'' ''queued'' 0])))) = None"
  by (rule claim_one_shot [of "[sample_job ''j'' ''queued'' 0]" 7 _ _ "to_running 7 (sample_job ''j'' ''queued'' 0)"])
     (simp_all add: jobs_ok_def sample_job_def claim_background_job_def Let_def tbl_update_def with_status_def
       tbl_count_def get_background_job_def to_running_def)

end
