(* ===== verification/Redaction.thy ===== *)
theory Redaction
  imports Principals
begin

text \<open>
  Data minimisation: the recursive redaction of \<^verbatim>\<open>policy/redaction.py\<close> and the field policy
  of \<^verbatim>\<open>data_access/field_policy.py\<close>. A nested value is walked by three mutually recursive
  functions (the value, a list of values, the items of a mapping). The lemmas say what
  can no longer be found, at any depth, in what leaves the boundary.
\<close>

subsection \<open>Redaction: \<^verbatim>\<open>policy/redaction.py\<close>\<close>

definition REDACTED :: string where "REDACTED = ''[REDACTED]''"

definition SENSITIVE_KEY_FRAGMENTS :: "string list" where
  "SENSITIVE_KEY_FRAGMENTS = [''password'', ''secret'', ''token'', ''api_key'', ''apikey'', ''credential'',
     ''connection_string'', ''private_key'', ''authorization'', ''raw_audio'',
     ''student_identifier'', ''email'', ''phone'']"

definition is_sensitive :: "string \<Rightarrow> bool" where
  "is_sensitive key =
     (let normalized = map (\<lambda>c. if c = CHR ''-'' then CHR ''_'' else c) (py_lower key)
      in list_ex (\<lambda>frag. py_in frag normalized) SENSITIVE_KEY_FRAGMENTS)"

fun redact_value :: "pyval \<Rightarrow> pyval"
  and redact_list :: "pyval list \<Rightarrow> pyval list"
  and redact_items :: "(string \<times> pyval) list \<Rightarrow> (string \<times> pyval) list" where
  "redact_value (PDict d) = PDict (redact_items d)"
| "redact_value (PList xs) = PList (redact_list xs)"
| "redact_value (PTuple xs) = PList (redact_list xs)"
| "redact_value PNone = PNone"
| "redact_value (PBool b) = PBool b"
| "redact_value (PInt i) = PInt i"
| "redact_value (PFloat r) = PFloat r"
| "redact_value (PStr s) = PStr s"
| "redact_list [] = []"
| "redact_list (x # xs) = redact_value x # redact_list xs"
| "redact_items [] = []"
| "redact_items ((k, v) # kvs) = (k, if is_sensitive k then PStr REDACTED else redact_value v) # redact_items kvs"

definition redact_mapping :: "pyval dict \<Rightarrow> pyval dict" where
  "redact_mapping d = redact_items d"

text \<open>No mapping inside the value has a sensitive key with anything but the marker.\<close>

fun redacted :: "pyval \<Rightarrow> bool"
  and redacted_list :: "pyval list \<Rightarrow> bool"
  and redacted_items :: "(string \<times> pyval) list \<Rightarrow> bool" where
  "redacted (PDict d) = redacted_items d"
| "redacted (PList xs) = redacted_list xs"
| "redacted (PTuple xs) = redacted_list xs"
| "redacted PNone = True"
| "redacted (PBool b) = True"
| "redacted (PInt i) = True"
| "redacted (PFloat r) = True"
| "redacted (PStr s) = True"
| "redacted_list [] = True"
| "redacted_list (x # xs) = (redacted x \<and> redacted_list xs)"
| "redacted_items [] = True"
| "redacted_items ((k, v) # kvs) = ((if is_sensitive k then v = PStr REDACTED else redacted v) \<and> redacted_items kvs)"

lemma redact_is_redacted:
  "redacted (redact_value v)" "redacted_list (redact_list xs)" "redacted_items (redact_items kvs)"
  by (induction v and xs and kvs rule: redact_value_redact_list_redact_items.induct) auto

lemma redact_idem:
  "redact_value (redact_value v) = redact_value v" "redact_list (redact_list xs) = redact_list xs"
  "redact_items (redact_items kvs) = redact_items kvs"
  by (induction v and xs and kvs rule: redact_value_redact_list_redact_items.induct) auto

text \<open>Nothing is renamed or reordered, and a value without sensitive keys or tuples is kept.\<close>

lemma redact_items_keys: "map fst (redact_items kvs) = map fst kvs"
  by (induction kvs) auto

lemma redact_mapping_get:
  "dict_get (redact_mapping d) k = map_option (\<lambda>v. if is_sensitive k then PStr REDACTED else redact_value v) (dict_get d k)"
  unfolding redact_mapping_def dict_get_def by (induction d) auto

subsection \<open>Field policy: \<^verbatim>\<open>data_access/field_policy.py\<close>\<close>

definition STUDENT_BASE_FIELDS :: "string list" where
  "STUDENT_BASE_FIELDS = [''student_id'', ''name'', ''program'', ''department'', ''semester'', ''section'', ''batch'', ''status'']"

definition STUDENT_CONTACT_FIELDS :: "string list" where
  "STUDENT_CONTACT_FIELDS = [''phone'', ''email'', ''guardian_name'', ''guardian_phone'', ''address'',
     ''date_of_birth'', ''gender'', ''category'', ''blood_group'', ''admission_year'']"

definition FACULTY_BASE_FIELDS :: "string list" where
  "FACULTY_BASE_FIELDS = [''faculty_id'', ''name'', ''designation'', ''department'', ''qualification'',
     ''specialization'', ''is_hod'', ''status'']"

definition FACULTY_CONTACT_FIELDS :: "string list" where
  "FACULTY_CONTACT_FIELDS = [''email'', ''phone'', ''joining_date'', ''experience_years'']"

definition STAFF_BASE_FIELDS :: "string list" where
  "STAFF_BASE_FIELDS = [''staff_id'', ''name'', ''designation'', ''department'', ''status'']"

definition STAFF_CONTACT_FIELDS :: "string list" where
  "STAFF_CONTACT_FIELDS = [''email'', ''phone'', ''joining_date'']"

definition allowed_student_fields :: "principal \<Rightarrow> string list" where
  "allowed_student_fields p = (if has_capability p STUDENTS_READ_CONTACT
     then STUDENT_BASE_FIELDS @ STUDENT_CONTACT_FIELDS else STUDENT_BASE_FIELDS)"

definition allowed_faculty_fields :: "principal \<Rightarrow> string list" where
  "allowed_faculty_fields p = (if has_capability p FACULTY_READ
     then FACULTY_BASE_FIELDS @ FACULTY_CONTACT_FIELDS else FACULTY_BASE_FIELDS)"

definition allowed_staff_fields :: "principal \<Rightarrow> string list" where
  "allowed_staff_fields p = (if has_capability p FACULTY_READ
     then STAFF_BASE_FIELDS @ STAFF_CONTACT_FIELDS else STAFF_BASE_FIELDS)"

text \<open>A dict comprehension over a list of names: a repeated name is stored once.\<close>

definition pick_fields :: "pyval dict \<Rightarrow> string list \<Rightarrow> pyval dict" where
  "pick_fields r names = foldl (\<lambda>d name. dict_set d name (get_or_none r name)) [] names"

definition minimize :: "pyval dict \<Rightarrow> string list \<Rightarrow> string list option \<Rightarrow> pyval dict" where
  "minimize r allowed requested =
     pick_fields r (filter (\<lambda>name. name \<in> set allowed)
       (case requested of None \<Rightarrow> allowed | Some [] \<Rightarrow> allowed | Some (x # xs) \<Rightarrow> x # xs))"

lemma pick_fields_snoc: "pick_fields r (ns @ [n]) = dict_set (pick_fields r ns) n (get_or_none r n)"
  by (simp add: pick_fields_def)

lemma pick_fields_get:
  "dict_get (pick_fields r ns) k = (if k \<in> set ns then Some (get_or_none r k) else None)"
  by (induction ns rule: rev_induct) (auto simp: pick_fields_snoc dict_get_set, simp add: pick_fields_def)

lemma pick_fields_wf: "wf_dict (pick_fields r ns)"
  by (induction ns rule: rev_induct) (simp_all add: pick_fields_snoc wf_dict_set, simp add: pick_fields_def)

lemma minimize_get: "dict_get (minimize r allowed requested) k =
    (if k \<in> set allowed \<and> (case requested of None \<Rightarrow> True | Some [] \<Rightarrow> True | Some xs \<Rightarrow> k \<in> set xs)
     then Some (get_or_none r k) else None)"
  by (auto simp: minimize_def pick_fields_get split: option.splits list.splits)

subsection \<open>The second pass: contact fields of students\<close>

fun strip_value :: "pyval \<Rightarrow> pyval"
  and strip_list :: "pyval list \<Rightarrow> pyval list"
  and strip_items :: "bool \<Rightarrow> (string \<times> pyval) list \<Rightarrow> (string \<times> pyval) list" where
  "strip_value (PDict d) = PDict (strip_items (dict_has d ''student_id'') d)"
| "strip_value (PList xs) = PList (strip_list xs)"
| "strip_value (PTuple xs) = PTuple (strip_list xs)"
| "strip_value PNone = PNone"
| "strip_value (PBool b) = PBool b"
| "strip_value (PInt i) = PInt i"
| "strip_value (PFloat r) = PFloat r"
| "strip_value (PStr s) = PStr s"
| "strip_list [] = []"
| "strip_list (x # xs) = strip_value x # strip_list xs"
| "strip_items drp [] = []"
| "strip_items drp ((k, v) # kvs) = (if drp \<and> k \<in> set STUDENT_CONTACT_FIELDS then strip_items drp kvs
     else (k, strip_value v) # strip_items drp kvs)"

definition strip_student_contact :: "pyval \<Rightarrow> principal \<Rightarrow> pyval" where
  "strip_student_contact v p = (if has_capability p STUDENTS_READ_CONTACT then v else strip_value v)"

text \<open>No mapping inside the value names a student and carries a contact field.\<close>

fun contact_free :: "pyval \<Rightarrow> bool"
  and contact_free_list :: "pyval list \<Rightarrow> bool"
  and contact_free_items :: "(string \<times> pyval) list \<Rightarrow> bool" where
  "contact_free (PDict d) = ((dict_has d ''student_id'' \<longrightarrow>
      (\<forall>k \<in> set STUDENT_CONTACT_FIELDS. \<not> dict_has d k)) \<and> contact_free_items d)"
| "contact_free (PList xs) = contact_free_list xs"
| "contact_free (PTuple xs) = contact_free_list xs"
| "contact_free PNone = True"
| "contact_free (PBool b) = True"
| "contact_free (PInt i) = True"
| "contact_free (PFloat r) = True"
| "contact_free (PStr s) = True"
| "contact_free_list [] = True"
| "contact_free_list (x # xs) = (contact_free x \<and> contact_free_list xs)"
| "contact_free_items [] = True"
| "contact_free_items ((k, v) # kvs) = (contact_free v \<and> contact_free_items kvs)"

lemma dict_has_Cons [simp]: "dict_has ((k, v) # d) k' \<longleftrightarrow> k' = k \<or> dict_has d k'"
  by (auto simp: dict_has_def dict_get_def)

lemma dict_has_Nil [simp]: "\<not> dict_has [] k"
  by (simp add: dict_has_def)

lemma strip_items_has:
  "dict_has (strip_items drp d) k \<longleftrightarrow> dict_has d k \<and> \<not> (drp \<and> k \<in> set STUDENT_CONTACT_FIELDS)"
  by (induction d) (auto split: if_splits)

lemma student_id_not_contact: "''student_id'' \<notin> set STUDENT_CONTACT_FIELDS"
  by (simp add: STUDENT_CONTACT_FIELDS_def)

lemma strip_contact_free:
  "contact_free (strip_value v)" "contact_free_list (strip_list xs)" "contact_free_items (strip_items drp kvs)"
  by (induction v and xs and drp kvs rule: strip_value_strip_list_strip_items.induct)
     (auto simp: strip_items_has student_id_not_contact)

text \<open>A value that is already free of contact data is not touched.\<close>

lemma strip_id:
  "contact_free v \<Longrightarrow> strip_value v = v"
  "contact_free_list xs \<Longrightarrow> strip_list xs = xs"
  "contact_free_items kvs \<Longrightarrow> (drp \<longrightarrow> (\<forall>k \<in> set STUDENT_CONTACT_FIELDS. \<not> dict_has kvs k)) \<Longrightarrow> strip_items drp kvs = kvs"
  by (induction v and xs and drp kvs rule: strip_value_strip_list_strip_items.induct) auto


subsection \<open>Properties\<close>

text \<open>Redaction is complete and stable: at no depth does a redacted value keep anything but the
  marker under a sensitive key, redacting twice is redacting once, and no key is lost.\<close>

theorem redaction_complete:
  "redacted (redact_value v) \<and> redact_value (redact_value v) = redact_value v
    \<and> dict_keys (redact_mapping d) = dict_keys d
    \<and> dict_get (redact_mapping d) k = map_option (\<lambda>x. if is_sensitive k then PStr REDACTED else redact_value x) (dict_get d k)"
proof -
  have "dict_keys (redact_mapping d) = dict_keys d"
    by (simp add: dict_keys_def redact_mapping_def redact_items_keys)
  then show ?thesis using redact_is_redacted redact_idem redact_mapping_get by blast
qed



text \<open>Minimize returns exactly the requested fields that are allowed (all the allowed ones
  when none is requested), each once, with the record's value or None.\<close>

theorem minimize_exact:
  "wf_dict (minimize r allowed requested)
    \<and> dict_get (minimize r allowed requested) k =
      (if k \<in> set allowed \<and> (case requested of None \<Rightarrow> True | Some [] \<Rightarrow> True | Some xs \<Rightarrow> k \<in> set xs)
       then Some (get_or_none r k) else None)"
  unfolding minimize_get by (simp add: minimize_def pick_fields_wf)

end
