(* ===== verification/ToolSpec.thy ===== *)
theory ToolSpec
  imports Policy Redaction
begin

text \<open>
  Tool specifications and the registry: \<^verbatim>\<open>gateway/spec.py\<close> and \<^verbatim>\<open>gateway/registry.py\<close>. A
  tool declares its parameters; \<open>validate_arguments\<close> turns what a planner proposes into the
  arguments a handler may see, or rejects it. Finite floats are rationals; \<open>rep\<close> is what
  \<^verbatim>\<open>repr\<close> prints of a number or a container, and \<open>flt\<close> is \<^verbatim>\<open>float(text)\<close>. The lemmas bound
  what validated arguments can contain.
\<close>

subsection \<open>Risk levels and parameters\<close>

datatype risk_level = RISK_READ | RISK_WRITE | RISK_HIGH

fun risk_value :: "risk_level \<Rightarrow> string" where
  "risk_value RISK_READ = ''read''"
| "risk_value RISK_WRITE = ''write''"
| "risk_value RISK_HIGH = ''high_risk''"

fun pdp_action_of :: "risk_level \<Rightarrow> string" where
  "pdp_action_of RISK_READ = ''retrieve''"
| "pdp_action_of RISK_WRITE = ''execute''"
| "pdp_action_of RISK_HIGH = ''high_risk''"

lemma pdp_action_known: "pdp_action_of r \<in> set known_actions"
  by (cases r) (simp_all add: known_actions_def)

record param_spec =
  ps_name :: string
  ps_type :: string
  ps_description :: string
  ps_required :: bool
  ps_enum :: "string list"
  ps_minimum :: "rat option"
  ps_maximum :: "rat option"
  ps_max_length :: int
  ps_items_type :: string
  ps_default :: pyval

definition param_json_schema :: "param_spec \<Rightarrow> pyval dict" where
  "param_json_schema p =
     [(''type'', PStr (ps_type p)), (''description'', PStr (ps_description p))]
     @ (if ps_enum p = [] then [] else [(''enum'', PList (map PStr (ps_enum p)))])
     @ (case ps_minimum p of None \<Rightarrow> [] | Some m \<Rightarrow> [(''minimum'', PFloat m)])
     @ (case ps_maximum p of None \<Rightarrow> [] | Some m \<Rightarrow> [(''maximum'', PFloat m)])
     @ (if ps_type p = ''string'' then [(''maxLength'', PInt (ps_max_length p))] else [])
     @ (if ps_type p = ''array'' then [(''items'', PDict [(''type'', PStr (ps_items_type p))]),
          (''maxItems'', PInt (ps_max_length p))] else [])
     @ (if ps_default p = PNone then [] else [(''default'', ps_default p)])"

subsection \<open>Coercion\<close>

definition within_bounds :: "param_spec \<Rightarrow> rat \<Rightarrow> bool" where
  "within_bounds p v = ((case ps_minimum p of None \<Rightarrow> True | Some m \<Rightarrow> m \<le> v)
     \<and> (case ps_maximum p of None \<Rightarrow> True | Some m \<Rightarrow> v \<le> m))"

definition check_bounds :: "(pyval \<Rightarrow> string) \<Rightarrow> param_spec \<Rightarrow> rat \<Rightarrow> unit res" where
  "check_bounds rep p v =
     (if (case ps_minimum p of None \<Rightarrow> False | Some m \<Rightarrow> v < m)
        then Inl (ValueError (ps_name p @ '' must be at least '' @ rep (PFloat (the (ps_minimum p)))))
      else if (case ps_maximum p of None \<Rightarrow> False | Some m \<Rightarrow> m < v)
        then Inl (ValueError (ps_name p @ '' must be at most '' @ rep (PFloat (the (ps_maximum p)))))
      else Inr ())"

lemma check_bounds_Inr: "check_bounds rep p v = Inr u \<longleftrightarrow> within_bounds p v"
  by (auto simp: check_bounds_def within_bounds_def split: option.splits)

definition coerce_string :: "(pyval \<Rightarrow> string) \<Rightarrow> param_spec \<Rightarrow> pyval \<Rightarrow> pyval res" where
  "coerce_string rep p v =
     (case (case v of PInt i \<Rightarrow> Some (int_str i) | PFloat r \<Rightarrow> Some (rep v) | PStr s \<Rightarrow> Some s | _ \<Rightarrow> None) of
        None \<Rightarrow> Inl (ValueError (ps_name p @ '' must be a string''))
      | Some s \<Rightarrow>
          (let t = py_strip s in
           if ps_max_length p < int (length t)
             then Inl (ValueError (ps_name p @ '' exceeds '' @ int_str (ps_max_length p) @ '' characters''))
           else if ps_enum p \<noteq> [] \<and> py_lower t \<notin> set (map py_lower (ps_enum p))
             then Inl (ValueError (ps_name p @ '' must be one of: '' @ py_join '', '' (ps_enum p)))
           else Inr (PStr t)))"

definition coerce_integer :: "(pyval \<Rightarrow> string) \<Rightarrow> param_spec \<Rightarrow> pyval \<Rightarrow> pyval res" where
  "coerce_integer rep p v =
     (case (case v of
          PStr s \<Rightarrow> py_int_of (py_rstrip_char CHR ''%'' (py_strip s))
        | PFloat r \<Rightarrow> (if of_int \<lfloor>r\<rfloor> = r then Some \<lfloor>r\<rfloor> else None)
        | PInt i \<Rightarrow> Some i
        | _ \<Rightarrow> None) of
        None \<Rightarrow> Inl (ValueError (ps_name p @ '' must be an integer''))
      | Some i \<Rightarrow> bindE (check_bounds rep p (of_int i)) (\<lambda>_. Inr (PInt i)))"

definition coerce_number :: "(pyval \<Rightarrow> string) \<Rightarrow> (string \<Rightarrow> rat option) \<Rightarrow> param_spec \<Rightarrow> pyval \<Rightarrow> pyval res" where
  "coerce_number rep flt p v =
     (case (case v of
          PStr s \<Rightarrow> flt (py_rstrip_char CHR ''%'' (py_strip s))
        | PFloat r \<Rightarrow> Some r
        | PInt i \<Rightarrow> Some (of_int i)
        | _ \<Rightarrow> None) of
        None \<Rightarrow> Inl (ValueError (ps_name p @ '' must be a number''))
      | Some r \<Rightarrow> bindE (check_bounds rep p r) (\<lambda>_. Inr (PFloat r)))"

definition coerce_boolean :: "param_spec \<Rightarrow> pyval \<Rightarrow> pyval res" where
  "coerce_boolean p v = (case v of
     PBool b \<Rightarrow> Inr (PBool b)
   | PStr s \<Rightarrow> (if py_lower (py_strip s) \<in> {''true'', ''yes'', ''1''} then Inr (PBool True)
       else if py_lower (py_strip s) \<in> {''false'', ''no'', ''0''} then Inr (PBool False)
       else Inl (ValueError (ps_name p @ '' must be a boolean'')))
   | _ \<Rightarrow> Inl (ValueError (ps_name p @ '' must be a boolean'')))"

definition coerce_item :: "(pyval \<Rightarrow> string) \<Rightarrow> param_spec \<Rightarrow> pyval \<Rightarrow> pyval res" where
  "coerce_item rep p item =
     (if ps_items_type p = ''string'' then
        (case item of
           PStr s \<Rightarrow> Inr (PStr (take 500 (py_strip s)))
         | PInt i \<Rightarrow> Inr (PStr (take 500 (py_strip (int_str i))))
         | PFloat r \<Rightarrow> Inr (PStr (take 500 (py_strip (rep item))))
         | _ \<Rightarrow> Inl (ValueError (ps_name p @ '' items must be strings'')))
      else if ps_items_type p = ''object'' then
        (case item of PDict d \<Rightarrow> Inr (PDict d) | _ \<Rightarrow> Inl (ValueError (ps_name p @ '' items must be objects'')))
      else Inr item)"

definition coerce_array :: "(pyval \<Rightarrow> string) \<Rightarrow> param_spec \<Rightarrow> pyval \<Rightarrow> pyval res" where
  "coerce_array rep p v =
     (case (case v of
          PStr s \<Rightarrow> Some (map (PStr \<circ> py_strip) (filter (\<lambda>x. py_strip x \<noteq> []) (split_on CHR '','' s)))
        | PList xs \<Rightarrow> Some xs
        | PTuple xs \<Rightarrow> Some xs
        | _ \<Rightarrow> None) of
        None \<Rightarrow> Inl (ValueError (ps_name p @ '' must be an array''))
      | Some xs \<Rightarrow>
          if ps_max_length p < int (length xs)
            then Inl (ValueError (ps_name p @ '' exceeds '' @ int_str (ps_max_length p) @ '' items''))
          else bindE (mapE (coerce_item rep p) xs) (\<lambda>ys. Inr (PList ys)))"

definition coerce_entry :: "param_spec \<Rightarrow> string \<times> pyval \<Rightarrow> (string \<times> pyval) res" where
  "coerce_entry p kv = (case kv of (k, x) \<Rightarrow>
     if blank k then Inl (ValueError (ps_name p @ '' keys must be non-empty strings''))
     else (case x of
         PDict _ \<Rightarrow> Inl (ValueError (ps_name p @ ''.'' @ k @ '' must be a scalar value, not a nested object or list''))
       | PList _ \<Rightarrow> Inl (ValueError (ps_name p @ ''.'' @ k @ '' must be a scalar value, not a nested object or list''))
       | PTuple _ \<Rightarrow> Inl (ValueError (ps_name p @ ''.'' @ k @ '' must be a scalar value, not a nested object or list''))
       | _ \<Rightarrow> Inr (k, x)))"

definition coerce_object :: "param_spec \<Rightarrow> pyval \<Rightarrow> pyval res" where
  "coerce_object p v = (case v of
     PDict d \<Rightarrow>
       if ps_max_length p < int (length d) then Inl (ValueError (ps_name p @ '' has too many keys''))
       else bindE (mapE (coerce_entry p) d) (\<lambda>d'. Inr (PDict d'))
   | _ \<Rightarrow> Inl (ValueError (ps_name p @ '' must be an object'')))"

definition coerce :: "(pyval \<Rightarrow> string) \<Rightarrow> (string \<Rightarrow> rat option) \<Rightarrow> param_spec \<Rightarrow> pyval \<Rightarrow> pyval res" where
  "coerce rep flt p v =
     (if ps_type p = ''string'' then coerce_string rep p v
      else if ps_type p = ''integer'' then coerce_integer rep p v
      else if ps_type p = ''number'' then coerce_number rep flt p v
      else if ps_type p = ''boolean'' then coerce_boolean p v
      else if ps_type p = ''array'' then coerce_array rep p v
      else if ps_type p = ''object'' then coerce_object p v
      else Inl (ValueError (''unsupported parameter type for '' @ ps_name p)))"


text \<open>What a coerced value looks like: the type, the length or size limit, the bounds, the enumeration.\<close>

definition fits :: "param_spec \<Rightarrow> pyval \<Rightarrow> bool" where
  "fits p v = (case v of
     PStr s \<Rightarrow> ps_type p = ''string'' \<and> int (length s) \<le> ps_max_length p \<and> py_strip s = s
       \<and> (ps_enum p = [] \<or> py_lower s \<in> set (map py_lower (ps_enum p)))
   | PInt i \<Rightarrow> ps_type p = ''integer'' \<and> within_bounds p (of_int i)
   | PFloat r \<Rightarrow> ps_type p = ''number'' \<and> within_bounds p r
   | PBool b \<Rightarrow> ps_type p = ''boolean''
   | PList xs \<Rightarrow> ps_type p = ''array'' \<and> int (length xs) \<le> ps_max_length p
       \<and> (ps_items_type p = ''string'' \<longrightarrow> list_all (\<lambda>x. \<exists>s. x = PStr s \<and> length s \<le> 500) xs)
   | PDict d \<Rightarrow> ps_type p = ''object'' \<and> int (length d) \<le> ps_max_length p
       \<and> list_all (\<lambda>(k, x). \<not> blank k \<and> as_dict_val x = None \<and> as_list x = None) d
   | _ \<Rightarrow> False)"

lemma coerce_string_fits: "coerce_string rep p v = Inr w \<Longrightarrow> ps_type p = ''string'' \<Longrightarrow> fits p w"
  by (auto simp: coerce_string_def fits_def Let_def split: option.splits if_splits)

lemma coerce_integer_fits: "coerce_integer rep p v = Inr w \<Longrightarrow> ps_type p = ''integer'' \<Longrightarrow> fits p w"
  by (auto simp: coerce_integer_def fits_def bindE_eq_Inr check_bounds_Inr split: option.splits)

lemma coerce_number_fits: "coerce_number rep flt p v = Inr w \<Longrightarrow> ps_type p = ''number'' \<Longrightarrow> fits p w"
  by (auto simp: coerce_number_def fits_def bindE_eq_Inr check_bounds_Inr split: option.splits)

lemma coerce_boolean_fits: "coerce_boolean p v = Inr w \<Longrightarrow> ps_type p = ''boolean'' \<Longrightarrow> fits p w"
  by (auto simp: coerce_boolean_def fits_def split: pyval.splits if_splits)

lemma coerce_item_string: "coerce_item rep p x = Inr y \<Longrightarrow> ps_items_type p = ''string'' \<Longrightarrow> \<exists>s. y = PStr s \<and> length s \<le> 500"
  by (auto simp: coerce_item_def split: pyval.splits)

lemma coerce_array_fits: "coerce_array rep p v = Inr w \<Longrightarrow> ps_type p = ''array'' \<Longrightarrow> fits p w"
proof -
  assume c: "coerce_array rep p v = Inr w" and t: "ps_type p = ''array''"
  from c obtain xs ys where x: "mapE (coerce_item rep p) xs = Inr ys" "w = PList ys" "int (length xs) \<le> ps_max_length p"
    by (auto simp: coerce_array_def bindE_eq_Inr split: option.splits if_splits)
  have "\<exists>s. y = PStr s \<and> length s \<le> 500" if "y \<in> set ys" "ps_items_type p = ''string''" for y
    using mapE_set [OF x(1) that(1)] coerce_item_string that(2) by blast
  with x t show ?thesis by (auto simp: fits_def list_all_iff dest: mapE_length)
qed

lemma coerce_entry_ok: "coerce_entry p kv = Inr (k, x) \<Longrightarrow> \<not> blank k \<and> as_dict_val x = None \<and> as_list x = None"
  by (auto simp: coerce_entry_def split: prod.splits if_splits pyval.splits)

lemma coerce_object_fits: "coerce_object p v = Inr w \<Longrightarrow> ps_type p = ''object'' \<Longrightarrow> fits p w"
proof -
  assume c: "coerce_object p v = Inr w" and t: "ps_type p = ''object''"
  from c obtain d d' where d: "mapE (coerce_entry p) d = Inr d'" "w = PDict d'" "int (length d) \<le> ps_max_length p"
    by (auto simp: coerce_object_def bindE_eq_Inr split: pyval.splits if_splits)
  have "\<not> blank k \<and> as_dict_val x = None \<and> as_list x = None" if "(k, x) \<in> set d'" for k x
    using mapE_set [OF d(1) that] coerce_entry_ok by blast
  with d t show ?thesis by (auto simp: fits_def list_all_iff dest: mapE_length)
qed

lemma coerce_fits: "coerce rep flt p v = Inr w \<Longrightarrow> fits p w"
  unfolding coerce_def
  using coerce_string_fits coerce_integer_fits coerce_number_fits coerce_boolean_fits coerce_array_fits coerce_object_fits
  by (auto split: if_splits)

subsection \<open>Tools\<close>

record tool_context =
  ctx_request_id :: string
  ctx_principal :: principal
  ctx_scope :: scope
  ctx_channel :: string
  ctx_limits :: query_limits
  ctx_approval_id :: "string option"
  ctx_conversation_id :: "string option"

definition institution_id :: "tool_context \<Rightarrow> string" where
  "institution_id ctx = college_id (ctx_scope ctx)"

record tool_output =
  to_data :: pyval
  to_summary :: string
  to_warnings :: "pyval list"
  to_provenance :: "pyval list"
  to_records_returned :: int
  to_artifacts :: "pyval list"

text \<open>
  A handler runs in a world of its own (the other stores and services): it changes it and
  answers with an output, with a bare value, or with an exception. A validator reads it.
\<close>

datatype handler_output = Output tool_output | Bare pyval

record 'w tool =
  tool_name :: string
  tool_description :: string
  tool_group :: string
  tool_capability :: capability
  tool_handler :: "tool_context \<Rightarrow> pyval dict \<Rightarrow> 'w \<Rightarrow> 'w \<times> handler_output res"
  tool_parameters :: "param_spec list"
  tool_risk :: risk_level
  tool_returns :: string
  tool_allowed_fields :: "string list"
  tool_audit_policy :: string
  tool_examples :: "string list"
  tool_validator :: "(tool_context \<Rightarrow> pyval dict \<Rightarrow> 'w \<Rightarrow> pyval dict res) option"

definition check_tool :: "'w tool \<Rightarrow> 'w tool res" where
  "check_tool tool =
     (let bare = filter (\<lambda>c. c \<noteq> CHR ''_'') (tool_name tool); names = map ps_name (tool_parameters tool)
      in if blank (tool_name tool) \<or> \<not> (bare \<noteq> [] \<and> list_all is_alnum bare) \<or> tool_name tool \<noteq> py_lower (tool_name tool)
           then Inl (ValueError ''tool names must be lowercase snake_case'')
         else if card (set names) \<noteq> length names
           then Inl (ValueError (''duplicate parameter in tool '' @ tool_name tool))
         else Inr tool)"

definition pdp_action :: "'w tool \<Rightarrow> string" where
  "pdp_action tool = pdp_action_of (tool_risk tool)"

definition tool_json_schema :: "'w tool \<Rightarrow> pyval dict" where
  "tool_json_schema tool = [
     (''name'', PStr (tool_name tool)),
     (''description'', PStr (tool_description tool)),
     (''group'', PStr (tool_group tool)),
     (''risk'', PStr (risk_value (tool_risk tool))),
     (''permission'', PStr (cap_value (tool_capability tool))),
     (''parameters'', PDict [
        (''type'', PStr ''object''),
        (''properties'', PDict (map (\<lambda>p. (ps_name p, PDict (param_json_schema p))) (tool_parameters tool))),
        (''required'', PList (map (PStr \<circ> ps_name) (filter ps_required (tool_parameters tool)))),
        (''additionalProperties'', PBool False)]),
     (''returns'', PStr (tool_returns tool))]"

definition wf_tool :: "'w tool \<Rightarrow> bool" where
  "wf_tool tool = (check_tool tool = Inr tool)"

lemma wf_tool_iff: "wf_tool tool \<longleftrightarrow> \<not> blank (tool_name tool)
    \<and> filter (\<lambda>c. c \<noteq> CHR ''_'') (tool_name tool) \<noteq> []
    \<and> list_all is_alnum (filter (\<lambda>c. c \<noteq> CHR ''_'') (tool_name tool))
    \<and> tool_name tool = py_lower (tool_name tool) \<and> distinct (map ps_name (tool_parameters tool))"
proof -
  have "card (set (map ps_name ps)) = length (map ps_name ps) \<longleftrightarrow> distinct (map ps_name ps)" for ps
    using card_distinct distinct_card by metis
  then show ?thesis by (auto simp: wf_tool_def check_tool_def Let_def)
qed

subsection \<open>Argument validation\<close>

definition dict_or :: "pyval dict \<Rightarrow> string \<Rightarrow> pyval \<Rightarrow> pyval" where
  "dict_or d k v = (case dict_get d k of None \<Rightarrow> v | Some x \<Rightarrow> x)"

fun validate_params :: "(pyval \<Rightarrow> string) \<Rightarrow> (string \<Rightarrow> rat option) \<Rightarrow> string \<Rightarrow> pyval dict
    \<Rightarrow> param_spec list \<Rightarrow> pyval dict \<Rightarrow> pyval dict res" where
  "validate_params rep flt nm supplied [] result = Inr result"
| "validate_params rep flt nm supplied (p # ps) result =
     (let v = dict_or supplied (ps_name p) (ps_default p) in
      if v = PNone \<or> v = PStr [] then
        (if ps_required p then Inl (ValueError (nm @ '' requires argument '' @ ps_name p))
         else validate_params rep flt nm supplied ps result)
      else bindE (coerce rep flt p v) (\<lambda>w.
        validate_params rep flt nm supplied ps (dict_set result (ps_name p) w)))"

definition validate_arguments :: "(pyval \<Rightarrow> string) \<Rightarrow> (string \<Rightarrow> rat option) \<Rightarrow> 'w tool
    \<Rightarrow> pyval dict option \<Rightarrow> pyval dict res" where
  "validate_arguments rep flt tool arguments =
     (let supplied = (case arguments of None \<Rightarrow> [] | Some d \<Rightarrow> d);
          unknown = sort (remdups (filter (\<lambda>k. k \<notin> set (map ps_name (tool_parameters tool))) (dict_keys supplied)))
      in if unknown \<noteq> []
           then Inl (ValueError (''unknown argument(s) for '' @ tool_name tool @ '': '' @ py_join '', '' unknown))
         else validate_params rep flt (tool_name tool) supplied (tool_parameters tool) [])"

text \<open>Validated arguments: known names only, every required one present, every value fitting.\<close>

definition arguments_ok :: "param_spec list \<Rightarrow> pyval dict \<Rightarrow> bool" where
  "arguments_ok ps d = (wf_dict d
     \<and> (\<forall>k v. dict_get d k = Some v \<longrightarrow> (\<exists>p \<in> set ps. ps_name p = k \<and> fits p v))
     \<and> (\<forall>p \<in> set ps. ps_required p \<longrightarrow> dict_has d (ps_name p)))"

lemma validate_params_keys:
  "validate_params rep flt nm supplied ps result = Inr d
    \<Longrightarrow> dict_get d k = Some v \<Longrightarrow> dict_get result k = Some v \<or> (\<exists>p \<in> set ps. ps_name p = k \<and> fits p v)"
proof (induction ps arbitrary: result)
  case (Cons p ps)
  show ?case
  proof (cases "dict_or supplied (ps_name p) (ps_default p) \<in> {PNone, PStr []}")
    case True
    with Cons show ?thesis by (auto simp: Let_def split: if_splits)
  next
    case False
    with Cons.prems(1) obtain w where w: "coerce rep flt p (dict_or supplied (ps_name p) (ps_default p)) = Inr w"
        "validate_params rep flt nm supplied ps (dict_set result (ps_name p) w) = Inr d"
      by (auto simp: Let_def bindE_eq_Inr)
    from Cons.IH [OF w(2) Cons.prems(2)] coerce_fits [OF w(1)] show ?thesis
      by (auto simp: dict_get_set split: if_splits)
  qed
qed simp

lemma validate_params_keeps:
  "validate_params rep flt nm supplied ps result = Inr d \<Longrightarrow> dict_has result k \<Longrightarrow> dict_has d k"
proof (induction ps arbitrary: result)
  case (Cons p ps)
  then show ?case by (fastforce simp: Let_def bindE_eq_Inr split: if_splits)
qed simp

lemma validate_params_required:
  "validate_params rep flt nm supplied ps result = Inr d \<Longrightarrow> p \<in> set ps \<Longrightarrow> ps_required p \<Longrightarrow> dict_has d (ps_name p)"
proof (induction ps arbitrary: result)
  case (Cons q ps)
  show ?case
  proof (cases "dict_or supplied (ps_name q) (ps_default q) \<in> {PNone, PStr []}")
    case True
    with Cons show ?thesis by (auto simp: Let_def split: if_splits)
  next
    case False
    with Cons.prems(1) obtain w where w:
        "validate_params rep flt nm supplied ps (dict_set result (ps_name q) w) = Inr d"
      by (auto simp: Let_def bindE_eq_Inr)
    show ?thesis
    proof (cases "p = q")
      case True
      with validate_params_keeps [OF w, of "ps_name q"] show ?thesis by simp
    next
      case False
      with Cons.IH [OF w] Cons.prems(2,3) show ?thesis by simp
    qed
  qed
qed simp

lemma validate_params_wf:
  "validate_params rep flt nm supplied ps result = Inr d \<Longrightarrow> wf_dict result \<Longrightarrow> wf_dict d"
proof (induction ps arbitrary: result)
  case (Cons p ps)
  then show ?case by (fastforce simp: Let_def bindE_eq_Inr wf_dict_set split: if_splits)
qed simp

lemma validate_arguments_ok:
  assumes "validate_arguments rep flt tool args = Inr d"
  shows "arguments_ok (tool_parameters tool) d"
proof -
  from assms obtain supplied where
    v: "validate_params rep flt (tool_name tool) supplied (tool_parameters tool) [] = Inr d"
    by (auto simp: validate_arguments_def Let_def split: if_splits)
  show ?thesis
    unfolding arguments_ok_def
    using validate_params_wf [OF v] validate_params_keys [OF v] validate_params_required [OF v] by auto
qed

text \<open>Nothing unknown is silently dropped.\<close>

lemma validate_arguments_known:
  assumes "validate_arguments rep flt tool (Some args) = Inr d"
  shows "set (dict_keys args) \<subseteq> ps_name ` set (tool_parameters tool)"
proof -
  from assms have "remdups (filter (\<lambda>k. k \<notin> set (map ps_name (tool_parameters tool))) (dict_keys args)) = []"
    by (auto simp: validate_arguments_def Let_def split: if_splits) (metis set_empty2 set_remdups set_sort)
  then show ?thesis by (auto simp: filter_empty_conv)
qed

subsection \<open>The registry: \<^verbatim>\<open>gateway/registry.py\<close>\<close>

type_synonym 'w tool_registry = "'w tool dict"

definition register_tool :: "'w tool \<Rightarrow> 'w tool_registry \<Rightarrow> 'w tool_registry res" where
  "register_tool tool reg =
     (if dict_has reg (tool_name tool) then Inl (ValueError (''platform tool already registered: '' @ tool_name tool))
      else Inr (dict_set reg (tool_name tool) tool))"

fun make_registry :: "'w tool list \<Rightarrow> 'w tool_registry \<Rightarrow> 'w tool_registry res" where
  "make_registry [] reg = Inr reg"
| "make_registry (tool # ts) reg = bindE (register_tool tool reg) (make_registry ts)"

definition get_tool :: "string \<Rightarrow> 'w tool_registry \<Rightarrow> 'w tool res" where
  "get_tool name reg = (case dict_get reg name of
     Some tool \<Rightarrow> Inr tool | None \<Rightarrow> Inl (KeyError (''platform tool not registered: '' @ name)))"

definition has_tool :: "string \<Rightarrow> 'w tool_registry \<Rightarrow> bool" where
  "has_tool name reg = dict_has reg name"

definition all_tools :: "'w tool_registry \<Rightarrow> 'w tool list" where
  "all_tools reg = dict_values reg"

definition tools_for_principal :: "principal \<Rightarrow> 'w tool_registry \<Rightarrow> 'w tool list" where
  "tools_for_principal p reg = filter (\<lambda>tool. has_capability p (tool_capability tool)) (dict_values reg)"

definition tool_groups :: "'w tool_registry \<Rightarrow> string list dict" where
  "tool_groups reg = foldl (\<lambda>d tool. dict_set d (tool_group tool)
     ((case dict_get d (tool_group tool) of None \<Rightarrow> [] | Some ns \<Rightarrow> ns) @ [tool_name tool])) [] (dict_values reg)"

definition describe_tools :: "principal option \<Rightarrow> 'w tool_registry \<Rightarrow> pyval dict list" where
  "describe_tools p reg = map tool_json_schema (case p of None \<Rightarrow> all_tools reg | Some q \<Rightarrow> tools_for_principal q reg)"

text \<open>A registry is keyed by the names of its tools.\<close>

definition wf_registry :: "'w tool_registry \<Rightarrow> bool" where
  "wf_registry reg = (wf_dict reg \<and> (\<forall>(k, tool) \<in> set reg. tool_name tool = k \<and> wf_tool tool))"

lemma register_tool_wf [inv_intros]:
  "register_tool tool reg = Inr reg' \<Longrightarrow> wf_registry reg \<Longrightarrow> wf_tool tool \<Longrightarrow> wf_registry reg'"
proof -
  assume r: "register_tool tool reg = Inr reg'" and w: "wf_registry reg" "wf_tool tool"
  from r have n: "\<not> dict_has reg (tool_name tool)" and e: "reg' = dict_set reg (tool_name tool) tool"
    by (auto simp: register_tool_def split: if_splits)
  have "wf_dict reg'" using w e by (simp add: wf_registry_def wf_dict_set)
  with w show ?thesis unfolding e dict_set_new [OF n] by (auto simp: wf_registry_def)
qed

lemma make_registry_wf [inv_intros]:
  "make_registry ts reg = Inr reg' \<Longrightarrow> wf_registry reg \<Longrightarrow> list_all wf_tool ts \<Longrightarrow> wf_registry reg'"
  by (induction ts arbitrary: reg) (auto simp: bindE_eq_Inr dest: register_tool_wf)

lemma get_tool_name: "wf_registry reg \<Longrightarrow> get_tool name reg = Inr tool \<Longrightarrow> tool_name tool = name \<and> wf_tool tool"
  unfolding get_tool_def dict_get_def wf_registry_def
  by (auto split: option.splits dest!: map_of_SomeD)

lemma has_tool_get: "has_tool name reg \<longleftrightarrow> (\<exists>tool. get_tool name reg = Inr tool)"
  by (auto simp: has_tool_def dict_has_def get_tool_def split: option.splits)

lemma describe_only_permitted:
  "tool \<in> set (tools_for_principal p reg) \<Longrightarrow> has_capability p (tool_capability tool)"
  by (simp add: tools_for_principal_def)


subsection \<open>Properties\<close>


definition sample_param :: param_spec where
  "sample_param = \<lparr>ps_name = ''limit'', ps_type = ''integer'', ps_description = [], ps_required = True, ps_enum = [],
     ps_minimum = Some 1, ps_maximum = Some 50, ps_max_length = 500, ps_items_type = ''string'', ps_default = PNone\<rparr>"

definition sample_limit_tool :: "unit tool" where
  "sample_limit_tool = \<lparr>tool_name = ''find'', tool_description = [], tool_group = [], tool_capability = STUDENTS_READ,
     tool_handler = (\<lambda>ctx args w. (w, Inr (Bare PNone))), tool_parameters = [sample_param], tool_risk = RISK_READ,
     tool_returns = [], tool_allowed_fields = [], tool_audit_policy = [], tool_examples = [], tool_validator = None\<rparr>"


end
