(* ===== verification/Approvals.thy ===== *)
theory Approvals
  imports SqlTable
begin

text \<open>
  The approvals table of \<^verbatim>\<open>institution_data/store.py\<close> (lines 1233-1300): one row per
  confirmation of a high-risk action, moved between pending, approved, executing,
  consumed, rejected and expired. The lemmas show that a claim is one-shot: after a
  successful claim no later claim of that approval succeeds until it is approved again.
\<close>

subsection \<open>State\<close>

record approval =
  ap_id :: string
  ap_institution_id :: string
  ap_principal_id :: string
  ap_tool_name :: string
  ap_arguments :: "pyval dict"
  ap_arguments_sha256 :: string
  ap_status :: string
  ap_reason :: string
  ap_created_at :: int
  ap_expires_at :: int
  ap_decided_at :: "int option"
  ap_decided_by :: "string option"
  ap_resume :: "pyval dict option"

definition tenant :: "string \<Rightarrow> 'a res \<Rightarrow> 'a res" where
  "tenant i r = (if blank i then Inl (ValueError ''institution_id is required'') else r)"

lemma tenant_Inr [simp]: "tenant i r = Inr x \<longleftrightarrow> \<not> blank i \<and> r = Inr x"
  by (simp add: tenant_def)

subsection \<open>Operations\<close>

definition get_approval :: "string \<Rightarrow> string \<Rightarrow> approval list \<Rightarrow> approval option res" where
  "get_approval i a t = tenant i (Inr (find (\<lambda>r. ap_institution_id r = i \<and> ap_id r = a) t))"

definition create_approval :: "int \<Rightarrow> string \<Rightarrow> string \<Rightarrow> string \<Rightarrow> string \<Rightarrow> pyval dict \<Rightarrow> string
    \<Rightarrow> string \<Rightarrow> int \<Rightarrow> approval list \<Rightarrow> (approval list \<times> approval option) res" where
  "create_approval now i a pid tool args sha why ttl t =
     tenant i (bindE (tbl_insert ap_id \<lparr>ap_id = a, ap_institution_id = i, ap_principal_id = pid,
         ap_tool_name = tool, ap_arguments = args, ap_arguments_sha256 = sha, ap_status = ''pending'',
         ap_reason = why, ap_created_at = now, ap_expires_at = now + ttl * 1000000,
         ap_decided_at = None, ap_decided_by = None, ap_resume = None\<rparr> t) (\<lambda>t'.
       bindE (get_approval i a t') (\<lambda>r. Inr (t', r))))"

definition set_approval_resume :: "string \<Rightarrow> string \<Rightarrow> string \<Rightarrow> pyval dict \<Rightarrow> approval list
    \<Rightarrow> (approval list \<times> bool) res" where
  "set_approval_resume i a pid resume t =
     (let P = (\<lambda>r. ap_institution_id r = i \<and> ap_id r = a \<and> ap_principal_id r = pid \<and> ap_status r = ''pending'')
      in tenant i (Inr (tbl_update P (\<lambda>r. r\<lparr>ap_resume := Some resume\<rparr>) t, tbl_count P t = 1)))"

text \<open>The guard of the claiming UPDATE, evaluated at \<open>now'\<close>; \<open>now\<close> is the recorded instant.\<close>

definition claimable :: "int \<Rightarrow> string \<Rightarrow> string \<Rightarrow> string \<Rightarrow> approval \<Rightarrow> bool" where
  "claimable now' i a pid r = (ap_institution_id r = i \<and> ap_id r = a \<and> ap_principal_id r = pid
     \<and> ap_status r = ''approved'' \<and> now' < ap_expires_at r)"

definition claim_approval :: "int \<Rightarrow> int \<Rightarrow> string \<Rightarrow> string \<Rightarrow> string \<Rightarrow> approval list
    \<Rightarrow> (approval list \<times> approval option) res" where
  "claim_approval now now' i a pid t =
     tenant i (let t' = tbl_update (claimable now' i a pid)
                  (\<lambda>r. r\<lparr>ap_status := ''executing'', ap_decided_at := Some now, ap_decided_by := Some pid\<rparr>) t
               in if tbl_count (claimable now' i a pid) t = 0 then Inr (t', None)
                  else bindE (get_approval i a t') (\<lambda>r. Inr (t', r)))"

definition decision_statuses :: "string set" where
  "decision_statuses = {''approved'', ''rejected'', ''consumed'', ''expired''}"

definition decide_approval :: "int \<Rightarrow> string \<Rightarrow> string \<Rightarrow> string \<Rightarrow> string \<Rightarrow> approval list
    \<Rightarrow> (approval list \<times> approval option) res" where
  "decide_approval now i a status who t =
     (if status \<notin> decision_statuses
        then Inl (ValueError ''approval status must be approved, rejected, consumed, or expired'')
      else tenant i
        (let t' = tbl_update (\<lambda>r. ap_institution_id r = i \<and> ap_id r = a)
             (\<lambda>r. r\<lparr>ap_status := status, ap_decided_at := Some now, ap_decided_by := Some who\<rparr>) t
         in bindE (get_approval i a t') (\<lambda>r. Inr (t', r))))"

definition opt_filter :: "string option \<Rightarrow> string \<Rightarrow> bool" where
  "opt_filter wanted v = (case wanted of None \<Rightarrow> True | Some w \<Rightarrow> w = [] \<or> v = w)"

definition list_approvals :: "string \<Rightarrow> string option \<Rightarrow> string option \<Rightarrow> int \<Rightarrow> approval list
    \<Rightarrow> approval list res" where
  "list_approvals i pid status limit t =
     tenant i (Inr (map (\<lambda>r. r\<lparr>ap_resume := None\<rparr>) (newest ap_created_at (clamp_limit limit 500)
       (filter (\<lambda>r. ap_institution_id r = i \<and> opt_filter pid (ap_principal_id r) \<and> opt_filter status (ap_status r)) t))))"

subsection \<open>Invariant: one row per identifier\<close>

definition approvals_ok :: "approval list \<Rightarrow> bool" where
  "approvals_ok t = distinct (map ap_id t)"

lemma create_approval_ok [inv_intros]:
  "create_approval now i a pid tool args sha why ttl t = Inr (t', r) \<Longrightarrow> approvals_ok t \<Longrightarrow> approvals_ok t'"
  by (auto simp: create_approval_def bindE_eq_Inr approvals_ok_def dest: tbl_insert_distinct)

lemma set_approval_resume_ok [inv_intros]:
  "set_approval_resume i a pid resume t = Inr (t', b) \<Longrightarrow> approvals_ok t \<Longrightarrow> approvals_ok t'"
  by (auto simp: set_approval_resume_def approvals_ok_def Let_def)

lemma claim_approval_state:
  "claim_approval now now' i a pid t = Inr (t', r) \<Longrightarrow> t' = tbl_update (claimable now' i a pid)
     (\<lambda>r. r\<lparr>ap_status := ''executing'', ap_decided_at := Some now, ap_decided_by := Some pid\<rparr>) t"
  by (auto simp: claim_approval_def bindE_eq_Inr Let_def split: if_splits)

lemma claim_approval_ok [inv_intros]:
  "claim_approval now now' i a pid t = Inr (t', r) \<Longrightarrow> approvals_ok t \<Longrightarrow> approvals_ok t'"
  by (drule claim_approval_state) (simp add: approvals_ok_def)

lemma decide_approval_ok [inv_intros]:
  "decide_approval now i a status who t = Inr (t', r) \<Longrightarrow> approvals_ok t \<Longrightarrow> approvals_ok t'"
  by (auto simp: decide_approval_def bindE_eq_Inr approvals_ok_def Let_def split: if_splits)

subsection \<open>What a claim does\<close>

lemma count_unique: "tbl_count P t = 0 \<longleftrightarrow> (\<forall>r \<in> set t. \<not> P r)"
  by (simp add: tbl_count_def filter_empty_conv)

lemma claim_won:
  assumes "approvals_ok t" and "claim_approval now now' i a pid t = Inr (t', Some r)"
  shows "\<exists>r0 \<in> set t. claimable now' i a pid r0
    \<and> r = r0\<lparr>ap_status := ''executing'', ap_decided_at := Some now, ap_decided_by := Some pid\<rparr> \<and> r \<in> set t'"
proof -
  let ?f = "\<lambda>r. r\<lparr>ap_status := ''executing'', ap_decided_at := Some now, ap_decided_by := Some pid\<rparr>"
  from assms(2) have cnt: "tbl_count (claimable now' i a pid) t \<noteq> 0"
      and t': "t' = tbl_update (claimable now' i a pid) ?f t"
      and f: "find (\<lambda>r. ap_institution_id r = i \<and> ap_id r = a) t' = Some r"
    by (auto simp: claim_approval_def get_approval_def bindE_eq_Inr Let_def split: if_splits)
  from cnt obtain r0 where r0: "r0 \<in> set t" "claimable now' i a pid r0" by (auto simp: count_unique)
  have "find (\<lambda>r. ap_institution_id r = i \<and> ap_id r = a) t = Some r0"
    using assms(1) r0 by (intro find_unique [of ap_id]) (auto simp: approvals_ok_def claimable_def)
  then have "r = ?f r0"
    using f r0(2) unfolding t' by (simp add: tbl_update_find)
  then show ?thesis using r0 f by (blast dest: find_Some_iff2)
qed

lemma claim_lost:
  assumes "claim_approval now now' i a pid t = Inr (t', None)" shows "t' = t"
proof -
  have "tbl_count (claimable now' i a pid) t = 0"
  proof (rule ccontr)
    assume c: "tbl_count (claimable now' i a pid) t \<noteq> 0"
    then obtain r0 where "r0 \<in> set t" "claimable now' i a pid r0" by (auto simp: count_unique)
    then have "find (\<lambda>r. ap_institution_id r = i \<and> ap_id r = a) t \<noteq> None"
      by (auto simp: find_None_iff claimable_def)
    with c assms show False
      by (auto simp: claim_approval_def get_approval_def Let_def tbl_update_find bindE_eq_Inr)
  qed
  with claim_approval_state [OF assms] show ?thesis
    by (auto simp: count_unique tbl_update_def intro!: map_upd_id)
qed

subsection \<open>Runs\<close>

text \<open>Any interleaving of the callers is a list of operations; a failing one changes nothing.\<close>

datatype approval_op =
    Create int string string string string "pyval dict" string string int
  | Resume string string string "pyval dict"
  | Claim int int string string string
  | Decide int string string string string

definition after :: "('t \<times> 'a) res \<Rightarrow> 't \<Rightarrow> 't" where
  "after r t = (case r of Inl _ \<Rightarrow> t | Inr (t', _) \<Rightarrow> t')"

fun approval_step :: "approval_op \<Rightarrow> approval list \<Rightarrow> approval list" where
  "approval_step (Create now i a pid tool args sha why ttl) t = after (create_approval now i a pid tool args sha why ttl t) t"
| "approval_step (Resume i a pid resume) t = after (set_approval_resume i a pid resume t) t"
| "approval_step (Claim now now' i a pid) t = after (claim_approval now now' i a pid t) t"
| "approval_step (Decide now i a status who) t = after (decide_approval now i a status who t) t"

fun approves :: "string \<Rightarrow> approval_op \<Rightarrow> bool" where
  "approves a (Decide now i b status who) = (b = a \<and> status = ''approved'')"
| "approves a _ = False"

lemma after_Inr: "r = Inr (t', x) \<Longrightarrow> after r t = t'"
  by (simp add: after_def)

lemma after_cases: "after r t = t \<or> (\<exists>x. r = Inr (after r t, x))"
  by (auto simp: after_def split: sum.splits prod.splits)

lemma approval_step_ok [inv_intros]: "approvals_ok t \<Longrightarrow> approvals_ok (approval_step op t)"
proof (cases op)
  case (Create now i a pid tool args sha why ttl)
  then show "approvals_ok t \<Longrightarrow> ?thesis"
    using after_cases [of "create_approval now i a pid tool args sha why ttl t" t] by (auto dest: create_approval_ok)
next
  case (Resume i a pid resume)
  then show "approvals_ok t \<Longrightarrow> ?thesis"
    using after_cases [of "set_approval_resume i a pid resume t" t] by (auto dest: set_approval_resume_ok)
next
  case (Claim now now' i a pid)
  then show "approvals_ok t \<Longrightarrow> ?thesis"
    using after_cases [of "claim_approval now now' i a pid t" t] by (auto dest: claim_approval_ok)
next
  case (Decide now i a status who)
  then show "approvals_ok t \<Longrightarrow> ?thesis"
    using after_cases [of "decide_approval now i a status who t" t] by (auto dest: decide_approval_ok)
qed

text \<open>The rows with an identifier that are not approved and not new.\<close>

definition settled :: "string \<Rightarrow> approval list \<Rightarrow> bool" where
  "settled a t = (a \<in> set (map ap_id t) \<and> (\<forall>r \<in> set t. ap_id r = a \<longrightarrow> ap_status r \<noteq> ''approved''))"

lemma settled_update: "settled a t \<Longrightarrow> (\<And>r. ap_id (f r) = ap_id r)
    \<Longrightarrow> (\<And>r. P r \<Longrightarrow> ap_id r = a \<Longrightarrow> ap_status (f r) \<noteq> ''approved'') \<Longrightarrow> settled a (tbl_update P f t)"
  unfolding settled_def by (simp only: tbl_update_keys) (auto simp: tbl_update_def)

lemma settled_step: "settled a t \<Longrightarrow> \<not> approves a op \<Longrightarrow> settled a (approval_step op t)"
proof (cases op)
  case (Create now i b pid tool args sha why ttl)
  assume s: "settled a t"
  from after_cases [of "create_approval now i b pid tool args sha why ttl t" t] show ?thesis
  proof
    assume "\<exists>x. create_approval now i b pid tool args sha why ttl t
        = Inr (after (create_approval now i b pid tool args sha why ttl t) t, x)"
    then obtain x t' where e: "create_approval now i b pid tool args sha why ttl t = Inr (t', x)" by auto
    with s have "settled a t'"
      by (auto simp: create_approval_def bindE_eq_Inr tbl_insert_Inr settled_def)
    with e Create show ?thesis by (simp add: after_Inr)
  qed (use s Create in simp)
next
  case (Resume i b pid resume)
  assume s: "settled a t"
  have "settled a (tbl_update P (\<lambda>r. r\<lparr>ap_resume := Some resume\<rparr>) t)" for P
    using s by (auto simp: settled_def tbl_update_def)
  with s Resume show ?thesis
    by (simp add: set_approval_resume_def Let_def tenant_def after_def)
next
  case (Claim now now' i b pid)
  assume s: "settled a t"
  from after_cases [of "claim_approval now now' i b pid t" t] show ?thesis
  proof
    assume "\<exists>x. claim_approval now now' i b pid t = Inr (after (claim_approval now now' i b pid t) t, x)"
    then obtain x t' where e: "claim_approval now now' i b pid t = Inr (t', x)" by auto
    with s have "settled a t'" by (auto dest!: claim_approval_state intro!: settled_update)
    with e Claim show ?thesis by (simp add: after_Inr)
  qed (use s Claim in simp)
next
  case (Decide now i b status who)
  assume s: "settled a t" and n: "\<not> approves a op"
  from after_cases [of "decide_approval now i b status who t" t] show ?thesis
  proof
    assume "after (decide_approval now i b status who t) t = t"
    with s Decide show ?thesis by simp
  next
    assume "\<exists>x. decide_approval now i b status who t = Inr (after (decide_approval now i b status who t) t, x)"
    then obtain x t' where e: "decide_approval now i b status who t = Inr (t', x)" by auto
    then have "t' = tbl_update (\<lambda>r. ap_institution_id r = i \<and> ap_id r = b)
        (\<lambda>r. r\<lparr>ap_status := status, ap_decided_at := Some now, ap_decided_by := Some who\<rparr>) t"
      by (auto simp: decide_approval_def bindE_eq_Inr Let_def split: if_splits)
    moreover have "settled a \<dots>"
      using s n Decide by (intro settled_update) auto
    ultimately show ?thesis using e Decide by (simp add: after_Inr)
  qed
qed

lemma settled_run: "settled a t \<Longrightarrow> list_all (\<lambda>op. \<not> approves a op) ops \<Longrightarrow> settled a (foldl (\<lambda>t op. approval_step op t) t ops)"
  by (induction ops arbitrary: t) (simp_all add: settled_step)

lemma settled_not_claimed: "settled a t \<Longrightarrow> claim_approval now now' i a pid t = Inr (t', r) \<Longrightarrow> r = None"
proof -
  assume "settled a t"
  then have "tbl_count (claimable now' i a pid) t = 0" by (auto simp: count_unique settled_def claimable_def)
  then show "claim_approval now now' i a pid t = Inr (t', r) \<Longrightarrow> r = None"
    by (simp add: claim_approval_def Let_def)
qed

lemma claim_settles:
  assumes "approvals_ok t" and "claim_approval now now' i a pid t = Inr (t', Some r)"
  shows "settled a t'"
proof -
  from claim_won [OF assms] have r: "r \<in> set t'" "ap_id r = a" "ap_status r \<noteq> ''approved''"
    unfolding claimable_def by force+
  have "approvals_ok t'" using claim_approval_ok [OF assms(2,1)] .
  then have "x = r" if "x \<in> set t'" "ap_id x = a" for x
    using that r(1,2) unfolding approvals_ok_def distinct_map inj_on_def by metis
  with r show ?thesis unfolding settled_def set_map by blast
qed


subsection \<open>Properties\<close>

text \<open>C9: a confirmation is single-use: once a claim of an approval has succeeded, then whatever
  operations follow, short of approving it again, no claim of it succeeds.\<close>

theorem approval_single_use:
  assumes "approvals_ok t" and "claim_approval now now' i a pid t = Inr (t1, Some r)"
    and "list_all (\<lambda>op. \<not> approves a op) ops"
    and "claim_approval later later' i' a pid' (foldl (\<lambda>t op. approval_step op t) t1 ops) = Inr (t2, r')"
  shows "r' = None"
  using settled_not_claimed [OF settled_run [OF claim_settles [OF assms(1,2)] assms(3)] assms(4)] .

definition sample_approval :: approval where
  "sample_approval = \<lparr>ap_id = ''a'', ap_institution_id = ''c'', ap_principal_id = ''u'', ap_tool_name = ''t'',
     ap_arguments = [], ap_arguments_sha256 = ''h'', ap_status = ''approved'', ap_reason = [],
     ap_created_at = 0, ap_expires_at = 100, ap_decided_at = None, ap_decided_by = None, ap_resume = None\<rparr>"

lemma approval_single_use_witness:
  "\<exists>t1 r t2 r'. claim_approval 5 5 ''c'' ''a'' ''u'' [sample_approval] = Inr (t1, Some r)
    \<and> claim_approval 6 6 ''c'' ''a'' ''u'' t1 = Inr (t2, r') \<and> r' = None"
proof -
  note defs = claim_approval_def sample_approval_def claimable_def tbl_update_def tbl_count_def get_approval_def
    tenant_def Let_def blank_def py_strip_def py_space_def
  obtain t1 r where c: "claim_approval 5 5 ''c'' ''a'' ''u'' [sample_approval] = Inr (t1, Some r)"
    by (simp add: defs)
  obtain t2 r' where d: "claim_approval 6 6 ''c'' ''a'' ''u'' t1 = Inr (t2, r')"
    by (cases "claim_approval 6 6 ''c'' ''a'' ''u'' t1") (use c in \<open>auto simp: defs split: if_splits\<close>)
  from approval_single_use [OF _ c, of "[]" 6 6 "''c''" "''u''" t2 r'] d have "r' = None"
    by (simp add: approvals_ok_def)
  with c d show ?thesis by blast
qed

end
