(* ===== verification/Gateway.thy ===== *)
theory Gateway
  imports ToolSpec Approvals
begin

text \<open>
  The tool gateway of \<^verbatim>\<open>gateway/gateway.py\<close>: the only path from a proposed call to a handler.
  The state is the approvals table, the audit log and the world the handlers run in; what
  one call reads from its environment (clock, generated identifiers, the argument digest)
  is a record. The lemmas say when a handler can run at all, that every call leaves exactly
  one audit event, and what becomes of the approval.
\<close>

subsection \<open>State, environment and results\<close>

record 'w gateway_state =
  gs_approvals :: "approval list"
  gs_audits :: "audit_event list"
  gs_world :: 'w

record env =
  en_clock_check :: int
  en_clock_decided :: int
  en_clock_claim :: int
  en_clock_created :: int
  en_clock_settled :: int
  en_clock_audit :: int
  en_duration_ms :: int
  en_audit_id :: string
  en_approval_id :: string
  en_digest :: "pyval dict \<Rightarrow> string"
  en_rep :: "pyval \<Rightarrow> string"
  en_float :: "string \<Rightarrow> rat option"

text \<open>Clock readings do not go back and durations are not negative.\<close>

definition env_ok :: "env \<Rightarrow> bool" where
  "env_ok e = (0 \<le> en_duration_ms e \<and> en_clock_check e \<le> en_clock_claim e)"

record 'w gateway =
  gw_registry :: "'w tool_registry"
  gw_evaluate :: evaluator
  gw_policy_version :: string
  gw_approval_ttl_seconds :: int

record tool_invocation =
  ti_tool_name :: string
  ti_status :: string
  ti_data :: pyval
  ti_summary :: string
  ti_warnings :: "pyval list"
  ti_provenance :: "pyval list"
  ti_artifacts :: "pyval list"
  ti_records_returned :: int
  ti_denial_reason :: "string option"
  ti_approval :: "pyval dict option"
  ti_duration_ms :: int
  ti_decision_id :: "string option"
  ti_risk :: string

definition invocation :: "string \<Rightarrow> string \<Rightarrow> tool_invocation" where
  "invocation name status = \<lparr>ti_tool_name = name, ti_status = status, ti_data = PNone, ti_summary = [],
     ti_warnings = [], ti_provenance = [], ti_artifacts = [], ti_records_returned = 0,
     ti_denial_reason = None, ti_approval = None, ti_duration_ms = 0, ti_decision_id = None,
     ti_risk = risk_value RISK_READ\<rparr>"

definition invocation_ok :: "tool_invocation \<Rightarrow> bool" where
  "invocation_ok ti = (ti_status ti = ''success'')"

definition invocation_as_dict :: "bool \<Rightarrow> tool_invocation \<Rightarrow> pyval dict" where
  "invocation_as_dict include_data ti =
     [(''tool_name'', PStr (ti_tool_name ti)), (''status'', PStr (ti_status ti)), (''summary'', PStr (ti_summary ti)),
      (''warnings'', PList (ti_warnings ti)), (''provenance'', PList (ti_provenance ti)),
      (''artifacts'', PList (ti_artifacts ti)), (''records_returned'', PInt (ti_records_returned ti)),
      (''denial_reason'', opt_str (ti_denial_reason ti)),
      (''approval'', case ti_approval ti of None \<Rightarrow> PNone | Some d \<Rightarrow> PDict d),
      (''duration_ms'', PInt (ti_duration_ms ti)), (''risk'', PStr (ti_risk ti))]
     @ (if include_data then [(''data'', ti_data ti)] else [])"

definition HANDLER_FAILURE_MESSAGE :: string where
  "HANDLER_FAILURE_MESSAGE = ''the tool could not complete because of an internal error; the details have been logged for the administrator''"

subsection \<open>Audit\<close>

definition audit :: "'w gateway \<Rightarrow> env \<Rightarrow> tool_context \<Rightarrow> string \<Rightarrow> string \<Rightarrow> policy_decision option
    \<Rightarrow> (string \<times> pyval) list \<Rightarrow> 'w gateway_state \<Rightarrow> 'w gateway_state \<times> unit res" where
  "audit gw e ctx name outcome decision extra s =
     (case mk_audit_event (''audit-'' @ en_audit_id e) ''gateway.tool'' (ctx_request_id ctx)
         (Aware (en_clock_audit e))
         (if authenticated (ctx_principal ctx) then Some (principal_id (ctx_principal ctx)) else None)
         (Some ''tool_gateway'') (ctx_conversation_id ctx) [institution_id ctx] [name] outcome
         [''student_contact_fields_policy'', ''arguments_not_persisted'']
         ([(''policy_version'', PStr (gw_policy_version gw)), (''channel'', PStr (ctx_channel ctx))]
          @ (case decision of None \<Rightarrow> [] | Some d \<Rightarrow> [(''pdp_decision_id'', PStr (pd_decision_id d))])
          @ extra)
         (Some (en_duration_ms e)) of
        Inl err \<Rightarrow> (s, Inl err)
      | Inr ev \<Rightarrow> (s\<lparr>gs_audits := gs_audits s @ [ev]\<rparr>, Inr ()))"

text \<open>Audit, then return the invocation; an audit that raises replaces it.\<close>

definition finish :: "'w gateway \<Rightarrow> env \<Rightarrow> tool_context \<Rightarrow> string \<Rightarrow> string \<Rightarrow> policy_decision option
    \<Rightarrow> (string \<times> pyval) list \<Rightarrow> tool_invocation \<Rightarrow> 'w gateway_state
    \<Rightarrow> 'w gateway_state \<times> tool_invocation res" where
  "finish gw e ctx name outcome decision extra ti s =
     (case audit gw e ctx name outcome decision extra s of
        (s', Inl err) \<Rightarrow> (s', Inl err) | (s', Inr _) \<Rightarrow> (s', Inr ti))"

subsection \<open>Approvals\<close>

definition unusable_approval :: "string dict" where
  "unusable_approval = [
     (''pending'', ''the earlier request was not confirmed''),
     (''rejected'', ''the earlier request was cancelled''),
     (''executing'', ''the earlier confirmation is already running''),
     (''consumed'', ''the earlier confirmation was already used''),
     (''expired'', ''the earlier confirmation expired'')]"

text \<open>\<^verbatim>\<open>_approval_state\<close>: the usable record, or why the named one cannot be used.\<close>

definition approval_state :: "env \<Rightarrow> tool_context \<Rightarrow> 'w tool \<Rightarrow> pyval dict \<Rightarrow> approval list
    \<Rightarrow> (approval option \<times> string option) res" where
  "approval_state e ctx tool args t =
     (case ctx_approval_id ctx of None \<Rightarrow> Inr (None, None) | Some [] \<Rightarrow> Inr (None, None)
      | Some a \<Rightarrow>
         bindE (get_approval (institution_id ctx) a t) (\<lambda>found. Inr
           (case found of
              None \<Rightarrow> (None, Some ''the earlier confirmation was not found'')
            | Some r \<Rightarrow>
                if ap_principal_id r \<noteq> principal_id (ctx_principal ctx)
                  then (None, Some ''the earlier confirmation was not found'')
                else if ap_tool_name r \<noteq> tool_name tool \<or> ap_arguments_sha256 r \<noteq> en_digest e args
                  then (None, Some ''the earlier confirmation was for a different change'')
                else if ap_status r \<noteq> ''approved''
                  then (None, Some (case dict_get unusable_approval (ap_status r) of
                     Some why \<Rightarrow> why | None \<Rightarrow> ''the earlier confirmation is '' @ ap_status r))
                else if ap_expires_at r < en_clock_check e
                  then (None, Some ''the earlier confirmation expired'')
                else (Some r, None))))"

definition release_approval :: "env \<Rightarrow> tool_context \<Rightarrow> approval option \<Rightarrow> approval list \<Rightarrow> approval list res" where
  "release_approval e ctx ap t = (case ap of None \<Rightarrow> Inr t
     | Some r \<Rightarrow> bindE (decide_approval (en_clock_settled e) (institution_id ctx) (ap_id r) ''approved''
          (principal_id (ctx_principal ctx)) t) (\<lambda>(t', _). Inr t'))"

definition request_approval :: "'w gateway \<Rightarrow> env \<Rightarrow> tool_context \<Rightarrow> 'w tool \<Rightarrow> pyval dict \<Rightarrow> string
    \<Rightarrow> string option \<Rightarrow> approval list \<Rightarrow> (approval list \<times> pyval dict) res" where
  "request_approval gw e ctx tool args why hint t =
     (let a = ''apr-'' @ en_approval_id e in
      bindE (create_approval (en_clock_created e) (institution_id ctx) a (principal_id (ctx_principal ctx))
         (tool_name tool) args (en_digest e args) why (gw_approval_ttl_seconds gw) t) (\<lambda>(t', r).
      Inr (t', [(''approval_id'', PStr a), (''tool_name'', PStr (tool_name tool)),
        (''status'', opt_str (map_option ap_status r)),
        (''expires_at'', case r of None \<Rightarrow> PNone | Some x \<Rightarrow> PInt (ap_expires_at x)),
        (''reason'', PStr why), (''arguments'', PDict args), (''note'', opt_str hint)])))"

definition gateway_decide_approval :: "env \<Rightarrow> principal \<Rightarrow> string \<Rightarrow> string \<Rightarrow> bool \<Rightarrow> approval list
    \<Rightarrow> approval list \<times> approval res" where
  "gateway_decide_approval e p i a approve t =
     (case get_approval i a t of
        Inl err \<Rightarrow> (t, Inl err)
      | Inr None \<Rightarrow> (t, Inl (KeyError (''approval not found: '' @ a)))
      | Inr (Some r) \<Rightarrow>
          if ap_principal_id r \<noteq> principal_id p
            then (t, Inl (PermissionError ''only the requesting user can decide this approval''))
          else if ap_status r \<noteq> ''pending'' then (t, Inl (ValueError (''approval is already '' @ ap_status r)))
          else if approve \<and> ap_expires_at r < en_clock_check e
            then (after (decide_approval (en_clock_settled e) i a ''expired'' (principal_id p) t) t,
                  Inl (ValueError ''this confirmation has expired; send the command again to get a new one''))
          else (case decide_approval (en_clock_settled e) i a (if approve then ''approved'' else ''rejected'')
                  (principal_id p) t of
              Inl err \<Rightarrow> (t, Inl err)
            | Inr (t', decided) \<Rightarrow> (t', Inr (case decided of Some d \<Rightarrow> d | None \<Rightarrow> r))))"


subsection \<open>Invocation\<close>

definition explain :: "string \<Rightarrow> 'w tool \<Rightarrow> string" where
  "explain why tool =
     (if why = denial_value MISSING_CAPABILITY
        then tool_name tool @ '' requires the '' @ cap_value (tool_capability tool) @ '' permission''
      else if why = denial_value OUT_OF_SCOPE then ''the requested institution is outside your authorised scope''
      else if why = denial_value UNAUTHENTICATED then ''authentication is required''
      else if why = denial_value REVOKED then ''this account has been revoked''
      else if why = denial_value PARENTAL_CONSENT_REQUIRED then ''verified consent is required for batch-level data''
      else ''policy denied '' @ tool_name tool @ '' ('' @ why @ '')'')"

definition reason_entry :: "string \<Rightarrow> (string \<times> pyval) list" where
  "reason_entry why = [(''reason'', PStr why)]"

text \<open>What the two except clauses of the gateway tell apart.\<close>

datatype error_class = Denied | Invalid | Unexpected

fun classify :: "pyerr \<Rightarrow> error_class" where
  "classify (PermissionError m) = Denied"
| "classify (ValueError m) = Invalid"
| "classify (KeyError m) = Invalid"
| "classify (LookupError m) = Invalid"
| "classify _ = Unexpected"

text \<open>Lines 198-232: run the handler; release or consume the approval; minimise; audit.\<close>

definition as_output :: "handler_output \<Rightarrow> tool_output" where
  "as_output out = (case out of Output o' \<Rightarrow> o'
     | Bare v \<Rightarrow> \<lparr>to_data = v, to_summary = [], to_warnings = [], to_provenance = [],
                 to_records_returned = 0, to_artifacts = []\<rparr>)"

definition handler_failed :: "'w gateway \<Rightarrow> env \<Rightarrow> tool_context \<Rightarrow> 'w tool \<Rightarrow> string \<Rightarrow> policy_decision
    \<Rightarrow> approval option \<Rightarrow> pyerr \<Rightarrow> 'w gateway_state \<Rightarrow> 'w gateway_state \<times> tool_invocation res" where
  "handler_failed gw e ctx tool name d ap err s =
     (case release_approval e ctx ap (gs_approvals s) of
        Inl err' \<Rightarrow> (s, Inl err')
      | Inr t' \<Rightarrow>
          (let s' = s\<lparr>gs_approvals := t'\<rparr>;
               base = (\<lambda>st. (invocation name st)\<lparr>ti_decision_id := Some (pd_decision_id d), ti_risk := risk_value (tool_risk tool)\<rparr>)
           in case classify err of
                Denied \<Rightarrow> finish gw e ctx name ''denied'' (Some d) (reason_entry ''handler_denied'')
                  ((base ''denied'')\<lparr>ti_denial_reason := Some (err_text err)\<rparr>) s'
              | Invalid \<Rightarrow> finish gw e ctx name ''failed'' (Some d) (reason_entry ''handler_error'')
                  ((base ''failed'')\<lparr>ti_denial_reason := Some (take 500 (err_text err))\<rparr>) s'
              | Unexpected \<Rightarrow> finish gw e ctx name ''failed'' (Some d) (reason_entry ''handler_exception'')
                  ((base ''failed'')\<lparr>ti_denial_reason := Some HANDLER_FAILURE_MESSAGE\<rparr>) s'))"

definition handler_done :: "'w gateway \<Rightarrow> env \<Rightarrow> tool_context \<Rightarrow> 'w tool \<Rightarrow> string \<Rightarrow> policy_decision
    \<Rightarrow> approval option \<Rightarrow> tool_output \<Rightarrow> 'w gateway_state \<Rightarrow> 'w gateway_state \<times> tool_invocation res" where
  "handler_done gw e ctx tool name d ap out s =
     (case (case ap of None \<Rightarrow> Inr (gs_approvals s)
          | Some r \<Rightarrow> bindE (decide_approval (en_clock_settled e) (institution_id ctx) (ap_id r) ''consumed''
               (principal_id (ctx_principal ctx)) (gs_approvals s)) (\<lambda>(t', _). Inr t')) of
        Inl err \<Rightarrow> (s, Inl err)
      | Inr t' \<Rightarrow>
          finish gw e ctx name ''success'' (Some d)
            [(''risk'', PStr (risk_value (tool_risk tool))), (''records_returned'', PInt (to_records_returned out))]
            \<lparr>ti_tool_name = name, ti_status = ''success'',
             ti_data = strip_student_contact (to_data out) (ctx_principal ctx),
             ti_summary = to_summary out, ti_warnings = to_warnings out, ti_provenance = to_provenance out,
             ti_artifacts = to_artifacts out, ti_records_returned = to_records_returned out,
             ti_denial_reason = None, ti_approval = None, ti_duration_ms = en_duration_ms e,
             ti_decision_id = Some (pd_decision_id d), ti_risk = risk_value (tool_risk tool)\<rparr>
            (s\<lparr>gs_approvals := t'\<rparr>))"

definition run_handler :: "'w gateway \<Rightarrow> env \<Rightarrow> tool_context \<Rightarrow> 'w tool \<Rightarrow> string \<Rightarrow> policy_decision
    \<Rightarrow> approval option \<Rightarrow> pyval dict \<Rightarrow> 'w gateway_state \<Rightarrow> 'w gateway_state \<times> tool_invocation res" where
  "run_handler gw e ctx tool name d ap args s =
     (case tool_handler tool ctx args (gs_world s) of
        (w', Inl err) \<Rightarrow> handler_failed gw e ctx tool name d ap err (s\<lparr>gs_world := w'\<rparr>)
      | (w', Inr out) \<Rightarrow> handler_done gw e ctx tool name d ap (as_output out) (s\<lparr>gs_world := w'\<rparr>))"

text \<open>Lines 185-197: a high-risk tool needs an approval, which is claimed before the handler runs.\<close>

definition need_approval :: "'w gateway \<Rightarrow> env \<Rightarrow> tool_context \<Rightarrow> 'w tool \<Rightarrow> string \<Rightarrow> policy_decision
    \<Rightarrow> string option \<Rightarrow> pyval dict \<Rightarrow> 'w gateway_state \<Rightarrow> 'w gateway_state \<times> tool_invocation res" where
  "need_approval gw e ctx tool name d hint args s =
     (let why = tool_name tool @ '' changes institutional records and needs your confirmation'' in
      case request_approval gw e ctx tool args why hint (gs_approvals s) of
        Inl err \<Rightarrow> (s, Inl err)
      | Inr (t', pending) \<Rightarrow>
          finish gw e ctx name ''partial'' (Some d)
            [(''reason'', PStr ''approval_required''), (''approval_id'', PStr (''apr-'' @ en_approval_id e))]
            ((invocation name ''approval_required'')\<lparr>ti_summary := why, ti_approval := Some pending,
               ti_decision_id := Some (pd_decision_id d), ti_risk := risk_value (tool_risk tool)\<rparr>)
            (s\<lparr>gs_approvals := t'\<rparr>))"

definition with_approval :: "'w gateway \<Rightarrow> env \<Rightarrow> tool_context \<Rightarrow> 'w tool \<Rightarrow> string \<Rightarrow> policy_decision
    \<Rightarrow> pyval dict \<Rightarrow> 'w gateway_state \<Rightarrow> 'w gateway_state \<times> tool_invocation res" where
  "with_approval gw e ctx tool name d args s =
     (if tool_risk tool \<noteq> RISK_HIGH then run_handler gw e ctx tool name d None args s
      else case approval_state e ctx tool args (gs_approvals s) of
          Inl err \<Rightarrow> (s, Inl err)
        | Inr (None, unusable) \<Rightarrow> need_approval gw e ctx tool name d unusable args s
        | Inr (Some r, _) \<Rightarrow>
            (case claim_approval (en_clock_decided e) (en_clock_claim e) (institution_id ctx) (ap_id r)
                (principal_id (ctx_principal ctx)) (gs_approvals s) of
               Inl err \<Rightarrow> (s, Inl err)
             | Inr (t', None) \<Rightarrow> need_approval gw e ctx tool name d
                 (Some ''the earlier confirmation is already running'') args (s\<lparr>gs_approvals := t'\<rparr>)
             | Inr (t', Some c) \<Rightarrow> run_handler gw e ctx tool name d (Some c) args (s\<lparr>gs_approvals := t'\<rparr>)))"

text \<open>Lines 169-184: the tool's own validator.\<close>

definition with_validator :: "'w gateway \<Rightarrow> env \<Rightarrow> tool_context \<Rightarrow> 'w tool \<Rightarrow> string \<Rightarrow> policy_decision
    \<Rightarrow> pyval dict \<Rightarrow> 'w gateway_state \<Rightarrow> 'w gateway_state \<times> tool_invocation res" where
  "with_validator gw e ctx tool name d args s =
     (case (case tool_validator tool of None \<Rightarrow> Inr args | Some v \<Rightarrow> v ctx args (gs_world s)) of
        Inr args' \<Rightarrow> with_approval gw e ctx tool name d args' s
      | Inl err \<Rightarrow>
          (let base = (\<lambda>st. (invocation name st)\<lparr>ti_decision_id := Some (pd_decision_id d), ti_risk := risk_value (tool_risk tool)\<rparr>)
           in case classify err of
                Denied \<Rightarrow> finish gw e ctx name ''denied'' (Some d) (reason_entry ''handler_denied'')
                  ((base ''denied'')\<lparr>ti_denial_reason := Some (err_text err)\<rparr>) s
              | Invalid \<Rightarrow> finish gw e ctx name ''denied'' (Some d) (reason_entry ''invalid_arguments'')
                  ((base ''invalid_arguments'')\<lparr>ti_denial_reason := Some (take 500 (err_text err))\<rparr>) s
              | Unexpected \<Rightarrow> finish gw e ctx name ''failed'' (Some d) (reason_entry ''handler_exception'')
                  ((base ''failed'')\<lparr>ti_denial_reason := Some HANDLER_FAILURE_MESSAGE\<rparr>) s))"

text \<open>The whole call.\<close>

definition invoke :: "'w gateway \<Rightarrow> env \<Rightarrow> string \<Rightarrow> pyval dict option \<Rightarrow> tool_context
    \<Rightarrow> 'w gateway_state \<Rightarrow> 'w gateway_state \<times> tool_invocation res" where
  "invoke gw e name args ctx s =
     (case get_tool name (gw_registry gw) of
        Inl _ \<Rightarrow> finish gw e ctx name ''denied'' None (reason_entry ''unknown_tool'')
          ((invocation name ''unknown_tool'')\<lparr>ti_denial_reason := Some ''the requested tool is not registered''\<rparr>) s
      | Inr tool \<Rightarrow>
     (case validate_arguments (en_rep e) (en_float e) tool args of
        Inl err \<Rightarrow> finish gw e ctx name ''denied'' None (reason_entry ''invalid_arguments'')
          ((invocation name ''invalid_arguments'')\<lparr>ti_denial_reason := Some (err_text err),
             ti_risk := risk_value (tool_risk tool)\<rparr>) s
      | Inr validated \<Rightarrow>
     (let az = authorize (ctx_principal ctx) (tool_capability tool) (ctx_scope ctx) in
      if \<not> az_allowed az then
        (let why = (case az_reason az of Some r \<Rightarrow> denial_value r | None \<Rightarrow> denial_value MISSING_CAPABILITY)
         in finish gw e ctx name ''denied'' None (reason_entry why)
              ((invocation name ''denied'')\<lparr>ti_denial_reason := Some (explain why tool), ti_risk := risk_value (tool_risk tool)\<rparr>) s)
      else
     (case gw_evaluate gw (ctx_principal ctx) (tool_capability tool) (pdp_action tool) ''platform_tool''
          (tool_name tool) (ctx_scope ctx) of
        Inl err \<Rightarrow> (s, Inl err)
      | Inr d \<Rightarrow>
          if \<not> pd_allowed d then
            (let why = (case pd_reason d of None \<Rightarrow> ''pdp_denied'' | Some [] \<Rightarrow> ''pdp_denied'' | Some r \<Rightarrow> r)
             in finish gw e ctx name ''denied'' (Some d) (reason_entry why)
                  ((invocation name ''denied'')\<lparr>ti_denial_reason := Some (explain why tool),
                     ti_decision_id := Some (pd_decision_id d), ti_risk := risk_value (tool_risk tool)\<rparr>) s)
          else with_validator gw e ctx tool name d validated s))))"


subsection \<open>Auditing an outcome\<close>

definition ctx_ok :: "tool_context \<Rightarrow> bool" where
  "ctx_ok ctx = (\<not> blank (ctx_request_id ctx) \<and> \<not> blank (institution_id ctx))"

definition extra_ok :: "(string \<times> pyval) list \<Rightarrow> bool" where
  "extra_ok kvs = list_all (\<lambda>(k, v). \<not> blank k \<and> is_scalar v) kvs"

text \<open>The event an invocation leaves: its request, its tool and how it went.\<close>

definition event_for :: "tool_context \<Rightarrow> string \<Rightarrow> string \<Rightarrow> audit_event \<Rightarrow> bool" where
  "event_for ctx name outcome ev = (ae_request_id ev = ctx_request_id ctx \<and> ae_tool_names ev = [name]
     \<and> ae_source_ids ev = [institution_id ctx] \<and> audit_outcome_value (ae_outcome ev) = outcome)"

lemma not_blank_cons: "\<not> py_space c \<Longrightarrow> \<not> blank (c # cs)"
  by (auto simp: blank_def py_strip_def dropWhile_append dropWhile_eq_Nil_conv)

lemma meta_entries_ok: "extra_ok kvs \<Longrightarrow> mapE audit_meta_entry kvs = Inr (map (\<lambda>(k, v). (py_strip k, v)) kvs)"
  unfolding extra_ok_def by (rule mapE_total) (auto simp: list_all_iff audit_meta_entry_def)

lemma audit_known_outcome: "outcome \<in> {''success'', ''partial'', ''denied'', ''failed''}
    \<Longrightarrow> \<exists>oc. audit_outcome_of outcome = Inr oc \<and> audit_outcome_value oc = outcome"
  by (auto simp: audit_outcome_of_def by_value_def)

lemma mk_audit_event_Inr:
  assumes "\<not> blank eid" "\<not> blank ety" "\<not> blank rid" "audit_outcome_of outcome = Inr oc"
    and "mapE audit_meta_entry meta = Inr ms" and "0 \<le> dur"
  shows "mk_audit_event eid ety rid (Aware t) pid ep conv sids tools outcome reds meta (Some dur)
    = Inr \<lparr>ae_event_id = eid, ae_event_type = ety, ae_request_id = rid, ae_occurred_at = t,
             ae_principal_id = pid, ae_endpoint = ep, ae_conversation_id = conv, ae_source_ids = sids,
             ae_tool_names = tools, ae_outcome = oc, ae_redactions = reds, ae_metadata = ms,
             ae_duration_ms = Some dur\<rparr>"
  using assms by (simp add: mk_audit_event_def)

lemma finish_ok:
  assumes "ctx_ok ctx" and "env_ok e" and "outcome \<in> {''success'', ''partial'', ''denied'', ''failed''}"
    and "extra_ok extra"
  shows "\<exists>ev. finish gw e ctx name outcome d extra ti s = (s\<lparr>gs_audits := gs_audits s @ [ev]\<rparr>, Inr ti)
    \<and> event_for ctx name outcome ev"
proof -
  let ?meta = "[(''policy_version'', PStr (gw_policy_version gw)), (''channel'', PStr (ctx_channel ctx))]
      @ (case d of None \<Rightarrow> [] | Some d \<Rightarrow> [(''pdp_decision_id'', PStr (pd_decision_id d))]) @ extra"
  have "extra_ok ?meta"
    using assms(4) by (auto simp: extra_ok_def not_blank_cons py_space_def split: option.splits)
  then obtain ms where ms: "mapE audit_meta_entry ?meta = Inr ms" using meta_entries_ok by blast
  from audit_known_outcome [OF assms(3)] obtain oc where
    oc: "audit_outcome_of outcome = Inr oc" "audit_outcome_value oc = outcome" by blast
  have nb: "\<not> blank (''audit-'' @ en_audit_id e)" "\<not> blank ''gateway.tool''"
    by (simp_all add: not_blank_cons py_space_def)
  have side: "\<not> blank (ctx_request_id ctx)" "0 \<le> en_duration_ms e"
    using assms(1,2) by (simp_all add: ctx_ok_def env_ok_def)
  show ?thesis
    unfolding finish_def audit_def mk_audit_event_Inr [OF nb side(1) oc(1) ms side(2)] sum.case prod.case
    by (rule exI, intro conjI, rule refl) (simp add: event_for_def oc(2))
qed

lemma finish_frame [frame_simps]:
  "gs_world (fst (finish gw e ctx name oc d extra ti s)) = gs_world s"
  "gs_approvals (fst (finish gw e ctx name oc d extra ti s)) = gs_approvals s"
  by (auto simp: finish_def audit_def split: sum.splits prod.splits)

lemma finish_result: "snd (finish gw e ctx name oc d extra ti s) = Inr ti' \<Longrightarrow> ti' = ti"
  by (auto simp: finish_def audit_def split: sum.splits prod.splits)

lemma extra_ok_reason [simp]: "extra_ok (reason_entry why)"
  by (simp add: extra_ok_def reason_entry_def not_blank_cons py_space_def)

lemma extra_ok_Cons [simp]: "extra_ok ((k, v) # kvs) \<longleftrightarrow> \<not> blank k \<and> is_scalar v \<and> extra_ok kvs"
  by (simp add: extra_ok_def)

lemma extra_ok_Nil [simp]: "extra_ok []"
  by (simp add: extra_ok_def)

subsection \<open>Exactly one event\<close>

definition one_event :: "tool_context \<Rightarrow> string \<Rightarrow> 'w gateway_state \<Rightarrow> 'w gateway_state \<times> tool_invocation res \<Rightarrow> bool" where
  "one_event ctx name s res = (\<exists>ti ev oc. snd res = Inr ti \<and> gs_audits (fst res) = gs_audits s @ [ev]
     \<and> event_for ctx name oc ev \<and> (oc = ''success'' \<longleftrightarrow> invocation_ok ti))"

lemma finish_one_event:
  assumes "ctx_ok ctx" "env_ok e" "oc \<in> {''success'', ''partial'', ''denied'', ''failed''}" "extra_ok extra"
    and "gs_audits s' = gs_audits s" and "oc = ''success'' \<longleftrightarrow> invocation_ok ti"
  shows "one_event ctx name s (finish gw e ctx name oc d extra ti s')"
  using finish_ok [OF assms(1-4), of gw name d ti s'] assms(5,6) by (auto simp: one_event_def)

lemma invocation_status [simp]: "ti_status (invocation name st) = st"
  by (simp add: invocation_def)

lemma decide_ok: "st \<in> decision_statuses \<Longrightarrow> \<not> blank i \<Longrightarrow> \<exists>t' r. decide_approval now i a st who t = Inr (t', r)"
  by (simp add: decide_approval_def get_approval_def tenant_def Let_def)

lemma decision_statuses_mem [simp]: "''approved'' \<in> decision_statuses" "''consumed'' \<in> decision_statuses"
    "''rejected'' \<in> decision_statuses" "''expired'' \<in> decision_statuses"
  by (simp_all add: decision_statuses_def)

lemma release_ok: "ctx_ok ctx \<Longrightarrow> \<exists>t'. release_approval e ctx ap t = Inr t'"
proof (cases ap)
  case (Some r)
  assume "ctx_ok ctx"
  then obtain t' x where "decide_approval (en_clock_settled e) (institution_id ctx) (ap_id r) ''approved''
      (principal_id (ctx_principal ctx)) t = Inr (t', x)"
    using decide_ok [of "''approved''" "institution_id ctx"] by (force simp: ctx_ok_def)
  with Some show ?thesis by (simp add: release_approval_def)
qed (simp add: release_approval_def)

lemma handler_failed_one_event:
  assumes "ctx_ok ctx" "env_ok e" "gs_audits s' = gs_audits s"
  shows "one_event ctx name s (handler_failed gw e ctx tool name d ap err s')"
proof -
  obtain t' where "release_approval e ctx ap (gs_approvals s') = Inr t'" using release_ok [OF assms(1)] by blast
  then show ?thesis
    unfolding handler_failed_def Let_def
    by (cases "classify err") (simp_all, (rule finish_one_event [OF assms(1,2)], simp_all add: assms(3) invocation_ok_def)+)
qed

lemma handler_done_one_event:
  assumes "ctx_ok ctx" "env_ok e" "gs_audits s' = gs_audits s"
  shows "one_event ctx name s (handler_done gw e ctx tool name d ap out s')"
proof (cases ap)
  case None
  then show ?thesis
    unfolding handler_done_def using None
    by simp (rule finish_one_event [OF assms(1,2)], simp_all add: assms(3) invocation_ok_def not_blank_cons py_space_def)
next
  case (Some r)
  obtain t' x where "decide_approval (en_clock_settled e) (institution_id ctx) (ap_id r) ''consumed''
      (principal_id (ctx_principal ctx)) (gs_approvals s') = Inr (t', x)"
    using decide_ok [of "''consumed''" "institution_id ctx"] assms(1) by (force simp: ctx_ok_def)
  with Some show ?thesis
    unfolding handler_done_def
    by simp (rule finish_one_event [OF assms(1,2)], simp_all add: assms(3) invocation_ok_def not_blank_cons py_space_def)
qed

lemma run_handler_one_event:
  assumes "ctx_ok ctx" "env_ok e" "gs_audits s' = gs_audits s"
  shows "one_event ctx name s (run_handler gw e ctx tool name d ap args s')"
proof -
  obtain w' r where h: "tool_handler tool ctx args (gs_world s') = (w', r)" by force
  have a: "gs_audits (s'\<lparr>gs_world := w'\<rparr>) = gs_audits s" using assms(3) by simp
  show ?thesis
    using handler_failed_one_event [OF assms(1,2) a] handler_done_one_event [OF assms(1,2) a]
    by (cases r) (simp_all add: run_handler_def h)
qed


definition fresh_approval :: "env \<Rightarrow> 'w gateway_state \<Rightarrow> bool" where
  "fresh_approval e s = (''apr-'' @ en_approval_id e \<notin> ap_id ` set (gs_approvals s))"

definition pdp_total :: "evaluator \<Rightarrow> bool" where
  "pdp_total ev = (\<forall>p c act rt ri s. act \<in> set known_actions \<and> \<not> blank rt \<and> \<not> blank ri \<longrightarrow> is_ok (ev p c act rt ri s))"

lemma create_ok: "\<not> blank i \<Longrightarrow> a \<notin> ap_id ` set t
    \<Longrightarrow> \<exists>t' r. create_approval now i a pid tool args sha why ttl t = Inr (t', r)"
  by (simp add: create_approval_def get_approval_def tenant_def tbl_insert_def list_ex_iff image_iff) (metis (no_types, lifting))

lemma need_approval_one_event:
  assumes "ctx_ok ctx" "env_ok e" "gs_audits s' = gs_audits s" "fresh_approval e s'"
  shows "one_event ctx name s (need_approval gw e ctx tool name d hint args s')"
proof -
  obtain t' r where c: "create_approval (en_clock_created e) (institution_id ctx) (''apr-'' @ en_approval_id e)
      (principal_id (ctx_principal ctx)) (tool_name tool) args (en_digest e args)
      (tool_name tool @ '' changes institutional records and needs your confirmation'')
      (gw_approval_ttl_seconds gw) (gs_approvals s') = Inr (t', r)"
    using create_ok [of "institution_id ctx" "''apr-'' @ en_approval_id e" "gs_approvals s'"] assms(1,4)
    unfolding ctx_ok_def fresh_approval_def by metis
  show ?thesis
    unfolding need_approval_def request_approval_def Let_def c bindE_simps prod.case sum.case
    by (rule finish_one_event [OF assms(1,2)]) (simp_all add: assms(3) invocation_ok_def not_blank_cons py_space_def)
qed

lemma claim_keys: "claim_approval n n' i a pid t = Inr (t', r) \<Longrightarrow> map ap_id t' = map ap_id t"
  by (drule claim_approval_state) simp

lemma get_approval_ok: "\<not> blank i \<Longrightarrow> get_approval i a t = Inr (find (\<lambda>r. ap_institution_id r = i \<and> ap_id r = a) t)"
  by (simp add: get_approval_def tenant_def)

lemma approval_state_ok: "ctx_ok ctx \<Longrightarrow> \<exists>ap why. approval_state e ctx tool args t = Inr (ap, why)"
  unfolding approval_state_def ctx_ok_def
  by (simp add: get_approval_ok split: option.splits list.splits)

lemma claim_ok: "\<not> blank i \<Longrightarrow> \<exists>t' r. claim_approval n n' i a pid t = Inr (t', r)"
  by (simp add: claim_approval_def tenant_def get_approval_def Let_def)

lemma with_approval_one_event:
  assumes "ctx_ok ctx" "env_ok e" "gs_audits s' = gs_audits s" "fresh_approval e s'"
  shows "one_event ctx name s (with_approval gw e ctx tool name d args s')"
proof (cases "tool_risk tool = RISK_HIGH")
  case False
  then show ?thesis using run_handler_one_event [OF assms(1-3)] by (simp add: with_approval_def)
next
  case True
  obtain ap why where st: "approval_state e ctx tool args (gs_approvals s') = Inr (ap, why)"
    using approval_state_ok [OF assms(1)] by blast
  show ?thesis
  proof (cases ap)
    case None
    with True st show ?thesis using need_approval_one_event [OF assms] by (simp add: with_approval_def)
  next
    case (Some r)
    obtain t' c where cl: "claim_approval (en_clock_decided e) (en_clock_claim e) (institution_id ctx) (ap_id r)
        (principal_id (ctx_principal ctx)) (gs_approvals s') = Inr (t', c)"
      using claim_ok assms(1) by (metis ctx_ok_def)
    have "set (map ap_id t') = set (map ap_id (gs_approvals s'))" using claim_keys [OF cl] by simp
    then have f: "fresh_approval e (s'\<lparr>gs_approvals := t'\<rparr>)"
      using assms(4) by (simp add: fresh_approval_def)
    have a: "gs_audits (s'\<lparr>gs_approvals := t'\<rparr>) = gs_audits s" using assms(3) by simp
    from True st Some cl show ?thesis
      using need_approval_one_event [OF assms(1,2) a f] run_handler_one_event [OF assms(1,2) a]
      by (cases c) (simp_all add: with_approval_def)
  qed
qed

lemma with_validator_one_event:
  assumes "ctx_ok ctx" "env_ok e" "fresh_approval e s"
  shows "one_event ctx name s (with_validator gw e ctx tool name d args s)"
proof (cases "case tool_validator tool of None \<Rightarrow> Inr args | Some v \<Rightarrow> v ctx args (gs_world s)")
  case (Inl err)
  show ?thesis
    unfolding with_validator_def Inl Let_def
    by (cases "classify err") (simp_all, (rule finish_one_event [OF assms(1,2)], simp_all add: invocation_ok_def)+)
next
  case (Inr args')
  with with_approval_one_event [OF assms(1,2) _ assms(3)] show ?thesis
    by (simp add: with_validator_def)
qed

lemma invoke_one_event:
  assumes "ctx_ok ctx" "env_ok e" "fresh_approval e s" "wf_registry (gw_registry gw)" "pdp_total (gw_evaluate gw)"
  shows "one_event ctx name s (invoke gw e name args ctx s)"
proof (cases "get_tool name (gw_registry gw)")
  case (Inl err)
  show ?thesis
    unfolding invoke_def Inl sum.case
    by (rule finish_one_event [OF assms(1,2)]) (simp_all add: invocation_ok_def)
next
  case (Inr tool)
  note t = Inr
  show ?thesis
  proof (cases "validate_arguments (en_rep e) (en_float e) tool args")
    case (Inl err)
    show ?thesis
      unfolding invoke_def t Inl sum.case
      by (rule finish_one_event [OF assms(1,2)]) (simp_all add: invocation_ok_def)
  next
    case (Inr v)
    have "\<not> blank (tool_name tool)" using get_tool_name [OF assms(4) t] wf_tool_iff by blast
    then have "is_ok (gw_evaluate gw (ctx_principal ctx) (tool_capability tool) (pdp_action tool) ''platform_tool''
        (tool_name tool) (ctx_scope ctx))"
      using assms(5) pdp_action_known [of "tool_risk tool"]
      unfolding pdp_total_def pdp_action_def by (simp add: not_blank_cons py_space_def)
    then obtain d where d: "gw_evaluate gw (ctx_principal ctx) (tool_capability tool) (pdp_action tool) ''platform_tool''
        (tool_name tool) (ctx_scope ctx) = Inr d" by (auto simp: is_ok_iff)
    show ?thesis
      unfolding invoke_def t Inr d sum.case Let_def
      using with_validator_one_event [OF assms(1-3)]
      by (simp) (intro conjI impI; rule finish_one_event [OF assms(1,2)]; simp add: invocation_ok_def)
  qed
qed


subsection \<open>When a handler can run\<close>

text \<open>The handler's world changed or the call reports success.\<close>

definition took_effect :: "'w gateway_state \<Rightarrow> 'w gateway_state \<times> tool_invocation res \<Rightarrow> bool" where
  "took_effect s res = (gs_world (fst res) \<noteq> gs_world s \<or> (\<exists>ti. snd res = Inr ti \<and> invocation_ok ti))"

text \<open>The approval a high-risk call must carry, as it is when the call begins.\<close>

definition confirmed :: "env \<Rightarrow> tool_context \<Rightarrow> 'w tool \<Rightarrow> pyval dict \<Rightarrow> approval list \<Rightarrow> bool" where
  "confirmed e ctx tool args t = (\<exists>r \<in> set t. ctx_approval_id ctx = Some (ap_id r)
     \<and> ap_institution_id r = institution_id ctx \<and> ap_principal_id r = principal_id (ctx_principal ctx)
     \<and> ap_tool_name r = tool_name tool \<and> ap_arguments_sha256 r = en_digest e args
     \<and> ap_status r = ''approved'' \<and> en_clock_claim e < ap_expires_at r)"

lemma no_effect_finish [simp]: "\<not> invocation_ok ti \<Longrightarrow> gs_world s' = gs_world s
    \<Longrightarrow> \<not> took_effect s (finish gw e ctx name oc d extra ti s')"
  by (auto simp: took_effect_def frame_simps dest: finish_result)

lemma no_effect_error [simp]: "gs_world s' = gs_world s \<Longrightarrow> \<not> took_effect s (s', Inl err)"
  by (simp add: took_effect_def)

lemma need_approval_no_effect: "gs_world s' = gs_world s \<Longrightarrow> \<not> took_effect s (need_approval gw e ctx tool name d hint args s')"
  by (auto simp: need_approval_def Let_def invocation_ok_def split: sum.splits prod.splits)

lemma approval_state_found:
  assumes "approval_state e ctx tool args t = Inr (Some r, why)"
  shows "ctx_approval_id ctx = Some (ap_id r) \<and> r \<in> set t \<and> ap_institution_id r = institution_id ctx
    \<and> ap_principal_id r = principal_id (ctx_principal ctx) \<and> ap_tool_name r = tool_name tool
    \<and> ap_arguments_sha256 r = en_digest e args \<and> ap_status r = ''approved'' \<and> \<not> blank (institution_id ctx)"
  using assms
  by (auto simp: approval_state_def get_approval_def bindE_eq_Inr dest: find_Some_iff2
      split: option.splits list.splits if_splits)

lemma with_approval_effect:
  assumes "approvals_ok (gs_approvals s)" and "took_effect s (with_approval gw e ctx tool name d args s)"
  shows "tool_risk tool = RISK_HIGH \<Longrightarrow> confirmed e ctx tool args (gs_approvals s)"
proof -
  assume high: "tool_risk tool = RISK_HIGH"
  obtain r why t' c where st: "approval_state e ctx tool args (gs_approvals s) = Inr (Some r, why)"
      and cl: "claim_approval (en_clock_decided e) (en_clock_claim e) (institution_id ctx) (ap_id r)
        (principal_id (ctx_principal ctx)) (gs_approvals s) = Inr (t', Some c)"
    using assms(2) high
    by (auto simp: with_approval_def need_approval_no_effect split: sum.splits prod.splits option.splits)
  from claim_won [OF assms(1) cl] obtain r0 where r0: "r0 \<in> set (gs_approvals s)"
      "claimable (en_clock_claim e) (institution_id ctx) (ap_id r) (principal_id (ctx_principal ctx)) r0" by blast
  note f = approval_state_found [OF st]
  have "r0 = r"
    using assms(1) r0 f unfolding approvals_ok_def distinct_map inj_on_def claimable_def by metis
  with r0 f show ?thesis unfolding confirmed_def claimable_def by blast
qed

lemma with_validator_effect:
  assumes "took_effect s (with_validator gw e ctx tool name d args s)"
  shows "\<exists>args'. (case tool_validator tool of None \<Rightarrow> Inr args | Some v \<Rightarrow> v ctx args (gs_world s)) = Inr args'
    \<and> took_effect s (with_approval gw e ctx tool name d args' s)"
proof (cases "case tool_validator tool of None \<Rightarrow> Inr args | Some v \<Rightarrow> v ctx args (gs_world s)")
  case (Inl err)
  have "\<not> took_effect s (with_validator gw e ctx tool name d args s)"
    unfolding with_validator_def Inl Let_def by (cases "classify err") (simp_all add: invocation_ok_def)
  with assms show ?thesis by blast
next
  case (Inr args')
  with assms show ?thesis by (auto simp: with_validator_def)
qed

lemma invoke_effect:
  assumes "took_effect s (invoke gw e name args ctx s)"
  shows "\<exists>tool validated d. get_tool name (gw_registry gw) = Inr tool
    \<and> validate_arguments (en_rep e) (en_float e) tool args = Inr validated
    \<and> az_allowed (authorize (ctx_principal ctx) (tool_capability tool) (ctx_scope ctx))
    \<and> gw_evaluate gw (ctx_principal ctx) (tool_capability tool) (pdp_action tool) ''platform_tool''
        (tool_name tool) (ctx_scope ctx) = Inr d \<and> pd_allowed d
    \<and> took_effect s (with_validator gw e ctx tool name d validated s)
    \<and> invoke gw e name args ctx s = with_validator gw e ctx tool name d validated s"
proof (cases "get_tool name (gw_registry gw)")
  case (Inl err)
  with assms show ?thesis by (simp add: invoke_def invocation_ok_def)
next
  case (Inr tool)
  note t = Inr
  show ?thesis
  proof (cases "validate_arguments (en_rep e) (en_float e) tool args")
    case (Inl err)
    with t assms show ?thesis by (simp add: invoke_def invocation_ok_def)
  next
    case (Inr v)
    note v = Inr
    show ?thesis
    proof (cases "az_allowed (authorize (ctx_principal ctx) (tool_capability tool) (ctx_scope ctx))")
      case False
      with t v assms show ?thesis by (simp add: invoke_def invocation_ok_def Let_def)
    next
      case True
      note a = True
      show ?thesis
      proof (cases "gw_evaluate gw (ctx_principal ctx) (tool_capability tool) (pdp_action tool) ''platform_tool''
          (tool_name tool) (ctx_scope ctx)")
        case (Inl err)
        with t v a assms show ?thesis by (simp add: invoke_def)
      next
        case (Inr d)
        show ?thesis
        proof (cases "pd_allowed d")
          case False
          with t v a Inr assms show ?thesis by (simp add: invoke_def invocation_ok_def Let_def)
        next
          case True
          with t v a Inr assms show ?thesis by (simp add: invoke_def)
        qed
      qed
    qed
  qed
qed

text \<open>With a decision point that meets its contract, the caller holds the capability and a matched scope.\<close>

context policy_decision_point begin

lemma gateway_effect_sound:
  assumes "gw_evaluate gw = evaluate" and "took_effect s (invoke gw e name args ctx s)"
  shows "\<exists>tool d m. get_tool name (gw_registry gw) = Inr tool
    \<and> has_capability (ctx_principal ctx) (tool_capability tool) \<and> can_access (ctx_principal ctx) (ctx_scope ctx)
    \<and> \<not> consent_missing (ctx_principal ctx) (ctx_scope ctx)
    \<and> pd_matched_scope d = Some m \<and> covers m (ctx_scope ctx)
    \<and> evaluate (ctx_principal ctx) (tool_capability tool) (pdp_action tool) ''platform_tool''
        (tool_name tool) (ctx_scope ctx) = Inr d"
proof -
  from invoke_effect [OF assms(2)] obtain tool d where t: "get_tool name (gw_registry gw) = Inr tool"
      "az_allowed (authorize (ctx_principal ctx) (tool_capability tool) (ctx_scope ctx))"
      "evaluate (ctx_principal ctx) (tool_capability tool) (pdp_action tool) ''platform_tool''
        (tool_name tool) (ctx_scope ctx) = Inr d" "pd_allowed d"
    unfolding assms(1) by blast
  from allow_sound [OF t(3,4)] obtain m where "pd_matched_scope d = Some m" "covers m (ctx_scope ctx)" by blast
  with t show ?thesis unfolding authorize_allowed by blast
qed

end


subsection \<open>What becomes of the approval\<close>

lemma decide_result: "decide_approval now i a st who t = Inr (t', r) \<Longrightarrow>
    t' = tbl_update (\<lambda>r. ap_institution_id r = i \<and> ap_id r = a)
        (\<lambda>r. r\<lparr>ap_status := st, ap_decided_at := Some now, ap_decided_by := Some who\<rparr>) t
    \<and> st \<in> decision_statuses"
  by (auto simp: decide_approval_def bindE_eq_Inr Let_def split: if_splits)

lemma finish_eq: "finish gw e ctx name oc d extra ti s = (s', Inr ti') \<Longrightarrow>
    ti' = ti \<and> gs_approvals s' = gs_approvals s \<and> gs_world s' = gs_world s"
  using finish_frame [of gw e ctx name oc d extra ti s] finish_result [of gw e ctx name oc d extra ti s ti'] by simp

lemma run_handler_settles:
  assumes "run_handler gw e ctx tool name d (Some c) args s = (s', Inr ti)"
  shows "\<exists>st x. decide_approval (en_clock_settled e) (institution_id ctx) (ap_id c) st
      (principal_id (ctx_principal ctx)) (gs_approvals s) = Inr (gs_approvals s', x)
    \<and> st = (if invocation_ok ti then ''consumed'' else ''approved'')"
proof -
  obtain w' r where h: "tool_handler tool ctx args (gs_world s) = (w', r)" by force
  show ?thesis
  proof (cases r)
    case (Inl err)
    with assms h have f: "handler_failed gw e ctx tool name d (Some c) err (s\<lparr>gs_world := w'\<rparr>) = (s', Inr ti)"
      by (simp add: run_handler_def)
    then obtain t' x where dec: "decide_approval (en_clock_settled e) (institution_id ctx) (ap_id c) ''approved''
        (principal_id (ctx_principal ctx)) (gs_approvals s) = Inr (t', x)"
      by (cases "decide_approval (en_clock_settled e) (institution_id ctx) (ap_id c) ''approved''
            (principal_id (ctx_principal ctx)) (gs_approvals s)")
         (auto simp: handler_failed_def release_approval_def)
    have "gs_approvals s' = t' \<and> \<not> invocation_ok ti"
      using f unfolding handler_failed_def release_approval_def
      by (cases "classify err") (auto simp: dec Let_def invocation_ok_def dest!: finish_eq)
    with dec show ?thesis by auto
  next
    case (Inr out)
    with assms h have f: "handler_done gw e ctx tool name d (Some c) (as_output out) (s\<lparr>gs_world := w'\<rparr>) = (s', Inr ti)"
      by (simp add: run_handler_def)
    then obtain t' x where dec: "decide_approval (en_clock_settled e) (institution_id ctx) (ap_id c) ''consumed''
        (principal_id (ctx_principal ctx)) (gs_approvals s) = Inr (t', x)"
      by (cases "decide_approval (en_clock_settled e) (institution_id ctx) (ap_id c) ''consumed''
            (principal_id (ctx_principal ctx)) (gs_approvals s)")
         (auto simp: handler_done_def)
    have "gs_approvals s' = t' \<and> invocation_ok ti"
      using f unfolding handler_done_def by (auto simp: dec invocation_ok_def dest!: finish_eq)
    with dec show ?thesis by auto
  qed
qed


lemma executing_after:
  assumes "approvals_ok t" "claim_approval n n' i a pid t = Inr (t1, Some c)"
    and "decide_approval m i a st who t1 = Inr (t2, x)" "st \<noteq> ''executing''"
    and "r \<in> set t2" "ap_status r = ''executing''"
  shows "r \<in> set t"
proof -
  from claim_approval_state [OF assms(2)] decide_result [OF assms(3)] assms(4-6)
  show ?thesis by (auto simp: tbl_update_def claimable_def split: if_splits)
qed

lemma need_approval_approvals:
  "need_approval gw e ctx tool name d hint args s = (s', Inr ti) \<Longrightarrow>
    \<not> invocation_ok ti \<and> (\<exists>x. gs_approvals s' = gs_approvals s @ [x] \<and> ap_status x = ''pending'')"
  by (auto simp: need_approval_def request_approval_def create_approval_def Let_def bindE_eq_Inr tbl_insert_Inr
      invocation_ok_def dest!: finish_eq split: sum.splits prod.splits)

lemma with_approval_high:
  assumes "approvals_ok (gs_approvals s)" "tool_risk tool = RISK_HIGH"
    and "with_approval gw e ctx tool name d args s = (s', Inr ti)"
  shows "(\<not> invocation_ok ti \<and> (\<forall>r \<in> set (gs_approvals s'). ap_status r = ''executing'' \<longrightarrow> r \<in> set (gs_approvals s)))
    \<or> (\<exists>a r t1 c st x. ctx_approval_id ctx = Some a
        \<and> claim_approval (en_clock_decided e) (en_clock_claim e) (institution_id ctx) a
            (principal_id (ctx_principal ctx)) (gs_approvals s) = Inr (t1, Some c) \<and> ap_id c = a
        \<and> decide_approval (en_clock_settled e) (institution_id ctx) a st
            (principal_id (ctx_principal ctx)) t1 = Inr (gs_approvals s', x)
        \<and> st = (if invocation_ok ti then ''consumed'' else ''approved''))"
proof -
  from assms(3) obtain ap why where st: "approval_state e ctx tool args (gs_approvals s) = Inr (ap, why)"
    by (cases "approval_state e ctx tool args (gs_approvals s)") (auto simp: with_approval_def assms(2))
  show ?thesis
  proof (cases ap)
    case None
    with assms st have "need_approval gw e ctx tool name d why args s = (s', Inr ti)"
      by (simp add: with_approval_def)
    from need_approval_approvals [OF this] show ?thesis by auto
  next
    case (Some r)
    note f = approval_state_found [OF st [unfolded Some]]
    from assms(2,3) st Some obtain t1 c where
      cl: "claim_approval (en_clock_decided e) (en_clock_claim e) (institution_id ctx) (ap_id r)
        (principal_id (ctx_principal ctx)) (gs_approvals s) = Inr (t1, c)"
      by (cases "claim_approval (en_clock_decided e) (en_clock_claim e) (institution_id ctx) (ap_id r)
        (principal_id (ctx_principal ctx)) (gs_approvals s)") (auto simp: with_approval_def)
    show ?thesis
    proof (cases c)
      case None
      with assms(2,3) st Some cl have "need_approval gw e ctx tool name d
          (Some ''the earlier confirmation is already running'') args (s\<lparr>gs_approvals := t1\<rparr>) = (s', Inr ti)"
        by (simp add: with_approval_def)
      from need_approval_approvals [OF this] claim_lost [OF cl [unfolded None]] show ?thesis by auto
    next
      case (Some c')
      with assms(2,3) st \<open>ap = Some r\<close> cl have rn:
          "run_handler gw e ctx tool name d (Some c') args (s\<lparr>gs_approvals := t1\<rparr>) = (s', Inr ti)"
        by (simp add: with_approval_def)
      have id: "ap_id c' = ap_id r" using claim_won [OF assms(1) cl [unfolded Some]] by (auto simp: claimable_def)
      from run_handler_settles [OF rn] obtain st x where
        "decide_approval (en_clock_settled e) (institution_id ctx) (ap_id r) st
          (principal_id (ctx_principal ctx)) t1 = Inr (gs_approvals s', x)"
        "st = (if invocation_ok ti then ''consumed'' else ''approved'')" unfolding id by auto
      with f cl Some id show ?thesis by blast
    qed
  qed
qed

lemma with_approval_no_executing:
  assumes "approvals_ok (gs_approvals s)" "tool_risk tool = RISK_HIGH"
    and "with_approval gw e ctx tool name d args s = (s', Inr ti)"
    and "r \<in> set (gs_approvals s')" "ap_status r = ''executing''"
  shows "r \<in> set (gs_approvals s)"
  using with_approval_high [OF assms(1-3)]
proof
  assume "\<not> invocation_ok ti \<and> (\<forall>r \<in> set (gs_approvals s'). ap_status r = ''executing'' \<longrightarrow> r \<in> set (gs_approvals s))"
  with assms(4,5) show ?thesis by blast
next
  assume "\<exists>a r t1 c st x. ctx_approval_id ctx = Some a
        \<and> claim_approval (en_clock_decided e) (en_clock_claim e) (institution_id ctx) a
            (principal_id (ctx_principal ctx)) (gs_approvals s) = Inr (t1, Some c) \<and> ap_id c = a
        \<and> decide_approval (en_clock_settled e) (institution_id ctx) a st
            (principal_id (ctx_principal ctx)) t1 = Inr (gs_approvals s', x)
        \<and> st = (if invocation_ok ti then ''consumed'' else ''approved'')"
  then obtain a t1 c st x where *: "claim_approval (en_clock_decided e) (en_clock_claim e) (institution_id ctx) a
            (principal_id (ctx_principal ctx)) (gs_approvals s) = Inr (t1, Some c)"
      "decide_approval (en_clock_settled e) (institution_id ctx) a st
            (principal_id (ctx_principal ctx)) t1 = Inr (gs_approvals s', x)"
      "st = (if invocation_ok ti then ''consumed'' else ''approved'')" by blast
  have "st \<noteq> ''executing''" using *(3) by auto
  from executing_after [OF assms(1) *(1,2) this assms(4,5)] show ?thesis .
qed

lemma with_approval_success_settled:
  assumes "approvals_ok (gs_approvals s)" "tool_risk tool = RISK_HIGH"
    and "with_approval gw e ctx tool name d args s = (s', Inr ti)" "invocation_ok ti"
  shows "\<exists>a. ctx_approval_id ctx = Some a \<and> settled a (gs_approvals s')"
proof -
  from with_approval_high [OF assms(1-3)] assms(4) obtain a t1 c x where *: "ctx_approval_id ctx = Some a"
      "claim_approval (en_clock_decided e) (en_clock_claim e) (institution_id ctx) a
            (principal_id (ctx_principal ctx)) (gs_approvals s) = Inr (t1, Some c)"
      "decide_approval (en_clock_settled e) (institution_id ctx) a ''consumed''
            (principal_id (ctx_principal ctx)) t1 = Inr (gs_approvals s', x)" by auto
  have "settled a t1" by (rule claim_settles [OF assms(1) *(2)])
  then have "settled a (approval_step (Decide (en_clock_settled e) (institution_id ctx) a ''consumed''
      (principal_id (ctx_principal ctx))) t1)" by (rule settled_step) simp
  with * show ?thesis by (simp add: after_def)
qed

lemma settled_not_confirmed: "settled a t \<Longrightarrow> ctx_approval_id ctx = Some a \<Longrightarrow> \<not> confirmed e ctx tool args t"
  by (auto simp: confirmed_def settled_def)


lemma invoke_no_effect_tool:
  assumes "invoke gw e name args ctx s = (s', Inr ti)" "get_tool name (gw_registry gw) = Inr tool"
  shows "(gs_approvals s' = gs_approvals s \<and> \<not> invocation_ok ti)
    \<or> (\<exists>d args'. with_approval gw e ctx tool name d args' s = (s', Inr ti))"
proof (cases "took_effect s (invoke gw e name args ctx s)")
  case True
  from invoke_effect [OF True] assms obtain d v where
    w: "with_validator gw e ctx tool name d v s = (s', Inr ti)" by auto
  show ?thesis
  proof (cases "case tool_validator tool of None \<Rightarrow> Inr v | Some f \<Rightarrow> f ctx v (gs_world s)")
    case (Inl err)
    with w show ?thesis
      by (cases "classify err") (auto simp: with_validator_def Let_def invocation_ok_def dest!: finish_eq)
  next
    case (Inr args')
    with w show ?thesis by (auto simp: with_validator_def)
  qed
next
  case False
  with assms(1) have n: "\<not> invocation_ok ti" by (auto simp: took_effect_def)
  show ?thesis
    using assms unfolding invoke_def assms(2) sum.case
    by (auto simp: Let_def with_validator_def n dest!: finish_eq
        split: sum.splits if_splits option.splits list.splits error_class.splits)
qed

lemma run_handler_none: "run_handler gw e ctx tool name d None args s = (s', Inr ti) \<Longrightarrow> gs_approvals s' = gs_approvals s"
  unfolding run_handler_def handler_failed_def handler_done_def release_approval_def
  by (auto simp: Let_def dest!: finish_eq split: prod.splits sum.splits error_class.splits)

lemma invoke_approvals_ok [inv_intros]:
  assumes "approvals_ok (gs_approvals s)" "invoke gw e name args ctx s = (s', Inr ti)"
    and "get_tool name (gw_registry gw) = Inr tool" "tool_risk tool = RISK_HIGH" "invocation_ok ti"
  shows "approvals_ok (gs_approvals s') \<and> (\<exists>a. ctx_approval_id ctx = Some a \<and> settled a (gs_approvals s'))"
proof -
  from invoke_no_effect_tool [OF assms(2,3)] assms(5) obtain d args' where
    w: "with_approval gw e ctx tool name d args' s = (s', Inr ti)" by blast
  from with_approval_high [OF assms(1,4) w] assms(5) obtain a t1 c x where
    "claim_approval (en_clock_decided e) (en_clock_claim e) (institution_id ctx) a
            (principal_id (ctx_principal ctx)) (gs_approvals s) = Inr (t1, Some c)"
    "decide_approval (en_clock_settled e) (institution_id ctx) a ''consumed''
            (principal_id (ctx_principal ctx)) t1 = Inr (gs_approvals s', x)" by auto
  then have "approvals_ok (gs_approvals s')"
    using assms(1) claim_approval_ok decide_approval_ok by blast
  with with_approval_success_settled [OF assms(1,4) w assms(5)] show ?thesis by blast
qed

lemma approvals_ok_run: "approvals_ok t \<Longrightarrow> approvals_ok (foldl (\<lambda>t op. approval_step op t) t ops)"
  by (induction ops arbitrary: t) (simp_all add: approval_step_ok)

subsection \<open>Properties\<close>

text \<open>C1: a tool call takes effect (a handler changes the world, or success is reported) only when
  the tool is registered, the arguments satisfy its schema, the caller holds the capability and
  the scope with any consent needed, the decision point allows it and, for a high-risk tool, the
  caller's own approval of exactly this tool and these arguments is approved and unexpired.\<close>

theorem gateway_effect_guarded:
  assumes "approvals_ok (gs_approvals s)" and "took_effect s (invoke gw e name args ctx s)"
  shows "\<exists>tool validated d args'. get_tool name (gw_registry gw) = Inr tool
    \<and> validate_arguments (en_rep e) (en_float e) tool args = Inr validated
    \<and> arguments_ok (tool_parameters tool) validated
    \<and> has_capability (ctx_principal ctx) (tool_capability tool)
    \<and> can_access (ctx_principal ctx) (ctx_scope ctx) \<and> \<not> consent_missing (ctx_principal ctx) (ctx_scope ctx)
    \<and> gw_evaluate gw (ctx_principal ctx) (tool_capability tool) (pdp_action tool) ''platform_tool''
        (tool_name tool) (ctx_scope ctx) = Inr d \<and> pd_allowed d
    \<and> (case tool_validator tool of None \<Rightarrow> Inr validated | Some v \<Rightarrow> v ctx validated (gs_world s)) = Inr args'
    \<and> (tool_risk tool = RISK_HIGH \<longrightarrow> confirmed e ctx tool args' (gs_approvals s))"
proof -
  from invoke_effect [OF assms(2)] obtain tool validated d where t:
      "get_tool name (gw_registry gw) = Inr tool"
      "validate_arguments (en_rep e) (en_float e) tool args = Inr validated"
      "az_allowed (authorize (ctx_principal ctx) (tool_capability tool) (ctx_scope ctx))"
      "gw_evaluate gw (ctx_principal ctx) (tool_capability tool) (pdp_action tool) ''platform_tool''
        (tool_name tool) (ctx_scope ctx) = Inr d" "pd_allowed d"
      "took_effect s (with_validator gw e ctx tool name d validated s)" by blast
  from with_validator_effect [OF t(6)] obtain args' where a:
      "(case tool_validator tool of None \<Rightarrow> Inr validated | Some v \<Rightarrow> v ctx validated (gs_world s)) = Inr args'"
      "took_effect s (with_approval gw e ctx tool name d args' s)" by blast
  from with_approval_effect [OF assms(1) a(2)] t a validate_arguments_ok [OF t(2)] show ?thesis
    unfolding authorize_allowed by blast
qed



text \<open>C8: no invocation leaves an approval executing: whatever the handler does, the approval a call
  claimed is consumed when the call succeeds and approved again when it does not.\<close>

theorem no_approval_left_executing:
  assumes "approvals_ok (gs_approvals s)" and "get_tool name (gw_registry gw) = Inr tool"
    and "invoke gw e name args ctx s = (s', Inr ti)"
    and "r \<in> set (gs_approvals s')" and "ap_status r = ''executing''"
  shows "r \<in> set (gs_approvals s)"
  using invoke_no_effect_tool [OF assms(3,2)]
proof
  assume "\<exists>d args'. with_approval gw e ctx tool name d args' s = (s', Inr ti)"
  then obtain d args' where w: "with_approval gw e ctx tool name d args' s = (s', Inr ti)" by blast
  show ?thesis
  proof (cases "tool_risk tool = RISK_HIGH")
    case True
    from with_approval_no_executing [OF assms(1) True w assms(4,5)] show ?thesis .
  next
    case False
    with w have "gs_approvals s' = gs_approvals s" by (auto simp: with_approval_def dest: run_handler_none)
    with assms(4) show ?thesis by simp
  qed
qed (use assms(4) in simp)


text \<open>Without the contact capability, no data a successful call returns names a student and
  carries a contact field, whatever the handler produced.\<close>

theorem gateway_output_contact_free:
  assumes "invoke gw e name args ctx s = (s', Inr ti)" and "invocation_ok ti"
    and "\<not> has_capability (ctx_principal ctx) STUDENTS_READ_CONTACT"
  shows "contact_free (ti_data ti)"
proof -
  have "took_effect s (invoke gw e name args ctx s)" using assms(1,2) by (auto simp: took_effect_def)
  from invoke_effect [OF this] assms(1) obtain tool d v where
    w: "with_validator gw e ctx tool name d v s = (s', Inr ti)" by auto
  have r: "contact_free (ti_data ti)" if "run_handler gw e ctx tool name d ap a s0 = (s', Inr ti)" for ap a s0
    using that assms(2,3) strip_contact_free(1)
    by (auto simp: run_handler_def handler_failed_def handler_done_def Let_def invocation_ok_def
        strip_student_contact_def dest!: finish_eq split: prod.splits sum.splits error_class.splits)
  have n: False if "need_approval gw e ctx tool name d hint a s0 = (s', Inr ti)" for hint a s0
    using need_approval_approvals [OF that] assms(2) by blast
  show ?thesis
    using w assms(2)
    by (auto simp: with_validator_def with_approval_def Let_def invocation_ok_def dest!: finish_eq dest: r n
        split: sum.splits error_class.splits if_splits prod.splits option.splits)
qed

text \<open>Deciding a confirmation reads its status and then writes without checking it again: two
  confirmations that both read pending let the second one put a consumed approval back to
  approved, and the action can be claimed a second time.\<close>

theorem stale_decision_reapproves:
  "\<exists>r t1 t2 t3 t4 t5 c1 c2 x y z.
     get_approval ''c'' ''a'' [r] = Inr (Some r) \<and> ap_status r = ''pending''
     \<and> decide_approval 5 ''c'' ''a'' ''approved'' ''u'' [r] = Inr (t1, x)
     \<and> claim_approval 6 6 ''c'' ''a'' ''u'' t1 = Inr (t2, Some c1)
     \<and> decide_approval 7 ''c'' ''a'' ''consumed'' ''u'' t2 = Inr (t3, y)
     \<and> decide_approval 8 ''c'' ''a'' ''approved'' ''u'' t3 = Inr (t4, z)
     \<and> claim_approval 9 9 ''c'' ''a'' ''u'' t4 = Inr (t5, Some c2)"
proof -
  let ?r = "sample_approval\<lparr>ap_status := ''pending''\<rparr>"
  note defs = decide_approval_def claim_approval_def get_approval_def decision_statuses_def tbl_update_def
    tbl_count_def claimable_def sample_approval_def Let_def tenant_def blank_def py_strip_def py_space_def
  show ?thesis by (rule exI [of _ ?r]) (simp add: defs)
qed

subsection \<open>A sample call\<close>

definition sample_tool :: "nat tool" where
  "sample_tool = \<lparr>tool_name = ''bump'', tool_description = ''adds one'', tool_group = ''records'',
     tool_capability = RECORDS_WRITE, tool_handler = (\<lambda>ctx args w. (Suc w, Inr (Bare (PInt 1)))),
     tool_parameters = [], tool_risk = RISK_HIGH, tool_returns = [], tool_allowed_fields = [],
     tool_audit_policy = ''metadata_only'', tool_examples = [], tool_validator = None\<rparr>"

definition sample_gateway :: "nat gateway" where
  "sample_gateway = \<lparr>gw_registry = [(''bump'', sample_tool)], gw_evaluate = local_evaluate ''0'',
     gw_policy_version = local_policy_version, gw_approval_ttl_seconds = 900\<rparr>"

definition sample_env :: env where
  "sample_env = \<lparr>en_clock_check = 5, en_clock_decided = 5, en_clock_claim = 5, en_clock_created = 5,
     en_clock_settled = 6, en_clock_audit = 6, en_duration_ms = 1, en_audit_id = ''1'', en_approval_id = ''2'',
     en_digest = (\<lambda>_. ''h''), en_rep = (\<lambda>_. []), en_float = (\<lambda>_. None)\<rparr>"

definition sample_caller :: principal where
  "sample_caller = \<lparr>principal_id = ''u'', principal_type = PRINCIPAL, capabilities = head_caps,
     scopes = [\<lparr>college_id = ''c'', department_id = None, batch_id = None\<rparr>], authenticated = True,
     consent_verified = False, revoked = False\<rparr>"

definition sample_context :: tool_context where
  "sample_context = \<lparr>ctx_request_id = ''r1'', ctx_principal = sample_caller,
     ctx_scope = \<lparr>college_id = ''c'', department_id = None, batch_id = None\<rparr>, ctx_channel = ''text'',
     ctx_limits = default_query_limits, ctx_approval_id = Some ''a'', ctx_conversation_id = None\<rparr>"

definition sample_state :: "nat gateway_state" where
  "sample_state = \<lparr>gs_approvals = [sample_approval\<lparr>ap_tool_name := ''bump''\<rparr>], gs_audits = [], gs_world = 0\<rparr>"

lemma sample_world: "gs_world (fst (invoke sample_gateway sample_env ''bump'' None sample_context sample_state)) = 1"
  by code_simp


lemma gateway_effect_guarded_witness:
  "can_access (ctx_principal sample_context) (ctx_scope sample_context)
    \<and> (\<exists>args'. confirmed sample_env sample_context sample_tool args' (gs_approvals sample_state))"
proof -
  have ok: "approvals_ok (gs_approvals sample_state)" by code_simp
  have w0: "gs_world sample_state = 0" by (simp add: sample_state_def)
  have eff: "took_effect sample_state (invoke sample_gateway sample_env ''bump'' None sample_context sample_state)"
    unfolding took_effect_def sample_world w0 by simp
  have t: "get_tool ''bump'' (gw_registry sample_gateway) = Inr sample_tool"
    by (simp add: get_tool_def sample_gateway_def dict_get_def)
  have "tool_risk sample_tool = RISK_HIGH" by (simp add: sample_tool_def)
  with gateway_effect_guarded [OF ok eff] t show ?thesis by fastforce
qed

lemma sample_pdp_total: "pdp_total (gw_evaluate sample_gateway)"
  using local_total by (simp add: pdp_total_def sample_gateway_def)

lemma sample_registry_wf: "wf_registry (gw_registry sample_gateway)"
proof -
  have "wf_tool sample_tool" unfolding wf_tool_iff by code_simp
  then show ?thesis by (simp add: wf_registry_def sample_gateway_def wf_dict_def sample_tool_def)
qed


lemma sample_success:
  "\<exists>s1 ti. invoke sample_gateway sample_env ''bump'' None sample_context sample_state = (s1, Inr ti) \<and> invocation_ok ti"
proof -
  have "case snd (invoke sample_gateway sample_env ''bump'' None sample_context sample_state) of
      Inr ti \<Rightarrow> invocation_ok ti | Inl _ \<Rightarrow> False" by code_simp
  then show ?thesis by (cases "invoke sample_gateway sample_env ''bump'' None sample_context sample_state")
      (auto split: sum.splits)
qed


definition sample_busy :: "nat gateway_state" where
  "sample_busy = sample_state\<lparr>gs_approvals := gs_approvals sample_state
     @ [sample_approval\<lparr>ap_id := ''b'', ap_status := ''executing''\<rparr>]\<rparr>"

lemma no_approval_left_executing_witness:
  "sample_approval\<lparr>ap_id := ''b'', ap_status := ''executing''\<rparr> \<in> set (gs_approvals sample_busy)"
proof -
  have "case snd (invoke sample_gateway sample_env ''bump'' None sample_context sample_busy) of
      Inr ti \<Rightarrow> sample_approval\<lparr>ap_id := ''b'', ap_status := ''executing''\<rparr>
        \<in> set (gs_approvals (fst (invoke sample_gateway sample_env ''bump'' None sample_context sample_busy)))
    | Inl _ \<Rightarrow> False" by code_simp
  then obtain s' ti where s: "invoke sample_gateway sample_env ''bump'' None sample_context sample_busy = (s', Inr ti)"
      and m: "sample_approval\<lparr>ap_id := ''b'', ap_status := ''executing''\<rparr> \<in> set (gs_approvals s')"
    by (cases "invoke sample_gateway sample_env ''bump'' None sample_context sample_busy")
       (auto split: sum.splits)
  have ok: "approvals_ok (gs_approvals sample_busy)" by code_simp
  have t: "get_tool ''bump'' (gw_registry sample_gateway) = Inr sample_tool"
    by (simp add: get_tool_def sample_gateway_def dict_get_def)
  show ?thesis by (rule no_approval_left_executing [OF ok t s m]) simp
qed


lemma gateway_output_contact_free_witness:
  "\<exists>s' ti. invoke sample_gateway sample_env ''bump'' None (sample_context\<lparr>ctx_principal := sample_caller\<lparr>capabilities := {RECORDS_WRITE}\<rparr>\<rparr>)
      sample_state = (s', Inr ti) \<and> contact_free (ti_data ti)"
proof -
  let ?c = "sample_context\<lparr>ctx_principal := sample_caller\<lparr>capabilities := {RECORDS_WRITE}\<rparr>\<rparr>"
  have "case snd (invoke sample_gateway sample_env ''bump'' None ?c sample_state) of
      Inr ti \<Rightarrow> invocation_ok ti | Inl _ \<Rightarrow> False" by code_simp
  then obtain s' ti where s: "invoke sample_gateway sample_env ''bump'' None ?c sample_state = (s', Inr ti)"
      "invocation_ok ti"
    by (cases "invoke sample_gateway sample_env ''bump'' None ?c sample_state") (auto split: sum.splits)
  have "\<not> has_capability (ctx_principal ?c) STUDENTS_READ_CONTACT"
    by (simp add: has_capability_def)
  from gateway_output_contact_free [OF s this] s show ?thesis by blast
qed

end
