(* ===== verification/ControlStore.thy ===== *)
theory ControlStore
  imports SqlTable
begin

text \<open>
  The control-plane store of \<^verbatim>\<open>persistence/database.py\<close> in its in-memory and its SQL form,
  with the records of \<^verbatim>\<open>persistence/control_plane.py\<close> and the dispatcher of
  \<^verbatim>\<open>persistence/outbox.py\<close>. The lemmas compare the two stores: same usage caps, same outbox
  protocol. Instants are microseconds; a day is a number.
\<close>

subsection \<open>Records\<close>

record answer_envelope =
  an_request_id :: string
  an_conversation_id :: "string option"
  an_principal_id :: "string option"
  an_college_id :: "string option"
  an_status :: string
  an_citations_count :: int
  an_warnings_count :: int
  an_answer_sha256 :: string
  an_created_at :: int

record model_attempt =
  ma_request_id :: string
  ma_provider_id :: string
  ma_model_id :: string
  ma_outcome :: string
  ma_latency_ms :: int
  ma_fallback :: bool
  ma_prompt_tokens :: "int option"
  ma_completion_tokens :: "int option"
  ma_total_tokens :: "int option"
  ma_cost :: "rat option"
  ma_created_at :: int

record outbox_record =
  ob_id :: string
  ob_event_type :: string
  ob_payload :: "pyval dict"
  ob_created_at :: int
  ob_delivered_at :: "int option"

record briefing_run =
  bn_id :: string
  bn_created_at :: int
  bn_principal_id :: string
  bn_institution_id :: string
  bn_answer :: "pyval dict"

record voice_row =
  vs_id :: string
  vs_principal_id :: string
  vs_institution_id :: string
  vs_principal_json :: "pyval dict"
  vs_ticket_sha256 :: string
  vs_created_at :: int
  vs_ticket_expires_at :: int
  vs_expires_at :: int
  vs_claimed_at :: "int option"
  vs_closed_at :: "int option"

record usage_row =
  us_institution_id :: string
  us_principal_id :: string
  us_counter :: string
  us_day :: int
  us_used :: int

type_synonym usage_key = "string \<times> string \<times> string \<times> int"

definition day_us :: int where "day_us = 86400000000"
definition VOICE_SESSION_KEEP :: int where "VOICE_SESSION_KEEP = day_us"
definition USAGE_COUNTER_KEEP_DAYS :: int where "USAGE_COUNTER_KEEP_DAYS = 30"

definition is_active_session :: "voice_row \<Rightarrow> int \<Rightarrow> bool" where
  "is_active_session r now =
     (if vs_closed_at r \<noteq> None then False
      else if vs_claimed_at r = None then now < vs_ticket_expires_at r \<and> now < vs_expires_at r
      else now < vs_expires_at r)"

subsection \<open>The in-memory store\<close>

record mem_store =
  m_events :: "audit_event list"
  m_max_events :: nat
  m_health :: "source_health dict"
  m_briefings :: "briefing_run list"
  m_answers :: "answer_envelope list"
  m_attempts :: "model_attempt list"
  m_outbox :: "outbox_record list"
  m_usage :: "(usage_key \<times> int) list"

definition new_mem_store :: "int \<Rightarrow> mem_store res" where
  "new_mem_store max_events =
     (if max_events \<le> 0 then Inl (ValueError ''max_events must be positive'')
      else Inr \<lparr>m_events = [], m_max_events = nat max_events, m_health = [], m_briefings = [], m_answers = [],
                m_attempts = [], m_outbox = [], m_usage = []\<rparr>)"

definition keep_last :: "nat \<Rightarrow> 'a list \<Rightarrow> 'a list" where
  "keep_last n xs = (if n < length xs then last_n n xs else xs)"

definition mem_append_audit :: "audit_event \<Rightarrow> mem_store \<Rightarrow> mem_store" where
  "mem_append_audit ev m = m\<lparr>m_events := keep_last (m_max_events m) (m_events m @ [ev])\<rparr>"

definition newest_first :: "int \<Rightarrow> 'a list \<Rightarrow> 'a list" where
  "newest_first limit xs = (if limit \<le> 0 then [] else rev (last_n (nat limit) xs))"

definition mem_recent_audit :: "int \<Rightarrow> mem_store \<Rightarrow> audit_event list" where
  "mem_recent_audit limit m = newest_first limit (m_events m)"

definition mem_set_health :: "source_health \<Rightarrow> mem_store \<Rightarrow> mem_store" where
  "mem_set_health h m = m\<lparr>m_health := dict_set (m_health m) (sh_source_id h) h\<rparr>"

definition mem_get_health :: "string \<Rightarrow> mem_store \<Rightarrow> source_health option" where
  "mem_get_health s m = dict_get (m_health m) s"

definition mem_all_health :: "mem_store \<Rightarrow> source_health list" where
  "mem_all_health m = dict_values (m_health m)"

definition mem_record_briefing :: "int \<Rightarrow> string \<Rightarrow> string \<Rightarrow> string \<Rightarrow> pyval dict \<Rightarrow> mem_store \<Rightarrow> mem_store" where
  "mem_record_briefing now b p i ans m = m\<lparr>m_briefings := keep_last (m_max_events m) (m_briefings m
     @ [\<lparr>bn_id = b, bn_created_at = now, bn_principal_id = p, bn_institution_id = i, bn_answer = ans\<rparr>])\<rparr>"

definition mem_recent_briefings :: "int \<Rightarrow> mem_store \<Rightarrow> briefing_run list" where
  "mem_recent_briefings limit m = newest_first limit (m_briefings m)"

definition mem_record_answer :: "answer_envelope \<Rightarrow> mem_store \<Rightarrow> mem_store" where
  "mem_record_answer a m =
     m\<lparr>m_answers := filter (\<lambda>x. an_request_id x \<noteq> an_request_id a) (m_answers m) @ [a]\<rparr>"

definition mem_record_attempt :: "model_attempt \<Rightarrow> mem_store \<Rightarrow> mem_store" where
  "mem_record_attempt a m = m\<lparr>m_attempts := keep_last (m_max_events m) (m_attempts m @ [a])\<rparr>"

definition mem_enqueue_outbox :: "string \<Rightarrow> int \<Rightarrow> string \<Rightarrow> pyval dict \<Rightarrow> mem_store \<Rightarrow> mem_store \<times> string" where
  "mem_enqueue_outbox fresh now ty payload m =
     (m\<lparr>m_outbox := m_outbox m @ [\<lparr>ob_id = ''outbox-'' @ fresh, ob_event_type = ty, ob_payload = payload,
        ob_created_at = now, ob_delivered_at = None\<rparr>]\<rparr>, ''outbox-'' @ fresh)"

definition mem_drain_outbox :: "int \<Rightarrow> mem_store \<Rightarrow> outbox_record list" where
  "mem_drain_outbox limit m = (if limit \<le> 0 then []
     else take_int limit (filter (\<lambda>x. ob_delivered_at x = None) (m_outbox m)))"

definition mem_ack_outbox :: "string list \<Rightarrow> mem_store \<Rightarrow> mem_store" where
  "mem_ack_outbox ids m = (if ids = [] then m
     else m\<lparr>m_outbox := filter (\<lambda>x. ob_id x \<notin> set ids) (m_outbox m)\<rparr>)"

definition mem_prune_retention :: "int \<Rightarrow> int \<Rightarrow> mem_store \<Rightarrow> (mem_store \<times> int) res" where
  "mem_prune_retention now retention_days m =
     (if retention_days \<le> 0 then Inl (ValueError ''retention_days must be positive'')
      else
        let cutoff = now - retention_days * day_us;
            total = (\<lambda>s. int (length (m_events s) + length (m_answers s) + length (m_attempts s)
                      + length (m_outbox s) + length (m_briefings s)));
            m' = m\<lparr>m_events := filter (\<lambda>x. cutoff \<le> ae_occurred_at x) (m_events m),
                   m_answers := filter (\<lambda>x. cutoff \<le> an_created_at x) (m_answers m),
                   m_attempts := filter (\<lambda>x. cutoff \<le> ma_created_at x) (m_attempts m),
                   m_outbox := filter (\<lambda>x. cutoff \<le> ob_created_at x) (m_outbox m),
                   m_briefings := filter (\<lambda>x. cutoff \<le> bn_created_at x) (m_briefings m)\<rparr>
        in Inr (m', total m - total m'))"

definition mem_take_usage :: "usage_key \<Rightarrow> int \<Rightarrow> (usage_key \<times> int) list \<Rightarrow> (usage_key \<times> int) list \<times> bool" where
  "mem_take_usage key cap u =
     (let used = (case map_of u key of Some n \<Rightarrow> n | None \<Rightarrow> 0)
      in if cap \<le> used then (u, False) else (AList.update key (used + 1) u, True))"


subsection \<open>The SQL store\<close>

record sql_store =
  q_audit :: "audit_event list"
  q_health :: "source_health list"
  q_briefings :: "briefing_run list"
  q_answers :: "answer_envelope list"
  q_attempts :: "(string \<times> model_attempt) list"
  q_outbox :: "outbox_record list"
  q_usage :: "usage_row list"

definition empty_sql_store :: sql_store where
  "empty_sql_store = \<lparr>q_audit = [], q_health = [], q_briefings = [], q_answers = [], q_attempts = [], q_outbox = [], q_usage = []\<rparr>"

text \<open>INSERT OR REPLACE: the row with the key, if any, is deleted first.\<close>

definition tbl_replace :: "('r \<Rightarrow> string) \<Rightarrow> 'r \<Rightarrow> 'r list \<Rightarrow> 'r list" where
  "tbl_replace key r t = filter (\<lambda>x. key x \<noteq> key r) t @ [r]"

text \<open>The decision metadata is stored as a JSON object, so of two entries with one key the later stays.\<close>

definition stored_audit :: "audit_event \<Rightarrow> audit_event" where
  "stored_audit ev = ev\<lparr>ae_metadata := foldl (\<lambda>d (k, v). dict_set d k v) [] (ae_metadata ev)\<rparr>"

lemma stored_audit_distinct: "distinct (map fst (ae_metadata ev)) \<Longrightarrow> stored_audit ev = ev"
proof -
  have "distinct (map fst (d @ md)) \<Longrightarrow> foldl (\<lambda>d (k, v). dict_set d k v) d md = d @ md" for d md :: "(string \<times> pyval) list"
  proof (induction md arbitrary: d)
    case (Cons a md)
    obtain k v where a: "a = (k, v)" by (cases a)
    have "\<not> dict_has d k" using Cons.prems a by (auto simp: dict_has_keys dict_keys_def)
    then show ?case using Cons.IH [of "d @ [(k, v)]"] Cons.prems a by (simp add: dict_set_new)
  qed simp
  from this [of "[]"] show "distinct (map fst (ae_metadata ev)) \<Longrightarrow> stored_audit ev = ev"
    by (simp add: stored_audit_def)
qed

definition sql_append_audit :: "audit_event \<Rightarrow> sql_store \<Rightarrow> sql_store res" where
  "sql_append_audit ev q = bindE (tbl_insert ae_event_id (stored_audit ev) (q_audit q)) (\<lambda>t. Inr (q\<lparr>q_audit := t\<rparr>))"

definition sql_recent_audit :: "int \<Rightarrow> sql_store \<Rightarrow> audit_event list" where
  "sql_recent_audit limit q = (if limit \<le> 0 then [] else newest ae_occurred_at limit (q_audit q))"

definition sql_set_health :: "source_health \<Rightarrow> sql_store \<Rightarrow> sql_store" where
  "sql_set_health h q = q\<lparr>q_health := tbl_replace sh_source_id h (q_health q)\<rparr>"

definition sql_get_health :: "string \<Rightarrow> sql_store \<Rightarrow> source_health option" where
  "sql_get_health s q = find (\<lambda>h. sh_source_id h = s) (q_health q)"

definition sql_all_health :: "sql_store \<Rightarrow> source_health list" where
  "sql_all_health q = sort_key sh_source_id (q_health q)"

definition sql_record_briefing :: "int \<Rightarrow> string \<Rightarrow> string \<Rightarrow> string \<Rightarrow> pyval dict \<Rightarrow> sql_store \<Rightarrow> sql_store" where
  "sql_record_briefing now b p i ans q = q\<lparr>q_briefings := tbl_replace bn_id
     \<lparr>bn_id = b, bn_created_at = now, bn_principal_id = p, bn_institution_id = i, bn_answer = ans\<rparr> (q_briefings q)\<rparr>"

definition sql_recent_briefings :: "int \<Rightarrow> sql_store \<Rightarrow> briefing_run list" where
  "sql_recent_briefings limit q = (if limit \<le> 0 then [] else newest bn_created_at limit (q_briefings q))"

definition sql_record_answer :: "answer_envelope \<Rightarrow> sql_store \<Rightarrow> sql_store" where
  "sql_record_answer a q = q\<lparr>q_answers := tbl_replace an_request_id a (q_answers q)\<rparr>"

definition sql_record_attempt :: "string \<Rightarrow> model_attempt \<Rightarrow> sql_store \<Rightarrow> sql_store res" where
  "sql_record_attempt fresh a q =
     bindE (tbl_insert fst (''attempt-'' @ fresh, a) (q_attempts q)) (\<lambda>t. Inr (q\<lparr>q_attempts := t\<rparr>))"

definition sql_enqueue_outbox :: "string \<Rightarrow> int \<Rightarrow> string \<Rightarrow> pyval dict \<Rightarrow> sql_store \<Rightarrow> (sql_store \<times> string) res" where
  "sql_enqueue_outbox fresh now ty payload q =
     bindE (tbl_insert ob_id \<lparr>ob_id = ''outbox-'' @ fresh, ob_event_type = ty, ob_payload = payload,
        ob_created_at = now, ob_delivered_at = None\<rparr> (q_outbox q))
       (\<lambda>t. Inr (q\<lparr>q_outbox := t\<rparr>, ''outbox-'' @ fresh))"

definition sql_drain_outbox :: "int \<Rightarrow> sql_store \<Rightarrow> outbox_record list" where
  "sql_drain_outbox limit q = (if limit \<le> 0 then []
     else page ob_created_at limit 0 (filter (\<lambda>x. ob_delivered_at x = None) (q_outbox q)))"

definition sql_ack_outbox :: "int \<Rightarrow> string list \<Rightarrow> sql_store \<Rightarrow> sql_store" where
  "sql_ack_outbox now ids q = (if ids = [] then q
     else q\<lparr>q_outbox := foldl (\<lambda>t i. tbl_update (\<lambda>x. ob_id x = i \<and> ob_delivered_at x = None)
         (\<lambda>x. x\<lparr>ob_delivered_at := Some now\<rparr>) t) (q_outbox q) ids\<rparr>)"

definition sql_prune_retention :: "int \<Rightarrow> int \<Rightarrow> sql_store \<Rightarrow> (sql_store \<times> int) res" where
  "sql_prune_retention now retention_days q =
     (if retention_days \<le> 0 then Inl (ValueError ''retention_days must be positive'')
      else
        let cutoff = now - retention_days * day_us
        in Inr (q\<lparr>q_audit := tbl_delete (\<lambda>x. ae_occurred_at x < cutoff) (q_audit q),
                  q_answers := tbl_delete (\<lambda>x. an_created_at x < cutoff) (q_answers q),
                  q_attempts := tbl_delete (\<lambda>x. ma_created_at (snd x) < cutoff) (q_attempts q),
                  q_outbox := tbl_delete (\<lambda>x. ob_created_at x < cutoff) (q_outbox q),
                  q_briefings := tbl_delete (\<lambda>x. bn_created_at x < cutoff) (q_briefings q)\<rparr>,
                int (tbl_count (\<lambda>x. ae_occurred_at x < cutoff) (q_audit q)
                   + tbl_count (\<lambda>x. an_created_at x < cutoff) (q_answers q)
                   + tbl_count (\<lambda>x. ma_created_at (snd x) < cutoff) (q_attempts q)
                   + tbl_count (\<lambda>x. ob_created_at x < cutoff) (q_outbox q)
                   + tbl_count (\<lambda>x. bn_created_at x < cutoff) (q_briefings q))))"

text \<open>The upsert of a usage counter: insert 1, or add 1 where the stored count is below the cap.\<close>

definition us_key :: "usage_row \<Rightarrow> usage_key" where
  "us_key r = (us_institution_id r, us_principal_id r, us_counter r, us_day r)"

definition sql_take_usage :: "usage_key \<Rightarrow> int \<Rightarrow> usage_row list \<Rightarrow> usage_row list \<times> bool" where
  "sql_take_usage key cap t =
     (if cap \<le> 0 then (t, False)
      else if find (\<lambda>r. us_key r = key) t = None then
        (case key of (i, p, c, d) \<Rightarrow> (t @ [\<lparr>us_institution_id = i, us_principal_id = p, us_counter = c, us_day = d, us_used = 1\<rparr>], True))
      else (tbl_update (\<lambda>r. us_key r = key \<and> us_used r < cap) (\<lambda>r. r\<lparr>us_used := us_used r + 1\<rparr>) t,
            tbl_count (\<lambda>r. us_key r = key \<and> us_used r < cap) t = 1))"

subsection \<open>Pruning short-lived records\<close>

definition mem_prune_ephemeral :: "int \<Rightarrow> voice_row dict \<Rightarrow> (usage_key \<times> int) list
    \<Rightarrow> voice_row dict \<times> (usage_key \<times> int) list \<times> int" where
  "mem_prune_ephemeral now vs u =
     (let cutoff = now - VOICE_SESSION_KEEP;
          oldest_day = now div day_us - USAGE_COUNTER_KEEP_DAYS;
          stale = (\<lambda>r. (case vs_closed_at r of Some c \<Rightarrow> c | None \<Rightarrow> vs_expires_at r) < cutoff);
          old = (\<lambda>k. snd (snd (snd k)) < oldest_day)
      in (filter (\<lambda>(k, r). \<not> stale r) vs, filter (\<lambda>(k, n). \<not> old k) u,
          int (length (filter (\<lambda>(k, r). stale r) vs) + length (filter (\<lambda>(k, n). old k) u))))"

definition sql_prune_ephemeral :: "int \<Rightarrow> voice_row list \<Rightarrow> usage_row list \<Rightarrow> voice_row list \<times> usage_row list \<times> int" where
  "sql_prune_ephemeral now vs u =
     (let cutoff = now - VOICE_SESSION_KEEP;
          oldest_day = now div day_us - USAGE_COUNTER_KEEP_DAYS;
          stale = (\<lambda>r. (case vs_closed_at r of Some c \<Rightarrow> c | None \<Rightarrow> vs_expires_at r) < cutoff)
      in (tbl_delete stale vs, tbl_delete (\<lambda>r. us_day r < oldest_day) u,
          int (tbl_count stale vs + tbl_count (\<lambda>r. us_day r < oldest_day) u)))"

subsection \<open>Dispatching the outbox\<close>

text \<open>
  \<^verbatim>\<open>dispatch_once\<close>: the handler is called for each drained record in order and may raise,
  in which case nothing is acknowledged. The result is what the handler was called with.
\<close>

fun handle_each :: "(outbox_record \<Rightarrow> unit res) \<Rightarrow> outbox_record list \<Rightarrow> outbox_record list \<times> string list res" where
  "handle_each h [] = ([], Inr [])"
| "handle_each h (r # rs) = (case h r of
      Inl e \<Rightarrow> ([r], Inl e)
    | Inr _ \<Rightarrow> (case handle_each h rs of
        (called, Inl e) \<Rightarrow> (r # called, Inl e)
      | (called, Inr ids) \<Rightarrow> (r # called, Inr (ob_id r # ids))))"

definition mem_dispatch_once :: "(outbox_record \<Rightarrow> unit res) \<Rightarrow> int \<Rightarrow> mem_store \<Rightarrow> mem_store \<times> outbox_record list \<times> int res" where
  "mem_dispatch_once h limit m = (case handle_each h (mem_drain_outbox limit m) of
      (called, Inl e) \<Rightarrow> (m, called, Inl e)
    | (called, Inr ids) \<Rightarrow> (mem_ack_outbox ids m, called, Inr (int (length ids))))"

definition sql_dispatch_once :: "int \<Rightarrow> (outbox_record \<Rightarrow> unit res) \<Rightarrow> int \<Rightarrow> sql_store \<Rightarrow> sql_store \<times> outbox_record list \<times> int res" where
  "sql_dispatch_once now h limit q = (case handle_each h (sql_drain_outbox limit q) of
      (called, Inl e) \<Rightarrow> (q, called, Inl e)
    | (called, Inr ids) \<Rightarrow> (sql_ack_outbox now ids q, called, Inr (int (length ids))))"

subsection \<open>Usage caps: the SQL counter refines the in-memory one\<close>

definition usage_ok :: "usage_row list \<Rightarrow> bool" where
  "usage_ok t = (distinct (map us_key t) \<and> (\<forall>r \<in> set t. 1 \<le> us_used r))"

definition usage_abs :: "usage_row list \<Rightarrow> (usage_key \<times> int) list" where
  "usage_abs t = map (\<lambda>r. (us_key r, us_used r)) t"

lemma usage_abs_get: "map_of (usage_abs t) k = map_option us_used (find (\<lambda>r. us_key r = k) t)"
  by (induction t) (auto simp: usage_abs_def)

lemma find_key_unique: "distinct (map key t) \<Longrightarrow> find (\<lambda>r. key r = k) t = Some r \<Longrightarrow> x \<in> set t \<Longrightarrow> key x = k \<Longrightarrow> x = r"
  by (induction t) (auto split: if_splits simp: image_iff)

definition bump :: "usage_key \<Rightarrow> int \<Rightarrow> usage_row \<Rightarrow> usage_row" where
  "bump k cap r = (if us_key r = k \<and> us_used r < cap then r\<lparr>us_used := us_used r + 1\<rparr> else r)"

lemma bump_key [simp]: "us_key (bump k cap r) = us_key r"
  by (simp add: bump_def us_key_def)

lemma bump_keys [simp]: "map us_key (map (bump k cap) t) = map us_key t"
  by simp

lemma bump_used: "us_used r \<le> us_used (bump k cap r)"
  by (simp add: bump_def)

lemma usage_ok_bump: "usage_ok t \<Longrightarrow> usage_ok (map (bump k cap) t)"
  unfolding usage_ok_def bump_keys by (force intro: order_trans [OF _ bump_used])

lemma usage_abs_bump_get: "map_of (usage_abs (map (bump k cap) t)) k'
    = map_option (us_used \<circ> bump k cap) (find (\<lambda>r. us_key r = k') t)"
  by (induction t) (auto simp: usage_abs_def)

lemma usage_found:
  assumes "usage_ok t" "find (\<lambda>r. us_key r = k) t = Some r"
  shows "1 \<le> us_used r" "us_key r = k" "tbl_count (\<lambda>r. us_key r = k \<and> us_used r < cap) t = (if us_used r < cap then 1 else 0)"
proof -
  from assms show "1 \<le> us_used r" "us_key r = k" by (auto simp: usage_ok_def find_Some_iff)
  have "distinct (map us_key t)" using assms(1) by (simp add: usage_ok_def)
  then show "tbl_count (\<lambda>r. us_key r = k \<and> us_used r < cap) t = (if us_used r < cap then 1 else 0)"
    using assms(2)
    by (induction t) (auto simp: tbl_count_def image_iff filter_empty_conv split: if_splits)
qed

lemma usage_missing: "find (\<lambda>r. us_key r = k) t = None \<longleftrightarrow> k \<notin> us_key ` set t"
  by (auto simp: find_None_iff)

lemma sql_take_usage_refines:
  assumes "usage_ok t"
  shows "usage_ok (fst (sql_take_usage k cap t))
    \<and> snd (sql_take_usage k cap t) = snd (mem_take_usage k cap (usage_abs t))
    \<and> map_of (usage_abs (fst (sql_take_usage k cap t))) = map_of (fst (mem_take_usage k cap (usage_abs t)))"
proof (cases "find (\<lambda>r. us_key r = k) t")
  case None
  obtain i p c d where k: "k = (i, p, c, d)" by (cases k) auto
  have "map_of (usage_abs t) k = None" using None by (simp add: usage_abs_get)
  moreover have "map_of (usage_abs (t @ [\<lparr>us_institution_id = i, us_principal_id = p, us_counter = c, us_day = d, us_used = 1\<rparr>]))
      = (map_of (usage_abs t))(k \<mapsto> 1)"
    using \<open>map_of (usage_abs t) k = None\<close>
    by (auto simp: usage_abs_def us_key_def k map_add_def fun_eq_iff split: option.splits)
  ultimately show ?thesis
    using assms None usage_missing [of k t]
    by (auto simp: sql_take_usage_def mem_take_usage_def k usage_ok_def us_key_def update_conv')
next
  case (Some r)
  note f = usage_found [OF assms Some]
  have u: "map_of (usage_abs t) k = Some (us_used r)" using Some by (simp add: usage_abs_get)
  have t: "tbl_update (\<lambda>r. us_key r = k \<and> us_used r < cap) (\<lambda>r. r\<lparr>us_used := us_used r + 1\<rparr>) t = map (bump k cap) t"
    by (simp add: tbl_update_def bump_def fun_eq_iff)
  have abs: "map_of (usage_abs (map (bump k cap) t)) k'
      = (if k' = k \<and> us_used r < cap then Some (us_used r + 1) else map_of (usage_abs t) k')" for k'
  proof (cases "find (\<lambda>r. us_key r = k') t")
    case None
    with Some show ?thesis unfolding usage_abs_bump_get unfolding usage_abs_get by auto
  next
    case (Some x)
    then have "us_key x = k'" using find_Some_iff2 [OF Some] by simp
    moreover have "k' = k \<Longrightarrow> x = r" using Some \<open>find (\<lambda>r. us_key r = k) t = Some r\<close> by simp
    ultimately show ?thesis using Some unfolding usage_abs_bump_get unfolding usage_abs_get by (auto simp: bump_def)
  qed
  show ?thesis
    using f(1) usage_ok_bump [OF assms]
    by (auto simp: sql_take_usage_def mem_take_usage_def Some u t f(3) [of cap] Let_def assms abs update_conv' fun_eq_iff)
qed


text \<open>
  The contract of a counter: a request is granted while the stored count is below its cap,
  and a grant adds one to that key alone.
\<close>

fun take_run :: "(usage_key \<Rightarrow> int \<Rightarrow> 'u \<Rightarrow> 'u \<times> bool) \<Rightarrow> (usage_key \<times> int) list \<Rightarrow> 'u \<Rightarrow> 'u \<times> bool list" where
  "take_run take_usage [] u = (u, [])"
| "take_run take_usage ((k, cap) # rs) u =
     (case take_run take_usage rs (fst (take_usage k cap u)) of (u', vs) \<Rightarrow> (u', snd (take_usage k cap u) # vs))"

text \<open>How many of the requests for one key were granted.\<close>

definition granted :: "usage_key \<Rightarrow> (usage_key \<times> int) list \<Rightarrow> bool list \<Rightarrow> int" where
  "granted k rs vs = int (length (filter (\<lambda>((k', cap), v). k' = k \<and> v) (zip rs vs)))"

definition requests_for :: "usage_key \<Rightarrow> (usage_key \<times> int) list \<Rightarrow> int" where
  "requests_for k rs = int (length (filter (\<lambda>(k', cap). k' = k) rs))"

fun quota_run :: "(usage_key \<times> int) list \<Rightarrow> (usage_key \<Rightarrow> int) \<Rightarrow> bool list" where
  "quota_run [] n = []"
| "quota_run ((k, cap) # rs) n = (n k < cap) # quota_run rs (if n k < cap then n(k := n k + 1) else n)"

lemma requests_for_nonneg [simp]: "0 \<le> requests_for k rs"
  by (simp add: requests_for_def)

lemma granted_Cons: "granted k ((k', cap) # rs) (v # vs) = (if k' = k \<and> v then 1 else 0) + granted k rs vs"
  by (simp add: granted_def)

lemma requests_for_Cons: "requests_for k ((k', cap) # rs) = (if k' = k then 1 else 0) + requests_for k rs"
  by (simp add: requests_for_def)

locale usage_counter =
  fixes take_usage :: "usage_key \<Rightarrow> int \<Rightarrow> 'u \<Rightarrow> 'u \<times> bool"
    and used :: "'u \<Rightarrow> usage_key \<Rightarrow> int"
    and ok :: "'u \<Rightarrow> bool"
  assumes verdict: "ok u \<Longrightarrow> snd (take_usage k cap u) = (used u k < cap)"
    and counted: "ok u \<Longrightarrow> used (fst (take_usage k cap u)) = (if used u k < cap then (used u)(k := used u k + 1) else used u)"
    and keeps: "ok u \<Longrightarrow> ok (fst (take_usage k cap u))"
begin

lemma run_quota: "ok u \<Longrightarrow> snd (take_run take_usage rs u) = quota_run rs (used u)"
  by (induction rs arbitrary: u) (auto simp: split_beta verdict counted keeps)

lemma run_ok: "ok u \<Longrightarrow> ok (fst (take_run take_usage rs u))"
  by (induction rs arbitrary: u) (auto simp: split_beta keeps)

lemma run_granted:
  "ok u \<Longrightarrow> (\<And>cap. (k, cap) \<in> set rs \<Longrightarrow> cap = c)
    \<Longrightarrow> granted k rs (snd (take_run take_usage rs u)) = min (requests_for k rs) (max 0 (c - used u k))"
proof (induction rs arbitrary: u)
  case Nil
  show ?case by (simp add: granted_def requests_for_def)
next
  case (Cons a rs)
  obtain k' cap where a: "a = (k', cap)" by (cases a)
  have "granted k rs (snd (take_run take_usage rs (fst (take_usage k' cap u))))
      = min (requests_for k rs) (max 0 (c - used (fst (take_usage k' cap u)) k))"
    using Cons.IH [OF keeps [OF Cons.prems(1)]] Cons.prems(2) by auto
  moreover have "k' = k \<Longrightarrow> cap = c" using Cons.prems(2) a by auto
  ultimately show ?case
    using requests_for_nonneg [of k rs]
    by (auto simp: a split_beta granted_Cons requests_for_Cons verdict counted Cons.prems(1) simp del: requests_for_nonneg)
qed

end

definition mem_used :: "(usage_key \<times> int) list \<Rightarrow> usage_key \<Rightarrow> int" where
  "mem_used u k = (case map_of u k of Some n \<Rightarrow> n | None \<Rightarrow> 0)"

definition sql_used :: "usage_row list \<Rightarrow> usage_key \<Rightarrow> int" where
  "sql_used t k = (case find (\<lambda>r. us_key r = k) t of Some r \<Rightarrow> us_used r | None \<Rightarrow> 0)"

lemma sql_used_abs: "sql_used t = mem_used (usage_abs t)"
  by (auto simp: sql_used_def mem_used_def usage_abs_get fun_eq_iff split: option.splits)

lemma mem_take_used: "mem_used (fst (mem_take_usage k cap u))
    = (if mem_used u k < cap then (mem_used u)(k := mem_used u k + 1) else mem_used u)"
  by (auto simp: mem_take_usage_def mem_used_def Let_def fun_eq_iff update_conv')

lemma mem_take_verdict: "snd (mem_take_usage k cap u) = (mem_used u k < cap)"
  by (auto simp: mem_take_usage_def mem_used_def Let_def)

interpretation mem_usage: usage_counter mem_take_usage mem_used "\<lambda>u. True"
  by unfold_locales (simp_all add: mem_take_used mem_take_verdict)

interpretation sql_usage: usage_counter sql_take_usage sql_used usage_ok
proof unfold_locales
  fix u k cap
  assume ok: "usage_ok u"
  note r = sql_take_usage_refines [OF ok, of k cap]
  show "snd (sql_take_usage k cap u) = (sql_used u k < cap)"
    using r by (simp add: sql_used_abs mem_take_verdict)
  show "sql_used (fst (sql_take_usage k cap u))
      = (if sql_used u k < cap then (sql_used u)(k := sql_used u k + 1) else sql_used u)"
    using r mem_take_used [of k cap "usage_abs u"] by (simp add: sql_used_abs mem_used_def fun_eq_iff)
  show "usage_ok (fst (sql_take_usage k cap u))" using r by simp
qed


text \<open>A usage cap is exact. From any sound table of counters, among any requests (for any
  people, counters and days), those for one key under one cap are granted as often as the cap
  leaves room, no more and no less.\<close>
theorem usage_cap_exact:
  assumes "usage_ok t" and "\<forall>cap. (k, cap) \<in> set rs \<longrightarrow> cap = c"
  shows "granted k rs (snd (take_run sql_take_usage rs t)) = min (requests_for k rs) (max 0 (c - sql_used t k))"
  using assms by (intro sql_usage.run_granted) auto

lemma usage_cap_exact_witness:
  "let k = (''inst'', ''p1'', ''web_search'', 20000); o' = (''inst'', ''p2'', ''web_search'', 20000);
       rs = [(k, 2), (o', 5), (k, 2), (k, 2)]
   in granted k rs (snd (take_run sql_take_usage rs [])) = 2
      \<and> granted k rs (snd (take_run sql_take_usage rs [])) = min (requests_for k rs) (max 0 (2 - sql_used [] k))"
  unfolding Let_def
  by (intro conjI, code_simp, rule usage_cap_exact) (auto simp: usage_ok_def)

text \<open>The in-memory and the SQL counter give the same verdicts over every sequence of
  requests, starting from tables that agree.\<close>
theorem usage_stores_agree:
  assumes "usage_ok t" and "mem_used u = sql_used t"
  shows "snd (take_run sql_take_usage rs t) = snd (take_run mem_take_usage rs u)"
  using assms by (simp add: sql_usage.run_quota mem_usage.run_quota)

lemma usage_stores_agree_witness:
  "snd (take_run sql_take_usage [((''i'', ''p'', ''c'', 1), 1), ((''i'', ''p'', ''c'', 1), 1)] [])
     = snd (take_run mem_take_usage [((''i'', ''p'', ''c'', 1), 1), ((''i'', ''p'', ''c'', 1), 1)] [])"
  by (rule usage_stores_agree) (simp_all add: usage_ok_def mem_used_def sql_used_def fun_eq_iff)

subsection \<open>The outbox: the SQL table refines the in-memory list\<close>

definition outbox_rel :: "mem_store \<Rightarrow> sql_store \<Rightarrow> bool" where
  "outbox_rel m q = (filter (\<lambda>x. ob_delivered_at x = None) (q_outbox q) = m_outbox m
     \<and> distinct (map ob_id (q_outbox q)) \<and> sorted (map ob_created_at (q_outbox q)))"

lemma ack_fold_filter:
  "filter (\<lambda>x. ob_delivered_at x = None) (foldl (\<lambda>t i. tbl_update (\<lambda>x. ob_id x = i \<and> ob_delivered_at x = None)
         (\<lambda>x. x\<lparr>ob_delivered_at := Some now\<rparr>) t) t ids)
   = filter (\<lambda>x. ob_id x \<notin> set ids) (filter (\<lambda>x. ob_delivered_at x = None) t)"
proof (induction ids arbitrary: t)
  case (Cons i ids)
  have "filter (\<lambda>x. ob_delivered_at x = None) (tbl_update (\<lambda>x. ob_id x = i \<and> ob_delivered_at x = None)
         (\<lambda>x. x\<lparr>ob_delivered_at := Some now\<rparr>) t)
      = filter (\<lambda>x. ob_id x \<noteq> i) (filter (\<lambda>x. ob_delivered_at x = None) t)"
    by (induction t) (auto simp: tbl_update_def)
  then show ?case by (simp add: Cons.IH)
qed simp

lemma ack_fold_map:
  "(\<And>x. g (x\<lparr>ob_delivered_at := Some now\<rparr>) = g x) \<Longrightarrow>
   map g (foldl (\<lambda>t i. tbl_update (\<lambda>x. ob_id x = i \<and> ob_delivered_at x = None)
         (\<lambda>x. x\<lparr>ob_delivered_at := Some now\<rparr>) t) t ids) = map g t"
  by (induction ids arbitrary: t) simp_all

lemma sorted_map_filter2: "sorted (map f xs) \<Longrightarrow> sorted (map f (filter P xs))"
  by (rule sorted_filter)

lemma outbox_rel_drain: "outbox_rel m q \<Longrightarrow> sql_drain_outbox limit q = mem_drain_outbox limit m"
proof -
  assume r: "outbox_rel m q"
  then have "sort_key ob_created_at (m_outbox m) = m_outbox m"
    unfolding outbox_rel_def using sorted_map_filter2 by (metis (no_types, lifting) sort_key_id_if_sorted)
  moreover have "filter (\<lambda>x. ob_delivered_at x = None) (m_outbox m) = m_outbox m"
    using r unfolding outbox_rel_def by (metis (no_types, lifting) filter_filter_sub)
  ultimately show ?thesis using r
    by (simp add: sql_drain_outbox_def mem_drain_outbox_def page_def outbox_rel_def)
qed

lemma outbox_rel_ack: "outbox_rel m q \<Longrightarrow> outbox_rel (mem_ack_outbox ids m) (sql_ack_outbox now ids q)"
  unfolding outbox_rel_def mem_ack_outbox_def sql_ack_outbox_def
  by (auto simp: ack_fold_filter ack_fold_map)

lemma outbox_rel_enqueue:
  assumes r: "outbox_rel m q" and f: "''outbox-'' @ fresh \<notin> ob_id ` set (q_outbox q)"
    and clock: "\<forall>x \<in> set (q_outbox q). ob_created_at x \<le> now"
  shows "\<exists>q'. sql_enqueue_outbox fresh now ty payload q = Inr (q', snd (mem_enqueue_outbox fresh now ty payload m))
    \<and> outbox_rel (fst (mem_enqueue_outbox fresh now ty payload m)) q'"
  using r f clock
  by (auto simp: sql_enqueue_outbox_def mem_enqueue_outbox_def bindE_eq_Inr tbl_insert_Inr outbox_rel_def sorted_append)


lemma filter_swap: "filter P (filter Q t) = filter Q (filter P t)"
  by (simp add: conj_commute)

lemma outbox_rel_prune:
  assumes r: "outbox_rel m q" and days: "0 < d"
  shows "\<exists>m' q' n n'. mem_prune_retention now d m = Inr (m', n) \<and> sql_prune_retention now d q = Inr (q', n') \<and> outbox_rel m' q'"
proof -
  let ?c = "now - d * day_us"
  have f: "tbl_delete (\<lambda>x. ob_created_at x < ?c) (q_outbox q) = filter (\<lambda>x. ?c \<le> ob_created_at x) (q_outbox q)"
    by (auto simp: tbl_delete_def not_less)
  have "filter (\<lambda>x. ob_delivered_at x = None) (filter (\<lambda>x. ?c \<le> ob_created_at x) (q_outbox q))
      = filter (\<lambda>x. ?c \<le> ob_created_at x) (m_outbox m)"
    using r unfolding outbox_rel_def by (metis filter_swap)
  with r days show ?thesis
    by (simp add: mem_prune_retention_def sql_prune_retention_def Let_def outbox_rel_def f distinct_map_filter sorted_map_filter2)
qed

lemma handle_each_ids: "handle_each h rs = (called, Inr ids) \<Longrightarrow> called = rs \<and> ids = map ob_id rs"
  by (induction rs arbitrary: called ids) (auto split: sum.splits prod.splits)

lemma handle_each_fails: "handle_each h rs = (called, Inl e) \<Longrightarrow> \<exists>r rest. rs = called @ rest \<and> called \<noteq> [] \<and> h (last called) = Inl e"
proof (induction rs arbitrary: called)
  case (Cons r rs)
  then show ?case by (cases "h r") (fastforce split: sum.splits prod.splits)+
qed simp

lemma outbox_dispatch_step:
  assumes "outbox_rel m q"
  shows "snd (sql_dispatch_once now h limit q) = snd (mem_dispatch_once h limit m)
    \<and> outbox_rel (fst (mem_dispatch_once h limit m)) (fst (sql_dispatch_once now h limit q))"
  using assms outbox_rel_ack [OF assms]
  by (auto simp: sql_dispatch_once_def mem_dispatch_once_def outbox_rel_drain [OF assms] split: prod.splits sum.splits)

text \<open>A run of the outbox: records are put in and dispatched; the trace is what the handlers were called with.\<close>

datatype outbox_op =
    Enqueue string int string "pyval dict"
  | Dispatch int "outbox_record \<Rightarrow> unit res" int

fun mem_outbox_run :: "outbox_op list \<Rightarrow> mem_store \<Rightarrow> outbox_record list list \<times> mem_store" where
  "mem_outbox_run [] m = ([], m)"
| "mem_outbox_run (Enqueue f now ty p # as) m = mem_outbox_run as (fst (mem_enqueue_outbox f now ty p m))"
| "mem_outbox_run (Dispatch now h limit # as) m =
     (case mem_dispatch_once h limit m of (m', called, r) \<Rightarrow>
       (case mem_outbox_run as m' of (cs, m'') \<Rightarrow> (called # cs, m'')))"

fun sql_outbox_run :: "outbox_op list \<Rightarrow> sql_store \<Rightarrow> (outbox_record list list \<times> sql_store) res" where
  "sql_outbox_run [] q = Inr ([], q)"
| "sql_outbox_run (Enqueue f now ty p # as) q =
     bindE (sql_enqueue_outbox f now ty p q) (\<lambda>(q', i). sql_outbox_run as q')"
| "sql_outbox_run (Dispatch now h limit # as) q =
     (case sql_dispatch_once now h limit q of (q', called, r) \<Rightarrow>
       bindE (sql_outbox_run as q') (\<lambda>(cs, q''). Inr (called # cs, q'')))"

text \<open>Generated ids are new and the clock does not run backwards.\<close>

fun outbox_run_ok :: "outbox_op list \<Rightarrow> string list \<Rightarrow> int \<Rightarrow> bool" where
  "outbox_run_ok [] ids clock = True"
| "outbox_run_ok (Enqueue f now ty p # as) ids clock =
     (''outbox-'' @ f \<notin> set ids \<and> clock \<le> now \<and> outbox_run_ok as ((''outbox-'' @ f) # ids) now)"
| "outbox_run_ok (Dispatch now h limit # as) ids clock = outbox_run_ok as ids clock"

lemma sql_dispatch_keys: "map ob_id (q_outbox (fst (sql_dispatch_once now h limit q))) = map ob_id (q_outbox q)
    \<and> map ob_created_at (q_outbox (fst (sql_dispatch_once now h limit q))) = map ob_created_at (q_outbox q)"
  by (auto simp: sql_dispatch_once_def sql_ack_outbox_def ack_fold_map split: prod.splits sum.splits)

lemma outbox_run_refines:
  assumes "outbox_rel m q" "outbox_run_ok as ids clock" "ob_id ` set (q_outbox q) \<subseteq> set ids"
    "\<forall>x \<in> set (q_outbox q). ob_created_at x \<le> clock"
  shows "\<exists>q'. sql_outbox_run as q = Inr (fst (mem_outbox_run as m), q') \<and> outbox_rel (snd (mem_outbox_run as m)) q'"
  using assms
proof (induction as arbitrary: m q ids clock)
  case Nil
  then show ?case by simp
next
  case (Cons a as)
  show ?case
  proof (cases a)
    case (Enqueue f now ty p)
    obtain q' where q': "sql_enqueue_outbox f now ty p q = Inr (q', snd (mem_enqueue_outbox f now ty p m))"
      and r: "outbox_rel (fst (mem_enqueue_outbox f now ty p m)) q'"
      using outbox_rel_enqueue [OF Cons.prems(1), of f now ty p] Cons.prems Enqueue by force
    have "q_outbox q' = q_outbox q @ [\<lparr>ob_id = ''outbox-'' @ f, ob_event_type = ty, ob_payload = p, ob_created_at = now, ob_delivered_at = None\<rparr>]"
      using q' by (auto simp: sql_enqueue_outbox_def bindE_eq_Inr tbl_insert_Inr)
    then show ?thesis
      using Cons.IH [OF r, of "(''outbox-'' @ f) # ids" now] Cons.prems q' Enqueue by force
  next
    case (Dispatch now h limit)
    let ?m = "fst (mem_dispatch_once h limit m)" and ?q = "fst (sql_dispatch_once now h limit q)"
    have s: "snd (sql_dispatch_once now h limit q) = snd (mem_dispatch_once h limit m)" "outbox_rel ?m ?q"
      using outbox_dispatch_step [OF Cons.prems(1)] by auto
    have k: "ob_id ` set (q_outbox ?q) = ob_id ` set (q_outbox q)" "ob_created_at ` set (q_outbox ?q) = ob_created_at ` set (q_outbox q)"
      using sql_dispatch_keys [of now h limit q] by (metis list.set_map)+
    then have b: "\<forall>x \<in> set (q_outbox ?q). ob_created_at x \<le> clock"
      using Cons.prems(4) by (metis (no_types, lifting) image_iff)
    have "\<exists>q'. sql_outbox_run as ?q = Inr (fst (mem_outbox_run as ?m), q') \<and> outbox_rel (snd (mem_outbox_run as ?m)) q'"
      using Cons.IH [OF s(2) _ _ b, of ids] Cons.prems(2,3) k(1) Dispatch by simp
    then show ?thesis using s(1) Dispatch
      by (auto simp: split_beta bindE_def)
  qed
qed


text \<open>C37: the SQL outbox refines the in-memory one. Over any sequence of enqueue and dispatch
  steps, with handlers that may raise, the two call their handlers with the same records in
  the same order, and the SQL run raises no integrity error.\<close>
theorem outbox_refines:
  assumes "outbox_run_ok as [] clock" and "new_mem_store n = Inr m"
  shows "\<exists>q'. sql_outbox_run as empty_sql_store = Inr (fst (mem_outbox_run as m), q')"
proof -
  have "m_outbox m = []" using assms(2) by (auto simp: new_mem_store_def split: if_splits)
  then have "outbox_rel m empty_sql_store" by (simp add: outbox_rel_def empty_sql_store_def)
  from outbox_run_refines [OF this assms(1)] show ?thesis by (auto simp: empty_sql_store_def)
qed

definition outbox_example :: "outbox_op list" where
  "outbox_example = [Enqueue ''1'' 5 ''t'' [], Enqueue ''2'' 6 ''t'' [], Dispatch 7 (\<lambda>r. Inl (RuntimeError ''down'')) 10,
      Dispatch 8 (\<lambda>r. Inr ()) 1, Dispatch 9 (\<lambda>r. Inr ()) 10]"

lemma outbox_refines_witness:
  "(\<exists>q'. sql_outbox_run outbox_example empty_sql_store
      = Inr (fst (mem_outbox_run outbox_example (case new_mem_store 1000 of Inr m \<Rightarrow> m)), q'))
    \<and> map (map ob_id) (fst (mem_outbox_run outbox_example (case new_mem_store 1000 of Inr m \<Rightarrow> m)))
      = [[''outbox-1''], [''outbox-1''], [''outbox-2'']]"
proof
  have n: "new_mem_store 1000 = Inr (case new_mem_store 1000 of Inr m \<Rightarrow> m)" by (simp add: new_mem_store_def)
  have o: "outbox_run_ok outbox_example [] 0" by code_simp
  show "\<exists>q'. sql_outbox_run outbox_example empty_sql_store
      = Inr (fst (mem_outbox_run outbox_example (case new_mem_store 1000 of Inr m \<Rightarrow> m)), q')"
    by (rule outbox_refines [OF o n])
  show "map (map ob_id) (fst (mem_outbox_run outbox_example (case new_mem_store 1000 of Inr m \<Rightarrow> m)))
      = [[''outbox-1''], [''outbox-1''], [''outbox-2'']]" by code_simp
qed

text \<open>The audit log and the other bounded logs of the in-memory store keep the newest entries.\<close>

lemma keep_last_bound: "length (keep_last n xs) \<le> n"
  by (simp add: keep_last_def)

lemma keep_last_keep_last: "keep_last n (keep_last n xs @ [x]) = keep_last n (xs @ [x])"
proof -
  have "n < length xs \<Longrightarrow> Suc (length xs - n) = Suc (length xs) - n" by simp
  then show ?thesis by (auto simp: keep_last_def last_n_def)
qed

lemma mem_audit_log: "m_events (foldl (\<lambda>m e. mem_append_audit e m) m es) = keep_last (m_max_events m) (m_events m @ es)"
  if "length (m_events m) \<le> m_max_events m"
  using that
proof (induction es rule: rev_induct)
  case Nil
  then show ?case by (simp add: keep_last_def)
next
  case (snoc e es)
  have "m_max_events (foldl (\<lambda>m e. mem_append_audit e m) m es) = m_max_events m" for es
    by (induction es rule: rev_induct) (simp_all add: mem_append_audit_def)
  with snoc show ?case using keep_last_keep_last [of "m_max_events m" "m_events m @ es" e]
    by (simp add: mem_append_audit_def)
qed

end
