(* ===== verification/VoiceSessions.thy ===== *)
theory VoiceSessions
  imports ControlStore
begin

text \<open>
  Voice sessions: the session rows of the in-memory and the SQL control store
  (\<^verbatim>\<open>persistence/database.py\<close>), the protocol \<^verbatim>\<open>VoiceSessionStore\<close> that the manager asks of
  a store, and \<^verbatim>\<open>voice/session_manager.py\<close>. The locale \<open>voice_session_store\<close> states the
  protocol's laws over the list of rows a store holds; both stores are interpretations, and
  the manager is proved inside it: a ticket opens one socket, once, for the person it was
  issued to, and the numbers of open sessions are bounded.
\<close>

subsection \<open>The session rows in memory\<close>

definition mem_create_voice :: "voice_row \<Rightarrow> voice_row dict \<Rightarrow> voice_row dict res" where
  "mem_create_voice r d = (if dict_has d (vs_id r) then Inl (ValueError ''voice session already exists'')
     else Inr (dict_set d (vs_id r) r))"

definition mem_get_voice :: "string \<Rightarrow> voice_row dict \<Rightarrow> voice_row option" where
  "mem_get_voice i d = dict_get d i"

definition mem_claim_voice :: "string \<Rightarrow> string \<Rightarrow> int \<Rightarrow> voice_row dict \<Rightarrow> voice_row dict \<times> voice_row option" where
  "mem_claim_voice i digest now d = (case dict_get d i of
      None \<Rightarrow> (d, None)
    | Some r \<Rightarrow>
        if vs_ticket_sha256 r \<noteq> digest \<or> vs_claimed_at r \<noteq> None \<or> vs_closed_at r \<noteq> None
            \<or> vs_ticket_expires_at r \<le> now \<or> vs_expires_at r \<le> now
        then (d, None)
        else (dict_set d i (r\<lparr>vs_claimed_at := Some now\<rparr>), Some (r\<lparr>vs_claimed_at := Some now\<rparr>)))"

definition mem_close_voice :: "string \<Rightarrow> string option \<Rightarrow> int \<Rightarrow> voice_row dict \<Rightarrow> voice_row dict \<times> bool" where
  "mem_close_voice i pid now d = (case dict_get d i of
      None \<Rightarrow> (d, False)
    | Some r \<Rightarrow>
        if vs_closed_at r \<noteq> None \<or> (pid \<noteq> None \<and> vs_principal_id r \<noteq> the pid) then (d, False)
        else (dict_set d i (r\<lparr>vs_closed_at := Some now\<rparr>), True))"

definition mem_active_voice :: "int \<Rightarrow> string option \<Rightarrow> voice_row dict \<Rightarrow> voice_row list" where
  "mem_active_voice now pid d =
     sort_key vs_created_at (filter (\<lambda>r. is_active_session r now \<and> (pid = None \<or> vs_principal_id r = the pid)) (dict_values d))"

subsection \<open>The session rows in SQL\<close>

definition sql_create_voice :: "voice_row \<Rightarrow> voice_row list \<Rightarrow> voice_row list res" where
  "sql_create_voice r t = tbl_insert vs_id r t"

definition sql_get_voice :: "string \<Rightarrow> voice_row list \<Rightarrow> voice_row option" where
  "sql_get_voice i t = find (\<lambda>r. vs_id r = i) t"

definition sql_claim_voice :: "string \<Rightarrow> string \<Rightarrow> int \<Rightarrow> voice_row list \<Rightarrow> voice_row list \<times> voice_row option" where
  "sql_claim_voice i digest now t =
     (let P = (\<lambda>r. vs_id r = i \<and> vs_ticket_sha256 r = digest \<and> vs_claimed_at r = None \<and> vs_closed_at r = None
                \<and> now < vs_ticket_expires_at r \<and> now < vs_expires_at r);
          t' = tbl_update P (\<lambda>r. r\<lparr>vs_claimed_at := Some now\<rparr>) t
      in (t', if tbl_count P t \<noteq> 1 then None else find (\<lambda>r. vs_id r = i) t'))"

definition sql_close_voice :: "string \<Rightarrow> string option \<Rightarrow> int \<Rightarrow> voice_row list \<Rightarrow> voice_row list \<times> bool" where
  "sql_close_voice i pid now t =
     (let P = (case pid of
           None \<Rightarrow> (\<lambda>r. vs_id r = i \<and> vs_closed_at r = None)
         | Some p \<Rightarrow> (\<lambda>r. vs_id r = i \<and> vs_principal_id r = p \<and> vs_closed_at r = None))
      in (tbl_update P (\<lambda>r. r\<lparr>vs_closed_at := Some now\<rparr>) t, tbl_count P t = 1))"

definition sql_active_voice :: "int \<Rightarrow> string option \<Rightarrow> voice_row list \<Rightarrow> voice_row list" where
  "sql_active_voice now pid t = sort_key vs_created_at (filter (\<lambda>r. vs_closed_at r = None \<and> now < vs_expires_at r
     \<and> (vs_claimed_at r \<noteq> None \<or> now < vs_ticket_expires_at r) \<and> (case pid of None \<Rightarrow> True | Some p \<Rightarrow> vs_principal_id r = p)) t)"

subsection \<open>The protocol\<close>

record 's voice_store =
  st_create :: "voice_row \<Rightarrow> 's \<Rightarrow> 's res"
  st_get :: "string \<Rightarrow> 's \<Rightarrow> voice_row option"
  st_claim :: "string \<Rightarrow> string \<Rightarrow> int \<Rightarrow> 's \<Rightarrow> 's \<times> voice_row option"
  st_close :: "string \<Rightarrow> string option \<Rightarrow> int \<Rightarrow> 's \<Rightarrow> 's \<times> bool"
  st_active :: "int \<Rightarrow> string option \<Rightarrow> 's \<Rightarrow> voice_row list"

definition mem_voice_store :: "voice_row dict voice_store" where
  "mem_voice_store = \<lparr>st_create = mem_create_voice, st_get = mem_get_voice, st_claim = mem_claim_voice,
     st_close = mem_close_voice, st_active = mem_active_voice\<rparr>"

definition sql_voice_store :: "voice_row list voice_store" where
  "sql_voice_store = \<lparr>st_create = sql_create_voice, st_get = sql_get_voice, st_claim = sql_claim_voice,
     st_close = sql_close_voice, st_active = sql_active_voice\<rparr>"

text \<open>The laws, over the rows the store holds.\<close>

definition claimable_row :: "string \<Rightarrow> string \<Rightarrow> int \<Rightarrow> voice_row \<Rightarrow> bool" where
  "claimable_row i digest now r = (vs_id r = i \<and> vs_ticket_sha256 r = digest \<and> vs_claimed_at r = None
     \<and> vs_closed_at r = None \<and> now < vs_ticket_expires_at r \<and> now < vs_expires_at r)"

definition closable_row :: "string \<Rightarrow> string option \<Rightarrow> voice_row \<Rightarrow> bool" where
  "closable_row i pid r = (vs_id r = i \<and> vs_closed_at r = None \<and> (pid = None \<or> pid = Some (vs_principal_id r)))"

definition active_for :: "int \<Rightarrow> string option \<Rightarrow> voice_row \<Rightarrow> bool" where
  "active_for now pid r = (is_active_session r now \<and> (pid = None \<or> pid = Some (vs_principal_id r)))"

locale voice_session_store =
  fixes st :: "'s voice_store" and rows :: "'s \<Rightarrow> voice_row list" and ok :: "'s \<Rightarrow> bool"
  assumes ids: "ok s \<Longrightarrow> distinct (map vs_id (rows s))"
    and create_new: "ok s \<Longrightarrow> vs_id r \<notin> vs_id ` set (rows s)
      \<Longrightarrow> \<exists>s'. st_create st r s = Inr s' \<and> rows s' = rows s @ [r] \<and> ok s'"
    and create_known: "ok s \<Longrightarrow> vs_id r \<in> vs_id ` set (rows s) \<Longrightarrow> \<exists>e. st_create st r s = Inl e"
    and got: "ok s \<Longrightarrow> st_get st i s = find (\<lambda>r. vs_id r = i) (rows s)"
    and claimed: "ok s \<Longrightarrow> snd (st_claim st i g now s)
      = map_option (\<lambda>r. r\<lparr>vs_claimed_at := Some now\<rparr>) (find (claimable_row i g now) (rows s))"
    and claim_rows: "ok s \<Longrightarrow> rows (fst (st_claim st i g now s))
      = tbl_update (claimable_row i g now) (\<lambda>r. r\<lparr>vs_claimed_at := Some now\<rparr>) (rows s)"
    and claim_ok: "ok s \<Longrightarrow> ok (fst (st_claim st i g now s))"
    and closed: "ok s \<Longrightarrow> snd (st_close st i pid now s) = list_ex (closable_row i pid) (rows s)"
    and close_rows: "ok s \<Longrightarrow> rows (fst (st_close st i pid now s))
      = tbl_update (closable_row i pid) (\<lambda>r. r\<lparr>vs_closed_at := Some now\<rparr>) (rows s)"
    and close_ok: "ok s \<Longrightarrow> ok (fst (st_close st i pid now s))"
    and listed: "ok s \<Longrightarrow> st_active st now pid s = sort_key vs_created_at (filter (active_for now pid) (rows s))"
begin

lemma create_cases:
  assumes "ok s"
  obtains (new) s' where "st_create st r s = Inr s'" "rows s' = rows s @ [r]" "ok s'" "vs_id r \<notin> vs_id ` set (rows s)"
    | (known) e where "st_create st r s = Inl e"
  using create_new [OF assms, of r] create_known [OF assms, of r] by blast

end


subsection \<open>The SQL rows obey the protocol\<close>

lemma count_keyed:
  assumes "distinct (map vs_id t)" "\<And>r. P r \<Longrightarrow> vs_id r = i"
  shows "tbl_count P t = (if find P t = None then 0 else 1)"
  using assms
proof (induction t)
  case Nil
  then show ?case by (simp add: tbl_count_def)
next
  case (Cons a t)
  have "P a \<Longrightarrow> filter P t = []"
    using Cons.prems by (auto simp: filter_empty_conv image_iff)
  with Cons show ?case by (auto simp: tbl_count_def)
qed

lemma find_updated:
  assumes "distinct (map vs_id t)" "\<And>r. P r \<Longrightarrow> vs_id r = i" "\<And>r. vs_id (f r) = vs_id r" "find P t = Some r"
  shows "find (\<lambda>r. vs_id r = i) (tbl_update P f t) = Some (f r)"
proof -
  have "r \<in> set t" "P r" using find_Some_iff2 [OF assms(4)] by auto
  then have "find (\<lambda>r. vs_id r = i) t = Some r"
    using assms(1,2) by (intro find_unique [of vs_id]) auto
  then show ?thesis using assms(3) \<open>P r\<close> by (subst tbl_update_find) auto
qed

lemma find_ex: "(find P t \<noteq> None) = list_ex P t"
  by (induction t) auto

interpretation sql_voice: voice_session_store sql_voice_store "\<lambda>t. t" "\<lambda>t. distinct (map vs_id t)"
proof unfold_locales
  fix s :: "voice_row list" and r i g now pid
  assume d: "distinct (map vs_id s)"
  show "distinct (map vs_id s)" by (rule d)
  show "vs_id r \<notin> vs_id ` set s \<Longrightarrow> \<exists>s'. st_create sql_voice_store r s = Inr s' \<and> s' = s @ [r] \<and> distinct (map vs_id s')"
    using d by (simp add: sql_voice_store_def sql_create_voice_def tbl_insert_Inr)
  show "vs_id r \<in> vs_id ` set s \<Longrightarrow> \<exists>e. st_create sql_voice_store r s = Inl e"
    by (auto simp: sql_voice_store_def sql_create_voice_def tbl_insert_def list_ex_iff)
  show "st_get sql_voice_store i s = find (\<lambda>r. vs_id r = i) s"
    by (simp add: sql_voice_store_def sql_get_voice_def)
  have P: "(\<lambda>r. vs_id r = i \<and> vs_ticket_sha256 r = g \<and> vs_claimed_at r = None \<and> vs_closed_at r = None
      \<and> now < vs_ticket_expires_at r \<and> now < vs_expires_at r) = claimable_row i g now"
    by (simp add: claimable_row_def fun_eq_iff)
  have k: "claimable_row i g now r \<Longrightarrow> vs_id r = i" for r by (simp add: claimable_row_def)
  show "snd (st_claim sql_voice_store i g now s)
      = map_option (\<lambda>r. r\<lparr>vs_claimed_at := Some now\<rparr>) (find (claimable_row i g now) s)"
  proof (cases "find (claimable_row i g now) s")
    case None
    then show ?thesis using count_keyed [OF d k]
      by (simp add: sql_voice_store_def sql_claim_voice_def Let_def P)
  next
    case (Some r)
    then show ?thesis using count_keyed [OF d k] find_updated [OF d k _ Some, of "\<lambda>r. r\<lparr>vs_claimed_at := Some now\<rparr>"]
      by (simp add: sql_voice_store_def sql_claim_voice_def Let_def P)
  qed
  show "fst (st_claim sql_voice_store i g now s)
      = tbl_update (claimable_row i g now) (\<lambda>r. r\<lparr>vs_claimed_at := Some now\<rparr>) s"
    by (simp add: sql_voice_store_def sql_claim_voice_def Let_def P)
  then show "distinct (map vs_id (fst (st_claim sql_voice_store i g now s)))" using d by simp
  have Q: "(case pid of None \<Rightarrow> (\<lambda>r. vs_id r = i \<and> vs_closed_at r = None)
       | Some p \<Rightarrow> (\<lambda>r. vs_id r = i \<and> vs_principal_id r = p \<and> vs_closed_at r = None)) = closable_row i pid"
    by (auto simp: closable_row_def fun_eq_iff split: option.splits)
  have k': "closable_row i pid r \<Longrightarrow> vs_id r = i" for r by (simp add: closable_row_def)
  show "snd (st_close sql_voice_store i pid now s) = list_ex (closable_row i pid) s"
    using count_keyed [OF d k'] find_ex [of "closable_row i pid" s]
    by (auto simp: sql_voice_store_def sql_close_voice_def Let_def Q split: if_splits)
  show "fst (st_close sql_voice_store i pid now s) = tbl_update (closable_row i pid) (\<lambda>r. r\<lparr>vs_closed_at := Some now\<rparr>) s"
    by (simp add: sql_voice_store_def sql_close_voice_def Let_def Q)
  then show "distinct (map vs_id (fst (st_close sql_voice_store i pid now s)))" using d by simp
  have "(\<lambda>r. vs_closed_at r = None \<and> now < vs_expires_at r \<and> (vs_claimed_at r \<noteq> None \<or> now < vs_ticket_expires_at r)
      \<and> (case pid of None \<Rightarrow> True | Some p \<Rightarrow> vs_principal_id r = p)) = active_for now pid"
    by (auto simp: active_for_def is_active_session_def fun_eq_iff split: option.splits)
  then show "st_active sql_voice_store now pid s = sort_key vs_created_at (filter (active_for now pid) s)"
    by (simp add: sql_voice_store_def sql_active_voice_def)
qed

subsection \<open>The rows in memory obey the protocol\<close>

definition voice_dict_ok :: "voice_row dict \<Rightarrow> bool" where
  "voice_dict_ok d = (wf_dict d \<and> (\<forall>(k, r) \<in> set d. vs_id r = k))"

lemma voice_dict_get: "voice_dict_ok d \<Longrightarrow> dict_get d i = find (\<lambda>r. vs_id r = i) (dict_values d)"
  by (induction d) (auto simp: voice_dict_ok_def dict_get_def dict_values_def wf_dict_def)

lemma voice_dict_keys: "voice_dict_ok d \<Longrightarrow> map vs_id (dict_values d) = dict_keys d"
  by (induction d) (auto simp: voice_dict_ok_def dict_values_def dict_keys_def wf_dict_def)

lemma voice_dict_set:
  "voice_dict_ok d \<Longrightarrow> dict_get d i = Some r \<Longrightarrow> vs_id r' = i
    \<Longrightarrow> voice_dict_ok (dict_set d i r') \<and> dict_values (dict_set d i r') = map (\<lambda>x. if vs_id x = i then r' else x) (dict_values d)"
proof (induction d)
  case Nil
  then show ?case by simp
next
  case (Cons a d)
  obtain k x where a: "a = (k, x)" by (cases a)
  show ?case
  proof (cases "k = i")
    case True
    then have "\<forall>y \<in> set (dict_values d). vs_id y \<noteq> i"
      using Cons.prems(1) a by (fastforce simp: voice_dict_ok_def wf_dict_def dict_values_def image_iff)
    then have "map (\<lambda>x. if vs_id x = i then r' else x) (dict_values d) = dict_values d"
      by (simp add: map_idI)
    with True Cons.prems a show ?thesis
      by (auto simp: voice_dict_ok_def wf_dict_def dict_values_def dict_set_def)
  next
    case False
    with Cons a show ?thesis
      by (auto simp: voice_dict_ok_def wf_dict_def dict_values_def dict_set_def dict_get_def dom_update)
  qed
qed

text \<open>Replacing the one row under a key is the update of that row.\<close>

lemma voice_dict_upd:
  assumes ok: "voice_dict_ok d" and get: "dict_get d i = Some r"
    and P: "\<And>x. P x \<Longrightarrow> vs_id x = i" "P r" and f: "\<And>x. vs_id (f x) = vs_id x"
  shows "dict_values (dict_set d i (f r)) = tbl_update P f (dict_values d)"
    and "voice_dict_ok (dict_set d i (f r))"
proof -
  have "vs_id r = i" using P by blast
  then have s: "voice_dict_ok (dict_set d i (f r)) \<and> dict_values (dict_set d i (f r))
      = map (\<lambda>x. if vs_id x = i then f r else x) (dict_values d)"
    using voice_dict_set [OF ok get, of "f r"] f by simp
  have "distinct (map vs_id (dict_values d))"
    using ok by (simp only: voice_dict_keys) (simp add: voice_dict_ok_def wf_dict_def dict_keys_def)
  moreover have "find (\<lambda>r. vs_id r = i) (dict_values d) = Some r"
    using get ok by (simp add: voice_dict_get)
  ultimately have "x = r" if "x \<in> set (dict_values d)" "vs_id x = i" for x
    using that find_unique [of vs_id "dict_values d" x "\<lambda>r. vs_id r = i"] by simp
  then have "map (\<lambda>x. if vs_id x = i then f r else x) (dict_values d) = tbl_update P f (dict_values d)"
    unfolding tbl_update_def using P by (intro map_cong) auto
  with s show "dict_values (dict_set d i (f r)) = tbl_update P f (dict_values d)"
    and "voice_dict_ok (dict_set d i (f r))" by simp_all
qed

lemma voice_no_update: "voice_dict_ok d \<Longrightarrow> (\<And>x. P x \<Longrightarrow> vs_id x = i) \<Longrightarrow> (\<And>r. dict_get d i = Some r \<Longrightarrow> \<not> P r)
    \<Longrightarrow> find P (dict_values d) = None \<and> tbl_update P f (dict_values d) = dict_values d"
proof -
  assume ok: "voice_dict_ok d" and P: "\<And>x. P x \<Longrightarrow> vs_id x = i" and n: "\<And>r. dict_get d i = Some r \<Longrightarrow> \<not> P r"
  have "distinct (map vs_id (dict_values d))"
    using ok by (simp only: voice_dict_keys) (simp add: voice_dict_ok_def wf_dict_def dict_keys_def)
  then have "\<forall>x \<in> set (dict_values d). \<not> P x"
    using P n find_unique [of vs_id "dict_values d" _ "\<lambda>r. vs_id r = i"] voice_dict_get [OF ok, of i] by metis
  then show ?thesis by (auto simp: find_None_iff tbl_update_def intro: map_idI)
qed

lemma voice_some_update: "voice_dict_ok d \<Longrightarrow> (\<And>x. P x \<Longrightarrow> vs_id x = i) \<Longrightarrow> dict_get d i = Some r \<Longrightarrow> P r
    \<Longrightarrow> find P (dict_values d) = Some r"
proof -
  assume ok: "voice_dict_ok d" and P: "\<And>x. P x \<Longrightarrow> vs_id x = i" and g: "dict_get d i = Some r" and r: "P r"
  have "distinct (map vs_id (dict_values d))"
    using ok by (simp only: voice_dict_keys) (simp add: voice_dict_ok_def wf_dict_def dict_keys_def)
  moreover have "r \<in> set (dict_values d)" using g find_Some_iff2 by (fastforce simp: voice_dict_get [OF ok])
  ultimately show ?thesis using P r by (intro find_unique [of vs_id]) auto
qed


lemma mem_claim_step:
  assumes ok: "voice_dict_ok d"
  shows "snd (mem_claim_voice i g now d) = map_option (\<lambda>r. r\<lparr>vs_claimed_at := Some now\<rparr>) (find (claimable_row i g now) (dict_values d))
    \<and> dict_values (fst (mem_claim_voice i g now d)) = tbl_update (claimable_row i g now) (\<lambda>r. r\<lparr>vs_claimed_at := Some now\<rparr>) (dict_values d)
    \<and> voice_dict_ok (fst (mem_claim_voice i g now d))"
proof (cases "\<exists>r. dict_get d i = Some r \<and> claimable_row i g now r")
  case True
  then obtain r where r: "dict_get d i = Some r" "claimable_row i g now r" by blast
  have k: "claimable_row i g now x \<Longrightarrow> vs_id x = i" for x by (simp add: claimable_row_def)
  have "mem_claim_voice i g now d = (dict_set d i (r\<lparr>vs_claimed_at := Some now\<rparr>), Some (r\<lparr>vs_claimed_at := Some now\<rparr>))"
    using r by (simp add: mem_claim_voice_def claimable_row_def not_le)
  then show ?thesis
    using voice_dict_upd [of d i r "claimable_row i g now" "\<lambda>r. r\<lparr>vs_claimed_at := Some now\<rparr>"]
      voice_some_update [of d "claimable_row i g now" i r] ok k r by simp
next
  case False
  have k: "claimable_row i g now x \<Longrightarrow> vs_id x = i" for x by (simp add: claimable_row_def)
  have "dict_get d i = Some r \<Longrightarrow> vs_id r = i" for r
    using find_Some_iff2 by (fastforce simp: voice_dict_get [OF ok])
  then have "mem_claim_voice i g now d = (d, None)"
    using False by (auto simp: mem_claim_voice_def claimable_row_def not_le split: option.splits)
  then show ?thesis using voice_no_update [of d "claimable_row i g now" i] k False ok by auto
qed

lemma mem_close_step:
  assumes ok: "voice_dict_ok d"
  shows "snd (mem_close_voice i pid now d) = list_ex (closable_row i pid) (dict_values d)
    \<and> dict_values (fst (mem_close_voice i pid now d)) = tbl_update (closable_row i pid) (\<lambda>r. r\<lparr>vs_closed_at := Some now\<rparr>) (dict_values d)
    \<and> voice_dict_ok (fst (mem_close_voice i pid now d))"
proof (cases "\<exists>r. dict_get d i = Some r \<and> closable_row i pid r")
  case True
  then obtain r where r: "dict_get d i = Some r" "closable_row i pid r" by blast
  have k: "closable_row i pid x \<Longrightarrow> vs_id x = i" for x by (simp add: closable_row_def)
  have "mem_close_voice i pid now d = (dict_set d i (r\<lparr>vs_closed_at := Some now\<rparr>), True)"
    using r by (auto simp: mem_close_voice_def closable_row_def)
  then show ?thesis
    using voice_dict_upd [of d i r "closable_row i pid" "\<lambda>r. r\<lparr>vs_closed_at := Some now\<rparr>"]
      voice_some_update [of d "closable_row i pid" i r] ok k r
      find_ex [of "closable_row i pid" "dict_values d"] by simp
next
  case False
  have k: "closable_row i pid x \<Longrightarrow> vs_id x = i" for x by (simp add: closable_row_def)
  have "dict_get d i = Some r \<Longrightarrow> vs_id r = i" for r
    using find_Some_iff2 by (fastforce simp: voice_dict_get [OF ok])
  then have "mem_close_voice i pid now d = (d, False)"
    using False by (auto simp: mem_close_voice_def closable_row_def split: option.splits)
  then show ?thesis
    using voice_no_update [of d "closable_row i pid" i] k False ok find_ex [of "closable_row i pid" "dict_values d"] by auto
qed

interpretation mem_voice: voice_session_store mem_voice_store dict_values voice_dict_ok
proof unfold_locales
  fix s :: "voice_row dict" and r :: voice_row and i g now pid
  assume ok: "voice_dict_ok s"
  show "distinct (map vs_id (dict_values s))"
    using ok by (simp only: voice_dict_keys) (simp add: voice_dict_ok_def wf_dict_def dict_keys_def)
  have h: "dict_has s (vs_id r) \<longleftrightarrow> vs_id r \<in> vs_id ` set (dict_values s)"
    using voice_dict_keys [OF ok] by (metis dict_has_keys list.set_map)
  show "vs_id r \<in> vs_id ` set (dict_values s) \<Longrightarrow> \<exists>e. st_create mem_voice_store r s = Inl e"
    using h by (simp add: mem_voice_store_def mem_create_voice_def)
  show "\<exists>s'. st_create mem_voice_store r s = Inr s' \<and> dict_values s' = dict_values s @ [r] \<and> voice_dict_ok s'"
    if n: "vs_id r \<notin> vs_id ` set (dict_values s)"
  proof -
    have "\<not> dict_has s (vs_id r)" using h n by simp
    moreover from this have "dict_set s (vs_id r) r = s @ [(vs_id r, r)]" by (rule dict_set_new)
    moreover have "voice_dict_ok (dict_set s (vs_id r) r)"
      using ok calculation wf_dict_set [of s "vs_id r" r] by (auto simp: voice_dict_ok_def)
    ultimately show ?thesis by (simp add: mem_voice_store_def mem_create_voice_def dict_values_def)
  qed
  show "st_get mem_voice_store i s = find (\<lambda>r. vs_id r = i) (dict_values s)"
    by (simp add: mem_voice_store_def mem_get_voice_def voice_dict_get ok)
  note c = mem_claim_step [OF ok, of i g now] and l = mem_close_step [OF ok, of i pid now]
  show "snd (st_claim mem_voice_store i g now s)
      = map_option (\<lambda>r. r\<lparr>vs_claimed_at := Some now\<rparr>) (find (claimable_row i g now) (dict_values s))"
    using c by (simp add: mem_voice_store_def)
  show "dict_values (fst (st_claim mem_voice_store i g now s))
      = tbl_update (claimable_row i g now) (\<lambda>r. r\<lparr>vs_claimed_at := Some now\<rparr>) (dict_values s)"
    using c by (simp add: mem_voice_store_def)
  show "voice_dict_ok (fst (st_claim mem_voice_store i g now s))" using c by (simp add: mem_voice_store_def)
  show "snd (st_close mem_voice_store i pid now s) = list_ex (closable_row i pid) (dict_values s)"
    using l by (simp add: mem_voice_store_def)
  show "dict_values (fst (st_close mem_voice_store i pid now s))
      = tbl_update (closable_row i pid) (\<lambda>r. r\<lparr>vs_closed_at := Some now\<rparr>) (dict_values s)"
    using l by (simp add: mem_voice_store_def)
  show "voice_dict_ok (fst (st_close mem_voice_store i pid now s))" using l by (simp add: mem_voice_store_def)
  have "(\<lambda>r. is_active_session r now \<and> (pid = None \<or> vs_principal_id r = the pid)) = active_for now pid"
    by (cases pid) (auto simp: active_for_def fun_eq_iff)
  then show "st_active mem_voice_store now pid s = sort_key vs_created_at (filter (active_for now pid) (dict_values s))"
    by (simp add: mem_voice_store_def mem_active_voice_def)
qed


subsection \<open>The manager\<close>

definition DEFAULT_COLLEGE_ID :: string where "DEFAULT_COLLEGE_ID = ''college_a''"

definition default_scope :: "principal \<Rightarrow> scope" where
  "default_scope p = (case scopes p of s # _ \<Rightarrow> s
     | [] \<Rightarrow> \<lparr>college_id = DEFAULT_COLLEGE_ID, department_id = None, batch_id = None\<rparr>)"

record voice_session =
  vn_session_id :: string
  vn_principal_id :: string
  vn_created_at :: int
  vn_expires_at :: int
  vn_principal :: principal
  vn_scope :: scope
  vn_ticket_expires_at :: "int option"
  vn_status :: string
  vn_audio_retention :: string

definition session_scope_of :: "(pyval \<Rightarrow> string) \<Rightarrow> pyval \<Rightarrow> scope res" where
  "session_scope_of rep v = (case as_dict_val v of
      None \<Rightarrow> Inl (TypeError ''scope data is not a mapping'')
    | Some d \<Rightarrow> (case dict_get d ''college_id'' of
        None \<Rightarrow> Inl (KeyError ''college_id'')
      | Some c \<Rightarrow>
          if blank (py_str rep c) then Inl (ValueError ''college_id must not be blank'') else
          bindE (opt_scope_text (get_or_none d ''department_id'')) (\<lambda>dep.
          bindE (opt_scope_text (get_or_none d ''batch_id'')) (\<lambda>bat.
          mk_scope (py_str rep c) dep bat))))"

definition session_from_row :: "(pyval \<Rightarrow> string) \<Rightarrow> voice_row \<Rightarrow> voice_session res" where
  "session_from_row rep row =
     (let scope_data = py_or (get_or_none (vs_principal_json row) ''session_scope'')
                             (PDict [(''college_id'', PStr (vs_institution_id row))]);
          snapshot = filter (\<lambda>(k, v). k \<noteq> ''session_scope'') (vs_principal_json row)
      in bindE (principal_from_snapshot rep snapshot) (\<lambda>p.
         bindE (session_scope_of rep scope_data) (\<lambda>sc.
         Inr \<lparr>vn_session_id = vs_id row, vn_principal_id = vs_principal_id row, vn_created_at = vs_created_at row,
              vn_expires_at = vs_expires_at row, vn_principal = p, vn_scope = sc,
              vn_ticket_expires_at = Some (vs_ticket_expires_at row),
              vn_status = (if vs_closed_at row \<noteq> None then ''closed'' else ''active''),
              vn_audio_retention = ''ephemeral''\<rparr>)))"

record voice_manager =
  ttl_seconds :: int
  max_active :: int
  ticket_ttl_seconds :: int
  max_per_person :: int

definition new_voice_manager :: "int \<Rightarrow> int \<Rightarrow> int \<Rightarrow> int \<Rightarrow> voice_manager res" where
  "new_voice_manager ttl active_limit ticket_ttl per_person =
     (if ttl \<le> 0 \<or> active_limit \<le> 0 \<or> ticket_ttl \<le> 0 \<or> per_person \<le> 0
      then Inl (ValueError ''voice limits must be positive'')
      else Inr \<lparr>ttl_seconds = ttl, max_active = active_limit, ticket_ttl_seconds = min ticket_ttl ttl, max_per_person = per_person\<rparr>)"

definition second_us :: int where "second_us = 1000000"

fun close_each :: "'s voice_store \<Rightarrow> string \<Rightarrow> int \<Rightarrow> voice_row list \<Rightarrow> 's \<Rightarrow> 's" where
  "close_each st pid now [] s = s"
| "close_each st pid now (r # rs) s = close_each st pid now rs (fst (st_close st (vs_id r) (Some pid) now s))"

definition session_snapshot :: "principal \<Rightarrow> scope \<Rightarrow> pyval dict" where
  "session_snapshot p sc = dict_set (principal_snapshot p) ''session_scope'' (PDict (scope_as_dict sc))"

definition voice_row_of :: "(string \<Rightarrow> string) \<Rightarrow> voice_manager \<Rightarrow> int \<Rightarrow> string \<Rightarrow> string \<Rightarrow> principal \<Rightarrow> scope \<Rightarrow> voice_row" where
  "voice_row_of digest m now sid ticket p sc =
     \<lparr>vs_id = sid, vs_principal_id = principal_id p, vs_institution_id = college_id sc,
      vs_principal_json = session_snapshot p sc, vs_ticket_sha256 = digest ticket, vs_created_at = now,
      vs_ticket_expires_at = now + ticket_ttl_seconds m * second_us, vs_expires_at = now + ttl_seconds m * second_us,
      vs_claimed_at = None, vs_closed_at = None\<rparr>"

definition voice_create :: "'s voice_store \<Rightarrow> (string \<Rightarrow> string) \<Rightarrow> voice_manager \<Rightarrow> int \<Rightarrow> string \<Rightarrow> string
    \<Rightarrow> principal \<Rightarrow> scope option \<Rightarrow> 's \<Rightarrow> 's \<times> (voice_session \<times> string) res" where
  "voice_create st digest m now sid ticket p asked s =
     (if \<not> authenticated p \<or> START_VOICE_SESSION \<notin> capabilities p
        then (s, Inl (PermissionError ''voice:start capability is required''))
      else let sc = (case asked of Some a \<Rightarrow> a | None \<Rightarrow> default_scope p)
      in if \<not> can_access p sc
        then (s, Inl (PermissionError ''voice session scope is outside the authenticated institution scope''))
      else let own = st_active st now (Some (principal_id p)) s;
               s' = close_each st (principal_id p) now (take_int (max 0 (int (length own) - max_per_person m + 1)) own) s
      in if max_active m \<le> int (length (st_active st now None s'))
        then (s', Inl (RuntimeError ''live voice session limit reached''))
      else (case st_create st (voice_row_of digest m now sid ticket p sc) s' of
          Inl e \<Rightarrow> (s', Inl e)
        | Inr s'' \<Rightarrow> (s'', Inr (\<lparr>vn_session_id = sid, vn_principal_id = principal_id p, vn_created_at = now,
            vn_expires_at = now + ttl_seconds m * second_us, vn_principal = p, vn_scope = sc,
            vn_ticket_expires_at = Some (now + ticket_ttl_seconds m * second_us), vn_status = ''active'',
            vn_audio_retention = ''ephemeral''\<rparr>, ticket))))"

definition voice_get :: "'s voice_store \<Rightarrow> (pyval \<Rightarrow> string) \<Rightarrow> int \<Rightarrow> string \<Rightarrow> 's \<Rightarrow> voice_session option res" where
  "voice_get st rep now sid s = (case st_get st sid s of
      None \<Rightarrow> Inr None
    | Some row \<Rightarrow>
        if vs_closed_at row \<noteq> None \<or> vs_expires_at row \<le> now then Inr None
        else bindE (session_from_row rep row) (\<lambda>n. Inr (Some n)))"

definition claim_transport :: "'s voice_store \<Rightarrow> (string \<Rightarrow> string) \<Rightarrow> (pyval \<Rightarrow> string) \<Rightarrow> int \<Rightarrow> string \<Rightarrow> string
    \<Rightarrow> 's \<Rightarrow> 's \<times> principal option res" where
  "claim_transport st digest rep now sid ticket s =
     (if ticket = [] then (s, Inr None)
      else (case st_claim st sid (digest ticket) now s of
          (s', None) \<Rightarrow> (s', Inr None)
        | (s', Some row) \<Rightarrow> (s', bindE (session_from_row rep row) (\<lambda>n. Inr (Some (vn_principal n))))))"

definition release_transport :: "'s voice_store \<Rightarrow> int \<Rightarrow> string \<Rightarrow> 's \<Rightarrow> 's" where
  "release_transport st now sid s = fst (st_close st sid None now s)"

definition voice_close :: "'s voice_store \<Rightarrow> int \<Rightarrow> string \<Rightarrow> string \<Rightarrow> 's \<Rightarrow> 's \<times> bool" where
  "voice_close st now sid pid s = st_close st sid (Some pid) now s"

definition voice_active :: "'s voice_store \<Rightarrow> (pyval \<Rightarrow> string) \<Rightarrow> int \<Rightarrow> 's \<Rightarrow> voice_session list res" where
  "voice_active st rep now s = mapE (session_from_row rep) (st_active st now None s)"

text \<open>What the manager is asked over time; the output of a step is the principal a claim bound.\<close>

datatype voice_op =
    VCreate int string string principal "scope option"
  | VClaim int string string
  | VRelease int string
  | VClose int string string

fun voice_step :: "'s voice_store \<Rightarrow> (string \<Rightarrow> string) \<Rightarrow> (pyval \<Rightarrow> string) \<Rightarrow> voice_manager \<Rightarrow> voice_op \<Rightarrow> 's \<Rightarrow> 's \<times> principal option" where
  "voice_step st digest rep m (VCreate now sid ticket p asked) s = (fst (voice_create st digest m now sid ticket p asked s), None)"
| "voice_step st digest rep m (VClaim now sid ticket) s = (case claim_transport st digest rep now sid ticket s of
      (s', Inr (Some p)) \<Rightarrow> (s', Some p) | (s', _) \<Rightarrow> (s', None))"
| "voice_step st digest rep m (VRelease now sid) s = (release_transport st now sid s, None)"
| "voice_step st digest rep m (VClose now sid pid) s = (fst (voice_close st now sid pid s), None)"

fun voice_run :: "'s voice_store \<Rightarrow> (string \<Rightarrow> string) \<Rightarrow> (pyval \<Rightarrow> string) \<Rightarrow> voice_manager \<Rightarrow> voice_op list \<Rightarrow> 's \<Rightarrow> 's" where
  "voice_run st digest rep m [] s = s"
| "voice_run st digest rep m (a # as) s = voice_run st digest rep m as (fst (voice_step st digest rep m a s))"

text \<open>How many sockets the claims of a run opened on one session.\<close>

fun claims_session :: "string \<Rightarrow> voice_op \<Rightarrow> bool" where
  "claims_session i (VClaim now sid ticket) = (sid = i)"
| "claims_session i _ = False"

fun sockets_opened :: "'s voice_store \<Rightarrow> (string \<Rightarrow> string) \<Rightarrow> (pyval \<Rightarrow> string) \<Rightarrow> voice_manager \<Rightarrow> string \<Rightarrow> voice_op list \<Rightarrow> 's \<Rightarrow> nat" where
  "sockets_opened st digest rep m i [] s = 0"
| "sockets_opened st digest rep m i (a # as) s =
     (if claims_session i a \<and> snd (voice_step st digest rep m a s) \<noteq> None then 1 else 0)
     + sockets_opened st digest rep m i as (fst (voice_step st digest rep m a s))"


subsection \<open>How the rows evolve\<close>

text \<open>A row is never removed, and once claimed or closed it stays so; everything else is fixed.\<close>

definition later :: "voice_row \<Rightarrow> voice_row \<Rightarrow> bool" where
  "later r r' = (r' = r\<lparr>vs_claimed_at := vs_claimed_at r', vs_closed_at := vs_closed_at r'\<rparr>
     \<and> (vs_claimed_at r \<noteq> None \<longrightarrow> vs_claimed_at r' = vs_claimed_at r)
     \<and> (vs_closed_at r \<noteq> None \<longrightarrow> vs_closed_at r' = vs_closed_at r))"

definition rows_later :: "voice_row list \<Rightarrow> voice_row list \<Rightarrow> bool" where
  "rows_later xs ys = (\<exists>zs ws. ys = zs @ ws \<and> list_all2 later xs zs)"

lemma later_refl [simp]: "later r r"
  by (simp add: later_def)

lemma later_trans: "later a b \<Longrightarrow> later b c \<Longrightarrow> later a c"
  unfolding later_def by (cases a, cases b, cases c) auto

lemma later_fields:
  "later r r' \<Longrightarrow> vs_id r' = vs_id r \<and> vs_principal_id r' = vs_principal_id r \<and> vs_principal_json r' = vs_principal_json r
     \<and> vs_institution_id r' = vs_institution_id r
     \<and> vs_ticket_sha256 r' = vs_ticket_sha256 r \<and> vs_ticket_expires_at r' = vs_ticket_expires_at r \<and> vs_expires_at r' = vs_expires_at r"
  unfolding later_def by (metis voice_row.select_convs voice_row.surjective voice_row.update_convs(9) voice_row.update_convs(10))

lemma rows_later_refl [simp]: "rows_later xs xs"
  unfolding rows_later_def by (intro exI [of _ xs] exI [of _ "[]"]) (simp add: list_all2_refl)

lemma rows_later_append [simp]: "rows_later xs (xs @ ws)"
  unfolding rows_later_def by (intro exI [of _ xs] exI [of _ ws]) (simp add: list_all2_refl)

lemma rows_later_trans: "rows_later a b \<Longrightarrow> rows_later b c \<Longrightarrow> rows_later a c"
proof -
  assume "rows_later a b" and "rows_later b c"
  then obtain zs ws zs' ws' where b: "b = zs @ ws" "list_all2 later a zs" and c: "c = zs' @ ws'" "list_all2 later b zs'"
    unfolding rows_later_def by blast
  from c(2) obtain us vs where u: "zs' = us @ vs" "list_all2 later zs us"
    unfolding b(1) list_all2_append1 by blast
  have "list_all2 later a us" by (rule list_all2_trans [OF _ b(2) u(2)]) (rule later_trans)
  then show ?thesis unfolding rows_later_def using c(1) u(1) by auto
qed

lemma rows_later_map: "(\<And>x. later x (f x)) \<Longrightarrow> rows_later xs (map f xs)"
  unfolding rows_later_def
  by (intro exI [of _ "map f xs"] exI [of _ "[]"]) (simp add: list_all2_conv_all_nth)

lemma rows_later_find: "rows_later xs ys \<Longrightarrow> find (\<lambda>r. vs_id r = i) xs = Some r
    \<Longrightarrow> \<exists>r'. find (\<lambda>r. vs_id r = i) ys = Some r' \<and> later r r'"
proof -
  assume l: "rows_later xs ys" and f: "find (\<lambda>r. vs_id r = i) xs = Some r"
  have "list_all2 later xs zs \<Longrightarrow> find (\<lambda>r. vs_id r = i) xs = Some r
      \<Longrightarrow> \<exists>r'. find (\<lambda>r. vs_id r = i) zs = Some r' \<and> later r r'" for zs
    by (induction xs zs rule: list_all2_induct) (auto dest: later_fields split: if_splits)
  with l f show ?thesis unfolding rows_later_def by (fastforce simp: find_append)
qed

definition closed_by :: "string \<Rightarrow> int \<Rightarrow> string set \<Rightarrow> voice_row \<Rightarrow> voice_row" where
  "closed_by pid now L r = (if vs_id r \<in> L \<and> vs_closed_at r = None \<and> vs_principal_id r = pid
     then r\<lparr>vs_closed_at := Some now\<rparr> else r)"

lemma later_closed_by: "later r (closed_by pid now L r)"
  by (simp add: later_def closed_by_def)

lemma closed_by_twice: "closed_by pid now L (closed_by pid now {i} r) = closed_by pid now (insert i L) r"
  by (auto simp: closed_by_def)

lemma closed_by_one: "tbl_update (closable_row i (Some pid)) (\<lambda>r. r\<lparr>vs_closed_at := Some now\<rparr>) t = map (closed_by pid now {i}) t"
  by (auto simp: tbl_update_def closable_row_def closed_by_def)

context voice_session_store
begin

lemma create_Inr: "ok s \<Longrightarrow> st_create st r s = Inr s' \<Longrightarrow> rows s' = rows s @ [r] \<and> ok s' \<and> vs_id r \<notin> vs_id ` set (rows s)"
  using create_cases [of s r] by (metis sum.inject(2) sum.simps(4))

lemma close_each_rows:
  "ok s \<Longrightarrow> ok (close_each st pid now rs s)
    \<and> rows (close_each st pid now rs s) = map (closed_by pid now (vs_id ` set rs)) (rows s)"
proof (induction rs arbitrary: s)
  case Nil
  then show ?case by (simp add: closed_by_def)
next
  case (Cons r rs)
  then show ?case
    by (simp add: close_ok close_rows closed_by_one closed_by_twice)
qed

lemma create_rows:
  assumes "ok s"
  shows "ok (fst (voice_create st digest m now sid ticket p asked s))
    \<and> rows_later (rows s) (rows (fst (voice_create st digest m now sid ticket p asked s)))"
proof -
  let ?c = "\<lambda>rs. close_each st (principal_id p) now rs s"
  have ok: "ok (?c rs)" for rs using close_each_rows [OF assms] by simp
  have l: "rows_later (rows s) (rows (?c rs))" for rs
    using close_each_rows [OF assms] by (simp add: rows_later_map later_closed_by)
  have "rows_later (rows s) (rows (?c rs) @ ws)" for rs ws
    using rows_later_trans [OF l] rows_later_append by blast
  then show ?thesis
    using assms ok l
    by (auto simp: voice_create_def Let_def dest!: create_Inr [OF ok] split: sum.splits)
qed

lemma claim_rows_later: "ok s \<Longrightarrow> rows_later (rows s) (rows (fst (st_claim st i g now s)))"
  unfolding claim_rows tbl_update_def by (rule rows_later_map) (auto simp: later_def claimable_row_def)

lemma close_rows_later: "ok s \<Longrightarrow> rows_later (rows s) (rows (fst (st_close st i pid now s)))"
  unfolding close_rows tbl_update_def by (rule rows_later_map) (auto simp: later_def closable_row_def)

lemma claim_state: "ok s \<Longrightarrow> ok (fst (claim_transport st digest rep now sid ticket s))
    \<and> rows_later (rows s) (rows (fst (claim_transport st digest rep now sid ticket s)))"
  using claim_ok [of s sid "digest ticket" now] claim_rows_later [of s sid "digest ticket" now]
  by (auto simp: claim_transport_def split: prod.splits option.splits)

lemma step_state: "ok s \<Longrightarrow> ok (fst (voice_step st digest rep m a s))
    \<and> rows_later (rows s) (rows (fst (voice_step st digest rep m a s)))"
proof (cases a)
  case (VClaim now sid ticket)
  assume "ok s"
  have "fst (voice_step st digest rep m a s) = fst (claim_transport st digest rep now sid ticket s)"
    using VClaim by (auto split: prod.splits sum.splits option.splits)
  then show ?thesis using claim_state [OF \<open>ok s\<close>] by simp
qed (simp_all add: create_rows release_transport_def voice_close_def close_ok close_rows_later)

lemma run_state: "ok s \<Longrightarrow> ok (voice_run st digest rep m as s) \<and> rows_later (rows s) (rows (voice_run st digest rep m as s))"
proof (induction as arbitrary: s)
  case (Cons a as)
  then show ?case using step_state [of s digest rep m a] rows_later_trans by fastforce
qed simp

definition spent :: "string \<Rightarrow> 's \<Rightarrow> bool" where
  "spent i s = (case find (\<lambda>r. vs_id r = i) (rows s) of Some r \<Rightarrow> vs_claimed_at r \<noteq> None | None \<Rightarrow> False)"

lemma spent_step: "ok s \<Longrightarrow> spent i s \<Longrightarrow> spent i (fst (voice_step st digest rep m a s))"
  using step_state [of s digest rep m a] rows_later_find
  by (fastforce simp: spent_def later_def split: option.splits)

lemma claimed_row:
  assumes ok: "ok s" and c: "snd (st_claim st i g now s) = Some row"
  shows "\<exists>r. find (\<lambda>r. vs_id r = i) (rows s) = Some r \<and> claimable_row i g now r \<and> row = r\<lparr>vs_claimed_at := Some now\<rparr>
    \<and> spent i (fst (st_claim st i g now s))"
proof -
  from c obtain r where r: "find (claimable_row i g now) (rows s) = Some r" "row = r\<lparr>vs_claimed_at := Some now\<rparr>"
    by (auto simp: claimed ok)
  have k: "claimable_row i g now r \<Longrightarrow> vs_id r = i" for r by (simp add: claimable_row_def)
  have P: "r \<in> set (rows s)" "claimable_row i g now r" using find_Some_iff2 [OF r(1)] by auto
  then have "find (\<lambda>r. vs_id r = i) (rows s) = Some r"
    using k by (intro find_unique [OF ids [OF ok]]) auto
  moreover have "find (\<lambda>r. vs_id r = i) (rows (fst (st_claim st i g now s))) = Some (r\<lparr>vs_claimed_at := Some now\<rparr>)"
    unfolding claim_rows [OF ok] by (rule find_updated [OF ids [OF ok] k _ r(1)]) simp_all
  ultimately show ?thesis using P r(2) by (simp add: spent_def)
qed

lemma transport_claimed:
  assumes ok: "ok s" and c: "snd (claim_transport st digest rep now sid ticket s) = Inr (Some p)"
  shows "\<exists>r n. find (\<lambda>r. vs_id r = sid) (rows s) = Some r \<and> claimable_row sid (digest ticket) now r
    \<and> session_from_row rep (r\<lparr>vs_claimed_at := Some now\<rparr>) = Inr n \<and> p = vn_principal n
    \<and> spent sid (fst (claim_transport st digest rep now sid ticket s))"
proof -
  obtain s' o' where so: "st_claim st sid (digest ticket) now s = (s', o')" by (cases "st_claim st sid (digest ticket) now s")
  with c obtain row n where o': "o' = Some row" "session_from_row rep row = Inr n" "p = vn_principal n" "ticket \<noteq> []"
    by (auto simp: claim_transport_def bindE_eq_Inr split: if_splits option.splits)
  with so claimed_row [OF ok, of sid "digest ticket" now row] show ?thesis
    by (auto simp: claim_transport_def)
qed

end


subsection \<open>Tickets\<close>

lemma snapshot_of_session:
  "k \<noteq> ''session_scope'' \<Longrightarrow> dict_get (filter (\<lambda>(k, v). k \<noteq> ''session_scope'') (session_snapshot p sc)) k = dict_get (principal_snapshot p) k"
proof -
  assume k: "k \<noteq> ''session_scope''"
  have "dict_get (filter (\<lambda>(k, v). k \<noteq> ''session_scope'') d) k = dict_get d k" for d :: "pyval dict"
    using k by (induction d) (auto simp: dict_get_def)
  then show ?thesis using k by (simp add: session_snapshot_def dict_get_set)
qed

lemma session_scope_roundtrip: "scope_valid sc \<Longrightarrow> session_scope_of rep (PDict (scope_as_dict sc)) = Inr sc"
proof -
  assume v: "scope_valid sc"
  have "dict_get (scope_as_dict sc) ''college_id'' = Some (PStr (college_id sc))"
    by (simp add: scope_as_dict_def dict_get_def)
  moreover from v have "mk_scope (college_id sc) (department_id sc) (batch_id sc) = Inr sc" by (simp add: mk_scope_iff)
  ultimately show ?thesis using v by (simp add: session_scope_of_def py_str_def scope_valid_def)
qed

definition chosen_scope :: "principal \<Rightarrow> scope option \<Rightarrow> scope" where
  "chosen_scope p asked = (case asked of Some a \<Rightarrow> a | None \<Rightarrow> default_scope p)"

lemma chosen_scope_valid: "wf_principal p \<Longrightarrow> (\<And>a. asked = Some a \<Longrightarrow> scope_valid a) \<Longrightarrow> scope_valid (chosen_scope p asked)"
proof -
  have "scope_valid \<lparr>college_id = DEFAULT_COLLEGE_ID, department_id = None, batch_id = None\<rparr>"
    by (simp add: scope_valid_def DEFAULT_COLLEGE_ID_def blank_def py_strip_def py_space_def)
  then show "wf_principal p \<Longrightarrow> (\<And>a. asked = Some a \<Longrightarrow> scope_valid a) \<Longrightarrow> scope_valid (chosen_scope p asked)"
    by (auto simp: chosen_scope_def default_scope_def wf_principal_def split: option.splits list.splits)
qed

lemma session_of_row:
  assumes "wf_principal p" "active p" "scope_valid sc" "later (voice_row_of digest m now sid ticket p sc) r"
  shows "\<exists>n. session_from_row rep r = Inr n \<and> vn_principal n = p \<and> vn_scope n = sc"
proof -
  have j: "vs_principal_json r = session_snapshot p sc"
    using later_fields [OF assms(4)] by (simp add: voice_row_of_def)
  have "get_or_none (session_snapshot p sc) ''session_scope'' = PDict (scope_as_dict sc)"
    by (simp add: get_or_none_def session_snapshot_def)
  moreover have "truthy (PDict (scope_as_dict sc))" by (simp add: scope_as_dict_def)
  ultimately show ?thesis
    using from_snapshot_agrees [OF assms(1,2) snapshot_of_session] session_scope_roundtrip [OF assms(3)]
    by (simp add: session_from_row_def Let_def j py_or_def)
qed

context voice_session_store
begin

lemma sockets_once: "ok s \<Longrightarrow> sockets_opened st digest rep m i as s + (if spent i s then 1 else 0) \<le> 1"
proof (induction as arbitrary: s)
  case Nil
  then show ?case by simp
next
  case (Cons a as)
  let ?s = "fst (voice_step st digest rep m a s)"
  have ih: "sockets_opened st digest rep m i as ?s + (if spent i ?s then 1 else 0) \<le> 1"
    using Cons.IH step_state [OF Cons.prems] by blast
  show ?case
  proof (cases "claims_session i a \<and> snd (voice_step st digest rep m a s) \<noteq> None")
    case True
    then obtain now ticket where a: "a = VClaim now i ticket" by (cases a) auto
    with True obtain p where c: "snd (claim_transport st digest rep now i ticket s) = Inr (Some p)"
      by (auto split: prod.splits sum.splits option.splits)
    have "fst (claim_transport st digest rep now i ticket s) = ?s"
      using a by (auto split: prod.splits sum.splits option.splits)
    with transport_claimed [OF Cons.prems c] have "\<not> spent i s" "spent i ?s"
      by (auto simp: spent_def claimable_row_def)
    with ih True show ?thesis by simp
  next
    case False
    then show ?thesis using ih spent_step [OF Cons.prems, of i digest rep m a] by (auto split: if_splits)
  qed
qed

lemma created:
  assumes ok: "ok s" and c: "voice_create st digest m now sid ticket p asked s = (s', Inr (n, tk))"
  shows "tk = ticket \<and> active p \<and> can_access p (chosen_scope p asked) \<and> ok s'
    \<and> find (\<lambda>r. vs_id r = sid) (rows s') = Some (voice_row_of digest m now sid ticket p (chosen_scope p asked))"
proof -
  let ?c = "close_each st (principal_id p) now (take_int (max 0 (int (length (st_active st now (Some (principal_id p)) s)) - max_per_person m + 1)) (st_active st now (Some (principal_id p)) s)) s"
  have okc: "ok ?c" using close_each_rows [OF ok] by simp
  from c have a: "can_access p (chosen_scope p asked)" "tk = ticket"
      and i: "st_create st (voice_row_of digest m now sid ticket p (chosen_scope p asked)) ?c = Inr s'"
    by (auto simp: voice_create_def Let_def chosen_scope_def split: if_splits sum.splits)
  from create_Inr [OF okc i] have "rows s' = rows ?c @ [voice_row_of digest m now sid ticket p (chosen_scope p asked)]"
      "ok s'" "sid \<notin> vs_id ` set (rows ?c)" by (auto simp: voice_row_of_def)
  moreover from this(3) have "find (\<lambda>r. vs_id r = sid) (rows ?c) = None" by (auto simp: find_None_iff)
  ultimately show ?thesis using a by (simp add: find_append can_access_def) (simp add: voice_row_of_def)
qed

lemma ticket_binds:
  assumes ok: "ok s" and wf: "wf_principal p" and v: "\<And>a. asked = Some a \<Longrightarrow> scope_valid a"
    and c: "voice_create st digest m now sid ticket p asked s = (s1, Inr (n, tk))"
    and g: "snd (claim_transport st digest rep now' sid ticket' (voice_run st digest rep m as s1)) = Inr (Some p')"
  shows "p' = p \<and> digest ticket' = digest ticket \<and> now' < now + ticket_ttl_seconds m * second_us"
proof -
  let ?row = "voice_row_of digest m now sid ticket p (chosen_scope p asked)" and ?s2 = "voice_run st digest rep m as s1"
  have s1: "active p" "ok s1" "find (\<lambda>r. vs_id r = sid) (rows s1) = Some ?row" using created [OF ok c] by auto
  have ok2: "ok ?s2" and l: "rows_later (rows s1) (rows ?s2)" using run_state [OF s1(2)] by auto
  obtain r2 where r2: "find (\<lambda>r. vs_id r = sid) (rows ?s2) = Some r2" "later ?row r2"
    using rows_later_find [OF l s1(3)] by blast
  from transport_claimed [OF ok2 g] r2(1) obtain n2 where cl: "claimable_row sid (digest ticket') now' r2"
      and n2: "session_from_row rep (r2\<lparr>vs_claimed_at := Some now'\<rparr>) = Inr n2" "p' = vn_principal n2" by auto
  have "later ?row (r2\<lparr>vs_claimed_at := Some now'\<rparr>)"
    by (rule later_trans [OF r2(2)]) (use cl in \<open>simp add: later_def claimable_row_def\<close>)
  from session_of_row [OF wf s1(1) chosen_scope_valid [OF wf v] this, of rep] n2 have "p' = p" by auto
  moreover have "digest ticket' = digest ticket" "now' < now + ticket_ttl_seconds m * second_us"
    using cl later_fields [OF r2(2)] by (auto simp: claimable_row_def voice_row_of_def)
  ultimately show ?thesis by simp
qed

lemma ticket_opens:
  assumes ok: "ok s" and wf: "wf_principal p" and v: "\<And>a. asked = Some a \<Longrightarrow> scope_valid a"
    and c: "voice_create st digest m now sid ticket p asked s = (s1, Inr (n, tk))"
    and t: "ticket \<noteq> []" "now' < now + ticket_ttl_seconds m * second_us" "ticket_ttl_seconds m \<le> ttl_seconds m"
  shows "snd (claim_transport st digest rep now' sid ticket s1) = Inr (Some p)"
proof -
  let ?row = "voice_row_of digest m now sid ticket p (chosen_scope p asked)"
  have s1: "active p" "ok s1" "find (\<lambda>r. vs_id r = sid) (rows s1) = Some ?row" using created [OF ok c] by auto
  have e: "now' < now + ttl_seconds m * second_us" using t(2,3) by (simp add: second_us_def)
  then have cl: "claimable_row sid (digest ticket) now' ?row" using t(2) by (simp add: claimable_row_def voice_row_of_def)
  have "find (claimable_row sid (digest ticket) now') (rows s1) = Some ?row"
    using find_Some_iff2 [OF s1(3)] cl by (intro find_unique [OF ids [OF s1(2)]]) (auto simp: claimable_row_def)
  then have sn: "snd (st_claim st sid (digest ticket) now' s1) = Some (?row\<lparr>vs_claimed_at := Some now'\<rparr>)"
    by (simp add: claimed s1(2))
  have "later ?row (?row\<lparr>vs_claimed_at := Some now'\<rparr>)" by (simp add: later_def voice_row_of_def)
  from session_of_row [OF wf s1(1) chosen_scope_valid [OF wf v] this, of rep] sn t(1) show ?thesis
    by (auto simp: claim_transport_def split: prod.splits option.splits)
qed

end


subsection \<open>Bounds on open sessions\<close>

lemma filter_take_ids:
  "distinct (map f xs) \<Longrightarrow> filter (\<lambda>x. f x \<notin> f ` set (take k xs)) xs = drop k xs"
proof -
  assume d: "distinct (map f xs)"
  have "distinct (map f (take k xs @ drop k xs))" using d by simp
  then have "\<forall>x \<in> set (drop k xs). f x \<notin> f ` set (take k xs)" unfolding map_append distinct_append by auto
  moreover have "filter (\<lambda>x. f x \<notin> f ` set (take k xs)) (take k xs @ drop k xs)
      = filter (\<lambda>x. f x \<notin> f ` set (take k xs)) (drop k xs)" by (simp only: filter_append) (simp add: filter_empty_conv)
  ultimately show ?thesis by simp
qed

lemma length_filter_sort: "length (filter P (sort_key k xs)) = length (filter P xs)"
  by (simp add: filter_sort)

lemma still_active: "active_for now (Some pid) (closed_by pid now L r) \<longleftrightarrow> active_for now (Some pid) r \<and> vs_id r \<notin> L"
  by (auto simp: active_for_def closed_by_def is_active_session_def)

lemma own_left:
  assumes "distinct (map vs_id t)" and "own = sort_key vs_created_at (filter (active_for now (Some pid)) t)"
  shows "length (filter (active_for now (Some pid)) (map (closed_by pid now (vs_id ` set (take k own))) t)) = length own - k"
proof -
  let ?L = "vs_id ` set (take k own)"
  have "distinct (map vs_id (filter (active_for now (Some pid)) t))" using assms(1) by (rule distinct_map_filter)
  then have d: "distinct (map vs_id own)"
    unfolding assms(2) distinct_map by (simp add: inj_on_def)
  have "length (filter (active_for now (Some pid)) (map (closed_by pid now ?L) t))
      = length (filter (\<lambda>r. vs_id r \<notin> ?L) (filter (active_for now (Some pid)) t))"
    by (simp add: filter_map o_def still_active conj_commute)
  also have "\<dots> = length (filter (\<lambda>r. vs_id r \<notin> ?L) own)"
    unfolding assms(2) length_filter_sort ..
  also have "\<dots> = length own - k" using filter_take_ids [OF d, of k] by simp
  finally show ?thesis .
qed

context voice_session_store
begin

lemma bounded:
  assumes ok: "ok s" and c: "voice_create st digest m now sid ticket p asked s = (s', Inr r)" and m: "0 < max_per_person m"
  shows "int (length (filter (active_for now (Some (principal_id p))) (rows s'))) \<le> max_per_person m"
    and "int (length (filter (active_for now None) (rows s'))) \<le> max_active m"
    and "filter (\<lambda>x. vs_principal_id x \<noteq> principal_id p) (rows s') = filter (\<lambda>x. vs_principal_id x \<noteq> principal_id p) (rows s)"
proof -
  let ?own = "st_active st now (Some (principal_id p)) s"
  let ?k = "nat (max 0 (int (length ?own) - max_per_person m + 1))"
  let ?c = "close_each st (principal_id p) now (take ?k ?own) s"
  let ?row = "voice_row_of digest m now sid ticket p (chosen_scope p asked)"
  have okc: "ok ?c" and rc: "rows ?c = map (closed_by (principal_id p) now (vs_id ` set (take ?k ?own))) (rows s)"
    using close_each_rows [OF ok] by auto
  from c have lim: "\<not> max_active m \<le> int (length (st_active st now None ?c))" and i: "st_create st ?row ?c = Inr s'"
    by (auto simp: voice_create_def Let_def chosen_scope_def take_int_def split: if_splits sum.splits)
  from create_Inr [OF okc i] have rs: "rows s' = rows ?c @ [?row]" by simp
  have "length (filter (active_for now (Some (principal_id p))) (rows ?c)) = length ?own - ?k"
    unfolding rc by (rule own_left [OF ids [OF ok] listed [OF ok]])
  then show "int (length (filter (active_for now (Some (principal_id p))) (rows s'))) \<le> max_per_person m"
    using m unfolding rs filter_append length_append by (auto simp: max_def)
  show "int (length (filter (active_for now None) (rows s'))) \<le> max_active m"
    using lim by (simp add: rs listed [OF okc])
  have "filter (\<lambda>x. vs_principal_id x \<noteq> pid) (map (closed_by pid now L) t) = filter (\<lambda>x. vs_principal_id x \<noteq> pid) t" for pid L t
    by (induction t) (auto simp: closed_by_def)
  then show "filter (\<lambda>x. vs_principal_id x \<noteq> principal_id p) (rows s') = filter (\<lambda>x. vs_principal_id x \<noteq> principal_id p) (rows s)"
    by (simp add: rs rc) (simp add: voice_row_of_def)
qed

end

subsection \<open>Properties\<close>

text \<open>C36: a voice ticket opens at most one socket: over any sequence of creations, claims, releases
  and closings, with any claimed tickets, the claims of one session succeed at most once, in
  the SQL store and in the in-memory store.\<close>
theorem voice_ticket_once:
  assumes "distinct (map vs_id t)" and "voice_dict_ok d"
  shows "sockets_opened sql_voice_store digest rep m i as t \<le> 1 \<and> sockets_opened mem_voice_store digest rep m i as d \<le> 1"
  using sql_voice.sockets_once [OF assms(1), of digest rep m i as] mem_voice.sockets_once [OF assms(2), of digest rep m i as]
  by linarith

definition voice_example :: principal where
  "voice_example = \<lparr>principal_id = ''p1'', principal_type = STUDENT, capabilities = {START_VOICE_SESSION},
     scopes = [\<lparr>college_id = ''c'', department_id = None, batch_id = None\<rparr>],
     authenticated = True, consent_verified = False, revoked = False\<rparr>"

definition voice_example_manager :: voice_manager where
  "voice_example_manager = (case new_voice_manager 300 10 60 2 of Inr m \<Rightarrow> m)"

lemma voice_example_facts: "wf_principal voice_example" "ticket_ttl_seconds voice_example_manager = 60"
    "ttl_seconds voice_example_manager = 300" "max_per_person voice_example_manager = 2" "max_active voice_example_manager = 10"
  by (code_simp, (simp add: voice_example_manager_def new_voice_manager_def)+)

lemma voice_ticket_once_witness:
  "sockets_opened sql_voice_store id (\<lambda>_. []) voice_example_manager ''s''
      [VCreate 0 ''s'' ''t'' voice_example None, VClaim 5 ''s'' ''t'', VClaim 6 ''s'' ''t''] [] \<le> 1
    \<and> sockets_opened mem_voice_store id (\<lambda>_. []) voice_example_manager ''s''
      [VCreate 0 ''s'' ''t'' voice_example None, VClaim 5 ''s'' ''t'', VClaim 6 ''s'' ''t''] [] \<le> 1"
  by (rule voice_ticket_once) (simp_all add: voice_dict_ok_def)

text \<open>A ticket binds its socket to the person it was issued to: right after a session is created
  its ticket opens it, and whatever happens in between, a claim that succeeds presented a
  ticket with the stored digest before it expired and yields the creator's principal,
  with exactly the capabilities and scopes it had.\<close>
theorem voice_ticket_binds:
  assumes "distinct (map vs_id t)" and "wf_principal p" and "\<forall>a. asked = Some a \<longrightarrow> scope_valid a"
    and "voice_create sql_voice_store digest m now sid ticket p asked t = (t1, Inr (n, tk))"
    and "ticket_ttl_seconds m \<le> ttl_seconds m"
  shows "can_access p (vn_scope n) \<and> has_capability p START_VOICE_SESSION
    \<and> (ticket \<noteq> [] \<and> now' < now + ticket_ttl_seconds m * second_us
        \<longrightarrow> snd (claim_transport sql_voice_store digest rep now' sid ticket t1) = Inr (Some p))
    \<and> (snd (claim_transport sql_voice_store digest rep now' sid ticket' (voice_run sql_voice_store digest rep m as t1)) = Inr (Some p')
        \<longrightarrow> p' = p \<and> digest ticket' = digest ticket \<and> now' < now + ticket_ttl_seconds m * second_us)"
proof -
  have "can_access p (vn_scope n)" "has_capability p START_VOICE_SESSION"
    using assms(4) by (auto simp: voice_create_def Let_def has_capability_def can_access_def split: if_splits sum.splits)
  then show ?thesis
    using sql_voice.ticket_binds [OF assms(1,2) _ assms(4), of rep now' ticket' as p'] assms(3,5)
      sql_voice.ticket_opens [OF assms(1,2) _ assms(4), of now' rep] by blast
qed

lemma voice_ticket_binds_witness:
  "\<exists>t1 n. voice_create sql_voice_store id voice_example_manager 0 ''s'' ''t'' voice_example None [] = (t1, Inr (n, ''t''))
    \<and> snd (claim_transport sql_voice_store id (\<lambda>_. []) 5 ''s'' ''t'' t1) = Inr (Some voice_example)
    \<and> snd (claim_transport sql_voice_store id (\<lambda>_. []) 5 ''s'' ''x'' t1) \<noteq> Inr (Some voice_example)"
proof -
  obtain t1 n where c: "voice_create sql_voice_store id voice_example_manager 0 ''s'' ''t'' voice_example None [] = (t1, Inr (n, ''t''))"
    by (simp add: voice_create_def Let_def voice_example_def voice_example_facts can_access_def active_def covers_def level_covers_def
        default_scope_def sql_voice_store_def sql_active_voice_def sql_create_voice_def tbl_insert_def take_int_def)
  have d: "distinct (map vs_id [])" "\<forall>a. None = Some a \<longrightarrow> scope_valid a" by simp_all
  note b = voice_ticket_binds [OF d(1) voice_example_facts(1) d(2) c, where now' = 5]
  have "snd (claim_transport sql_voice_store id (\<lambda>_. []) 5 ''s'' ''t'' t1) = Inr (Some voice_example)"
    using b by (simp add: voice_example_facts second_us_def)
  moreover have "snd (claim_transport sql_voice_store id (\<lambda>_. []) 5 ''s'' ''x'' t1) \<noteq> Inr (Some voice_example)"
    using b [where as = "[]" and ticket' = "''x''" and p' = voice_example] by (simp add: voice_example_facts)
  ultimately show ?thesis using c by blast
qed

text \<open>Opening a session keeps the bounds: afterwards the person has at most \<open>max_per_person\<close> open
  sessions and the store at most \<open>max_active\<close>, and no other person's session was touched.\<close>
theorem voice_sessions_bounded:
  assumes "distinct (map vs_id t)" and "0 < max_per_person m"
    and "voice_create sql_voice_store digest m now sid ticket p asked t = (t', Inr r)"
  shows "int (length (filter (active_for now (Some (principal_id p))) t')) \<le> max_per_person m
    \<and> int (length (filter (active_for now None) t')) \<le> max_active m
    \<and> filter (\<lambda>x. vs_principal_id x \<noteq> principal_id p) t' = filter (\<lambda>x. vs_principal_id x \<noteq> principal_id p) t"
  using sql_voice.bounded [OF assms(1,3,2)] by simp

lemma voice_sessions_bounded_witness:
  "\<exists>t' r. voice_create sql_voice_store id voice_example_manager 0 ''s'' ''t'' voice_example None [] = (t', Inr r)
    \<and> int (length (filter (active_for 0 (Some ''p1'')) t')) \<le> 2"
proof -
  obtain t1 r where c: "voice_create sql_voice_store id voice_example_manager 0 ''s'' ''t'' voice_example None [] = (t1, Inr r)"
    by (simp add: voice_create_def Let_def voice_example_def voice_example_facts can_access_def active_def covers_def level_covers_def
        default_scope_def sql_voice_store_def sql_active_voice_def sql_create_voice_def tbl_insert_def take_int_def)
  have "int (length (filter (active_for 0 (Some (principal_id voice_example))) t1)) \<le> max_per_person voice_example_manager"
    using voice_sessions_bounded [OF _ _ c] by (simp add: voice_example_facts)
  with c show ?thesis by (simp add: voice_example_facts) (simp add: voice_example_def)
qed

end
