(* ===== verification/PostgresStore.thy ===== *)
theory PostgresStore
  imports VoiceSessions "HOL-Library.Multiset"
begin

text \<open>
  The PostgreSQL control store of \<^verbatim>\<open>persistence/database.py\<close>: the same tables as the SQLite
  store, with ON CONFLICT DO UPDATE where that one replaces rows and RETURNING where that one
  reads again. The lemmas show that the two are interchangeable: the same source health, the
  same usage verdicts, and the voice session protocol. The lock timeouts, which turn waiting
  for a lock into an error, are outside the model.
\<close>

subsection \<open>Statements\<close>

text \<open>INSERT ... ON CONFLICT (key) DO UPDATE: the row with the key is overwritten where it is.\<close>

definition tbl_upsert :: "('r \<Rightarrow> string) \<Rightarrow> 'r \<Rightarrow> 'r list \<Rightarrow> 'r list" where
  "tbl_upsert key r t = (if list_ex (\<lambda>x. key x = key r) t
     then tbl_update (\<lambda>x. key x = key r) (\<lambda>x. r) t else t @ [r])"

subsection \<open>Operations\<close>

definition pg_append_audit :: "audit_event \<Rightarrow> sql_store \<Rightarrow> sql_store res" where
  "pg_append_audit ev q = bindE (tbl_insert ae_event_id (stored_audit ev) (q_audit q)) (\<lambda>t. Inr (q\<lparr>q_audit := t\<rparr>))"

definition pg_recent_audit :: "int \<Rightarrow> sql_store \<Rightarrow> audit_event list" where
  "pg_recent_audit limit q = (if limit \<le> 0 then [] else newest ae_occurred_at limit (q_audit q))"

definition pg_set_health :: "source_health \<Rightarrow> sql_store \<Rightarrow> sql_store" where
  "pg_set_health h q = q\<lparr>q_health := tbl_upsert sh_source_id h (q_health q)\<rparr>"

definition pg_get_health :: "string \<Rightarrow> sql_store \<Rightarrow> source_health option" where
  "pg_get_health s q = find (\<lambda>h. sh_source_id h = s) (q_health q)"

definition pg_all_health :: "sql_store \<Rightarrow> source_health list" where
  "pg_all_health q = sort_key sh_source_id (q_health q)"

definition pg_record_briefing :: "int \<Rightarrow> string \<Rightarrow> string \<Rightarrow> string \<Rightarrow> pyval dict \<Rightarrow> sql_store \<Rightarrow> sql_store" where
  "pg_record_briefing now b p i ans q = q\<lparr>q_briefings := tbl_upsert bn_id
     \<lparr>bn_id = b, bn_created_at = now, bn_principal_id = p, bn_institution_id = i, bn_answer = ans\<rparr> (q_briefings q)\<rparr>"

definition pg_recent_briefings :: "int \<Rightarrow> sql_store \<Rightarrow> briefing_run list" where
  "pg_recent_briefings limit q = (if limit \<le> 0 then [] else newest bn_created_at limit (q_briefings q))"

definition pg_record_answer :: "answer_envelope \<Rightarrow> sql_store \<Rightarrow> sql_store" where
  "pg_record_answer a q = q\<lparr>q_answers := tbl_upsert an_request_id a (q_answers q)\<rparr>"

definition pg_record_attempt :: "string \<Rightarrow> model_attempt \<Rightarrow> sql_store \<Rightarrow> sql_store res" where
  "pg_record_attempt fresh a q =
     bindE (tbl_insert fst (''attempt-'' @ fresh, a) (q_attempts q)) (\<lambda>t. Inr (q\<lparr>q_attempts := t\<rparr>))"

definition pg_enqueue_outbox :: "string \<Rightarrow> int \<Rightarrow> string \<Rightarrow> pyval dict \<Rightarrow> sql_store \<Rightarrow> (sql_store \<times> string) res" where
  "pg_enqueue_outbox fresh now ty payload q =
     bindE (tbl_insert ob_id \<lparr>ob_id = ''outbox-'' @ fresh, ob_event_type = ty, ob_payload = payload,
        ob_created_at = now, ob_delivered_at = None\<rparr> (q_outbox q))
       (\<lambda>t. Inr (q\<lparr>q_outbox := t\<rparr>, ''outbox-'' @ fresh))"

definition pg_drain_outbox :: "int \<Rightarrow> sql_store \<Rightarrow> outbox_record list" where
  "pg_drain_outbox limit q = (if limit \<le> 0 then []
     else page ob_created_at limit 0 (filter (\<lambda>x. ob_delivered_at x = None) (q_outbox q)))"

definition pg_ack_outbox :: "int \<Rightarrow> string list \<Rightarrow> sql_store \<Rightarrow> sql_store" where
  "pg_ack_outbox now ids q = (if ids = [] then q
     else q\<lparr>q_outbox := foldl (\<lambda>t i. tbl_update (\<lambda>x. ob_id x = i \<and> ob_delivered_at x = None)
         (\<lambda>x. x\<lparr>ob_delivered_at := Some now\<rparr>) t) (q_outbox q) ids\<rparr>)"

definition pg_prune_retention :: "int \<Rightarrow> int \<Rightarrow> sql_store \<Rightarrow> (sql_store \<times> int) res" where
  "pg_prune_retention now retention_days q =
     (if retention_days \<le> 0 then Inl (ValueError ''retention_days must be positive'')
      else
        let cutoff = now - retention_days * day_us
        in Inr (q\<lparr>q_audit := tbl_delete (\<lambda>x. ae_occurred_at x < cutoff) (q_audit q),
                  q_answers := tbl_delete (\<lambda>x. an_created_at x < cutoff) (q_answers q),
                  q_attempts := tbl_delete (\<lambda>x. ma_created_at (snd x) < cutoff) (q_attempts q),
                  q_outbox := tbl_delete (\<lambda>x. ob_created_at x < cutoff) (q_outbox q),
                  q_briefings := tbl_delete (\<lambda>x. bn_created_at x < cutoff) (q_briefings q)\<rparr>,
                int (tbl_count (\<lambda>x. ae_occurred_at x < cutoff) (q_audit q)
                   + tbl_count (\<lambda>x. an_created_at x < cutoff) (q_answers q)
                   + tbl_count (\<lambda>x. ma_created_at (snd x) < cutoff) (q_attempts q)
                   + tbl_count (\<lambda>x. ob_created_at x < cutoff) (q_outbox q)
                   + tbl_count (\<lambda>x. bn_created_at x < cutoff) (q_briefings q))))"

definition pg_create_voice :: "voice_row \<Rightarrow> voice_row list \<Rightarrow> voice_row list res" where
  "pg_create_voice r t = tbl_insert vs_id r t"

definition pg_get_voice :: "string \<Rightarrow> voice_row list \<Rightarrow> voice_row option" where
  "pg_get_voice i t = find (\<lambda>r. vs_id r = i) t"

text \<open>UPDATE ... RETURNING: the first updated row, as written.\<close>

definition pg_claim_voice :: "string \<Rightarrow> string \<Rightarrow> int \<Rightarrow> voice_row list \<Rightarrow> voice_row list \<times> voice_row option" where
  "pg_claim_voice i digest now t =
     (let P = (\<lambda>r. vs_id r = i \<and> vs_ticket_sha256 r = digest \<and> vs_claimed_at r = None \<and> vs_closed_at r = None
                \<and> now < vs_ticket_expires_at r \<and> now < vs_expires_at r);
          f = (\<lambda>r. r\<lparr>vs_claimed_at := Some now\<rparr>)
      in (tbl_update P f t, map_option f (find P t)))"

definition pg_close_voice :: "string \<Rightarrow> string option \<Rightarrow> int \<Rightarrow> voice_row list \<Rightarrow> voice_row list \<times> bool" where
  "pg_close_voice i pid now t =
     (let P = (case pid of
           None \<Rightarrow> (\<lambda>r. vs_id r = i \<and> vs_closed_at r = None)
         | Some p \<Rightarrow> (\<lambda>r. vs_id r = i \<and> vs_principal_id r = p \<and> vs_closed_at r = None))
      in (tbl_update P (\<lambda>r. r\<lparr>vs_closed_at := Some now\<rparr>) t, tbl_count P t = 1))"

definition pg_active_voice :: "int \<Rightarrow> string option \<Rightarrow> voice_row list \<Rightarrow> voice_row list" where
  "pg_active_voice now pid t = sort_key vs_created_at (filter (\<lambda>r. vs_closed_at r = None \<and> now < vs_expires_at r
     \<and> (vs_claimed_at r \<noteq> None \<or> now < vs_ticket_expires_at r) \<and> (case pid of None \<Rightarrow> True | Some p \<Rightarrow> vs_principal_id r = p)) t)"

definition pg_take_usage :: "usage_key \<Rightarrow> int \<Rightarrow> usage_row list \<Rightarrow> usage_row list \<times> bool" where
  "pg_take_usage key cap t =
     (if cap \<le> 0 then (t, False)
      else if find (\<lambda>r. us_key r = key) t = None then
        (case key of (i, p, c, d) \<Rightarrow> (t @ [\<lparr>us_institution_id = i, us_principal_id = p, us_counter = c, us_day = d, us_used = 1\<rparr>], True))
      else (tbl_update (\<lambda>r. us_key r = key \<and> us_used r < cap) (\<lambda>r. r\<lparr>us_used := us_used r + 1\<rparr>) t,
            tbl_count (\<lambda>r. us_key r = key \<and> us_used r < cap) t = 1))"

definition pg_prune_ephemeral :: "int \<Rightarrow> voice_row list \<Rightarrow> usage_row list \<Rightarrow> voice_row list \<times> usage_row list \<times> int" where
  "pg_prune_ephemeral now vs u =
     (let cutoff = now - VOICE_SESSION_KEEP;
          oldest_day = now div day_us - USAGE_COUNTER_KEEP_DAYS;
          stale = (\<lambda>r. (case vs_closed_at r of Some c \<Rightarrow> c | None \<Rightarrow> vs_expires_at r) < cutoff)
      in (tbl_delete stale vs, tbl_delete (\<lambda>r. us_day r < oldest_day) u,
          int (tbl_count stale vs + tbl_count (\<lambda>r. us_day r < oldest_day) u)))"

definition pg_voice_store :: "voice_row list voice_store" where
  "pg_voice_store = \<lparr>st_create = pg_create_voice, st_get = pg_get_voice, st_claim = pg_claim_voice,
     st_close = pg_close_voice, st_active = pg_active_voice\<rparr>"

subsection \<open>The voice protocol\<close>

text \<open>On rows with one id each the two SQL stores are the same function.\<close>

lemma pg_voice_store_eq:
  assumes d: "distinct (map vs_id t)"
  shows "st_create pg_voice_store r t = st_create sql_voice_store r t"
    and "st_get pg_voice_store i t = st_get sql_voice_store i t"
    and "st_claim pg_voice_store i g now t = st_claim sql_voice_store i g now t"
    and "st_close pg_voice_store i pid now t = st_close sql_voice_store i pid now t"
    and "st_active pg_voice_store now pid t = st_active sql_voice_store now pid t"
proof -
  show "st_create pg_voice_store r t = st_create sql_voice_store r t"
    and "st_get pg_voice_store i t = st_get sql_voice_store i t"
    and "st_close pg_voice_store i pid now t = st_close sql_voice_store i pid now t"
    and "st_active pg_voice_store now pid t = st_active sql_voice_store now pid t"
    by (simp_all add: pg_voice_store_def sql_voice_store_def pg_create_voice_def sql_create_voice_def
        pg_get_voice_def sql_get_voice_def pg_close_voice_def sql_close_voice_def pg_active_voice_def sql_active_voice_def)
  have P: "(\<lambda>r. vs_id r = i \<and> vs_ticket_sha256 r = g \<and> vs_claimed_at r = None \<and> vs_closed_at r = None
      \<and> now < vs_ticket_expires_at r \<and> now < vs_expires_at r) = claimable_row i g now"
    by (simp add: claimable_row_def fun_eq_iff)
  have "st_claim pg_voice_store i g now t = (tbl_update (claimable_row i g now) (\<lambda>r. r\<lparr>vs_claimed_at := Some now\<rparr>) t,
      map_option (\<lambda>r. r\<lparr>vs_claimed_at := Some now\<rparr>) (find (claimable_row i g now) t))"
    by (simp add: pg_voice_store_def pg_claim_voice_def Let_def P)
  then show "st_claim pg_voice_store i g now t = st_claim sql_voice_store i g now t"
    using sql_voice.claimed [OF d, of i g now] sql_voice.claim_rows [OF d, of i g now] by (simp add: prod_eq_iff)
qed

interpretation pg_voice: voice_session_store pg_voice_store "\<lambda>t. t" "\<lambda>t. distinct (map vs_id t)"
  using sql_voice.create_new sql_voice.create_known sql_voice.got sql_voice.claimed sql_voice.claim_rows sql_voice.claim_ok
    sql_voice.closed sql_voice.close_rows sql_voice.close_ok sql_voice.listed
  by unfold_locales (simp_all add: pg_voice_store_eq)

interpretation pg_usage: usage_counter pg_take_usage sql_used usage_ok
proof -
  have "pg_take_usage = sql_take_usage" by (simp add: fun_eq_iff pg_take_usage_def sql_take_usage_def)
  then show "usage_counter pg_take_usage sql_used usage_ok" using sql_usage.usage_counter_axioms by simp
qed


subsection \<open>Source health\<close>

definition same_rows :: "('r \<Rightarrow> string) \<Rightarrow> 'r list \<Rightarrow> 'r list \<Rightarrow> bool" where
  "same_rows key t u = (distinct (map key t) \<and> distinct (map key u) \<and> set t = set u)"

lemma same_rows_find: "same_rows key t u \<Longrightarrow> find (\<lambda>x. key x = k) t = find (\<lambda>x. key x = k) u"
proof (cases "find (\<lambda>x. key x = k) t")
  case None
  assume "same_rows key t u"
  with None have "find (\<lambda>x. key x = k) u = None" by (simp add: same_rows_def find_None_iff)
  with None show ?thesis by simp
next
  case (Some x)
  assume s: "same_rows key t u"
  from find_Some_iff2 [OF Some] s have "x \<in> set u" "key x = k" by (auto simp: same_rows_def)
  then have "find (\<lambda>x. key x = k) u = Some x" using s by (intro find_unique [of key]) (auto simp: same_rows_def)
  with Some show ?thesis by simp
qed

lemma distinct_key_filter: "distinct (map key t) \<Longrightarrow> x \<in> set t \<Longrightarrow> filter (\<lambda>y. key x = key y) t = [x]"
proof (induction t)
  case (Cons a t)
  show ?case
  proof (cases "x = a")
    case True
    then show ?thesis using Cons.prems(1) by (auto simp: filter_empty_conv image_iff)
  next
    case False
    with Cons.prems have "x \<in> set t" "key x \<noteq> key a" by (auto simp: image_iff)
    with Cons show ?thesis by simp
  qed
qed simp

lemma same_rows_sort: "same_rows key t u \<Longrightarrow> sort_key key t = sort_key key u"
proof -
  assume s: "same_rows key t u"
  then have d: "distinct (map key t)" "distinct (map key u)" "set t = set u" by (auto simp: same_rows_def)
  have "mset t = mset u" using d by (simp add: set_eq_iff_mset_eq_distinct distinct_map)
  moreover have "filter (\<lambda>y. key x = key y) (sort_key key t) = filter (\<lambda>y. key x = key y) u" if "x \<in> set (sort_key key t)" for x
  proof -
    have "filter (\<lambda>y. key x = key y) t = [x]" "filter (\<lambda>y. key x = key y) u = [x]"
      using d that by (auto intro: distinct_key_filter)
    then show ?thesis by (simp add: filter_sort)
  qed
  ultimately show ?thesis by (intro properties_for_sort_key [symmetric]) auto
qed

lemma replace_upsert: "same_rows key t u \<Longrightarrow> same_rows key (tbl_upsert key r t) (tbl_replace key r u)"
proof -
  assume s: "same_rows key t u"
  have "map key (tbl_update (\<lambda>x. key x = key r) (\<lambda>x. r) t) = map key t"
    by (simp add: tbl_update_def)
  moreover have "set (tbl_update (\<lambda>x. key x = key r) (\<lambda>x. r) t) = insert r (set (filter (\<lambda>x. key x \<noteq> key r) u))"
    if "list_ex (\<lambda>x. key x = key r) t"
    using that s by (auto simp: same_rows_def tbl_update_def list_ex_iff)
  moreover have "set t = set (filter (\<lambda>x. key x \<noteq> key r) u)" if "\<not> list_ex (\<lambda>x. key x = key r) t"
    using that s by (auto simp: same_rows_def list_ex_iff)
  moreover have "key r \<notin> key ` set t" if "\<not> list_ex (\<lambda>x. key x = key r) t"
    using that by (auto simp: list_ex_iff)
  ultimately show ?thesis using s
    by (auto simp: same_rows_def tbl_upsert_def tbl_replace_def distinct_map_filter)
qed

lemma health_tables:
  "same_rows sh_source_id (q_health (foldl (\<lambda>q h. pg_set_health h q) q hs)) (q_health (foldl (\<lambda>q h. sql_set_health h q) q' hs))
    \<and> (\<forall>s. map_of (m_health (foldl (\<lambda>m h. mem_set_health h m) m hs)) s
        = find (\<lambda>h. sh_source_id h = s) (q_health (foldl (\<lambda>q h. sql_set_health h q) q' hs)))"
  if "same_rows sh_source_id (q_health q) (q_health q')"
    and "\<forall>s. map_of (m_health m) s = find (\<lambda>h. sh_source_id h = s) (q_health q')"
  using that
proof (induction hs arbitrary: q q' m)
  case (Cons h hs)
  have "find (\<lambda>h. sh_source_id h = s) (filter (\<lambda>x. sh_source_id x \<noteq> k) t)
      = (if s = k then None else find (\<lambda>h. sh_source_id h = s) t)" for s k and t :: "source_health list"
    by (induction t) auto
  with Cons.prems(2) have "\<forall>s. map_of (m_health (mem_set_health h m)) s
      = find (\<lambda>h. sh_source_id h = s) (q_health (sql_set_health h q'))"
    by (simp add: mem_set_health_def sql_set_health_def tbl_replace_def find_append dict_set_def update_conv'
        split: option.splits)
  moreover have "same_rows sh_source_id (q_health (pg_set_health h q)) (q_health (sql_set_health h q'))"
    using replace_upsert [OF Cons.prems(1)] by (simp add: pg_set_health_def sql_set_health_def)
  ultimately show ?case using Cons.IH by simp
qed simp

text \<open>The three control stores report the same source health: after the same sequence of reports,
  each source has the same health in memory, in SQLite and in PostgreSQL, and the two SQL
  stores list the sources in the same order.\<close>
theorem health_stores_agree:
  assumes "new_mem_store n = Inr m"
  shows "let p = foldl (\<lambda>q h. pg_set_health h q) empty_sql_store hs; q = foldl (\<lambda>q h. sql_set_health h q) empty_sql_store hs;
      m' = foldl (\<lambda>m h. mem_set_health h m) m hs
    in pg_get_health s p = sql_get_health s q \<and> mem_get_health s m' = sql_get_health s q \<and> pg_all_health p = sql_all_health q"
proof -
  have "m_health m = []" using assms by (auto simp: new_mem_store_def split: if_splits)
  then have "same_rows sh_source_id (q_health empty_sql_store) (q_health empty_sql_store)"
      "\<forall>s. map_of (m_health m) s = find (\<lambda>h. sh_source_id h = s) (q_health empty_sql_store)"
    by (simp_all add: same_rows_def empty_sql_store_def)
  from health_tables [OF this, of hs] show ?thesis
    by (simp add: Let_def pg_get_health_def sql_get_health_def mem_get_health_def dict_get_def pg_all_health_def
        sql_all_health_def same_rows_find same_rows_sort)
qed

definition health_example :: "source_health \<Rightarrow> source_health list" where
  "health_example h = [h\<lparr>sh_source_id := ''b''\<rparr>, h\<lparr>sh_source_id := ''a''\<rparr>, h\<lparr>sh_source_id := ''b'', sh_detail := ''down''\<rparr>]"

lemma health_stores_agree_witness:
  "\<forall>h. let p = foldl (\<lambda>q h. pg_set_health h q) empty_sql_store (health_example h);
      q = foldl (\<lambda>q h. sql_set_health h q) empty_sql_store (health_example h);
      m' = foldl (\<lambda>m h. mem_set_health h m) (case new_mem_store 10 of Inr m \<Rightarrow> m) (health_example h)
    in pg_get_health ''b'' p = sql_get_health ''b'' q \<and> mem_get_health ''b'' m' = sql_get_health ''b'' q \<and> pg_all_health p = sql_all_health q"
  by (intro allI, rule health_stores_agree [of 10]) (simp add: new_mem_store_def)

end
