(* ===== verification/InstitutionTables.thy ===== *)
theory InstitutionTables
  imports Approvals "HOL-Library.Product_Lexorder"
begin

text \<open>
  The remaining tables of \<^verbatim>\<open>institution_data/store.py\<close> (uploaded files, ingestion jobs with
  their staged rows and review items, mapping profiles, documents with their chunks, reports,
  notifications, e-mails and agent runs; DDL in \<^verbatim>\<open>institution_data/schema.py\<close>). Each
  operation is a function on the tables it touches; a transaction that raises leaves them
  unchanged.
\<close>

subsection \<open>Uploaded files\<close>

record file_row =
  fi_id :: string
  fi_institution_id :: string
  fi_file_name :: string
  fi_content_type :: string
  fi_size_bytes :: int
  fi_sha256 :: string
  fi_object_key :: string
  fi_file_kind :: string
  fi_uploaded_by :: string
  fi_uploaded_at :: int

definition get_file :: "string \<Rightarrow> string \<Rightarrow> file_row list \<Rightarrow> file_row option res" where
  "get_file i f t = tenant i (Inr (find (\<lambda>r. fi_institution_id r = i \<and> fi_id r = f) t))"

text \<open>The row is given with its file fields; the institution and the instant are set here.\<close>

definition record_file :: "int \<Rightarrow> string \<Rightarrow> file_row \<Rightarrow> file_row list \<Rightarrow> (file_row list \<times> file_row option) res" where
  "record_file now i r t =
     tenant i (bindE (tbl_insert fi_id (r\<lparr>fi_institution_id := i, fi_uploaded_at := now\<rparr>) t) (\<lambda>t'.
       bindE (get_file i (fi_id r) t') (\<lambda>x. Inr (t', x))))"

subsection \<open>Ingestion jobs\<close>

record job_row =
  ij_id :: string
  ij_institution_id :: string
  ij_file_id :: "string option"
  ij_entity :: "string option"
  ij_status :: string
  ij_stage :: string
  ij_source_kind :: string
  ij_requested_by :: string
  ij_created_at :: int
  ij_updated_at :: int
  ij_mapping :: "pyval dict"
  ij_report :: "pyval dict"
  ij_options :: "pyval dict"
  ij_error :: "string option"
  ij_row_count :: int
  ij_sheet_name :: "string option"

definition get_job :: "string \<Rightarrow> string \<Rightarrow> job_row list \<Rightarrow> job_row option res" where
  "get_job i j t = tenant i (Inr (find (\<lambda>r. ij_institution_id r = i \<and> ij_id r = j) t))"

definition create_job :: "int \<Rightarrow> string \<Rightarrow> string \<Rightarrow> string option \<Rightarrow> string option \<Rightarrow> string \<Rightarrow> string \<Rightarrow> pyval dict
    \<Rightarrow> job_row list \<Rightarrow> (job_row list \<times> job_row option) res" where
  "create_job now i j file entity who kind options t =
     tenant i (bindE (tbl_insert ij_id \<lparr>ij_id = j, ij_institution_id = i, ij_file_id = file, ij_entity = entity,
         ij_status = ''queued'', ij_stage = ''queued'', ij_source_kind = kind, ij_requested_by = who,
         ij_created_at = now, ij_updated_at = now, ij_mapping = [], ij_report = [], ij_options = options,
         ij_error = None, ij_row_count = 0, ij_sheet_name = None\<rparr> t) (\<lambda>t'.
       bindE (get_job i j t') (\<lambda>x. Inr (t', x))))"

text \<open>The keyword arguments of \<^verbatim>\<open>update_job\<close>; any other name is refused.\<close>

datatype job_change =
    JStatus string | JStage string | JEntity "string option" | JMapping "pyval dict" | JReport "pyval dict"
  | JError "string option" | JRowCount int | JSheetName "string option" | JOptions "pyval dict" | JOther string

fun apply_change :: "job_change \<Rightarrow> job_row \<Rightarrow> job_row" where
  "apply_change (JStatus s) r = r\<lparr>ij_status := s\<rparr>"
| "apply_change (JStage s) r = r\<lparr>ij_stage := s\<rparr>"
| "apply_change (JEntity s) r = r\<lparr>ij_entity := s\<rparr>"
| "apply_change (JMapping d) r = r\<lparr>ij_mapping := d\<rparr>"
| "apply_change (JReport d) r = r\<lparr>ij_report := d\<rparr>"
| "apply_change (JError s) r = r\<lparr>ij_error := s\<rparr>"
| "apply_change (JRowCount n) r = r\<lparr>ij_row_count := n\<rparr>"
| "apply_change (JSheetName s) r = r\<lparr>ij_sheet_name := s\<rparr>"
| "apply_change (JOptions d) r = r\<lparr>ij_options := d\<rparr>"
| "apply_change (JOther k) r = r"

fun unknown_change :: "job_change list \<Rightarrow> string option" where
  "unknown_change [] = None"
| "unknown_change (JOther k # cs) = Some k"
| "unknown_change (c # cs) = unknown_change cs"

definition changed_job :: "int \<Rightarrow> job_change list \<Rightarrow> job_row \<Rightarrow> job_row" where
  "changed_job now cs r = foldl (\<lambda>r c. apply_change c r) (r\<lparr>ij_updated_at := now\<rparr>) cs"

definition update_job :: "int \<Rightarrow> string \<Rightarrow> string \<Rightarrow> job_change list \<Rightarrow> job_row list \<Rightarrow> (job_row list \<times> job_row option) res" where
  "update_job now i j cs t = (case unknown_change cs of
      Some k \<Rightarrow> Inl (ValueError (''job field cannot be updated: '' @ k))
    | None \<Rightarrow> tenant i (let t' = tbl_update (\<lambda>r. ij_institution_id r = i \<and> ij_id r = j) (changed_job now cs) t
        in bindE (get_job i j t') (\<lambda>x. Inr (t', x))))"

definition list_jobs :: "string \<Rightarrow> int \<Rightarrow> string option \<Rightarrow> job_row list \<Rightarrow> job_row list res" where
  "list_jobs i limit status t = tenant i (Inr (newest ij_created_at (clamp_limit limit 500)
     (filter (\<lambda>r. ij_institution_id r = i \<and> opt_filter status (ij_status r)) t)))"

lemma apply_change_keys [simp]:
  "ij_id (apply_change c r) = ij_id r" "ij_institution_id (apply_change c r) = ij_institution_id r"
  by (cases c; simp)+

lemma changed_job_keys [simp]:
  "ij_id (changed_job now cs r) = ij_id r" "ij_institution_id (changed_job now cs r) = ij_institution_id r"
proof -
  have "ij_id (foldl (\<lambda>r c. apply_change c r) r cs) = ij_id r
      \<and> ij_institution_id (foldl (\<lambda>r c. apply_change c r) r cs) = ij_institution_id r" for r
    by (induction cs arbitrary: r) simp_all
  then show "ij_id (changed_job now cs r) = ij_id r" "ij_institution_id (changed_job now cs r) = ij_institution_id r"
    by (simp_all add: changed_job_def)
qed

subsection \<open>Staged rows of a job\<close>

record staged_row =
  ir_id :: string
  ir_job_id :: string
  ir_institution_id :: string
  ir_row_number :: int
  ir_locator :: string
  ir_raw :: "pyval dict"
  ir_normalized :: "pyval dict"
  ir_status :: string
  ir_action :: string
  ir_record_key :: "string option"
  ir_issues :: "pyval list"

text \<open>What the caller hands over for one row; the omitted entries have the source's defaults.\<close>

record staged_item =
  it_row_number :: int
  it_locator :: string
  it_raw :: "pyval dict option"
  it_normalized :: "pyval dict option"
  it_status :: "string option"
  it_action :: "string option"
  it_record_key :: "string option"
  it_issues :: "pyval list option"

definition opt_or :: "'a option \<Rightarrow> 'a \<Rightarrow> 'a" where
  "opt_or x d = (case x of None \<Rightarrow> d | Some y \<Rightarrow> y)"

definition staged_of :: "string \<Rightarrow> string \<Rightarrow> string \<times> staged_item \<Rightarrow> staged_row" where
  "staged_of i j = (\<lambda>(fresh, x). \<lparr>ir_id = ''rec-'' @ fresh, ir_job_id = j, ir_institution_id = i,
     ir_row_number = it_row_number x, ir_locator = it_locator x, ir_raw = opt_or (it_raw x) [],
     ir_normalized = opt_or (it_normalized x) [], ir_status = opt_or (it_status x) ''pending'',
     ir_action = opt_or (it_action x) ''pending'', ir_record_key = it_record_key x, ir_issues = opt_or (it_issues x) []\<rparr>)"

text \<open>The loop over the chunks inside the transaction; the count is what was inserted.\<close>

fun insert_chunks :: "('r \<Rightarrow> string) \<Rightarrow> 'r list list \<Rightarrow> 'r list \<Rightarrow> nat \<Rightarrow> ('r list \<times> nat) res" where
  "insert_chunks key [] t n = Inr (t, n)"
| "insert_chunks key (c # cs) t n = bindE (tbl_insert_all key c t) (\<lambda>t'. insert_chunks key cs t' (n + length c))"

definition replace_job_records :: "string \<Rightarrow> string \<Rightarrow> (string \<times> staged_item) list \<Rightarrow> staged_row list \<Rightarrow> (staged_row list \<times> int) res" where
  "replace_job_records i j items t =
     tenant i (bindE (insert_chunks ir_id (chunks WRITE_CHUNK_ROWS (map (staged_of i j) items))
         (tbl_delete (\<lambda>r. ir_institution_id r = i \<and> ir_job_id r = j) t) 0)
       (\<lambda>(t', n). Inr (t', int n)))"

definition job_records :: "string \<Rightarrow> string \<Rightarrow> int \<Rightarrow> int \<Rightarrow> string option \<Rightarrow> staged_row list \<Rightarrow> staged_row list res" where
  "job_records i j limit offset status t =
     tenant i (Inr (page (\<lambda>r. (ir_row_number r, ir_locator r)) (clamp_limit limit 50000) (max 0 offset)
       (filter (\<lambda>r. ir_institution_id r = i \<and> ir_job_id r = j \<and> opt_filter status (ir_status r)) t)))"

subsection \<open>Review items\<close>

record review_row =
  rv_id :: string
  rv_institution_id :: string
  rv_job_id :: string
  rv_kind :: string
  rv_status :: string
  rv_payload :: "pyval dict"
  rv_created_at :: int
  rv_resolved_at :: "int option"
  rv_resolved_by :: "string option"
  rv_resolution :: "pyval dict"

text \<open>A number padded with zeros to six digits.\<close>

definition pad6 :: "nat \<Rightarrow> string" where
  "pad6 n = (let s = nat_digits n in replicate (6 - length s) CHR ''0'' @ s)"

definition review_rows :: "int \<Rightarrow> string \<Rightarrow> string \<Rightarrow> (string \<times> string \<times> pyval dict) list \<Rightarrow> review_row list" where
  "review_rows now i j items = map (\<lambda>(n, fresh, kind, payload).
     \<lparr>rv_id = ''review-'' @ pad6 n @ fresh, rv_institution_id = i, rv_job_id = j, rv_kind = kind, rv_status = ''pending'',
      rv_payload = payload, rv_created_at = now, rv_resolved_at = None, rv_resolved_by = None, rv_resolution = []\<rparr>)
     (zip [0..<length items] items)"

definition add_review_items :: "int \<Rightarrow> string \<Rightarrow> string \<Rightarrow> (string \<times> string \<times> pyval dict) list \<Rightarrow> review_row list
    \<Rightarrow> (review_row list \<times> string list) res" where
  "add_review_items now i j items t =
     (let rs = review_rows now i j items
      in if rs = [] then Inr (t, [])
         else tenant i (bindE (tbl_insert_all rv_id rs t) (\<lambda>t'. Inr (t', map rv_id rs))))"

definition list_review_items :: "string \<Rightarrow> string option \<Rightarrow> string option \<Rightarrow> int \<Rightarrow> int \<Rightarrow> review_row list \<Rightarrow> review_row list res" where
  "list_review_items i job status limit offset t =
     tenant i (Inr (page (\<lambda>r. (rv_created_at r, rv_id r)) (clamp_limit limit 2000) (max 0 offset)
       (filter (\<lambda>r. rv_institution_id r = i \<and> opt_filter job (rv_job_id r) \<and> opt_filter status (rv_status r)) t)))"

definition get_review_item :: "string \<Rightarrow> string \<Rightarrow> review_row list \<Rightarrow> review_row option res" where
  "get_review_item i v t = tenant i (Inr (find (\<lambda>r. rv_institution_id r = i \<and> rv_id r = v) t))"

definition resolve_review_item :: "int \<Rightarrow> string \<Rightarrow> string \<Rightarrow> string \<Rightarrow> string \<Rightarrow> pyval dict \<Rightarrow> review_row list
    \<Rightarrow> (review_row list \<times> review_row option) res" where
  "resolve_review_item now i v status who resolution t =
     (if status \<notin> {''approved'', ''rejected''} then Inl (ValueError ''review status must be approved or rejected'')
      else tenant i (let t' = tbl_update (\<lambda>r. rv_institution_id r = i \<and> rv_id r = v \<and> rv_status r = ''pending'')
             (\<lambda>r. r\<lparr>rv_status := status, rv_resolved_at := Some now, rv_resolved_by := Some who, rv_resolution := resolution\<rparr>) t
           in Inr (t', find (\<lambda>r. rv_institution_id r = i \<and> rv_id r = v) t')))"


subsection \<open>Mapping profiles\<close>

record profile_row =
  mp_id :: string
  mp_institution_id :: string
  mp_entity :: string
  mp_header_signature :: string
  mp_mapping :: "pyval dict"
  mp_approved_by :: string
  mp_created_at :: int

text \<open>The upsert: a profile for the same headers keeps its id and takes the new mapping.\<close>

definition save_mapping_profile :: "string \<Rightarrow> int \<Rightarrow> string \<Rightarrow> string \<Rightarrow> string \<Rightarrow> pyval dict \<Rightarrow> string
    \<Rightarrow> profile_row list \<Rightarrow> (profile_row list \<times> string) res" where
  "save_mapping_profile fresh now i entity headers mapping who t =
     (let P = (\<lambda>r. mp_institution_id r = i \<and> mp_entity r = entity \<and> mp_header_signature r = headers);
          p = ''map-'' @ fresh
      in tenant i (if list_ex P t
           then Inr (tbl_update P (\<lambda>r. r\<lparr>mp_mapping := mapping, mp_approved_by := who, mp_created_at := now\<rparr>) t, p)
           else bindE (tbl_insert mp_id \<lparr>mp_id = p, mp_institution_id = i, mp_entity = entity, mp_header_signature = headers,
                  mp_mapping = mapping, mp_approved_by = who, mp_created_at = now\<rparr> t) (\<lambda>t'. Inr (t', p))))"

definition find_mapping_profile :: "string \<Rightarrow> string \<Rightarrow> string \<Rightarrow> profile_row list \<Rightarrow> profile_row option res" where
  "find_mapping_profile i entity headers t = tenant i (Inr
     (find (\<lambda>r. mp_institution_id r = i \<and> mp_entity r = entity \<and> mp_header_signature r = headers) t))"

definition find_latest_mapping_profile :: "string \<Rightarrow> string \<Rightarrow> profile_row list \<Rightarrow> profile_row option res" where
  "find_latest_mapping_profile i headers t = tenant i (Inr
     (let rs = sort_key (\<lambda>r. (mp_created_at r, mp_id r)) (filter (\<lambda>r. mp_institution_id r = i \<and> mp_header_signature r = headers) t)
      in if rs = [] then None else Some (last rs)))"

subsection \<open>Documents\<close>

record document_row =
  dc_id :: string
  dc_institution_id :: string
  dc_title :: string
  dc_file_name :: string
  dc_object_key :: string
  dc_content_type :: string
  dc_size_bytes :: int
  dc_sha256 :: string
  dc_classification :: string
  dc_category :: string
  dc_uploaded_by :: string
  dc_uploaded_at :: int
  dc_page_count :: int
  dc_chunk_count :: int
  dc_status :: string

record chunk_row =
  ck_id :: string
  ck_institution_id :: string
  ck_document_id :: string
  ck_chunk_index :: int
  ck_page_number :: "int option"
  ck_text :: string
  ck_embedding :: "rat list"
  ck_token_count :: int

definition get_document :: "string \<Rightarrow> string \<Rightarrow> document_row list \<Rightarrow> document_row option res" where
  "get_document i d t = tenant i (Inr (find (\<lambda>r. dc_institution_id r = i \<and> dc_id r = d) t))"

text \<open>
  The document is given with its own fields and its chunks with theirs and a generated id
  each; the institution, the instant, the count and the status are set here.
\<close>

definition chunk_rows_of :: "string \<Rightarrow> string \<Rightarrow> (string \<times> chunk_row) list \<Rightarrow> chunk_row list" where
  "chunk_rows_of i d cs = map (\<lambda>(fresh, c). c\<lparr>ck_id := ''chunk-'' @ fresh, ck_institution_id := i, ck_document_id := d\<rparr>) cs"

definition add_document :: "int \<Rightarrow> string \<Rightarrow> document_row \<Rightarrow> (string \<times> chunk_row) list \<Rightarrow> document_row list \<times> chunk_row list
    \<Rightarrow> ((document_row list \<times> chunk_row list) \<times> document_row option) res" where
  "add_document now i d cs = (\<lambda>(docs, cks).
     tenant i (bindE (tbl_insert dc_id (d\<lparr>dc_institution_id := i, dc_uploaded_at := now,
         dc_chunk_count := int (length cs), dc_status := ''indexed''\<rparr>) docs) (\<lambda>docs'.
       bindE (tbl_insert_all ck_id (chunk_rows_of i (dc_id d) cs) cks) (\<lambda>cks'.
       bindE (get_document i (dc_id d) docs') (\<lambda>x. Inr ((docs', cks'), x))))))"

definition list_documents :: "string \<Rightarrow> int \<Rightarrow> string option \<Rightarrow> document_row list \<Rightarrow> document_row list res" where
  "list_documents i limit category t = tenant i (Inr (newest dc_uploaded_at (clamp_limit limit 1000)
     (filter (\<lambda>r. dc_institution_id r = i \<and> opt_filter category (dc_category r)) t)))"

definition delete_document :: "string \<Rightarrow> string \<Rightarrow> document_row list \<times> chunk_row list
    \<Rightarrow> ((document_row list \<times> chunk_row list) \<times> bool) res" where
  "delete_document i d = (\<lambda>(docs, cks).
     let P = (\<lambda>r. dc_institution_id r = i \<and> dc_id r = d)
     in tenant i (Inr ((tbl_delete P docs, tbl_delete (\<lambda>r. ck_institution_id r = i \<and> ck_document_id r = d) cks),
          0 < tbl_count P docs)))"

text \<open>The join of a chunk with the document it belongs to.\<close>

definition list_filter :: "string list option \<Rightarrow> string \<Rightarrow> bool" where
  "list_filter wanted v = (case wanted of None \<Rightarrow> True | Some ws \<Rightarrow> ws = [] \<or> v \<in> set ws)"

definition chunk_join :: "document_row list \<Rightarrow> chunk_row list \<Rightarrow> (chunk_row \<times> document_row) list" where
  "chunk_join docs cks = concat (map (\<lambda>c. map (\<lambda>d. (c, d))
     (filter (\<lambda>d. dc_id d = ck_document_id c \<and> dc_institution_id d = ck_institution_id c) docs)) cks)"

definition document_chunks :: "string \<Rightarrow> string list option \<Rightarrow> string list option \<Rightarrow> int \<Rightarrow> document_row list \<times> chunk_row list
    \<Rightarrow> (chunk_row \<times> document_row) list res" where
  "document_chunks i classes ids limit = (\<lambda>(docs, cks).
     tenant i (Inr (page (\<lambda>(c, d). (ck_document_id c, ck_chunk_index c)) (clamp_limit limit 100000) 0
       (filter (\<lambda>(c, d). ck_institution_id c = i \<and> list_filter classes (dc_classification d) \<and> list_filter ids (ck_document_id c))
         (chunk_join docs cks)))))"

subsection \<open>Reports, notifications, e-mails, agent runs\<close>

record report_row =
  rp_id :: string
  rp_institution_id :: string
  rp_title :: string
  rp_format :: string
  rp_object_key :: string
  rp_size_bytes :: int
  rp_sha256 :: string
  rp_row_count :: int
  rp_tool_name :: string
  rp_created_by :: string
  rp_created_at :: int
  rp_required :: "string list option"

definition get_report :: "string \<Rightarrow> string \<Rightarrow> report_row list \<Rightarrow> report_row option res" where
  "get_report i p t = tenant i (Inr (find (\<lambda>r. rp_institution_id r = i \<and> rp_id r = p) t))"

definition add_report :: "int \<Rightarrow> string \<Rightarrow> report_row \<Rightarrow> string list \<Rightarrow> report_row list \<Rightarrow> (report_row list \<times> report_row option) res" where
  "add_report now i r required t =
     tenant i (bindE (tbl_insert rp_id (r\<lparr>rp_institution_id := i, rp_created_at := now, rp_required := Some (sort (remdups required))\<rparr>) t) (\<lambda>t'.
       bindE (get_report i (rp_id r) t') (\<lambda>x. Inr (t', x))))"

definition list_reports :: "string \<Rightarrow> int \<Rightarrow> report_row list \<Rightarrow> report_row list res" where
  "list_reports i limit t = tenant i (Inr (newest rp_created_at (clamp_limit limit 500) (filter (\<lambda>r. rp_institution_id r = i) t)))"

record notification_row =
  nt_id :: string
  nt_institution_id :: string
  nt_recipient_id :: string
  nt_title :: string
  nt_body :: string
  nt_channel :: string
  nt_status :: string
  nt_reference_type :: "string option"
  nt_reference_id :: "string option"
  nt_created_by :: string
  nt_created_at :: int
  nt_read_at :: "int option"

definition add_notification :: "string \<Rightarrow> int \<Rightarrow> string \<Rightarrow> notification_row \<Rightarrow> notification_row list
    \<Rightarrow> (notification_row list \<times> string) res" where
  "add_notification fresh now i n t =
     tenant i (bindE (tbl_insert nt_id (n\<lparr>nt_id := ''ntf-'' @ fresh, nt_institution_id := i, nt_status := ''unread'',
         nt_created_at := now, nt_read_at := None\<rparr>) t) (\<lambda>t'. Inr (t', ''ntf-'' @ fresh)))"

definition list_notifications :: "string \<Rightarrow> string \<Rightarrow> int \<Rightarrow> bool \<Rightarrow> notification_row list \<Rightarrow> notification_row list res" where
  "list_notifications i who limit unread t = tenant i (Inr (newest nt_created_at (clamp_limit limit 500)
     (filter (\<lambda>r. nt_institution_id r = i \<and> nt_recipient_id r = who \<and> (unread \<longrightarrow> nt_status r = ''unread'')) t)))"

definition mark_notification_read :: "int \<Rightarrow> string \<Rightarrow> string \<Rightarrow> string \<Rightarrow> notification_row list \<Rightarrow> (notification_row list \<times> bool) res" where
  "mark_notification_read now i who n t =
     (let P = (\<lambda>r. nt_institution_id r = i \<and> nt_recipient_id r = who \<and> nt_id r = n)
      in tenant i (Inr (tbl_update P (\<lambda>r. r\<lparr>nt_status := ''read'', nt_read_at := Some now\<rparr>) t, 0 < tbl_count P t)))"

record email_row =
  em_id :: string
  em_institution_id :: string
  em_recipients :: "string list"
  em_subject :: string
  em_body :: string
  em_attachments :: "pyval dict list"
  em_status :: string
  em_provider :: string
  em_provider_message_id :: "string option"
  em_created_by :: string
  em_created_at :: int
  em_sent_at :: "int option"
  em_error :: "string option"

definition add_email :: "int \<Rightarrow> string \<Rightarrow> email_row \<Rightarrow> email_row list \<Rightarrow> (email_row list \<times> email_row option) res" where
  "add_email now i e t =
     tenant i (bindE (tbl_insert em_id (e\<lparr>em_institution_id := i, em_created_at := now,
         em_sent_at := (if em_status e = ''sent'' then Some now else None)\<rparr>) t) (\<lambda>t'.
       Inr (t', find (\<lambda>r. em_institution_id r = i \<and> em_id r = em_id e) t')))"

definition list_emails :: "string \<Rightarrow> int \<Rightarrow> email_row list \<Rightarrow> email_row list res" where
  "list_emails i limit t = tenant i (Inr (newest em_created_at (clamp_limit limit 500) (filter (\<lambda>r. em_institution_id r = i) t)))"

record run_row =
  ar_id :: string
  ar_institution_id :: string
  ar_principal_id :: string
  ar_request_id :: string
  ar_channel :: string
  ar_command_sha256 :: string
  ar_status :: string
  ar_plan :: "pyval dict list"
  ar_steps :: "pyval dict list"
  ar_tool_names :: "string list"
  ar_duration_ms :: int
  ar_created_at :: int

definition add_agent_run :: "int \<Rightarrow> string \<Rightarrow> run_row \<Rightarrow> run_row list \<Rightarrow> run_row list res" where
  "add_agent_run now i r t = tenant i (tbl_insert ar_id (r\<lparr>ar_institution_id := i, ar_created_at := now\<rparr>) t)"

definition list_agent_runs :: "string \<Rightarrow> string option \<Rightarrow> int \<Rightarrow> run_row list \<Rightarrow> run_row list res" where
  "list_agent_runs i who limit t = tenant i (Inr (newest ar_created_at (clamp_limit limit 500)
     (filter (\<lambda>r. ar_institution_id r = i \<and> opt_filter who (ar_principal_id r)) t)))"

end
