(* ===== verification/InstitutionStore.thy ===== *)
theory InstitutionStore
  imports InstitutionTables
begin

text \<open>
  The operations of the institution store together: a machine on the record \<open>idb\<close> of all
  tables, which is an interpretation of \<open>tenant_machine\<close>. What one institution sees does not
  depend on what the others do.
\<close>

subsection \<open>Insertion of generated rows\<close>

definition all_new :: "('r \<Rightarrow> string) \<Rightarrow> 'r list \<Rightarrow> 'r list \<Rightarrow> bool" where
  "all_new key rs t = (distinct (map key rs) \<and> key ` set rs \<inter> key ` set t = {})"

lemma all_new_one [simp]: "all_new key [r] t \<longleftrightarrow> key r \<notin> key ` set t"
  by (simp add: all_new_def)

lemma all_new_sub: "all_new key rs t \<Longrightarrow> set u \<subseteq> set t \<Longrightarrow> all_new key rs u"
  by (auto simp: all_new_def)

lemma insert_all_new: "all_new key rs t \<Longrightarrow> tbl_insert_all key rs t = Inr (t @ rs)"
proof (induction rs arbitrary: t)
  case (Cons r rs)
  then have "tbl_insert key r t = Inr (t @ [r])" "all_new key rs (t @ [r])"
    by (auto simp: all_new_def tbl_insert_Inr)
  with Cons.IH [of "t @ [r]"] show ?case by simp
qed simp

lemma insert_new: "key r \<notin> key ` set t \<Longrightarrow> tbl_insert key r t = Inr (t @ [r])"
  by (simp add: tbl_insert_Inr)

lemma insert_chunks_concat:
  "insert_chunks key cs t n = bindE (tbl_insert_all key (concat cs) t) (\<lambda>t'. Inr (t', n + length (concat cs)))"
proof (induction cs arbitrary: t n)
  case (Cons c cs)
  show ?case
    by (cases "tbl_insert_all key c t") (simp_all add: Cons.IH tbl_insert_all_append add.assoc)
qed simp

lemma replace_job_records_eq:
  "replace_job_records i j items t = tenant i (bindE (tbl_insert_all ir_id (map (staged_of i j) items)
     (tbl_delete (\<lambda>r. ir_institution_id r = i \<and> ir_job_id r = j) t)) (\<lambda>t'. Inr (t', int (length items))))"
  by (cases "tbl_insert_all ir_id (map (staged_of i j) items) (tbl_delete (\<lambda>r. ir_institution_id r = i \<and> ir_job_id r = j) t)")
     (simp_all add: replace_job_records_def insert_chunks_concat)

subsection \<open>Locality\<close>

text \<open>
  An operation called for institution \<open>i\<close> commutes with looking at the rows of \<open>i\<close> only, and
  leaves the rows of every other institution as they are.
\<close>

definition seen :: "('t \<Rightarrow> 't) \<Rightarrow> ('t \<times> 'x) res \<Rightarrow> ('t \<times> 'x) res" where
  "seen V r = (case r of Inl e \<Rightarrow> Inl e | Inr (t, x) \<Rightarrow> Inr (V t, x))"

lemma seen_simps [simp]: "seen V (Inl e) = Inl e" "seen V (Inr (t, x)) = Inr (V t, x)"
  by (simp_all add: seen_def)

lemma seen_tenant: "seen V (tenant i r) = tenant i (seen V r)"
  by (simp add: tenant_def)

lemma seen_if: "seen V (if b then r else s) = (if b then seen V r else seen V s)"
  by simp

named_theorems local_facts \<open>operations seen by their institution\<close>
named_theorems foreign_facts \<open>operations seen by another institution\<close>

abbreviation of_inst :: "('r \<Rightarrow> string) \<Rightarrow> string \<Rightarrow> 'r list \<Rightarrow> 'r list" where
  "of_inst inst i t \<equiv> filter (\<lambda>r. inst r = i) t"

lemma find_of [local_facts]: "find (\<lambda>r. inst r = i \<and> P r) (of_inst inst i t) = find (\<lambda>r. inst r = i \<and> P r) t"
  by (rule find_filter_sub) simp

lemma filter_of [local_facts]: "filter (\<lambda>r. inst r = i \<and> P r) (of_inst inst i t) = filter (\<lambda>r. inst r = i \<and> P r) t"
  by (rule filter_filter_sub) simp

lemma count_of [local_facts]: "tbl_count (\<lambda>r. inst r = i \<and> P r) (of_inst inst i t) = tbl_count (\<lambda>r. inst r = i \<and> P r) t"
  by (rule tbl_count_filter) simp

lemma ex_of [local_facts]: "list_ex (\<lambda>r. inst r = i \<and> P r) (of_inst inst i t) = list_ex (\<lambda>r. inst r = i \<and> P r) t"
  by (auto simp: list_ex_iff)

lemma update_of: "(\<And>r. inst (f r) = inst r) \<Longrightarrow> tbl_update P f (of_inst inst i t) = of_inst inst i (tbl_update P f t)"
  by (rule tbl_update_filter_same [symmetric]) simp

lemma delete_of [local_facts]: "tbl_delete P (of_inst inst i t) = of_inst inst i (tbl_delete P t)"
  by (rule tbl_delete_filter_same [symmetric])

lemma update_foreign: "i \<noteq> k \<Longrightarrow> (\<And>r. inst (f r) = inst r)
    \<Longrightarrow> of_inst inst k (tbl_update (\<lambda>r. inst r = i \<and> P r) f t) = of_inst inst k t"
  by (rule tbl_update_filter_other) auto

lemma delete_foreign [foreign_facts]: "i \<noteq> k \<Longrightarrow> of_inst inst k (tbl_delete (\<lambda>r. inst r = i \<and> P r) t) = of_inst inst k t"
  by (rule tbl_delete_filter_other) auto

lemma new_in_view [local_facts]: "key r \<notin> key ` set t \<Longrightarrow> tbl_insert key r (of_inst inst i t) = Inr (of_inst inst i t @ [r])"
  by (rule insert_new) auto

lemmas update_of_tables [local_facts] =
  update_of [of ij_institution_id] update_of [of rv_institution_id] update_of [of mp_institution_id]
  update_of [of nt_institution_id] update_of [of ap_institution_id]

lemmas update_foreign_tables [foreign_facts] =
  update_foreign [where inst = ij_institution_id] update_foreign [where inst = rv_institution_id]
  update_foreign [where inst = mp_institution_id] update_foreign [where inst = nt_institution_id]
  update_foreign [where inst = ap_institution_id]

subsection \<open>The tables together\<close>

record idb =
  t_files :: "file_row list"
  t_jobs :: "job_row list"
  t_staged :: "staged_row list"
  t_reviews :: "review_row list"
  t_profiles :: "profile_row list"
  t_docs :: "document_row list \<times> chunk_row list"
  t_reports :: "report_row list"
  t_notes :: "notification_row list"
  t_emails :: "email_row list"
  t_runs :: "run_row list"
  t_approvals :: "approval list"

datatype idb_call =
    RecordFile int file_row | GetFile string
  | CreateJob int string "string option" "string option" string string "pyval dict"
  | UpdateJob int string "job_change list" | GetJob string | ListJobs int "string option"
  | ReplaceRecords string "(string \<times> staged_item) list" | JobRecords string int int "string option"
  | AddReviews int string "(string \<times> string \<times> pyval dict) list" | ListReviews "string option" "string option" int int
  | GetReview string | ResolveReview int string string string "pyval dict"
  | SaveProfile string int string string "pyval dict" string | FindProfile string string | LatestProfile string
  | AddDocument int document_row "(string \<times> chunk_row) list" | GetDocument string | ListDocuments int "string option"
  | DeleteDocument string | DocumentChunks "string list option" "string list option" int
  | AddReport int report_row "string list" | GetReport string | ListReports int
  | AddNotification string int notification_row | ListNotifications string int bool | MarkRead int string string
  | AddEmail int email_row | ListEmails int
  | AddRun int run_row | ListRuns "string option" int
  | CreateApproval int string string string "pyval dict" string string int | GetApproval string
  | SetResume string string "pyval dict" | ClaimApproval int int string string
  | DecideApproval int string string string | ListApprovals "string option" "string option" int

datatype idb_reply =
    RErr pyerr | RUnit | RBool bool | RInt int | RText string | RTexts "string list"
  | RFile "file_row option" | RJob "job_row option" | RJobs "job_row list" | RStaged "staged_row list"
  | RReview "review_row option" | RReviews "review_row list" | RProfile "profile_row option"
  | RDoc "document_row option" | RDocs "document_row list" | RChunks "(chunk_row \<times> document_row) list"
  | RReport "report_row option" | RReports "report_row list" | RNotes "notification_row list"
  | REmail "email_row option" | REmails "email_row list" | RRuns "run_row list"
  | RApproval "approval option" | RApprovals "approval list"

definition write_reply :: "('t \<Rightarrow> 'db) \<Rightarrow> ('x \<Rightarrow> idb_reply) \<Rightarrow> 'db \<Rightarrow> ('t \<times> 'x) res \<Rightarrow> 'db \<times> idb_reply" where
  "write_reply put out db r = (case r of Inl e \<Rightarrow> (db, RErr e) | Inr (t, x) \<Rightarrow> (put t, out x))"

definition read_reply :: "('x \<Rightarrow> idb_reply) \<Rightarrow> 'x res \<Rightarrow> idb_reply" where
  "read_reply out r = (case r of Inl e \<Rightarrow> RErr e | Inr x \<Rightarrow> out x)"

primrec idb_call_exec :: "idb_call \<Rightarrow> string \<Rightarrow> idb \<Rightarrow> idb \<times> idb_reply" where
  "idb_call_exec (RecordFile now f) i db = write_reply (\<lambda>t. db\<lparr>t_files := t\<rparr>) RFile db (record_file now i f (t_files db))"
| "idb_call_exec (GetFile f) i db = (db, read_reply RFile (get_file i f (t_files db)))"
| "idb_call_exec (CreateJob now j file entity who kind options) i db =
     write_reply (\<lambda>t. db\<lparr>t_jobs := t\<rparr>) RJob db (create_job now i j file entity who kind options (t_jobs db))"
| "idb_call_exec (UpdateJob now j cs) i db = write_reply (\<lambda>t. db\<lparr>t_jobs := t\<rparr>) RJob db (update_job now i j cs (t_jobs db))"
| "idb_call_exec (GetJob j) i db = (db, read_reply RJob (get_job i j (t_jobs db)))"
| "idb_call_exec (ListJobs limit status) i db = (db, read_reply RJobs (list_jobs i limit status (t_jobs db)))"
| "idb_call_exec (ReplaceRecords j items) i db = write_reply (\<lambda>t. db\<lparr>t_staged := t\<rparr>) RInt db (replace_job_records i j items (t_staged db))"
| "idb_call_exec (JobRecords j limit offset status) i db = (db, read_reply RStaged (job_records i j limit offset status (t_staged db)))"
| "idb_call_exec (AddReviews now j items) i db = write_reply (\<lambda>t. db\<lparr>t_reviews := t\<rparr>) RTexts db (add_review_items now i j items (t_reviews db))"
| "idb_call_exec (ListReviews job status limit offset) i db = (db, read_reply RReviews (list_review_items i job status limit offset (t_reviews db)))"
| "idb_call_exec (GetReview v) i db = (db, read_reply RReview (get_review_item i v (t_reviews db)))"
| "idb_call_exec (ResolveReview now v status who resolution) i db =
     write_reply (\<lambda>t. db\<lparr>t_reviews := t\<rparr>) RReview db (resolve_review_item now i v status who resolution (t_reviews db))"
| "idb_call_exec (SaveProfile fresh now entity headers mapping who) i db =
     write_reply (\<lambda>t. db\<lparr>t_profiles := t\<rparr>) RText db (save_mapping_profile fresh now i entity headers mapping who (t_profiles db))"
| "idb_call_exec (FindProfile entity headers) i db = (db, read_reply RProfile (find_mapping_profile i entity headers (t_profiles db)))"
| "idb_call_exec (LatestProfile headers) i db = (db, read_reply RProfile (find_latest_mapping_profile i headers (t_profiles db)))"
| "idb_call_exec (AddDocument now d cs) i db = write_reply (\<lambda>t. db\<lparr>t_docs := t\<rparr>) RDoc db (add_document now i d cs (t_docs db))"
| "idb_call_exec (GetDocument d) i db = (db, read_reply RDoc (get_document i d (fst (t_docs db))))"
| "idb_call_exec (ListDocuments limit category) i db = (db, read_reply RDocs (list_documents i limit category (fst (t_docs db))))"
| "idb_call_exec (DeleteDocument d) i db = write_reply (\<lambda>t. db\<lparr>t_docs := t\<rparr>) RBool db (delete_document i d (t_docs db))"
| "idb_call_exec (DocumentChunks classes ids limit) i db = (db, read_reply RChunks (document_chunks i classes ids limit (t_docs db)))"
| "idb_call_exec (AddReport now r required) i db = write_reply (\<lambda>t. db\<lparr>t_reports := t\<rparr>) RReport db (add_report now i r required (t_reports db))"
| "idb_call_exec (GetReport p) i db = (db, read_reply RReport (get_report i p (t_reports db)))"
| "idb_call_exec (ListReports limit) i db = (db, read_reply RReports (list_reports i limit (t_reports db)))"
| "idb_call_exec (AddNotification fresh now n) i db = write_reply (\<lambda>t. db\<lparr>t_notes := t\<rparr>) RText db (add_notification fresh now i n (t_notes db))"
| "idb_call_exec (ListNotifications who limit unread) i db = (db, read_reply RNotes (list_notifications i who limit unread (t_notes db)))"
| "idb_call_exec (MarkRead now who n) i db = write_reply (\<lambda>t. db\<lparr>t_notes := t\<rparr>) RBool db (mark_notification_read now i who n (t_notes db))"
| "idb_call_exec (AddEmail now e) i db = write_reply (\<lambda>t. db\<lparr>t_emails := t\<rparr>) REmail db (add_email now i e (t_emails db))"
| "idb_call_exec (ListEmails limit) i db = (db, read_reply REmails (list_emails i limit (t_emails db)))"
| "idb_call_exec (AddRun now r) i db = write_reply (\<lambda>t. db\<lparr>t_runs := t\<rparr>) (\<lambda>_. RUnit) db
     (bindE (add_agent_run now i r (t_runs db)) (\<lambda>t. Inr (t, ())))"
| "idb_call_exec (ListRuns who limit) i db = (db, read_reply RRuns (list_agent_runs i who limit (t_runs db)))"
| "idb_call_exec (CreateApproval now a pid tool args sha why ttl) i db =
     write_reply (\<lambda>t. db\<lparr>t_approvals := t\<rparr>) RApproval db (create_approval now i a pid tool args sha why ttl (t_approvals db))"
| "idb_call_exec (GetApproval a) i db = (db, read_reply RApproval (get_approval i a (t_approvals db)))"
| "idb_call_exec (SetResume a pid resume) i db = write_reply (\<lambda>t. db\<lparr>t_approvals := t\<rparr>) RBool db (set_approval_resume i a pid resume (t_approvals db))"
| "idb_call_exec (ClaimApproval now now' a pid) i db = write_reply (\<lambda>t. db\<lparr>t_approvals := t\<rparr>) RApproval db (claim_approval now now' i a pid (t_approvals db))"
| "idb_call_exec (DecideApproval now a status who) i db = write_reply (\<lambda>t. db\<lparr>t_approvals := t\<rparr>) RApproval db (decide_approval now i a status who (t_approvals db))"
| "idb_call_exec (ListApprovals pid status limit) i db = (db, read_reply RApprovals (list_approvals i pid status limit (t_approvals db)))"


definition idb_exec :: "string \<times> idb_call \<Rightarrow> idb \<Rightarrow> idb \<times> idb_reply" where
  "idb_exec a db = idb_call_exec (snd a) (fst a) db"

definition idb_view :: "string \<Rightarrow> idb \<Rightarrow> idb" where
  "idb_view i db = \<lparr>t_files = of_inst fi_institution_id i (t_files db), t_jobs = of_inst ij_institution_id i (t_jobs db),
     t_staged = of_inst ir_institution_id i (t_staged db), t_reviews = of_inst rv_institution_id i (t_reviews db),
     t_profiles = of_inst mp_institution_id i (t_profiles db),
     t_docs = (of_inst dc_institution_id i (fst (t_docs db)), of_inst ck_institution_id i (snd (t_docs db))),
     t_reports = of_inst rp_institution_id i (t_reports db), t_notes = of_inst nt_institution_id i (t_notes db),
     t_emails = of_inst em_institution_id i (t_emails db), t_runs = of_inst ar_institution_id i (t_runs db),
     t_approvals = of_inst ap_institution_id i (t_approvals db)\<rparr>"

text \<open>Every identifier a call brings is new.\<close>

primrec idb_call_ok :: "idb_call \<Rightarrow> string \<Rightarrow> idb \<Rightarrow> bool" where
  "idb_call_ok (RecordFile now f) i db = (fi_id f \<notin> fi_id ` set (t_files db))"
| "idb_call_ok (GetFile f) i db = True"
| "idb_call_ok (CreateJob now j file entity who kind options) i db = (j \<notin> ij_id ` set (t_jobs db))"
| "idb_call_ok (UpdateJob now j cs) i db = True"
| "idb_call_ok (GetJob j) i db = True"
| "idb_call_ok (ListJobs limit status) i db = True"
| "idb_call_ok (ReplaceRecords j items) i db = all_new ir_id (map (staged_of i j) items) (t_staged db)"
| "idb_call_ok (JobRecords j limit offset status) i db = True"
| "idb_call_ok (AddReviews now j items) i db = all_new rv_id (review_rows now i j items) (t_reviews db)"
| "idb_call_ok (ListReviews job status limit offset) i db = True"
| "idb_call_ok (GetReview v) i db = True"
| "idb_call_ok (ResolveReview now v status who resolution) i db = True"
| "idb_call_ok (SaveProfile fresh now entity headers mapping who) i db = (''map-'' @ fresh \<notin> mp_id ` set (t_profiles db))"
| "idb_call_ok (FindProfile entity headers) i db = True"
| "idb_call_ok (LatestProfile headers) i db = True"
| "idb_call_ok (AddDocument now d cs) i db = (dc_id d \<notin> dc_id ` set (fst (t_docs db))
     \<and> all_new ck_id (chunk_rows_of i (dc_id d) cs) (snd (t_docs db)))"
| "idb_call_ok (GetDocument d) i db = True"
| "idb_call_ok (ListDocuments limit category) i db = True"
| "idb_call_ok (DeleteDocument d) i db = True"
| "idb_call_ok (DocumentChunks classes ids limit) i db = True"
| "idb_call_ok (AddReport now r required) i db = (rp_id r \<notin> rp_id ` set (t_reports db))"
| "idb_call_ok (GetReport p) i db = True"
| "idb_call_ok (ListReports limit) i db = True"
| "idb_call_ok (AddNotification fresh now n) i db = (''ntf-'' @ fresh \<notin> nt_id ` set (t_notes db))"
| "idb_call_ok (ListNotifications who limit unread) i db = True"
| "idb_call_ok (MarkRead now who n) i db = True"
| "idb_call_ok (AddEmail now e) i db = (em_id e \<notin> em_id ` set (t_emails db))"
| "idb_call_ok (ListEmails limit) i db = True"
| "idb_call_ok (AddRun now r) i db = (ar_id r \<notin> ar_id ` set (t_runs db))"
| "idb_call_ok (ListRuns who limit) i db = True"
| "idb_call_ok (CreateApproval now a pid tool args sha why ttl) i db = (a \<notin> ap_id ` set (t_approvals db))"
| "idb_call_ok (GetApproval a) i db = True"
| "idb_call_ok (SetResume a pid resume) i db = True"
| "idb_call_ok (ClaimApproval now now' a pid) i db = True"
| "idb_call_ok (DecideApproval now a status who) i db = True"
| "idb_call_ok (ListApprovals pid status limit) i db = True"

definition idb_ok :: "string \<times> idb_call \<Rightarrow> idb \<Rightarrow> bool" where
  "idb_ok a db = idb_call_ok (snd a) (fst a) db"

subsection \<open>Each operation is local\<close>

lemma if_local:
  "(if b then x else y) = (if b then x' else y')" if "b \<Longrightarrow> x = x'" "\<not> b \<Longrightarrow> y = y'"
  using that by simp

lemma bindE_seen: "seen V (bindE r f) = bindE r (\<lambda>x. seen V (f x))"
  by (cases r) simp_all

lemma reads_local:
  "get_file i f (of_inst fi_institution_id i tf) = get_file i f tf"
  "get_job i j (of_inst ij_institution_id i tj) = get_job i j tj"
  "list_jobs i limit status (of_inst ij_institution_id i tj) = list_jobs i limit status tj"
  "job_records i j limit offset status (of_inst ir_institution_id i ts) = job_records i j limit offset status ts"
  "list_review_items i job status limit offset (of_inst rv_institution_id i tv) = list_review_items i job status limit offset tv"
  "get_review_item i v (of_inst rv_institution_id i tv) = get_review_item i v tv"
  "find_mapping_profile i entity headers (of_inst mp_institution_id i tp) = find_mapping_profile i entity headers tp"
  "find_latest_mapping_profile i headers (of_inst mp_institution_id i tp) = find_latest_mapping_profile i headers tp"
  "get_document i d (of_inst dc_institution_id i td) = get_document i d td"
  "list_documents i limit category (of_inst dc_institution_id i td) = list_documents i limit category td"
  "get_report i p (of_inst rp_institution_id i tr) = get_report i p tr"
  "list_reports i limit (of_inst rp_institution_id i tr) = list_reports i limit tr"
  "list_notifications i who limit unread (of_inst nt_institution_id i tn) = list_notifications i who limit unread tn"
  "list_emails i limit (of_inst em_institution_id i te) = list_emails i limit te"
  "list_agent_runs i pid limit (of_inst ar_institution_id i ta) = list_agent_runs i pid limit ta"
  "get_approval i a (of_inst ap_institution_id i tap) = get_approval i a tap"
  "list_approvals i apid status limit (of_inst ap_institution_id i tap) = list_approvals i apid status limit tap"
  unfolding get_file_def get_job_def list_jobs_def job_records_def list_review_items_def get_review_item_def
    find_mapping_profile_def find_latest_mapping_profile_def get_document_def list_documents_def get_report_def
    list_reports_def list_notifications_def list_emails_def list_agent_runs_def get_approval_def list_approvals_def
    local_facts
  by simp_all


lemmas write_defs = seen_tenant seen_if bindE_seen find_append insert_new

lemma writes_local_inserts:
  "fi_id f \<notin> fi_id ` set tf \<Longrightarrow> seen (of_inst fi_institution_id i) (record_file now i f tf) = record_file now i f (of_inst fi_institution_id i tf)"
  "j \<notin> ij_id ` set tj \<Longrightarrow> seen (of_inst ij_institution_id i) (create_job now i j file entity who kind options tj)
     = create_job now i j file entity who kind options (of_inst ij_institution_id i tj)"
  "rp_id p \<notin> rp_id ` set tr \<Longrightarrow> seen (of_inst rp_institution_id i) (add_report now i p required tr) = add_report now i p required (of_inst rp_institution_id i tr)"
  "''ntf-'' @ fresh \<notin> nt_id ` set tn \<Longrightarrow> seen (of_inst nt_institution_id i) (add_notification fresh now i n tn)
     = add_notification fresh now i n (of_inst nt_institution_id i tn)"
  "em_id e \<notin> em_id ` set te \<Longrightarrow> seen (of_inst em_institution_id i) (add_email now i e te) = add_email now i e (of_inst em_institution_id i te)"
  "a \<notin> ap_id ` set tap \<Longrightarrow> seen (of_inst ap_institution_id i) (create_approval now i a pid tool args sha why ttl tap)
     = create_approval now i a pid tool args sha why ttl (of_inst ap_institution_id i tap)"
  unfolding record_file_def get_file_def create_job_def get_job_def add_report_def get_report_def add_notification_def add_email_def
    create_approval_def get_approval_def
  by (simp_all add: write_defs local_facts)

lemma run_local: "ar_id r \<notin> ar_id ` set ta \<Longrightarrow>
  bindE (add_agent_run now i r (of_inst ar_institution_id i ta)) (\<lambda>t. Inr (t, ()))
    = seen (of_inst ar_institution_id i) (bindE (add_agent_run now i r ta) (\<lambda>t. Inr (t, ())))"
  by (simp add: add_agent_run_def tenant_def insert_new new_in_view)

lemma writes_local_updates:
  "seen (of_inst ij_institution_id i) (update_job now i j cs tj) = update_job now i j cs (of_inst ij_institution_id i tj)"
  "seen (of_inst rv_institution_id i) (resolve_review_item now i v status who resolution tv)
     = resolve_review_item now i v status who resolution (of_inst rv_institution_id i tv)"
  "seen (of_inst nt_institution_id i) (mark_notification_read now i who n tn) = mark_notification_read now i who n (of_inst nt_institution_id i tn)"
  "seen (of_inst ap_institution_id i) (set_approval_resume i a pid resume tap) = set_approval_resume i a pid resume (of_inst ap_institution_id i tap)"
  "seen (of_inst ap_institution_id i) (claim_approval now now' i a pid tap) = claim_approval now now' i a pid (of_inst ap_institution_id i tap)"
  "seen (of_inst ap_institution_id i) (decide_approval now i a status who tap) = decide_approval now i a status who (of_inst ap_institution_id i tap)"
  unfolding update_job_def get_job_def resolve_review_item_def mark_notification_read_def set_approval_resume_def claim_approval_def
    get_approval_def decide_approval_def claimable_def Let_def
  by (simp_all add: write_defs local_facts split: option.splits)

lemma save_profile_local:
  "''map-'' @ fresh \<notin> mp_id ` set tp \<Longrightarrow> seen (of_inst mp_institution_id i) (save_mapping_profile fresh now i entity headers mapping who tp)
     = save_mapping_profile fresh now i entity headers mapping who (of_inst mp_institution_id i tp)"
  unfolding save_mapping_profile_def Let_def by (simp add: write_defs local_facts)

lemma insert_all_local: "all_new key rs t \<Longrightarrow> (\<And>r. r \<in> set rs \<Longrightarrow> inst r = i)
    \<Longrightarrow> tbl_insert_all key rs t = Inr (t @ rs) \<and> tbl_insert_all key rs (of_inst inst i t) = Inr (of_inst inst i (t @ rs))"
proof -
  assume n: "all_new key rs t" and i: "\<And>r. r \<in> set rs \<Longrightarrow> inst r = i"
  have "all_new key rs (of_inst inst i t)" by (rule all_new_sub [OF n]) auto
  moreover have "of_inst inst i rs = rs" using i by simp
  ultimately show ?thesis using n by (simp add: insert_all_new)
qed

lemma staged_inst: "r \<in> set (map (staged_of i j) items) \<Longrightarrow> ir_institution_id r = i"
  by (auto simp: staged_of_def)

lemma replace_local:
  assumes n: "all_new ir_id (map (staged_of i j) items) ts"
  shows "seen (of_inst ir_institution_id i) (replace_job_records i j items ts) = replace_job_records i j items (of_inst ir_institution_id i ts)"
proof -
  let ?t = "tbl_delete (\<lambda>r. ir_institution_id r = i \<and> ir_job_id r = j) ts"
  have "all_new ir_id (map (staged_of i j) items) ?t" by (rule all_new_sub [OF n]) (auto simp: tbl_delete_def)
  from insert_all_local [where inst = ir_institution_id and i = i, OF this staged_inst] show ?thesis
    by (simp add: replace_job_records_eq seen_tenant bindE_seen delete_of)
qed

lemma review_rows_inst: "r \<in> set (review_rows now i j items) \<Longrightarrow> rv_institution_id r = i"
  by (auto simp: review_rows_def)

lemma reviews_local:
  "all_new rv_id (review_rows now i j items) tv \<Longrightarrow> seen (of_inst rv_institution_id i) (add_review_items now i j items tv)
     = add_review_items now i j items (of_inst rv_institution_id i tv)"
  using insert_all_local [where inst = rv_institution_id and i = i, OF _ review_rows_inst]
  by (auto simp: add_review_items_def Let_def seen_tenant bindE_seen)

abbreviation docs_of :: "string \<Rightarrow> document_row list \<times> chunk_row list \<Rightarrow> document_row list \<times> chunk_row list" where
  "docs_of i d \<equiv> (of_inst dc_institution_id i (fst d), of_inst ck_institution_id i (snd d))"

lemma chunk_rows_inst: "r \<in> set (chunk_rows_of i d cs) \<Longrightarrow> ck_institution_id r = i"
  by (auto simp: chunk_rows_of_def)

lemma add_document_local:
  "dc_id d \<notin> dc_id ` set (fst t) \<Longrightarrow> all_new ck_id (chunk_rows_of i (dc_id d) cs) (snd t)
    \<Longrightarrow> seen (docs_of i) (add_document now i d cs t) = add_document now i d cs (docs_of i t)"
  using insert_all_local [where inst = ck_institution_id and i = i, OF _ chunk_rows_inst]
  by (simp add: add_document_def get_document_def write_defs local_facts split_beta)

lemma delete_document_local: "seen (docs_of i) (delete_document i d t) = delete_document i d (docs_of i t)"
  by (simp add: delete_document_def split_beta Let_def seen_tenant local_facts)

lemma chunk_join_local: "filter (\<lambda>(c, d). ck_institution_id c = i \<and> P c d) (chunk_join (of_inst dc_institution_id i docs) (of_inst ck_institution_id i cks))
    = filter (\<lambda>(c, d). ck_institution_id c = i \<and> P c d) (chunk_join docs cks)"
proof (induction cks)
  case (Cons c cks)
  have "filter (\<lambda>d. dc_id d = ck_document_id c \<and> dc_institution_id d = ck_institution_id c) (of_inst dc_institution_id i docs)
      = filter (\<lambda>d. dc_id d = ck_document_id c \<and> dc_institution_id d = ck_institution_id c) docs" if "ck_institution_id c = i"
    using that by (intro filter_filter_sub) auto
  with Cons show ?case by (auto simp: chunk_join_def filter_empty_conv)
qed (simp add: chunk_join_def)

lemma document_chunks_local: "document_chunks i classes ids limit (docs_of i t) = document_chunks i classes ids limit t"
  by (cases t) (simp add: document_chunks_def chunk_join_local)


lemma write_commute:
  "seen V r = r' \<Longrightarrow> (\<And>t. view (put t) = put' (V t))
    \<Longrightarrow> write_reply put' out (view db) r' = (view (fst (write_reply put out db r)), snd (write_reply put out db r))"
  by (cases r) (auto simp: write_reply_def split_beta)

lemma idb_view_updates:
  "idb_view i (db\<lparr>t_files := tf\<rparr>) = (idb_view i db)\<lparr>t_files := of_inst fi_institution_id i tf\<rparr>"
  "idb_view i (db\<lparr>t_jobs := tj\<rparr>) = (idb_view i db)\<lparr>t_jobs := of_inst ij_institution_id i tj\<rparr>"
  "idb_view i (db\<lparr>t_staged := ts\<rparr>) = (idb_view i db)\<lparr>t_staged := of_inst ir_institution_id i ts\<rparr>"
  "idb_view i (db\<lparr>t_reviews := tv\<rparr>) = (idb_view i db)\<lparr>t_reviews := of_inst rv_institution_id i tv\<rparr>"
  "idb_view i (db\<lparr>t_profiles := tp\<rparr>) = (idb_view i db)\<lparr>t_profiles := of_inst mp_institution_id i tp\<rparr>"
  "idb_view i (db\<lparr>t_docs := td\<rparr>) = (idb_view i db)\<lparr>t_docs := docs_of i td\<rparr>"
  "idb_view i (db\<lparr>t_reports := tr\<rparr>) = (idb_view i db)\<lparr>t_reports := of_inst rp_institution_id i tr\<rparr>"
  "idb_view i (db\<lparr>t_notes := tn\<rparr>) = (idb_view i db)\<lparr>t_notes := of_inst nt_institution_id i tn\<rparr>"
  "idb_view i (db\<lparr>t_emails := te\<rparr>) = (idb_view i db)\<lparr>t_emails := of_inst em_institution_id i te\<rparr>"
  "idb_view i (db\<lparr>t_runs := ta\<rparr>) = (idb_view i db)\<lparr>t_runs := of_inst ar_institution_id i ta\<rparr>"
  "idb_view i (db\<lparr>t_approvals := tap\<rparr>) = (idb_view i db)\<lparr>t_approvals := of_inst ap_institution_id i tap\<rparr>"
  by (simp_all add: idb_view_def)

lemma idb_view_tables:
  "t_files (idb_view i db) = of_inst fi_institution_id i (t_files db)" "t_jobs (idb_view i db) = of_inst ij_institution_id i (t_jobs db)"
  "t_staged (idb_view i db) = of_inst ir_institution_id i (t_staged db)" "t_reviews (idb_view i db) = of_inst rv_institution_id i (t_reviews db)"
  "t_profiles (idb_view i db) = of_inst mp_institution_id i (t_profiles db)" "t_docs (idb_view i db) = docs_of i (t_docs db)"
  "t_reports (idb_view i db) = of_inst rp_institution_id i (t_reports db)" "t_notes (idb_view i db) = of_inst nt_institution_id i (t_notes db)"
  "t_emails (idb_view i db) = of_inst em_institution_id i (t_emails db)" "t_runs (idb_view i db) = of_inst ar_institution_id i (t_runs db)"
  "t_approvals (idb_view i db) = of_inst ap_institution_id i (t_approvals db)"
  by (simp_all add: idb_view_def)

lemmas idb_writes = writes_local_inserts writes_local_updates save_profile_local replace_local reviews_local
  add_document_local delete_document_local run_local [symmetric]

lemma idb_commutes:
  "idb_call_ok c i db \<Longrightarrow> idb_call_exec c i (idb_view i db) = (idb_view i (fst (idb_call_exec c i db)), snd (idb_call_exec c i db))"
  by (cases c; simp only: idb_call_exec.simps idb_call_ok.simps idb_view_tables reads_local document_chunks_local fst_conv snd_conv;
      rule write_commute [where view = "idb_view i"], (elim conjE)?, rule idb_writes, assumption?, assumption?, rule idb_view_updates)

text \<open>The same operations from the outside.\<close>

lemma insert_foreign: "tbl_insert key r t = Inr t' \<Longrightarrow> inst r \<noteq> k \<Longrightarrow> of_inst inst k t' = of_inst inst k t"
  by (auto simp: tbl_insert_Inr)

lemma insert_all_foreign: "tbl_insert_all key rs t = Inr t' \<Longrightarrow> (\<And>r. r \<in> set rs \<Longrightarrow> inst r = i) \<Longrightarrow> i \<noteq> k
    \<Longrightarrow> of_inst inst k t' = of_inst inst k t"
proof -
  assume "tbl_insert_all key rs t = Inr t'" and i: "\<And>r. r \<in> set rs \<Longrightarrow> inst r = i" and k: "i \<noteq> k"
  then have "t' = t @ rs" by (simp add: tbl_insert_all_Inr)
  moreover have "of_inst inst k rs = []" using i k by (auto simp: filter_empty_conv)
  ultimately show ?thesis by simp
qed

lemma writes_foreign_inserts:
  "i \<noteq> k \<Longrightarrow> record_file now i f tf = Inr (tf', xf) \<Longrightarrow> of_inst fi_institution_id k tf' = of_inst fi_institution_id k tf"
  "i \<noteq> k \<Longrightarrow> create_job now i j file entity who kind options tj = Inr (tj', xj) \<Longrightarrow> of_inst ij_institution_id k tj' = of_inst ij_institution_id k tj"
  "i \<noteq> k \<Longrightarrow> add_report now i p required tr = Inr (tr', xr) \<Longrightarrow> of_inst rp_institution_id k tr' = of_inst rp_institution_id k tr"
  "i \<noteq> k \<Longrightarrow> add_notification fresh now i n tn = Inr (tn', xn) \<Longrightarrow> of_inst nt_institution_id k tn' = of_inst nt_institution_id k tn"
  "i \<noteq> k \<Longrightarrow> add_email now i e te = Inr (te', xe) \<Longrightarrow> of_inst em_institution_id k te' = of_inst em_institution_id k te"
  "i \<noteq> k \<Longrightarrow> add_agent_run now i r ta = Inr ta' \<Longrightarrow> of_inst ar_institution_id k ta' = of_inst ar_institution_id k ta"
  "i \<noteq> k \<Longrightarrow> create_approval now i a pid tool args sha why ttl tap = Inr (tap', xap) \<Longrightarrow> of_inst ap_institution_id k tap' = of_inst ap_institution_id k tap"
  unfolding record_file_def create_job_def add_report_def add_notification_def add_email_def create_approval_def add_agent_run_def
  by (auto simp: bindE_eq_Inr tbl_insert_Inr)

lemma writes_foreign_updates:
  "i \<noteq> k \<Longrightarrow> update_job now i j cs tj = Inr (tj', xj) \<Longrightarrow> of_inst ij_institution_id k tj' = of_inst ij_institution_id k tj"
  "i \<noteq> k \<Longrightarrow> resolve_review_item now i v status who resolution tv = Inr (tv', xv) \<Longrightarrow> of_inst rv_institution_id k tv' = of_inst rv_institution_id k tv"
  "i \<noteq> k \<Longrightarrow> mark_notification_read now i who n tn = Inr (tn', xn) \<Longrightarrow> of_inst nt_institution_id k tn' = of_inst nt_institution_id k tn"
  "i \<noteq> k \<Longrightarrow> set_approval_resume i a pid resume tap = Inr (tap', xb) \<Longrightarrow> of_inst ap_institution_id k tap' = of_inst ap_institution_id k tap"
  "i \<noteq> k \<Longrightarrow> claim_approval now now' i a pid tap = Inr (tap', xap) \<Longrightarrow> of_inst ap_institution_id k tap' = of_inst ap_institution_id k tap"
  "i \<noteq> k \<Longrightarrow> decide_approval now i a status who tap = Inr (tap', xap) \<Longrightarrow> of_inst ap_institution_id k tap' = of_inst ap_institution_id k tap"
  unfolding update_job_def resolve_review_item_def mark_notification_read_def set_approval_resume_def claim_approval_def
    decide_approval_def claimable_def Let_def
  by (auto simp: bindE_eq_Inr foreign_facts split: option.splits if_splits)

lemma save_profile_foreign:
  "i \<noteq> k \<Longrightarrow> save_mapping_profile fresh now i entity headers mapping who tp = Inr (tp', xp)
    \<Longrightarrow> of_inst mp_institution_id k tp' = of_inst mp_institution_id k tp"
  unfolding save_mapping_profile_def Let_def
  by (auto simp: bindE_eq_Inr tbl_insert_Inr foreign_facts split: if_splits)

lemma replace_foreign:
  assumes k: "i \<noteq> k" and r: "replace_job_records i j items ts = Inr (ts', n)"
  shows "of_inst ir_institution_id k ts' = of_inst ir_institution_id k ts"
proof -
  from r have "tbl_insert_all ir_id (map (staged_of i j) items) (tbl_delete (\<lambda>r. ir_institution_id r = i \<and> ir_job_id r = j) ts) = Inr ts'"
    by (auto simp: replace_job_records_eq bindE_eq_Inr)
  from insert_all_foreign [where inst = ir_institution_id, OF this staged_inst k] k show ?thesis by (simp add: delete_foreign)
qed

lemma reviews_foreign: "i \<noteq> k \<Longrightarrow> add_review_items now i j items tv = Inr (tv', xs)
    \<Longrightarrow> of_inst rv_institution_id k tv' = of_inst rv_institution_id k tv"
  by (auto simp: add_review_items_def Let_def bindE_eq_Inr split: if_splits
      dest!: insert_all_foreign [where inst = rv_institution_id, OF _ review_rows_inst])

lemma documents_foreign:
  "i \<noteq> k \<Longrightarrow> add_document now i d cs td = Inr (td', xd) \<Longrightarrow> docs_of k td' = docs_of k td"
  "i \<noteq> k \<Longrightarrow> delete_document i did td = Inr (td', xb) \<Longrightarrow> docs_of k td' = docs_of k td"
  by (auto simp: add_document_def delete_document_def Let_def split_beta bindE_eq_Inr foreign_facts tbl_insert_Inr
      dest!: insert_all_foreign [where inst = ck_institution_id, OF _ chunk_rows_inst])

lemmas idb_foreign = writes_foreign_inserts writes_foreign_updates save_profile_foreign replace_foreign reviews_foreign documents_foreign

lemma write_foreign: "(\<And>t x. r = Inr (t, x) \<Longrightarrow> view (put t) = view db) \<Longrightarrow> view (fst (write_reply put out db r)) = view db"
  by (cases r) (auto simp: write_reply_def)

lemma idb_view_same:
  "of_inst fi_institution_id k tf = of_inst fi_institution_id k (t_files db) \<Longrightarrow> idb_view k (db\<lparr>t_files := tf\<rparr>) = idb_view k db"
  "of_inst ij_institution_id k tj = of_inst ij_institution_id k (t_jobs db) \<Longrightarrow> idb_view k (db\<lparr>t_jobs := tj\<rparr>) = idb_view k db"
  "of_inst ir_institution_id k ts = of_inst ir_institution_id k (t_staged db) \<Longrightarrow> idb_view k (db\<lparr>t_staged := ts\<rparr>) = idb_view k db"
  "of_inst rv_institution_id k tv = of_inst rv_institution_id k (t_reviews db) \<Longrightarrow> idb_view k (db\<lparr>t_reviews := tv\<rparr>) = idb_view k db"
  "of_inst mp_institution_id k tp = of_inst mp_institution_id k (t_profiles db) \<Longrightarrow> idb_view k (db\<lparr>t_profiles := tp\<rparr>) = idb_view k db"
  "docs_of k td = docs_of k (t_docs db) \<Longrightarrow> idb_view k (db\<lparr>t_docs := td\<rparr>) = idb_view k db"
  "of_inst rp_institution_id k tr = of_inst rp_institution_id k (t_reports db) \<Longrightarrow> idb_view k (db\<lparr>t_reports := tr\<rparr>) = idb_view k db"
  "of_inst nt_institution_id k tn = of_inst nt_institution_id k (t_notes db) \<Longrightarrow> idb_view k (db\<lparr>t_notes := tn\<rparr>) = idb_view k db"
  "of_inst em_institution_id k te = of_inst em_institution_id k (t_emails db) \<Longrightarrow> idb_view k (db\<lparr>t_emails := te\<rparr>) = idb_view k db"
  "of_inst ar_institution_id k ta = of_inst ar_institution_id k (t_runs db) \<Longrightarrow> idb_view k (db\<lparr>t_runs := ta\<rparr>) = idb_view k db"
  "of_inst ap_institution_id k tap = of_inst ap_institution_id k (t_approvals db) \<Longrightarrow> idb_view k (db\<lparr>t_approvals := tap\<rparr>) = idb_view k db"
  by (simp_all add: idb_view_def)

lemma idb_other: "i \<noteq> k \<Longrightarrow> idb_view k (fst (idb_call_exec c i db)) = idb_view k db"
  by (cases c) (auto simp only: idb_call_exec.simps fst_conv bindE_eq_Inr sum.inject prod.inject
      intro!: write_foreign idb_view_same dest: idb_foreign)

interpretation institutions: tenant_machine idb_exec fst idb_view idb_ok
proof unfold_locales
  fix a :: "string \<times> idb_call" and i db db'
  show "fst a \<noteq> i \<Longrightarrow> idb_view i (fst (idb_exec a db)) = idb_view i db"
    by (simp add: idb_exec_def idb_other)
  assume ok: "idb_ok a db" "idb_ok a db'" and v: "idb_view (fst a) db = idb_view (fst a) db'"
  note c = idb_commutes [OF ok(1) [unfolded idb_ok_def]] idb_commutes [OF ok(2) [unfolded idb_ok_def]]
  show "snd (idb_exec a db) = snd (idb_exec a db')" using c v by (simp add: idb_exec_def)
  show "idb_view (fst a) (fst (idb_exec a db)) = idb_view (fst a) (fst (idb_exec a db'))"
    using c v by (simp add: idb_exec_def)
qed


subsection \<open>Properties\<close>

definition empty_idb :: idb where
  "empty_idb = \<lparr>t_files = [], t_jobs = [], t_staged = [], t_reviews = [], t_profiles = [], t_docs = ([], []),
     t_reports = [], t_notes = [], t_emails = [], t_runs = [], t_approvals = []\<rparr>"


definition idb_example :: "(string \<times> idb_call) list" where
  "idb_example = [(''a'', CreateJob 1 ''j1'' None None ''u'' ''upload'' []), (''b'', CreateJob 2 ''j2'' None None ''v'' ''upload'' []),
     (''b'', UpdateJob 3 ''j1'' [JStatus ''failed'']), (''a'', GetJob ''j1''), (''b'', GetJob ''j1'')]"


lemma find_keep: "find P t = Some r \<Longrightarrow> find P (t @ u) = Some r"
  by (simp add: find_append)

text \<open>What a call does to the review items: nothing, new rows, or the resolution of pending ones.\<close>

definition resolution_of :: "string \<Rightarrow> string \<Rightarrow> review_row list \<Rightarrow> review_row list \<Rightarrow> bool" where
  "resolution_of k v t t' = (\<exists>now status who resolution. t'
      = tbl_update (\<lambda>r. rv_institution_id r = k \<and> rv_id r = v \<and> rv_status r = ''pending'')
          (\<lambda>r. r\<lparr>rv_status := status, rv_resolved_at := Some now, rv_resolved_by := Some who, rv_resolution := resolution\<rparr>) t)"

lemma reviews_written:
  "t_reviews (fst (idb_call_exec c k db)) = t_reviews db
   \<or> (\<exists>rs. tbl_insert_all rv_id rs (t_reviews db) = Inr (t_reviews (fst (idb_call_exec c k db))))
   \<or> (\<exists>v. resolution_of k v (t_reviews db) (t_reviews (fst (idb_call_exec c k db))))"
proof (cases c)
  case (AddReviews now j items)
  have "t_reviews (fst (idb_call_exec c k db)) = t_reviews db
      \<or> (\<exists>rs. tbl_insert_all rv_id rs (t_reviews db) = Inr (t_reviews (fst (idb_call_exec c k db))))"
    by (cases "add_review_items now k j items (t_reviews db)")
       (auto simp: AddReviews write_reply_def add_review_items_def Let_def bindE_eq_Inr split: if_splits)
  then show ?thesis by blast
next
  case (ResolveReview now v status who resolution)
  have "t_reviews (fst (idb_call_exec c k db)) = t_reviews db
      \<or> resolution_of k v (t_reviews db) (t_reviews (fst (idb_call_exec c k db)))"
    by (cases "resolve_review_item now k v status who resolution (t_reviews db)")
       (auto simp: ResolveReview write_reply_def resolve_review_item_def Let_def resolution_of_def split: if_splits)
  then show ?thesis by blast
qed (simp_all add: write_reply_def split: sum.splits prod.splits)

lemma review_kept:
  assumes "find (\<lambda>r. rv_institution_id r = i \<and> rv_id r = v) (t_reviews db) = Some r" "rv_status r \<noteq> ''pending''"
  shows "find (\<lambda>r. rv_institution_id r = i \<and> rv_id r = v) (t_reviews (fst (idb_exec a db))) = Some r"
  using reviews_written [of "snd a" "fst a" db] assms
  by (auto simp: idb_exec_def tbl_update_find resolution_of_def dest!: tbl_insert_all_Inr intro: find_keep)

lemma reviews_distinct: "distinct (map rv_id (t_reviews db)) \<Longrightarrow> distinct (map rv_id (t_reviews (fst (idb_exec a db))))"
  using reviews_written [of "snd a" "fst a" db]
  by (auto simp: idb_exec_def resolution_of_def dest: tbl_insert_all_distinct)

lemma review_kept_run:
  "find (\<lambda>r. rv_institution_id r = i \<and> rv_id r = v) (t_reviews db) = Some r \<Longrightarrow> rv_status r \<noteq> ''pending''
    \<Longrightarrow> find (\<lambda>r. rv_institution_id r = i \<and> rv_id r = v) (t_reviews (run_ops idb_exec as db)) = Some r"
  by (induction as arbitrary: db) (simp_all add: review_kept)

lemma reviews_distinct_run: "distinct (map rv_id (t_reviews db)) \<Longrightarrow> distinct (map rv_id (t_reviews (run_ops idb_exec as db)))"
  by (induction as arbitrary: db) (simp_all add: reviews_distinct)

lemma resolve_decided:
  assumes d: "distinct (map rv_id t)" and f: "find (\<lambda>r. rv_institution_id r = i \<and> rv_id r = v) t = Some r"
    and np: "rv_status r \<noteq> ''pending''" and i: "\<not> blank i" and s: "status \<in> {''approved'', ''rejected''}"
  shows "resolve_review_item now i v status who resolution t = Inr (t, Some r)"
proof -
  have "x = r" if "x \<in> set t" "rv_institution_id x = i \<and> rv_id x = v" for x
  proof -
    have "find (\<lambda>r. rv_institution_id r = i \<and> rv_id r = v) t = Some x" using d that by (intro find_unique [of rv_id]) auto
    with f show ?thesis by simp
  qed
  then have "tbl_update (\<lambda>r. rv_institution_id r = i \<and> rv_id r = v \<and> rv_status r = ''pending'') g t = t" for g
    unfolding tbl_update_def using np by (intro map_idI) auto
  then show ?thesis using f i s by (auto simp: resolve_review_item_def Let_def tenant_def)
qed

text \<open>The decision on a review item is final: once an item is approved or rejected, no sequence of
  store calls changes it, and a later attempt to resolve it returns the first decision.\<close>
theorem review_decision_final:
  assumes "distinct (map rv_id (t_reviews db))"
    and "resolve_review_item now i v status who resolution (t_reviews db) = Inr (t', Some r)"
    and "later_db = run_ops idb_exec as (db\<lparr>t_reviews := t'\<rparr>)"
    and "status2 \<in> {''approved'', ''rejected''}"
  shows "rv_status r \<noteq> ''pending'' \<and> get_review_item i v (t_reviews later_db) = Inr (Some r)
    \<and> resolve_review_item now2 i v status2 who2 resolution2 (t_reviews later_db) = Inr (t_reviews later_db, Some r)"
proof -
  let ?P = "\<lambda>r. rv_institution_id r = i \<and> rv_id r = v"
    and ?f = "\<lambda>r. r\<lparr>rv_status := status, rv_resolved_at := Some now, rv_resolved_by := Some who, rv_resolution := resolution\<rparr>"
  from assms(2) have i: "\<not> blank i" and st: "status \<in> {''approved'', ''rejected''}" and f: "find ?P t' = Some r"
    and t': "t' = tbl_update (\<lambda>r. rv_institution_id r = i \<and> rv_id r = v \<and> rv_status r = ''pending'') ?f (t_reviews db)"
    by (auto simp: resolve_review_item_def Let_def split: if_splits)
  from f obtain r0 where r0: "find ?P (t_reviews db) = Some r0" "r = (if ?P r0 \<and> rv_status r0 = ''pending'' then ?f r0 else r0)"
    unfolding t' by (auto simp: tbl_update_find)
  have np: "rv_status r \<noteq> ''pending''" using r0(2) find_Some_iff2 [OF r0(1)] st by auto
  have u: "find ?P (t_reviews later_db) = Some r" unfolding assms(3) by (rule review_kept_run) (use f np in simp_all)
  have "distinct (map rv_id t')" unfolding t' using assms(1) by simp
  then have d: "distinct (map rv_id (t_reviews later_db))" unfolding assms(3) by (intro reviews_distinct_run) simp
  show ?thesis using np u i resolve_decided [OF d u np i assms(4)] by (simp add: get_review_item_def tenant_def)
qed

definition review_example :: idb where
  "review_example = run_ops idb_exec [(''a'', AddReviews 1 ''j'' [(''x'', ''duplicate'', [])])] empty_idb"

lemma review_decision_final_witness:
  "\<exists>t' r. resolve_review_item 2 ''a'' ''review-000000x'' ''approved'' ''u'' [] (t_reviews review_example) = Inr (t', Some r)
    \<and> rv_status r \<noteq> ''pending''
    \<and> get_review_item ''a'' ''review-000000x'' (t_reviews (run_ops idb_exec [(''a'', ResolveReview 3 ''review-000000x'' ''rejected'' ''w'' [])]
        (review_example\<lparr>t_reviews := t'\<rparr>))) = Inr (Some r)"
proof -
  have "map_option rv_status (case resolve_review_item 2 ''a'' ''review-000000x'' ''approved'' ''u'' [] (t_reviews review_example) of
      Inr (t', r) \<Rightarrow> r | _ \<Rightarrow> None) = Some ''approved''" by code_simp
  then obtain t' r where r: "resolve_review_item 2 ''a'' ''review-000000x'' ''approved'' ''u'' [] (t_reviews review_example) = Inr (t', Some r)"
    by (auto split: sum.splits prod.splits)
  have d: "distinct (map rv_id (t_reviews review_example))" by code_simp
  from review_decision_final [OF d r refl, of "''rejected''"] r show ?thesis by blast
qed

text \<open>Deleting a document removes it with its text: afterwards it is not found, none of its chunks is
  ever searched, and the documents and chunks of every other document and institution are
  what they were.\<close>
theorem delete_document_complete:
  assumes "delete_document i d (docs, cks) = Inr ((docs', cks'), found)"
  shows "get_document i d docs' = Inr None
    \<and> (\<forall>classes ids limit hits. document_chunks i classes ids limit (docs', cks') = Inr hits
        \<longrightarrow> d \<notin> ck_document_id ` fst ` set hits)
    \<and> filter (\<lambda>r. \<not> (dc_institution_id r = i \<and> dc_id r = d)) docs = docs'
    \<and> filter (\<lambda>r. \<not> (ck_institution_id r = i \<and> ck_document_id r = d)) cks = cks'
    \<and> found = (\<exists>r \<in> set docs. dc_institution_id r = i \<and> dc_id r = d)"
proof -
  from assms have i: "\<not> blank i" and docs': "docs' = tbl_delete (\<lambda>r. dc_institution_id r = i \<and> dc_id r = d) docs"
    and cks': "cks' = tbl_delete (\<lambda>r. ck_institution_id r = i \<and> ck_document_id r = d) cks"
    and found: "found = (0 < tbl_count (\<lambda>r. dc_institution_id r = i \<and> dc_id r = d) docs)"
    by (auto simp: delete_document_def Let_def)
  have "d \<notin> ck_document_id ` fst ` set hits"
    if "document_chunks i classes ids limit (docs', cks') = Inr hits" for classes ids limit hits
  proof -
    have "set hits \<subseteq> {(c, x). c \<in> set cks' \<and> ck_institution_id c = i}"
      using that page_set by (fastforce simp: document_chunks_def chunk_join_def)
    then show ?thesis by (auto simp: cks' tbl_delete_def)
  qed
  moreover have "get_document i d docs' = Inr None"
    using i by (auto simp: get_document_def tenant_def docs' tbl_delete_def find_None_iff)
  moreover have "found = (\<exists>r \<in> set docs. dc_institution_id r = i \<and> dc_id r = d)"
    unfolding found tbl_count_def by (auto simp: filter_empty_conv)
  ultimately show ?thesis by (simp add: docs' cks' tbl_delete_def)
qed

lemma delete_document_complete_witness:
  "\<exists>c :: chunk_row. \<exists>d :: document_row. \<exists>docs' cks' found.
     delete_document ''a'' ''d'' ([d\<lparr>dc_id := ''d'', dc_institution_id := ''a''\<rparr>], [c\<lparr>ck_institution_id := ''a'', ck_document_id := ''d''\<rparr>])
       = Inr ((docs', cks'), found) \<and> found \<and> get_document ''a'' ''d'' docs' = Inr None \<and> cks' = []"
proof -
  fix c :: chunk_row and d :: document_row
  have r: "delete_document ''a'' ''d'' ([d\<lparr>dc_id := ''d'', dc_institution_id := ''a''\<rparr>], [c\<lparr>ck_institution_id := ''a'', ck_document_id := ''d''\<rparr>])
       = Inr (([], []), True)"
    by (simp add: delete_document_def tenant_def blank_def py_strip_def py_lstrip_def py_space_def tbl_delete_def tbl_count_def Let_def)
  from delete_document_complete [OF r] r show ?thesis by blast
qed

end
