(* ===== verification/JobQueue.thy ===== *)
theory JobQueue
  imports BackgroundJobs
begin

text \<open>
  The job queue of \<^verbatim>\<open>workers/queue.py\<close> over the job table: registration, enqueueing with
  the three ways of waking a worker, running a job, recovering stale jobs, consuming SQS
  messages. \<open>'w\<close> is the world outside the job table (what handlers, failure hooks and the SQS
  client act on). While a handler runs, other processes and the heartbeat thread write the
  table: \<open>env\<close> gives the operations that happen during the run of each job. Instants come from
  \<open>clock\<close>, by job.
\<close>

type_synonym 'w handler = "pyval dict \<Rightarrow> 'w \<Rightarrow> 'w \<times> pyval dict res"
type_synonym 'w failure_hook = "bg_job \<Rightarrow> string \<Rightarrow> 'w \<Rightarrow> 'w \<times> unit res"
type_synonym 'w queue_state = "bg_job list \<times> 'w"

text \<open>How a worker is woken: not at all (the base class), inline, by a thread, by an SQS message.\<close>

datatype 'w transport = Base | Inline | Threaded | Sqs "string \<Rightarrow> 'w \<Rightarrow> 'w \<times> unit res"

record 'w job_queue =
  jq_handlers :: "'w handler dict"
  jq_hooks :: "'w failure_hook dict"
  jq_transport :: "'w transport"
  jq_stale_us :: int
  jq_clock :: "string \<Rightarrow> int"
  jq_env :: "string \<Rightarrow> job_op list"

record run_outcome =
  ro_job_id :: string
  ro_status :: string
  ro_error :: "string option"

definition register_handler :: "string \<Rightarrow> 'w handler \<Rightarrow> 'w job_queue \<Rightarrow> 'w job_queue" where
  "register_handler ty h q = q\<lparr>jq_handlers := dict_set (jq_handlers q) ty h\<rparr>"

definition register_failure_hook :: "string \<Rightarrow> 'w failure_hook \<Rightarrow> 'w job_queue \<Rightarrow> 'w job_queue" where
  "register_failure_hook ty h q = q\<lparr>jq_hooks := dict_set (jq_hooks q) ty h\<rparr>"

definition registered_types :: "'w job_queue \<Rightarrow> string list" where
  "registered_types q = dict_keys (jq_handlers q)"

text \<open>Finishing a job with one of the two legal statuses never raises.\<close>

definition finished :: "'w job_queue \<Rightarrow> string \<Rightarrow> string \<Rightarrow> pyval dict \<Rightarrow> string option \<Rightarrow> int option \<Rightarrow> bg_job list \<Rightarrow> bg_job list" where
  "finished q j status result err attempt t = (case finish_background_job (jq_clock q j) j status result err attempt t of
      Inl _ \<Rightarrow> t | Inr (t', _) \<Rightarrow> t')"

definition cut500 :: "string \<Rightarrow> string" where
  "cut500 s = take 500 s"

definition job_attempt :: "bg_job \<Rightarrow> int" where
  "job_attempt job = (if bj_attempts job = 0 then 1 else bj_attempts job)"

definition run_job :: "'w job_queue \<Rightarrow> bg_job \<Rightarrow> 'w queue_state \<Rightarrow> 'w queue_state \<times> run_outcome" where
  "run_job q job s = (case s of (t, w) \<Rightarrow>
     let j = bj_id job in
     case dict_get (jq_handlers q) (bj_type job) of
       None \<Rightarrow> ((finished q j ''failed'' [] (Some ''no handler registered'') None t, w),
                \<lparr>ro_job_id = j, ro_status = ''failed'', ro_error = None\<rparr>)
     | Some h \<Rightarrow>
         let attempt = job_attempt job;
             payload = dict_set (bj_payload job) ''_attempt'' (PInt attempt)
         in case h payload w of
              (w', Inl e) \<Rightarrow>
                ((finished q j ''failed'' [] (Some (cut500 (err_text e))) (Some attempt) (job_run (jq_env q j) t), w'),
                 \<lparr>ro_job_id = j, ro_status = ''failed'', ro_error = Some (cut500 (err_text e))\<rparr>)
            | (w', Inr result) \<Rightarrow>
                ((finished q j ''succeeded'' result None (Some attempt) (job_run (jq_env q j) t), w'),
                 \<lparr>ro_job_id = j, ro_status = ''succeeded'', ro_error = None\<rparr>))"

fun run_jobs :: "'w job_queue \<Rightarrow> bg_job list \<Rightarrow> 'w queue_state \<Rightarrow> 'w queue_state" where
  "run_jobs q [] s = s"
| "run_jobs q (job # jobs) s = run_jobs q jobs (fst (run_job q job s))"

definition run_pending :: "'w job_queue \<Rightarrow> int \<Rightarrow> 'w queue_state \<Rightarrow> 'w queue_state \<times> int" where
  "run_pending q limit s = (case s of (t, w) \<Rightarrow>
     case claim_background_jobs (jq_clock q) limit t of (t', jobs) \<Rightarrow> (run_jobs q jobs (t', w), int (length jobs)))"

definition after_enqueue :: "'w job_queue \<Rightarrow> string \<Rightarrow> 'w queue_state \<Rightarrow> 'w queue_state \<times> unit res" where
  "after_enqueue q j s = (case jq_transport q of
      Base \<Rightarrow> (s, Inr ())
    | Inline \<Rightarrow> (fst (run_pending q 25 s), Inr ())
    | Threaded \<Rightarrow> (s, Inr ())
    | Sqs send \<Rightarrow> (case s of (t, w) \<Rightarrow> (case send j w of
          (w', Inr _) \<Rightarrow> ((t, w'), Inr ())
        | (w', Inl e) \<Rightarrow>
            ((finished q j ''failed'' [] (Some (cut500 (''could not publish to SQS: '' @ err_text e))) None t, w'),
             Inl (RuntimeError (''background job '' @ j @ '' could not be published to the job queue''))))))"

definition enqueue_job :: "'w job_queue \<Rightarrow> string \<Rightarrow> int \<Rightarrow> string \<Rightarrow> string \<Rightarrow> pyval dict \<Rightarrow> 'w queue_state
    \<Rightarrow> 'w queue_state \<times> string res" where
  "enqueue_job q fresh now i ty payload s =
     (if \<not> dict_has (jq_handlers q) ty then (s, Inl (ValueError (''no handler registered for job type '' @ ty)))
      else case s of (t, w) \<Rightarrow>
        let j = ''bg-'' @ fresh in
        case enqueue_background_job now i j ty payload t of
          Inl e \<Rightarrow> (s, Inl e)
        | Inr (t', _) \<Rightarrow> (case after_enqueue q j (t', w) of
              (s', Inl e) \<Rightarrow> (s', Inl e) | (s', Inr _) \<Rightarrow> (s', Inr j)))"

definition queue_status :: "string \<Rightarrow> 'w queue_state \<Rightarrow> bg_job option" where
  "queue_status j s = get_background_job j (fst s)"

text \<open>A hook that raises does not break the queue.\<close>

definition notify_failure :: "'w job_queue \<Rightarrow> bg_job \<Rightarrow> string \<Rightarrow> 'w \<Rightarrow> 'w" where
  "notify_failure q job err w = (case dict_get (jq_hooks q) (bj_type job) of
      None \<Rightarrow> w | Some hook \<Rightarrow> fst (hook job err w))"

fun notify_exhausted :: "'w job_queue \<Rightarrow> int \<Rightarrow> bg_job list \<Rightarrow> 'w \<Rightarrow> 'w" where
  "notify_exhausted q m [] w = w"
| "notify_exhausted q m (job # jobs) w = notify_exhausted q m jobs (notify_failure q job
     (''worker did not finish the job after '' @ int_str (if bj_attempts job = 0 then m else bj_attempts job) @ '' attempts'') w)"

fun redispatch :: "'w job_queue \<Rightarrow> bg_job list \<Rightarrow> 'w queue_state \<Rightarrow> 'w queue_state" where
  "redispatch q [] s = s"
| "redispatch q (job # jobs) s = (case after_enqueue q (bj_id job) s of
      (s', Inr _) \<Rightarrow> redispatch q jobs s'
    | ((t, w), Inl e) \<Rightarrow>
        let err = cut500 (''could not re-dispatch after restart: '' @ err_text e)
        in redispatch q jobs (finished q (bj_id job) ''failed'' [] (Some err) None t, notify_failure q job err w))"

definition recover_stale :: "'w job_queue \<Rightarrow> int \<Rightarrow> int option \<Rightarrow> int \<Rightarrow> 'w queue_state \<Rightarrow> 'w queue_state \<times> bg_job list" where
  "recover_stale q now older m s = (case s of (t, w) \<Rightarrow>
     case requeue_stale_background_jobs (jq_clock q) now (case older of None \<Rightarrow> jq_stale_us q | Some x \<Rightarrow> x) m t of
       (t', requeued, exhausted) \<Rightarrow> (redispatch q requeued (t', notify_exhausted q m exhausted w), requeued))"

text \<open>One turn of the polling thread, and stopping it while a job is in flight.\<close>

definition poll_once :: "'w job_queue \<Rightarrow> int \<Rightarrow> bool \<Rightarrow> 'w queue_state \<Rightarrow> 'w queue_state" where
  "poll_once q now sweep_due s =
     (let s' = fst (run_pending q 10 s) in if sweep_due then fst (recover_stale q now None 3 s') else s')"

definition stop_polling :: "string option \<Rightarrow> 'w queue_state \<Rightarrow> 'w queue_state" where
  "stop_polling in_flight s = (case in_flight of
      None \<Rightarrow> s | Some j \<Rightarrow> (fst (requeue_background_job j (fst s)), snd s))"

subsection \<open>Consuming SQS messages\<close>

text \<open>A message body that is not JSON counts as naming no job; a JSON value that is not an object raises.\<close>

record sqs_message =
  sm_body :: "pyval option"
  sm_receipt :: string

definition message_job_id :: "(pyval \<Rightarrow> string) \<Rightarrow> sqs_message \<Rightarrow> string res" where
  "message_job_id rep m = (case sm_body m of
      None \<Rightarrow> Inr []
    | Some (PDict d) \<Rightarrow> Inr (case dict_get d ''job_id'' of None \<Rightarrow> [] | Some v \<Rightarrow> py_str rep v)
    | Some _ \<Rightarrow> Inl (OtherError ''object has no attribute get''))"

fun consume_messages :: "'w job_queue \<Rightarrow> (pyval \<Rightarrow> string) \<Rightarrow> (string \<Rightarrow> 'w \<Rightarrow> 'w) \<Rightarrow> sqs_message list \<Rightarrow> 'w queue_state
    \<Rightarrow> 'w queue_state \<times> int res" where
  "consume_messages q rep delete_message [] s = (s, Inr 0)"
| "consume_messages q rep delete_message (m # ms) s = (case message_job_id rep m of
      Inl e \<Rightarrow> (s, Inl e)
    | Inr j \<Rightarrow>
        (case (if j = [] then (fst s, None) else claim_background_job (jq_clock q j) j (fst s)) of (t, job) \<Rightarrow>
          (case (case job of None \<Rightarrow> (t, snd s) | Some b \<Rightarrow> fst (run_job q b (t, snd s))) of (t', w') \<Rightarrow>
            (case consume_messages q rep delete_message ms (t', delete_message (sm_receipt m) w') of
               (s', Inl e) \<Rightarrow> (s', Inl e)
             | (s', Inr n) \<Rightarrow> (s', Inr (n + (if job = None then 0 else 1)))))))"


subsection \<open>What a run does to the table\<close>

lemma finished_step: "finished q j status result err attempt t = job_step (Finish (jq_clock q j) j status result err attempt) t"
  by (simp add: finished_def)

lemma finished_ok: "jobs_ok t \<Longrightarrow> jobs_ok (finished q j status result err attempt t)"
  unfolding finished_step by (rule job_step_ok)

lemma finished_get:
  assumes ok: "jobs_ok t" and g: "get_background_job j t = Some r" and s: "status \<in> {''succeeded'', ''failed''}"
  shows "get_background_job j (finished q j status result err attempt t) = Some (if finishable j attempt r
     then r\<lparr>bj_status := status, bj_finished_at := Some (jq_clock q j), bj_result := result, bj_error := err\<rparr> else r)"
proof -
  have "bj_id r = j" using g get_job_mem [OF ok] by simp
  then show ?thesis using g s
    by (auto simp: finished_def finish_background_job_def get_background_job_def tbl_update_find)
qed

lemma finished_other:
  "i \<noteq> j \<Longrightarrow> get_background_job i (finished q j status result err attempt t) = get_background_job i t"
proof -
  assume "i \<noteq> j"
  then have "get_background_job i (tbl_update (finishable j attempt) (\<lambda>r. r\<lparr>bj_status := status, bj_finished_at := Some (jq_clock q j), bj_result := result, bj_error := err\<rparr>) t)
      = get_background_job i t"
    by (induction t) (auto simp: get_background_job_def tbl_update_def finishable_def)
  then show ?thesis by (simp add: finished_def finish_background_job_def)
qed

lemma run_job_table:
  "fst (fst (run_job q job (t, w))) = (case dict_get (jq_handlers q) (bj_type job) of
      None \<Rightarrow> finished q (bj_id job) ''failed'' [] (Some ''no handler registered'') None t
    | Some h \<Rightarrow> (case h (dict_set (bj_payload job) ''_attempt'' (PInt (job_attempt job))) w of
        (w', Inl e) \<Rightarrow> finished q (bj_id job) ''failed'' [] (Some (cut500 (err_text e))) (Some (job_attempt job)) (job_run (jq_env q (bj_id job)) t)
      | (w', Inr result) \<Rightarrow> finished q (bj_id job) ''succeeded'' result None (Some (job_attempt job)) (job_run (jq_env q (bj_id job)) t)))"
  by (simp add: run_job_def Let_def split: option.splits prod.splits sum.splits)

lemma run_job_ok: "jobs_ok t \<Longrightarrow> jobs_ok (fst (fst (run_job q job (t, w))))"
  by (simp add: run_job_table finished_ok job_run_ok split: option.splits prod.splits sum.splits)

text \<open>The table only moves by steps of the job table, so finished rows stay.\<close>

lemma finished_keeps_terminal:
  assumes ok: "jobs_ok t" and g: "get_background_job i t = Some r" and te: "terminal (bj_status r)"
  shows "get_background_job i (finished q j status result err attempt t) = Some r"
  using job_step_get [OF ok g, of "Finish (jq_clock q j) j status result err attempt"] terminal_stuck [OF _ te]
  by (auto simp: finished_step simp del: job_step.simps)

lemma env_keeps_terminal:
  assumes ok: "jobs_ok t" and g: "get_background_job i t = Some r" and te: "terminal (bj_status r)"
  shows "get_background_job i (job_run ops t) = Some r"
  using job_run_get [OF ok g, of ops] terminal_stuck [OF _ te] by auto

lemma run_job_keeps_terminal:
  assumes ok: "jobs_ok t" and g: "get_background_job i t = Some r" and te: "terminal (bj_status r)"
  shows "get_background_job i (fst (fst (run_job q job (t, w)))) = Some r"
  by (simp add: run_job_table finished_keeps_terminal [OF ok g te]
      finished_keeps_terminal [OF job_run_ok [OF ok] env_keeps_terminal [OF ok g te] te] split: option.splits prod.splits sum.splits)

text \<open>Heartbeats leave status and attempts alone.\<close>

definition heartbeat_op :: "job_op \<Rightarrow> bool" where
  "heartbeat_op a = (case a of Heartbeat now j \<Rightarrow> True | _ \<Rightarrow> False)"

definition same_claim :: "bg_job \<Rightarrow> bg_job \<Rightarrow> bool" where
  "same_claim r r' = (\<exists>h. r' = r\<lparr>bj_heartbeat_at := h\<rparr> \<and> (bj_status r \<noteq> ''running'' \<longrightarrow> h = bj_heartbeat_at r))"

lemma same_claim_refl [simp]: "same_claim r r"
  unfolding same_claim_def by (intro exI [of _ "bj_heartbeat_at r"]) simp

lemma same_claim_trans: "same_claim a b \<Longrightarrow> same_claim b c \<Longrightarrow> same_claim a c"
proof -
  assume "same_claim a b" and "same_claim b c"
  then obtain h k where "b = a\<lparr>bj_heartbeat_at := h\<rparr>" "bj_status a \<noteq> ''running'' \<longrightarrow> h = bj_heartbeat_at a"
      "c = b\<lparr>bj_heartbeat_at := k\<rparr>" "bj_status b \<noteq> ''running'' \<longrightarrow> k = bj_heartbeat_at b"
    unfolding same_claim_def by blast
  then show "same_claim a c" unfolding same_claim_def by (intro exI [of _ k]) simp
qed

lemma same_claim_fields:
  assumes "same_claim r r'"
  shows "bj_status r' = bj_status r" "bj_attempts r' = bj_attempts r" "bj_id r' = bj_id r" "bj_status r \<noteq> ''running'' \<Longrightarrow> r' = r"
proof -
  from assms obtain h where h: "r' = r\<lparr>bj_heartbeat_at := h\<rparr>" "bj_status r \<noteq> ''running'' \<longrightarrow> h = bj_heartbeat_at r"
    unfolding same_claim_def by blast
  then show "bj_status r' = bj_status r" "bj_attempts r' = bj_attempts r" "bj_id r' = bj_id r" by simp_all
  show "bj_status r \<noteq> ''running'' \<Longrightarrow> r' = r" using h by simp
qed

lemma same_claim_beat: "bj_status r = ''running'' \<Longrightarrow> same_claim r (r\<lparr>bj_heartbeat_at := h\<rparr>)"
  unfolding same_claim_def by (intro exI [of _ h]) simp

lemma heartbeats_same_claim:
  "list_all heartbeat_op ops \<Longrightarrow> get_background_job i t = Some r
    \<Longrightarrow> \<exists>r'. get_background_job i (job_run ops t) = Some r' \<and> same_claim r r'"
proof (induction ops arbitrary: t r)
  case Nil
  then show ?case by simp
next
  case (Cons a ops)
  then obtain now j where a: "a = Heartbeat now j" by (auto simp: heartbeat_op_def split: job_op.splits)
  have "get_background_job i (job_step a t) = map_option (\<lambda>r. if with_status j ''running'' r then r\<lparr>bj_heartbeat_at := Some now\<rparr> else r) (get_background_job i t)"
    unfolding a get_background_job_def by (simp add: heartbeat_background_job_def tbl_update_find)
  then obtain r1 where r1: "get_background_job i (job_step a t) = Some r1" "same_claim r r1"
    using Cons.prems(2) same_claim_beat [of r "Some now"] by (cases "with_status j ''running'' r") (auto simp: with_status_def)
  with Cons.IH [OF _ r1(1)] Cons.prems(1) show ?case by (auto intro: same_claim_trans simp del: job_step.simps)
qed

subsection \<open>The outcome of one run\<close>

lemma run_job_row:
  assumes ok: "jobs_ok t" and g: "get_background_job (bj_id job) (job_run (jq_env q (bj_id job)) t) = Some r"
    and h: "dict_get (jq_handlers q) (bj_type job) = Some h"
  shows "get_background_job (bj_id job) (fst (fst (run_job q job (t, w)))) = Some (
     if finishable (bj_id job) (Some (job_attempt job)) r then
       (case snd (h (dict_set (bj_payload job) ''_attempt'' (PInt (job_attempt job))) w) of
          Inl e \<Rightarrow> r\<lparr>bj_status := ''failed'', bj_finished_at := Some (jq_clock q (bj_id job)), bj_result := [],
                     bj_error := Some (cut500 (err_text e))\<rparr>
        | Inr result \<Rightarrow> r\<lparr>bj_status := ''succeeded'', bj_finished_at := Some (jq_clock q (bj_id job)), bj_result := result,
                     bj_error := None\<rparr>)
     else r)"
  by (simp add: run_job_table h finished_get [OF job_run_ok [OF ok] g] split: prod.splits sum.splits)

text \<open>A job whose claim is still held ends finished.\<close>

definition held :: "bg_job \<Rightarrow> bg_job list \<Rightarrow> bool" where
  "held b t = (\<exists>r. get_background_job (bj_id b) t = Some r \<and> bj_status r = ''running'' \<and> bj_attempts r = bj_attempts b)"

definition job_done :: "string \<Rightarrow> bg_job list \<Rightarrow> bool" where
  "job_done j t = (\<exists>r. get_background_job j t = Some r \<and> terminal (bj_status r))"

definition quiet :: "'w job_queue \<Rightarrow> bool" where
  "quiet q = (\<forall>j. list_all heartbeat_op (jq_env q j))"

lemma held_env: "held b t \<Longrightarrow> list_all heartbeat_op ops \<Longrightarrow> held b (job_run ops t)"
proof -
  assume "held b t" and ops: "list_all heartbeat_op ops"
  then obtain r where r: "get_background_job (bj_id b) t = Some r" "bj_status r = ''running''" "bj_attempts r = bj_attempts b"
    unfolding held_def by blast
  from heartbeats_same_claim [OF ops r(1)] obtain r' where "get_background_job (bj_id b) (job_run ops t) = Some r'" "same_claim r r'" by blast
  with same_claim_fields [OF this(2)] r(2,3) show ?thesis unfolding held_def by simp
qed

lemma run_job_done:
  assumes ok: "jobs_ok t" and hb: "held b t" and qq: "quiet q" and pos: "0 < bj_attempts b"
  shows "job_done (bj_id b) (fst (fst (run_job q b (t, w))))"
proof (cases "dict_get (jq_handlers q) (bj_type b)")
  case None
  from hb obtain r where r: "get_background_job (bj_id b) t = Some r" "bj_status r = ''running''" unfolding held_def by blast
  then have "finishable (bj_id b) None r" using get_job_mem [OF ok] by (simp add: finishable_def)
  with None show ?thesis by (simp add: run_job_table job_done_def finished_get [OF ok r(1)])
next
  case (Some h)
  have "held b (job_run (jq_env q (bj_id b)) t)" using held_env [OF hb] qq by (simp add: quiet_def)
  then obtain r where r: "get_background_job (bj_id b) (job_run (jq_env q (bj_id b)) t) = Some r"
      "bj_status r = ''running''" "bj_attempts r = bj_attempts b" unfolding held_def by blast
  then have "finishable (bj_id b) (Some (job_attempt b)) r"
    using get_job_mem [OF job_run_ok [OF ok]] pos by (auto simp: finishable_def job_attempt_def)
  with run_job_row [OF ok r(1) Some, of w] show ?thesis
    by (auto simp: job_done_def split: sum.splits)
qed

lemma run_job_held: "held b t \<Longrightarrow> bj_id job \<noteq> bj_id b \<Longrightarrow> quiet q \<Longrightarrow> held b (fst (fst (run_job q job (t, w))))"
proof -
  assume hb: "held b t" and ne: "bj_id job \<noteq> bj_id b" and qq: "quiet q"
  have "held b (job_run (jq_env q (bj_id job)) t)" using held_env [OF hb] qq by (simp add: quiet_def)
  with hb ne show ?thesis
    by (auto simp: held_def run_job_table finished_other split: option.splits prod.splits sum.splits)
qed

lemma run_job_keeps_done: "jobs_ok t \<Longrightarrow> job_done j t \<Longrightarrow> job_done j (fst (fst (run_job q job (t, w))))"
  unfolding job_done_def by (meson run_job_keeps_terminal)

lemma run_jobs_done:
  "jobs_ok (fst s) \<Longrightarrow> distinct (map bj_id jobs) \<Longrightarrow> \<forall>b \<in> set jobs. held b (fst s) \<and> 0 < bj_attempts b \<Longrightarrow> quiet q
    \<Longrightarrow> \<forall>j. (j \<in> bj_id ` set jobs \<or> job_done j (fst s)) \<longrightarrow> job_done j (fst (run_jobs q jobs s))"
proof (induction jobs arbitrary: s)
  case Nil
  then show ?case by simp
next
  case (Cons b jobs)
  obtain t w where s: "s = (t, w)" by (cases s)
  let ?s = "fst (run_job q b (t, w))"
  have ok: "jobs_ok t" using Cons.prems(1) s by simp
  have hb: "held b t" "0 < bj_attempts b" using Cons.prems(3) s by auto
  have "\<forall>c \<in> set jobs. held c (fst ?s) \<and> 0 < bj_attempts c"
    using Cons.prems(2,3,4) s run_job_held [of _ t b q w] by (auto simp: image_iff)
  with Cons.IH [of ?s] run_job_ok [OF ok, of q b w] Cons.prems(2,4)
  have ih: "\<forall>j. (j \<in> bj_id ` set jobs \<or> job_done j (fst ?s)) \<longrightarrow> job_done j (fst (run_jobs q jobs ?s))" by simp
  have "job_done (bj_id b) (fst ?s)" using run_job_done [OF ok hb(1) Cons.prems(4) hb(2)] .
  with ih run_job_keeps_done [OF ok, of _ q b w] show ?case by (auto simp: s)
qed


subsection \<open>Claiming and running what is queued\<close>

lemma claim_other: "i \<noteq> j \<Longrightarrow> get_background_job i (fst (claim_background_job now j t)) = get_background_job i t"
proof -
  assume "i \<noteq> j"
  then have "get_background_job i (tbl_update (with_status j ''queued'') (to_running now) t) = get_background_job i t"
    by (induction t) (auto simp: get_background_job_def tbl_update_def with_status_def to_running_def)
  then show ?thesis by (simp add: claim_background_job_def Let_def)
qed

lemma claim_queued:
  assumes ok: "jobs_ok t" and g: "get_background_job j t = Some r" and s: "bj_status r = ''queued''"
  shows "snd (claim_background_job now j t) = Some (to_running now r)"
proof -
  have r: "r \<in> set t" "bj_id r = j" using g get_job_mem [OF ok] by auto
  then have "tbl_count (with_status j ''queued'') t \<noteq> 0" using s by (auto simp: tbl_count_def with_status_def filter_empty_conv)
  moreover have "get_background_job j (tbl_update (with_status j ''queued'') (to_running now) t) = Some (to_running now r)"
    using g r s by (simp add: get_background_job_def tbl_update_find to_running_def with_status_def)
  ultimately show ?thesis by (simp add: claim_background_job_def Let_def)
qed

lemma queue_claim_ok: "jobs_ok t \<Longrightarrow> jobs_ok (fst (claim_background_job now j t))"
  using job_step_ok [of t "ClaimOne now j"] by simp

definition nonneg :: "bg_job list \<Rightarrow> bool" where
  "nonneg t = (\<forall>r \<in> set t. 0 \<le> bj_attempts r)"

lemma claim_each_held:
  assumes "jobs_ok t" "distinct js" "nonneg t" "claim_each clock js t = (t', jobs)"
  shows "jobs_ok t' \<and> distinct (map bj_id jobs) \<and> bj_id ` set jobs \<subseteq> set js
    \<and> (\<forall>b \<in> set jobs. held b t' \<and> 0 < bj_attempts b)
    \<and> (\<forall>j \<in> set js. \<forall>r. get_background_job j t = Some r \<and> bj_status r = ''queued'' \<longrightarrow> j \<in> bj_id ` set jobs)
    \<and> (\<forall>i. i \<notin> set js \<longrightarrow> get_background_job i t' = get_background_job i t)"
  using assms
proof (induction js arbitrary: t t' jobs)
  case Nil
  then show ?case by simp
next
  case (Cons j js)
  obtain t1 o1 where c: "claim_background_job (clock j) j t = (t1, o1)" by (cases "claim_background_job (clock j) j t")
  obtain t2 jobs2 where e: "claim_each clock js t1 = (t2, jobs2)" by (cases "claim_each clock js t1")
  have ok1: "jobs_ok t1" using queue_claim_ok [OF Cons.prems(1), of "clock j" j] c by simp
  have nn1: "nonneg t1"
    using c Cons.prems(3) by (auto simp: claim_background_job_def Let_def nonneg_def tbl_update_def to_running_def split: if_splits)
  have oth: "i \<noteq> j \<Longrightarrow> get_background_job i t1 = get_background_job i t" for i using claim_other [of i j "clock j" t] c by simp
  have js: "distinct js" "j \<notin> set js" using Cons.prems(2) by auto
  note ih = Cons.IH [OF ok1 js(1) nn1 e]
  then have i1: "jobs_ok t2" "distinct (map bj_id jobs2)" "bj_id ` set jobs2 \<subseteq> set js"
      "\<forall>b \<in> set jobs2. held b t2 \<and> 0 < bj_attempts b" by blast+
  have i2: "get_background_job i t2 = get_background_job i t1" if "i \<notin> set js" for i using ih that by blast
  have sub: "k \<in> bj_id ` set jobs2" if "k \<in> set js" "get_background_job k t = Some r" "bj_status r = ''queued''" for k r
  proof -
    have "k \<noteq> j" using that(1) js(2) by blast
    then have "get_background_job k t1 = Some r" using oth that(2) by simp
    with ih that(1,3) show ?thesis by blast
  qed
  show ?case
  proof (cases o1)
    case None
    have j: "bj_status r \<noteq> ''queued''" if "get_background_job j t = Some r" for r
      using claim_queued [OF Cons.prems(1) that, of "clock j"] c None by auto
    have "t' = t2" "jobs = jobs2" using Cons.prems(4) c e None by auto
    moreover have "k \<in> bj_id ` set jobs2" if "k \<in> set (j # js)" "get_background_job k t = Some r" "bj_status r = ''queued''" for k r
      using that sub [of k r] j [of r] by auto
    ultimately show ?thesis using i1 i2 oth by auto
  next
    case (Some b)
    from claim_won_row [OF Cons.prems(1), of "clock j" j t1 b] c Some obtain r where r: "get_background_job j t = Some r"
        "b = to_running (clock j) r" "get_background_job j t1 = Some b" by blast
    have rj: "r \<in> set t" "bj_id r = j" using r(1) get_job_mem [OF Cons.prems(1)] by auto
    have b: "bj_id b = j" "bj_status b = ''running''" "0 < bj_attempts b"
      using rj r(2) Cons.prems(3) by (auto simp: to_running_def nonneg_def)
    have t': "t' = t2" "jobs = b # jobs2" using Cons.prems(4) c e Some by auto
    have "j \<notin> set js" using Cons.prems(2) by simp
    with ih Cons.prems(2) r(3) have "get_background_job j t2 = Some b" by simp
    with b have "held b t2" by (simp add: held_def)
    moreover have "k \<in> bj_id ` set (b # jobs2)" if "k \<in> set (j # js)" "get_background_job k t = Some r" "bj_status r = ''queued''" for k r
      using that sub [of k r] b(1) by auto
    moreover have "distinct (map bj_id (b # jobs2))" using i1(2,3) js(2) b(1) by auto
    moreover have "bj_id ` set (b # jobs2) \<subseteq> set (j # js)" using i1(3) b(1) by auto
    moreover have "\<forall>b \<in> set (b # jobs2). held b t2 \<and> 0 < bj_attempts b" using i1(4) b(3) calculation(1) by simp
    moreover have "get_background_job i t2 = get_background_job i t" if "i \<notin> set (j # js)" for i using that i2 oth by simp
    ultimately show ?thesis using i1(1) t' by blast
  qed
qed

lemma queued_ids_all:
  assumes "jobs_ok t" "length (filter (\<lambda>r. bj_status r = ''queued'') t) \<le> nat (clamp_limit limit 100)"
  shows "distinct (queued_ids limit t) \<and> set (queued_ids limit t) = bj_id ` {r \<in> set t. bj_status r = ''queued''}"
proof -
  let ?q = "filter (\<lambda>r. bj_status r = ''queued'') t"
  have p: "page bj_created_at (clamp_limit limit 100) 0 ?q = sort_key bj_created_at ?q"
    using assms(2) by (simp add: page_def take_int_def)
  have "distinct (map bj_id ?q)" using assms(1) by (simp add: jobs_ok_def distinct_map_filter)
  then have "distinct (map bj_id (sort_key bj_created_at ?q))" unfolding distinct_map by simp
  then show ?thesis by (simp add: queued_ids_def p)
qed

lemma run_pending_done:
  assumes ok: "jobs_ok t" and nn: "nonneg t" and qq: "quiet q"
    and few: "length (filter (\<lambda>r. bj_status r = ''queued'') t) \<le> nat (clamp_limit limit 100)"
    and g: "get_background_job j t = Some r" "bj_status r = ''queued''"
  shows "job_done j (fst (fst (run_pending q limit (t, w))))"
proof -
  obtain t' jobs where c: "claim_background_jobs (jq_clock q) limit t = (t', jobs)" by (cases "claim_background_jobs (jq_clock q) limit t")
  note i = queued_ids_all [OF ok few]
  have h: "jobs_ok t' \<and> distinct (map bj_id jobs) \<and> (\<forall>b \<in> set jobs. held b t' \<and> 0 < bj_attempts b)
      \<and> (\<forall>j \<in> set (queued_ids limit t). \<forall>r. get_background_job j t = Some r \<and> bj_status r = ''queued'' \<longrightarrow> j \<in> bj_id ` set jobs)"
    using claim_each_held [OF ok _ nn c [unfolded claim_background_jobs_def]] i by blast
  have "r \<in> set t" "bj_id r = j" using g(1) get_job_mem [OF ok] by auto
  then have "j \<in> bj_id ` set jobs" using h i g by auto
  with run_jobs_done [of "(t', w)" jobs q] h qq show ?thesis by (simp add: run_pending_def c)
qed

subsection \<open>Properties\<close>

text \<open>With the inline transport an enqueued job has run when \<^verbatim>\<open>enqueue\<close> returns: when at most 24 other
  jobs are queued and nothing but heartbeats touches the table meanwhile, the call returns
  the new identifier and its job has succeeded or failed, whatever the handlers did.\<close>
theorem inline_job_completes:
  assumes "jobs_ok t" and "nonneg t" and "quiet q" and "jq_transport q = Inline"
    and "dict_has (jq_handlers q) ty" and "''bg-'' @ fresh \<notin> bj_id ` set t"
    and "length (filter (\<lambda>r. bj_status r = ''queued'') t) \<le> 24"
  shows "\<exists>s' r. enqueue_job q fresh now i ty payload (t, w) = (s', Inr (''bg-'' @ fresh))
    \<and> queue_status (''bg-'' @ fresh) s' = Some r \<and> bj_status r \<in> {''succeeded'', ''failed''}"
proof -
  let ?j = "''bg-'' @ fresh"
  obtain row where row: "enqueue_background_job now i ?j ty payload t = Inr (t @ [row], get_background_job ?j (t @ [row]))"
      and st: "bj_id row = ?j" "bj_status row = ''queued''" "bj_attempts row = 0"
    using assms(6) by (auto simp: enqueue_background_job_def bindE_eq_Inr tbl_insert_Inr)
  have ok: "jobs_ok (t @ [row])" using assms(1,6) st(1) by (simp add: jobs_ok_def)
  have g: "get_background_job ?j (t @ [row]) = Some row" using get_job_mem [OF ok] st(1) by simp
  have nn: "nonneg (t @ [row])" using assms(2) st(3) by (simp add: nonneg_def)
  have few: "length (filter (\<lambda>r. bj_status r = ''queued'') (t @ [row])) \<le> nat (clamp_limit 25 100)"
    using assms(7) st(2) by (simp add: clamp_limit_def)
  have e: "enqueue_job q fresh now i ty payload (t, w) = (fst (run_pending q 25 (t @ [row], w)), Inr ?j)"
    using assms(4,5) row by (simp add: enqueue_job_def after_enqueue_def Let_def)
  from run_pending_done [OF ok nn assms(3) few g st(2), of w] obtain r
    where "get_background_job ?j (fst (fst (run_pending q 25 (t @ [row], w)))) = Some r" "terminal (bj_status r)"
    unfolding job_done_def by blast
  with e show ?thesis by (auto simp: queue_status_def terminal_def)
qed

text \<open>C33: publishing to SQS loses no job: when \<^verbatim>\<open>enqueue\<close> returns an identifier the message was sent and
  the job is queued; when it raises, no job is left waiting for a message that was never
  sent: the table is as before or the new row is failed with the transport's error.\<close>
theorem sqs_enqueue_accounted:
  assumes "jobs_ok t" and "jq_transport q = Sqs send" and "enqueue_job q fresh now i ty payload (t, w) = ((t', w'), r)"
  shows "case r of
      Inr j \<Rightarrow> send j w = (w', Inr ()) \<and> (\<exists>row. get_background_job j t' = Some row \<and> bj_status row = ''queued'' \<and> bj_payload row = payload)
    | Inl e \<Rightarrow> (t' = t \<and> w' = w) \<or> (\<exists>e' row. snd (send (''bg-'' @ fresh) w) = Inl e' \<and> get_background_job (''bg-'' @ fresh) t' = Some row
        \<and> bj_status row = ''failed'' \<and> bj_error row = Some (cut500 (''could not publish to SQS: '' @ err_text e')))"
proof (cases "dict_has (jq_handlers q) ty \<and> ''bg-'' @ fresh \<notin> bj_id ` set t")
  case False
  then have "enqueue_job q fresh now i ty payload (t, w) = ((t, w), r) \<and> (\<exists>e. r = Inl e)"
    using assms(3) by (auto simp: enqueue_job_def enqueue_background_job_def tbl_insert_def list_ex_iff Let_def split: if_splits)
  with assms(3) show ?thesis by auto
next
  case True
  obtain j where j: "''bg-'' @ fresh = j" by blast
  have True': "dict_has (jq_handlers q) ty" "j \<notin> bj_id ` set t" using True j by auto
  obtain row where row: "enqueue_background_job now i j ty payload t = Inr (t @ [row], get_background_job j (t @ [row]))"
      and st: "bj_id row = j" "bj_status row = ''queued''" "bj_payload row = payload"
    using True' by (auto simp: enqueue_background_job_def bindE_eq_Inr tbl_insert_Inr)
  have ok: "jobs_ok (t @ [row])" using assms(1) True' st(1) by (simp add: jobs_ok_def)
  have g: "get_background_job j (t @ [row]) = Some row" using get_job_mem [OF ok] st(1) by simp
  have q: "enqueue_job q fresh now i ty payload (t, w) = (case after_enqueue q j (t @ [row], w) of
      (s', Inl e) \<Rightarrow> (s', Inl e) | (s', Inr _) \<Rightarrow> (s', Inr j))"
    unfolding enqueue_job_def Let_def j using True' row by simp
  obtain w1 o1 where s: "send j w = (w1, o1)" by (cases "send j w")
  show ?thesis
  proof (cases o1)
    case (Inl e)
    let ?e = "cut500 (''could not publish to SQS: '' @ err_text e)"
    have a: "enqueue_job q fresh now i ty payload (t, w) = ((finished q j ''failed'' [] (Some ?e) None (t @ [row]), w1),
        Inl (RuntimeError (''background job '' @ j @ '' could not be published to the job queue'')))"
      unfolding q using assms(2) s Inl by (simp add: after_enqueue_def)
    have "finishable j None row" using st by (simp add: finishable_def)
    then have "get_background_job j (finished q j ''failed'' [] (Some ?e) None (t @ [row]))
        = Some (row\<lparr>bj_status := ''failed'', bj_finished_at := Some (jq_clock q j), bj_result := [], bj_error := Some ?e\<rparr>)"
      by (subst finished_get [OF ok g]) simp_all
    then show ?thesis using a assms(3) s Inl unfolding j by auto
  next
    case (Inr u)
    with assms(2,3) s g st show ?thesis unfolding q by (auto simp: after_enqueue_def)
  qed
qed


definition echo_queue :: "nat transport \<Rightarrow> nat job_queue" where
  "echo_queue tr = \<lparr>jq_handlers = [(''echo'', \<lambda>p w. (Suc w, Inr p))], jq_hooks = [], jq_transport = tr,
     jq_stale_us = 180000000, jq_clock = \<lambda>_. 5, jq_env = \<lambda>_. []\<rparr>"

lemma inline_job_completes_witness:
  "\<exists>s' r. enqueue_job (echo_queue Inline) ''1'' 1 ''i'' ''echo'' [] ([], 0) = (s', Inr (''bg-'' @ ''1''))
    \<and> queue_status (''bg-'' @ ''1'') s' = Some r \<and> bj_status r \<in> {''succeeded'', ''failed''}"
  by (rule inline_job_completes)
     (simp_all add: jobs_ok_def nonneg_def quiet_def echo_queue_def dict_has_def dict_get_def)

definition broken_send :: "string \<Rightarrow> nat \<Rightarrow> nat \<times> unit res" where
  "broken_send j w = (w, Inl (RuntimeError ''down''))"

lemma sqs_enqueue_accounted_witness:
  "\<exists>t' w' e row. enqueue_job (echo_queue (Sqs broken_send)) ''1'' 1 ''i'' ''echo'' [] ([], 0) = ((t', w'), Inl e)
    \<and> get_background_job ''bg-1'' t' = Some row \<and> bj_status row = ''failed''"
proof -
  have st: "map bj_status (fst (fst (enqueue_job (echo_queue (Sqs broken_send)) ''1'' 1 ''i'' ''echo'' [] ([], 0)))) = [''failed'']
      \<and> \<not> is_ok (snd (enqueue_job (echo_queue (Sqs broken_send)) ''1'' 1 ''i'' ''echo'' [] ([], 0)))" by code_simp
  obtain t' w' r where e: "enqueue_job (echo_queue (Sqs broken_send)) ''1'' 1 ''i'' ''echo'' [] ([], 0) = ((t', w'), r)"
    by (metis surj_pair)
  have q: "jq_transport (echo_queue (Sqs broken_send)) = Sqs broken_send" by (simp add: echo_queue_def)
  obtain x where x: "r = Inl x" using st e by (cases r) auto
  have "t' \<noteq> []" using st e by auto
  with sqs_enqueue_accounted [OF _ q e] x e show ?thesis by (auto simp: jobs_ok_def)
qed

text \<open>C32: the outcome of a run is recorded exactly when the run still owns its job: whatever other
  processes do to the table while the handler runs, afterwards the row is the one they left,
  finished with the handler's result or its error if it is unfinished and still in the
  same attempt, and untouched otherwise.\<close>
theorem run_job_recorded:
  assumes "jobs_ok t" and "claim_background_job now j t0 = (t, Some job)" and "jobs_ok t0"
    and "dict_get (jq_handlers q) (bj_type job) = Some h"
  shows "\<exists>r. get_background_job j (job_run (jq_env q j) t) = Some r
    \<and> get_background_job j (fst (fst (run_job q job (t, w)))) = Some (
        if bj_status r \<in> {''queued'', ''running''} \<and> bj_attempts r = job_attempt job then
          (case snd (h (dict_set (bj_payload job) ''_attempt'' (PInt (job_attempt job))) w) of
             Inl e \<Rightarrow> r\<lparr>bj_status := ''failed'', bj_finished_at := Some (jq_clock q j), bj_result := [],
                        bj_error := Some (cut500 (err_text e))\<rparr>
           | Inr result \<Rightarrow> r\<lparr>bj_status := ''succeeded'', bj_finished_at := Some (jq_clock q j), bj_result := result,
                        bj_error := None\<rparr>)
        else r)"
proof -
  from claim_won_row [OF assms(3,2)] have g: "get_background_job j t = Some job" by blast
  then have j: "bj_id job = j" using get_job_mem [OF assms(1)] by simp
  obtain r where r: "get_background_job j (job_run (jq_env q j) t) = Some r" using job_run_get [OF assms(1) g] by blast
  then have "bj_id r = j" using get_job_mem [OF job_run_ok [OF assms(1)]] by simp
  with run_job_row [OF assms(1) _ assms(4), of r w] r j show ?thesis by (simp add: finishable_def cong: sum.case_cong)
qed

lemma run_job_recorded_witness:
  "\<exists>t job r. claim_background_job 2 ''j'' [(sample_job ''j'' ''queued'' 0)\<lparr>bj_type := ''echo''\<rparr>] = (t, Some job)
    \<and> get_background_job ''j'' (fst (fst (run_job (echo_queue Base) job (t, 0)))) = Some r
    \<and> bj_status r = ''succeeded''"
proof -
  let ?t0 = "[(sample_job ''j'' ''queued'' 0)\<lparr>bj_type := ''echo''\<rparr>]"
  let ?job = "to_running 2 ((sample_job ''j'' ''queued'' 0)\<lparr>bj_type := ''echo''\<rparr>)"
  have c: "claim_background_job 2 ''j'' ?t0 = ([?job], Some ?job)" by code_simp
  have ok: "jobs_ok [?job]" "jobs_ok ?t0" by (simp_all add: jobs_ok_def)
  have h: "dict_get (jq_handlers (echo_queue Base)) (bj_type ?job) = Some (\<lambda>p w. (Suc w, Inr p))"
    by (simp add: echo_queue_def dict_get_def to_running_def)
  have "get_background_job ''j'' [?job] = Some ?job" by code_simp
  moreover have "jq_env (echo_queue Base) ''j'' = []" by (simp add: echo_queue_def)
  moreover have "bj_status ?job = ''running''" "bj_attempts ?job = job_attempt ?job" by code_simp+
  ultimately show ?thesis using run_job_recorded [OF ok(1) c ok(2) h, of 0] c by auto
qed

lemma run_job_queued:
  assumes g: "get_background_job i t = Some r" "bj_status r = ''queued''" and qq: "quiet q" and ne: "bj_id b \<noteq> i"
  shows "get_background_job i (fst (fst (run_job q b (t, w)))) = Some r"
proof -
  have "list_all heartbeat_op (jq_env q (bj_id b))" using qq by (simp add: quiet_def)
  from heartbeats_same_claim [OF this g(1)] obtain r' where r': "get_background_job i (job_run (jq_env q (bj_id b)) t) = Some r'" "same_claim r r'" by blast
  have "r' = r" using same_claim_fields(4) [OF r'(2)] g(2) by simp
  then show ?thesis using r'(1) g(1) ne not_sym [OF ne]
    by (simp add: run_job_table finished_other split: option.splits prod.splits sum.splits)
qed

text \<open>A worker takes only the jobs its messages name: consuming SQS messages, with handlers that do
  not touch the job table, leaves every queued job that no message names exactly as it was.\<close>
theorem consume_only_named:
  assumes "jobs_ok t" and "bj_status r = ''queued''" and "get_background_job i t = Some r" and "quiet q"
    and "\<forall>m \<in> set ms. message_job_id rep m \<noteq> Inr i"
  shows "get_background_job i (fst (fst (consume_messages q rep del ms (t, w)))) = Some r"
  using assms
proof (induction ms arbitrary: t w)
  case Nil
  then show ?case by simp
next
  case (Cons m ms)
  show ?case
  proof (cases "message_job_id rep m")
    case (Inl e)
    then show ?thesis using Cons.prems(3) by simp
  next
    case (Inr j)
    then have ne: "i \<noteq> j" using Cons.prems(5) by auto
    obtain t1 o1 where c: "(if j = [] then (t, None) else claim_background_job (jq_clock q j) j t) = (t1, o1)" by fastforce
    have t1: "jobs_ok t1 \<and> get_background_job i t1 = Some r"
      using c Cons.prems(1,3) queue_claim_ok [OF Cons.prems(1), of "jq_clock q j" j] claim_other [OF ne, of "jq_clock q j" t]
      by (auto split: if_splits)
    obtain t2 w2 where s2: "(case o1 of None \<Rightarrow> (t1, w) | Some b \<Rightarrow> fst (run_job q b (t1, w))) = (t2, w2)" by fastforce
    have "jobs_ok t2 \<and> get_background_job i t2 = Some r"
    proof (cases o1)
      case None
      then show ?thesis using s2 t1 by simp
    next
      case (Some b)
      with c claim_won_row [OF Cons.prems(1), of "jq_clock q j" j t1 b] have "get_background_job j t1 = Some b" by (auto split: if_splits)
      then have "bj_id b = j" using t1 get_job_mem by blast
      then have "get_background_job i (fst (fst (run_job q b (t1, w)))) = Some r"
        using t1 Cons.prems(2,4) ne by (intro run_job_queued) auto
      then show ?thesis using s2 Some run_job_ok [of t1 q b w] t1 by auto
    qed
    with Cons.IH [of t2 "del (sm_receipt m) w2"] Cons.prems(2,4,5)
    have "get_background_job i (fst (fst (consume_messages q rep del ms (t2, del (sm_receipt m) w2)))) = Some r" by simp
    moreover have "fst (consume_messages q rep del (m # ms) (t, w)) = fst (consume_messages q rep del ms (t2, del (sm_receipt m) w2))"
      by (simp only: consume_messages.simps Inr sum.case fst_conv snd_conv c s2 prod.case) (simp split: prod.splits sum.splits)
    ultimately show ?thesis by simp
  qed
qed

lemma consume_only_named_witness:
  "get_background_job ''j2'' (fst (fst (consume_messages (echo_queue Base) (\<lambda>_. []) (\<lambda>r w. w)
      [\<lparr>sm_body = Some (PDict [(''job_id'', PStr ''j1'')]), sm_receipt = ''r''\<rparr>]
      ([sample_job ''j1'' ''queued'' 0, sample_job ''j2'' ''queued'' 0], 0)))) = Some (sample_job ''j2'' ''queued'' 0)"
  by (rule consume_only_named)
     (simp_all add: jobs_ok_def quiet_def echo_queue_def sample_job_def get_background_job_def message_job_id_def dict_get_def py_str_def)

end
