(* ===== verification/Sources.thy ===== *)
theory Sources
  imports Policy
begin

text \<open>
  What may be read and through what: the source registry of
  \<^verbatim>\<open>config/source_registry.py\<close>, the tool definitions and registry of \<^verbatim>\<open>tools/\<close> and the
  connector boundary of \<^verbatim>\<open>connectors/\<close> with its one in-tree connector. A registry is a
  dictionary from the identifier to the entry, filled by \<open>register\<close>, which refuses a
  duplicate. A connector is a function: its answer may depend on how many calls
  came before, so that a stateful connector is covered.
\<close>

subsection \<open>Registries\<close>

text \<open>\<^verbatim>\<open>register\<close> and \<^verbatim>\<open>get\<close>, which the three registries write out with their own messages.\<close>

definition reg_register :: "('d \<Rightarrow> string) \<Rightarrow> string \<Rightarrow> 'd \<Rightarrow> 'd dict \<Rightarrow> 'd dict res" where
  "reg_register key what d r =
     (if dict_has r (key d) then Inl (ValueError (what @ '' already registered: '' @ key d))
      else Inr (dict_set r (key d) d))"

definition reg_get :: "string \<Rightarrow> string \<Rightarrow> 'd dict \<Rightarrow> 'd res" where
  "reg_get msg k r = (case dict_get r k of Some d \<Rightarrow> Inr d | None \<Rightarrow> Inl (KeyError (msg @ k)))"

fun reg_all :: "('d \<Rightarrow> string) \<Rightarrow> string \<Rightarrow> 'd list \<Rightarrow> 'd dict \<Rightarrow> 'd dict res" where
  "reg_all key what [] r = Inr r"
| "reg_all key what (d # ds) r = bindE (reg_register key what d r) (reg_all key what ds)"

text \<open>Every entry is found under its own identifier.\<close>

definition reg_ok :: "('d \<Rightarrow> string) \<Rightarrow> 'd dict \<Rightarrow> bool" where
  "reg_ok key r = (wf_dict r \<and> list_all (\<lambda>(k, d). key d = k) r)"

lemma reg_ok_Nil [simp]: "reg_ok key []"
  by (simp add: reg_ok_def)

lemma reg_register_ok [inv_intros]: "reg_ok key r \<Longrightarrow> reg_register key w d r = Inr r' \<Longrightarrow> reg_ok key r'"
  by (auto simp: reg_register_def reg_ok_def dict_set_new wf_dict_set wf_dict_def dict_has_keys dict_keys_def split: if_splits)

lemma reg_all_ok [inv_intros]: "reg_ok key r \<Longrightarrow> reg_all key w ds r = Inr r' \<Longrightarrow> reg_ok key r'"
  by (induction ds arbitrary: r) (auto simp: bindE_eq_Inr intro: reg_register_ok)

lemma reg_get_Inr [py_simps]: "reg_get m k r = Inr d \<longleftrightarrow> dict_get r k = Some d"
  by (simp add: reg_get_def split: option.splits)

lemma reg_ok_get: "reg_ok key r \<Longrightarrow> dict_get r k = Some d \<Longrightarrow> key d = k \<and> d \<in> set (dict_values r)"
  by (force simp: reg_ok_def dict_get_def dict_values_def list_all_iff dest: map_of_SomeD)

lemma reg_ok_values: "reg_ok key r \<Longrightarrow> d \<in> set (dict_values r) \<Longrightarrow> dict_get r (key d) = Some d"
  by (force simp: reg_ok_def dict_get_def dict_values_def list_all_iff wf_dict_def)

lemma reg_register_get: "reg_register key w d r = Inr r' \<Longrightarrow>
    dict_get r' k = (if k = key d then Some d else dict_get r k)"
  by (auto simp: reg_register_def dict_get_set split: if_splits)

subsection \<open>Sources: \<^verbatim>\<open>config/source_registry.py\<close>\<close>

datatype source_lifecycle = S_ACTIVE | S_DISABLED

fun source_lifecycle_value :: "source_lifecycle \<Rightarrow> string" where
  "source_lifecycle_value S_ACTIVE = ''active''"
| "source_lifecycle_value S_DISABLED = ''disabled''"

record source_definition =
  sd_source_id :: string
  sd_institution_id :: string
  sd_display_name :: string
  sd_connector_type :: string
  sd_allowed_tools :: "string list"
  sd_classification :: classification
  sd_status :: source_lifecycle
  sd_timezone :: string

definition mk_source_definition :: "string \<Rightarrow> string \<Rightarrow> string \<Rightarrow> string \<Rightarrow> string list \<Rightarrow> string
    \<Rightarrow> string \<Rightarrow> string \<Rightarrow> source_definition res" where
  "mk_source_definition sid iid dn ct tools cl st tz =
     (if blank sid then Inl (ValueError ''source_id must not be blank'')
      else if blank iid then Inl (ValueError ''institution_id must not be blank'')
      else if blank dn then Inl (ValueError ''display_name must not be blank'')
      else if blank ct then Inl (ValueError ''connector_type must not be blank'')
      else
        bindE (by_value classification_value [C_PUBLIC, C_INTERNAL, C_CONFIDENTIAL, C_RESTRICTED] cl) (\<lambda>c.
        bindE (by_value source_lifecycle_value [S_ACTIVE, S_DISABLED] st) (\<lambda>l.
        Inr \<lparr>sd_source_id = sid, sd_institution_id = iid, sd_display_name = dn, sd_connector_type = ct,
             sd_allowed_tools = tools, sd_classification = c, sd_status = l, sd_timezone = tz\<rparr>)))"

type_synonym source_registry = "source_definition dict"

definition source_register :: "source_definition \<Rightarrow> source_registry \<Rightarrow> source_registry res" where
  "source_register = reg_register sd_source_id ''source''"

definition new_source_registry :: "source_definition list \<Rightarrow> source_registry res" where
  "new_source_registry ds = reg_all sd_source_id ''source'' ds []"

definition source_get :: "source_registry \<Rightarrow> string \<Rightarrow> source_definition res" where
  "source_get r sid = reg_get ''unknown source: '' sid r"

definition sources_active :: "source_registry \<Rightarrow> source_definition list" where
  "sources_active r = filter (\<lambda>d. sd_status d = S_ACTIVE) (dict_values r)"

definition sources_for_institution :: "source_registry \<Rightarrow> string \<Rightarrow> source_definition list" where
  "sources_for_institution r iid = filter (\<lambda>d. sd_institution_id d = iid) (sources_active r)"

definition sources_all :: "source_registry \<Rightarrow> source_definition list" where
  "sources_all r = dict_values r"

subsection \<open>Tools: \<^verbatim>\<open>tools/\<close>\<close>

record tool_definition =
  td_name :: string
  td_description :: string
  td_required_capability :: capability
  td_source_ids :: "string list"
  td_classification :: classification
  td_disclosure :: disclosure
  td_read_only :: bool
  td_supports_department :: bool
  td_supports_batch :: bool

definition mk_tool_definition :: "string \<Rightarrow> string \<Rightarrow> capability \<Rightarrow> string list \<Rightarrow> classification
    \<Rightarrow> disclosure \<Rightarrow> bool \<Rightarrow> bool \<Rightarrow> bool \<Rightarrow> tool_definition res" where
  "mk_tool_definition nm desc cap sids cl lv ro dep bat =
     (if blank nm then Inl (ValueError ''tool name must not be blank'')
      else if \<not> ro then Inl (ValueError ''Agent Saffron only registers read-only tools'')
      else Inr \<lparr>td_name = nm, td_description = desc, td_required_capability = cap, td_source_ids = sids,
                td_classification = cl, td_disclosure = lv, td_read_only = ro,
                td_supports_department = dep, td_supports_batch = bat\<rparr>)"

definition allows_source :: "tool_definition \<Rightarrow> string \<Rightarrow> bool" where
  "allows_source t sid = (sid \<in> set (td_source_ids t))"

type_synonym read_tool_registry = "tool_definition dict"

definition tool_register :: "tool_definition \<Rightarrow> read_tool_registry \<Rightarrow> read_tool_registry res" where
  "tool_register = reg_register td_name ''tool''"

definition new_tool_registry :: "tool_definition list \<Rightarrow> read_tool_registry res" where
  "new_tool_registry ts = reg_all td_name ''tool'' ts []"

definition tool_get :: "read_tool_registry \<Rightarrow> string \<Rightarrow> tool_definition res" where
  "tool_get r nm = reg_get ''tool not registered: '' nm r"

definition tools_all :: "read_tool_registry \<Rightarrow> tool_definition list" where
  "tools_all r = dict_values r"

definition tool_names :: "read_tool_registry \<Rightarrow> string list" where
  "tool_names r = dict_keys r"

definition validate_tools_against_sources :: "tool_definition list \<Rightarrow> source_registry \<Rightarrow> unit res" where
  "validate_tools_against_sources ts r =
     bindE (mapE (\<lambda>t. mapE (source_get r) (td_source_ids t)) ts) (\<lambda>_. Inr ())"

definition build_college_tools :: "string list \<Rightarrow> tool_definition list res" where
  "build_college_tools sids =
     mapE (\<lambda>(nm, desc). mk_tool_definition nm desc ASK_READ_ONLY sids C_CONFIDENTIAL D_AGGREGATE True False False)
       [(''institution.overview'', ''Return aggregate institution counts and headline indicators.''),
        (''institution.attendance_summary'', ''Return aggregate attendance indicators by department.'')]"

definition build_health_tools :: "string list \<Rightarrow> tool_definition list res" where
  "build_health_tools sids =
     mapE (\<lambda>(nm, desc). mk_tool_definition nm desc VIEW_SOURCE_METADATA sids C_INTERNAL D_AGGREGATE True False False)
       [(''institution.source_health'', ''Read the health state of an approved institution source.'')]"

text \<open>No tool that writes can be defined, and validated tools name registered sources only.\<close>

lemma mk_tool_read_only: "mk_tool_definition nm desc cap sids cl lv ro dep bat = Inr t \<Longrightarrow> td_read_only t \<and> \<not> blank (td_name t)"
  by (auto simp: mk_tool_definition_def split: if_splits)

lemma validated_tool_sources:
  assumes "validate_tools_against_sources ts r = Inr u" and "t \<in> set ts" and "sid \<in> set (td_source_ids t)"
  shows "dict_has r sid"
proof -
  from assms(1) obtain zs where "mapE (\<lambda>t. mapE (source_get r) (td_source_ids t)) ts = Inr zs"
    by (auto simp: validate_tools_against_sources_def bindE_eq_Inr)
  from mapE_each [OF this assms(2)] obtain ws where "mapE (source_get r) (td_source_ids t) = Inr ws"
    by (auto simp: is_ok_iff)
  from mapE_each [OF this assms(3)] show ?thesis
    by (auto simp: is_ok_iff source_get_def reg_get_Inr dict_has_def)
qed

end
