(* ===== verification/Connectors.thy ===== *)
theory Connectors
  imports Sources
begin

text \<open>
  The connector boundary of \<^verbatim>\<open>connectors/\<close>: the context a connector receives, the registry,
  the argument limits, the statement guard for SQL adapters and the College A
  connector. A connector is its source id and the function its \<^verbatim>\<open>execute\<close> is; the number
  that function takes first counts the earlier calls, so a connector may keep state.
\<close>

subsection \<open>Context and registry\<close>

record connector_context =
  cc_request_id :: string
  cc_source_id :: string
  cc_limits :: query_limits
  cc_principal_id :: "string option"
  cc_principal_type :: "principal_type option"
  cc_scope :: "scope option"
  cc_capabilities :: "capability set"
  cc_consent_verified :: bool
  cc_revoked :: bool

definition mk_connector_context :: "string \<Rightarrow> string \<Rightarrow> query_limits \<Rightarrow> string option \<Rightarrow> principal_type option
    \<Rightarrow> scope option \<Rightarrow> capability set \<Rightarrow> bool \<Rightarrow> bool \<Rightarrow> connector_context res" where
  "mk_connector_context rid sid lims pid pty sc caps consent rvk =
     (if blank rid \<or> blank sid then Inl (ValueError ''connector context identifiers must not be blank'')
      else Inr \<lparr>cc_request_id = rid, cc_source_id = sid, cc_limits = lims, cc_principal_id = pid,
                cc_principal_type = pty, cc_scope = sc, cc_capabilities = caps,
                cc_consent_verified = consent, cc_revoked = rvk\<rparr>)"

type_synonym connector_fun = "nat \<Rightarrow> string \<Rightarrow> pyval dict \<Rightarrow> connector_context \<Rightarrow> tool_result res"

record connector =
  cn_source_id :: string
  cn_execute :: connector_fun

type_synonym connector_registry = "connector dict"

definition connector_register :: "connector \<Rightarrow> connector_registry \<Rightarrow> connector_registry res" where
  "connector_register = reg_register cn_source_id ''connector''"

definition new_connector_registry :: "connector list \<Rightarrow> connector_registry res" where
  "new_connector_registry cs = reg_all cn_source_id ''connector'' cs []"

definition connector_get :: "connector_registry \<Rightarrow> string \<Rightarrow> connector res" where
  "connector_get r sid = reg_get ''connector not registered: '' sid r"

definition connectors_all :: "connector_registry \<Rightarrow> connector list" where
  "connectors_all r = dict_values r"

definition unavailable_result :: "string \<Rightarrow> string \<Rightarrow> string \<Rightarrow> tool_result res" where
  "unavailable_result tool sid msg =
     bindE (mk_warning ''source_unavailable'' msg (Some sid)) (\<lambda>w.
     mk_tool_result tool ''unavailable'' PNone [] [w])"

subsection \<open>Limits: \<^verbatim>\<open>connectors/common/limits.py\<close>\<close>

definition bounded_int :: "pyval dict \<Rightarrow> string \<Rightarrow> int \<Rightarrow> int \<Rightarrow> int res" where
  "bounded_int args k dflt mx =
     (case (case dict_get args k of None \<Rightarrow> PInt dflt | Some v \<Rightarrow> v) of
        PInt i \<Rightarrow> if i < 0 \<or> mx < i then Inl (ValueError (k @ '' must be between 0 and '' @ int_str mx)) else Inr i
      | _ \<Rightarrow> Inl (ValueError (k @ '' must be an integer'')))"

definition ensure_within_limits :: "connector_context \<Rightarrow> int \<Rightarrow> unit res" where
  "ensure_within_limits ctx n =
     guardE (\<not> max_rows (cc_limits ctx) < n) (ValueError ''requested rows exceed the configured connector limit'')"

lemma bounded_int_range: "bounded_int args k dflt mx = Inr i \<Longrightarrow> 0 \<le> i \<and> i \<le> mx"
  by (auto simp: bounded_int_def split: pyval.splits option.splits if_splits)

subsection \<open>SQL safety: \<^verbatim>\<open>connectors/common/sql_safety.py\<close>\<close>

definition ascii_letter :: "char \<Rightarrow> bool" where
  "ascii_letter c = (is_alpha c \<or> c = CHR ''_'')"

definition validate_identifier :: "string \<Rightarrow> string res" where
  "validate_identifier v =
     (case v of
        [] \<Rightarrow> Inl (ValueError ''unsafe SQL identifier'')
      | c # cs \<Rightarrow> if ascii_letter c \<and> length cs \<le> 62 \<and> list_all (\<lambda>x. ascii_letter x \<or> is_digit x) cs
          then Inr v else Inl (ValueError ''unsafe SQL identifier''))"

definition forbidden_tokens :: "string list" where
  "forbidden_tokens = ['' insert '', '' update '', '' delete '', '' drop '', '' alter '', '' truncate '', '';'']"

definition read_only_statement :: "string \<Rightarrow> string res" where
  "read_only_statement st =
     (let n = py_lower (py_strip st)
      in if \<not> list_ex (\<lambda>p. prefix p n) [''select'', ''with'', ''show'', ''explain'']
           then Inl (ValueError ''only read-only statements are permitted'')
         else if list_ex (\<lambda>t. py_in t ('' '' @ n @ '' '')) forbidden_tokens
           then Inl (ValueError ''statement contains a prohibited write or multi-statement token'')
         else Inr (py_strip st))"

lemma validate_identifier_safe:
  "validate_identifier v = Inr w \<Longrightarrow> w = v \<and> v \<noteq> [] \<and> length v \<le> 63
    \<and> list_all (\<lambda>x. ascii_letter x \<or> is_digit x) v"
  by (auto simp: validate_identifier_def split: list.splits if_splits)

text \<open>
  The guard looks for a write verb between two spaces only: after a parenthesis, or before
  a line break, it is not found.
\<close>

lemma writable_cte_accepted:
  "read_only_statement ''with x as (delete from marks returning *) select * from x''
     = Inr ''with x as (delete from marks returning *) select * from x''"
  by code_simp

subsection \<open>College A: \<^verbatim>\<open>connectors/college_a/connector.py\<close>\<close>

definition demo_health :: "int \<Rightarrow> string \<Rightarrow> string \<Rightarrow> string \<Rightarrow> string \<Rightarrow> source_health res" where
  "demo_health now sid iid dn ct =
     mk_source_health sid iid ''healthy'' (Aware now) dn ct (Some now) (Some 1) ''current''
       ''deterministic in-memory demo connector; no institutional system was contacted''"

definition college_a_source_id :: string where "college_a_source_id = ''college_a_demo''"
definition college_a_institution_id :: string where "college_a_institution_id = ''college_a''"
definition college_a_display_name :: string where "college_a_display_name = ''College A (local demo)''"

definition college_a_health :: "int \<Rightarrow> source_health res" where
  "college_a_health now = demo_health now college_a_source_id college_a_institution_id college_a_display_name ''in_memory_demo''"

definition college_a_departments :: "pyval list" where
  "college_a_departments = [
     PDict [(''department_id'', PStr ''dept-cse''), (''name'', PStr ''Computer Science''), (''attendance_rate_percent'', PFloat (891 / 10))],
     PDict [(''department_id'', PStr ''dept-ece''), (''name'', PStr ''Electronics''), (''attendance_rate_percent'', PFloat (858 / 10))],
     PDict [(''department_id'', PStr ''dept-me''), (''name'', PStr ''Mechanical''), (''attendance_rate_percent'', PFloat (836 / 10))]]"

definition college_a_overview :: "pyval dict" where
  "college_a_overview = [
     (''institution_id'', PStr college_a_institution_id),
     (''institution_name'', PStr ''College A (demo data)''),
     (''active_students'', PInt 1240), (''active_faculty'', PInt 86), (''departments'', PInt 8),
     (''attendance_rate_percent'', PFloat (874 / 10))]"

definition college_a_attendance :: "pyval dict \<Rightarrow> connector_context \<Rightarrow> pyval dict res" where
  "college_a_attendance args ctx =
     bindE (bounded_int args ''limit'' 3 (max_rows (cc_limits ctx))) (\<lambda>n.
     bindE (ensure_within_limits ctx n) (\<lambda>_.
     Inr [(''period'', PStr ''current_demo_term''), (''attendance_rate_percent'', PFloat (874 / 10)),
          (''at_risk_cohort_count'', PInt 3),
          (''departments'', PList (take_int (if n = 0 then int (length college_a_departments) else n) college_a_departments))]))"

text \<open>The data of a tool, or None for a tool the connector does not implement.\<close>

definition college_a_data :: "int \<Rightarrow> string \<Rightarrow> pyval dict \<Rightarrow> connector_context \<Rightarrow> pyval dict option res" where
  "college_a_data now tool args ctx =
     (if tool = ''institution.overview'' then Inr (Some college_a_overview)
      else if tool = ''institution.attendance_summary'' then map_sum id Some (college_a_attendance args ctx)
      else if tool = ''institution.source_health'' then
        bindE (college_a_health now) (\<lambda>h. Inr (Some [
          (''source_id'', PStr (sh_source_id h)), (''institution_id'', PStr (sh_institution_id h)),
          (''status'', PStr (health_value (sh_status h))), (''freshness'', PStr (freshness_value (sh_freshness h))),
          (''detail'', PStr (sh_detail h))]))
      else Inr None)"

definition college_a_execute :: "(nat \<Rightarrow> int) \<Rightarrow> connector_fun" where
  "college_a_execute now n tool args ctx =
     (if cc_source_id ctx \<noteq> college_a_source_id then
        bindE (mk_warning ''source_mismatch'' ''connector context did not match the connector source'' (Some college_a_source_id)) (\<lambda>w.
        mk_tool_result tool ''invalid_result'' PNone [] [w])
      else bindE (college_a_data (now n) tool args ctx) (\<lambda>r. case r of
        None \<Rightarrow> bindE (mk_warning ''unsupported_tool'' (''demo connector does not implement '' @ tool) (Some college_a_source_id)) (\<lambda>w.
          mk_tool_result tool ''unavailable'' PNone [] [w])
      | Some v \<Rightarrow>
          bindE (mk_provenance college_a_source_id ''control_plane'' (Aware (now n)) True 1 None []) (\<lambda>pr.
          bindE (mk_warning ''demo_data'' ''This result is deterministic demo data and did not contact a college system'' (Some college_a_source_id)) (\<lambda>w.
          mk_tool_result tool ''success'' (PDict v) [pr] [w]))))"

definition college_a_connector :: "(nat \<Rightarrow> int) \<Rightarrow> connector" where
  "college_a_connector now = \<lparr>cn_source_id = college_a_source_id, cn_execute = college_a_execute now\<rparr>"

end
