(* ===== verification/RemoteHttp.thy ===== *)
theory RemoteHttp
  imports Connectors
begin

text \<open>
  The connector for institution-local tool services, \<^verbatim>\<open>connectors/remote_http.py\<close>. The
  network is a function from the number of the call and the request to what the HTTP
  client delivers: a timeout, an error, or a response whose body comes in chunks.
  \<^verbatim>\<open>json.loads\<close>, \<^verbatim>\<open>datetime.fromisoformat\<close>, \<^verbatim>\<open>repr\<close>, \<^verbatim>\<open>urlparse\<close> and the rounding of a
  duration to milliseconds are the fields of \<open>py_lib\<close>.
\<close>

subsection \<open>The boundary\<close>

record url_parts =
  url_scheme :: string
  url_netloc :: string
  url_username :: "string option"
  url_password :: "string option"
  url_query :: string
  url_fragment :: string

record py_lib =
  lib_json :: "string \<Rightarrow> pyval res"
  lib_iso :: "string \<Rightarrow> py_datetime option"
  lib_repr :: "pyval \<Rightarrow> string"
  lib_urlparse :: "string \<Rightarrow> url_parts"
  lib_ms :: "int \<Rightarrow> int"

record http_request =
  hq_method :: string
  hq_url :: string
  hq_headers :: "string dict"
  hq_payload :: "pyval dict option"

datatype body_event = Chunk string | Read_timeout | Read_error

datatype http_outcome =
    Http_timeout
  | Http_error
  | Http_response bool "string option" "body_event list"

datatype remote_fault = Timed_out | Too_large | Http_failed | Bad_value string

type_synonym http_transport = "nat \<Rightarrow> http_request \<Rightarrow> http_outcome"

subsection \<open>Parsing what the service sends\<close>

text \<open>
  A declared length over the bound raises inside the \<^verbatim>\<open>try\<close> that catches every ValueError,
  so it leaves as the error about an invalid length.
\<close>

fun read_chunks :: "int \<Rightarrow> int \<Rightarrow> body_event list \<Rightarrow> remote_fault + string" where
  "read_chunks mx got [] = Inr []"
| "read_chunks mx got (Read_timeout # es) = Inl Timed_out"
| "read_chunks mx got (Read_error # es) = Inl Http_failed"
| "read_chunks mx got (Chunk c # es) =
     (if mx < got + int (length c) then Inl Too_large
      else (case read_chunks mx (got + int (length c)) es of Inl f \<Rightarrow> Inl f | Inr s \<Rightarrow> Inr (c @ s)))"

definition read_bounded :: "string option \<Rightarrow> body_event list \<Rightarrow> int \<Rightarrow> remote_fault + string" where
  "read_bounded content_length body mx =
     (case content_length of
        Some (h # hs) \<Rightarrow> (case py_int_of (h # hs) of
            None \<Rightarrow> Inl (Bad_value ''connector returned an invalid content length'')
          | Some n \<Rightarrow> if mx < n then Inl (Bad_value ''connector returned an invalid content length'')
              else read_chunks mx 0 body)
      | _ \<Rightarrow> read_chunks mx 0 body)"

lemma read_chunks_bounded: "read_chunks mx got es = Inr s \<Longrightarrow> s = [] \<or> got + int (length s) \<le> mx"
proof (induction mx got es arbitrary: s rule: read_chunks.induct)
  case (4 mx got c es)
  then obtain s' where s': "read_chunks mx (got + int (length c)) es = Inr s'" "s = c @ s'"
      and "\<not> mx < got + int (length c)"
    by (auto split: if_splits sum.splits)
  with "4.IH" [of s'] show ?case by auto
qed auto

definition replace_Z :: "string \<Rightarrow> string" where
  "replace_Z s = concat (map (\<lambda>c. if c = CHR ''Z'' then ''+00:00'' else [c]) s)"

definition parse_datetime :: "py_lib \<Rightarrow> pyval \<Rightarrow> int option" where
  "parse_datetime L v = (case v of
      PStr s \<Rightarrow> if blank s then None else (case lib_iso L (replace_Z s) of Some (Aware t) \<Rightarrow> Some t | _ \<Rightarrow> None)
    | _ \<Rightarrow> None)"

definition parse_period :: "py_lib \<Rightarrow> pyval \<Rightarrow> data_period option" where
  "parse_period L v = (case v of
      PDict d \<Rightarrow>
        (case (parse_datetime L (py_or (get_or_none d ''started_at'') (get_or_none d ''start'')),
               parse_datetime L (py_or (get_or_none d ''ended_at'') (get_or_none d ''end''))) of
           (Some s, Some e) \<Rightarrow> (case mk_data_period (Aware s) (Aware e) of Inr p \<Rightarrow> Some p | Inl _ \<Rightarrow> None)
         | _ \<Rightarrow> None)
    | _ \<Rightarrow> None)"

definition parse_scope :: "pyval \<Rightarrow> scope option" where
  "parse_scope v = (case v of
      PDict d \<Rightarrow> (case get_or_none d ''college_id'' of
          PStr c \<Rightarrow> (case mk_scope c (as_str (get_or_none d ''department_id'')) (as_str (get_or_none d ''batch_id'')) of
              Inr s \<Rightarrow> Some s | Inl _ \<Rightarrow> None)
        | _ \<Rightarrow> None)
    | _ \<Rightarrow> None)"

definition safe_text :: "pyval \<Rightarrow> string \<Rightarrow> string" where
  "safe_text v dflt = (case v of PStr s \<Rightarrow> take 500 (py_strip s) | _ \<Rightarrow> dflt)"

text \<open>\<^verbatim>\<open>d.get(k, default)\<close> and \<^verbatim>\<open>int(x)\<close>.\<close>

definition get_default :: "pyval dict \<Rightarrow> string \<Rightarrow> pyval \<Rightarrow> pyval" where
  "get_default d k v = (case dict_get d k of Some x \<Rightarrow> x | None \<Rightarrow> v)"

definition py_int :: "pyval \<Rightarrow> int res" where
  "py_int v = (case v of
      PInt i \<Rightarrow> Inr i | PBool b \<Rightarrow> Inr (if b then 1 else 0)
    | PFloat r \<Rightarrow> Inr (if 0 \<le> r then \<lfloor>r\<rfloor> else \<lceil>r\<rceil>)
    | PStr s \<Rightarrow> (case py_int_of s of Some i \<Rightarrow> Inr i | None \<Rightarrow> Inl (ValueError ''invalid literal for int()''))
    | _ \<Rightarrow> Inl (TypeError ''int() argument must be a string or a number''))"

subsection \<open>The connector\<close>

record remote_connector =
  rc_source_id :: string
  rc_institution_id :: string
  rc_display_name :: string
  rc_base_url :: string
  rc_allowed_tools :: "string set"
  rc_timeout_seconds :: rat
  rc_max_response_bytes :: int
  rc_auth_token :: "string option"
  rc_attestation_required :: bool

definition truthy_text :: "string option \<Rightarrow> bool" where
  "truthy_text t = (case t of Some (c # cs) \<Rightarrow> True | _ \<Rightarrow> False)"

definition mk_remote_connector :: "py_lib \<Rightarrow> string \<Rightarrow> string \<Rightarrow> string \<Rightarrow> string \<Rightarrow> string set \<Rightarrow> rat \<Rightarrow> int
    \<Rightarrow> string option \<Rightarrow> bool \<Rightarrow> remote_connector res" where
  "mk_remote_connector L sid iid dn url tools tmo mx tok att =
     (if blank sid then Inl (ValueError ''source_id must not be blank'')
      else if blank iid then Inl (ValueError ''institution_id must not be blank'')
      else if blank dn then Inl (ValueError ''display_name must not be blank'')
      else if blank url then Inl (ValueError ''base_url must not be blank'')
      else let p = lib_urlparse L url
      in if url_scheme p \<notin> {''http'', ''https''} \<or> url_netloc p = []
           then Inl (ValueError ''connector base URL must be an absolute HTTP(S) URL'')
         else if truthy_text (url_username p) \<or> truthy_text (url_password p) \<or> url_query p \<noteq> [] \<or> url_fragment p \<noteq> []
           then Inl (ValueError ''connector base URL must not contain credentials, query, or fragment data'')
         else if tools = {} then Inl (ValueError ''connector must declare at least one approved tool'')
         else if tmo \<le> 0 then Inl (ValueError ''connector timeout must be positive'')
         else if mx \<le> 0 then Inl (ValueError ''connector max response bytes must be positive'')
         else Inr \<lparr>rc_source_id = sid, rc_institution_id = iid, rc_display_name = dn, rc_base_url = url,
                   rc_allowed_tools = tools, rc_timeout_seconds = tmo, rc_max_response_bytes = mx,
                   rc_auth_token = tok, rc_attestation_required = att\<rparr>)"

definition remote_root :: "remote_connector \<Rightarrow> string" where
  "remote_root c = py_rstrip_char CHR ''/'' (rc_base_url c)"

definition remote_headers :: "remote_connector \<Rightarrow> string option \<Rightarrow> string dict" where
  "remote_headers c rid =
     [(''Accept'', ''application/json''), (''X-Guru-Connector-Contract'', ''2'')]
     @ (case rid of Some (x # xs) \<Rightarrow> [(''X-Request-ID'', x # xs)] | _ \<Rightarrow> [])
     @ (case rc_auth_token c of Some (x # xs) \<Rightarrow> [(''Authorization'', ''Bearer '' @ x # xs)] | _ \<Rightarrow> [])"

definition request_json :: "py_lib \<Rightarrow> http_outcome \<Rightarrow> remote_connector \<Rightarrow> remote_fault + pyval dict" where
  "request_json L outcome c =
     (case outcome of
        Http_timeout \<Rightarrow> Inl Timed_out
      | Http_error \<Rightarrow> Inl Http_failed
      | Http_response ok len body \<Rightarrow>
          if \<not> ok then Inl Http_failed
          else bindE (read_bounded len body (rc_max_response_bytes c)) (\<lambda>raw.
            case lib_json L raw of
              Inl _ \<Rightarrow> Inl (Bad_value ''connector returned invalid JSON'')
            | Inr (PDict d) \<Rightarrow> Inr d
            | Inr _ \<Rightarrow> Inl (Bad_value ''connector response must be a JSON object'')))"

definition remote_request :: "remote_connector \<Rightarrow> string \<Rightarrow> string \<Rightarrow> string option \<Rightarrow> pyval dict option \<Rightarrow> http_request" where
  "remote_request c meth path rid payload =
     \<lparr>hq_method = meth, hq_url = remote_root c @ path,
      hq_headers = remote_headers c rid @ (if payload \<noteq> None then [(''Content-Type'', ''application/json'')] else []),
      hq_payload = payload\<rparr>"

subsection \<open>Health\<close>

definition remote_health_of :: "remote_connector \<Rightarrow> string \<Rightarrow> int \<Rightarrow> int option \<Rightarrow> int option \<Rightarrow> string \<Rightarrow> string \<Rightarrow> source_health res" where
  "remote_health_of c st now lst lat fr det =
     mk_source_health (rc_source_id c) (rc_institution_id c) st (Aware now) (rc_display_name c) ''remote_http'' lst lat fr det"

definition remote_health :: "py_lib \<Rightarrow> http_transport \<Rightarrow> nat \<Rightarrow> int \<Rightarrow> int \<Rightarrow> remote_connector \<Rightarrow> source_health res" where
  "remote_health L net n t0 t1 c =
     (case request_json L (net n (remote_request c ''GET'' ''/v1/health'' None None)) c of
        Inl Timed_out \<Rightarrow> remote_health_of c ''unavailable'' t0 None None ''unknown'' ''remote connector health request timed out''
      | Inl _ \<Rightarrow> remote_health_of c ''unavailable'' t0 None None ''unknown'' ''remote connector health response was unavailable or invalid''
      | Inr d \<Rightarrow>
          let st = (case health_of (py_str (lib_repr L) (get_default d ''status'' (PStr ''unknown''))) of Inr s \<Rightarrow> s | Inl _ \<Rightarrow> H_UNKNOWN);
              fr = (case freshness_of (py_str (lib_repr L) (get_default d ''freshness'' (PStr ''unknown''))) of Inr f \<Rightarrow> f | Inl _ \<Rightarrow> F_UNKNOWN)
          in remote_health_of c (health_value st) t0 (parse_datetime L (get_or_none d ''last_success_at''))
               (Some (max 0 (lib_ms L (t1 - t0)))) (freshness_value fr)
               (safe_text (get_or_none d ''detail'') ''remote connector health reported''))"

text \<open>A health probe of a well-formed connector always reports.\<close>

lemma remote_health_total:
  assumes "mk_remote_connector L' sid iid dn url tools tmo mx tok att = Inr c"
  shows "is_ok (remote_health L net n t0 t1 c)"
proof -
  have b: "\<not> blank (rc_source_id c)" "\<not> blank (rc_institution_id c)"
    using assms by (auto simp: mk_remote_connector_def Let_def split: if_splits)
  have hv: "health_of (health_value s) = Inr s" "freshness_of (freshness_value f) = Inr f" for s f
    by (cases s; simp add: health_of_def by_value_def) (cases f; simp add: freshness_of_def by_value_def)
  have ok: "(case lat of None \<Rightarrow> True | Some d \<Rightarrow> 0 \<le> d) \<Longrightarrow>
      is_ok (remote_health_of c (health_value s) now lst lat (freshness_value f) det)" for s now lst lat f det
    using b by (auto simp: remote_health_of_def mk_source_health_def hv split: option.splits)
  show ?thesis
    using ok [where lat = None and s = H_UNAVAILABLE and f = F_UNKNOWN] ok [where lat = "Some (max 0 (lib_ms L (t1 - t0)))"]
    by (auto simp: remote_health_def Let_def split: sum.splits remote_fault.splits)
qed

subsection \<open>Results\<close>

definition remote_invalid :: "remote_connector \<Rightarrow> string \<Rightarrow> string \<Rightarrow> string \<Rightarrow> tool_result res" where
  "remote_invalid c tool code msg =
     bindE (mk_warning code msg (Some (rc_source_id c))) (\<lambda>w. mk_tool_result tool ''invalid_result'' PNone [] [w])"

definition remote_warning :: "pyval \<Rightarrow> string \<Rightarrow> warning option res" where
  "remote_warning v sid = (case v of
      PDict d \<Rightarrow>
        let code = safe_text (get_or_none d ''code'') [];
            message = safe_text (get_or_none d ''message'') [];
            src = safe_text (get_or_none d ''source_id'') sid
        in if code = [] \<or> message = [] then Inr None
           else map_sum id Some (mk_warning code message (Some (if src = [] then sid else src)))
    | _ \<Rightarrow> Inr None)"

fun remote_warnings :: "pyval list \<Rightarrow> string \<Rightarrow> warning list res" where
  "remote_warnings [] sid = Inr []"
| "remote_warnings (v # vs) sid =
     bindE (remote_warning v sid) (\<lambda>w. bindE (remote_warnings vs sid) (\<lambda>ws.
     Inr (case w of Some x \<Rightarrow> x # ws | None \<Rightarrow> ws)))"

definition remote_provenance :: "py_lib \<Rightarrow> int \<Rightarrow> remote_connector \<Rightarrow> pyval \<Rightarrow> provenance res" where
  "remote_provenance L now c v = (case v of
      PDict d \<Rightarrow>
        if safe_text (get_or_none d ''source_id'') [] \<noteq> rc_source_id c
          then Inl (ValueError ''provenance source did not match connector source'')
        else (case get_default d ''redactions_applied'' (PList []) of
            PList reds \<Rightarrow>
              bindE (py_int (get_default d ''rows_used'' (PInt 0))) (\<lambda>rows.
              mk_provenance (rc_source_id c) (safe_text (get_or_none d ''source_type'') [])
                (Aware (case parse_datetime L (get_or_none d ''retrieved_at'') of Some t \<Rightarrow> t | None \<Rightarrow> now))
                (truthy (get_default d ''complete'' (PBool True))) rows
                (parse_period L (get_or_none d ''data_period'')) (map (py_str (lib_repr L)) reds))
          | _ \<Rightarrow> Inl (ValueError ''provenance redactions were not a list''))
    | _ \<Rightarrow> Inl (ValueError ''provenance source did not match connector source''))"

definition attested_scope :: "pyval dict \<Rightarrow> scope option" where
  "attested_scope d = parse_scope (py_or (py_or (get_or_none d ''effective_scope'')
     (get_or_none d ''institution_scope'')) (get_or_none d ''scope''))"

definition attestation_ok :: "connector_context \<Rightarrow> pyval dict \<Rightarrow> bool" where
  "attestation_ok ctx d = (case (cc_scope ctx, attested_scope d) of
      (Some req, Some att) \<Rightarrow> covers req att | _ \<Rightarrow> False)"

definition parse_result :: "py_lib \<Rightarrow> int \<Rightarrow> remote_connector \<Rightarrow> string \<Rightarrow> pyval dict \<Rightarrow> connector_context \<Rightarrow> tool_result res" where
  "parse_result L now c tool d ctx =
     (let inv = remote_invalid c tool ''invalid_remote_result''
      in if safe_text (get_or_none d ''contract_version'') [] \<noteq> ''2''
           then inv ''remote result contract version was not supported''
         else if safe_text (get_or_none d ''tool_name'') tool \<noteq> tool
           then inv ''remote result tool name did not match the request''
         else (case result_status_of (safe_text (get_or_none d ''status'') []) of
             Inl _ \<Rightarrow> inv ''remote result contained an unknown status''
           | Inr st \<Rightarrow>
               if rc_attestation_required c \<and> \<not> attestation_ok ctx d
                 then remote_invalid c tool ''invalid_scope_attestation'' ''remote result did not attest an effective scope within the request''
               else (case get_default d ''warnings'' (PList []) of
                   PList ws \<Rightarrow>
                     bindE (remote_warnings ws (rc_source_id c)) (\<lambda>warns.
                     (case get_default d ''provenance'' (PList []) of
                        PList ps \<Rightarrow>
                          (case mapE (remote_provenance L now c) ps of
                             Inl _ \<Rightarrow> inv ''remote result provenance was invalid''
                           | Inr provs \<Rightarrow>
                               if st \<in> {T_SUCCESS, T_PARTIAL, T_STALE} \<and> provs = []
                                 then inv ''successful remote results must include provenance''
                               else mk_tool_result tool (result_status_value st) (get_or_none d ''data'') provs warns)
                      | _ \<Rightarrow> inv ''remote result provenance was not a list''))
                 | _ \<Rightarrow> inv ''remote result warnings were not a list'')))"

definition remote_payload :: "remote_connector \<Rightarrow> string \<Rightarrow> pyval dict \<Rightarrow> connector_context \<Rightarrow> pyval dict" where
  "remote_payload c tool args ctx = [
     (''contract_version'', PStr ''2''),
     (''source_id'', PStr (rc_source_id c)),
     (''tool_name'', PStr tool),
     (''arguments'', PDict args),
     (''request_id'', PStr (cc_request_id ctx)),
     (''principal'', PDict [
        (''id'', opt_str (cc_principal_id ctx)),
        (''type'', opt_str (map_option ptype_value (cc_principal_type ctx))),
        (''capabilities'', PList (map PStr (sort (map cap_value (sorted_list_of_set (cc_capabilities ctx)))))),
        (''scopes'', PList (case cc_scope ctx of Some s \<Rightarrow> [PDict (scope_as_dict s)] | None \<Rightarrow> [])),
        (''consent_verified'', PBool (cc_consent_verified ctx)),
        (''revoked'', PBool (cc_revoked ctx))]),
     (''institution_scope'', case cc_scope ctx of Some s \<Rightarrow> PDict (scope_as_dict s) | None \<Rightarrow> PNone),
     (''limits'', PDict [
        (''max_duration_ms'', PInt (max_duration_ms (cc_limits ctx))),
        (''max_rows'', PInt (max_rows (cc_limits ctx))),
        (''max_response_bytes'', PInt (min (max_response_bytes (cc_limits ctx)) (rc_max_response_bytes c)))])]"

definition remote_reply :: "py_lib \<Rightarrow> http_transport \<Rightarrow> remote_connector \<Rightarrow> nat \<Rightarrow> string \<Rightarrow> pyval dict \<Rightarrow> connector_context
    \<Rightarrow> remote_fault + pyval dict" where
  "remote_reply L net c n tool args ctx =
     request_json L (net n (remote_request c ''POST'' ''/v1/execute'' (Some (cc_request_id ctx)) (Some (remote_payload c tool args ctx)))) c"

definition remote_execute :: "py_lib \<Rightarrow> http_transport \<Rightarrow> (nat \<Rightarrow> int) \<Rightarrow> remote_connector \<Rightarrow> connector_fun" where
  "remote_execute L net now c n tool args ctx =
     (if tool \<notin> rc_allowed_tools c
        then unavailable_result tool (rc_source_id c) ''tool is not enabled by the connector contract''
      else let failed = (\<lambda>st code msg. bindE (mk_warning code msg (Some (rc_source_id c)))
               (\<lambda>w. mk_tool_result tool st PNone [] [w]))
      in (case remote_reply L net c n tool args ctx of
            Inl Timed_out \<Rightarrow> failed ''timeout'' ''source_timeout'' ''remote connector request timed out''
          | Inl _ \<Rightarrow> failed ''unavailable'' ''source_unavailable'' ''remote connector response was unavailable or invalid''
          | Inr d \<Rightarrow> (case parse_result L (now n) c tool d ctx of
              Inl (ValueError m) \<Rightarrow> failed ''unavailable'' ''source_unavailable'' ''remote connector response was unavailable or invalid''
            | r \<Rightarrow> r)))"

definition remote_connector_of :: "py_lib \<Rightarrow> http_transport \<Rightarrow> (nat \<Rightarrow> int) \<Rightarrow> remote_connector \<Rightarrow> connector" where
  "remote_connector_of L net now c = \<lparr>cn_source_id = rc_source_id c, cn_execute = remote_execute L net now c\<rparr>"


subsection \<open>What a remote result guarantees\<close>

lemma mk_tool_result_Inr [py_simps]: "mk_tool_result nm st v ps ws = Inr r \<longleftrightarrow>
    \<not> blank nm \<and> (\<exists>s. result_status_of st = Inr s \<and>
      r = \<lparr>tr_tool_name = nm, tr_status = s, tr_data = v, tr_provenance = ps, tr_warnings = ws\<rparr>)"
  by (auto simp: mk_tool_result_def bindE_eq_Inr)

lemma status_roundtrip [simp]: "result_status_of (result_status_value s) = Inr s"
  by (cases s) (simp_all add: result_status_of_def by_value_def)

lemma fixed_status [simp]:
  "result_status_of ''invalid_result'' = Inr T_INVALID_RESULT" "result_status_of ''unavailable'' = Inr T_UNAVAILABLE"
  "result_status_of ''timeout'' = Inr T_TIMEOUT" "result_status_of ''success'' = Inr T_SUCCESS"
  "result_status_of ''unauthorized'' = Inr T_UNAUTHORIZED"
  using status_roundtrip [of T_INVALID_RESULT] status_roundtrip [of T_UNAVAILABLE] status_roundtrip [of T_TIMEOUT]
    status_roundtrip [of T_SUCCESS] status_roundtrip [of T_UNAUTHORIZED] by simp_all

definition usable :: "result_status \<Rightarrow> bool" where
  "usable s = (s \<in> {T_SUCCESS, T_PARTIAL, T_STALE})"

lemma remote_invalid_unusable: "remote_invalid c tool code msg = Inr r \<Longrightarrow> \<not> usable (tr_status r)"
  by (auto simp: remote_invalid_def bindE_eq_Inr mk_tool_result_Inr usable_def)

lemma unavailable_unusable: "unavailable_result tool sid msg = Inr r \<Longrightarrow> \<not> usable (tr_status r)"
  by (auto simp: unavailable_result_def bindE_eq_Inr mk_tool_result_Inr usable_def)

lemma remote_provenance_source: "remote_provenance L now c v = Inr p \<Longrightarrow> prov_source_id p = py_strip (rc_source_id c)"
  by (auto simp: remote_provenance_def mk_provenance_def bindE_eq_Inr require_text_Inr Let_def
      split: pyval.splits if_splits)

lemma parse_result_usable:
  assumes "parse_result L now c tool d ctx = Inr r" and u: "usable (tr_status r)"
  shows "tr_tool_name r = tool \<and> tr_provenance r \<noteq> []
    \<and> list_all (\<lambda>p. prov_source_id p = py_strip (rc_source_id c)) (tr_provenance r)
    \<and> (rc_attestation_required c \<longrightarrow> attestation_ok ctx d)"
proof -
  have inv: "remote_invalid c tool code msg \<noteq> Inr r" for code msg
    using u remote_invalid_unusable by blast
  note p = assms(1) [unfolded parse_result_def Let_def]
  have v: "safe_text (get_or_none d ''contract_version'') [] = ''2''"
    by (rule ccontr) (use p inv in simp)
  have t: "safe_text (get_or_none d ''tool_name'') tool = tool"
    by (rule ccontr) (use p v inv in simp)
  obtain st where st: "result_status_of (safe_text (get_or_none d ''status'') []) = Inr st"
    by (cases "result_status_of (safe_text (get_or_none d ''status'') [])") (use p v t inv in simp_all)
  have att: "\<not> (rc_attestation_required c \<and> \<not> attestation_ok ctx d)"
    by (rule notI) (use p v t st inv in simp)
  obtain ws where ws: "get_default d ''warnings'' (PList []) = PList ws"
    by (cases "get_default d ''warnings'' (PList [])") (use p v t st att inv in simp_all)
  obtain warns where warns: "remote_warnings ws (rc_source_id c) = Inr warns"
    by (cases "remote_warnings ws (rc_source_id c)") (use p v t st att ws in simp_all)
  obtain ps where ps: "get_default d ''provenance'' (PList []) = PList ps"
    by (cases "get_default d ''provenance'' (PList [])") (use p v t st att ws warns inv in simp_all)
  obtain provs where provs: "mapE (remote_provenance L now c) ps = Inr provs"
    by (cases "mapE (remote_provenance L now c) ps") (use p v t st att ws warns ps inv in simp_all)
  have ne: "\<not> (st \<in> {T_SUCCESS, T_PARTIAL, T_STALE} \<and> provs = [])"
    by (rule notI) (use p v t st att ws warns ps provs inv in simp)
  have r: "mk_tool_result tool (result_status_value st) (get_or_none d ''data'') provs warns = Inr r"
    using p v t st att ws warns ps provs ne by (auto split: if_splits)
  have "list_all (\<lambda>p. prov_source_id p = py_strip (rc_source_id c)) provs"
    using mapE_set [OF provs] remote_provenance_source unfolding list_all_iff by blast
  with att ne r u show ?thesis by (auto simp: mk_tool_result_Inr usable_def)
qed



definition sample_lib :: "pyval \<Rightarrow> py_lib" where
  "sample_lib body = \<lparr>lib_json = (\<lambda>_. Inr body), lib_iso = (\<lambda>_. None), lib_repr = (\<lambda>_. []),
     lib_urlparse = (\<lambda>u. \<lparr>url_scheme = ''https'', url_netloc = u, url_username = None, url_password = None,
        url_query = [], url_fragment = []\<rparr>), lib_ms = (\<lambda>d. d div 1000)\<rparr>"

definition sample_remote :: remote_connector where
  "sample_remote = \<lparr>rc_source_id = ''erp'', rc_institution_id = ''c'', rc_display_name = ''ERP'', rc_base_url = ''https://erp'',
     rc_allowed_tools = {''institution.overview''}, rc_timeout_seconds = 5, rc_max_response_bytes = 1000,
     rc_auth_token = None, rc_attestation_required = True\<rparr>"

definition sample_remote_context :: connector_context where
  "sample_remote_context = \<lparr>cc_request_id = ''r'', cc_source_id = ''erp'', cc_limits = default_query_limits, cc_principal_id = Some ''u'',
     cc_principal_type = None, cc_scope = Some \<lparr>college_id = ''c'', department_id = None, batch_id = None\<rparr>,
     cc_capabilities = {}, cc_consent_verified = False, cc_revoked = False\<rparr>"

definition sample_reply :: pyval where
  "sample_reply = PDict [(''contract_version'', PStr ''2''), (''status'', PStr ''success''),
     (''effective_scope'', PDict [(''college_id'', PStr ''c''), (''department_id'', PStr ''d'')]),
     (''provenance'', PList [PDict [(''source_id'', PStr ''erp''), (''source_type'', PStr ''internal_api'')]]),
     (''data'', PInt 5)]"

definition sample_net :: http_transport where
  "sample_net n q = Http_response True (Some ''2'') [Chunk ''{}'']"

lemma sample_remote_answers:
  "(case remote_execute (sample_lib sample_reply) sample_net int sample_remote 7 ''institution.overview'' [] sample_remote_context of
      Inr r \<Rightarrow> tr_status r = T_SUCCESS | Inl _ \<Rightarrow> False)"
  by code_simp


subsection \<open>Nothing escapes the connector\<close>

definition value_error :: "'a res \<Rightarrow> bool" where
  "value_error r = (case r of Inl (ValueError _) \<Rightarrow> True | Inl _ \<Rightarrow> False | Inr _ \<Rightarrow> True)"

lemma value_error_simps [simp]: "value_error (Inr x)" "value_error (Inl (ValueError m))"
  by (simp_all add: value_error_def)

lemma value_error_bind: "value_error r \<Longrightarrow> (\<And>x. r = Inr x \<Longrightarrow> value_error (f x)) \<Longrightarrow> value_error (bindE r f)"
  by (cases r) (auto simp: value_error_def split: pyerr.splits)

lemma value_error_map_sum: "value_error r \<Longrightarrow> value_error (map_sum id f r)"
  by (cases r) (auto simp: value_error_def split: pyerr.splits)

lemma value_error_text: "value_error (require_text f v)"
  by (simp add: require_text_def)

lemma value_error_opt_text: "value_error (opt_text f v)"
  by (auto simp: opt_text_def intro: value_error_bind value_error_text split: option.splits)

lemma value_error_warning: "value_error (mk_warning c m s)"
  by (simp add: mk_warning_def value_error_bind value_error_text value_error_opt_text)

lemma value_error_tool_result: "value_error (mk_tool_result nm st v ps ws)"
  by (auto simp: mk_tool_result_def result_status_of_def by_value_def intro!: value_error_bind split: option.splits)

lemma value_error_remote_invalid: "value_error (remote_invalid c tool code msg)"
  by (simp add: remote_invalid_def value_error_bind value_error_warning value_error_tool_result)

lemma value_error_remote_warnings: "value_error (remote_warnings vs sid)"
proof (induction vs)
  case (Cons v vs)
  have "value_error (remote_warning v sid)"
    by (cases v) (simp_all add: remote_warning_def Let_def value_error_map_sum value_error_warning)
  with Cons show ?case by (simp add: value_error_bind)
qed simp

lemma value_error_parse_result: "value_error (parse_result L now c tool d ctx)"
  unfolding parse_result_def Let_def
  by (simp add: value_error_remote_invalid value_error_tool_result value_error_remote_warnings value_error_bind
      split: sum.split pyval.split)


definition result_for :: "string \<Rightarrow> tool_result res \<Rightarrow> bool" where
  "result_for tool x = (case x of Inr r \<Rightarrow> tr_tool_name r = tool | Inl _ \<Rightarrow> True)"

lemma result_for_bind: "(\<And>x. r = Inr x \<Longrightarrow> result_for tool (f x)) \<Longrightarrow> result_for tool (bindE r f)"
  by (cases r) (simp_all add: result_for_def)

lemma result_for_mk: "result_for tool (mk_tool_result tool st v ps ws)"
  by (simp add: result_for_def mk_tool_result_Inr split: sum.split) (auto simp: mk_tool_result_Inr)

lemma result_for_invalid: "result_for tool (remote_invalid c tool code msg)"
  by (simp add: remote_invalid_def result_for_bind result_for_mk)

lemma result_for_parse: "result_for tool (parse_result L now c tool d ctx)"
  unfolding parse_result_def Let_def
  by (simp add: result_for_invalid result_for_mk result_for_bind split: sum.split pyval.split)

text \<open>A remote connector never raises: whatever the network and the service do, it answers for the
  tool that was asked, and a health probe reports.\<close>

theorem remote_never_raises:
  assumes "mk_remote_connector L' sid iid dn url tools tmo mx tok att = Inr c" and "\<not> blank tool"
  shows "(\<exists>r. remote_execute L net now c n tool args ctx = Inr r \<and> tr_tool_name r = tool)
    \<and> (\<exists>h. remote_health L net n t0 t1 c = Inr h)"
proof -
  have b: "\<not> blank (rc_source_id c)"
    using assms(1) by (auto simp: mk_remote_connector_def Let_def split: if_splits)
  have w: "mk_warning code msg (Some (rc_source_id c)) =
      Inr \<lparr>warn_code = py_strip code, warn_message = py_strip msg, warn_source_id = Some (py_strip (rc_source_id c))\<rparr>"
    if "\<not> blank code" "\<not> blank msg" for code msg
    using that b by (simp add: mk_warning_def require_text_def opt_text_def)
  have lits: "\<not> blank ''source_timeout''" "\<not> blank ''source_unavailable''"
      "\<not> blank ''tool is not enabled by the connector contract''" "\<not> blank ''remote connector request timed out''"
      "\<not> blank ''remote connector response was unavailable or invalid''"
    by code_simp+
  note ws = w [OF lits(1,4)] w [OF lits(2,3)] w [OF lits(2,5)]
  have mk: "mk_tool_result tool ''unavailable'' PNone [] x =
        Inr \<lparr>tr_tool_name = tool, tr_status = T_UNAVAILABLE, tr_data = PNone, tr_provenance = [], tr_warnings = x\<rparr>"
      "mk_tool_result tool ''timeout'' PNone [] x =
        Inr \<lparr>tr_tool_name = tool, tr_status = T_TIMEOUT, tr_data = PNone, tr_provenance = [], tr_warnings = x\<rparr>" for x
    using assms(2) by (simp_all add: mk_tool_result_def)
  have "\<exists>r. remote_execute L net now c n tool args ctx = Inr r \<and> tr_tool_name r = tool"
  proof (cases "tool \<in> rc_allowed_tools c")
    case False
    then show ?thesis by (simp add: remote_execute_def unavailable_result_def ws mk)
  next
    case tool: True
    show ?thesis
    proof (cases "remote_reply L net c n tool args ctx")
      case (Inl f)
      then show ?thesis
        using tool by (cases f) (simp_all add: remote_execute_def Let_def ws mk)
    next
      case (Inr d)
      then show ?thesis
        using tool value_error_parse_result [of L "now n" c tool d ctx]
          result_for_parse [of tool L "now n" c d ctx]
        by (cases "parse_result L (now n) c tool d ctx")
           (auto simp: remote_execute_def Let_def ws mk value_error_def result_for_def split: pyerr.splits)
    qed
  qed
  moreover have "\<exists>h. remote_health L net n t0 t1 c = Inr h"
    using remote_health_total [OF assms(1)] by (simp add: is_ok_iff)
  ultimately show ?thesis by blast
qed

lemma remote_never_raises_witness:
  "\<exists>r. remote_execute (sample_lib PNone) sample_net int sample_remote 0 ''student.overview'' [] sample_remote_context = Inr r
    \<and> tr_tool_name r = ''student.overview''"
proof -
  have c: "mk_remote_connector (sample_lib PNone) ''erp'' ''c'' ''ERP'' ''https://erp'' {''institution.overview''} 5 1000 None True
      = Inr sample_remote"
    by code_simp
  have "\<not> blank ''student.overview''" by code_simp
  from remote_never_raises [OF c this] show ?thesis by blast
qed

end
