(* ===== verification/Orchestration.thy ===== *)
theory Orchestration
  imports RemoteHttp
begin

text \<open>
  From a request to tool results, \<^verbatim>\<open>orchestration/\<close>: the plan-only boundary of
  \<^verbatim>\<open>execution_core.py\<close>, the deterministic planner of \<^verbatim>\<open>plan_validator.py\<close>, the
  policy-checked executor of \<^verbatim>\<open>tool_executor.py\<close> and \<^verbatim>\<open>result_aggregator.py\<close>. The executor
  also returns the calls it made, in order, so that what reached a connector can be
  stated; a decision point may answer each evaluation differently.
\<close>

subsection \<open>Plans without execution: \<^verbatim>\<open>execution_core.py\<close>\<close>

datatype plan_step_kind = CLASSIFY_REQUEST | QUERY_APPROVED_SOURCES | SYNTHESIZE_CITED_ANSWER

fun plan_step_kind_value :: "plan_step_kind \<Rightarrow> string" where
  "plan_step_kind_value CLASSIFY_REQUEST = ''classify_request''"
| "plan_step_kind_value QUERY_APPROVED_SOURCES = ''query_approved_sources''"
| "plan_step_kind_value SYNTHESIZE_CITED_ANSWER = ''synthesize_cited_answer''"

record plan_step =
  ps_step_id :: string
  ps_kind :: plan_step_kind
  ps_description :: string
  ps_source_ids :: "string list"

definition mk_plan_step :: "string \<Rightarrow> plan_step_kind \<Rightarrow> string \<Rightarrow> string list \<Rightarrow> plan_step res" where
  "mk_plan_step sid k desc srcs =
     (if blank sid then Inl (ValueError ''step_id must not be blank'')
      else if blank desc then Inl (ValueError ''description must not be blank'')
      else if list_ex (\<lambda>s. py_strip s = []) srcs then Inl (ValueError ''source_ids must not contain blank values'')
      else Inr \<lparr>ps_step_id = sid, ps_kind = k, ps_description = desc, ps_source_ids = map py_strip srcs\<rparr>)"

record execution_plan =
  ep_request_id :: string
  ep_authorized :: bool
  ep_steps :: "plan_step list"
  ep_denial_reason :: "string option"

definition mk_execution_plan :: "string \<Rightarrow> bool \<Rightarrow> plan_step list \<Rightarrow> string option \<Rightarrow> execution_plan res" where
  "mk_execution_plan rid auth steps why =
     (if blank rid then Inl (ValueError ''request_id must not be blank'')
      else if 5 < length steps then Inl (ValueError ''a plan cannot contain more than five steps'')
      else if auth \<and> steps = [] then Inl (ValueError ''authorized plans require at least one step'')
      else if \<not> auth \<and> steps \<noteq> [] then Inl (ValueError ''denied plans cannot contain executable steps'')
      else if auth \<and> why \<noteq> None then Inl (ValueError ''authorized plans cannot contain a denial reason'')
      else if \<not> auth \<and> \<not> truthy_text why then Inl (ValueError ''denied plans require a denial reason'')
      else Inr \<lparr>ep_request_id = rid, ep_authorized = auth, ep_steps = steps, ep_denial_reason = why\<rparr>)"

definition build_read_only_plan :: "chat_request \<Rightarrow> principal \<Rightarrow> execution_plan res" where
  "build_read_only_plan r p =
     (let d = authorize p ASK_READ_ONLY (cr_scope r)
      in if \<not> az_allowed d
           then mk_execution_plan (cr_request_id r) False []
             (Some (case az_reason d of Some why \<Rightarrow> denial_value why | None \<Rightarrow> ''denied''))
         else
           bindE (mk_plan_step ''classify'' CLASSIFY_REQUEST ''Classify the request against approved Agent Saffron capabilities.'' []) (\<lambda>a.
           bindE (mk_plan_step ''retrieve'' QUERY_APPROVED_SOURCES ''Read only from sources allowed by the source registry and scope.'' (cr_source_ids r)) (\<lambda>b.
           bindE (mk_plan_step ''synthesize'' SYNTHESIZE_CITED_ANSWER ''Synthesize a bounded answer with provenance and citations.'' []) (\<lambda>c.
           mk_execution_plan (cr_request_id r) True [a, b, c] None))))"

lemma mk_plan_step_ok: "\<not> blank sid \<Longrightarrow> \<not> blank desc \<Longrightarrow> list_all (\<lambda>s. \<not> blank s) srcs \<Longrightarrow>
    mk_plan_step sid k desc srcs = Inr \<lparr>ps_step_id = sid, ps_kind = k, ps_description = desc, ps_source_ids = map py_strip srcs\<rparr>"
  by (auto simp: mk_plan_step_def list_ex_iff list_all_iff blank_def)

text \<open>Every well-formed request gets a plan, authorized exactly when the policy allows the caller to ask.\<close>

lemma read_only_plan_decides:
  assumes "wf_chat_request r"
  shows "\<exists>pl. build_read_only_plan r p = Inr pl \<and> ep_authorized pl = az_allowed (authorize p ASK_READ_ONLY (cr_scope r))
    \<and> (ep_authorized pl \<longrightarrow> map ps_kind (ep_steps pl) = [CLASSIFY_REQUEST, QUERY_APPROVED_SOURCES, SYNTHESIZE_CITED_ANSWER])"
proof -
  have b: "\<not> blank (cr_request_id r)" and s: "list_all (\<lambda>s. \<not> blank s) (cr_source_ids r)"
    using assms by (simp_all add: wf_chat_request_def)
  have lits: "\<not> blank ''classify''" "\<not> blank ''retrieve''" "\<not> blank ''synthesize''"
      "\<not> blank ''Classify the request against approved Agent Saffron capabilities.''"
      "\<not> blank ''Read only from sources allowed by the source registry and scope.''"
      "\<not> blank ''Synthesize a bounded answer with provenance and citations.''"
    by code_simp+
  have t: "truthy_text (Some (denial_value w))" for w
    by (cases w) (simp_all add: truthy_text_def)
  show ?thesis
  proof (cases "az_allowed (authorize p ASK_READ_ONLY (cr_scope r))")
    case True
    with b s show ?thesis
      by (simp add: build_read_only_plan_def Let_def mk_plan_step_ok lits mk_execution_plan_def del: blank_Nil)
  next
    case False
    then obtain w where "az_reason (authorize p ASK_READ_ONLY (cr_scope r)) = Some w"
      using authorize_wf by blast
    with False b t [of w] show ?thesis
      by (simp add: build_read_only_plan_def Let_def mk_execution_plan_def)
  qed
qed

subsection \<open>The planner: \<^verbatim>\<open>plan_validator.py\<close>\<close>

record planned_tool =
  pt_name :: string
  pt_source_id :: string
  pt_arguments :: "pyval dict"

definition PUBLIC_WEB_INTENT_MARKERS :: "string list" where
  "PUBLIC_WEB_INTENT_MARKERS = [''search the web'', ''web search'', ''search online'', ''look online'',
     ''internet search'', ''public web'', ''online sources'', ''official websites'', ''official website'']"

definition is_public_web_prompt :: "string \<Rightarrow> bool" where
  "is_public_web_prompt prompt =
     (let n = py_join '' '' (split_ws (py_lower prompt)) in list_ex (\<lambda>m. py_in m n) PUBLIC_WEB_INTENT_MARKERS)"

definition classify_prompt :: "string \<Rightarrow> string list" where
  "classify_prompt prompt =
     (let n = py_lower prompt
      in if list_ex (\<lambda>w. py_in w n) [''health'', ''availability'', ''source''] then [''institution.source_health'']
         else if list_ex (\<lambda>w. py_in w n) [''attendance'', ''present'', ''absent'', ''at risk''] then [''institution.attendance_summary'']
         else [''institution.overview''])"

definition plan_tool :: "scope \<Rightarrow> read_tool_registry \<Rightarrow> source_definition \<Rightarrow> string \<Rightarrow> string \<Rightarrow> planned_tool res" where
  "plan_tool sc tools d sid tool_name =
     bindE (tool_get tools tool_name) (\<lambda>t.
     if truthy_text (department_id sc) \<and> \<not> td_supports_department t
       then Inl (ValueError (''tool does not support Department scope: '' @ tool_name))
     else if truthy_text (batch_id sc) \<and> \<not> td_supports_batch t
       then Inl (ValueError (''tool does not support Batch scope: '' @ tool_name))
     else if \<not> allows_source t sid then Inl (ValueError (''tool is not approved for source: '' @ tool_name))
     else if tool_name \<notin> set (sd_allowed_tools d)
       then Inl (ValueError (''source does not expose the requested tool: '' @ tool_name))
     else Inr \<lparr>pt_name = tool_name, pt_source_id = sid,
        pt_arguments = (if tool_name = ''institution.attendance_summary'' then [(''limit'', PInt 3)] else [])\<rparr>)"

definition plan_source :: "scope \<Rightarrow> read_tool_registry \<Rightarrow> source_registry \<Rightarrow> string list \<Rightarrow> string \<Rightarrow> planned_tool list res" where
  "plan_source sc tools sources names sid =
     bindE (source_get sources sid) (\<lambda>d.
     if sd_status d \<noteq> S_ACTIVE then Inl (ValueError (''source is not active: '' @ sid))
     else if sd_institution_id d \<noteq> college_id sc
       then Inl (ValueError (''source is outside the requested institution scope: '' @ sid))
     else mapE (plan_tool sc tools d sid) names)"

definition build_tool_plan :: "chat_request \<Rightarrow> read_tool_registry \<Rightarrow> source_registry \<Rightarrow> planned_tool list res" where
  "build_tool_plan r tools sources =
     (let names = classify_prompt (cr_prompt r);
          ids = (if cr_source_ids r \<noteq> [] then cr_source_ids r
                 else map sd_source_id (sources_for_institution sources (college_id (cr_scope r))))
      in if ids = []
           then Inl (ValueError (''no approved source is registered for institution: '' @ college_id (cr_scope r)))
         else bindE (mapE (plan_source (cr_scope r) tools sources names) ids) (\<lambda>pss.
           if 5 < length (concat pss) then Inl (ValueError ''plan exceeds the maximum tool-step bound'')
           else Inr (concat pss)))"

text \<open>What every step of a plan satisfies.\<close>

definition step_approved :: "scope \<Rightarrow> read_tool_registry \<Rightarrow> source_registry \<Rightarrow> planned_tool \<Rightarrow> bool" where
  "step_approved sc tools sources st = (\<exists>t d.
     dict_get tools (pt_name st) = Some t \<and> dict_get sources (pt_source_id st) = Some d
     \<and> sd_status d = S_ACTIVE \<and> sd_institution_id d = college_id sc
     \<and> pt_source_id st \<in> set (td_source_ids t) \<and> pt_name st \<in> set (sd_allowed_tools d)
     \<and> (truthy_text (department_id sc) \<longrightarrow> td_supports_department t)
     \<and> (truthy_text (batch_id sc) \<longrightarrow> td_supports_batch t))"

lemma plan_tool_approved:
  "plan_tool sc tools d sid n = Inr st \<Longrightarrow> dict_get sources sid = Some d \<Longrightarrow> sd_status d = S_ACTIVE
    \<Longrightarrow> sd_institution_id d = college_id sc \<Longrightarrow> step_approved sc tools sources st \<and> pt_name st = n"
  by (auto simp: plan_tool_def bindE_eq_Inr tool_get_def reg_get_Inr step_approved_def allows_source_def split: if_splits)

lemma plan_source_approved:
  assumes "plan_source sc tools sources names sid = Inr sts" and "st \<in> set sts"
  shows "step_approved sc tools sources st \<and> pt_name st \<in> set names"
proof -
  from assms(1) obtain d where d: "dict_get sources sid = Some d" "sd_status d = S_ACTIVE"
      "sd_institution_id d = college_id sc" "mapE (plan_tool sc tools d sid) names = Inr sts"
    by (auto simp: plan_source_def bindE_eq_Inr source_get_def reg_get_Inr split: if_splits)
  from mapE_set [OF d(4) assms(2)] plan_tool_approved [OF _ d(1-3)] show ?thesis by blast
qed

lemma tool_plan_approved:
  assumes "build_tool_plan r tools sources = Inr plan"
  shows "length plan \<le> 5 \<and> list_all (step_approved (cr_scope r) tools sources) plan"
proof -
  from assms obtain ids pss where pss: "mapE (plan_source (cr_scope r) tools sources (classify_prompt (cr_prompt r))) ids = Inr pss"
      and plan: "plan = concat pss" "\<not> 5 < length (concat pss)"
    unfolding build_tool_plan_def Let_def by (auto simp: bindE_eq_Inr split: if_split_asm)
  show ?thesis
    using mapE_set [OF pss] plan_source_approved plan by (fastforce simp: list_all_iff)
qed


lemma map_sum_Inr_iff: "map_sum id f x = Inr y \<longleftrightarrow> (\<exists>z. x = Inr z \<and> y = f z)"
  by (cases x) auto

subsection \<open>The executor: \<^verbatim>\<open>tool_executor.py\<close>\<close>

record exec_env =
  ex_principal :: principal
  ex_tools :: read_tool_registry
  ex_connectors :: connector_registry
  ex_scope :: scope
  ex_request_id :: string
  ex_limits :: query_limits
  ex_pdp :: "nat \<Rightarrow> evaluator"

record connector_call =
  cl_source_id :: string
  cl_tool :: string
  cl_arguments :: "pyval dict"
  cl_context :: connector_context

definition step_decision :: "exec_env \<Rightarrow> nat \<Rightarrow> planned_tool \<Rightarrow> policy_decision res" where
  "step_decision E n st =
     bindE (tool_get (ex_tools E) (pt_name st)) (\<lambda>t.
     ex_pdp E n (ex_principal E) (td_required_capability t) ''retrieve'' ''connector_resource'' (pt_source_id st) (ex_scope E))"

definition step_context :: "exec_env \<Rightarrow> planned_tool \<Rightarrow> connector_context res" where
  "step_context E st =
     mk_connector_context (ex_request_id E) (pt_source_id st) (ex_limits E)
       (Some (principal_id (ex_principal E))) (Some (principal_type (ex_principal E))) (Some (ex_scope E))
       (capabilities (ex_principal E)) (consent_verified (ex_principal E)) (revoked (ex_principal E))"

text \<open>One allowed step: the call that reaches the connector, if any, and what comes back.\<close>

definition call_connector :: "exec_env \<Rightarrow> nat \<Rightarrow> planned_tool \<Rightarrow> connector_call list \<times> tool_result res" where
  "call_connector E n st =
     (case connector_get (ex_connectors E) (pt_source_id st) of
        Inl e \<Rightarrow> ([], Inl e)
      | Inr c \<Rightarrow> (case step_context E st of
          Inl e \<Rightarrow> ([], Inl e)
        | Inr ctx \<Rightarrow>
            ([\<lparr>cl_source_id = pt_source_id st, cl_tool = pt_name st, cl_arguments = pt_arguments st, cl_context = ctx\<rparr>],
             cn_execute c n (pt_name st) (pt_arguments st) ctx)))"

definition exec_step :: "exec_env \<Rightarrow> nat \<Rightarrow> planned_tool \<Rightarrow> policy_decision \<Rightarrow> connector_call list \<times> tool_result res" where
  "exec_step E n st d =
     (if \<not> pd_allowed d then ([], mk_tool_result (pt_name st) ''unauthorized'' PNone [] [])
      else call_connector E n st)"

fun execute_plan :: "exec_env \<Rightarrow> nat \<Rightarrow> planned_tool list \<Rightarrow>
    policy_decision list \<times> connector_call list \<times> tool_result list res" where
  "execute_plan E n [] = ([], [], Inr [])"
| "execute_plan E n (st # sts) =
     (case step_decision E n st of
        Inl e \<Rightarrow> ([], [], Inl e)
      | Inr d \<Rightarrow> (case exec_step E n st d of
          (cs, Inl e) \<Rightarrow> ([d], cs, Inl e)
        | (cs, Inr r) \<Rightarrow> (case execute_plan E (Suc n) sts of
            (ds, cs', rs) \<Rightarrow> (d # ds, cs @ cs', map_sum id (\<lambda>xs. r # xs) rs))))"

text \<open>A call is justified by a decision of this run that allowed it, made with the tool's capability.\<close>

definition call_justified :: "exec_env \<Rightarrow> planned_tool list \<Rightarrow> policy_decision list \<Rightarrow> connector_call \<Rightarrow> bool" where
  "call_justified E plan ds c = (\<exists>st \<in> set plan. \<exists>n t. \<exists>d \<in> set ds.
     cl_source_id c = pt_source_id st \<and> cl_tool c = pt_name st \<and> cl_arguments c = pt_arguments st
     \<and> step_context E st = Inr (cl_context c)
     \<and> dict_get (ex_tools E) (pt_name st) = Some t
     \<and> ex_pdp E n (ex_principal E) (td_required_capability t) ''retrieve'' ''connector_resource'' (pt_source_id st) (ex_scope E) = Inr d
     \<and> pd_allowed d)"

lemma call_justified_mono: "call_justified E plan ds c \<Longrightarrow> set plan \<subseteq> set plan' \<Longrightarrow> set ds \<subseteq> set ds' \<Longrightarrow> call_justified E plan' ds' c"
  unfolding call_justified_def by (meson subsetD)

lemma exec_step_justified:
  assumes "step_decision E n st = Inr d" and "exec_step E n st d = (cs, r)" and "c \<in> set cs"
  shows "call_justified E [st] [d] c"
proof -
  have a: "pd_allowed d" using assms(2,3) by (auto simp: exec_step_def split: if_splits)
  from assms(1) obtain t where t: "dict_get (ex_tools E) (pt_name st) = Some t"
      "ex_pdp E n (ex_principal E) (td_required_capability t) ''retrieve'' ''connector_resource'' (pt_source_id st) (ex_scope E) = Inr d"
    by (auto simp: step_decision_def bindE_eq_Inr tool_get_def reg_get_Inr)
  from assms(2,3) a have "step_context E st = Inr (cl_context c) \<and> cl_source_id c = pt_source_id st
      \<and> cl_tool c = pt_name st \<and> cl_arguments c = pt_arguments st"
    by (auto simp: exec_step_def call_connector_def split: sum.splits)
  with a t show ?thesis unfolding call_justified_def by auto
qed

lemma executed_calls_justified:
  "execute_plan E n plan = (ds, cs, rs) \<Longrightarrow> c \<in> set cs \<Longrightarrow> call_justified E plan ds c"
proof (induction plan arbitrary: n ds cs rs)
  case (Cons st sts)
  from Cons.prems obtain d where d: "step_decision E n st = Inr d"
    by (auto split: sum.splits)
  obtain cs1 r1 where s: "exec_step E n st d = (cs1, r1)" by fastforce
  obtain ds2 cs2 rs2 where rest: "execute_plan E (Suc n) sts = (ds2, cs2, rs2)" by (metis prod_cases3)
  have "c \<in> set cs1 \<and> d \<in> set ds \<or> c \<in> set cs2 \<and> set ds2 \<subseteq> set ds"
    using Cons.prems d s rest by (auto split: sum.splits)
  then show ?case
  proof
    assume "c \<in> set cs1 \<and> d \<in> set ds"
    then show ?thesis
      using exec_step_justified [OF d s] call_justified_mono [of E "[st]" "[d]" c "st # sts" ds] by auto
  next
    assume "c \<in> set cs2 \<and> set ds2 \<subseteq> set ds"
    then show ?thesis
      using Cons.IH [OF rest] by (auto intro: call_justified_mono)
  qed
qed simp

lemma executed_calls_bounded: "execute_plan E n plan = (ds, cs, rs) \<Longrightarrow> length cs \<le> length plan"
proof (induction plan arbitrary: n ds cs rs)
  case (Cons st sts)
  have len1: "length (fst (exec_step E n st d)) \<le> 1" for d
    by (simp add: exec_step_def call_connector_def split: sum.splits)
  obtain ds2 cs2 rs2 where rest: "execute_plan E (Suc n) sts = (ds2, cs2, rs2)" by (metis prod_cases3)
  show ?case
  proof (cases "step_decision E n st")
    case (Inr d)
    obtain cs1 r1 where s: "exec_step E n st d = (cs1, r1)" by fastforce
    with Cons.prems Inr rest Cons.IH [OF rest] len1 [of d] show ?thesis by (cases r1) auto
  qed (use Cons.prems in auto)
qed simp

text \<open>One result per step, in order; a denied step yields UNAUTHORIZED and contacts nothing.\<close>

lemma executed_length:
  "execute_plan E n plan = (ds, cs, Inr rs) \<Longrightarrow> length ds = length plan \<and> length rs = length plan"
proof (induction plan arbitrary: n ds cs rs)
  case (Cons st sts)
  from Cons.prems obtain d r ds2 cs1 cs2 rs2 where x: "step_decision E n st = Inr d" "exec_step E n st d = (cs1, Inr r)"
      "execute_plan E (Suc n) sts = (ds2, cs2, Inr rs2)" "ds = d # ds2" "cs = cs1 @ cs2" "rs = r # rs2"
    by (auto simp: map_sum_Inr_iff split: sum.splits prod.splits)
  with Cons.IH [OF x(3)] show ?case by simp
qed simp

subsection \<open>Aggregation: \<^verbatim>\<open>result_aggregator.py\<close>\<close>

definition aggregate :: "tool_result list \<Rightarrow> pyval dict \<times> provenance list \<times> warning list \<times> bool" where
  "aggregate rs =
     (foldl (\<lambda>d r. dict_set d (tr_tool_name r) (tr_data r)) [] rs,
      concat (map tr_provenance rs), concat (map tr_warnings rs), list_ex (\<lambda>r. tr_status r \<noteq> T_SUCCESS) rs)"


text \<open>C13: planning and executing a request under a fail-closed decision point contacts a connector only
  for an active source of the requested institution that the registry, the tool and the
  source approve, with a caller that holds the tool's capability and, for a student
  asking about a batch, has verified consent; the connector receives that caller and
  exactly the requested scope, and at most five calls are made.
\<close>

theorem plan_contacts_guarded:
  assumes "build_tool_plan r (ex_tools E) sources = Inr plan" and "ex_scope E = cr_scope r"
    and "\<And>k. policy_decision_point (ex_pdp E k)"
    and "execute_plan E n plan = (ds, cs, res)" and "c \<in> set cs"
  shows "\<exists>t d. dict_get (ex_tools E) (cl_tool c) = Some t \<and> has_capability (ex_principal E) (td_required_capability t)
    \<and> \<not> consent_missing (ex_principal E) (cr_scope r)
    \<and> dict_get sources (cl_source_id c) = Some d \<and> sd_status d = S_ACTIVE \<and> sd_institution_id d = college_id (cr_scope r)
    \<and> cl_source_id c \<in> set (td_source_ids t) \<and> cl_tool c \<in> set (sd_allowed_tools d)
    \<and> cc_scope (cl_context c) = Some (cr_scope r) \<and> cc_principal_id (cl_context c) = Some (principal_id (ex_principal E))
    \<and> length cs \<le> 5"
proof -
  have plan: "length plan \<le> 5" "list_all (step_approved (cr_scope r) (ex_tools E) sources) plan"
    using tool_plan_approved [OF assms(1)] by simp_all
  from executed_calls_justified [OF assms(4,5)] obtain st k t d where
      st: "st \<in> set plan" "cl_source_id c = pt_source_id st" "cl_tool c = pt_name st"
      "step_context E st = Inr (cl_context c)" "dict_get (ex_tools E) (pt_name st) = Some t"
    and d: "ex_pdp E k (ex_principal E) (td_required_capability t) ''retrieve'' ''connector_resource'' (pt_source_id st) (ex_scope E) = Inr d"
      "pd_allowed d"
    unfolding call_justified_def by blast
  have cap: "has_capability (ex_principal E) (td_required_capability t) \<and> \<not> consent_missing (ex_principal E) (cr_scope r)"
    using policy_decision_point.allow_sound [OF assms(3) d] assms(2) by simp
  have ctx: "cc_scope (cl_context c) = Some (cr_scope r) \<and> cc_principal_id (cl_context c) = Some (principal_id (ex_principal E))"
    using st(4) assms(2) by (auto simp: step_context_def mk_connector_context_def dest!: sym [of _ "cl_context c"] split: if_splits)
  have "length cs \<le> length plan" using executed_calls_bounded [OF assms(4)] .
  with plan st cap ctx show ?thesis by (fastforce simp: list_all_iff step_approved_def)
qed


definition sample_source :: source_definition where
  "sample_source = \<lparr>sd_source_id = ''college_a_demo'', sd_institution_id = ''college_a'', sd_display_name = ''Demo'',
     sd_connector_type = ''in_memory_demo'', sd_allowed_tools = [''institution.overview''],
     sd_classification = C_CONFIDENTIAL, sd_status = S_ACTIVE, sd_timezone = ''Asia/Kolkata''\<rparr>"

definition sample_read_tool :: tool_definition where
  "sample_read_tool = \<lparr>td_name = ''institution.overview'', td_description = ''overview'', td_required_capability = ASK_READ_ONLY,
     td_source_ids = [''college_a_demo''], td_classification = C_CONFIDENTIAL, td_disclosure = D_AGGREGATE,
     td_read_only = True, td_supports_department = False, td_supports_batch = False\<rparr>"

definition sample_asker :: principal where
  "sample_asker = \<lparr>principal_id = ''u1'', principal_type = FACULTY, capabilities = {ASK_READ_ONLY},
     scopes = [\<lparr>college_id = ''college_a'', department_id = None, batch_id = None\<rparr>],
     authenticated = True, consent_verified = False, revoked = False\<rparr>"

definition sample_request :: chat_request where
  "sample_request = \<lparr>cr_request_id = ''r1'', cr_principal_id = ''u1'', cr_prompt = ''How many students?'',
     cr_scope = \<lparr>college_id = ''college_a'', department_id = None, batch_id = None\<rparr>,
     cr_source_ids = [], cr_conversation_id = None, cr_channel = TEXT\<rparr>"

definition sample_exec_env :: exec_env where
  "sample_exec_env = \<lparr>ex_principal = sample_asker, ex_tools = [(''institution.overview'', sample_read_tool)],
     ex_connectors = [(''college_a_demo'', college_a_connector (\<lambda>_. 0))], ex_scope = cr_scope sample_request,
     ex_request_id = ''r1'', ex_limits = default_query_limits, ex_pdp = (\<lambda>_. local_evaluate ''0'')\<rparr>"

definition sample_plan :: "planned_tool list" where
  "sample_plan = [\<lparr>pt_name = ''institution.overview'', pt_source_id = ''college_a_demo'', pt_arguments = []\<rparr>]"

lemma sample_plan_built:
  "build_tool_plan sample_request (ex_tools sample_exec_env) [(''college_a_demo'', sample_source)] = Inr sample_plan"
  by code_simp

lemma sample_plan_runs:
  "(case execute_plan sample_exec_env 0 sample_plan of (ds, cs, rs) \<Rightarrow>
      length ds = 1 \<and> map cl_tool cs = [''institution.overview'']
      \<and> (case rs of Inr [r] \<Rightarrow> tr_status r = T_SUCCESS \<and> tr_data r = PDict college_a_overview | _ \<Rightarrow> False))"
  by code_simp

lemma plan_contacts_guarded_witness:
  "\<exists>ds cs res c. execute_plan sample_exec_env 0 sample_plan = (ds, cs, res) \<and> cs = [c] \<and> cl_tool c = ''institution.overview''
    \<and> cc_scope (cl_context c) = Some (cr_scope sample_request)"
proof -
  obtain ds cs res where x: "execute_plan sample_exec_env 0 sample_plan = (ds, cs, res)" by (metis prod_cases3)
  with sample_plan_runs obtain c where c: "cs = [c]" "cl_tool c = ''institution.overview''" by auto
  have p: "policy_decision_point (ex_pdp sample_exec_env k)" for k
    by (simp add: sample_exec_env_def local_pdp.policy_decision_point_axioms)
  have "ex_scope sample_exec_env = cr_scope sample_request" by (simp add: sample_exec_env_def)
  from plan_contacts_guarded [OF sample_plan_built this p x, of c] c x show ?thesis by auto
qed

end
