(* ===== verification/Tracing.thy ===== *)
theory Tracing
  imports Prelude
begin

text \<open>
  The trace recorder of \<^verbatim>\<open>observability/tracing.py\<close>: a bounded sequence of spans whose
  attributes pass an allow-list. The exporter is called with the span, its errors are
  swallowed, and nothing it does reaches the recorder, so it is not in the model. Of two
  attributes whose keys agree after normalisation, Python compares the values.
\<close>

definition TRACE_ALLOWED_KEYS :: "string list" where
  "TRACE_ALLOWED_KEYS = [''request_id'', ''conversation_id'', ''principal_id'', ''principal_type'', ''scope_college_id'',
     ''scope_department_id'', ''scope_batch_id'', ''resource_id'', ''resource_type'', ''action'',
     ''tool_name'', ''source_id'', ''provider_id'', ''model_id'', ''status'', ''outcome'', ''latency_ms'',
     ''rows_used'', ''complete'', ''policy_version'', ''decision_id'', ''pdp_decision_ids'', ''redactions_applied'',
     ''route'', ''language'', ''channel'']"

definition TRACE_SENSITIVE_KEYS :: "string list" where
  "TRACE_SENSITIVE_KEYS = [''prompt'', ''input'', ''output'', ''content'', ''text'', ''token'', ''secret'', ''authorization'', ''audio'']"

record trace_span =
  sp_trace_id :: string
  sp_span_id :: string
  sp_name :: string
  sp_started_at :: int
  sp_attributes :: "(string \<times> pyval) list"

record tracer =
  tc_spans :: "trace_span list"
  tc_max_spans :: nat

definition new_tracer :: "int \<Rightarrow> tracer res" where
  "new_tracer max_spans = (if max_spans \<le> 0 then Inl (ValueError ''max_spans must be positive'')
     else Inr \<lparr>tc_spans = [], tc_max_spans = nat max_spans\<rparr>)"

text \<open>An attribute that may be recorded: its normalised key and the value that is kept.\<close>

definition safe_attribute :: "(pyval \<Rightarrow> string) \<Rightarrow> string \<times> pyval \<Rightarrow> (string \<times> pyval) list" where
  "safe_attribute str kv = (case kv of (k, v) \<Rightarrow>
     let n = py_lower (py_strip k)
     in if n \<in> set TRACE_SENSITIVE_KEYS \<or> n \<notin> set TRACE_ALLOWED_KEYS then []
        else (case v of
            PStr s \<Rightarrow> [(n, v)] | PInt i \<Rightarrow> [(n, v)] | PBool b \<Rightarrow> [(n, v)] | PNone \<Rightarrow> [(n, v)]
          | PList xs \<Rightarrow> [(n, PStr (take 500 (py_join '','' (map str xs))))]
          | PTuple xs \<Rightarrow> [(n, PStr (take 500 (py_join '','' (map str xs))))]
          | _ \<Rightarrow> []))"

fun value_rank :: "pyval \<Rightarrow> nat \<times> int \<times> string" where
  "value_rank (PStr s) = (0, 0, s)"
| "value_rank (PInt i) = (1, i, [])"
| "value_rank (PBool b) = (1, if b then 1 else 0, [])"
| "value_rank _ = (2, 0, [])"

definition orderable :: "(string \<times> pyval) list \<Rightarrow> bool" where
  "orderable xs = list_all (\<lambda>x. list_all (\<lambda>y. fst x = fst y \<longrightarrow> fst (value_rank (snd x)) = fst (value_rank (snd y))) xs) xs"

definition safe_attributes :: "(pyval \<Rightarrow> string) \<Rightarrow> pyval dict \<Rightarrow> (string \<times> pyval) list res" where
  "safe_attributes str attrs =
     (let safe = concat (map (safe_attribute str) attrs)
      in if \<not> orderable safe then Inl (TypeError ''values of different types cannot be ordered'')
         else Inr (sort_key (\<lambda>(k, v). (k, value_rank v)) safe))"

definition trace_record :: "(pyval \<Rightarrow> string) \<Rightarrow> string \<Rightarrow> int \<Rightarrow> string \<Rightarrow> string \<Rightarrow> pyval dict \<Rightarrow> tracer \<Rightarrow> tracer res" where
  "trace_record str fresh now nm tid attrs tr =
     bindE (safe_attributes str attrs) (\<lambda>ats.
     Inr (tr\<lparr>tc_spans := last_n (tc_max_spans tr) (tc_spans tr
       @ [\<lparr>sp_trace_id = tid, sp_span_id = ''span-'' @ fresh, sp_name = nm, sp_started_at = now, sp_attributes = ats\<rparr>])\<rparr>))"

definition trace_recent :: "int \<Rightarrow> tracer \<Rightarrow> trace_span list" where
  "trace_recent limit tr = (if limit \<le> 0 then [] else rev (last_n (nat limit) (tc_spans tr)))"

text \<open>What a recorder may hold: at most its capacity, allow-listed scalar attributes only.\<close>

fun trace_scalar :: "pyval \<Rightarrow> bool" where
  "trace_scalar (PStr s) = True"
| "trace_scalar (PInt i) = True"
| "trace_scalar (PBool b) = True"
| "trace_scalar PNone = True"
| "trace_scalar _ = False"

definition span_ok :: "trace_span \<Rightarrow> bool" where
  "span_ok sp = list_all (\<lambda>(k, v). k \<in> set TRACE_ALLOWED_KEYS \<and> k \<notin> set TRACE_SENSITIVE_KEYS \<and> trace_scalar v) (sp_attributes sp)"

definition tracer_ok :: "tracer \<Rightarrow> bool" where
  "tracer_ok tr = (length (tc_spans tr) \<le> tc_max_spans tr \<and> list_all span_ok (tc_spans tr))"

lemma safe_attribute_ok:
  "(k, v) \<in> set (safe_attribute str kv) \<Longrightarrow> k \<in> set TRACE_ALLOWED_KEYS \<and> k \<notin> set TRACE_SENSITIVE_KEYS \<and> trace_scalar v"
  by (cases kv; cases "snd kv") (auto simp: safe_attribute_def Let_def split: if_split_asm)

lemma safe_attributes_ok:
  "safe_attributes str attrs = Inr ats \<Longrightarrow> (k, v) \<in> set ats
    \<Longrightarrow> k \<in> set TRACE_ALLOWED_KEYS \<and> k \<notin> set TRACE_SENSITIVE_KEYS \<and> trace_scalar v"
  using safe_attribute_ok by (fastforce simp: safe_attributes_def Let_def split: if_split_asm)

lemma new_tracer_ok [inv_intros]: "new_tracer n = Inr tr \<Longrightarrow> tracer_ok tr"
  by (auto simp: new_tracer_def tracer_ok_def split: if_splits)

text \<open>Whatever attributes the callers pass, the recorder keeps at most its capacity of spans and
  each span holds only allow-listed keys with scalar values, never a prompt, a text or a
  token.
\<close>

theorem trace_record_safe:
  assumes "tracer_ok tr" and "trace_record str fresh now nm tid attrs tr = Inr tr'"
  shows "tracer_ok tr'"
proof -
  from assms(2) obtain xs sp where xs: "safe_attributes str attrs = Inr xs"
    and sp: "sp_attributes sp = xs"
    and tr': "tr' = tr\<lparr>tc_spans := last_n (tc_max_spans tr) (tc_spans tr @ [sp])\<rparr>"
  proof -
    from assms(2) obtain ys where "safe_attributes str attrs = Inr ys"
      by (auto simp: trace_record_def bindE_eq_Inr)
    with assms(2) show ?thesis by (intro that [OF _ trace_span.simps(5)]) (auto simp: trace_record_def)
  qed
  have "span_ok sp"
    using safe_attributes_ok [OF xs] sp by (auto simp: span_ok_def list_all_iff)
  with assms(1) have "list_all span_ok (tc_spans tr @ [sp])" by (simp add: tracer_ok_def)
  then have "list_all span_ok (tc_spans tr')"
    using set_last_n [of "tc_max_spans tr" "tc_spans tr @ [sp]"] tr' unfolding list_all_iff by auto
  with tr' show ?thesis by (simp add: tracer_ok_def)
qed

lemma trace_record_safe_witness:
  "\<exists>tr'. trace_record (\<lambda>_. []) ''0'' 0 ''assistant.request'' ''r''
      [(''prompt'', PStr ''secret''), ('' Status'', PStr ''complete''), (''rows_used'', PList [PInt 1])]
      \<lparr>tc_spans = [], tc_max_spans = 1\<rparr> = Inr tr' \<and> tracer_ok tr'
    \<and> map sp_attributes (tc_spans tr') = [[(''rows_used'', PStr []), (''status'', PStr ''complete'')]]"
proof -
  let ?tr = "\<lparr>tc_spans = [], tc_max_spans = 1\<rparr>"
  let ?sp = "\<lparr>sp_trace_id = ''r'', sp_span_id = ''span-0'', sp_name = ''assistant.request'', sp_started_at = 0,
    sp_attributes = [(''rows_used'', PStr []), (''status'', PStr ''complete'')]\<rparr>"
  have r: "trace_record (\<lambda>_. []) ''0'' 0 ''assistant.request'' ''r''
      [(''prompt'', PStr ''secret''), ('' Status'', PStr ''complete''), (''rows_used'', PList [PInt 1])] ?tr
      = Inr \<lparr>tc_spans = [?sp], tc_max_spans = 1\<rparr>"
    by code_simp
  have "tracer_ok ?tr" by (simp add: tracer_ok_def)
  from trace_record_safe [OF this r] r show ?thesis by simp
qed

end
