(* ===== verification/Middleware.thy ===== *)
theory Middleware
  imports Prelude
begin

text \<open>
  The HTTP middleware of \<^verbatim>\<open>app/middleware/\<close> in the order \<^verbatim>\<open>app/main.py\<close> stacks it: body size,
  rate limit, timeout, security headers, request id. Header names are lower case; a
  response body is the value its JSON encodes; the application is a function from a
  request to a response, or to None when it is still running at the time limit. Times
  are exact rationals.
\<close>

subsection \<open>Requests and responses\<close>

record http_req =
  hr_method :: string
  hr_path :: string
  hr_client :: "string option"
  hr_headers :: "(string \<times> string) list"
  hr_request_id :: "string option"

record http_resp =
  hp_status :: nat
  hp_headers :: "string dict"
  hp_body :: pyval

definition header_default :: "string \<Rightarrow> string \<Rightarrow> http_resp \<Rightarrow> http_resp" where
  "header_default k v r = (if dict_has (hp_headers r) k then r else r\<lparr>hp_headers := dict_set (hp_headers r) k v\<rparr>)"

definition set_header :: "string \<Rightarrow> string \<Rightarrow> http_resp \<Rightarrow> http_resp" where
  "set_header k v r = r\<lparr>hp_headers := dict_set (hp_headers r) k v\<rparr>"

definition error_body :: "string \<Rightarrow> string \<Rightarrow> string \<Rightarrow> pyval" where
  "error_body code msg rid = PDict [(''error'', PDict [(''code'', PStr code), (''message'', PStr msg), (''request_id'', PStr rid)])]"

subsection \<open>Request ids: \<^verbatim>\<open>request_id.py\<close>\<close>

definition id_char :: "char \<Rightarrow> bool" where
  "id_char c = (is_alpha c \<or> is_digit c \<or> c \<in> set ''._:-'')"

definition safe_request_id :: "string \<Rightarrow> bool" where
  "safe_request_id s = (1 \<le> length s \<and> length s \<le> 128 \<and> list_all id_char s)"

definition header_of :: "(string \<times> string) list \<Rightarrow> string \<Rightarrow> string option" where
  "header_of hs k = map_option snd (find (\<lambda>h. fst h = k) hs)"

definition request_id_for :: "string \<Rightarrow> http_req \<Rightarrow> string \<times> http_req" where
  "request_id_for fresh q =
     (case hr_request_id q of
        Some (c # cs) \<Rightarrow> (c # cs, q)
      | _ \<Rightarrow>
          let candidate = (case header_of (hr_headers q) ''x-request-id'' of Some v \<Rightarrow> v | None \<Rightarrow> []);
              rid = (if safe_request_id candidate then candidate else ''req-'' @ fresh)
          in (rid, q\<lparr>hr_request_id := Some rid\<rparr>))"

definition request_id_middleware :: "string \<Rightarrow> (http_req \<Rightarrow> http_resp option) \<Rightarrow> http_req \<Rightarrow> http_resp option" where
  "request_id_middleware fresh app q =
     (case request_id_for fresh q of (rid, q') \<Rightarrow> map_option (set_header ''x-request-id'' rid) (app q'))"

subsection \<open>Security headers: \<^verbatim>\<open>security_headers.py\<close>\<close>

definition content_security_policy :: "string list \<Rightarrow> string" where
  "content_security_policy origins =
     ''default-src '' @ [CHR 0x27] @ ''self'' @ [CHR 0x27] @ ''; ''
     @ ''connect-src '' @ py_join '' '' (([CHR 0x27] @ ''self'' @ [CHR 0x27]) # origins) @ ''; ''
     @ ''frame-ancestors '' @ [CHR 0x27] @ ''none'' @ [CHR 0x27] @ ''; ''
     @ ''base-uri '' @ [CHR 0x27] @ ''self'' @ [CHR 0x27]"

definition security_headers :: "bool \<Rightarrow> string list \<Rightarrow> string dict" where
  "security_headers production origins =
     [(''x-content-type-options'', ''nosniff''), (''x-frame-options'', ''DENY''), (''referrer-policy'', ''no-referrer''),
      (''permissions-policy'', ''microphone=(self), camera=(), geolocation=()''), (''cross-origin-opener-policy'', ''same-origin''),
      (''content-security-policy'', content_security_policy origins)]
     @ (if production then [(''strict-transport-security'', ''max-age=31536000; includeSubDomains'')] else [])"

definition with_security_headers :: "bool \<Rightarrow> string list \<Rightarrow> http_resp \<Rightarrow> http_resp" where
  "with_security_headers production origins r =
     foldl (\<lambda>r (k, v). header_default k v r) r (security_headers production origins)"

definition security_middleware :: "bool \<Rightarrow> string list \<Rightarrow> (http_req \<Rightarrow> http_resp option) \<Rightarrow> http_req \<Rightarrow> http_resp option" where
  "security_middleware production origins app q = map_option (with_security_headers production origins) (app q)"

subsection \<open>Time limit: \<^verbatim>\<open>timeout.py\<close>\<close>

definition timeout_ok :: "rat \<Rightarrow> unit res" where
  "timeout_ok t = guardE (0 < t) (ValueError ''request timeout must be positive'')"

definition timeout_response :: "string \<Rightarrow> http_resp" where
  "timeout_response rid = \<lparr>hp_status = 504, hp_headers = [(''x-request-id'', rid)],
     hp_body = error_body ''request_timeout'' ''The request exceeded the configured time limit.'' rid\<rparr>"

definition timeout_middleware :: "string \<Rightarrow> (http_req \<Rightarrow> http_resp option) \<Rightarrow> http_req \<Rightarrow> http_resp" where
  "timeout_middleware fresh app q =
     (case app q of Some r \<Rightarrow> r | None \<Rightarrow> timeout_response (fst (request_id_for fresh q)))"

subsection \<open>Rate limit: \<^verbatim>\<open>rate_limit.py\<close>\<close>

definition EXEMPT_PATHS :: "string list" where
  "EXEMPT_PATHS = [''/'', ''/favicon.ico'', ''/openapi.json'', ''/docs'', ''/docs/oauth2-redirect'', ''/redoc'',
     ''/v1/health/live'', ''/v1/health/ready'']"

record rate_limiter =
  rl_max :: int
  rl_window :: rat
  rl_hits :: "rat list dict"

definition new_rate_limiter :: "int \<Rightarrow> rat \<Rightarrow> rate_limiter res" where
  "new_rate_limiter mx w =
     (if mx \<le> 0 \<or> w \<le> 0 then Inl (ValueError ''rate-limit settings must be positive'')
      else Inr \<lparr>rl_max = mx, rl_window = w, rl_hits = []\<rparr>)"

definition client_key :: "http_req \<Rightarrow> string" where
  "client_key q = (case hr_client q of Some h \<Rightarrow> h | None \<Rightarrow> ''unknown'') @ '':'' @ hr_path q"

definition hits_of :: "rate_limiter \<Rightarrow> string \<Rightarrow> rat list" where
  "hits_of L k = (case dict_get (rl_hits L) k of Some h \<Rightarrow> h | None \<Rightarrow> [])"

text \<open>\<^verbatim>\<open>_allow\<close>: drop what left the window, then admit or refuse with the time to wait.\<close>

definition rate_allow :: "string \<Rightarrow> rat \<Rightarrow> rate_limiter \<Rightarrow> rate_limiter \<times> bool \<times> int \<times> int" where
  "rate_allow k now L =
     (let hits = dropWhile (\<lambda>h. h \<le> now - rl_window L) (hits_of L k)
      in if rl_max L \<le> int (length hits)
           then (L\<lparr>rl_hits := dict_set (rl_hits L) k hits\<rparr>, False, 0, max 1 \<lceil>rl_window L - (now - hd hits)\<rceil>)
         else (L\<lparr>rl_hits := dict_set (rl_hits L) k (hits @ [now])\<rparr>, True, max 0 (rl_max L - int (length (hits @ [now]))), 0))"

definition too_many_requests :: "rate_limiter \<Rightarrow> int \<Rightarrow> string \<Rightarrow> http_resp" where
  "too_many_requests L retry rid =
     set_header ''x-ratelimit-remaining'' ''0'' (set_header ''x-ratelimit-limit'' (int_str (rl_max L))
       \<lparr>hp_status = 429, hp_headers = [(''retry-after'', int_str retry), (''x-request-id'', rid)],
        hp_body = error_body ''rate_limit_exceeded'' ''Too many requests for this route; retry later.'' rid\<rparr>)"

definition rate_limit_middleware :: "string \<Rightarrow> rat \<Rightarrow> (http_req \<Rightarrow> http_resp) \<Rightarrow> rate_limiter \<Rightarrow> http_req \<Rightarrow> rate_limiter \<times> http_resp" where
  "rate_limit_middleware fresh now app L q =
     (if hr_path q \<in> set EXEMPT_PATHS then (L, app q)
      else (case rate_allow (client_key q) now L of (L', allowed, remaining, retry) \<Rightarrow>
        if \<not> allowed then (L', too_many_requests L' retry (fst (request_id_for fresh q)))
        else (L', set_header ''x-ratelimit-remaining'' (int_str remaining)
                    (set_header ''x-ratelimit-limit'' (int_str (rl_max L')) (app q)))))"

subsection \<open>The limiter is a sliding window\<close>

text \<open>The specification looks only at what was admitted: a request passes when fewer than the limit
  passed for its key in the window that ends now.\<close>

type_synonym rate_log = "(string \<times> rat) list"

definition admitted :: "rate_log \<Rightarrow> string \<Rightarrow> rat list" where
  "admitted lg k = map snd (filter (\<lambda>e. fst e = k) lg)"

definition spec_allows :: "int \<Rightarrow> rat \<Rightarrow> rate_log \<Rightarrow> string \<Rightarrow> rat \<Rightarrow> bool" where
  "spec_allows mx w lg k now = (int (length (filter (\<lambda>t. now - w < t) (admitted lg k))) < mx)"

fun spec_run :: "int \<Rightarrow> rat \<Rightarrow> rate_log \<Rightarrow> (string \<times> rat) list \<Rightarrow> bool list \<times> rate_log" where
  "spec_run mx w lg [] = ([], lg)"
| "spec_run mx w lg ((k, now) # rs) =
     (let ok = spec_allows mx w lg k now
      in case spec_run mx w (if ok then lg @ [(k, now)] else lg) rs of (vs, lg') \<Rightarrow> (ok # vs, lg'))"

fun rate_run :: "rate_limiter \<Rightarrow> (string \<times> rat) list \<Rightarrow> bool list" where
  "rate_run L [] = []"
| "rate_run L ((k, now) # rs) = (case rate_allow k now L of (L', ok, _) \<Rightarrow> ok # rate_run L' rs)"

definition limiter_rel :: "rat \<Rightarrow> rate_limiter \<Rightarrow> rate_log \<Rightarrow> bool" where
  "limiter_rel now L lg = (\<forall>k. sorted (admitted lg k) \<and> (\<forall>t \<in> set (admitted lg k). t \<le> now)
     \<and> (\<exists>c \<le> now - rl_window L. hits_of L k = filter (\<lambda>h. c < h) (admitted lg k)))"

lemma dropWhile_sorted: "sorted xs \<Longrightarrow> dropWhile (\<lambda>x. x \<le> c) xs = filter (\<lambda>x. c < x) (xs :: rat list)"
proof (induction xs)
  case (Cons x xs)
  then show ?case by (auto simp: not_le intro!: filter_True [symmetric])
qed simp

lemma hits_of_set: "hits_of (L\<lparr>rl_hits := dict_set (rl_hits L) k h\<rparr>) k' = (if k' = k then h else hits_of L k')"
  by (simp add: hits_of_def dict_get_set)


lemma admitted_snoc: "admitted (lg @ [(k, t)]) k' = (if k' = k then admitted lg k' @ [t] else admitted lg k')"
  by (simp add: admitted_def)

lemma pruned_hits:
  assumes "limiter_rel now0 L lg" and "now0 \<le> now"
  shows "dropWhile (\<lambda>h. h \<le> now - rl_window L) (hits_of L k) = filter (\<lambda>t. now - rl_window L < t) (admitted lg k)"
proof -
  obtain c where s: "sorted (admitted lg k)" and c: "c \<le> now0 - rl_window L"
      and h: "hits_of L k = filter (\<lambda>h. c < h) (admitted lg k)"
    using assms(1) unfolding limiter_rel_def by blast
  have "c \<le> now - rl_window L" using c assms(2) by linarith
  moreover have "sorted (hits_of L k)" using s h by (simp add: sorted_wrt_filter)
  ultimately show ?thesis by (auto simp: dropWhile_sorted h intro!: filter_cong)
qed

lemma rate_allow_step:
  assumes rel: "limiter_rel now0 L lg" and le: "now0 \<le> now" and w: "0 < rl_window L"
    and r: "rate_allow k now L = (L', ok, rest)"
  shows "ok = spec_allows (rl_max L) (rl_window L) lg k now \<and> rl_max L' = rl_max L \<and> rl_window L' = rl_window L
    \<and> limiter_rel now L' (if ok then lg @ [(k, now)] else lg)"
proof -
  let ?c = "now - rl_window L" and ?lg = "if ok then lg @ [(k, now)] else lg"
  note p = pruned_hits [OF rel le, of k]
  have ok: "ok = spec_allows (rl_max L) (rl_window L) lg k now"
    using r by (auto simp: rate_allow_def Let_def p spec_allows_def split: if_splits)
  have L': "rl_max L' = rl_max L" "rl_window L' = rl_window L"
      "\<And>k'. hits_of L' k' = (if k' = k then filter (\<lambda>h. ?c < h) (admitted lg k) @ (if ok then [now] else []) else hits_of L k')"
    using r by (auto simp: rate_allow_def Let_def hits_of_set p split: if_splits)
  have old: "sorted (admitted lg k')" "t \<in> set (admitted lg k') \<Longrightarrow> t \<le> now" for t k'
    using rel le by (force simp: limiter_rel_def)+
  have "\<exists>c \<le> now - rl_window L'. hits_of L' k' = filter (\<lambda>h. c < h) (admitted ?lg k')" for k'
  proof (cases "k' = k")
    case False
    obtain c where c: "c \<le> now0 - rl_window L" "hits_of L k' = filter (\<lambda>h. c < h) (admitted lg k')"
      using rel unfolding limiter_rel_def by blast
    have "c \<le> now - rl_window L'" using c(1) le L'(2) by linarith
    with c(2) False L' show ?thesis by (auto simp: admitted_snoc)
  next
    case True
    have "?c < now" using w by simp
    with True L' show ?thesis by (intro exI [of _ ?c]) (auto simp: admitted_snoc)
  qed
  moreover have "sorted (admitted ?lg k') \<and> (\<forall>t \<in> set (admitted ?lg k'). t \<le> now)" for k'
    using old by (auto simp: admitted_snoc sorted_append)
  ultimately have "limiter_rel now L' ?lg" unfolding limiter_rel_def by blast
  with ok L' show ?thesis by simp
qed

lemma rate_run_spec:
  "limiter_rel now0 L lg \<Longrightarrow> 0 < rl_window L \<Longrightarrow> sorted (now0 # map snd rs)
    \<Longrightarrow> rate_run L rs = fst (spec_run (rl_max L) (rl_window L) lg rs)"
proof (induction rs arbitrary: now0 L lg)
  case (Cons x rs)
  obtain k now where x: "x = (k, now)" by (cases x)
  obtain L' ok rest where r: "rate_allow k now L = (L', ok, rest)" by (metis prod_cases3)
  have le: "now0 \<le> now" and s: "sorted (now # map snd rs)" using Cons.prems(3) x by simp_all
  note st = rate_allow_step [OF Cons.prems(1) le Cons.prems(2) r]
  then have "rate_run L' rs = fst (spec_run (rl_max L) (rl_window L) (if ok then lg @ [(k, now)] else lg) rs)"
    using Cons.IH [of now L' "if ok then lg @ [(k, now)] else lg"] s Cons.prems(2) by metis
  with st show ?case by (simp add: x r Let_def split_beta split del: if_split)
qed simp

text \<open>What the specification admits stays within the limit in every window.\<close>

definition within_limit :: "int \<Rightarrow> rat \<Rightarrow> rate_log \<Rightarrow> bool" where
  "within_limit mx w lg = (\<forall>k t. int (length (filter (\<lambda>u. t - w < u \<and> u \<le> t) (admitted lg k))) \<le> mx)"

lemma length_filter_mono: "(\<And>x. x \<in> set xs \<Longrightarrow> P x \<Longrightarrow> Q x) \<Longrightarrow> length (filter P xs) \<le> length (filter Q xs)"
proof (induction xs)
  case (Cons x xs)
  then have "length (filter P xs) \<le> length (filter Q xs)" and "P x \<Longrightarrow> Q x" by simp_all
  then show ?case by auto
qed simp

lemma within_limit_step:
  assumes "within_limit mx w lg" and "spec_allows mx w lg k now" and "\<forall>k. \<forall>u \<in> set (admitted lg k). u \<le> now"
  shows "within_limit mx w (lg @ [(k, now)])"
  unfolding within_limit_def
proof (intro allI)
  fix k' t
  have all: "int (length (filter (\<lambda>u. t - w < u \<and> u \<le> t) (admitted lg k'))) \<le> mx"
    using assms(1) by (simp add: within_limit_def)
  show "int (length (filter (\<lambda>u. t - w < u \<and> u \<le> t) (admitted (lg @ [(k, now)]) k'))) \<le> mx"
  proof (cases "k' = k \<and> t - w < now \<and> now \<le> t")
    case True
    have "length (filter (\<lambda>u. t - w < u \<and> u \<le> t) (admitted lg k)) \<le> length (filter (\<lambda>u. now - w < u) (admitted lg k))"
      using True by (intro length_filter_mono) auto
    with True assms(2) show ?thesis by (simp add: admitted_snoc spec_allows_def)
  qed (use all in \<open>auto simp: admitted_snoc\<close>)
qed

lemma spec_run_within:
  "within_limit mx w lg \<Longrightarrow> \<forall>k. \<forall>u \<in> set (admitted lg k). u \<le> now0 \<Longrightarrow> sorted (now0 # map snd rs)
    \<Longrightarrow> within_limit mx w (snd (spec_run mx w lg rs))"
proof (induction rs arbitrary: now0 lg)
  case (Cons x rs)
  obtain k now where x: "x = (k, now)" by (cases x)
  let ?lg = "if spec_allows mx w lg k now then lg @ [(k, now)] else lg"
  have le: "now0 \<le> now" and s: "sorted (now # map snd rs)" using Cons.prems(3) x by simp_all
  have old: "\<forall>k. \<forall>u \<in> set (admitted lg k). u \<le> now" using Cons.prems(2) le by force
  then have "\<forall>k. \<forall>u \<in> set (admitted ?lg k). u \<le> now" by (auto simp: admitted_snoc)
  moreover have "within_limit mx w ?lg" using within_limit_step [OF Cons.prems(1) _ old] Cons.prems(1) by simp
  ultimately show ?case using Cons.IH [of ?lg now] s by (simp add: x Let_def split_beta split del: if_split)
qed simp

text \<open>The limiter is a sliding window: on requests in time order it admits a request exactly when
  fewer than the limit were admitted for its client and path in the window that ends with
  it, and so no window of that length ever holds more than the limit.
\<close>

theorem rate_limit_exact:
  assumes "new_rate_limiter mx w = Inr L" and "sorted (map snd rs)"
  shows "rate_run L rs = fst (spec_run mx w [] rs) \<and> within_limit mx w (snd (spec_run mx w [] rs))"
proof (cases rs)
  case Nil
  with assms(1) show ?thesis by (simp add: within_limit_def admitted_def new_rate_limiter_def split: if_splits)
next
  case (Cons x xs)
  have L: "rl_max L = mx" "rl_window L = w" "0 < w" "0 < mx" "rl_hits L = []"
    using assms(1) by (auto simp: new_rate_limiter_def split: if_splits)
  have rel: "limiter_rel (snd x) L []"
    by (auto simp: limiter_rel_def admitted_def hits_of_def L)
  have s: "sorted (snd x # map snd rs)" using assms(2) Cons by auto
  have none: "\<forall>k. \<forall>u \<in> set (admitted [] k). u \<le> snd x" and lim0: "within_limit mx w []"
    using L by (simp_all add: within_limit_def admitted_def)
  show ?thesis
    using rate_run_spec [OF rel _ s] spec_run_within [OF lim0 none s] L by simp
qed

lemma rate_limit_exact_witness:
  "\<exists>L. new_rate_limiter 2 10 = Inr L \<and> rate_run L [(''a'', 0), (''a'', 1), (''b'', 2), (''a'', 9), (''a'', 10)] = [True, True, True, False, True]"
proof -
  let ?L = "\<lparr>rl_max = 2, rl_window = 10, rl_hits = []\<rparr>"
  let ?rs = "[(''a'', 0), (''a'', 1), (''b'', 2), (''a'', 9), (''a'', 10)] :: (string \<times> rat) list"
  have L: "new_rate_limiter 2 10 = Inr ?L" by (simp add: new_rate_limiter_def)
  have "sorted (map snd ?rs)" by simp
  from rate_limit_exact [OF L this] have "rate_run ?L ?rs = fst (spec_run 2 10 [] ?rs)" by simp
  also have "\<dots> = [True, True, True, False, True]"
    by (simp add: spec_allows_def admitted_def)
  finally show ?thesis using L by blast
qed


subsection \<open>Body size: \<^verbatim>\<open>request_size.py\<close>\<close>

record size_limits =
  sl_max_bytes :: int
  sl_upload_max_bytes :: int
  sl_upload_routes :: "(string \<times> string) set"

definition new_size_limits :: "int \<Rightarrow> int option \<Rightarrow> (string \<times> string) list \<Rightarrow> size_limits res" where
  "new_size_limits mx up routes =
     (if mx \<le> 0 then Inl (ValueError ''max_bytes must be positive'')
      else if (case up of Some u \<Rightarrow> u \<le> 0 | None \<Rightarrow> False) then Inl (ValueError ''upload_max_bytes must be positive'')
      else Inr \<lparr>sl_max_bytes = mx, sl_upload_max_bytes = (case up of Some u \<Rightarrow> u | None \<Rightarrow> mx),
                sl_upload_routes = set (map (\<lambda>(m, p). (ascii_upper m, p)) routes)\<rparr>)"

definition limit_for :: "size_limits \<Rightarrow> http_req \<Rightarrow> int" where
  "limit_for S q =
     (let p = py_rstrip_char CHR ''/'' (hr_path q);
          route = (ascii_upper (hr_method q), if p = [] then ''/'' else p)
      in if route \<in> sl_upload_routes S then max (sl_max_bytes S) (sl_upload_max_bytes S) else sl_max_bytes S)"

datatype asgi_message = Disconnect | Body_part string bool | Other_message

datatype body_read = Over_limit | Buffered "asgi_message list" | Waiting

fun read_body :: "int \<Rightarrow> int \<Rightarrow> asgi_message list \<Rightarrow> body_read" where
  "read_body cap got [] = Waiting"
| "read_body cap got (Disconnect # ms) = Buffered [Disconnect]"
| "read_body cap got (Other_message # ms) = Buffered [Other_message]"
| "read_body cap got (Body_part b go_on # ms) =
     (if cap < got + int (length b) then Over_limit
      else if \<not> go_on then Buffered [Body_part b go_on]
      else (case read_body cap (got + int (length b)) ms of
          Buffered xs \<Rightarrow> Buffered (Body_part b go_on # xs) | r \<Rightarrow> r))"

datatype size_verdict = Reject http_resp | Pass "asgi_message list" | Blocked

definition size_rejection :: "nat \<Rightarrow> string \<Rightarrow> string \<Rightarrow> string \<Rightarrow> size_verdict" where
  "size_rejection st code msg rid = Reject \<lparr>hp_status = st, hp_headers = [(''x-request-id'', rid)], hp_body = error_body code msg rid\<rparr>"

definition size_request_id :: "string \<Rightarrow> http_req \<Rightarrow> string" where
  "size_request_id fresh q = (case header_of (hr_headers q) ''x-request-id'' of Some (c # cs) \<Rightarrow> c # cs | _ \<Rightarrow> ''req-'' @ fresh)"

definition size_gate :: "string \<Rightarrow> size_limits \<Rightarrow> http_req \<Rightarrow> asgi_message list \<Rightarrow> size_verdict" where
  "size_gate fresh S q ms =
     (let rid = size_request_id fresh q; cap = limit_for S q;
          too_large = size_rejection 413 ''payload_too_large'' ''request body exceeds the configured limit'' rid;
          body = (case read_body cap 0 ms of Over_limit \<Rightarrow> too_large | Buffered xs \<Rightarrow> Pass xs | Waiting \<Rightarrow> Blocked)
      in case header_of (hr_headers q) ''content-length'' of
           None \<Rightarrow> body
         | Some v \<Rightarrow> (case py_int_of v of
             None \<Rightarrow> size_rejection 400 ''invalid_request'' ''Content-Length must be an integer'' rid
           | Some n \<Rightarrow>
               if n < 0 then size_rejection 400 ''invalid_request'' ''Content-Length cannot be negative'' rid
               else if cap < n then too_large else body))"

definition buffered_receive :: "asgi_message list \<Rightarrow> nat \<Rightarrow> asgi_message" where
  "buffered_receive ms n = (if n < length ms then ms ! n else Disconnect)"

text \<open>The messages of one body: up to its last part, a disconnect or a message of another kind.\<close>

fun body_span :: "asgi_message list \<Rightarrow> asgi_message list" where
  "body_span [] = []"
| "body_span (Body_part b True # ms) = Body_part b True # body_span ms"
| "body_span (m # ms) = [m]"

fun body_ends :: "asgi_message list \<Rightarrow> bool" where
  "body_ends [] = False"
| "body_ends (Body_part b True # ms) = body_ends ms"
| "body_ends (m # ms) = True"

fun body_bytes :: "asgi_message list \<Rightarrow> int" where
  "body_bytes [] = 0"
| "body_bytes (Body_part b go_on # ms) = int (length b) + body_bytes ms"
| "body_bytes (m # ms) = body_bytes ms"

lemma body_bytes_nonneg: "0 \<le> body_bytes ms"
  by (induction ms rule: body_bytes.induct) auto

lemma read_body_exact:
  "body_ends ms \<Longrightarrow> 0 \<le> got \<Longrightarrow> got \<le> cap \<Longrightarrow>
    read_body cap got ms = (if got + body_bytes (body_span ms) \<le> cap then Buffered (body_span ms) else Over_limit)"
proof (induction ms arbitrary: got)
  case (Cons m ms)
  show ?case
  proof (cases m)
    case (Body_part b go_on)
    then show ?thesis
      using Cons.IH [of "got + int (length b)"] Cons.prems body_bytes_nonneg [of "body_span ms"] by (cases go_on) auto
  qed (use Cons.prems in simp_all)
qed simp

text \<open>A body that ends and whose declared length, if any, is acceptable reaches the application
  exactly as it was received when it has at most the limit of its route, and is answered
  with 413 otherwise; in particular the application never reads more than the limit.
\<close>

theorem size_limit_exact:
  assumes "new_size_limits mx up routes = Inr S" and "body_ends ms"
    and "\<And>v. header_of (hr_headers q) ''content-length'' = Some v \<Longrightarrow> \<exists>n. py_int_of v = Some n \<and> 0 \<le> n \<and> n \<le> limit_for S q"
  shows "size_gate fresh S q ms = (if body_bytes (body_span ms) \<le> limit_for S q then Pass (body_span ms)
      else size_rejection 413 ''payload_too_large'' ''request body exceeds the configured limit'' (size_request_id fresh q))
    \<and> (\<forall>n < length (body_span ms). buffered_receive (body_span ms) n = ms ! n)"
proof -
  have "0 < sl_max_bytes S" using assms(1) by (auto simp: new_size_limits_def split: if_splits)
  then have pos: "0 \<le> limit_for S q" by (auto simp: limit_for_def Let_def max_def)
  have "read_body (limit_for S q) 0 ms = (if body_bytes (body_span ms) \<le> limit_for S q then Buffered (body_span ms) else Over_limit)"
    using read_body_exact [OF assms(2), of 0 "limit_for S q"] pos by simp
  then have gate: "size_gate fresh S q ms = (if body_bytes (body_span ms) \<le> limit_for S q then Pass (body_span ms)
      else size_rejection 413 ''payload_too_large'' ''request body exceeds the configured limit'' (size_request_id fresh q))"
  proof (cases "header_of (hr_headers q) ''content-length''")
    case (Some v)
    from assms(3) [OF this] obtain n where "py_int_of v = Some n" "\<not> n < 0" "\<not> limit_for S q < n" by auto
    with Some \<open>read_body _ _ _ = _\<close> show ?thesis by (simp add: size_gate_def Let_def)
  qed (simp add: size_gate_def Let_def)
  have "n < length (body_span ms) \<Longrightarrow> body_span ms ! n = ms ! n" for n
  proof (induction ms arbitrary: n rule: body_span.induct)
    case (2 b ms)
    then show ?case by (cases n) simp_all
  qed simp_all
  with gate show ?thesis by (simp add: buffered_receive_def)
qed

definition sample_limits :: size_limits where
  "sample_limits = \<lparr>sl_max_bytes = 4, sl_upload_max_bytes = 8, sl_upload_routes = {(''POST'', ''/v1/documents'')}\<rparr>"

definition sample_upload :: http_req where
  "sample_upload = \<lparr>hr_method = ''post'', hr_path = ''/v1/documents/'', hr_client = None, hr_headers = [(''content-length'', ''6'')], hr_request_id = None\<rparr>"

lemma size_limit_exact_witness:
  "size_gate ''0'' sample_limits sample_upload [Body_part ''abc'' True, Body_part ''def'' False] = Pass [Body_part ''abc'' True, Body_part ''def'' False]"
proof -
  have S: "new_size_limits 4 (Some 8) [(''post'', ''/v1/documents'')] = Inr sample_limits" by code_simp
  have e: "body_ends [Body_part ''abc'' True, Body_part ''def'' False]" by simp
  have l: "limit_for sample_limits sample_upload = 8" "py_int_of ''6'' = Some 6" by code_simp+
  have h: "\<exists>n. py_int_of v = Some n \<and> 0 \<le> n \<and> n \<le> limit_for sample_limits sample_upload"
    if "header_of (hr_headers sample_upload) ''content-length'' = Some v" for v
    using that l by (auto simp: sample_upload_def header_of_def)
  from size_limit_exact [OF S e h, of "''0''"] show ?thesis by (simp add: l)
qed

subsection \<open>The stack\<close>

text \<open>
  The middleware that \<^verbatim>\<open>main.py\<close> adds last runs first, so a rejection by the size limit, the rate
  limit or the timeout never passes the security headers.
\<close>

definition inner_stack :: "bool \<Rightarrow> string list \<Rightarrow> string \<Rightarrow> (http_req \<Rightarrow> http_resp option) \<Rightarrow> http_req \<Rightarrow> http_resp" where
  "inner_stack production origins fresh app q =
     timeout_middleware fresh (security_middleware production origins (request_id_middleware fresh app)) q"

definition http_stack :: "size_limits \<Rightarrow> bool \<Rightarrow> string list \<Rightarrow> string \<Rightarrow> rat \<Rightarrow> (asgi_message list \<Rightarrow> http_req \<Rightarrow> http_resp option)
    \<Rightarrow> rate_limiter \<Rightarrow> http_req \<Rightarrow> asgi_message list \<Rightarrow> rate_limiter \<times> http_resp option" where
  "http_stack S production origins fresh now app L q ms =
     (case size_gate fresh S q ms of
        Reject r \<Rightarrow> (L, Some r)
      | Blocked \<Rightarrow> (L, None)
      | Pass body \<Rightarrow> map_prod id Some (rate_limit_middleware fresh now (inner_stack production origins fresh (app body)) L q))"

lemma header_default_keeps: "dict_has (hp_headers r) k \<Longrightarrow> dict_has (hp_headers (header_default j v r)) k"
  by (simp add: header_default_def)

lemma security_headers_present:
  "k \<in> set (map fst (security_headers production origins)) \<Longrightarrow> dict_has (hp_headers (with_security_headers production origins r)) k"
proof -
  have all: "k \<in> set (map fst hs) \<or> dict_has (hp_headers r) k \<Longrightarrow> dict_has (hp_headers (foldl (\<lambda>r (k, v). header_default k v r) r hs)) k"
    for hs r
  proof (induction hs arbitrary: r)
    case (Cons h hs)
    obtain j v where h: "h = (j, v)" by (cases h)
    have "dict_has (hp_headers (header_default j v r)) j" by (simp add: header_default_def)
    with Cons h show ?case by (auto intro: header_default_keeps)
  qed simp
  then show "k \<in> set (map fst (security_headers production origins)) \<Longrightarrow> ?thesis" by (simp add: with_security_headers_def)
qed

lemma finished_response_secured:
  "app q' = Some r \<Longrightarrow> snd (request_id_for fresh q) = q' \<Longrightarrow>
    dict_has (hp_headers (inner_stack production origins fresh app q)) ''x-frame-options''"
  using security_headers_present [of "''x-frame-options''" production origins]
  by (cases "request_id_for fresh q")
     (simp add: inner_stack_def timeout_middleware_def security_middleware_def request_id_middleware_def security_headers_def)

lemma rejections_not_secured:
  "\<not> dict_has (hp_headers (too_many_requests L n rid)) ''x-frame-options''"
  "\<not> dict_has (hp_headers (timeout_response rid)) ''x-frame-options''"
  by (simp_all add: too_many_requests_def timeout_response_def set_header_def dict_has_def dict_get_def dict_set_def)

end
