(* ===== verification/Words.thy ===== *)
theory Words
  imports AgentPlans
begin

text \<open>
  Searching a text for whole words, and the rules of \<^verbatim>\<open>open_task/routing.py\<close> that are written
  with it. A pattern \<^verbatim>\<open>\b(...)\b\<close> whose alternatives are finitely many literals is the list of
  those literals. Texts hold code points below 256, so the alternatives in other scripts
  match nothing here and are left out.
\<close>

subsection \<open>Whole words\<close>

definition ends_word :: "string \<Rightarrow> bool" where
  "ends_word rest = (rest = [] \<or> \<not> word_char (hd rest))"

definition word_here :: "string list \<Rightarrow> string \<Rightarrow> bool" where
  "word_here ws s = list_ex (\<lambda>w. prefix w s \<and> ends_word (drop (length w) s)) ws"

fun search_word :: "bool \<Rightarrow> string list \<Rightarrow> string \<Rightarrow> bool" where
  "search_word inside ws [] = False"
| "search_word inside ws (c # cs) =
     ((\<not> inside \<and> word_here ws (c # cs)) \<or> search_word (word_char c) ws cs)"

definition has_word :: "string list \<Rightarrow> string \<Rightarrow> bool" where
  "has_word ws s = search_word False ws s"

definition plurals :: "string list \<Rightarrow> string list" where
  "plurals ws = concat (map (\<lambda>w. [w, w @ ''s'']) ws)"

lemma search_word_iff:
  "search_word inside ws s \<longleftrightarrow> (\<exists>xs ys. s = xs @ ys \<and> ys \<noteq> [] \<and> word_here ws ys
     \<and> (if xs = [] then \<not> inside else \<not> word_char (last xs)))"
proof (induction s arbitrary: inside)
  case Nil
  then show ?case by simp
next
  case (Cons c cs)
  have "(\<exists>xs ys. c # cs = xs @ ys \<and> ys \<noteq> [] \<and> word_here ws ys \<and> (if xs = [] then \<not> inside else \<not> word_char (last xs)))
      \<longleftrightarrow> (word_here ws (c # cs) \<and> \<not> inside)
        \<or> (\<exists>xs ys. cs = xs @ ys \<and> ys \<noteq> [] \<and> word_here ws ys \<and> \<not> word_char (last (c # xs)))"
    (is "?L \<longleftrightarrow> ?A \<or> ?B")
  proof
    assume ?L
    then obtain xs ys where x: "c # cs = xs @ ys" "ys \<noteq> []" "word_here ws ys"
      "if xs = [] then \<not> inside else \<not> word_char (last xs)" by blast
    show "?A \<or> ?B"
    proof (cases xs)
      case Nil
      with x show ?thesis by simp
    next
      case (Cons d ds)
      with x have "cs = ds @ ys" "\<not> word_char (last (c # ds))" by auto
      with x(2,3) show ?thesis by blast
    qed
  next
    assume "?A \<or> ?B"
    then show ?L
    proof
      assume ?A
      then show ?L by (intro exI [of _ "[]"] exI [of _ "c # cs"]) simp
    next
      assume ?B
      then obtain xs ys where "cs = xs @ ys" "ys \<noteq> []" "word_here ws ys" "\<not> word_char (last (c # xs))" by blast
      then show ?L by (intro exI [of _ "c # xs"] exI [of _ ys]) simp
    qed
  qed
  then show ?case using Cons.IH [of "word_char c"] by (auto split: if_splits)
qed

subsection \<open>Routing to the open-task agent\<close>

definition OPEN_TASK_INTENT :: string where "OPEN_TASK_INTENT = ''open_task''"

definition PRESENTATION_WORDS :: "string list" where
  "PRESENTATION_WORDS = [''ppt'', ''pptx''] @ plurals [''powerpoint'', ''power point'', ''presentation'', ''slide'',
     ''slidedeck'', ''slide deck'', ''deck'']"

definition WORD_FILE_WORDS :: "string list" where
  "WORD_FILE_WORDS = [''docx'', ''word doc'', ''word docs'', ''word document'', ''word documents'', ''word file'',
     ''word files'', ''word format'', ''msword'', ''ms word'']"

definition CHART_WORDS :: "string list" where
  "CHART_WORDS = plurals [''chart'', ''graph'', ''plot'', ''histogram'', ''infographic'', ''dashboard''] @ [''pie''] @
     [''visualise'', ''visualised'', ''visualisation'', ''visualisations'',
      ''visualize'', ''visualized'', ''visualization'', ''visualizations'']"

definition SPREADSHEET_WORDS :: "string list" where
  "SPREADSHEET_WORDS = [''excel'', ''xlsx''] @ plurals [''spreadsheet'', ''workbook'', ''sheet'']"

definition RICH_SHEET_WORDS :: "string list" where
  "RICH_SHEET_WORDS = [''formula'', ''formulas'', ''formulae'', ''pivot'', ''multiple sheets'', ''separate sheet'',
     ''separate sheets'', ''sheet for each'', ''sheet per each'', ''each program'', ''each department'', ''each class'',
     ''each section'', ''each semester'', ''tab'', ''tabs'', ''conditional formatting'', ''color'', ''colored'', ''colors'',
     ''colour'', ''coloured'', ''colours'', ''highlight'', ''highlighted'', ''highlights'', ''total'', ''totals'',
     ''subtotal'', ''subtotals'', ''summary sheet'']"

definition CREATE_VERBS :: "string list" where
  "CREATE_VERBS = [''create'', ''make'', ''prepare'', ''build'', ''generate'', ''draft'', ''design'', ''produce'',
     ''write'', ''compose'']"

definition WORK_VERBS :: "string list" where
  "WORK_VERBS = CREATE_VERBS @ [''compile'', ''analyse'', ''analyze'', ''compare'', ''plan'', ''forecast'', ''predict'',
     ''summarise'', ''summarize'', ''convert'', ''export'', ''format'', ''calculate'', ''banao'', ''bana do'',
     ''banaiye'', ''taiyar karo'', ''tayyar karo'']"

definition DELIVERABLE_WORDS :: "string list" where
  "DELIVERABLE_WORDS = plurals [''file'', ''document'', ''report'', ''sheet'', ''spreadsheet'', ''workbook'', ''table'', ''list'',
       ''plan'', ''timetable'', ''schedule'', ''letter'', ''circular'', ''notice'', ''memo'', ''comparison'', ''chart'', ''graph'',
       ''presentation'', ''slide'', ''certificate'', ''brochure'', ''newsletter'', ''trend'']
     @ [''analysis'', ''analyses'', ''minutes'', ''summary'', ''summaries'', ''ppt'', ''pptx'', ''excel'', ''word'', ''pdf'',
        ''csv'', ''agenda'', ''forecast'', ''breakdown'']"

definition requested_format_beyond_tools :: "string \<Rightarrow> string option" where
  "requested_format_beyond_tools text =
     (let lowered = py_lower text
      in if has_word PRESENTATION_WORDS lowered then Some ''presentation''
         else if has_word WORD_FILE_WORDS lowered then Some ''word_document''
         else if has_word CHART_WORDS lowered then Some ''chart''
         else if has_word SPREADSHEET_WORDS lowered \<and> has_word RICH_SHEET_WORDS lowered then Some ''rich_spreadsheet''
         else None)"

definition asks_for_work :: "string \<Rightarrow> bool" where
  "asks_for_work text = (has_word WORK_VERBS (py_lower text) \<and> has_word DELIVERABLE_WORDS (py_lower text))"

definition unmapped_plan :: "agent_plan \<Rightarrow> string \<Rightarrow> bool" where
  "unmapped_plan p text =
     (if pl_intent p = ''unknown'' \<and> pl_steps p = [] then True
      else if pl_intent p \<noteq> ''document_question'' then False
      else pl_confidence p < 1 / 2 \<or> has_word CREATE_VERBS (py_lower text))"

definition route_to_open_task :: "string \<Rightarrow> agent_plan \<Rightarrow> string option" where
  "route_to_open_task text p =
     (if pl_intent p = OPEN_TASK_INTENT then Some ''planner''
      else if requested_format_beyond_tools text \<noteq> None then Some ''format''
      else if unmapped_plan p text \<and> asks_for_work text then Some ''unmapped_work''
      else None)"

lemma routed_examples:
  "route_to_open_task ''Make a Power Point of fees'' (empty_plan ''find_students'' ''deterministic'') = Some ''format''"
  "route_to_open_task ''excel list with sheets'' (empty_plan ''find_students'' ''deterministic'') = None"
  "route_to_open_task ''draft a circular'' (empty_plan ''unknown'' ''deterministic'') = Some ''unmapped_work''"
  by code_simp+

end
