(* ===== verification/MasterAgent.thy ===== *)
theory MasterAgent
  imports Gateway Words InstitutionTables Tracing
begin

text \<open>
  The specialised agents (\<^verbatim>\<open>agents/specialists.py\<close>) and the master agent
  (\<^verbatim>\<open>agents/master.py\<close>): a command is checked, planned or resumed from a confirmation,
  executed step by step through the tool gateway, verified, reported and recorded. The
  state is the gateway's (approvals, audit log, the world the handlers run in) with the run
  history and the trace spans. The planner, the job queue and the open-task agent are
  fields of the master; what one command reads from its environment is a record.
\<close>

subsection \<open>State and configuration\<close>

record 'w master_state =
  mst_gateway :: "'w gateway_state"
  mst_runs :: "run_row list"
  mst_tracer :: tracer

record master_env =
  me_gateway :: "nat \<Rightarrow> env"
  me_step_ms :: "nat \<Rightarrow> int"
  me_duration_ms :: int
  me_audit_id :: string
  me_run_id :: string
  me_span_id :: string
  me_clock_audit :: int
  me_clock_run :: int
  me_clock_trace :: int
  me_sha256 :: "string \<Rightarrow> string"

record 'w background =
  bq_backend_name :: string
  bq_enqueue :: "string \<Rightarrow> string \<Rightarrow> pyval dict \<Rightarrow> 'w master_state \<Rightarrow> 'w master_state \<times> string res"

record 'w open_task_agent =
  ot_refusal :: "principal \<Rightarrow> string option"
  ot_unavailable :: "string option"
  ot_background :: bool
  ot_run :: "agent_command \<Rightarrow> 'w master_state \<Rightarrow> 'w master_state \<times> agent_response res"

record 'w specialist =
  sa_name :: string
  sa_groups :: "string set"
  sa_gateway :: "'w gateway"

record 'w master =
  ma_gateway :: "'w gateway"
  ma_registry :: "'w tool_registry"
  ma_planner :: "'w planner"
  ma_vocabulary :: "string \<Rightarrow> vocabulary res"
  ma_model :: "text_model option"
  ma_model_max_tokens :: int
  ma_limits :: query_limits
  ma_specialists :: "'w specialist dict"
  ma_background :: "'w background option"
  ma_open_task :: "'w open_task_agent option"

subsection \<open>Specialised agents\<close>

definition STEP_FAILURE_MESSAGE :: string where
  "STEP_FAILURE_MESSAGE = ''the step could not complete because of an internal error; the details have been logged for the administrator''"

definition owns :: "'w specialist \<Rightarrow> string \<Rightarrow> bool" where
  "owns a g = (g \<in> sa_groups a)"

definition blank_result :: "plan_step \<Rightarrow> string \<Rightarrow> string \<Rightarrow> step_result" where
  "blank_result st status why = \<lparr>sr_step_id = st_id st, sr_tool = st_tool st, sr_status = status, sr_summary = why,
     sr_data = PNone, sr_records_returned = 0, sr_duration_ms = 0, sr_warnings = [], sr_provenance = [],
     sr_artifacts = [], sr_denial_reason = Some why, sr_approval = None\<rparr>"

definition invocation_result :: "plan_step \<Rightarrow> int \<Rightarrow> tool_invocation \<Rightarrow> step_result" where
  "invocation_result st ms ti = \<lparr>sr_step_id = st_id st, sr_tool = st_tool st, sr_status = ti_status ti,
     sr_summary = (if ti_summary ti \<noteq> [] then ti_summary ti else case ti_denial_reason ti of Some r \<Rightarrow> r | None \<Rightarrow> []),
     sr_data = ti_data ti, sr_records_returned = ti_records_returned ti, sr_duration_ms = ms,
     sr_warnings = ti_warnings ti, sr_provenance = ti_provenance ti, sr_artifacts = ti_artifacts ti,
     sr_denial_reason = ti_denial_reason ti, sr_approval = ti_approval ti\<rparr>"

definition specialist_run :: "'w specialist \<Rightarrow> env \<Rightarrow> int \<Rightarrow> plan_step \<Rightarrow> pyval dict \<Rightarrow> tool_context
    \<Rightarrow> 'w gateway_state \<Rightarrow> 'w gateway_state \<times> step_result" where
  "specialist_run a e ms st args ctx s =
     (case invoke (sa_gateway a) e (st_tool st) (Some args) ctx s of
        (s', Inl err) \<Rightarrow> (s', (blank_result st ''failed'' STEP_FAILURE_MESSAGE)\<lparr>sr_duration_ms := ms\<rparr>)
      | (s', Inr ti) \<Rightarrow> (s', invocation_result st ms ti))"

definition build_specialists :: "'w gateway \<Rightarrow> 'w specialist dict" where
  "build_specialists gw = [
     (''data'', \<lparr>sa_name = ''data'', sa_groups = {''students'', ''attendance'', ''fees'', ''faculty'', ''institution'',
        ''exams'', ''documents'', ''ingestion''}, sa_gateway = gw\<rparr>),
     (''action'', \<lparr>sa_name = ''action'', sa_groups = {''reports'', ''email'', ''notifications'', ''records''}, sa_gateway = gw\<rparr>),
     (''internet'', \<lparr>sa_name = ''internet'', sa_groups = {''internet''}, sa_gateway = gw\<rparr>)]"

text \<open>\<^verbatim>\<open>MasterAgent.__post_init__\<close>.\<close>

definition init_master :: "'w master \<Rightarrow> 'w master" where
  "init_master m = (if ma_specialists m = [] then m\<lparr>ma_specialists := build_specialists (ma_gateway m)\<rparr> else m)"

subsection \<open>Planning and confirmations\<close>

definition command_vocabulary :: "'w master \<Rightarrow> string \<Rightarrow> vocabulary" where
  "command_vocabulary m i = (case ma_vocabulary m i of Inr v \<Rightarrow> v | Inl _ \<Rightarrow> \<lparr>vc_programs = [], vc_departments = []\<rparr>)"

definition plan_command :: "'w master \<Rightarrow> agent_command \<Rightarrow> agent_plan res" where
  "plan_command m c = ma_planner m (cmd_text c) (tools_for_principal (cmd_principal c) (ma_registry m))
     (command_vocabulary m (college_id (cmd_scope c)))"

definition step_risk :: "'w master \<Rightarrow> plan_step \<Rightarrow> risk_level" where
  "step_risk m st = (case get_tool (st_tool st) (ma_registry m) of Inr tool \<Rightarrow> tool_risk tool | Inl _ \<Rightarrow> RISK_HIGH)"

definition approved_call :: "'w master \<Rightarrow> agent_command \<Rightarrow> 'w master_state \<Rightarrow> approval option" where
  "approved_call m c s =
     (case cmd_approval_id c of None \<Rightarrow> None | Some [] \<Rightarrow> None
      | Some a \<Rightarrow>
          (case get_approval (college_id (cmd_scope c)) a (gs_approvals (mst_gateway s)) of
             Inr (Some r) \<Rightarrow>
               if ap_status r \<noteq> ''approved'' \<or> ap_principal_id r \<noteq> principal_id (cmd_principal c)
                  \<or> \<not> has_tool (ap_tool_name r) (ma_registry m) then None else Some r
           | _ \<Rightarrow> None))"

text \<open>\<^verbatim>\<open>dict(x or {})\<close> of a kept value: a mapping is copied, a list of pairs is one, anything else raises.\<close>

fun pair_of :: "pyval \<Rightarrow> (string \<times> pyval) res" where
  "pair_of (PList [PStr k, v]) = Inr (k, v)"
| "pair_of (PTuple [PStr k, v]) = Inr (k, v)"
| "pair_of _ = Inl (TypeError ''cannot convert dictionary update sequence element to a sequence'')"

definition py_dict :: "pyval \<Rightarrow> pyval dict res" where
  "py_dict v =
     (if \<not> truthy v then Inr []
      else case v of
          PDict d \<Rightarrow> Inr d
        | PList xs \<Rightarrow> bindE (mapE pair_of xs) (\<lambda>kvs. Inr (foldl (\<lambda>d (k, x). dict_set d k x) [] kvs))
        | _ \<Rightarrow> Inl (TypeError ''object is not iterable''))"

text \<open>A kept dependency that is not a text names no step, and the filter of \<open>resume_plan\<close> drops it.\<close>

definition kept_depends :: "pyval \<Rightarrow> string list res" where
  "kept_depends v = (if \<not> truthy v then Inr [] else
     bindE (py_iter v) (\<lambda>xs. Inr (concat (map (\<lambda>x. case x of PStr s \<Rightarrow> [s] | _ \<Rightarrow> []) xs))))"

definition kept_step :: "agent_lib \<Rightarrow> pyval \<Rightarrow> plan_step res" where
  "kept_step L v =
     (case v of
        PDict item \<Rightarrow>
          (case (dict_get item ''step_id'', dict_get item ''tool'') of
             (Some i, Some t) \<Rightarrow>
               bindE (py_dict (get_or_none item ''arguments'')) (\<lambda>args.
               bindE (kept_depends (get_or_none item ''depends_on'')) (\<lambda>deps.
               bindE (py_dict (get_or_none item ''bindings'')) (\<lambda>binds.
               Inr \<lparr>st_id = py_str (al_repr L) i, st_tool = py_str (al_repr L) t, st_arguments = args,
                   st_purpose = text_or L item ''purpose'' [], st_depends_on = deps, st_bindings = binds,
                   st_agent = text_or L item ''agent'' ''data''\<rparr>)))
           | _ \<Rightarrow> Inl (KeyError ''step_id''))
      | _ \<Rightarrow> Inl (TypeError ''indices must be integers''))"

text \<open>The kept plan, its steps and where it stopped; None is every exception \<^verbatim>\<open>_resume\<close> catches.\<close>

definition kept_plan :: "agent_lib \<Rightarrow> string \<Rightarrow> pyval dict \<Rightarrow> (pyval dict \<times> plan_step \<times> plan_step list) option" where
  "kept_plan L tool kept =
     (case (get_or_none kept ''plan'', dict_get kept ''stopped_at'') of
        (PDict plan, Some stopped) \<Rightarrow>
          (case bindE (py_iter (get_or_none plan ''steps'')) (mapE (kept_step L)) of
             Inl _ \<Rightarrow> None
           | Inr steps \<Rightarrow>
               (case dropWhile (\<lambda>st. \<not> (PStr (st_id st) = stopped \<and> st_tool st = tool)) steps of
                  [] \<Rightarrow> None
                | st # later \<Rightarrow> Some (plan, st, later)))
      | _ \<Rightarrow> None)"

definition confirmed_alone :: "'w tool \<Rightarrow> approval \<Rightarrow> agent_plan" where
  "confirmed_alone tool r = \<lparr>pl_intent = tool_name tool,
     pl_steps = [\<lparr>st_id = ''s1'', st_tool = tool_name tool, st_arguments = ap_arguments r,
        st_purpose = ''run the confirmed '' @ tool_name tool, st_depends_on = [], st_bindings = [],
        st_agent = agent_for_group (tool_group tool)\<rparr>],
     pl_clarification = None, pl_summary = ''run the confirmed '' @ tool_name tool, pl_planner = ''approval'',
     pl_confidence = 1, pl_entities = []\<rparr>"

definition keep_present :: "string list \<Rightarrow> plan_step \<Rightarrow> plan_step" where
  "keep_present ids st = st\<lparr>st_depends_on := filter (\<lambda>d. d \<in> set ids) (st_depends_on st)\<rparr>"

definition resume_plan :: "agent_lib \<Rightarrow> 'w master \<Rightarrow> approval \<Rightarrow> (agent_plan \<times> pyval dict) res" where
  "resume_plan L m r =
     bindE (get_tool (ap_tool_name r) (ma_registry m)) (\<lambda>tool.
     let kept = (case ap_resume r of None \<Rightarrow> [] | Some d \<Rightarrow> d)
     in case kept_plan L (tool_name tool) kept of
          None \<Rightarrow> Inr (confirmed_alone tool r, [])
        | Some (plan, stopped, later) \<Rightarrow>
            (let first = stopped\<lparr>st_tool := tool_name tool, st_arguments := ap_arguments r, st_depends_on := [], st_bindings := []\<rparr>;
                 ids = map st_id (first # later);
                 remaining = map (keep_present ids) (first # later)
             in bindE (py_dict (get_or_none plan ''entities'')) (\<lambda>ents.
                bindE (mk_agent_plan \<lparr>pl_intent = text_or L plan ''intent'' (tool_name tool), pl_steps = remaining,
                    pl_clarification = None, pl_summary = py_join '' then '' (map st_purpose remaining),
                    pl_planner = ''approval'', pl_confidence = 1, pl_entities = ents\<rparr>) (\<lambda>p.
                bindE (py_dict (get_or_none kept ''completed'')) (\<lambda>completed. Inr (p, completed))))))"

text \<open>\<^verbatim>\<open>_keep_for_resume\<close>: a failure to keep is only logged.\<close>

definition asked_approval :: "step_result \<Rightarrow> pyval dict option" where
  "asked_approval r = (if sr_status r = ''approval_required''
     then (case sr_approval r of Some (x # xs) \<Rightarrow> Some (x # xs) | _ \<Rightarrow> None) else None)"

definition output_of :: "step_result \<Rightarrow> pyval" where
  "output_of r = PDict [(''data'', sr_data r), (''summary'', PStr (sr_summary r))]"

definition kept_outputs :: "agent_plan \<Rightarrow> step_result \<Rightarrow> step_result list \<Rightarrow> pyval dict" where
  "kept_outputs p stopped rs =
     (let later = drop 1 (dropWhile (\<lambda>st. st_id st \<noteq> sr_step_id stopped) (pl_steps p));
          needed = \<Union> (set (map referenced_steps later))
      in foldl (\<lambda>d r. dict_set d (sr_step_id r) (output_of r)) []
           (filter (\<lambda>r. result_ok r \<and> sr_step_id r \<in> needed) rs))"

definition resume_record :: "agent_lib \<Rightarrow> agent_plan \<Rightarrow> string \<Rightarrow> pyval dict \<Rightarrow> pyval dict" where
  "resume_record L p i completed = [(''plan'', PDict (plan_as_dict L p)), (''stopped_at'', PStr i), (''completed'', PDict completed)]"

definition keep_for_resume :: "agent_lib \<Rightarrow> agent_command \<Rightarrow> agent_plan \<Rightarrow> step_result list
    \<Rightarrow> 'w master_state \<Rightarrow> 'w master_state" where
  "keep_for_resume L c p rs s =
     (case find (\<lambda>r. asked_approval r \<noteq> None) rs of
        None \<Rightarrow> s
      | Some stopped \<Rightarrow>
          (case dict_get (the (asked_approval stopped)) ''approval_id'' of
             None \<Rightarrow> s
           | Some a \<Rightarrow>
               (case set_approval_resume (college_id (cmd_scope c)) (py_str (al_repr L) a) (principal_id (cmd_principal c))
                   (resume_record L p (sr_step_id stopped) (kept_outputs p stopped rs)) (gs_approvals (mst_gateway s)) of
                  Inl _ \<Rightarrow> s
                | Inr (t, _) \<Rightarrow> s\<lparr>mst_gateway := (mst_gateway s)\<lparr>gs_approvals := t\<rparr>\<rparr>)))"

subsection \<open>Recording a command\<close>

definition agent_outcome :: "string \<Rightarrow> string" where
  "agent_outcome st =
     (if st = ''complete'' then ''success'' else if st = ''partial'' then ''partial''
      else if st = ''refused'' then ''denied'' else if st = ''accepted'' then ''success''
      else if st = ''needs_input'' \<or> st = ''approval_required'' then ''partial''
      else ''failed'')"

definition plan_steps_of :: "agent_plan option \<Rightarrow> plan_step list" where
  "plan_steps_of p = (case p of None \<Rightarrow> [] | Some q \<Rightarrow> pl_steps q)"

definition command_tools :: "agent_plan option \<Rightarrow> agent_response \<Rightarrow> string list" where
  "command_tools p r = (if rs_steps r \<noteq> [] then map sr_tool (rs_steps r) else map st_tool (plan_steps_of p))"

definition add_run :: "master_env \<Rightarrow> agent_command \<Rightarrow> agent_plan option \<Rightarrow> agent_response
    \<Rightarrow> 'w master_state \<Rightarrow> 'w master_state" where
  "add_run e c p r s =
     (case add_agent_run (me_clock_run e) (college_id (cmd_scope c))
         \<lparr>ar_id = ''run-'' @ me_run_id e, ar_institution_id = college_id (cmd_scope c),
          ar_principal_id = principal_id (cmd_principal c), ar_request_id = cmd_request_id c, ar_channel = cmd_channel c,
          ar_command_sha256 = me_sha256 e (cmd_text c), ar_status = rs_status r,
          ar_plan = map step_as_dict (plan_steps_of p), ar_steps = map (result_as_dict False) (rs_steps r),
          ar_tool_names = command_tools p r, ar_duration_ms = rs_duration_ms r, ar_created_at = me_clock_run e\<rparr> (mst_runs s) of
        Inl _ \<Rightarrow> s | Inr t \<Rightarrow> s\<lparr>mst_runs := t\<rparr>)"

definition record_command :: "master_env \<Rightarrow> agent_command \<Rightarrow> agent_plan option \<Rightarrow> agent_response
    \<Rightarrow> 'w master_state \<Rightarrow> 'w master_state \<times> unit res" where
  "record_command e c p r s =
     (case mk_audit_event (''audit-'' @ me_audit_id e) ''agent.command'' (cmd_request_id c) (Aware (me_clock_audit e))
         (if authenticated (cmd_principal c) then Some (principal_id (cmd_principal c)) else None)
         (Some ''/v1/agent/commands'') (cmd_conversation_id c) [college_id (cmd_scope c)] (command_tools p r)
         (agent_outcome (rs_status r)) [''command_text_hashed'', ''tool_data_not_persisted'']
         [(''intent'', PStr (rs_intent r)), (''planner'', PStr (case p of None \<Rightarrow> ''none'' | Some q \<Rightarrow> pl_planner q)),
          (''channel'', PStr (cmd_channel c)), (''status'', PStr (rs_status r))]
         (Some (rs_duration_ms r)) of
        Inl err \<Rightarrow> (s, Inl err)
      | Inr ev \<Rightarrow>
          (let g = mst_gateway s
           in (add_run e c p r (s\<lparr>mst_gateway := g\<lparr>gs_audits := gs_audits g @ [ev]\<rparr>\<rparr>), Inr ())))"

text \<open>Record, then answer; a record that raises replaces the answer.\<close>

definition answer_with :: "master_env \<Rightarrow> agent_command \<Rightarrow> agent_plan option \<Rightarrow> agent_response
    \<Rightarrow> 'w master_state \<Rightarrow> 'w master_state \<times> agent_response res" where
  "answer_with e c p r s = (case record_command e c p r s of
     (s', Inl err) \<Rightarrow> (s', Inl err) | (s', Inr _) \<Rightarrow> (s', Inr r))"

definition new_response :: "master_env \<Rightarrow> agent_command \<Rightarrow> string \<Rightarrow> string \<Rightarrow> agent_response" where
  "new_response e c status text = \<lparr>rs_request_id = cmd_request_id c, rs_status = status, rs_answer = text,
     rs_intent = ''unknown'', rs_plan = [], rs_steps = [], rs_sources = [], rs_warnings = [], rs_artifacts = [],
     rs_approval = None, rs_clarification = None, rs_refusal_reason = None, rs_generation_mode = ''deterministic'',
     rs_duration_ms = me_duration_ms e, rs_job_id = None, rs_conversation_id = cmd_conversation_id c\<rparr>"

definition refuse :: "master_env \<Rightarrow> agent_command \<Rightarrow> string \<Rightarrow> 'w master_state \<Rightarrow> 'w master_state \<times> agent_response res" where
  "refuse e c why s = answer_with e c None
     ((new_response e c ''refused'' (''I cannot run this command: '' @ why))\<lparr>rs_refusal_reason := Some why\<rparr>) s"

subsection \<open>Execution\<close>

definition specialist_for :: "'w master \<Rightarrow> plan_step \<Rightarrow> 'w specialist res" where
  "specialist_for m st = (case dict_get (ma_specialists m) (st_agent st) of
     Some a \<Rightarrow> Inr a
   | None \<Rightarrow> (case dict_get (ma_specialists m) ''data'' of Some a \<Rightarrow> Inr a | None \<Rightarrow> Inl (KeyError ''data'')))"

definition command_context :: "'w master \<Rightarrow> agent_command \<Rightarrow> tool_context" where
  "command_context m c = \<lparr>ctx_request_id = cmd_request_id c, ctx_principal = cmd_principal c, ctx_scope = cmd_scope c,
     ctx_channel = cmd_channel c, ctx_limits = ma_limits m, ctx_approval_id = cmd_approval_id c,
     ctx_conversation_id = cmd_conversation_id c\<rparr>"

definition with_result :: "step_result \<Rightarrow> 'w gateway_state \<times> step_result list res
    \<Rightarrow> 'w gateway_state \<times> step_result list res" where
  "with_result r rest = (case rest of (s, Inl err) \<Rightarrow> (s, Inl err) | (s, Inr rs) \<Rightarrow> (s, Inr (r # rs)))"

fun execute :: "'w master \<Rightarrow> master_env \<Rightarrow> agent_command \<Rightarrow> nat \<Rightarrow> plan_step list \<Rightarrow> pyval dict \<Rightarrow> string list
    \<Rightarrow> 'w gateway_state \<Rightarrow> 'w gateway_state \<times> step_result list res" where
  "execute m e c k [] completed failed s = (s, Inr [])"
| "execute m e c k (st # sts) completed failed s =
     (if list_ex (\<lambda>d. d \<in> set failed) (st_depends_on st)
        then execute m e c k sts completed (st_id st # failed) s
      else case resolve_arguments (st_arguments st) (st_bindings st) completed of
          Inl (Escapes err) \<Rightarrow> (s, Inl err)
        | Inl (Unresolved why) \<Rightarrow>
            with_result (blank_result st ''failed'' why) (execute m e c k sts completed (st_id st # failed) s)
        | Inr args \<Rightarrow>
            (case specialist_for m st of
               Inl err \<Rightarrow> (s, Inl err)
             | Inr a \<Rightarrow>
                 (case specialist_run a (me_gateway e k) (me_step_ms e k) st args (command_context m c) s of
                    (s', r) \<Rightarrow>
                      if sr_status r = ''approval_required'' then (s', Inr [r])
                      else if result_ok r
                        then with_result r (execute m e c (Suc k) sts (dict_set completed (st_id st) (output_of r)) failed s')
                      else with_result r (execute m e c (Suc k) sts completed (st_id st # failed) s'))))"

subsection \<open>The report\<close>

definition no_attribute :: pyerr where
  "no_attribute = OtherError ''object has no attribute get''"

definition as_mapping :: "pyval \<Rightarrow> pyval dict res" where
  "as_mapping v = (case v of PDict d \<Rightarrow> Inr d | _ \<Rightarrow> Inl no_attribute)"

definition row_label :: "agent_lib \<Rightarrow> pyval dict \<Rightarrow> string" where
  "row_label L row = py_str (al_repr L) (py_or (py_or (py_or (get_or_none row ''name'') (get_or_none row ''student_id''))
     (get_or_none row ''faculty_id'')) (PStr []))"

definition row_identifier :: "pyval dict \<Rightarrow> pyval" where
  "row_identifier row = py_or (py_or (get_or_none row ''student_id'') (get_or_none row ''faculty_id'')) (get_or_none row ''staff_id'')"

definition row_detail :: "agent_lib \<Rightarrow> pyval dict \<Rightarrow> string res" where
  "row_detail L row =
     (if get_or_none row ''attendance_percent'' \<noteq> PNone
        then Inr ('', '' @ py_str (al_repr L) (get_or_none row ''attendance_percent'') @ ''%'')
      else if get_or_none row ''balance'' \<noteq> PNone
        then bindE (al_balance L (get_or_none row ''balance'')) (\<lambda>t. Inr ('', balance '' @ t))
      else if truthy (get_or_none row ''designation'')
        then Inr ('', '' @ py_str (al_repr L) (get_or_none row ''designation''))
      else Inr [])"

definition row_part :: "agent_lib \<Rightarrow> pyval dict \<Rightarrow> string res" where
  "row_part L row = bindE (row_detail L row) (\<lambda>detail.
     let label = row_label L row; i = row_identifier row
     in Inr (if truthy i \<and> i \<noteq> PStr label then label @ '' ('' @ py_str (al_repr L) i @ detail @ '')'' else label @ detail))"

definition listing :: "agent_lib \<Rightarrow> step_result \<Rightarrow> string option res" where
  "listing L r =
     (let d = data_of r
      in case py_or (py_or (py_or (get_or_none d ''students'') (get_or_none d ''faculty'')) (get_or_none d ''hods''))
           (get_or_none d ''staff'') of
           PList rows \<Rightarrow>
             bindE (mapE (row_part L) (concat (map (\<lambda>x. case x of PDict row \<Rightarrow> [row] | _ \<Rightarrow> []) (take 25 rows)))) (\<lambda>parts.
             Inr (if parts = [] then None
                  else Some (''Names: '' @ py_join ''; '' parts
                    @ (if 25 < length rows then '' and '' @ nat_digits (length rows - 25) @ '' more'' else []) @ ''.'')))
         | _ \<Rightarrow> Inr None)"

definition result_fragments :: "agent_lib \<Rightarrow> bool \<Rightarrow> step_result \<Rightarrow> string list res" where
  "result_fragments L wants_list r =
     (if result_ok r \<and> sr_summary r \<noteq> [] then
        (if wants_list then bindE (listing L r) (\<lambda>l. Inr (sr_summary r # (case l of Some t \<Rightarrow> [t] | None \<Rightarrow> [])))
         else Inr [sr_summary r])
      else if sr_status r = ''approval_required'' then
        (let note = get_or_none (case sr_approval r of Some d \<Rightarrow> d | None \<Rightarrow> []) ''note''
         in Inr [sr_tool r @ '' needs your confirmation before it runs''
              @ (if truthy note then '' ('' @ py_str (al_repr L) note @ '')'' else []) @ ''.''])
      else if sr_status r \<in> {''denied'', ''failed'', ''invalid_arguments'', ''unknown_tool''} then
        Inr [sr_tool r @ '' could not run: ''
          @ (case sr_denial_reason r of Some (x # xs) \<Rightarrow> x # xs | _ \<Rightarrow> sr_status r) @ ''.'']
      else Inr [])"

definition artifact_fragments :: "agent_lib \<Rightarrow> pyval \<Rightarrow> string list res" where
  "artifact_fragments L v = bindE (as_mapping v) (\<lambda>d.
     Inr (if get_or_none d ''type'' = PStr ''report''
          then [''Download: '' @ py_str (al_repr L) (get_or_none d ''download_path'')] else []))"

definition compose :: "agent_lib \<Rightarrow> agent_plan \<Rightarrow> step_result list \<Rightarrow> string \<Rightarrow> string res" where
  "compose L p rs status =
     (let wants = truthy (get_or_none (pl_entities p) ''wants_list'') \<and> \<not> truthy (get_or_none (pl_entities p) ''wants_count'')
      in bindE (mapE (result_fragments L wants) rs) (\<lambda>fs.
         bindE (mapE (artifact_fragments L) (concat (map sr_artifacts rs))) (\<lambda>downloads.
         let found = concat fs @ concat downloads
         in Inr (py_join '' '' ((if found = [] then [''No step produced a result.''] else found)
              @ (if status = ''partial''
                 then [''Some steps did not complete; the answer above covers only the successful ones.''] else []))))))"

text \<open>The sources of the answer, each once: what \<^verbatim>\<open>handle\<close> makes of the provenance.\<close>

definition source_key :: "agent_lib \<Rightarrow> pyval dict \<Rightarrow> string" where
  "source_key L d = py_str (al_repr L) (get_or_none d ''source_id'') @ ''|''
     @ py_str (al_repr L) (get_default d ''title'' (PStr []))"

definition source_entry :: "agent_lib \<Rightarrow> pyval dict \<Rightarrow> pyval dict res" where
  "source_entry L d =
     (let sid = get_or_none d ''source_id''; kind = py_str (al_repr L) (get_or_none d ''source_type'')
      in if kind = ''public_web'' \<and> \<not> dict_has d ''source_id'' then Inl (KeyError ''source_id'')
         else Inr ([(''source_id'', sid),
           (''title'', py_or (get_or_none d ''title'') (PStr (py_str (al_repr L) sid @ '' ('' @ kind @ '')''))),
           (''locator'', py_or (get_or_none d ''locator'') (get_default d ''retrieved_at'' (PStr ''retrieved'')))]
           @ (if kind = ''public_web'' then [(''url'', sid)] else [])
           @ (if truthy (get_or_none d ''published_at'') then [(''published_at'', get_or_none d ''published_at'')] else [])))"

fun gather_sources :: "agent_lib \<Rightarrow> string list \<Rightarrow> pyval list \<Rightarrow> pyval dict list res" where
  "gather_sources L seen [] = Inr []"
| "gather_sources L seen (v # vs) =
     bindE (as_mapping v) (\<lambda>d.
       if source_key L d \<in> set seen then gather_sources L seen vs
       else bindE (source_entry L d) (\<lambda>x.
            bindE (gather_sources L (source_key L d # seen) vs) (\<lambda>xs. Inr (x # xs))))"

subsection \<open>The command\<close>

definition ONE_CHANGE_PER_CONFIRMATION :: string where
  "ONE_CHANGE_PER_CONFIRMATION = ''I can change one record per confirmation. Please ask for each change separately.''"

definition command_payload :: "agent_command \<Rightarrow> pyval dict" where
  "command_payload c = [
     (''request_id'', PStr (cmd_request_id c)), (''text'', PStr (cmd_text c)), (''channel'', PStr (cmd_channel c)),
     (''conversation_id'', opt_str (cmd_conversation_id c)), (''principal'', PDict (principal_snapshot (cmd_principal c))),
     (''scope'', PDict (scope_as_dict (cmd_scope c))), (''approval_id'', opt_str (cmd_approval_id c))]"

definition enqueue_command :: "'w background \<Rightarrow> agent_command \<Rightarrow> 'w master_state \<Rightarrow> 'w master_state \<times> string res" where
  "enqueue_command b c s = bq_enqueue b (college_id (cmd_scope c)) ''agent.command'' (command_payload c) s"

definition plan_response :: "agent_lib \<Rightarrow> master_env \<Rightarrow> agent_command \<Rightarrow> agent_plan \<Rightarrow> string \<Rightarrow> string \<Rightarrow> agent_response" where
  "plan_response L e c p status text = (new_response e c status text)\<lparr>rs_intent := pl_intent p, rs_plan := plan_as_dict L p\<rparr>"

text \<open>Accepted: queued, then recorded.\<close>

definition accept :: "agent_lib \<Rightarrow> master_env \<Rightarrow> 'w background \<Rightarrow> agent_command \<Rightarrow> agent_plan \<Rightarrow> string
    \<Rightarrow> 'w master_state \<Rightarrow> 'w master_state \<times> agent_response res" where
  "accept L e b c p text s =
     (case enqueue_command b c s of
        (s', Inl err) \<Rightarrow> (s', Inl err)
      | (s', Inr job) \<Rightarrow> answer_with e c (Some p) ((plan_response L e c p ''accepted'' text)\<lparr>rs_job_id := Some job\<rparr>) s')"

text \<open>\<^verbatim>\<open>_open_task\<close>.\<close>

definition nonempty :: "string option \<Rightarrow> string option" where
  "nonempty t = (case t of Some [] \<Rightarrow> None | _ \<Rightarrow> t)"

definition handle_open_task :: "agent_lib \<Rightarrow> 'w master \<Rightarrow> master_env \<Rightarrow> 'w open_task_agent \<Rightarrow> agent_command \<Rightarrow> string
    \<Rightarrow> 'w master_state \<Rightarrow> 'w master_state \<times> agent_response res" where
  "handle_open_task L m e ot c route s =
     (let p = (empty_plan OPEN_TASK_INTENT ''open_task'')\<lparr>pl_summary := ''open task ('' @ route @ '')''\<rparr>;
          refusal = ot_refusal ot (cmd_principal c);
          queue_runs_later = (case ma_background m of None \<Rightarrow> False | Some b \<Rightarrow> bq_backend_name b \<noteq> ''inline'')
      in case (nonempty refusal, nonempty (ot_unavailable ot)) of
           (Some why, _) \<Rightarrow> answer_with e c (Some p)
             ((plan_response L e c p ''refused'' (''I cannot do this task: '' @ why @ ''.''))\<lparr>rs_refusal_reason := refusal\<rparr>) s
         | (None, Some why) \<Rightarrow> answer_with e c (Some p)
             ((plan_response L e c p ''failed'' (''I cannot do this task: '' @ why @ ''.''))\<lparr>rs_refusal_reason := refusal\<rparr>) s
         | (None, None) \<Rightarrow>
             (case (if cmd_in_background c \<or> \<not> (cmd_run_in_background c \<or> (ot_background ot \<and> queue_runs_later))
                    then None else ma_background m) of
                Some b \<Rightarrow> accept L e b c p
                  (''Understood. This needs the open-task agent, which is working on it in the background. ''
                   @ ''You will get a notification with the files when it is done.'') s
              | None \<Rightarrow>
                  (case ot_run ot c s of
                     (s', Inl err) \<Rightarrow> (s', Inl err)
                   | (s', Inr r) \<Rightarrow> answer_with e c (Some p) r s')))"

definition high_risk_steps :: "'w master \<Rightarrow> agent_plan \<Rightarrow> nat" where
  "high_risk_steps m p = length (filter (\<lambda>st. step_risk m st = RISK_HIGH) (pl_steps p))"

definition bare_answer :: "agent_command \<Rightarrow> string \<Rightarrow> string \<Rightarrow> assistant_answer" where
  "bare_answer c status text = \<lparr>aa_request_id = cmd_request_id c, aa_status = status, aa_answer = text, aa_citations = [],
     aa_warnings = [], aa_tool_names = [], aa_refusal_reason = None, aa_generation_mode = ''deterministic''\<rparr>"

definition reworded :: "'w master \<Rightarrow> agent_command \<Rightarrow> string \<Rightarrow> string \<Rightarrow> assistant_answer res" where
  "reworded m c status text =
     (if status \<in> {''complete'', ''partial''} \<and> ma_model m \<noteq> None
      then apply_model_wording (bare_answer c status text) (ma_model m) (ma_model_max_tokens m)
      else Inr (bare_answer c status text))"

text \<open>Results into the answer of the command (after execution).\<close>

definition report :: "agent_lib \<Rightarrow> 'w master \<Rightarrow> master_env \<Rightarrow> agent_command \<Rightarrow> agent_plan \<Rightarrow> step_result list
    \<Rightarrow> agent_response res" where
  "report L m e c p rs =
     (let status = overall_status p rs;
          checked = concat (map sr_warnings rs) @ verify L p rs
      in bindE (compose L p rs status) (\<lambda>text.
         bindE (reworded m c status text) (\<lambda>w.
         bindE (gather_sources L [] (concat (map sr_provenance rs))) (\<lambda>sources.
         Inr ((plan_response L e c p status (aa_answer w))
           \<lparr>rs_steps := rs, rs_sources := sources,
            rs_warnings := checked @ map (\<lambda>d. PDict (map (map_prod id PStr) d)) (aa_warnings w),
            rs_artifacts := concat (map sr_artifacts rs),
            rs_approval := (case find (\<lambda>r. sr_status r = ''approval_required'') rs of Some r \<Rightarrow> sr_approval r | None \<Rightarrow> None),
            rs_generation_mode := aa_generation_mode w,
            rs_refusal_reason := (if status = ''refused'' then (case rs of r # _ \<Rightarrow> sr_denial_reason r | [] \<Rightarrow> None) else None)\<rparr>)))))"

definition run_plan :: "agent_lib \<Rightarrow> 'w master \<Rightarrow> master_env \<Rightarrow> agent_command \<Rightarrow> agent_plan \<Rightarrow> pyval dict
    \<Rightarrow> 'w master_state \<Rightarrow> 'w master_state \<times> agent_response res" where
  "run_plan L m e c p earlier s =
     (case execute m e c 0 (pl_steps p) earlier [] (mst_gateway s) of
        (g, Inl err) \<Rightarrow> (s\<lparr>mst_gateway := g\<rparr>, Inl err)
      | (g, Inr rs) \<Rightarrow>
          (let s1 = s\<lparr>mst_gateway := g\<rparr>;
               s2 = (if overall_status p rs = ''approval_required'' then keep_for_resume L c p rs s1 else s1)
           in case report L m e c p rs of
                Inl err \<Rightarrow> (s2, Inl err)
              | Inr r \<Rightarrow> answer_with e c (Some p) r s2))"

definition handle_plan :: "agent_lib \<Rightarrow> 'w master \<Rightarrow> master_env \<Rightarrow> agent_command \<Rightarrow> agent_plan \<Rightarrow> pyval dict
    \<Rightarrow> 'w master_state \<Rightarrow> 'w master_state \<times> agent_response res" where
  "handle_plan L m e c p earlier s =
     (let changes = high_risk_steps m p;
          asked = (case nonempty (pl_clarification p) of
                     Some t \<Rightarrow> Some t
                   | None \<Rightarrow> if 1 < changes then Some ONE_CHANGE_PER_CONFIRMATION else None)
      in case asked of
           Some t \<Rightarrow> answer_with e c (Some p) ((plan_response L e c p ''needs_input'' t)\<lparr>rs_clarification := Some t\<rparr>) s
         | None \<Rightarrow>
             (case (if cmd_run_in_background c \<and> \<not> cmd_in_background c \<and> changes = 0 then ma_background m else None) of
                Some b \<Rightarrow> accept L e b c p
                  ''Understood. I am working on it in the background and will notify you when it is done.'' s
              | None \<Rightarrow> run_plan L m e c p earlier s))"

definition trace_command :: "agent_lib \<Rightarrow> master_env \<Rightarrow> agent_command \<Rightarrow> tracer \<Rightarrow> tracer res" where
  "trace_command L e c tr = trace_record (py_str (al_repr L)) (me_span_id e) (me_clock_trace e) ''agent.command''
     (cmd_request_id c)
     [(''request_id'', PStr (cmd_request_id c)), (''principal_id'', PStr (principal_id (cmd_principal c))),
      (''scope_college_id'', PStr (college_id (cmd_scope c)))] tr"

definition planned :: "agent_lib \<Rightarrow> 'w master \<Rightarrow> agent_command \<Rightarrow> approval option \<Rightarrow> (agent_plan \<times> pyval dict) res" where
  "planned L m c approved = (case approved of
     Some r \<Rightarrow> resume_plan L m r
   | None \<Rightarrow> bindE (plan_command m c) (\<lambda>p. Inr (p, [])))"

definition admitted :: "agent_lib \<Rightarrow> 'w master \<Rightarrow> master_env \<Rightarrow> agent_command \<Rightarrow> 'w master_state
    \<Rightarrow> 'w master_state \<times> agent_response res" where
  "admitted L m e c s =
     (let approved = approved_call m c s in
      case planned L m c approved of
        Inl err \<Rightarrow> (s, Inl err)
      | Inr (p, earlier) \<Rightarrow>
          (case (approved, ma_open_task m, route_to_open_task (cmd_text c) p) of
             (None, Some ot, Some route) \<Rightarrow> handle_open_task L m e ot c route s
           | _ \<Rightarrow> handle_plan L m e c p earlier s))"

definition handle_command :: "agent_lib \<Rightarrow> 'w master \<Rightarrow> master_env \<Rightarrow> agent_command \<Rightarrow> 'w master_state
    \<Rightarrow> 'w master_state \<times> agent_response res" where
  "handle_command L m e c s =
     (if \<not> active (cmd_principal c) then refuse e c ''authentication is required'' s
      else if \<not> has_capability (cmd_principal c) AGENT_COMMAND
        then refuse e c ''the agent:command permission is required'' s
      else if \<not> can_access (cmd_principal c) (cmd_scope c)
        then refuse e c ''the requested institution is outside your authorised scope'' s
      else case trace_command L e c (mst_tracer s) of
          Inl err \<Rightarrow> (s, Inl err)
        | Inr tr \<Rightarrow> admitted L m e c (s\<lparr>mst_tracer := tr\<rparr>))"

definition with_background :: "'w background option \<Rightarrow> 'w master \<Rightarrow> 'w master" where
  "with_background b m = init_master (m\<lparr>ma_background := b\<rparr>)"

subsection \<open>What a gateway call leaves alone\<close>

lemma finish_fst: "gs_approvals (fst (finish gw e ctx name oc d extra ti s)) = gs_approvals s"
  by (simp add: frame_simps)

lemma run_handler_none_fst: "gs_approvals (fst (run_handler gw e ctx tool name d None args s)) = gs_approvals s"
proof -
  obtain w' r where h: "tool_handler tool ctx args (gs_world s) = (w', r)" by force
  show ?thesis
  proof (cases r)
    case (Inl err)
    with h show ?thesis
      by (cases "classify err") (simp_all add: run_handler_def handler_failed_def release_approval_def Let_def frame_simps)
  next
    case (Inr out)
    with h show ?thesis by (simp add: run_handler_def handler_done_def frame_simps)
  qed
qed

lemma with_validator_low_risk:
  assumes "tool_risk tool \<noteq> RISK_HIGH"
  shows "gs_approvals (fst (with_validator gw e ctx tool name d args s)) = gs_approvals s"
proof (cases "case tool_validator tool of None \<Rightarrow> Inr args | Some v \<Rightarrow> v ctx args (gs_world s)")
  case (Inl err)
  show ?thesis unfolding with_validator_def Inl Let_def by (cases "classify err") (simp_all add: frame_simps)
next
  case (Inr args')
  with assms show ?thesis by (simp add: with_validator_def with_approval_def run_handler_none_fst)
qed

lemma invoke_unless_high:
  assumes "\<And>tool. get_tool name (gw_registry gw) = Inr tool \<Longrightarrow> tool_risk tool \<noteq> RISK_HIGH"
  shows "gs_approvals (fst (invoke gw e name args ctx s)) = gs_approvals s"
proof (cases "get_tool name (gw_registry gw)")
  case (Inl err)
  then show ?thesis by (simp add: invoke_def frame_simps)
next
  case (Inr tool)
  from assms [OF Inr] show ?thesis
    unfolding invoke_def Inr
    by (simp add: Let_def frame_simps with_validator_low_risk split: sum.split)
qed

text \<open>The events a call appends are the gateway's own.\<close>

definition tool_events :: "'w gateway_state \<Rightarrow> 'w gateway_state \<Rightarrow> bool" where
  "tool_events s s' = (\<exists>evs. gs_audits s' = gs_audits s @ evs \<and> list_all (\<lambda>v. ae_event_type v = ''gateway.tool'') evs)"

lemma tool_events_refl [simp]: "gs_audits s' = gs_audits s \<Longrightarrow> tool_events s s'"
  by (simp add: tool_events_def)

lemma tool_events_trans: "tool_events s s' \<Longrightarrow> tool_events s' s'' \<Longrightarrow> tool_events s s''"
  by (auto simp: tool_events_def)

lemma mk_audit_event_type: "mk_audit_event eid ety rid tm pid ep conv sids tools oc reds meta dur = Inr ev
    \<Longrightarrow> ae_event_type ev = ety \<and> ae_request_id ev = rid \<and> ae_tool_names ev = tools \<and> ae_source_ids ev = sids
      \<and> audit_outcome_of oc = Inr (ae_outcome ev)"
  unfolding mk_audit_event_def by (auto simp: bindE_eq_Inr split: if_splits)

lemma finish_tool_events: "gs_audits s' = gs_audits s \<Longrightarrow> tool_events s (fst (finish gw e ctx name oc d extra ti s'))"
  unfolding finish_def audit_def
  by (auto simp: tool_events_def dest: mk_audit_event_type split: sum.split)

lemma run_handler_tool_events: "gs_audits s' = gs_audits s \<Longrightarrow> tool_events s (fst (run_handler gw e ctx tool name d ap args s'))"
proof -
  assume a: "gs_audits s' = gs_audits s"
  obtain w' r where h: "tool_handler tool ctx args (gs_world s') = (w', r)" by force
  show ?thesis
  proof (cases r)
    case (Inl err)
    with h a show ?thesis
      by (cases "classify err")
         (simp_all add: run_handler_def handler_failed_def Let_def finish_tool_events split: sum.split)
  next
    case (Inr out)
    with h a show ?thesis by (simp add: run_handler_def handler_done_def finish_tool_events split: sum.split)
  qed
qed

lemma need_approval_tool_events: "gs_audits s' = gs_audits s \<Longrightarrow> tool_events s (fst (need_approval gw e ctx tool name d hint args s'))"
  unfolding need_approval_def by (auto simp: Let_def finish_tool_events split: sum.split)

lemma with_approval_tool_events: "tool_events s (fst (with_approval gw e ctx tool name d args s))"
  unfolding with_approval_def
  by (auto simp: run_handler_tool_events need_approval_tool_events split: sum.split option.split)

lemma with_validator_tool_events: "tool_events s (fst (with_validator gw e ctx tool name d args s))"
proof (cases "case tool_validator tool of None \<Rightarrow> Inr args | Some v \<Rightarrow> v ctx args (gs_world s)")
  case (Inl err)
  show ?thesis unfolding with_validator_def Inl Let_def by (cases "classify err") (simp_all add: finish_tool_events)
next
  case (Inr args')
  then show ?thesis by (simp add: with_validator_def with_approval_tool_events)
qed

lemma invoke_tool_events: "tool_events s (fst (invoke gw e name args ctx s))"
  unfolding invoke_def
  by (auto simp: Let_def finish_tool_events with_validator_tool_events split: sum.split)

subsection \<open>What executing a plan does\<close>

definition uses_gateway :: "'w gateway \<Rightarrow> 'w master \<Rightarrow> bool" where
  "uses_gateway gw m = (\<forall>st a. specialist_for m st = Inr a \<longrightarrow> sa_gateway a = gw)"

lemma build_specialists_gateway: "ma_specialists m = build_specialists gw \<Longrightarrow> uses_gateway gw m"
  by (auto simp: uses_gateway_def specialist_for_def build_specialists_def dict_get_def split: option.splits if_splits)

lemma specialist_run_state: "fst (specialist_run a e ms st args ctx s) = fst (invoke (sa_gateway a) e (st_tool st) (Some args) ctx s)"
  by (simp add: specialist_run_def split: prod.split sum.split)

lemma specialist_run_ids:
  "sr_step_id (snd (specialist_run a e ms st args ctx s)) = st_id st"
  "sr_tool (snd (specialist_run a e ms st args ctx s)) = st_tool st"
  by (auto simp: specialist_run_def blank_result_def invocation_result_def split: prod.split sum.split)

lemma specialist_run_ok:
  assumes "result_ok (snd (specialist_run a e ms st args ctx s))"
  shows "took_effect s (invoke (sa_gateway a) e (st_tool st) (Some args) ctx s)"
proof -
  obtain s' res where i: "invoke (sa_gateway a) e (st_tool st) (Some args) ctx s = (s', res)" by force
  with assms show ?thesis
    by (cases res) (auto simp: specialist_run_def result_ok_def blank_result_def invocation_result_def
        took_effect_def invocation_ok_def)
qed

lemma with_result_Inr: "with_result r rest = (s', Inr rs) \<longleftrightarrow> (\<exists>rs'. rest = (s', Inr rs') \<and> rs = r # rs')"
  by (cases rest; cases "snd rest") (auto simp: with_result_def)

lemma with_result_fst [simp]: "fst (with_result r rest) = fst rest"
  by (cases rest; cases "snd rest") (auto simp: with_result_def)

text \<open>The four ways a step goes; the proofs about execution split on these.\<close>

lemma execute_step:
  assumes "execute m e c k (st # sts) completed failed s = (s', Inr rs)"
  obtains (skipped) "execute m e c k sts completed (st_id st # failed) s = (s', Inr rs)"
      "list_ex (\<lambda>d. d \<in> set failed) (st_depends_on st)"
  | (unbound) why rs' where "execute m e c k sts completed (st_id st # failed) s = (s', Inr rs')"
      "rs = blank_result st ''failed'' why # rs'"
  | (stopped) args a where "resolve_arguments (st_arguments st) (st_bindings st) completed = Inr args"
      "specialist_for m st = Inr a"
      "(s', rs) = (\<lambda>(g, r). (g, [r])) (specialist_run a (me_gateway e k) (me_step_ms e k) st args (command_context m c) s)"
      "sr_status (snd (specialist_run a (me_gateway e k) (me_step_ms e k) st args (command_context m c) s)) = ''approval_required''"
  | (ran) args a r rs' completed' failed' where
      "resolve_arguments (st_arguments st) (st_bindings st) completed = Inr args" "specialist_for m st = Inr a"
      "r = snd (specialist_run a (me_gateway e k) (me_step_ms e k) st args (command_context m c) s)"
      "execute m e c (Suc k) sts completed' failed'
         (fst (specialist_run a (me_gateway e k) (me_step_ms e k) st args (command_context m c) s)) = (s', Inr rs')"
      "rs = r # rs'" "sr_status r \<noteq> ''approval_required''"
      "(completed', failed') = (if result_ok r then (dict_set completed (st_id st) (output_of r), failed)
         else (completed, st_id st # failed))"
proof (cases "list_ex (\<lambda>d. d \<in> set failed) (st_depends_on st)")
  case True
  with assms skipped show ?thesis by simp
next
  case False
  note f = this
  show ?thesis
  proof (cases "resolve_arguments (st_arguments st) (st_bindings st) completed")
    case (Inl b)
    with assms f unbound show ?thesis by (cases b) (auto simp: with_result_Inr)
  next
    case (Inr args)
    note args = this
    show ?thesis
    proof (cases "specialist_for m st")
      case (Inl err)
      with assms f args show ?thesis by simp
    next
      case (Inr a)
      obtain g r where g: "specialist_run a (me_gateway e k) (me_step_ms e k) st args (command_context m c) s = (g, r)" by force
      show ?thesis
      proof (cases "sr_status r = ''approval_required''")
        case True
        with assms f args Inr g stopped [OF args Inr] show ?thesis by simp
      next
        case False
        with assms f args Inr g ran [OF args Inr, of r] show ?thesis
          by (cases "result_ok r") (simp_all add: with_result_Inr, blast+)
      qed
    qed
  qed
qed

text \<open>Each result is one of the plan's steps, in the plan's order.\<close>

lemma execute_subseq:
  "execute m e c k sts completed failed s = (s', Inr rs)
    \<Longrightarrow> subseq (map (\<lambda>r. (sr_step_id r, sr_tool r)) rs) (map (\<lambda>st. (st_id st, st_tool st)) sts)"
proof (induction sts arbitrary: k completed failed s rs)
  case (Cons st sts)
  from Cons.prems show ?case
  proof (cases rule: execute_step)
    case skipped
    from Cons.IH [OF skipped(1)] show ?thesis unfolding list.map(2) by (rule list_emb_Cons)
  next
    case (unbound why rs')
    with Cons.IH [OF unbound(1)] show ?thesis by (simp add: blank_result_def)
  next
    case (stopped args a)
    then have "rs = [snd (specialist_run a (me_gateway e k) (me_step_ms e k) st args (command_context m c) s)]"
      by (simp split: prod.splits)
    then show ?thesis by (simp add: specialist_run_ids)
  next
    case (ran args a r rs' completed' failed')
    with Cons.IH [OF ran(4)] show ?thesis by (simp add: specialist_run_ids)
  qed
qed simp

lemma execute_tools: "execute m e c k sts completed failed s = (s', Inr rs) \<Longrightarrow> r \<in> set rs
    \<Longrightarrow> \<exists>st \<in> set sts. sr_tool r = st_tool st \<and> sr_step_id r = st_id st"
proof -
  assume a: "execute m e c k sts completed failed s = (s', Inr rs)" "r \<in> set rs"
  then have "(sr_step_id r, sr_tool r) \<in> set (map (\<lambda>r. (sr_step_id r, sr_tool r)) rs)" by auto
  with execute_subseq [OF a(1)] obtain y where "y \<in> set (map (\<lambda>st. (st_id st, st_tool st)) sts)" "(sr_step_id r, sr_tool r) = y"
    by (rule list_emb_set)
  then show ?thesis by auto
qed

lemma execute_tool_events: "uses_gateway gw m \<Longrightarrow> tool_events s (fst (execute m e c k sts completed failed s))"
proof (induction sts arbitrary: k completed failed s)
  case (Cons st sts)
  note IH = Cons.IH [OF Cons.prems]
  show ?case
  proof (cases "list_ex (\<lambda>d. d \<in> set failed) (st_depends_on st)")
    case True
    then show ?thesis by (simp add: IH)
  next
    case False
    note f = this
    show ?thesis
    proof (cases "resolve_arguments (st_arguments st) (st_bindings st) completed")
      case (Inl b)
      with f show ?thesis by (cases b) (simp_all add: IH)
    next
      case (Inr args)
      note args = this
      show ?thesis
      proof (cases "specialist_for m st")
        case (Inl err)
        with f args show ?thesis by simp
      next
        case (Inr a)
        obtain g r where g: "specialist_run a (me_gateway e k) (me_step_ms e k) st args (command_context m c) s = (g, r)" by force
        with specialist_run_state [of a "me_gateway e k" "me_step_ms e k" st args "command_context m c" s]
        have "tool_events s g" by (simp add: invoke_tool_events)
        then have "tool_events s (fst (execute m e c (Suc k) sts completed' failed' g))" for completed' failed'
          using IH tool_events_trans by blast
        with f args Inr g \<open>tool_events s g\<close> show ?thesis by simp
      qed
    qed
  qed
qed simp

definition high_steps :: "'w master \<Rightarrow> plan_step list \<Rightarrow> plan_step list" where
  "high_steps m sts = filter (\<lambda>st. step_risk m st = RISK_HIGH) sts"

text \<open>With at most one high-risk step, its successful result rests on an approval of the state before.\<close>

lemma execute_high_result:
  assumes "execute m e c k sts completed failed s = (s', Inr rs)" and "uses_gateway gw m"
    and "ma_registry m = gw_registry gw" and "approvals_ok (gs_approvals s)" and "length (high_steps m sts) \<le> 1"
    and "r \<in> set rs" and "result_ok r" and "get_tool (sr_tool r) (gw_registry gw) = Inr tool" and "tool_risk tool = RISK_HIGH"
  shows "\<exists>e args. confirmed e (command_context m c) tool args (gs_approvals s)"
  using assms(1,4,5,6)
proof (induction sts arbitrary: k completed failed s rs)
  case (Cons st sts)
  note prems = Cons.prems
  have fewer: "length (high_steps m sts) \<le> 1" using prems(3) by (simp add: high_steps_def split: if_splits)
  from prems(1) show ?case
  proof (cases rule: execute_step)
    case skipped
    from Cons.IH [OF skipped(1) prems(2) fewer prems(4)] show ?thesis .
  next
    case (unbound why rs')
    with prems(4) assms(7) have "r \<in> set rs'" by (auto simp: blank_result_def result_ok_def)
    from Cons.IH [OF unbound(1) prems(2) fewer this] show ?thesis .
  next
    case (stopped args a)
    then have "r = snd (specialist_run a (me_gateway e k) (me_step_ms e k) st args (command_context m c) s)"
      using prems(4) by (auto split: prod.splits)
    with stopped(4) assms(7) show ?thesis by (simp add: result_ok_def)
  next
    case (ran args a r0 rs' completed' failed')
    let ?run = "specialist_run a (me_gateway e k) (me_step_ms e k) st args (command_context m c) s"
    have gw: "sa_gateway a = gw" using ran(2) assms(2) by (auto simp: uses_gateway_def)
    show ?thesis
    proof (cases "r = r0")
      case True
      with ran(3) assms(7) gw have eff: "took_effect s (invoke gw (me_gateway e k) (st_tool st) (Some args) (command_context m c) s)"
        using specialist_run_ok by blast
      have t: "get_tool (st_tool st) (gw_registry gw) = Inr tool" using True ran(3) assms(8) by (simp add: specialist_run_ids)
      from invoke_effect [OF eff] t obtain v d where
        "took_effect s (with_validator gw (me_gateway e k) (command_context m c) tool (st_tool st) d v s)" by auto
      from with_validator_effect [OF this] obtain args' where
        "took_effect s (with_approval gw (me_gateway e k) (command_context m c) tool (st_tool st) d args' s)" by blast
      from with_approval_effect [OF prems(2) this assms(9)] show ?thesis by blast
    next
      case False
      with prems(4) ran(5) have r: "r \<in> set rs'" by simp
      from execute_tools [OF ran(4) r] obtain st' where st': "st' \<in> set sts" "sr_tool r = st_tool st'" by blast
      with assms(3,8,9) have "st' \<in> set (high_steps m sts)" by (simp add: high_steps_def step_risk_def)
      then have ne: "high_steps m sts \<noteq> []" by auto
      have "step_risk m st \<noteq> RISK_HIGH"
        using prems(3) ne by (auto simp: high_steps_def split: if_splits)
      then have "gs_approvals (fst ?run) = gs_approvals s"
        unfolding specialist_run_state gw using assms(3) by (intro invoke_unless_high) (simp add: step_risk_def)
      with Cons.IH [OF ran(4) _ fewer r] prems(2) show ?thesis by simp
    qed
  qed
qed simp

subsection \<open>How a command in the foreground goes\<close>

definition foreground :: "'w master \<Rightarrow> agent_command \<Rightarrow> bool" where
  "foreground m c = (ma_open_task m = None
     \<and> (ma_background m = None \<or> \<not> cmd_run_in_background c \<or> cmd_in_background c))"

definition command_event :: "agent_command \<Rightarrow> agent_plan option \<Rightarrow> agent_response \<Rightarrow> audit_event \<Rightarrow> bool" where
  "command_event c p r ev = (ae_event_type ev = ''agent.command'' \<and> ae_request_id ev = cmd_request_id c
     \<and> ae_source_ids ev = [college_id (cmd_scope c)] \<and> ae_tool_names ev = command_tools p r
     \<and> audit_outcome_value (ae_outcome ev) = agent_outcome (rs_status r))"

lemma agent_outcome_known: "agent_outcome st \<in> {''success'', ''partial'', ''denied'', ''failed''}"
  unfolding agent_outcome_def by (auto split: if_split)

lemma audit_outcome_value_of: "audit_outcome_of (agent_outcome st) = Inr oc \<Longrightarrow> audit_outcome_value oc = agent_outcome st"
  using audit_known_outcome [OF agent_outcome_known [of st]] by auto

lemma add_run_gateway [simp]: "mst_gateway (add_run e c p r s) = mst_gateway s"
  by (simp add: add_run_def split: sum.split)

lemma answer_with_Inr:
  assumes "answer_with e c p r s = (s', Inr r')"
  shows "r' = r \<and> gs_approvals (mst_gateway s') = gs_approvals (mst_gateway s)
    \<and> gs_world (mst_gateway s') = gs_world (mst_gateway s)
    \<and> (\<exists>ev. gs_audits (mst_gateway s') = gs_audits (mst_gateway s) @ [ev] \<and> command_event c p r ev)"
proof -
  obtain s1 res where r: "record_command e c p r s = (s1, res)" by force
  with assms have a: "res = Inr ()" "s' = s1" "r' = r" by (cases res; simp add: answer_with_def)+
  let ?meta = "[(''intent'', PStr (rs_intent r)), (''planner'', PStr (case p of None \<Rightarrow> ''none'' | Some q \<Rightarrow> pl_planner q)),
          (''channel'', PStr (cmd_channel c)), (''status'', PStr (rs_status r))]"
  let ?mk = "mk_audit_event (''audit-'' @ me_audit_id e) ''agent.command'' (cmd_request_id c) (Aware (me_clock_audit e))
         (if authenticated (cmd_principal c) then Some (principal_id (cmd_principal c)) else None)
         (Some ''/v1/agent/commands'') (cmd_conversation_id c) [college_id (cmd_scope c)] (command_tools p r)
         (agent_outcome (rs_status r)) [''command_text_hashed'', ''tool_data_not_persisted''] ?meta (Some (rs_duration_ms r))"
  show ?thesis
  proof (cases ?mk)
    case (Inl err)
    with r a(1) show ?thesis by (simp add: record_command_def)
  next
    case (Inr ev)
    from mk_audit_event_type [OF Inr] have "command_event c p r ev"
      unfolding command_event_def using audit_outcome_value_of by blast
    with r Inr a show ?thesis by (auto simp: record_command_def Let_def)
  qed
qed

lemma handle_foreground:
  assumes "handle_command L m e c s = (s', Inr r)" and "foreground m c"
  obtains (refused) why where "refuse e c why s = (s', Inr r)"
  | (asked) p t tr where "answer_with e c (Some p) ((plan_response L e c p ''needs_input'' t)\<lparr>rs_clarification := Some t\<rparr>)
      (s\<lparr>mst_tracer := tr\<rparr>) = (s', Inr r)"
  | (ran) p earlier tr g rs where "active (cmd_principal c)" "has_capability (cmd_principal c) AGENT_COMMAND"
      "can_access (cmd_principal c) (cmd_scope c)"
      "planned L m c (approved_call m c s) = Inr (p, earlier)" "high_risk_steps m p \<le> 1"
      "execute m e c 0 (pl_steps p) earlier [] (mst_gateway s) = (g, Inr rs)" "report L m e c p rs = Inr r"
      "answer_with e c (Some p) r (if overall_status p rs = ''approval_required''
         then keep_for_resume L c p rs (s\<lparr>mst_tracer := tr, mst_gateway := g\<rparr>)
         else s\<lparr>mst_tracer := tr, mst_gateway := g\<rparr>) = (s', Inr r)"
proof -
  let ?adm = "active (cmd_principal c) \<and> has_capability (cmd_principal c) AGENT_COMMAND \<and> can_access (cmd_principal c) (cmd_scope c)"
  show ?thesis
  proof (cases ?adm)
    case False
    with assms(1) show ?thesis by (auto simp: handle_command_def split: if_splits intro: refused)
  next
    case True
    then obtain tr where tr: "trace_command L e c (mst_tracer s) = Inr tr"
      using assms(1) by (cases "trace_command L e c (mst_tracer s)") (simp_all add: handle_command_def)
    let ?s = "s\<lparr>mst_tracer := tr\<rparr>"
    have mg: "mst_gateway ?s = mst_gateway s" by simp
    have ap: "approved_call m c ?s = approved_call m c s" unfolding approved_call_def mg ..
    from True tr assms(1) have h: "admitted L m e c ?s = (s', Inr r)" by (simp add: handle_command_def)
    then obtain p earlier where p: "planned L m c (approved_call m c s) = Inr (p, earlier)"
      by (cases "planned L m c (approved_call m c s)") (auto simp: admitted_def ap Let_def)
    with h assms(2) have hp: "handle_plan L m e c p earlier ?s = (s', Inr r)"
      by (simp add: admitted_def ap Let_def foreground_def split: option.splits)
    let ?bg = "if cmd_run_in_background c \<and> \<not> cmd_in_background c \<and> high_risk_steps m p = 0 then ma_background m else None"
    have bg: "?bg = None" using assms(2) by (auto simp: foreground_def)
    show ?thesis
    proof (cases "nonempty (pl_clarification p)")
      case (Some t)
      with hp show ?thesis by (auto simp: handle_plan_def Let_def intro: asked)
    next
      case None
      show ?thesis
      proof (cases "1 < high_risk_steps m p")
        case True
        with hp None show ?thesis by (auto simp: handle_plan_def Let_def intro: asked)
      next
        case False
        with hp None have run: "run_plan L m e c p earlier ?s = (s', Inr r)"
          by (simp only: handle_plan_def Let_def option.case if_False bg)
        then obtain g rs where x: "execute m e c 0 (pl_steps p) earlier [] (mst_gateway s) = (g, Inr rs)"
          by (cases "execute m e c 0 (pl_steps p) earlier [] (mst_gateway s)"; cases "snd (execute m e c 0 (pl_steps p) earlier [] (mst_gateway s))")
             (auto simp: run_plan_def)
        let ?s2 = "if overall_status p rs = ''approval_required'' then keep_for_resume L c p rs (?s\<lparr>mst_gateway := g\<rparr>)
           else ?s\<lparr>mst_gateway := g\<rparr>"
        show ?thesis
        proof (cases "report L m e c p rs")
          case (Inl err)
          with run x show ?thesis by (simp add: run_plan_def Let_def)
        next
          case (Inr r1)
          with run x have "answer_with e c (Some p) r1 ?s2 = (s', Inr r)" by (simp add: run_plan_def Let_def)
          with answer_with_Inr [OF this] Inr x p False True ran [of p earlier g rs tr] show ?thesis by simp
        qed
      qed
    qed
  qed
qed

lemma keep_for_resume_frame [simp]:
  "gs_audits (mst_gateway (keep_for_resume L c p rs s)) = gs_audits (mst_gateway s)"
  "gs_world (mst_gateway (keep_for_resume L c p rs s)) = gs_world (mst_gateway s)"
  by (simp_all add: keep_for_resume_def split: option.split sum.split)

lemma report_steps: "report L m e c p rs = Inr r \<Longrightarrow> rs_steps r = rs \<and> rs_status r = overall_status p rs"
  by (auto simp: report_def Let_def bindE_eq_Inr plan_response_def new_response_def)

lemma execute_within_one: "length (high_steps m sts) \<le> 1 \<Longrightarrow> st1 \<in> set sts \<Longrightarrow> st2 \<in> set sts
    \<Longrightarrow> step_risk m st1 = RISK_HIGH \<Longrightarrow> step_risk m st2 = RISK_HIGH \<Longrightarrow> st1 = st2"
proof -
  assume a: "length (high_steps m sts) \<le> 1" "st1 \<in> set sts" "st2 \<in> set sts"
    "step_risk m st1 = RISK_HIGH" "step_risk m st2 = RISK_HIGH"
  then have "st1 \<in> set (high_steps m sts)" "st2 \<in> set (high_steps m sts)" by (simp_all add: high_steps_def)
  with a(1) show ?thesis by (cases "high_steps m sts") auto
qed

subsection \<open>Resuming a confirmed plan\<close>

lemma kept_step_roundtrip:
  "kept_step L (PDict (step_as_dict st)) = Inr (st\<lparr>st_agent := (if st_agent st = [] then ''data'' else st_agent st)\<rparr>)"
proof -
  have "concat (map (\<lambda>x. case x of PStr s \<Rightarrow> [s] | _ \<Rightarrow> []) (map PStr ds)) = ds" for ds :: "string list"
    by (induction ds) auto
  then show ?thesis
    by (simp add: kept_step_def step_as_dict_def dict_get_def get_or_none_def py_dict_def kept_depends_def py_iter_def
        text_or_def py_or_def py_str_def)
qed

definition with_agent :: "plan_step \<Rightarrow> plan_step" where
  "with_agent st = st\<lparr>st_agent := (if st_agent st = [] then ''data'' else st_agent st)\<rparr>"

lemma with_agent_same [simp]: "st_id (with_agent st) = st_id st" "st_tool (with_agent st) = st_tool st"
    "st_purpose (with_agent st) = st_purpose st" "st_depends_on (with_agent st) = st_depends_on st"
    "st_arguments (with_agent st) = st_arguments st" "st_bindings (with_agent st) = st_bindings st"
  by (simp_all add: with_agent_def)

lemma kept_steps_roundtrip: "mapE (kept_step L) (map (PDict \<circ> step_as_dict) sts) = Inr (map with_agent sts)"
  by (induction sts) (simp_all add: kept_step_roundtrip with_agent_def)

lemma dropWhile_split: "(\<And>x. x \<in> set xs \<Longrightarrow> P x) \<Longrightarrow> \<not> P y \<Longrightarrow> dropWhile P (xs @ y # ys) = y # ys"
  by (induction xs) auto

lemma kept_plan_roundtrip:
  assumes "wf_plan p" and "pl_steps p = before @ st # later"
  shows "kept_plan L (st_tool st) (resume_record L p (st_id st) completed)
    = Some (plan_as_dict L p, with_agent st, map with_agent later)"
proof -
  have "st_id st \<notin> st_id ` set before" using assms by (simp add: wf_plan_def)
  then have ids: "x \<in> set before \<Longrightarrow> st_id x \<noteq> st_id st" for x by (metis imageI)
  have steps: "get_or_none (plan_as_dict L p) ''steps'' = PList (map (PDict \<circ> step_as_dict) (pl_steps p))"
    by (simp add: plan_as_dict_def get_or_none_def dict_get_def)
  have kept: "get_or_none (resume_record L p (st_id st) completed) ''plan'' = PDict (plan_as_dict L p)"
      "dict_get (resume_record L p (st_id st) completed) ''stopped_at'' = Some (PStr (st_id st))"
    by (simp_all add: resume_record_def get_or_none_def dict_get_def)
  let ?P = "\<lambda>x. \<not> (PStr (st_id x) = PStr (st_id st) \<and> st_tool x = st_tool st)"
  have d: "dropWhile ?P (map with_agent before @ with_agent st # map with_agent later) = with_agent st # map with_agent later"
    by (rule dropWhile_split) (auto dest: ids)
  have m: "bindE (py_iter (PList (map (PDict \<circ> step_as_dict) (pl_steps p)))) (mapE (kept_step L)) = Inr (map with_agent (pl_steps p))"
    by (simp add: py_iter_def kept_steps_roundtrip)
  have a: "map with_agent (pl_steps p) = map with_agent before @ with_agent st # map with_agent later"
    by (simp add: assms(2))
  show ?thesis
    by (simp only: kept_plan_def kept steps m a prod.case pyval.case option.case sum.case d list.case)
qed

text \<open>The plan a confirmed command runs: the confirmed step, then the rest.\<close>

definition resumed_steps :: "approval \<Rightarrow> plan_step \<Rightarrow> plan_step list \<Rightarrow> plan_step list" where
  "resumed_steps r st later =
     (st\<lparr>st_arguments := ap_arguments r, st_depends_on := [], st_bindings := []\<rparr>)
     # map (keep_present (map st_id (st # later))) later"

lemma resumed_steps_wf:
  assumes "wf_plan p" and "pl_steps p = before @ st # later"
  shows "length (resumed_steps r (with_agent st) (map with_agent later)) \<le> 8
    \<and> distinct (map st_id (resumed_steps r (with_agent st) (map with_agent later)))
    \<and> (\<forall>x \<in> set (resumed_steps r (with_agent st) (map with_agent later)).
        set (st_depends_on x) \<subseteq> set (map st_id (resumed_steps r (with_agent st) (map with_agent later))))"
proof -
  have ids: "map st_id (resumed_steps r (with_agent st) (map with_agent later)) = st_id st # map st_id later"
    by (simp add: resumed_steps_def keep_present_def comp_def)
  show ?thesis
    unfolding ids using assms by (auto simp: wf_plan_def resumed_steps_def keep_present_def)
qed

subsection \<open>Properties\<close>

text \<open>C3: in a foreground command, a high-risk tool reports success only when the command carries the
  identifier of the caller's own approved confirmation of that tool in that institution, as
  it was when the command began; and no other high-risk tool has a result in that command.\<close>

theorem one_change_confirmed:
  assumes "handle_command L m e c s = (s', Inr r)" and "foreground m c"
    and "ma_specialists m = build_specialists gw" and "ma_registry m = gw_registry gw"
    and "approvals_ok (gs_approvals (mst_gateway s))"
    and "x \<in> set (rs_steps r)" and "result_ok x" and "get_tool (sr_tool x) (gw_registry gw) = Inr tool"
    and "tool_risk tool = RISK_HIGH"
  shows "(\<exists>a \<in> set (gs_approvals (mst_gateway s)). cmd_approval_id c = Some (ap_id a)
      \<and> ap_institution_id a = college_id (cmd_scope c) \<and> ap_principal_id a = principal_id (cmd_principal c)
      \<and> ap_tool_name a = tool_name tool \<and> ap_status a = ''approved'')
    \<and> (\<forall>y \<in> set (rs_steps r). \<forall>t. get_tool (sr_tool y) (gw_registry gw) = Inr t \<longrightarrow> tool_risk t = RISK_HIGH
         \<longrightarrow> sr_step_id y = sr_step_id x)"
  using assms(1,2)
proof (cases rule: handle_foreground)
  case (refused why)
  then have "rs_steps r = []" by (auto simp: refuse_def new_response_def dest!: answer_with_Inr)
  with assms(6) show ?thesis by simp
next
  case (asked p t tr)
  then have "rs_steps r = []" by (auto simp: plan_response_def new_response_def dest!: answer_with_Inr)
  with assms(6) show ?thesis by simp
next
  case (ran p earlier tr g rs)
  have rs: "rs_steps r = rs" using report_steps [OF ran(7)] by simp
  have one: "length (high_steps m (pl_steps p)) \<le> 1" using ran(5) by (simp add: high_steps_def high_risk_steps_def)
  from execute_high_result [OF ran(6) build_specialists_gateway [OF assms(3)] assms(4,5) one assms(6) [unfolded rs] assms(7,8,9)]
  obtain e' args where "confirmed e' (command_context m c) tool args (gs_approvals (mst_gateway s))" by blast
  then have A: "\<exists>a \<in> set (gs_approvals (mst_gateway s)). cmd_approval_id c = Some (ap_id a)
      \<and> ap_institution_id a = college_id (cmd_scope c) \<and> ap_principal_id a = principal_id (cmd_principal c)
      \<and> ap_tool_name a = tool_name tool \<and> ap_status a = ''approved''"
    by (auto simp: confirmed_def command_context_def institution_id_def)
  from execute_tools [OF ran(6)] assms(6) rs obtain st where st: "st \<in> set (pl_steps p)" "sr_tool x = st_tool st"
      "sr_step_id x = st_id st" by blast
  have "sr_step_id y = sr_step_id x"
    if y: "y \<in> set rs" "get_tool (sr_tool y) (gw_registry gw) = Inr t" "tool_risk t = RISK_HIGH" for y t
  proof -
    from execute_tools [OF ran(6) y(1)] obtain st' where st': "st' \<in> set (pl_steps p)" "sr_tool y = st_tool st'"
      "sr_step_id y = st_id st'" by blast
    have "st' = st" using one st'(1) st(1)
      by (rule execute_within_one) (use y st st' assms(4,8,9) in \<open>simp_all add: step_risk_def\<close>)
    with st st' show ?thesis by simp
  qed
  with A rs show ?thesis by simp
qed

text \<open>C7: a foreground command that is answered leaves, after the events of the tools it called,
  exactly one event of its own, with its request, its institution, its tools and the outcome
  that its status stands for.\<close>

theorem agent_command_audited:
  assumes "handle_command L m e c s = (s', Inr r)" and "foreground m c" and "ma_specialists m = build_specialists gw"
  shows "\<exists>evs ev. gs_audits (mst_gateway s') = gs_audits (mst_gateway s) @ evs @ [ev]
    \<and> list_all (\<lambda>v. ae_event_type v = ''gateway.tool'') evs
    \<and> ae_event_type ev = ''agent.command'' \<and> ae_request_id ev = cmd_request_id c
    \<and> ae_source_ids ev = [college_id (cmd_scope c)]
    \<and> (rs_steps r \<noteq> [] \<longrightarrow> ae_tool_names ev = map sr_tool (rs_steps r))
    \<and> audit_outcome_value (ae_outcome ev) = agent_outcome (rs_status r)"
proof -
  have one: "\<exists>ev. gs_audits (mst_gateway s') = gs_audits (mst_gateway s0) @ [ev] \<and> ae_event_type ev = ''agent.command''
      \<and> ae_request_id ev = cmd_request_id c \<and> ae_source_ids ev = [college_id (cmd_scope c)]
      \<and> (rs_steps r \<noteq> [] \<longrightarrow> ae_tool_names ev = map sr_tool (rs_steps r))
      \<and> audit_outcome_value (ae_outcome ev) = agent_outcome (rs_status r)"
    if "answer_with e c p r0 s0 = (s', Inr r)" for p r0 s0
    using answer_with_Inr [OF that] by (auto simp: command_event_def command_tools_def)
  from assms(1,2) show ?thesis
  proof (cases rule: handle_foreground)
    case (refused why)
    from one [OF this [unfolded refuse_def]] show ?thesis by (intro exI [of _ "[]"]) simp
  next
    case (asked p t tr)
    from one [OF this] show ?thesis by (intro exI [of _ "[]"]) simp
  next
    case (ran p earlier tr g rs)
    have g: "tool_events (mst_gateway s) g"
      using execute_tool_events [OF build_specialists_gateway [OF assms(3)], of "mst_gateway s" e c 0 "pl_steps p" earlier "[]"] ran(6)
      by simp
    let ?s2 = "if overall_status p rs = ''approval_required''
         then keep_for_resume L c p rs (s\<lparr>mst_tracer := tr, mst_gateway := g\<rparr>) else s\<lparr>mst_tracer := tr, mst_gateway := g\<rparr>"
    have "gs_audits (mst_gateway ?s2) = gs_audits g" by simp
    with one [OF ran(8)] g show ?thesis unfolding tool_events_def by fastforce
  qed
qed

text \<open>C21: the plan kept with a confirmation is the plan its confirmed re-send runs: the confirmed
  step with the arguments that were confirmed, then the steps after it in their order, with
  the dependencies on steps that already ran dropped, and the kept outputs; and that plan is
  well formed.\<close>

theorem resume_continues_plan:
  assumes "wf_plan p" and "pl_steps p = before @ st # later" and "get_tool (st_tool st) (ma_registry m) = Inr tool"
    and "tool_name tool = st_tool st"
    and "ap_tool_name a = st_tool st" and "ap_resume a = Some (resume_record L p (st_id st) completed)"
  shows "\<exists>q. resume_plan L m a = Inr (q, completed) \<and> wf_plan q
    \<and> pl_steps q = resumed_steps a (with_agent st) (map with_agent later)
    \<and> pl_entities q = pl_entities p"
proof -
  let ?rem = "resumed_steps a (with_agent st) (map with_agent later)"
  have f: "get_or_none (plan_as_dict L p) ''entities'' = PDict (pl_entities p)"
      "get_or_none (resume_record L p (st_id st) completed) ''completed'' = PDict completed"
    by (simp_all add: plan_as_dict_def resume_record_def get_or_none_def dict_get_def)
  have d: "py_dict (PDict d) = Inr d" for d by (simp add: py_dict_def)
  have first: "(with_agent st)\<lparr>st_tool := st_tool st, st_arguments := ap_arguments a, st_depends_on := [], st_bindings := []\<rparr>
      = (with_agent st)\<lparr>st_arguments := ap_arguments a, st_depends_on := [], st_bindings := []\<rparr>"
    by (cases st) (simp add: with_agent_def)
  have rem: "map (keep_present (map st_id ((with_agent st)\<lparr>st_arguments := ap_arguments a, st_depends_on := [], st_bindings := []\<rparr>
        # map with_agent later))) ((with_agent st)\<lparr>st_arguments := ap_arguments a, st_depends_on := [], st_bindings := []\<rparr>
        # map with_agent later) = ?rem"
    by (simp add: resumed_steps_def keep_present_def)
  let ?q = "\<lparr>pl_intent = text_or L (plan_as_dict L p) ''intent'' (tool_name tool), pl_steps = ?rem,
      pl_clarification = None, pl_summary = py_join '' then '' (map st_purpose ?rem), pl_planner = ''approval'',
      pl_confidence = 1, pl_entities = pl_entities p\<rparr>"
  have wf: "wf_plan ?q" using resumed_steps_wf [OF assms(1,2)] unfolding wf_plan_def by simp
  then have mk: "mk_agent_plan ?q = Inr ?q" using mk_agent_plan_iff by blast
  have "resume_plan L m a = Inr (?q, completed)"
    unfolding resume_plan_def assms(3,5,6) bindE_simps option.case Let_def assms(4) kept_plan_roundtrip [OF assms(1,2)]
      prod.case f d first rem using mk [unfolded assms(4)] by simp
  with wf show ?thesis by (intro exI [of _ ?q]) simp
qed

subsection \<open>A confirmed command\<close>

definition sample_menv :: master_env where
  "sample_menv = \<lparr>me_gateway = (\<lambda>_. sample_env), me_step_ms = (\<lambda>_. 1), me_duration_ms = 2, me_audit_id = ''9'', me_run_id = ''9'',
     me_span_id = ''9'', me_clock_audit = 7, me_clock_run = 7, me_clock_trace = 4, me_sha256 = (\<lambda>_. ''h'')\<rparr>"

definition sample_master :: "nat master" where
  "sample_master = \<lparr>ma_gateway = sample_gateway, ma_registry = gw_registry sample_gateway,
     ma_planner = (\<lambda>_ _ _. Inr (empty_plan ''unknown'' ''deterministic'')), ma_vocabulary = (\<lambda>_. Inl (KeyError [])), ma_model = None,
     ma_model_max_tokens = 800, ma_limits = default_query_limits, ma_specialists = build_specialists sample_gateway,
     ma_background = None, ma_open_task = None\<rparr>"

definition sample_command :: agent_command where
  "sample_command = \<lparr>cmd_request_id = ''r1'', cmd_principal = sample_caller\<lparr>capabilities := {AGENT_COMMAND, RECORDS_WRITE}\<rparr>,
     cmd_scope = \<lparr>college_id = ''c'', department_id = None, batch_id = None\<rparr>, cmd_text = ''bump it'', cmd_channel = ''text'',
     cmd_conversation_id = None, cmd_approval_id = Some ''a'', cmd_run_in_background = False, cmd_in_background = False\<rparr>"

definition sample_mstate :: "nat master_state" where
  "sample_mstate = \<lparr>mst_gateway = sample_state, mst_runs = [], mst_tracer = \<lparr>tc_spans = [], tc_max_spans = 5\<rparr>\<rparr>"

lemma sample_handled: "case snd (handle_command sample_agent_lib sample_master sample_menv sample_command sample_mstate) of
    Inr r \<Rightarrow> (case rs_steps r of [x] \<Rightarrow> result_ok x \<and> sr_tool x = ''bump'' | _ \<Rightarrow> False) | Inl _ \<Rightarrow> False"
  by code_simp

lemma sample_handled_result:
  obtains s' r x where "handle_command sample_agent_lib sample_master sample_menv sample_command sample_mstate = (s', Inr r)"
    and "x \<in> set (rs_steps r)" and "result_ok x" and "sr_tool x = ''bump''"
proof -
  obtain s' res where h: "handle_command sample_agent_lib sample_master sample_menv sample_command sample_mstate = (s', res)"
    by force
  with sample_handled obtain r where r: "res = Inr r" and c: "case rs_steps r of [x] \<Rightarrow> result_ok x \<and> sr_tool x = ''bump'' | _ \<Rightarrow> False"
    by (cases res) simp_all
  from c obtain x where "rs_steps r = [x]" "result_ok x" "sr_tool x = ''bump''" by (auto split: list.splits)
  with h r that [of s' r x] show ?thesis by simp
qed

lemma sample_foreground: "foreground sample_master sample_command"
  by (simp add: foreground_def sample_master_def)

lemma sample_specialists: "ma_specialists sample_master = build_specialists sample_gateway"
  by (simp add: sample_master_def)

lemma one_change_confirmed_witness:
  "\<exists>a \<in> set (gs_approvals (mst_gateway sample_mstate)). cmd_approval_id sample_command = Some (ap_id a) \<and> ap_status a = ''approved''"
proof -
  obtain s' r x where h: "handle_command sample_agent_lib sample_master sample_menv sample_command sample_mstate = (s', Inr r)"
    and x: "x \<in> set (rs_steps r)" "result_ok x" "sr_tool x = ''bump''" by (rule sample_handled_result)
  have reg: "ma_registry sample_master = gw_registry sample_gateway" by (simp add: sample_master_def)
  have ok: "approvals_ok (gs_approvals (mst_gateway sample_mstate))" by code_simp
  have t: "get_tool (sr_tool x) (gw_registry sample_gateway) = Inr sample_tool"
    unfolding x(3) by (simp add: get_tool_def sample_gateway_def dict_get_def)
  have hi: "tool_risk sample_tool = RISK_HIGH" by (simp add: sample_tool_def)
  from one_change_confirmed [OF h sample_foreground sample_specialists reg ok x(1,2) t hi] show ?thesis by blast
qed

lemma agent_command_audited_witness:
  "\<exists>s' r evs ev. handle_command sample_agent_lib sample_master sample_menv sample_command sample_mstate = (s', Inr r)
    \<and> gs_audits (mst_gateway s') = evs @ [ev] \<and> ae_tool_names ev = [''bump'']"
proof -
  obtain s' res where h: "handle_command sample_agent_lib sample_master sample_menv sample_command sample_mstate = (s', res)"
    by force
  with sample_handled obtain r x where r: "res = Inr r" "rs_steps r = [x]" "sr_tool x = ''bump''"
    by (cases res) (auto split: list.splits)
  have g: "gs_audits (mst_gateway sample_mstate) = []" by (simp add: sample_mstate_def sample_state_def)
  from agent_command_audited [OF h [unfolded r(1)] sample_foreground sample_specialists] r h g show ?thesis by auto
qed

definition sample_plan2 :: agent_plan where
  "sample_plan2 = (empty_plan ''x'' ''model'')\<lparr>pl_steps := [
     \<lparr>st_id = ''s1'', st_tool = ''find'', st_arguments = [], st_purpose = [], st_depends_on = [], st_bindings = [], st_agent = ''data''\<rparr>,
     \<lparr>st_id = ''s2'', st_tool = ''bump'', st_arguments = [], st_purpose = [], st_depends_on = [''s1''], st_bindings = [], st_agent = ''action''\<rparr>,
     \<lparr>st_id = ''s3'', st_tool = ''find'', st_arguments = [], st_purpose = [], st_depends_on = [''s1'', ''s2''], st_bindings = [], st_agent = ''data''\<rparr>]\<rparr>"

lemma resume_continues_plan_witness:
  "\<exists>q. resume_plan sample_agent_lib sample_master
      (sample_approval\<lparr>ap_tool_name := ''bump'', ap_resume := Some (resume_record sample_agent_lib sample_plan2 ''s2'' [])\<rparr>) = Inr (q, [])
    \<and> map st_id (pl_steps q) = [''s2'', ''s3''] \<and> map st_depends_on (pl_steps q) = [[], [''s2'']]"
proof -
  let ?a = "sample_approval\<lparr>ap_tool_name := ''bump'', ap_resume := Some (resume_record sample_agent_lib sample_plan2 ''s2'' [])\<rparr>"
  let ?b = "[pl_steps sample_plan2 ! 0]" and ?st = "pl_steps sample_plan2 ! 1" and ?l = "[pl_steps sample_plan2 ! 2]"
  have wf: "wf_plan sample_plan2" by (simp add: wf_plan_def sample_plan2_def empty_plan_def)
  have sp: "pl_steps sample_plan2 = ?b @ ?st # ?l" by (simp add: sample_plan2_def numeral_2_eq_2)
  have t: "get_tool (st_tool ?st) (ma_registry sample_master) = Inr sample_tool"
    by (simp add: sample_plan2_def sample_master_def get_tool_def sample_gateway_def dict_get_def)
  have n: "tool_name sample_tool = st_tool ?st" "ap_tool_name ?a = st_tool ?st"
    by (simp_all add: sample_plan2_def sample_tool_def)
  have r: "ap_resume ?a = Some (resume_record sample_agent_lib sample_plan2 (st_id ?st) [])" by (simp add: sample_plan2_def)
  have d: "map st_id (resumed_steps ?a (with_agent ?st) (map with_agent ?l)) = [''s2'', ''s3'']
      \<and> map st_depends_on (resumed_steps ?a (with_agent ?st) (map with_agent ?l)) = [[], [''s2'']]"
    by (simp add: resumed_steps_def keep_present_def sample_plan2_def numeral_2_eq_2)
  from resume_continues_plan [OF wf sp t n r] d show ?thesis by auto
qed

end
