(* ===== verification/DeterministicPlanner.thy ===== *)
theory DeterministicPlanner
  imports Words
begin

text \<open>
  The rules of \<^verbatim>\<open>DeterministicPlanner.plan\<close> (\<^verbatim>\<open>agents/planner.py\<close>): which tool a command asks
  for, what follows on it (a report, an e-mail, a notification), and what is asked back. The
  spoken-text repairs, the entity extraction, the removal of output-file phrases and the
  \<^verbatim>\<open>:g\<close> number format are fields of \<open>planner_lib\<close>; every other pattern is a list of words.
\<close>

record entities =
  en_program :: "string option"
  en_semester :: "int option"
  en_threshold :: "rat option"
  en_department :: "string option"
  en_student_id :: "string option"
  en_academic_year :: "string option"
  en_window_days :: "int option"
  en_report_format :: "string option"
  en_recipients :: "string list"
  en_recipient_role :: "string option"
  en_wants_list :: bool
  en_wants_report :: bool
  en_wants_email :: bool
  en_wants_notification :: bool
  en_wants_count :: bool
  en_field_change :: "(string \<times> string) option"

record planner_lib =
  dp_normalize :: "string \<Rightarrow> string"
  dp_extract :: "string \<Rightarrow> vocabulary \<Rightarrow> entities"
  dp_topic :: "string \<Rightarrow> string"
  dp_general :: "rat \<Rightarrow> string"

subsection \<open>Values and steps\<close>

definition opt_int :: "int option \<Rightarrow> pyval" where
  "opt_int x = (case x of None \<Rightarrow> PNone | Some i \<Rightarrow> PInt i)"

text \<open>\<^verbatim>\<open>v not in (None, "", [])\<close>, and \<^verbatim>\<open>value not in (None, [], False)\<close>, where 0 equals False.\<close>

definition useful :: "pyval dict \<Rightarrow> pyval dict" where
  "useful d = filter (\<lambda>(k, v). v \<noteq> PNone \<and> v \<noteq> PStr [] \<and> v \<noteq> PList []) d"

definition entities_as_dict :: "entities \<Rightarrow> pyval dict" where
  "entities_as_dict n = filter (\<lambda>(k, v). v \<noteq> PNone \<and> v \<noteq> PList [] \<and> \<not> equals_zero v) [
     (''program'', opt_str (en_program n)), (''semester'', opt_int (en_semester n)),
     (''threshold'', case en_threshold n of None \<Rightarrow> PNone | Some r \<Rightarrow> PFloat r),
     (''department'', opt_str (en_department n)), (''student_id'', opt_str (en_student_id n)),
     (''academic_year'', opt_str (en_academic_year n)), (''window_days'', opt_int (en_window_days n)),
     (''report_format'', opt_str (en_report_format n)), (''recipients'', PList (map PStr (en_recipients n))),
     (''recipient_role'', opt_str (en_recipient_role n)), (''wants_list'', PBool (en_wants_list n)),
     (''wants_report'', PBool (en_wants_report n)), (''wants_email'', PBool (en_wants_email n)),
     (''wants_notification'', PBool (en_wants_notification n)), (''wants_count'', PBool (en_wants_count n)),
     (''field_change'', case en_field_change n of None \<Rightarrow> PNone | Some (f, v) \<Rightarrow> PTuple [PStr f, PStr v])]"

definition find_tool :: "'w tool list \<Rightarrow> string \<Rightarrow> 'w tool option" where
  "find_tool tools name = find (\<lambda>tool. tool_name tool = name) (rev tools)"

definition has_available :: "'w tool list \<Rightarrow> string \<Rightarrow> bool" where
  "has_available tools name = (find_tool tools name \<noteq> None)"

text \<open>\<^verbatim>\<open>add\<close>: a step for a tool that is not available raises.\<close>

definition add_step :: "'w tool list \<Rightarrow> plan_step list \<Rightarrow> string \<Rightarrow> pyval dict \<Rightarrow> string \<Rightarrow> string list
    \<Rightarrow> pyval dict \<Rightarrow> plan_step list res" where
  "add_step tools sts tool args purpose deps binds =
     (case find_tool tools tool of
        None \<Rightarrow> Inl (KeyError tool)
      | Some t \<Rightarrow> Inr (sts @ [\<lparr>st_id = CHR ''s'' # nat_digits (length sts + 1), st_tool = tool, st_arguments = useful args,
          st_purpose = purpose, st_depends_on = deps, st_bindings = binds, st_agent = agent_for_group (tool_group t)\<rparr>]))"

definition step_number :: "nat \<Rightarrow> string" where
  "step_number n = CHR ''s'' # nat_digits n"

definition det_plan :: "entities \<Rightarrow> string \<Rightarrow> plan_step list \<Rightarrow> agent_plan" where
  "det_plan n intent sts = \<lparr>pl_intent = intent, pl_steps = sts, pl_clarification = None, pl_summary = [],
     pl_planner = ''deterministic'', pl_confidence = 1, pl_entities = entities_as_dict n\<rparr>"

definition ask_back :: "entities \<Rightarrow> string \<Rightarrow> plan_step list \<Rightarrow> string \<Rightarrow> agent_plan" where
  "ask_back n intent sts text = (det_plan n intent sts)\<lparr>pl_clarification := Some text\<rparr>"

definition missing_plan :: "entities \<Rightarrow> string \<Rightarrow> string \<Rightarrow> agent_plan" where
  "missing_plan n intent tool = ask_back n intent []
     (''This request needs the '' @ tool @ '' tool, which your role does not have permission to use.'')"

text \<open>Where the rules stand: a finished plan, or an intent with its steps and the rows they yield.\<close>

record progress =
  pg_intent :: string
  pg_steps :: "plan_step list"
  pg_rows :: "(string \<times> string list) option"
  pg_title :: string

type_synonym stage = "agent_plan + progress"

definition one_tool :: "'w tool list \<Rightarrow> entities \<Rightarrow> string \<Rightarrow> string \<Rightarrow> pyval dict \<Rightarrow> string
    \<Rightarrow> (string \<times> string list) option \<Rightarrow> string \<Rightarrow> stage res" where
  "one_tool tools n intent tool args purpose rows title =
     (if \<not> has_available tools tool then Inr (Inl (missing_plan n intent tool))
      else bindE (add_step tools [] tool args purpose [] []) (\<lambda>sts.
           Inr (Inr \<lparr>pg_intent = intent, pg_steps = sts, pg_rows = rows, pg_title = title\<rparr>)))"

definition done_with :: "entities \<Rightarrow> string \<Rightarrow> plan_step list \<Rightarrow> string \<Rightarrow> agent_plan" where
  "done_with n intent sts summary = (det_plan n intent sts)\<lparr>pl_summary := summary\<rparr>"

subsection \<open>Words of the rules\<close>

definition CHANGE_WORDS :: "string list" where
  "CHANGE_WORDS = [''update'', ''change'', ''set'', ''correct'', ''modify'']"

definition INTERNET_WORDS :: "string list" where
  "INTERNET_WORDS = [''internet'', ''online'', ''news'', ''web'', ''website'', ''google'', ''reviews'', ''ratings'', ''social media'',
     ''socials'', ''public posted'', ''public available'', ''publicly posted'', ''publicly available'', ''what happened'',
     ''whats happening'', ''what's happening'', ''mention'', ''mentions'', ''reputation'', ''press'', ''coverage'', ''trending'']"

definition OVERVIEW_WORDS :: "string list" where
  "OVERVIEW_WORDS = [''overview'', ''complete update'', ''full update'']
     @ concat (map (\<lambda>p. concat (map (\<lambda>d. map (\<lambda>c. p @ '' '' @ d @ '' '' @ c) [''college'', ''institution'']) [''our'', ''the'']))
         [''status of'', ''how is'', ''how are'', ''summary of''])"

definition DOCUMENT_WORDS :: "string list" where
  "DOCUMENT_WORDS = [''policy'', ''policies'', ''circular'', ''rule'', ''rules'', ''regulation'', ''guideline'', ''guidelines'',
     ''handbook'', ''procedure'', ''according to'', ''document'', ''notice'', ''syllabus'', ''code of conduct'']"

definition LOW_WORDS :: "string list" where
  "LOW_WORDS = [''below'', ''under'', ''less than'', ''shortage'', ''short'', ''low'', ''poor'', ''defaulter'', ''defaulters'', ''at risk'']"

definition FEE_WORDS :: "string list" where
  "FEE_WORDS = [''fee'', ''fees'', ''dues'', ''unpaid'', ''outstanding'', ''pending payment'', ''defaulter'', ''defaulters'', ''balance'']"

definition PENDING_WORDS :: "string list" where
  "PENDING_WORDS = [''pending'', ''outstanding'', ''dues'', ''unpaid'', ''defaulter'', ''defaulters'', ''balance'', ''not paid'', ''yet to pay'']"

definition EXAM_WORDS :: "string list" where
  "EXAM_WORDS = [''exam'', ''exams'', ''result'', ''results'', ''marks'', ''pass'', ''fail'', ''grade'', ''grades'', ''cgpa'', ''sgpa'', ''performance'']"

definition FACULTY_WORDS :: "string list" where
  "FACULTY_WORDS = [''faculty'', ''faculties'', ''professor'', ''professors'', ''teacher'', ''teachers'', ''lecturer'', ''lecturers'', ''teaching staff'']"

text \<open>\<^verbatim>\<open>what does the .* say\<close> as a whole-word alternative: the dot stops at a newline.\<close>

fun line_reaches :: "string list \<Rightarrow> string \<Rightarrow> bool" where
  "line_reaches ws [] = False"
| "line_reaches ws (c # cs) = (word_here ws (c # cs) \<or> (c \<noteq> CHR 0x0A \<and> line_reaches ws cs))"

fun what_does_say :: "bool \<Rightarrow> string \<Rightarrow> bool" where
  "what_does_say inside [] = False"
| "what_does_say inside (c # cs) =
     ((\<not> inside \<and> prefix ''what does the '' (c # cs) \<and> line_reaches ['' say''] (drop 14 (c # cs)))
      \<or> what_does_say (word_char c) cs)"

text \<open>\<^verbatim>\<open>\bw\<close> without a boundary at the end.\<close>

fun word_starts :: "bool \<Rightarrow> string list \<Rightarrow> string \<Rightarrow> bool" where
  "word_starts inside ws [] = False"
| "word_starts inside ws (c # cs) =
     ((\<not> inside \<and> list_ex (\<lambda>w. prefix w (c # cs)) ws) \<or> word_starts (word_char c) ws cs)"

definition document_question :: "planner_lib \<Rightarrow> string \<Rightarrow> bool" where
  "document_question P lowered =
     (let topic = dp_topic P lowered
      in (has_word DOCUMENT_WORDS topic \<or> what_does_say False topic)
         \<and> \<not> word_starts False [''attendance below'', ''attendance under'', ''attendance less''] lowered)"

subsection \<open>The first tool\<close>

definition filters_of :: "entities \<Rightarrow> pyval dict" where
  "filters_of n = [(''program'', opt_str (en_program n)), (''semester'', opt_int (en_semester n)), (''department'', opt_str (en_department n))]"

definition list_needed :: "entities \<Rightarrow> bool" where
  "list_needed n = (en_wants_list n \<or> en_wants_report n \<or> en_wants_email n)"

definition given :: "string option \<Rightarrow> bool" where
  "given x = (x \<noteq> None \<and> x \<noteq> Some [])"

definition titled :: "string \<Rightarrow> entities \<Rightarrow> string" where
  "titled t n = t @ (if given (en_program n) then '' - '' @ the (en_program n) else [])"

definition row_limit :: "bool \<Rightarrow> pyval" where
  "row_limit large = PInt (if large then 500 else 100)"

definition int_or :: "int option \<Rightarrow> int \<Rightarrow> int" where
  "int_or x dflt = (case x of Some i \<Rightarrow> if i = 0 then dflt else i | None \<Rightarrow> dflt)"

definition threshold_of :: "entities \<Rightarrow> rat" where
  "threshold_of n = (case en_threshold n of Some r \<Rightarrow> if r = 0 then 75 else r | None \<Rightarrow> 75)"

text \<open>Sections 1-3: a record change, public sources, a document question. None: the rules go on.\<close>

definition plan_change :: "'w tool list \<Rightarrow> entities \<Rightarrow> string \<Rightarrow> agent_plan option res" where
  "plan_change tools n lowered =
     (case (has_word CHANGE_WORDS lowered, given (en_student_id n), en_field_change n) of
        (True, True, Some (f, v)) \<Rightarrow>
          if \<not> has_available tools ''update_student_record'' then Inr (Some (missing_plan n ''update_student_record'' ''update_student_record''))
          else bindE (add_step tools [] ''update_student_record''
                 [(''student_id'', opt_str (en_student_id n)), (''changes'', PDict [(f, PStr v)])]
                 (''change '' @ f @ '' for '' @ the (en_student_id n)) [] []) (\<lambda>sts.
               Inr (Some (done_with n ''update_student_record'' sts
                 (''Update '' @ f @ '' of student '' @ the (en_student_id n) @ '' after confirmation.''))))
      | (True, _, None) \<Rightarrow>
          if has_word [''student'', ''record'', ''usn'', ''roll''] lowered
            then Inr (Some (ask_back n ''update_student_record'' []
              (''Tell me the student ID, the field to change (phone, email, semester, section, status, address), and the new value.'')))
          else Inr None
      | _ \<Rightarrow> Inr None)"

definition topics_in :: "string \<Rightarrow> string list" where
  "topics_in lowered = map (\<lambda>w. if w = ''result'' then ''results'' else w) (filter (\<lambda>w. py_in w lowered)
     [''admission'', ''placement'', ''event'', ''ranking'', ''accreditation'', ''result'', ''faculty'', ''campus'', ''fees''])"

definition plan_internet :: "'w tool list \<Rightarrow> entities \<Rightarrow> string \<Rightarrow> string \<Rightarrow> agent_plan option res" where
  "plan_internet tools n text lowered =
     (if \<not> has_word INTERNET_WORDS lowered then Inr None
      else if \<not> has_available tools ''internet_investigate'' then Inr (Some (missing_plan n ''internet_intelligence'' ''internet_investigate''))
      else bindE (add_step tools [] ''internet_investigate''
             [(''question'', PStr (take 300 text)), (''window_days'', PInt (int_or (en_window_days n) 7)),
              (''topics'', PList (map PStr (topics_in lowered)))]
             ''search public sources about the institution'' [] []) (\<lambda>sts.
           bindE (if (has_word OVERVIEW_WORDS lowered
                       \<or> has_word [''complete'', ''both'', ''internal and external'', ''inside and outside''] lowered)
                     \<and> has_available tools ''get_institution_summary''
                  then add_step tools sts ''get_institution_summary'' [] ''combine internal indicators with public information'' [] []
                  else Inr sts) (\<lambda>sts'.
           Inr (Some (done_with n ''internet_intelligence'' sts' ''Investigate public web sources about the institution.'')))))"

definition plan_document :: "planner_lib \<Rightarrow> 'w tool list \<Rightarrow> entities \<Rightarrow> string \<Rightarrow> string \<Rightarrow> agent_plan option res" where
  "plan_document P tools n text lowered =
     (if \<not> document_question P lowered then Inr None
      else if \<not> has_available tools ''search_documents'' then Inr (Some (missing_plan n ''document_question'' ''search_documents''))
      else bindE (add_step tools [] ''search_documents'' [(''question'', PStr (take 500 text))]
             ''answer from institutional documents'' [] []) (\<lambda>sts.
           Inr (Some (done_with n ''document_question'' sts ''Answer from indexed institutional documents.''))))"

text \<open>Section 4: attendance.\<close>

definition plan_attendance :: "planner_lib \<Rightarrow> 'w tool list \<Rightarrow> entities \<Rightarrow> string \<Rightarrow> stage res" where
  "plan_attendance P tools n lowered =
     (if en_threshold n \<noteq> None \<or> has_word LOW_WORDS lowered then
        one_tool tools n ''low_attendance'' ''find_low_attendance''
          (filters_of n @ [(''threshold'', PFloat (threshold_of n)),
             (''include_students'', PBool (list_needed n \<or> \<not> en_wants_count n)),
             (''limit'', row_limit (en_wants_report n \<or> en_wants_email n))])
          ''find students below the attendance threshold''
          (Some (''$s1.data.students'', [''student_id'', ''name'', ''program'', ''semester'', ''attendance_percent'',
             ''classes_attended'', ''classes_held'']))
          (titled (''Students below '' @ dp_general P (threshold_of n) @ ''% attendance'') n)
      else one_tool tools n ''attendance_summary'' ''get_attendance_summary'' (filters_of n) ''summarise attendance'' None ''Report'')"

text \<open>Section 5: fees.\<close>

definition fee_filters :: "entities \<Rightarrow> pyval dict" where
  "fee_filters n = [(''program'', opt_str (en_program n)), (''semester'', opt_int (en_semester n)),
     (''academic_year'', opt_str (en_academic_year n))]"

definition about_fees :: "entities \<Rightarrow> string \<Rightarrow> bool" where
  "about_fees n lowered = (has_word FEE_WORDS lowered
     \<or> (has_word [''collection'', ''collected'', ''revenue'', ''financial year'', ''fy''] lowered
        \<and> (given (en_program n) \<or> given (en_academic_year n))))"

definition plan_fees :: "'w tool list \<Rightarrow> entities \<Rightarrow> string \<Rightarrow> stage res" where
  "plan_fees tools n lowered =
     (if \<not> has_word PENDING_WORDS lowered then
        one_tool tools n ''fee_summary'' ''get_fee_summary'' (fee_filters n) ''summarise fee collection'' None ''Report''
      else one_tool tools n ''pending_fees'' ''get_pending_fees''
          (fee_filters n @ [(''include_students'', PBool (list_needed n \<or> \<not> en_wants_count n)),
             (''limit'', row_limit (en_wants_report n \<or> en_wants_email n))])
          ''find students with pending fees''
          (Some (''$s1.data.students'', [''student_id'', ''name'', ''program'', ''semester'', ''balance'', ''amount_due'',
             ''amount_paid'', ''earliest_due_date'']))
          (titled ''Students with pending fees'' n))"

text \<open>Sections 6-10, in the order the code asks.\<close>

definition head_asked :: "string \<Rightarrow> bool" where
  "head_asked lowered = (has_word [''hod''] lowered \<or> py_in ''head of department'' lowered \<or> py_in ''head of the department'' lowered)"

definition plan_people :: "'w tool list \<Rightarrow> entities \<Rightarrow> string \<Rightarrow> stage option res" where
  "plan_people tools n lowered =
     (if has_word EXAM_WORDS lowered then
        bindE (if given (en_student_id n)
           then one_tool tools n ''student_results'' ''get_student_results'' [(''student_id'', opt_str (en_student_id n))]
                  ''fetch one student's results'' None ''Report''
           else one_tool tools n ''exam_summary'' ''get_exam_summary''
                  [(''program'', opt_str (en_program n)), (''semester'', opt_int (en_semester n))]
                  ''summarise exam performance'' None ''Report'') (Inr \<circ> Some)
      else if head_asked lowered \<and> \<not> en_wants_email n then
        bindE (one_tool tools n ''find_hod'' ''find_hod'' [(''department'', opt_str (en_department n)), (''program'', opt_str (en_program n))]
           ''identify the head of department'' None ''Report'') (Inr \<circ> Some)
      else if has_word FACULTY_WORDS lowered then
        bindE (one_tool tools n ''find_faculty'' ''find_faculty''
           [(''department'', opt_str (if given (en_department n) then en_department n else en_program n)),
            (''limit'', row_limit (en_wants_report n))] ''list faculty''
           (Some (''$s1.data.faculty'', [''faculty_id'', ''name'', ''designation'', ''department'', ''qualification'']))
           ''Faculty list'') (Inr \<circ> Some)
      else if has_word [''non-teaching'', ''non teaching'', ''office staff'', ''staff member'', ''staff members''] lowered then
        bindE (one_tool tools n ''find_staff'' ''find_staff'' [(''department'', opt_str (en_department n))] ''list staff'' None ''Report'')
          (Inr \<circ> Some)
      else Inr None)"

definition plan_catalogue :: "'w tool list \<Rightarrow> entities \<Rightarrow> string \<Rightarrow> stage option res" where
  "plan_catalogue tools n lowered =
     (if has_word (plurals [''program'', ''programme'', ''degree''] @ [''course offered'', ''courses offered'']) lowered
         \<and> \<not> en_wants_count n then
        bindE (one_tool tools n ''list_programs'' ''list_programs'' [] ''list programs'' None ''Report'') (Inr \<circ> Some)
      else if has_word (plurals [''department'']) lowered \<and> \<not> given (en_program n) then
        bindE (one_tool tools n ''list_departments'' ''list_departments'' [] ''list departments'' None ''Report'') (Inr \<circ> Some)
      else if has_word (plurals [''course'', ''subject'']) lowered then
        bindE (one_tool tools n ''list_courses'' ''list_courses''
           [(''program'', opt_str (en_program n)), (''semester'', opt_int (en_semester n))] ''list courses'' None ''Report'') (Inr \<circ> Some)
      else if has_word (plurals [''event'', ''seminar'', ''workshop'', ''fest'', ''function'']) lowered then
        bindE (one_tool tools n ''upcoming_events'' ''list_upcoming_events'' [(''days'', PInt (int_or (en_window_days n) 30))]
           ''list upcoming events'' None ''Report'') (Inr \<circ> Some)
      else if has_word (plurals [''admission'', ''application'', ''applicant''] @ [''enrolment'', ''enrollment'']) lowered then
        bindE (one_tool tools n ''admissions_summary'' ''get_admissions_summary'' [(''program'', opt_str (en_program n))]
           ''summarise admissions'' None ''Report'') (Inr \<circ> Some)
      else Inr None)"

definition plan_students :: "'w tool list \<Rightarrow> entities \<Rightarrow> string \<Rightarrow> stage option res" where
  "plan_students tools n lowered =
     (if given (en_student_id n) \<and> has_word [''student'', ''usn'', ''roll'', ''details'', ''profile'', ''who is''] lowered then
        bindE (one_tool tools n ''get_student'' ''get_student'' [(''student_id'', opt_str (en_student_id n))] ''fetch one student''
          None ''Report'') (Inr \<circ> Some)
      else if has_word (plurals [''student'']) lowered \<and> en_wants_count n \<and> \<not> list_needed n then
        bindE (one_tool tools n ''count_students'' ''count_students'' (filters_of n) ''count students'' None ''Report'') (Inr \<circ> Some)
      else if has_word (plurals [''student'']) lowered then
        bindE (one_tool tools n ''find_students'' ''find_students''
           (filters_of n @ [(''limit'', row_limit (en_wants_report n \<or> en_wants_email n))]) ''list students''
           (Some (''$s1.data.students'', [''student_id'', ''name'', ''program'', ''semester'', ''department'', ''section'']))
           (titled ''Student list'' n)) (Inr \<circ> Some)
      else if has_word OVERVIEW_WORDS lowered
          \<or> has_word [''overview'', ''dashboard'', ''headline'', ''snapshot'', ''update about'', ''how are we doing''] lowered then
        bindE (one_tool tools n ''institution_summary'' ''get_institution_summary'' [] ''institution overview'' None ''Report'') (Inr \<circ> Some)
      else if has_word [''import'', ''ingestion'', ''upload'', ''uploaded'', ''data load'', ''data import'', ''last import''] lowered then
        bindE (one_tool tools n ''ingestion_status'' ''get_ingestion_status'' [] ''recent imports'' None ''Report'') (Inr \<circ> Some)
      else Inr None)"

text \<open>No rule matched: a question is tried against the documents, anything else is asked back.\<close>

definition FLOAT_0_4 :: rat where "FLOAT_0_4 = 3602879701896397 / 9007199254740992"

definition py_rstrip :: "string \<Rightarrow> string" where
  "py_rstrip s = rev (dropWhile py_space (rev s))"

definition plan_unmapped :: "'w tool list \<Rightarrow> entities \<Rightarrow> string \<Rightarrow> agent_plan res" where
  "plan_unmapped tools n text =
     (if has_available tools ''search_documents'' \<and> py_rstrip text \<noteq> [] \<and> last (py_rstrip text) = CHR ''?'' then
        bindE (add_step tools [] ''search_documents'' [(''question'', PStr (take 500 text))]
          ''try the institutional documents'' [] []) (\<lambda>sts.
        Inr ((done_with n ''document_question'' sts ''No structured tool matched; searching institutional documents.'')
          \<lparr>pl_confidence := FLOAT_0_4\<rparr>))
      else Inr ((ask_back n ''unknown'' []
        (''I could not map this request to an institutional tool. I can help with: ''
         @ py_join '', '' (sorted_list_of_set (set (map tool_group tools)))
         @ ''. Try, for example: 'How many MBA students are below 75% attendance?'' @ [CHR 0x27]))\<lparr>pl_confidence := 0\<rparr>))"

subsection \<open>What follows on the first tool\<close>

definition pick_tool :: "planner_lib \<Rightarrow> 'w tool list \<Rightarrow> entities \<Rightarrow> string \<Rightarrow> string \<Rightarrow> stage res" where
  "pick_tool P tools n text lowered =
     (if py_in ''attendance'' lowered \<or> py_in ''attendence'' lowered then plan_attendance P tools n lowered
      else if about_fees n lowered then plan_fees tools n lowered
      else bindE (plan_people tools n lowered) (\<lambda>found. case found of Some g \<Rightarrow> Inr g
       | None \<Rightarrow> bindE (plan_catalogue tools n lowered) (\<lambda>found. case found of Some g \<Rightarrow> Inr g
       | None \<Rightarrow> bindE (plan_students tools n lowered) (\<lambda>found. case found of Some g \<Rightarrow> Inr g
       | None \<Rightarrow> bindE (plan_unmapped tools n text) (\<lambda>p. Inr (Inl p))))))"

definition last_step :: "plan_step list \<Rightarrow> string list" where
  "last_step sts = (if sts = [] then [] else [st_id (last sts)])"

definition add_report :: "'w tool list \<Rightarrow> entities \<Rightarrow> progress \<Rightarrow> string \<times> string list \<Rightarrow> string \<Rightarrow> progress res" where
  "add_report tools n pg rows purpose =
     bindE (add_step tools (pg_steps pg) ''generate_report''
        [(''title'', PStr (pg_title pg)), (''format'', PStr (if given (en_report_format n) then the (en_report_format n) else ''xlsx'')),
         (''columns'', PList (map PStr (snd rows)))]
        purpose (last_step (pg_steps pg)) [(''rows'', PStr (fst rows))]) (\<lambda>sts. Inr (pg\<lparr>pg_steps := sts\<rparr>))"

text \<open>The report step of a plan, if one was added, is its last step.\<close>

definition report_stage :: "'w tool list \<Rightarrow> entities \<Rightarrow> progress \<Rightarrow> (agent_plan + progress \<times> string option) res" where
  "report_stage tools n pg =
     (case (en_wants_report n, pg_rows pg) of
        (True, Some rows) \<Rightarrow>
          if has_available tools ''generate_report'' then
            bindE (add_report tools n pg rows
               (''create a '' @ (if given (en_report_format n) then the (en_report_format n) else ''xlsx'') @ '' report'')) (\<lambda>pg'.
            Inr (Inr (pg', Some (st_id (last (pg_steps pg'))))))
          else Inr (Inl (ask_back n (pg_intent pg) (pg_steps pg)
            ''Creating reports requires the reports:generate permission, which your role does not have.''))
      | _ \<Rightarrow> Inr (Inr (pg, None)))"

definition find_recipients :: "'w tool list \<Rightarrow> entities \<Rightarrow> progress \<Rightarrow> (agent_plan + plan_step list \<times> string list \<times> pyval dict) res" where
  "find_recipients tools n pg =
     (if en_recipient_role n = Some ''hod'' then
        (if \<not> has_available tools ''find_hod'' then Inr (Inl (ask_back n (pg_intent pg) (pg_steps pg)
            ''Finding the head of department requires the faculty:read permission.''))
         else bindE (add_step tools (pg_steps pg) ''find_hod''
                [(''department'', opt_str (en_department n)), (''program'', opt_str (en_program n))]
                ''resolve the HOD as recipient'' [] []) (\<lambda>sts.
              let i = st_id (last sts) in Inr (Inr (sts, [i], [(''recipients'', PStr (CHR ''$'' # i @ ''.data.hods[*].faculty_id''))]))))
      else if en_recipient_role n \<in> {Some ''principal'', Some ''dean''} then
        (if \<not> has_available tools ''find_faculty'' then Inr (Inl (ask_back n (pg_intent pg) (pg_steps pg)
            ''Finding the principal requires the faculty:read permission.''))
         else bindE (add_step tools (pg_steps pg) ''find_faculty''
                [(''designation'', opt_str (en_recipient_role n)), (''limit'', PInt 5)]
                (''resolve the '' @ the (en_recipient_role n) @ '' as recipient'') [] []) (\<lambda>sts.
              let i = st_id (last sts) in Inr (Inr (sts, [i], [(''recipients'', PStr (CHR ''$'' # i @ ''.data.faculty[*].faculty_id''))]))))
      else if en_recipients n = [] then Inr (Inl (ask_back n (pg_intent pg) (pg_steps pg)
            (''Who should receive the email? Name a person from the directory (for example 'the HOD') or an institutional email address.'')))
      else Inr (Inr (pg_steps pg, [], [])))"

definition email_body :: "string \<Rightarrow> string \<Rightarrow> string" where
  "email_body title text = ''Please find the requested report: '' @ title
     @ ''. This message was generated from the institutional assistant for the command: '' @ [CHR 0x22] @ take 200 text @ [CHR 0x22] @ ''.''"

definition email_stage :: "'w tool list \<Rightarrow> entities \<Rightarrow> string \<Rightarrow> progress \<times> string option \<Rightarrow> (agent_plan + progress) res" where
  "email_stage tools n text pr = (case pr of (pg, report) \<Rightarrow>
     if \<not> en_wants_email n \<or> (report = None \<and> pg_rows pg = None) then Inr (Inr pg)
     else if \<not> has_available tools ''send_email'' then Inr (Inl (ask_back n (pg_intent pg) (pg_steps pg)
         ''Sending email requires the actions:email permission, which your role does not include.''))
     else bindE (case (report, pg_rows pg) of
            (None, Some rows) \<Rightarrow>
              if has_available tools ''generate_report'' then
                bindE (add_report tools n pg rows ''create the report to attach'') (\<lambda>pg'.
                Inr (pg', Some (st_id (last (pg_steps pg')))))
              else Inr (pg, None)
          | _ \<Rightarrow> Inr (pg, report)) (\<lambda>(pg, report).
        bindE (find_recipients tools n pg) (\<lambda>found. case found of
            Inl p \<Rightarrow> Inr (Inl p)
          | Inr (sts, depends, binds) \<Rightarrow>
              bindE (add_step tools sts ''send_email''
                 [(''recipients'', PList (map PStr (en_recipients n))), (''subject'', PStr (pg_title pg)),
                  (''body'', PStr (email_body (pg_title pg) text))]
                 ''send the report by email'' ((case report of None \<Rightarrow> [] | Some i \<Rightarrow> [i]) @ depends)
                 (binds @ (case report of None \<Rightarrow> [] | Some i \<Rightarrow> [(''report_ids'', PStr (CHR ''$'' # i @ ''.data.report_id[*]''))])))
                (\<lambda>sts'. Inr (Inr (pg\<lparr>pg_steps := sts'\<rparr>))))))"

definition notify_stage :: "'w tool list \<Rightarrow> entities \<Rightarrow> string \<Rightarrow> progress \<Rightarrow> progress res" where
  "notify_stage tools n text pg =
     (if en_wants_notification n \<and> has_available tools ''create_notification'' \<and> pg_steps pg \<noteq> [] then
        bindE (add_step tools (pg_steps pg) ''create_notification''
           [(''title'', PStr (take 200 (pg_title pg))), (''body'', PStr (''The assistant completed: '' @ take 300 text))]
           ''notify the requester'' (last_step (pg_steps pg)) []) (\<lambda>sts. Inr (pg\<lparr>pg_steps := sts\<rparr>))
      else Inr pg)"

definition follow_on :: "'w tool list \<Rightarrow> entities \<Rightarrow> string \<Rightarrow> progress \<Rightarrow> agent_plan res" where
  "follow_on tools n text pg =
     bindE (report_stage tools n pg) (\<lambda>r. case r of Inl p \<Rightarrow> Inr p | Inr pr \<Rightarrow>
     bindE (email_stage tools n text pr) (\<lambda>m. case m of Inl p \<Rightarrow> Inr p | Inr pg' \<Rightarrow>
     bindE (notify_stage tools n text pg') (\<lambda>pg''.
     Inr (done_with n (pg_intent pg'') (pg_steps pg'') (py_join '' then '' (map st_purpose (pg_steps pg'')))))))"

definition planner_rules :: "planner_lib \<Rightarrow> 'w tool list \<Rightarrow> entities \<Rightarrow> string \<Rightarrow> agent_plan res" where
  "planner_rules P tools n text =
     (let lowered = py_lower text in
      bindE (plan_change tools n lowered) (\<lambda>a. case a of Some p \<Rightarrow> Inr p | None \<Rightarrow>
      bindE (plan_internet tools n text lowered) (\<lambda>b. case b of Some p \<Rightarrow> Inr p | None \<Rightarrow>
      bindE (plan_document P tools n text lowered) (\<lambda>d. case d of Some p \<Rightarrow> Inr p | None \<Rightarrow>
      bindE (pick_tool P tools n text lowered) (\<lambda>g. case g of
          Inl p \<Rightarrow> Inr p | Inr pg \<Rightarrow> follow_on tools n text pg)))))"

text \<open>The plan; every plan the code returns passes the constructor's checks.\<close>

definition deterministic_plan :: "planner_lib \<Rightarrow> 'w planner" where
  "deterministic_plan P text tools vocab =
     (let text' = dp_normalize P text
      in bindE (planner_rules P tools (dp_extract P text' vocab) text') mk_agent_plan)"

subsection \<open>Every plan is well formed and within the caller's tools\<close>

definition good_steps :: "'w tool list \<Rightarrow> plan_step list \<Rightarrow> bool" where
  "good_steps tools sts = (map st_id sts = map step_number [1..<Suc (length sts)]
     \<and> (\<forall>st \<in> set sts. st_tool st \<in> tool_name ` set tools \<and> set (st_depends_on st) \<subseteq> set (map st_id sts)))"

lemma good_Nil [simp]: "good_steps tools []"
  by (simp add: good_steps_def)

lemma available_mem: "has_available tools name \<Longrightarrow> name \<in> tool_name ` set tools"
  unfolding has_available_def find_tool_def by (auto dest: find_Some_iff2)

lemma add_step_good:
  assumes "good_steps tools sts" and "has_available tools tool" and "set deps \<subseteq> set (map st_id sts)"
  shows "\<exists>st. add_step tools sts tool args purpose deps binds = Inr (sts @ [st]) \<and> good_steps tools (sts @ [st])
    \<and> st_tool st = tool"
proof -
  from assms(2) obtain t where t: "find_tool tools tool = Some t" by (auto simp: has_available_def)
  let ?st = "\<lparr>st_id = CHR ''s'' # nat_digits (length sts + 1), st_tool = tool, st_arguments = useful args,
          st_purpose = purpose, st_depends_on = deps, st_bindings = binds, st_agent = agent_for_group (tool_group t)\<rparr>"
  have ids: "map st_id (sts @ [?st]) = map step_number [1..<Suc (length (sts @ [?st]))]"
    using assms(1) by (simp add: good_steps_def step_number_def del: upt_Suc add: upt_Suc_append)
  have each: "st_tool st \<in> tool_name ` set tools \<and> set (st_depends_on st) \<subseteq> set (map st_id (sts @ [?st]))"
    if "st \<in> set (sts @ [?st])" for st
  proof (cases "st \<in> set sts")
    case True
    with assms(1) have "st_tool st \<in> tool_name ` set tools" "set (st_depends_on st) \<subseteq> set (map st_id sts)"
      unfolding good_steps_def by blast+
    then show ?thesis by auto
  next
    case False
    with that have "st = ?st" by simp
    with assms(3) available_mem [OF assms(2)] show ?thesis by auto
  qed
  have "good_steps tools (sts @ [?st])" unfolding good_steps_def using ids each by blast
  then show ?thesis by (intro exI [of _ ?st]) (simp add: add_step_def t)
qed

lemma step_number_inj: "m < 10 \<Longrightarrow> n < 10 \<Longrightarrow> step_number m = step_number n \<Longrightarrow> m = n"
proof -
  assume a: "m < 10" "n < 10" "step_number m = step_number n"
  then have "(char_of (48 + m) :: char) = char_of (48 + n)" by (simp add: step_number_def nat_digits.simps)
  then have "(of_char (char_of (48 + m) :: char) :: nat) = of_char (char_of (48 + n) :: char)" by simp
  with a(1,2) show ?thesis by simp
qed

lemma step_numbers_distinct: "n \<le> 8 \<Longrightarrow> distinct (map step_number [1..<Suc n])"
  by (auto simp: distinct_map inj_on_def dest!: step_number_inj [rotated 2])

definition steps_within :: "'w tool list \<Rightarrow> nat \<Rightarrow> plan_step list \<Rightarrow> bool" where
  "steps_within tools k sts = (good_steps tools sts \<and> length sts \<le> k)"

lemma within_wf: "steps_within tools 8 (pl_steps p) \<Longrightarrow> wf_plan p"
proof -
  assume w: "steps_within tools 8 (pl_steps p)"
  then have "map st_id (pl_steps p) = map step_number [1..<Suc (length (pl_steps p))]" "length (pl_steps p) \<le> 8"
    by (simp_all add: steps_within_def good_steps_def)
  then have "distinct (map st_id (pl_steps p))" using step_numbers_distinct by metis
  with w show ?thesis unfolding wf_plan_def steps_within_def good_steps_def by blast
qed

lemma within_mono: "steps_within tools k sts \<Longrightarrow> k \<le> k' \<Longrightarrow> steps_within tools k' sts"
  by (simp add: steps_within_def)

lemma within_Nil [simp]: "steps_within tools k []"
  by (simp add: steps_within_def)

lemma add_step_within:
  assumes "steps_within tools k sts" and "has_available tools tool" and "set deps \<subseteq> set (map st_id sts)"
  obtains st where "add_step tools sts tool args purpose deps binds = Inr (sts @ [st])" "steps_within tools (Suc k) (sts @ [st])"
  using add_step_good [OF assms(1) [unfolded steps_within_def, THEN conjunct1] assms(2,3)] assms(1) that
  unfolding steps_within_def by fastforce

definition plan_ok :: "'w tool list \<Rightarrow> agent_plan \<Rightarrow> bool" where
  "plan_ok tools p = steps_within tools 5 (pl_steps p)"

text \<open>A rule returns, and what it returns satisfies a predicate.\<close>

definition returns :: "('a \<Rightarrow> bool) \<Rightarrow> 'a res \<Rightarrow> bool" where
  "returns P r = (\<exists>x. r = Inr x \<and> P x)"

lemma returns_Inr [simp]: "returns P (Inr x) = P x"
  by (simp add: returns_def)

lemma returns_bind: "returns P r \<Longrightarrow> (\<And>x. P x \<Longrightarrow> returns Q (f x)) \<Longrightarrow> returns Q (bindE r f)"
  by (auto simp: returns_def)

lemma returns_if: "(b \<Longrightarrow> returns P x) \<Longrightarrow> (\<not> b \<Longrightarrow> returns P y) \<Longrightarrow> returns P (if b then x else y)"
  by simp

lemma returns_mono: "returns P r \<Longrightarrow> (\<And>x. P x \<Longrightarrow> Q x) \<Longrightarrow> returns Q r"
  by (auto simp: returns_def)

definition stage_ok :: "'w tool list \<Rightarrow> stage \<Rightarrow> bool" where
  "stage_ok tools g = (case g of Inl p \<Rightarrow> plan_ok tools p | Inr pg \<Rightarrow> steps_within tools 1 (pg_steps pg))"

definition if_found :: "('a \<Rightarrow> bool) \<Rightarrow> 'a option \<Rightarrow> bool" where
  "if_found P x = (case x of None \<Rightarrow> True | Some y \<Rightarrow> P y)"

lemma if_found_simps [simp]: "if_found P None" "if_found P (Some y) = P y"
  by (simp_all add: if_found_def)

lemma ask_steps [simp]: "pl_steps (ask_back n i sts t) = sts" "pl_steps (missing_plan n i tool) = []"
    "pl_steps (done_with n i sts t) = sts"
  by (simp_all add: ask_back_def det_plan_def missing_plan_def done_with_def)

lemma add_step_returns: "steps_within tools k sts \<Longrightarrow> has_available tools tool \<Longrightarrow> set deps \<subseteq> set (map st_id sts)
    \<Longrightarrow> returns (\<lambda>sts'. steps_within tools (Suc k) sts' \<and> (\<exists>st. sts' = sts @ [st]))
          (add_step tools sts tool args purpose deps binds)"
  by (rule add_step_within) (auto simp: returns_def)

lemma add_first_returns: "has_available tools tool \<Longrightarrow>
    returns (steps_within tools 1) (add_step tools [] tool args purpose [] binds)"
  by (rule returns_mono [OF add_step_returns [of _ 0]]) auto

lemma one_tool_returns: "returns (stage_ok tools) (one_tool tools n intent tool args purpose rows title)"
  unfolding one_tool_def
  by (intro returns_if returns_bind [OF add_first_returns]) (simp_all add: stage_ok_def plan_ok_def)

lemma within_plan_ok: "steps_within tools k (pl_steps p) \<Longrightarrow> k \<le> 5 \<Longrightarrow> plan_ok tools p"
  unfolding plan_ok_def by (rule within_mono)

lemma plan_change_returns: "returns (if_found (plan_ok tools)) (plan_change tools n lowered)"
proof -
  have "returns (if_found (plan_ok tools))
     (if \<not> has_available tools ''update_student_record'' then Inr (Some (missing_plan n ''update_student_record'' ''update_student_record''))
      else bindE (add_step tools [] ''update_student_record'' args purpose [] []) (\<lambda>sts.
           Inr (Some (done_with n ''update_student_record'' sts summary))))" for args purpose summary
    by (intro returns_if returns_bind [OF add_first_returns]) (auto simp: plan_ok_def elim: within_mono)
  then show ?thesis
    unfolding plan_change_def by (auto split: option.splits bool.splits simp: plan_ok_def)
qed

lemma plan_internet_returns: "returns (if_found (plan_ok tools)) (plan_internet tools n text lowered)"
  unfolding plan_internet_def
  apply (intro returns_if)
    apply simp
   apply (simp add: plan_ok_def)
  apply (rule returns_bind [OF add_first_returns], simp)
  apply (rule returns_bind [where P = "steps_within tools 2"])
   apply (intro returns_if)
    apply (rule returns_mono [OF add_step_returns [where k = 1]]; simp add: numeral_2_eq_2)
   apply (auto simp: plan_ok_def elim: within_mono)
  done

lemma plan_document_returns: "returns (if_found (plan_ok tools)) (plan_document P tools n text lowered)"
  unfolding plan_document_def
  by (intro returns_if returns_bind [OF add_first_returns]) (auto simp: plan_ok_def elim: within_mono)

lemma found_stage: "returns (stage_ok tools) r \<Longrightarrow> returns (if_found (stage_ok tools)) (bindE r (Inr \<circ> Some))"
  by (auto simp: returns_def)

lemma plan_people_returns: "returns (if_found (stage_ok tools)) (plan_people tools n lowered)"
  unfolding plan_people_def
  by (intro returns_if found_stage one_tool_returns) simp

lemma plan_catalogue_returns: "returns (if_found (stage_ok tools)) (plan_catalogue tools n lowered)"
  unfolding plan_catalogue_def
  by (intro returns_if found_stage one_tool_returns) simp

lemma plan_students_returns: "returns (if_found (stage_ok tools)) (plan_students tools n lowered)"
  unfolding plan_students_def
  by (intro returns_if found_stage one_tool_returns) simp

lemma plan_unmapped_returns: "returns (plan_ok tools) (plan_unmapped tools n text)"
  unfolding plan_unmapped_def
  by (intro returns_if returns_bind [OF add_first_returns]) (auto simp: plan_ok_def elim: within_mono)

lemma returns_found: "returns (if_found P) r \<Longrightarrow> returns P d
    \<Longrightarrow> returns P (bindE r (\<lambda>f. case f of Some g \<Rightarrow> Inr g | None \<Rightarrow> d))"
  by (auto simp: returns_def if_found_def split: option.splits)

lemma pick_tool_returns: "returns (stage_ok tools) (pick_tool P tools n text lowered)"
proof -
  have u: "returns (stage_ok tools) (bindE (plan_unmapped tools n text) (\<lambda>p. Inr (Inl p)))"
    by (rule returns_bind [OF plan_unmapped_returns]) (simp add: stage_ok_def)
  have a: "returns (stage_ok tools) (plan_attendance P tools n lowered)"
    unfolding plan_attendance_def by (intro returns_if one_tool_returns)
  have f: "returns (stage_ok tools) (plan_fees tools n lowered)"
    unfolding plan_fees_def by (intro returns_if one_tool_returns)
  show ?thesis
    unfolding pick_tool_def
    by (intro returns_if a f returns_found plan_people_returns plan_catalogue_returns plan_students_returns u)
qed

lemma last_step_mem: "set (last_step sts) \<subseteq> set (map st_id sts)"
  by (simp add: last_step_def)

text \<open>After the report: one more step exactly when there is a report step, which is one of them.\<close>

definition report_ok :: "'w tool list \<Rightarrow> progress \<times> string option \<Rightarrow> bool" where
  "report_ok tools pr = (case snd pr of None \<Rightarrow> steps_within tools 1 (pg_steps (fst pr))
     | Some i \<Rightarrow> steps_within tools 2 (pg_steps (fst pr)) \<and> i \<in> set (map st_id (pg_steps (fst pr))))"

definition end_or :: "'w tool list \<Rightarrow> ('a \<Rightarrow> bool) \<Rightarrow> agent_plan + 'a \<Rightarrow> bool" where
  "end_or tools Q x = (case x of Inl p \<Rightarrow> plan_ok tools p | Inr y \<Rightarrow> Q y)"

lemma end_or_simps [simp]: "end_or tools Q (Inl p) = plan_ok tools p" "end_or tools Q (Inr y) = Q y"
  by (simp_all add: end_or_def)

lemma add_report_returns:
  assumes "steps_within tools k (pg_steps pg)" and "has_available tools ''generate_report''"
  shows "returns (\<lambda>pg'. steps_within tools (Suc k) (pg_steps pg') \<and> pg_steps pg' \<noteq> []) (add_report tools n pg rows purpose)"
  unfolding add_report_def
  by (rule returns_bind [OF add_step_returns [OF assms last_step_mem]]) auto

lemma report_stage_returns: "steps_within tools 1 (pg_steps pg) \<Longrightarrow> returns (end_or tools (report_ok tools)) (report_stage tools n pg)"
proof -
  assume w: "steps_within tools 1 (pg_steps pg)"
  have "returns (end_or tools (report_ok tools)) (if has_available tools ''generate_report'' then
            bindE (add_report tools n pg rows purpose) (\<lambda>pg'. Inr (Inr (pg', Some (st_id (last (pg_steps pg'))))))
          else Inr (Inl (ask_back n (pg_intent pg) (pg_steps pg) t)))" for rows purpose t
    using w by (intro returns_if returns_bind [OF add_report_returns [OF w]])
       (auto simp: report_ok_def numeral_2_eq_2 plan_ok_def elim: within_mono)
  then show ?thesis
    unfolding report_stage_def
    using w by (auto split: bool.splits option.splits prod.splits simp: report_ok_def elim: within_mono)
qed

lemma prepared_returns:
  assumes "report_ok tools (pg, report)"
  shows "returns (\<lambda>(pg', report'). steps_within tools 2 (pg_steps pg')
       \<and> (case report' of None \<Rightarrow> True | Some i \<Rightarrow> i \<in> set (map st_id (pg_steps pg'))))
     (case (report, pg_rows pg) of
            (None, Some rows) \<Rightarrow>
              if has_available tools ''generate_report'' then
                bindE (add_report tools n pg rows purpose) (\<lambda>pg'. Inr (pg', Some (st_id (last (pg_steps pg')))))
              else Inr (pg, None)
          | _ \<Rightarrow> Inr (pg, report))"
proof (cases report)
  case (Some i)
  with assms show ?thesis by (simp add: report_ok_def)
next
  case None
  with assms have w: "steps_within tools 1 (pg_steps pg)" by (simp add: report_ok_def)
  show ?thesis
  proof (cases "pg_rows pg")
    case None
    with \<open>report = None\<close> w show ?thesis by (simp add: within_mono)
  next
    case (Some rows)
    have "returns (\<lambda>(pg', report'). steps_within tools 2 (pg_steps pg')
         \<and> (case report' of None \<Rightarrow> True | Some i \<Rightarrow> i \<in> set (map st_id (pg_steps pg'))))
       (if has_available tools ''generate_report'' then
          bindE (add_report tools n pg rows purpose) (\<lambda>pg'. Inr (pg', Some (st_id (last (pg_steps pg')))))
        else Inr (pg, None))"
      using w by (intro returns_if returns_bind [OF add_report_returns [OF w]])
         (auto simp: numeral_2_eq_2 elim: within_mono)
    with \<open>report = None\<close> Some show ?thesis by simp
  qed
qed

lemma find_recipients_returns:
  assumes "steps_within tools 2 (pg_steps pg)"
  shows "returns (end_or tools (\<lambda>(sts, depends, binds). steps_within tools 3 sts \<and> set depends \<subseteq> set (map st_id sts)
     \<and> (\<exists>zs. sts = pg_steps pg @ zs))) (find_recipients tools n pg)"
  unfolding find_recipients_def
  using assms
  by (intro returns_if returns_bind [OF add_step_returns [OF assms]])
     (auto simp: Let_def numeral_3_eq_3 numeral_2_eq_2 plan_ok_def elim: within_mono)

lemma email_stage_returns:
  assumes "report_ok tools pr"
  shows "returns (end_or tools (\<lambda>pg. steps_within tools 4 (pg_steps pg))) (email_stage tools n text pr)"
proof -
  obtain pg report where pr: "pr = (pg, report)" by force
  have w: "steps_within tools 2 (pg_steps pg)"
    using assms by (auto simp: pr report_ok_def elim: within_mono split: option.splits)
  have send: "returns (end_or tools (\<lambda>pg. steps_within tools 4 (pg_steps pg)))
      (bindE (find_recipients tools n pg') (\<lambda>found. case found of
            Inl p \<Rightarrow> Inr (Inl p)
          | Inr (sts, depends, binds) \<Rightarrow>
              bindE (add_step tools sts ''send_email'' args purpose ((case report' of None \<Rightarrow> [] | Some i \<Rightarrow> [i]) @ depends) (bs binds))
                (\<lambda>sts'. Inr (Inr (pg'\<lparr>pg_steps := sts'\<rparr>)))))"
    if p: "steps_within tools 2 (pg_steps pg')" "case report' of None \<Rightarrow> True | Some i \<Rightarrow> i \<in> set (map st_id (pg_steps pg'))"
      and a: "has_available tools ''send_email''" for pg' report' args purpose and bs :: "pyval dict \<Rightarrow> pyval dict"
  proof (rule returns_bind [OF find_recipients_returns [OF p(1)]])
    fix x :: "agent_plan + plan_step list \<times> string list \<times> pyval dict"
    assume x: "end_or tools (\<lambda>(sts, depends, binds). steps_within tools 3 sts \<and> set depends \<subseteq> set (map st_id sts)
       \<and> (\<exists>zs. sts = pg_steps pg' @ zs)) x"
    show "returns (end_or tools (\<lambda>pg. steps_within tools 4 (pg_steps pg)))
      (case x of Inl p \<Rightarrow> Inr (Inl p)
          | Inr (sts, depends, binds) \<Rightarrow>
              bindE (add_step tools sts ''send_email'' args purpose ((case report' of None \<Rightarrow> [] | Some i \<Rightarrow> [i]) @ depends) (bs binds))
                (\<lambda>sts'. Inr (Inr (pg'\<lparr>pg_steps := sts'\<rparr>))))"
    proof (cases x)
      case (Inl p)
      with x show ?thesis by simp
    next
      case (Inr y)
      obtain sts depends binds where y: "y = (sts, depends, binds)" by (cases y)
      with x Inr have s: "steps_within tools 3 sts" "set depends \<subseteq> set (map st_id sts)" "\<exists>zs. sts = pg_steps pg' @ zs" by simp_all
      have "set ((case report' of None \<Rightarrow> [] | Some i \<Rightarrow> [i]) @ depends) \<subseteq> set (map st_id sts)"
        using s p(2) by (auto split: option.splits)
      then have "returns (end_or tools (\<lambda>pg. steps_within tools 4 (pg_steps pg)))
          (bindE (add_step tools sts ''send_email'' args purpose ((case report' of None \<Rightarrow> [] | Some i \<Rightarrow> [i]) @ depends) (bs binds))
                (\<lambda>sts'. Inr (Inr (pg'\<lparr>pg_steps := sts'\<rparr>))))"
        by (intro returns_bind [OF add_step_returns [OF s(1) a]]) simp_all
      with Inr y show ?thesis by simp
    qed
  qed
  show ?thesis
    unfolding email_stage_def pr prod.case
    apply (intro returns_if)
      apply (simp add: within_mono [OF w])
     apply (simp add: plan_ok_def within_mono [OF w])
    apply (rule returns_bind [OF prepared_returns [OF assms [unfolded pr], unfolded prod.case]])
    subgoal for x by (cases x) (simp only: prod.case, elim conjE, rule send, simp_all)
    done
qed

lemma notify_stage_returns:
  assumes "steps_within tools 4 (pg_steps pg)"
  shows "returns (\<lambda>pg. steps_within tools 5 (pg_steps pg)) (notify_stage tools n text pg)"
proof -
  have "returns (\<lambda>pg. steps_within tools 5 (pg_steps pg))
     (bindE (add_step tools (pg_steps pg) ''create_notification'' args purpose (last_step (pg_steps pg)) [])
        (\<lambda>sts. Inr (pg\<lparr>pg_steps := sts\<rparr>)))" if "has_available tools ''create_notification''" for args purpose
    by (rule returns_bind [OF add_step_returns [OF assms that last_step_mem]]) simp
  with within_mono [OF assms] show ?thesis unfolding notify_stage_def by (intro returns_if) simp_all
qed

lemma follow_on_returns:
  assumes "steps_within tools 1 (pg_steps pg)"
  shows "returns (plan_ok tools) (follow_on tools n text pg)"
proof -
  have n: "returns (plan_ok tools) (bindE (notify_stage tools n text pg') (\<lambda>pg''. Inr (done_with n (pg_intent pg'') (pg_steps pg'') (t pg''))))"
    if "steps_within tools 4 (pg_steps pg')" for pg' t
    by (rule returns_bind [OF notify_stage_returns [OF that]]) (simp add: plan_ok_def)
  have e: "returns (plan_ok tools) (bindE (email_stage tools n text pr) (\<lambda>m. case m of Inl p \<Rightarrow> Inr p | Inr pg' \<Rightarrow>
       bindE (notify_stage tools n text pg') (\<lambda>pg''. Inr (done_with n (pg_intent pg'') (pg_steps pg'') (t pg'')))))"
    if "report_ok tools pr" for pr t
    by (rule returns_bind [OF email_stage_returns [OF that]]) (auto simp: n end_or_def split: sum.splits)
  show ?thesis
    unfolding follow_on_def
    by (rule returns_bind [OF report_stage_returns [OF assms]]) (auto simp: e end_or_def split: sum.splits)
qed

lemma planner_rules_returns: "returns (plan_ok tools) (planner_rules P tools n text)"
proof -
  have p: "returns (plan_ok tools) (bindE (pick_tool P tools n text l) (\<lambda>g. case g of
          Inl p \<Rightarrow> Inr p | Inr pg \<Rightarrow> follow_on tools n text pg))" for l
    by (rule returns_bind [OF pick_tool_returns]) (auto simp: stage_ok_def follow_on_returns split: sum.splits)
  show ?thesis
    unfolding planner_rules_def Let_def
    by (intro returns_found plan_change_returns plan_internet_returns plan_document_returns p)
qed



end
