(* ===== verification/Canonical.thy ===== *)
theory Canonical
  imports Principals
begin

text \<open>
  The canonical institutional data model (\<^verbatim>\<open>normalization/canonical.py\<close>) and the records that
  cross from the ingestion pipeline to the canonical store (\<^verbatim>\<open>institution_data/models.py\<close>). The
  entities are the constants of the source; \<open>rep\<close> prints the values \<^verbatim>\<open>str\<close> has no closed form
  for here, and \<open>hash\<close> is the SHA-256 digest of the canonical JSON.
\<close>

subsection \<open>Fields and entities\<close>

datatype field_type =
    T_STRING | T_INTEGER | T_NUMBER | T_DATE | T_BOOLEAN | T_PERCENT | T_PHONE | T_EMAIL | T_IDENTIFIER

record canonical_field =
  cf_name :: string
  cf_type :: field_type
  cf_description :: string
  cf_synonyms :: "string list"
  cf_required :: bool
  cf_pii :: bool
  cf_contact :: bool

record canonical_entity =
  ce_name :: string
  ce_table :: string
  ce_description :: string
  ce_natural_key :: "string list"
  ce_signals :: "string list"
  ce_fields :: "canonical_field list"

text \<open>\<^verbatim>\<open>dict.fromkeys\<close>: the first occurrences in order.\<close>

definition keep_first :: "'a list \<Rightarrow> 'a list" where
  "keep_first xs = rev (remdups (rev xs))"

lemma keep_first_set [simp]: "set (keep_first xs) = set xs" "distinct (keep_first xs)"
  by (simp_all add: keep_first_def)

lemma keep_first_distinct: "distinct xs \<Longrightarrow> keep_first xs = xs"
  by (simp add: keep_first_def distinct_remdups_id)

definition fld :: "string \<Rightarrow> field_type \<Rightarrow> string \<Rightarrow> string list \<Rightarrow> bool \<Rightarrow> bool \<Rightarrow> bool \<Rightarrow> canonical_field" where
  "fld name ty desc syns required pii contact = \<lparr>cf_name = name, cf_type = ty, cf_description = desc,
     cf_synonyms = keep_first (map py_lower syns), cf_required = required, cf_pii = pii, cf_contact = contact\<rparr>"

definition mk_field :: "canonical_field \<Rightarrow> canonical_field res" where
  "mk_field f = (if blank (cf_name f) then Inl (ValueError ''canonical field name must not be blank'')
     else Inr (f\<lparr>cf_synonyms := keep_first (map py_lower (cf_synonyms f))\<rparr>))"

definition field_names :: "canonical_entity \<Rightarrow> string list" where
  "field_names e = map cf_name (ce_fields e)"

definition required_fields :: "canonical_entity \<Rightarrow> string list" where
  "required_fields e = map cf_name (filter cf_required (ce_fields e))"

definition contact_fields :: "canonical_entity \<Rightarrow> string list" where
  "contact_fields e = map cf_name (filter cf_contact (ce_fields e))"

definition entity_field :: "canonical_entity \<Rightarrow> string \<Rightarrow> canonical_field res" where
  "entity_field e name = (case find (\<lambda>f. cf_name f = name) (ce_fields e) of
      Some f \<Rightarrow> Inr f
    | None \<Rightarrow> Inl (KeyError (''unknown canonical field: '' @ ce_name e @ ''.'' @ name)))"

definition mk_entity :: "canonical_entity \<Rightarrow> canonical_entity res" where
  "mk_entity e =
     (if \<not> distinct (field_names e) then Inl (ValueError (''duplicate field in canonical entity '' @ ce_name e))
      else case find (\<lambda>k. k \<notin> set (field_names e)) (ce_natural_key e) of
          Some k \<Rightarrow> Inl (ValueError (''natural key '' @ k @ '' is not a field of '' @ ce_name e))
        | None \<Rightarrow> Inr e)"

subsection \<open>The entities\<close>

definition STUDENT_ID_words :: "string list" where
  "STUDENT_ID_words = [''student id'', ''student_id'', ''usn'', ''roll no'', ''roll number'', ''roll'', ''register number'', ''reg no'',
      ''registration number'', ''regno'', ''enrollment no'', ''enrolment no'', ''enrollment number'', ''admission no'', ''admission number'',
      ''prn'', ''sid'', ''student number'', ''id'']"

definition PROGRAM_words :: "string list" where
  "PROGRAM_words = [''program'', ''programme'', ''course'', ''degree'', ''program code'', ''programme code'', ''course name'', ''stream'']"

definition SEMESTER_words :: "string list" where
  "SEMESTER_words = [''semester'', ''sem'', ''term'', ''current semester'', ''semester no'']"

definition DEPARTMENT_words :: "string list" where
  "DEPARTMENT_words = [''department'', ''dept'', ''branch'', ''dept name'', ''department name'']"

definition STUDENT_ENTITY :: canonical_entity where
  "STUDENT_ENTITY = \<lparr>ce_name = ''student'', ce_table = ''students'', ce_description = ''A student enrolled in the institution'',
    ce_natural_key = [''student_id''],
    ce_signals = [''usn'', ''roll no'', ''roll number'', ''student name'', ''student id'', ''register number'', ''admission no'', ''prn''],
    ce_fields = [
    fld ''student_id'' T_IDENTIFIER ''Institution-issued student identifier'' STUDENT_ID_words True False False,
    fld ''name'' T_STRING ''Full name'' [''student name'', ''name'', ''full name'', ''candidate name'', ''name of student'',
      ''name of the student''] True True False,
    fld ''first_name'' T_STRING ''Given name'' [''first name'', ''given name''] False True False,
    fld ''last_name'' T_STRING ''Family name'' [''last name'', ''surname'', ''family name''] False True False,
    fld ''program'' T_STRING ''Program or degree code'' PROGRAM_words False False False,
    fld ''department'' T_STRING ''Department'' DEPARTMENT_words False False False,
    fld ''semester'' T_INTEGER ''Current semester'' SEMESTER_words False False False,
    fld ''section'' T_STRING ''Section or division'' [''section'', ''sec'', ''div'', ''division'', ''class''] False False False,
    fld ''batch'' T_STRING ''Admission batch or academic year label'' [''batch'', ''academic year'', ''admission batch'', ''year of study'',
      ''year''] False False False,
    fld ''admission_year'' T_INTEGER ''Year of admission'' [''admission year'', ''year of admission'', ''joining year'',
      ''year of joining''] False False False,
    fld ''date_of_birth'' T_DATE ''Date of birth'' [''dob'', ''date of birth'', ''birth date'', ''birthdate''] False True True,
    fld ''gender'' T_STRING ''Gender'' [''gender'', ''sex''] False True False,
    fld ''phone'' T_PHONE ''Student mobile number'' [''phone'', ''mobile'', ''mobile no'', ''mobile number'', ''contact'', ''contact no'',
      ''contact number'', ''phone number'', ''phone no'', ''student mobile'', ''cell''] False True True,
    fld ''email'' T_EMAIL ''Student email'' [''email'', ''e-mail'', ''email id'', ''mail id'', ''email address'', ''student email''] False True True,
    fld ''guardian_name'' T_STRING ''Parent or guardian name'' [''father name'', (''father'' @ [CHR 0x27] @ ''s name''), ''parent name'',
      ''guardian'', ''guardian name'', ''mother name'', (''mother'' @ [CHR 0x27] @ ''s name''), ''parent/guardian''] False True False,
    fld ''guardian_phone'' T_PHONE ''Parent or guardian phone'' [''parent phone'', ''parent mobile'', ''father mobile'', ''father phone'',
      ''guardian phone'', ''guardian contact'', ''parent contact'', ''mother mobile''] False True True,
    fld ''address'' T_STRING ''Postal address'' [''address'', ''permanent address'', ''residential address'',
      ''communication address''] False True True,
    fld ''category'' T_STRING ''Admission or social category'' [''category'', ''caste category'', ''quota'',
      ''reservation category''] False True False,
    fld ''blood_group'' T_STRING ''Blood group'' [''blood group'', ''blood grp''] False True False,
    fld ''status'' T_STRING ''Enrollment status'' [''status'', ''student status'', ''active'', ''enrollment status''] False False False]\<rparr>"

definition FACULTY_ENTITY :: canonical_entity where
  "FACULTY_ENTITY = \<lparr>ce_name = ''faculty'', ce_table = ''faculty'', ce_description = ''Teaching faculty member'',
    ce_natural_key = [''faculty_id''],
    ce_signals = [''designation'', ''faculty name'', ''faculty id'', ''qualification'', ''employee id'', ''emp id'', ''specialization''],
    ce_fields = [
    fld ''faculty_id'' T_IDENTIFIER ''Faculty or employee identifier'' [''faculty id'', ''employee id'', ''emp id'', ''emp code'', ''employee code'',
      ''staff id'', ''faculty code'', ''id''] True False False,
    fld ''name'' T_STRING ''Full name'' [''faculty name'', ''name'', ''employee name'', ''name of faculty'', ''full name''] True True False,
    fld ''designation'' T_STRING ''Designation'' [''designation'', ''position'', ''post'', ''title'', ''rank'', ''role''] False False False,
    fld ''department'' T_STRING ''Department'' DEPARTMENT_words False False False,
    fld ''qualification'' T_STRING ''Highest qualification'' [''qualification'', ''highest qualification'', ''qualifications'', ''degree'',
      ''education''] False False False,
    fld ''specialization'' T_STRING ''Specialization'' [''specialization'', ''specialisation'', ''area'', ''area of expertise'',
      ''subject''] False False False,
    fld ''email'' T_EMAIL ''Official email'' [''email'', ''e-mail'', ''email id'', ''mail id'', ''official email''] False True True,
    fld ''phone'' T_PHONE ''Phone'' [''phone'', ''mobile'', ''mobile no'', ''contact'', ''contact no'', ''phone number''] False True True,
    fld ''joining_date'' T_DATE ''Date of joining'' [''date of joining'', ''doj'', ''joining date'', ''joined on''] False False False,
    fld ''experience_years'' T_NUMBER ''Years of experience'' [''experience'', ''years of experience'', ''exp'',
      ''experience (years)''] False False False,
    fld ''is_hod'' T_BOOLEAN ''Head of department flag'' [''hod'', ''head of department'', ''is hod''] False False False,
    fld ''status'' T_STRING ''Employment status'' [''status'', ''employment status'', ''active''] False False False]\<rparr>"

definition STAFF_ENTITY :: canonical_entity where
  "STAFF_ENTITY = \<lparr>ce_name = ''staff'', ce_table = ''staff'', ce_description = ''Non-teaching staff member'',
    ce_natural_key = [''staff_id''],
    ce_signals = [''staff name'', ''staff id'', ''non teaching'', ''non-teaching''],
    ce_fields = [
    fld ''staff_id'' T_IDENTIFIER ''Staff identifier'' [''staff id'', ''employee id'', ''emp id'', ''emp code'', ''staff code'',
      ''id''] True False False,
    fld ''name'' T_STRING ''Full name'' [''staff name'', ''name'', ''employee name'', ''full name''] True True False,
    fld ''designation'' T_STRING ''Designation'' [''designation'', ''position'', ''post'', ''role''] False False False,
    fld ''department'' T_STRING ''Department or office'' (DEPARTMENT_words @ [''office'', ''section'']) False False False,
    fld ''email'' T_EMAIL ''Email'' [''email'', ''e-mail'', ''email id'', ''mail id''] False True True,
    fld ''phone'' T_PHONE ''Phone'' [''phone'', ''mobile'', ''mobile no'', ''contact'', ''contact no''] False True True,
    fld ''joining_date'' T_DATE ''Date of joining'' [''date of joining'', ''doj'', ''joining date''] False False False,
    fld ''status'' T_STRING ''Employment status'' [''status'', ''active''] False False False]\<rparr>"

definition PROGRAM_ENTITY :: canonical_entity where
  "PROGRAM_ENTITY = \<lparr>ce_name = ''program'', ce_table = ''programs'', ce_description = ''Academic program'',
    ce_natural_key = [''code''],
    ce_signals = [''program code'', ''programme'', ''intake'', ''duration'', ''program name''],
    ce_fields = [
    fld ''code'' T_IDENTIFIER ''Program code'' [''program code'', ''programme code'', ''code'', ''program'', ''programme'', ''short name'',
      ''abbreviation''] True False False,
    fld ''name'' T_STRING ''Program name'' [''program name'', ''programme name'', ''name'', ''title'', ''full name'',
      ''course name''] True False False,
    fld ''department'' T_STRING ''Owning department'' DEPARTMENT_words False False False,
    fld ''level'' T_STRING ''UG/PG/Diploma level'' [''level'', ''degree level'', ''type''] False False False,
    fld ''duration_semesters'' T_INTEGER ''Duration in semesters'' [''duration'', ''semesters'', ''duration (semesters)'', ''no of semesters'',
      ''total semesters''] False False False,
    fld ''intake'' T_INTEGER ''Sanctioned intake'' [''intake'', ''seats'', ''sanctioned intake'', ''capacity''] False False False,
    fld ''status'' T_STRING ''Status'' [''status'', ''active''] False False False]\<rparr>"

definition DEPARTMENT_ENTITY :: canonical_entity where
  "DEPARTMENT_ENTITY = \<lparr>ce_name = ''department'', ce_table = ''departments'', ce_description = ''Academic or administrative department'',
    ce_natural_key = [''code''],
    ce_signals = [''department code'', ''hod'', ''head of department'', ''department name''],
    ce_fields = [
    fld ''code'' T_IDENTIFIER ''Department code'' [''department code'', ''dept code'', ''code'', ''department'', ''dept'',
      ''short name''] True False False,
    fld ''name'' T_STRING ''Department name'' [''department name'', ''dept name'', ''name'', ''title''] True False False,
    fld ''hod_id'' T_IDENTIFIER ''HOD faculty identifier'' [''hod id'', ''hod faculty id'', ''head id''] False False False,
    fld ''hod_name'' T_STRING ''HOD name'' [''hod'', ''hod name'', ''head of department'', ''head''] False True False,
    fld ''hod_email'' T_EMAIL ''HOD email'' [''hod email'', ''head email''] False True True,
    fld ''status'' T_STRING ''Status'' [''status'', ''active''] False False False]\<rparr>"

definition COURSE_ENTITY :: canonical_entity where
  "COURSE_ENTITY = \<lparr>ce_name = ''course'', ce_table = ''courses'', ce_description = ''A course or subject taught within a program'',
    ce_natural_key = [''code''],
    ce_signals = [''subject code'', ''course code'', ''credits'', ''subject name''],
    ce_fields = [
    fld ''code'' T_IDENTIFIER ''Course/subject code'' [''course code'', ''subject code'', ''code'', ''paper code''] True False False,
    fld ''name'' T_STRING ''Course/subject name'' [''course name'', ''subject name'', ''subject'', ''name'', ''title'', ''paper''] True False False,
    fld ''program'' T_STRING ''Program'' [''program'', ''programme'', ''degree'', ''stream''] False False False,
    fld ''department'' T_STRING ''Department'' DEPARTMENT_words False False False,
    fld ''semester'' T_INTEGER ''Semester'' SEMESTER_words False False False,
    fld ''credits'' T_NUMBER ''Credits'' [''credits'', ''credit'', ''credit points''] False False False,
    fld ''faculty_id'' T_IDENTIFIER ''Assigned faculty'' [''faculty id'', ''faculty'', ''instructor'', ''teacher'', ''handled by'',
      ''employee id''] False False False,
    fld ''course_type'' T_STRING ''Core/elective'' [''type'', ''course type'', ''category''] False False False]\<rparr>"

definition ATTENDANCE_ENTITY :: canonical_entity where
  "ATTENDANCE_ENTITY = \<lparr>ce_name = ''attendance'', ce_table = ''attendance'', ce_description = ''Attendance for a student in a course or period'',
    ce_natural_key = [''student_id'', ''course_code'', ''period''],
    ce_signals = [''attendance'', ''classes held'', ''classes attended'', ''present'', ''absent'', ''attendance %'', ''attendance percentage'',
      ''total classes''],
    ce_fields = [
    fld ''student_id'' T_IDENTIFIER ''Student identifier'' STUDENT_ID_words True False False,
    fld ''student_name'' T_STRING ''Student name as recorded'' [''student name'', ''name'', ''name of student''] False True False,
    fld ''program'' T_STRING ''Program'' [''program'', ''programme'', ''degree'', ''stream'', ''programme name''] False False False,
    fld ''department'' T_STRING ''Department'' DEPARTMENT_words False False False,
    fld ''semester'' T_INTEGER ''Semester'' SEMESTER_words False False False,
    fld ''section'' T_STRING ''Section'' [''section'', ''sec'', ''division''] False False False,
    fld ''course_code'' T_STRING ''Course/subject code'' [''course code'', ''subject code'', ''subject'', ''course'', ''paper'',
      ''subject name''] False False False,
    fld ''period'' T_STRING ''Reporting period (month, term, or date range)'' [''period'', ''month'', ''term'', ''for the month'',
      ''reporting period'', ''academic year'', ''as on''] False False False,
    fld ''classes_held'' T_INTEGER ''Classes conducted'' [''classes held'', ''classes conducted'', ''total classes'', ''held'', ''conducted'',
      ''total'', ''no of classes'', ''classes'', ''total hours'', ''hours conducted''] False False False,
    fld ''classes_attended'' T_INTEGER ''Classes attended'' [''classes attended'', ''attended'', ''present'', ''no of classes attended'',
      ''hours attended'', ''attended classes''] False False False,
    fld ''classes_absent'' T_INTEGER ''Classes missed'' [''absent'', ''classes absent'', ''missed''] False False False,
    fld ''attendance_percent'' T_PERCENT ''Attendance percentage'' [''attendance %'', ''attendance percentage'', ''percentage'', ''%'',
      ''attendance'', ''att %'', ''att%'', ''percent'', ''attendance(%)''] False False False,
    fld ''recorded_on'' T_DATE ''Date the figure was recorded'' [''date'', ''recorded on'', ''as on date'', ''updated on''] False False False]\<rparr>"

definition FEE_ENTITY :: canonical_entity where
  "FEE_ENTITY = \<lparr>ce_name = ''fee'', ce_table = ''fees'', ce_description = ''Fee dues and payments for a student'',
    ce_natural_key = [''student_id'', ''fee_type'', ''academic_year'', ''semester'', ''receipt_no''],
    ce_signals = [''fee'', ''fees'', ''amount paid'', ''balance'', ''receipt'', ''due date'', ''total fee'', ''paid'', ''outstanding''],
    ce_fields = [
    fld ''student_id'' T_IDENTIFIER ''Student identifier'' STUDENT_ID_words True False False,
    fld ''student_name'' T_STRING ''Student name as recorded'' [''student name'', ''name'', ''name of student''] False True False,
    fld ''program'' T_STRING ''Program'' [''program'', ''programme'', ''course'', ''degree'', ''stream''] False False False,
    fld ''semester'' T_INTEGER ''Semester'' SEMESTER_words False False False,
    fld ''academic_year'' T_STRING ''Academic year'' [''academic year'', ''year'', ''session'', ''ay''] False False False,
    fld ''fee_type'' T_STRING ''Fee head'' [''fee type'', ''fee head'', ''type'', ''particulars'', ''head'', ''fee category'', ''description'',
      ''fee name''] False False False,
    fld ''amount_due'' T_NUMBER ''Total amount due'' [''total fee'', ''fee amount'', ''amount due'', ''fees'', ''total'', ''amount'',
      ''total amount'', ''fee'', ''payable'', ''demand''] False False False,
    fld ''amount_paid'' T_NUMBER ''Amount paid'' [''paid'', ''amount paid'', ''received'', ''paid amount'', ''collected''] False False False,
    fld ''balance'' T_NUMBER ''Outstanding balance'' [''balance'', ''due'', ''pending'', ''outstanding'', ''balance due'', ''pending amount'',
      ''dues'', ''remaining''] False False False,
    fld ''due_date'' T_DATE ''Due date'' [''due date'', ''last date'', ''deadline''] False False False,
    fld ''paid_on'' T_DATE ''Payment date'' [''payment date'', ''paid on'', ''date of payment'', ''date'', ''receipt date''] False False False,
    fld ''receipt_no'' T_STRING ''Receipt or transaction reference'' [''receipt'', ''receipt no'', ''receipt number'', ''transaction id'',
      ''txn id'', ''reference no'', ''utr''] False False False,
    fld ''payment_mode'' T_STRING ''Payment mode'' [''mode'', ''payment mode'', ''mode of payment''] False False False,
    fld ''status'' T_STRING ''Payment status'' [''status'', ''payment status'', ''fee status''] False False False]\<rparr>"

definition EXAM_ENTITY :: canonical_entity where
  "EXAM_ENTITY = \<lparr>ce_name = ''exam'', ce_table = ''exams'', ce_description = ''Exam or assessment result'',
    ce_natural_key = [''student_id'', ''course_code'', ''exam_name''],
    ce_signals = [''marks'', ''grade'', ''result'', ''max marks'', ''exam'', ''obtained'', ''cgpa'', ''sgpa'', ''internal''],
    ce_fields = [
    fld ''student_id'' T_IDENTIFIER ''Student identifier'' STUDENT_ID_words True False False,
    fld ''student_name'' T_STRING ''Student name as recorded'' [''student name'', ''name'', ''name of student''] False True False,
    fld ''program'' T_STRING ''Program'' [''program'', ''programme'', ''degree'', ''stream''] False False False,
    fld ''semester'' T_INTEGER ''Semester'' SEMESTER_words False False False,
    fld ''course_code'' T_STRING ''Course/subject code'' [''course code'', ''subject code'', ''subject'', ''course'', ''paper'',
      ''paper code''] False False False,
    fld ''course_name'' T_STRING ''Course/subject name'' [''course name'', ''subject name'', ''paper name''] False False False,
    fld ''exam_name'' T_STRING ''Exam or assessment name'' [''exam'', ''exam name'', ''examination'', ''test'', ''assessment'', ''internal'', ''ia'',
      ''cie'', ''see'', ''exam type''] False False False,
    fld ''marks_obtained'' T_NUMBER ''Marks obtained'' [''marks'', ''marks obtained'', ''obtained'', ''score'', ''obtained marks'',
      ''total marks obtained''] False False False,
    fld ''max_marks'' T_NUMBER ''Maximum marks'' [''max marks'', ''maximum marks'', ''out of'', ''total marks'', ''max''] False False False,
    fld ''grade'' T_STRING ''Grade'' [''grade'', ''letter grade'', ''grade point''] False False False,
    fld ''result_status'' T_STRING ''Pass/fail status'' [''result'', ''pass/fail'', ''status'', ''result status'', ''p/f''] False False False,
    fld ''exam_date'' T_DATE ''Exam date'' [''exam date'', ''date'', ''date of exam''] False False False]\<rparr>"

definition ENROLLMENT_ENTITY :: canonical_entity where
  "ENROLLMENT_ENTITY = \<lparr>ce_name = ''enrollment'', ce_table = ''enrollments'', ce_description = (''A student'' @ [CHR 0x27] @ ''s enrollment in a program for a term''),
    ce_natural_key = [''student_id'', ''academic_year'', ''semester''],
    ce_signals = [''enrollment'', ''enrolment'', ''registered'', ''registration''],
    ce_fields = [
    fld ''student_id'' T_IDENTIFIER ''Student identifier'' STUDENT_ID_words True False False,
    fld ''program'' T_STRING ''Program'' PROGRAM_words False False False,
    fld ''semester'' T_INTEGER ''Semester'' SEMESTER_words False False False,
    fld ''academic_year'' T_STRING ''Academic year'' [''academic year'', ''year'', ''session'', ''ay''] False False False,
    fld ''section'' T_STRING ''Section'' [''section'', ''sec'', ''division''] False False False,
    fld ''status'' T_STRING ''Enrollment status'' [''status'', ''enrollment status'', ''registration status''] False False False]\<rparr>"

definition ADMISSION_ENTITY :: canonical_entity where
  "ADMISSION_ENTITY = \<lparr>ce_name = ''admission'', ce_table = ''admissions'', ce_description = ''Admission application'',
    ce_natural_key = [''application_id''],
    ce_signals = [''application'', ''applicant'', ''admission status'', ''counselling'', ''seat''],
    ce_fields = [
    fld ''application_id'' T_IDENTIFIER ''Application identifier'' [''application id'', ''application no'', ''application number'', ''app id'',
      ''app no'', ''form no'', ''id''] True False False,
    fld ''name'' T_STRING ''Applicant name'' [''applicant name'', ''name'', ''candidate name'', ''student name''] True True False,
    fld ''program'' T_STRING ''Program applied'' (PROGRAM_words @ [''program applied'', ''course applied'']) False False False,
    fld ''status'' T_STRING ''Application status'' [''status'', ''admission status'', ''application status'', ''stage''] False False False,
    fld ''applied_on'' T_DATE ''Application date'' [''date'', ''application date'', ''applied on'', ''submitted on''] False False False,
    fld ''phone'' T_PHONE ''Applicant phone'' [''phone'', ''mobile'', ''contact'', ''mobile no''] False True True,
    fld ''email'' T_EMAIL ''Applicant email'' [''email'', ''e-mail'', ''email id''] False True True,
    fld ''category'' T_STRING ''Category'' [''category'', ''quota'', ''reservation''] False True False,
    fld ''entrance_score'' T_NUMBER ''Entrance exam score'' [''score'', ''entrance score'', ''rank'', ''cet rank'', ''merit score''] False False False,
    fld ''academic_year'' T_STRING ''Academic year'' [''academic year'', ''year'', ''session'', ''ay''] False False False]\<rparr>"

definition EVENT_ENTITY :: canonical_entity where
  "EVENT_ENTITY = \<lparr>ce_name = ''event'', ce_table = ''events'', ce_description = ''Institutional event'',
    ce_natural_key = [''title'', ''event_date''],
    ce_signals = [''event'', ''venue'', ''organizer'', ''organiser'', ''event date'', ''seminar'', ''workshop''],
    ce_fields = [
    fld ''title'' T_STRING ''Event title'' [''event'', ''event name'', ''title'', ''name'', ''program name'', ''activity''] True False False,
    fld ''event_date'' T_DATE ''Event date'' [''date'', ''event date'', ''on'', ''start date'', ''from''] True False False,
    fld ''end_date'' T_DATE ''End date'' [''end date'', ''to'', ''till''] False False False,
    fld ''category'' T_STRING ''Category'' [''type'', ''category'', ''event type'', ''nature''] False False False,
    fld ''organizer'' T_STRING ''Organizer'' [''organizer'', ''organiser'', ''organized by'', ''organised by'', ''department'', ''dept'',
      ''club''] False False False,
    fld ''venue'' T_STRING ''Venue'' [''venue'', ''location'', ''place'', ''hall''] False False False,
    fld ''description'' T_STRING ''Description'' [''description'', ''details'', ''remarks'', ''about''] False False False,
    fld ''participants'' T_INTEGER ''Participant count'' [''participants'', ''no of participants'', ''attendees'', ''count''] False False False]\<rparr>"

definition CANONICAL_ENTITIES :: "canonical_entity dict" where
  "CANONICAL_ENTITIES = map (\<lambda>e. (ce_name e, e)) [STUDENT_ENTITY, FACULTY_ENTITY, STAFF_ENTITY, PROGRAM_ENTITY, DEPARTMENT_ENTITY, COURSE_ENTITY,
     ATTENDANCE_ENTITY, FEE_ENTITY, EXAM_ENTITY, ENROLLMENT_ENTITY, ADMISSION_ENTITY, EVENT_ENTITY]"

definition PROGRAM_ALIASES :: "string dict" where
  "PROGRAM_ALIASES = [
    (''mba'', ''MBA''), (''masterofbusinessadministration'', ''MBA''), (''mbaprogram'', ''MBA''),
    (''mbaprogramme'', ''MBA''), (''bba'', ''BBA''), (''bachelorofbusinessadministration'', ''BBA''),
    (''bca'', ''BCA''), (''bachelorofcomputerapplications'', ''BCA''), (''bachelorofcomputerapplication'', ''BCA''),
    (''mca'', ''MCA''), (''masterofcomputerapplications'', ''MCA''), (''masterofcomputerapplication'', ''MCA''),
    (''be'', ''BE''), (''bachelorofengineering'', ''BE''), (''btech'', ''BTECH''),
    (''bachelooftechnology'', ''BTECH''), (''bacheloroftechnology'', ''BTECH''), (''mtech'', ''MTECH''),
    (''masteroftechnology'', ''MTECH''), (''me'', ''ME''), (''masterofengineering'', ''ME''),
    (''bsc'', ''BSC''), (''bachelorofscience'', ''BSC''), (''msc'', ''MSC''),
    (''masterofscience'', ''MSC''), (''bcom'', ''BCOM''), (''bachelorofcommerce'', ''BCOM''),
    (''mcom'', ''MCOM''), (''masterofcommerce'', ''MCOM''), (''ba'', ''BA''),
    (''bachelorofarts'', ''BA''), (''ma'', ''MA''), (''masterofarts'', ''MA''),
    (''bed'', ''BED''), (''bachelorofeducation'', ''BED''), (''med'', ''MED''),
    (''masterofeducation'', ''MED''), (''llb'', ''LLB''), (''bachelooflaws'', ''LLB''),
    (''bacheloroflaws'', ''LLB''), (''llm'', ''LLM''), (''mbbs'', ''MBBS''),
    (''bds'', ''BDS''), (''bpharm'', ''BPHARM''), (''bachelorofpharmacy'', ''BPHARM''),
    (''mpharm'', ''MPHARM''), (''barch'', ''BARCH''), (''bachelorofarchitecture'', ''BARCH''),
    (''phd'', ''PHD''), (''doctorofphilosophy'', ''PHD''), (''diploma'', ''DIPLOMA''),
    (''puc'', ''PUC''), (''preuniversity'', ''PUC'')]"

definition canonical_entity_named :: "string \<Rightarrow> canonical_entity res" where
  "canonical_entity_named name = (case dict_get CANONICAL_ENTITIES name of
      Some e \<Rightarrow> Inr e
    | None \<Rightarrow> Inl (KeyError (''unknown canonical entity: '' @ name)))"

subsection \<open>Records\<close>

definition key_part :: "(pyval \<Rightarrow> string) \<Rightarrow> pyval \<Rightarrow> string" where
  "key_part rep v = (if v = PNone then [] else py_join '' '' (split_ws (py_lower (py_strip (py_str rep v)))))"

definition record_key_for :: "(pyval \<Rightarrow> string) \<Rightarrow> canonical_entity \<Rightarrow> pyval dict \<Rightarrow> string" where
  "record_key_for rep e d = py_join ''|'' (map (\<lambda>k. key_part rep (get_or_none d k)) (ce_natural_key e))"

record lineage =
  ln_file_id :: "string option"
  ln_file_name :: "string option"
  ln_locator :: "string option"
  ln_job_id :: "string option"

record canonical_record =
  cr_entity :: string
  cr_fields :: "pyval dict"
  cr_attributes :: "pyval dict"
  cr_normalizations :: "pyval list"
  cr_issues :: "pyval list"
  cr_lineage :: lineage

text \<open>The key of a record of a known entity; an unknown one raises.\<close>

definition record_key :: "(pyval \<Rightarrow> string) \<Rightarrow> canonical_record \<Rightarrow> string res" where
  "record_key rep r = bindE (canonical_entity_named (cr_entity r)) (\<lambda>e. Inr (record_key_for rep e (cr_fields r)))"

definition content_hash :: "(pyval \<Rightarrow> string) \<Rightarrow> canonical_record \<Rightarrow> string" where
  "content_hash hash r = hash (PDict [(''fields'', PDict (cr_fields r)), (''attributes'', PDict (cr_attributes r))])"

definition issue_get :: "pyval \<Rightarrow> string \<Rightarrow> pyval" where
  "issue_get v k = (case v of PDict d \<Rightarrow> get_or_none d k | _ \<Rightarrow> PNone)"

definition is_error :: "pyval \<Rightarrow> bool" where
  "is_error v = (issue_get v ''severity'' = PStr ''error'')"

definition has_blocking_issues :: "canonical_record \<Rightarrow> bool" where
  "has_blocking_issues r = list_ex is_error (cr_issues r)"

text \<open>\<^verbatim>\<open>key.strip("|")\<close> is the empty text when nothing but separators is left.\<close>

definition no_key :: "string \<Rightarrow> bool" where
  "no_key k = list_all (\<lambda>c. c = CHR ''|'') k"

subsection \<open>Facts about the model\<close>

lemma canonical_cases:
  "P STUDENT_ENTITY \<Longrightarrow> P FACULTY_ENTITY \<Longrightarrow> P STAFF_ENTITY \<Longrightarrow> P PROGRAM_ENTITY \<Longrightarrow> P DEPARTMENT_ENTITY
   \<Longrightarrow> P COURSE_ENTITY \<Longrightarrow> P ATTENDANCE_ENTITY \<Longrightarrow> P FEE_ENTITY \<Longrightarrow> P EXAM_ENTITY \<Longrightarrow> P ENROLLMENT_ENTITY
   \<Longrightarrow> P ADMISSION_ENTITY \<Longrightarrow> P EVENT_ENTITY \<Longrightarrow> list_all (\<lambda>(k, e). P e) CANONICAL_ENTITIES"
  by (simp add: CANONICAL_ENTITIES_def)

lemma lower_idem: "lower_char (lower_char c) = lower_char c"
proof -
  have "(of_char (char_of (n + 32 :: nat)) :: nat) = n + 32" if "n < 224" for n
    using that by (simp add: of_char_of)
  then show ?thesis
    by (auto simp: lower_char_def Let_def)
qed

lemma py_lower_idem [simp]: "py_lower (py_lower s) = py_lower s"
  by (simp add: py_lower_def lower_idem)

lemma keep_first_lower: "keep_first (map py_lower (keep_first (map py_lower s))) = keep_first (map py_lower s)"
proof -
  have "map py_lower (keep_first (map py_lower s)) = keep_first (map py_lower s)"
    by (rule map_idI) auto
  then show ?thesis
    by (simp add: keep_first_distinct)
qed

lemma not_blank_Cons: "\<not> py_space c \<Longrightarrow> \<not> blank (c # cs)"
  by (simp add: blank_def py_strip_def)

lemma mk_field_fld: "\<not> py_space c \<Longrightarrow> mk_field (fld (c # n) t d s r p k) = Inr (fld (c # n) t d s r p k)"
  by (simp add: mk_field_def fld_def not_blank_Cons keep_first_lower)

lemma cf_fld [simp]: "cf_name (fld n t d s r p k) = n" "cf_type (fld n t d s r p k) = t"
  "cf_required (fld n t d s r p k) = r" "cf_contact (fld n t d s r p k) = k"
  by (simp_all add: fld_def)

lemma letters_not_space:
  "\<not> py_space CHR ''a''" "\<not> py_space CHR ''b''" "\<not> py_space CHR ''c''" "\<not> py_space CHR ''d''" "\<not> py_space CHR ''e''"
  "\<not> py_space CHR ''f''" "\<not> py_space CHR ''g''" "\<not> py_space CHR ''h''" "\<not> py_space CHR ''i''" "\<not> py_space CHR ''j''"
  "\<not> py_space CHR ''l''" "\<not> py_space CHR ''m''" "\<not> py_space CHR ''n''" "\<not> py_space CHR ''o''" "\<not> py_space CHR ''p''"
  "\<not> py_space CHR ''q''" "\<not> py_space CHR ''r''" "\<not> py_space CHR ''s''" "\<not> py_space CHR ''t''" "\<not> py_space CHR ''v''"
  by (simp_all add: py_space_def)

text \<open>
  What every entity of the model keeps: the constructors accept it and its fields, and at least
  one part of its natural key is a required field.
\<close>

definition entity_sound :: "canonical_entity \<Rightarrow> bool" where
  "entity_sound e = (mk_entity e = Inr e \<and> list_all (\<lambda>f. mk_field f = Inr f) (ce_fields e)
     \<and> list_ex (\<lambda>k. k \<in> set (required_fields e)) (ce_natural_key e))"

lemmas entity_simps = entity_sound_def mk_entity_def field_names_def required_fields_def mk_field_fld letters_not_space

lemma person_entities_sound:
  "entity_sound STUDENT_ENTITY" "entity_sound FACULTY_ENTITY" "entity_sound STAFF_ENTITY" "entity_sound ADMISSION_ENTITY"
  by (simp_all add: entity_simps STUDENT_ENTITY_def FACULTY_ENTITY_def STAFF_ENTITY_def ADMISSION_ENTITY_def)

lemma academic_entities_sound:
  "entity_sound PROGRAM_ENTITY" "entity_sound DEPARTMENT_ENTITY" "entity_sound COURSE_ENTITY" "entity_sound EVENT_ENTITY"
  by (simp_all add: entity_simps PROGRAM_ENTITY_def DEPARTMENT_ENTITY_def COURSE_ENTITY_def EVENT_ENTITY_def)

lemma figure_entities_sound:
  "entity_sound ATTENDANCE_ENTITY" "entity_sound FEE_ENTITY" "entity_sound EXAM_ENTITY" "entity_sound ENROLLMENT_ENTITY"
  by (simp_all add: entity_simps ATTENDANCE_ENTITY_def FEE_ENTITY_def EXAM_ENTITY_def ENROLLMENT_ENTITY_def)

lemmas entity_names = STUDENT_ENTITY_def FACULTY_ENTITY_def STAFF_ENTITY_def ADMISSION_ENTITY_def PROGRAM_ENTITY_def
  DEPARTMENT_ENTITY_def COURSE_ENTITY_def EVENT_ENTITY_def ATTENDANCE_ENTITY_def FEE_ENTITY_def EXAM_ENTITY_def ENROLLMENT_ENTITY_def

lemma canonical_names: "map fst CANONICAL_ENTITIES = [''student'', ''faculty'', ''staff'', ''program'', ''department'',
    ''course'', ''attendance'', ''fee'', ''exam'', ''enrollment'', ''admission'', ''event'']"
  by (simp add: CANONICAL_ENTITIES_def entity_names)

lemma canonical_tables: "map (\<lambda>(k, e). ce_table e) CANONICAL_ENTITIES = [''students'', ''faculty'', ''staff'', ''programs'',
    ''departments'', ''courses'', ''attendance'', ''fees'', ''exams'', ''enrollments'', ''admissions'', ''events'']"
  by (simp add: CANONICAL_ENTITIES_def entity_names)

lemma canonical_sound: "list_all (\<lambda>(k, e). entity_sound e) CANONICAL_ENTITIES"
  by (rule canonical_cases) (simp_all only: person_entities_sound academic_entities_sound figure_entities_sound)

lemma canonical_named:
  assumes "canonical_entity_named n = Inr e"
  shows "entity_sound e \<and> ce_name e = n"
proof -
  from assms have m: "(n, e) \<in> set CANONICAL_ENTITIES"
    by (auto simp: canonical_entity_named_def dict_get_def split: option.splits dest: map_of_SomeD)
  then have "ce_name e = n" by (auto simp: CANONICAL_ENTITIES_def)
  with m canonical_sound show ?thesis by (auto simp: list_all_iff)
qed

text \<open>The canonical data model is well formed: names and tables are distinct, every entity is
  accepted by its constructor with all its fields, and every natural key has a required part.
\<close>

theorem canonical_model_valid:
  "distinct (map fst CANONICAL_ENTITIES) \<and> distinct (map (\<lambda>(k, e). ce_table e) CANONICAL_ENTITIES)
   \<and> list_all (\<lambda>(k, e). ce_name e = k \<and> entity_sound e) CANONICAL_ENTITIES"
proof (intro conjI)
  show "distinct (map fst CANONICAL_ENTITIES)" unfolding canonical_names by simp
  show "distinct (map (\<lambda>(k, e). ce_table e) CANONICAL_ENTITIES)" unfolding canonical_tables by simp
  have "list_all (\<lambda>(k, e). ce_name e = k) CANONICAL_ENTITIES" by (simp add: CANONICAL_ENTITIES_def)
  with canonical_sound show "list_all (\<lambda>(k, e). ce_name e = k \<and> entity_sound e) CANONICAL_ENTITIES"
    by (auto simp: list_all_iff)
qed

end
