(* ===== verification/RecordChecks.thy ===== *)
theory RecordChecks
  imports FieldMapping
begin

text \<open>
  The checks of a cleaned record (\<^verbatim>\<open>normalization/validation.py\<close>) and the search for duplicates
  (\<^verbatim>\<open>normalization/deduplication.py\<close>). Conversions to numbers may raise, which every check
  passes on; the iteration over a set of blocks is written without its order, which the code
  sorts away. Records are of known entities.
\<close>

subsection \<open>Numbers in values\<close>

fun pf_le :: "py_float \<Rightarrow> py_float \<Rightarrow> bool" where
  "pf_le (Finite_float a) (Finite_float b) = (a \<le> b)"
| "pf_le Not_a_number _ = False"
| "pf_le _ Not_a_number = False"
| "pf_le (Infinite_float p) (Infinite_float q) = (q \<or> \<not> p)"
| "pf_le (Infinite_float p) (Finite_float b) = (\<not> p)"
| "pf_le (Finite_float a) (Infinite_float q) = q"

definition pf_less :: "py_float \<Rightarrow> py_float \<Rightarrow> bool" where
  "pf_less a b = (pf_le a b \<and> \<not> pf_le b a)"

definition float_of :: "agent_lib \<Rightarrow> pyval \<Rightarrow> py_float res" where
  "float_of L v = (case v of
      PInt i \<Rightarrow> if FLOAT_OVERFLOW \<le> \<bar>i\<bar> then Inl (OtherError ''int too large to convert to float'') else Inr (Finite_float (of_int i))
    | PFloat r \<Rightarrow> Inr (Finite_float r)
    | PBool b \<Rightarrow> Inr (Finite_float (if b then 1 else 0))
    | PStr s \<Rightarrow> (case al_float L s of Some f \<Rightarrow> Inr f | None \<Rightarrow> Inl (ValueError ''could not convert string to float''))
    | _ \<Rightarrow> Inl (TypeError ''float() argument must be a string or a real number''))"

definition int_of :: "pyval \<Rightarrow> int res" where
  "int_of v = (case v of
      PInt i \<Rightarrow> Inr i
    | PFloat r \<Rightarrow> Inr (if 0 \<le> r then \<lfloor>r\<rfloor> else \<lceil>r\<rceil>)
    | PBool b \<Rightarrow> Inr (if b then 1 else 0)
    | PStr s \<Rightarrow> (case py_int_of s of Some i \<Rightarrow> Inr i | None \<Rightarrow> Inl (ValueError ''invalid literal for int()''))
    | _ \<Rightarrow> Inl (TypeError ''int() argument must be a string or a real number''))"

definition empty_val :: "pyval \<Rightarrow> bool" where
  "empty_val v = (v = PNone \<or> v = PStr [])"

subsection \<open>Validation\<close>

definition issue :: "agent_lib \<Rightarrow> string \<Rightarrow> string \<Rightarrow> string \<Rightarrow> pyval \<Rightarrow> pyval dict \<Rightarrow> pyval" where
  "issue L f code severity v extra = PDict ([(''field'', PStr f), (''code'', PStr code), (''severity'', PStr severity)]
     @ (if v = PNone then [] else [(''value'', PStr (take 60 (py_str (al_repr L) v)))]) @ extra)"

definition latin_digit :: "char \<Rightarrow> bool" where
  "latin_digit c = (is_digit c \<or> (of_char c :: nat) \<in> {178, 179, 185})"

definition latin_alpha :: "char \<Rightarrow> bool" where
  "latin_alpha c = (let n = (of_char c :: nat) in is_alpha c \<or> n \<in> {170, 181, 186} \<or> (192 \<le> n \<and> n \<noteq> 215 \<and> n \<noteq> 247))"

definition shape_text :: "string \<Rightarrow> string" where
  "shape_text s = map (\<lambda>c. if latin_digit c then CHR ''9'' else if latin_alpha c then CHR ''A'' else c) s"

text \<open>\<^verbatim>\<open>Counter.most_common\<close>: by falling count, equal counts in order of first occurrence.\<close>

definition most_common :: "'a list \<Rightarrow> ('a \<times> nat) list" where
  "most_common xs = sort_key (\<lambda>(x, n). - int n) (map (\<lambda>x. (x, count_list xs x)) (keep_first xs))"

definition identifier_pattern :: "string list \<Rightarrow> string option" where
  "identifier_pattern values =
     (let shapes = map shape_text (filter (\<lambda>v. v \<noteq> []) values)
      in case most_common shapes of
           [] \<Rightarrow> None
         | (shape, n) # _ \<Rightarrow> if max 3 (length shapes div 2) \<le> n then Some shape else None)"

definition confusable :: "char \<Rightarrow> char" where
  "confusable c = (if c = CHR ''I'' \<or> c = CHR ''L'' then CHR ''1'' else if c = CHR ''O'' then CHR ''0''
     else if c = CHR ''S'' then CHR ''5'' else if c = CHR ''B'' then CHR ''8'' else if c = CHR ''Z'' then CHR ''2'' else c)"

definition ocr_letter :: "char \<Rightarrow> bool" where
  "ocr_letter c = (c \<in> set ''IOLSBZ'')"

text \<open>A letter of the six between digits, after a digit at the end, or before a digit at the start.\<close>

fun letter_in_digits :: "bool \<Rightarrow> bool \<Rightarrow> string \<Rightarrow> bool" where
  "letter_in_digits first after_digit [] = False"
| "letter_in_digits first after_digit (c # cs) =
     ((ocr_letter c \<and> (after_digit \<and> (cs = [] \<or> cs = [CHR 0x0A] \<or> is_digit (hd cs)) \<or> first \<and> cs \<noteq> [] \<and> is_digit (hd cs)))
      \<or> letter_in_digits False (is_digit c) cs)"

definition pattern_mismatch :: "char \<Rightarrow> char \<Rightarrow> bool" where
  "pattern_mismatch c x = (x = CHR ''9'' \<and> latin_alpha c)"

definition ocr_suspicion :: "agent_lib \<Rightarrow> string \<Rightarrow> string \<Rightarrow> string option \<Rightarrow> pyval option" where
  "ocr_suspicion L name s pattern =
     (let warn = (\<lambda>suggested. Some (issue L name ''possible_ocr_error'' ''warning'' (PStr s) [(''suggested'', PStr suggested)]))
      in case pattern of
           Some p \<Rightarrow>
             if p \<noteq> [] \<and> length s = length p
             then (let wrong = filter (\<lambda>(c, x). pattern_mismatch c x) (zip s p)
                   in if wrong \<noteq> [] \<and> list_all (\<lambda>(c, x). ocr_letter c) wrong
                      then warn (map (\<lambda>(c, x). if pattern_mismatch c x then confusable c else c) (zip s p)) else None)
             else if letter_in_digits True False s then warn (map confusable s) else None
         | None \<Rightarrow> if letter_in_digits True False s then warn (map confusable s) else None)"

definition id_char :: "char \<Rightarrow> bool" where
  "id_char c = (is_digit c \<or> (is_alpha c \<and> upper_char c = c))"

definition identifier_ok :: "string \<Rightarrow> bool" where
  "identifier_ok s = (2 \<le> length s \<and> length s \<le> 30 \<and> id_char (hd s)
     \<and> list_all (\<lambda>c. id_char c \<or> c \<in> {CHR ''/'', CHR ''_'', CHR ''-''}) (tl s))"

definition missing_issues :: "agent_lib \<Rightarrow> canonical_entity \<Rightarrow> pyval dict \<Rightarrow> pyval list" where
  "missing_issues L e d = map (\<lambda>n. issue L n ''missing_required'' ''error'' PNone [])
     (filter (\<lambda>n. empty_val (get_or_none d n)
        \<and> \<not> (n = ''name'' \<and> (truthy (get_or_none d ''first_name'') \<or> truthy (get_or_none d ''last_name'')))) (required_fields e))"

definition AMOUNT_FIELDS :: "string list" where
  "AMOUNT_FIELDS = [''amount_due'', ''amount_paid'', ''marks_obtained'', ''max_marks'', ''credits'']"

definition COUNT_FIELDS :: "string list" where
  "COUNT_FIELDS = [''classes_held'', ''classes_attended'', ''classes_absent'', ''intake'', ''admission_year'']"

definition field_issues :: "agent_lib \<Rightarrow> canonical_entity \<Rightarrow> bool \<Rightarrow> string option \<Rightarrow> canonical_field \<Rightarrow> pyval \<Rightarrow> pyval list res" where
  "field_issues L e ocr pattern f v =
     (let n = cf_name f; s = py_str (al_repr L) v; iss = (\<lambda>code severity. issue L n code severity v [])
      in case cf_type f of
           T_IDENTIFIER \<Rightarrow> Inr ((if identifier_ok s then [] else [iss ''invalid_identifier'' ''warning''])
             @ (if ocr \<or> (pattern \<noteq> None \<and> pattern \<noteq> Some [] \<and> n \<in> set (ce_natural_key e))
                then (case ocr_suspicion L n s pattern of Some w \<Rightarrow> [w] | None \<Rightarrow> []) else []))
         | T_PHONE \<Rightarrow> Inr (let k = length (filter is_digit s) in if 7 \<le> k \<and> k \<le> 15 then [] else [iss ''invalid_phone'' ''warning''])
         | T_EMAIL \<Rightarrow> Inr (if email_like s then [] else [iss ''invalid_email'' ''warning''])
         | T_PERCENT \<Rightarrow> bindE (float_of L v) (\<lambda>x. Inr (if pf_le (Finite_float 0) x \<and> pf_le x (Finite_float 100) then []
               else [iss ''percent_out_of_range'' ''error'']))
         | T_NUMBER \<Rightarrow> if n \<in> set AMOUNT_FIELDS
             then bindE (float_of L v) (\<lambda>x. Inr (if pf_less x (Finite_float 0) then [iss ''negative_amount'' ''error''] else []))
             else Inr []
         | T_INTEGER \<Rightarrow> if n \<in> set COUNT_FIELDS
             then bindE (int_of v) (\<lambda>x. Inr ((if x < 0 then [iss ''negative_count'' ''error''] else [])
               @ (if n = ''admission_year'' \<and> \<not> (1900 \<le> x \<and> x \<le> 2100) then [iss ''year_out_of_range'' ''warning''] else [])))
             else Inr []
         | _ \<Rightarrow> Inr [])"

text \<open>The checks that compare columns; each conversion may raise.\<close>

definition attendance_issues :: "agent_lib \<Rightarrow> pyval dict \<Rightarrow> pyval list res" where
  "attendance_issues L d =
     (let held = get_or_none d ''classes_held''; attended = get_or_none d ''classes_attended'';
          unknown = (if get_or_none d ''attendance_percent'' = PNone \<and> (held = PNone \<or> equals_zero held \<or> attended = PNone)
            then [issue L ''attendance_percent'' ''attendance_unknown'' ''warning'' PNone []] else [])
      in if held \<noteq> PNone \<and> attended \<noteq> PNone
         then bindE (int_of attended) (\<lambda>a. bindE (int_of held) (\<lambda>h.
            Inr ((if h < a then [issue L ''classes_attended'' ''attended_exceeds_held'' ''error'' attended [(''classes_held'', held)]] else [])
              @ unknown)))
         else Inr unknown)"

definition exam_issues :: "agent_lib \<Rightarrow> pyval dict \<Rightarrow> pyval list res" where
  "exam_issues L d =
     (let marks = get_or_none d ''marks_obtained''; most = get_or_none d ''max_marks''
      in if marks \<noteq> PNone \<and> most \<noteq> PNone
         then bindE (float_of L marks) (\<lambda>m. bindE (float_of L most) (\<lambda>x.
            Inr (if pf_less x m then [issue L ''marks_obtained'' ''marks_exceed_maximum'' ''error'' marks [(''max_marks'', most)]] else [])))
         else Inr [])"

fun pf_scale :: "rat \<Rightarrow> py_float \<Rightarrow> py_float" where
  "pf_scale k (Finite_float a) = Finite_float (k * a)"
| "pf_scale k x = x"

definition fee_issues :: "agent_lib \<Rightarrow> pyval dict \<Rightarrow> pyval list res" where
  "fee_issues L d =
     (let due = get_or_none d ''amount_due''; paid = get_or_none d ''amount_paid''
      in if due \<noteq> PNone \<and> paid \<noteq> PNone
         then bindE (float_of L paid) (\<lambda>p. bindE (float_of L due) (\<lambda>a.
            Inr (if pf_less (pf_scale (15 / 10) a) p \<and> pf_less (Finite_float 0) a
              then [issue L ''amount_paid'' ''paid_far_exceeds_due'' ''warning'' paid [(''amount_due'', due)]] else [])))
         else Inr [])"

definition cross_field_issues :: "agent_lib \<Rightarrow> canonical_entity \<Rightarrow> pyval dict \<Rightarrow> pyval list res" where
  "cross_field_issues L e d =
     (if ce_name e = ''attendance'' then attendance_issues L d
      else if ce_name e = ''exam'' then exam_issues L d
      else if ce_name e = ''fee'' then fee_issues L d else Inr [])"

definition ocr_issues :: "agent_lib \<Rightarrow> bool \<Rightarrow> pyval \<Rightarrow> pyval list res" where
  "ocr_issues L ocr conf =
     (if \<not> ocr then Inr []
      else if conf = PNone then Inr [issue L ''*'' ''ocr_source_verify'' ''info'' PNone []]
      else bindE (float_of L conf) (\<lambda>c. Inr (if pf_less c (Finite_float (75 / 100))
        then [issue L ''*'' ''low_ocr_confidence'' ''warning'' conf []] else [issue L ''*'' ''ocr_source_verify'' ''info'' PNone []])))"

definition validate_record :: "agent_lib \<Rightarrow> canonical_entity \<Rightarrow> pyval dict \<Rightarrow> bool \<Rightarrow> pyval \<Rightarrow> string option \<Rightarrow> pyval list res" where
  "validate_record L e d ocr conf pattern =
     bindE (mapE (\<lambda>f. let v = get_or_none d (cf_name f) in if empty_val v then Inr [] else field_issues L e ocr pattern f v) (ce_fields e)) (\<lambda>per_field.
     bindE (cross_field_issues L e d) (\<lambda>cross.
     bindE (ocr_issues L ocr conf) (\<lambda>scan.
       Inr (missing_issues L e d @ concat per_field @ cross @ scan))))"

definition summarize_issues :: "agent_lib \<Rightarrow> pyval list list \<Rightarrow> pyval dict" where
  "summarize_issues L rows =
     (let str = py_str (al_repr L);
          codes = map (\<lambda>i. str (issue_get i ''field'') @ '':'' @ str (issue_get i ''code'')) (concat rows);
          severities = map (\<lambda>i. str (issue_get i ''severity'')) (concat rows)
      in [(''rows_with_errors'', PInt (int (length (filter (list_ex is_error) rows)))),
          (''by_code'', PDict (map (\<lambda>(c, n). (c, PInt (int n))) (take 30 (most_common codes)))),
          (''by_severity'', PDict (map (\<lambda>c. (c, PInt (int (count_list severities c)))) (keep_first severities)))])"

text \<open>A record without blocking issues holds every required field, or a part of the name for the name.\<close>

lemma missing_blocks:
  assumes "validate_record L e d ocr conf pattern = Inr issues" "\<not> list_ex is_error issues" "n \<in> set (required_fields e)"
  shows "\<not> empty_val (get_or_none d n)
    \<or> n = ''name'' \<and> (truthy (get_or_none d ''first_name'') \<or> truthy (get_or_none d ''last_name''))"
proof (rule ccontr)
  assume "\<not> ?thesis"
  with assms(3) have "issue L n ''missing_required'' ''error'' PNone [] \<in> set (missing_issues L e d)"
    by (auto simp: missing_issues_def)
  moreover have "set (missing_issues L e d) \<subseteq> set issues"
    using assms(1) by (auto simp: validate_record_def bindE_eq_Inr)
  moreover have "is_error (issue L n ''missing_required'' ''error'' PNone [])"
    by (simp add: is_error_def issue_get_def issue_def get_or_none_def dict_get_def)
  ultimately show False using assms(2) by (auto simp: list_ex_iff)
qed

subsection \<open>Duplicates by key\<close>

definition NAME_SIMILARITY_THRESHOLD :: rat where "NAME_SIMILARITY_THRESHOLD = 9 / 10"
definition MAX_BLOCK_SIZE :: nat where "MAX_BLOCK_SIZE = 200"
definition MAX_PAIRWISE_ROWS :: nat where "MAX_PAIRWISE_ROWS = 5000"
definition PERSON_FIELDS :: "string list" where
  "PERSON_FIELDS = [''name'', ''date_of_birth'', ''phone'', ''email'', ''guardian_phone'', ''program'', ''admission_year'']"
definition CORROBORATING_FIELDS :: "string list" where
  "CORROBORATING_FIELDS = [''date_of_birth'', ''phone'', ''email'', ''guardian_phone'']"
definition CONTEXT_FIELDS :: "string list" where "CONTEXT_FIELDS = [''program'', ''admission_year'']"
definition PERSON_ENTITIES :: "string list" where
  "PERSON_ENTITIES = [''student'', ''faculty'', ''staff'', ''admission'']"

record candidate =
  cd_kind :: string
  cd_left :: string
  cd_right :: "string option"
  cd_key :: "string option"
  cd_score :: rat
  cd_evidence :: "pyval dict"

definition candidate_as_dict :: "agent_lib \<Rightarrow> candidate \<Rightarrow> pyval dict" where
  "candidate_as_dict L c = [(''kind'', PStr (cd_kind c)), (''left_locator'', PStr (cd_left c)), (''right_locator'', opt_str (cd_right c)),
     (''record_key'', opt_str (cd_key c)), (''score'', PFloat (al_round3 L (cd_score c))), (''evidence'', PDict (cd_evidence c))]"

text \<open>What the search needs of a record: its key, its digest, its locator and its fields.\<close>

record dup_row =
  du_key :: string
  du_hash :: string
  du_locator :: "string option"
  du_fields :: "pyval dict"

definition locator_of :: "nat \<Rightarrow> dup_row \<Rightarrow> string" where
  "locator_of i r = (case du_locator r of Some s \<Rightarrow> if s \<noteq> [] then s else ''row='' @ nat_digits (i + 1) | None \<Rightarrow> ''row='' @ nat_digits (i + 1))"

definition differing_fields :: "dup_row \<Rightarrow> dup_row \<Rightarrow> string list" where
  "differing_fields a b = sort (filter (\<lambda>n. get_or_none (du_fields a) n \<noteq> get_or_none (du_fields b) n)
     (remdups (dict_keys (du_fields a) @ dict_keys (du_fields b))))"

text \<open>One row against the first rows of the keys seen so far.\<close>

definition key_step :: "string list \<Rightarrow> dup_row list \<Rightarrow> nat \<Rightarrow> (string \<times> nat) list \<Rightarrow> candidate list \<times> string \<times> (string \<times> nat) list" where
  "key_step known rows i firsts =
     (let r = rows ! i; loc = locator_of i r
      in if no_key (du_key r) then ([], ''missing_key'', firsts)
         else case map_of firsts (du_key r) of
             Some j \<Rightarrow>
               (let other = rows ! j in
                if du_hash other = du_hash r
                then ([\<lparr>cd_kind = ''exact_key'', cd_left = loc, cd_right = du_locator other, cd_key = Some (du_key r), cd_score = 1,
                        cd_evidence = [(''identical'', PBool True)]\<rparr>], ''duplicate_in_batch'', firsts)
                else ([\<lparr>cd_kind = ''conflicting_key'', cd_left = loc, cd_right = du_locator other, cd_key = Some (du_key r), cd_score = 95 / 100,
                        cd_evidence = [(''differing_fields'', PList (map PStr (take 20 (differing_fields r other))))]\<rparr>],
                      ''conflict_in_batch'', firsts))
           | None \<Rightarrow> ([], if du_key r \<in> set known then ''update'' else ''insert'', firsts @ [(du_key r, i)]))"

fun key_pass :: "string list \<Rightarrow> dup_row list \<Rightarrow> nat list \<Rightarrow> (string \<times> nat) list \<Rightarrow> candidate list \<times> (nat \<times> string) list \<times> (string \<times> nat) list" where
  "key_pass known rows [] firsts = ([], [], firsts)"
| "key_pass known rows (i # is) firsts =
     (case key_step known rows i firsts of (cs, a, firsts') \<Rightarrow>
        (case key_pass known rows is firsts' of (ds, acts, out) \<Rightarrow> (cs @ ds, (i, a) # acts, out)))"

subsection \<open>Probable people\<close>

definition norm_val :: "agent_lib \<Rightarrow> pyval \<Rightarrow> string" where
  "norm_val L v = (if empty_val v then [] else py_lower (py_strip (py_str (al_repr L) v)))"

definition name_similarity :: "map_lib \<Rightarrow> pyval \<Rightarrow> pyval \<Rightarrow> rat" where
  "name_similarity M a b = (if \<not> truthy a \<or> \<not> truthy b then 0
     else ml_ratio M (py_lower (py_str (al_repr (ml_lib M)) a)) (py_lower (py_str (al_repr (ml_lib M)) b)))"

definition same_field :: "agent_lib \<Rightarrow> pyval dict \<Rightarrow> pyval dict \<Rightarrow> string \<Rightarrow> bool" where
  "same_field L a b k = (truthy (get_or_none a k) \<and> truthy (get_or_none b k) \<and> norm_val L (get_or_none a k) = norm_val L (get_or_none b k))"

definition field_block :: "agent_lib \<Rightarrow> pyval dict \<Rightarrow> string \<Rightarrow> string" where
  "field_block L d k = k @ '':'' @ norm_val L (get_or_none d k)"

definition person_signals :: "map_lib \<Rightarrow> pyval dict \<Rightarrow> pyval dict \<Rightarrow> string list \<Rightarrow> rat \<times> pyval dict" where
  "person_signals M a b ignored =
     (let L = ml_lib M; same = filter (\<lambda>k. same_field L a b k \<and> field_block L a k \<notin> set ignored) CORROBORATING_FIELDS;
          hits = map (\<lambda>k. (k, PStr ''match'')) same; score = name_similarity M (get_or_none a ''name'') (get_or_none b ''name'')
      in if same = [] then (0, [])
         else if score < NAME_SIMILARITY_THRESHOLD then (0, hits @ [(''name_similarity'', PFloat (al_round3 L score))])
         else (min 1 (score + 1 / 10 * of_nat (length same)),
               hits @ [(''name_similarity'', PFloat (al_round3 L score))] @ map (\<lambda>k. (k, PStr ''match'')) (filter (same_field L a b) CONTEXT_FIELDS)))"

definition block_keys :: "agent_lib \<Rightarrow> pyval dict \<Rightarrow> string list" where
  "block_keys L d =
     map (field_block L d) (filter (\<lambda>k. norm_val L (get_or_none d k) \<noteq> []) CORROBORATING_FIELDS)
     @ (let ws = split_ws (norm_val L (get_or_none d ''name'')) in if ws = [] then [] else [''name:'' @ hd ws @ ''|'' @ last ws])"

definition person_view :: "pyval dict \<Rightarrow> pyval dict" where
  "person_view d = map (\<lambda>k. (k, get_or_none d k)) PERSON_FIELDS"

definition share_block :: "agent_lib \<Rightarrow> string list \<Rightarrow> pyval dict \<Rightarrow> pyval dict \<Rightarrow> bool" where
  "share_block L ignored a b = list_ex (\<lambda>k. k \<notin> set ignored \<and> k \<in> set (block_keys L b)) (block_keys L a)"

definition oversized :: "agent_lib \<Rightarrow> pyval dict list \<Rightarrow> string list" where
  "oversized L views = (let all = concat (map (remdups \<circ> block_keys L) views)
     in filter (\<lambda>b. MAX_BLOCK_SIZE < count_list all b) (keep_first all))"

definition scored :: "map_lib \<Rightarrow> string list \<Rightarrow> pyval dict \<Rightarrow> ('k \<times> pyval dict) list \<Rightarrow> ('k \<times> rat \<times> pyval dict) list" where
  "scored M ignored view others = filter (\<lambda>(k, s, ev). NAME_SIMILARITY_THRESHOLD \<le> s)
     (map (\<lambda>(k, w). (k, person_signals M view w ignored)) (filter (\<lambda>(k, w). share_block (ml_lib M) ignored view w) others))"

definition probable :: "string \<Rightarrow> string option \<Rightarrow> string \<Rightarrow> rat \<Rightarrow> pyval dict \<Rightarrow> candidate" where
  "probable loc right key s ev = \<lparr>cd_kind = ''probable_person'', cd_left = loc, cd_right = right, cd_key = Some key, cd_score = s, cd_evidence = ev\<rparr>"

text \<open>
  The questions about one row: later rows of the batch in order, then existing records by key.
  A row that updates a record is compared with neither an existing record nor another update.
\<close>

definition people_of :: "map_lib \<Rightarrow> dup_row list \<Rightarrow> nat list \<Rightarrow> (string \<times> pyval dict) list \<Rightarrow> string list \<Rightarrow> bool \<Rightarrow> nat \<Rightarrow> candidate list" where
  "people_of M rows keyed existing ignored batch i =
     (let r = rows ! i; view = person_view (du_fields r); known = map fst existing; updates = du_key r \<in> set known;
          later = (if batch then filter (\<lambda>j. i < j \<and> \<not> (updates \<and> du_key (rows ! j) \<in> set known)) keyed else []);
          mates = scored M ignored view (map (\<lambda>j. (j, person_view (du_fields (rows ! j)))) later);
          others = (if updates then [] else filter (\<lambda>(k, d). k \<noteq> du_key r) existing);
          hits = scored M ignored view (map (\<lambda>(k, d). (k, person_view d)) (sort_key fst others))
      in map (\<lambda>(j, s, ev). probable (locator_of i r) (du_locator (rows ! j)) (du_key (rows ! j)) s ev) mates
         @ map (\<lambda>(k, s, ev). probable (locator_of i r) None k s (dict_set ev ''existing_record_key'' (PStr k))) hits)"

definition probable_people :: "map_lib \<Rightarrow> dup_row list \<Rightarrow> nat list \<Rightarrow> (string \<times> pyval dict) list \<Rightarrow> candidate list \<times> string list" where
  "probable_people M rows keyed existing =
     (let batch = length keyed \<le> MAX_PAIRWISE_ROWS;
          views = (if batch then map (\<lambda>i. person_view (du_fields (rows ! i))) keyed else []) @ map (\<lambda>(k, d). person_view d) existing;
          ignored = oversized (ml_lib M) views;
          skipped = (if batch then [] else [''probable_person_check_skipped_in_batch: '' @ nat_digits (length keyed) @ '' rows exceed the ''
            @ nat_digits MAX_PAIRWISE_ROWS @ '' row limit; rows were still checked against existing records'']);
          shared = (if ignored = [] then [] else [''shared_values_ignored: ''
            @ py_join '', '' (sort (remdups (map (\<lambda>b. takeWhile (\<lambda>c. c \<noteq> CHR '':'') b) ignored))) @ '' values shared by more than ''
            @ nat_digits MAX_BLOCK_SIZE @ '' people were not used for matching''])
      in (concat (map (people_of M rows keyed existing ignored batch) keyed), skipped @ shared))"

definition find_duplicates :: "map_lib \<Rightarrow> string \<Rightarrow> dup_row list \<Rightarrow> (string \<times> pyval dict) list \<Rightarrow> candidate list \<times> (nat \<times> string) list \<times> string list" where
  "find_duplicates M entity rows existing =
     (case key_pass (map fst existing) rows [0..<length rows] [] of (cs, acts, firsts) \<Rightarrow>
        if rows \<noteq> [] \<and> entity \<in> set PERSON_ENTITIES
        then (case probable_people M rows (map snd firsts) existing of (ps, warnings) \<Rightarrow> (cs @ ps, acts, warnings))
        else (cs, acts, []))"

definition dup_row_of :: "(pyval \<Rightarrow> string) \<Rightarrow> (pyval \<Rightarrow> string) \<Rightarrow> canonical_record \<Rightarrow> dup_row res" where
  "dup_row_of rep hash r = bindE (record_key rep r) (\<lambda>k.
     Inr \<lparr>du_key = k, du_hash = content_hash hash r, du_locator = ln_locator (cr_lineage r), du_fields = cr_fields r\<rparr>)"

subsection \<open>What the search promises\<close>

definition first_of_key :: "dup_row list \<Rightarrow> nat \<Rightarrow> bool" where
  "first_of_key rows i = (\<forall>j < i. du_key (rows ! j) \<noteq> du_key (rows ! i))"

definition firsts_ok :: "dup_row list \<Rightarrow> nat \<Rightarrow> (string \<times> nat) list \<Rightarrow> bool" where
  "firsts_ok rows k firsts = (\<forall>key j. map_of firsts key = Some j \<longleftrightarrow>
     j < k \<and> key = du_key (rows ! j) \<and> \<not> no_key key \<and> first_of_key rows j)"

text \<open>The action of a row, by what came before it.\<close>

definition action_fits :: "string list \<Rightarrow> dup_row list \<Rightarrow> candidate list \<Rightarrow> nat \<Rightarrow> string \<Rightarrow> bool" where
  "action_fits known rows cs i a =
     (let k = du_key (rows ! i)
      in if no_key k then a = ''missing_key''
         else if first_of_key rows i then a = (if k \<in> set known then ''update'' else ''insert'')
         else a = ''duplicate_in_batch'' \<or> a = ''conflict_in_batch'' \<and> (\<exists>c \<in> set cs. cd_kind c = ''conflicting_key'' \<and> cd_left c = locator_of i (rows ! i)))"

lemma action_fits_mono: "action_fits known rows cs i a \<Longrightarrow> set cs \<subseteq> set ds \<Longrightarrow> action_fits known rows ds i a"
  by (auto simp: action_fits_def Let_def split: if_splits)

lemma first_exists: "\<exists>j \<le> i. du_key (rows ! j) = du_key (rows ! i) \<and> first_of_key rows j"
proof (induction i rule: less_induct)
  case (less i)
  show ?case
  proof (cases "first_of_key rows i")
    case False
    then obtain l where l: "l < i" "du_key (rows ! l) = du_key (rows ! i)" by (auto simp: first_of_key_def)
    with less[OF l(1)] show ?thesis by (metis less_imp_le order_trans)
  qed auto
qed

lemma key_step_ok:
  assumes F: "firsts_ok rows i firsts" and s: "key_step known rows i firsts = (cs, a, firsts')"
  shows "firsts_ok rows (Suc i) firsts' \<and> action_fits known rows cs i a"
proof (cases "no_key (du_key (rows ! i))")
  case True
  with s have "firsts' = firsts" "a = ''missing_key''" by (auto simp: key_step_def Let_def)
  with F True show ?thesis by (auto simp: firsts_ok_def action_fits_def less_Suc_eq)
next
  case False
  note nk = this
  show ?thesis
  proof (cases "map_of firsts (du_key (rows ! i))")
    case None
    have first: "first_of_key rows i"
    proof -
      from first_exists[of i rows] obtain j where j: "j \<le> i" "du_key (rows ! j) = du_key (rows ! i)" "first_of_key rows j" by blast
      have "\<not> j < i" using F None nk j unfolding firsts_ok_def by (metis option.distinct(1))
      with j show ?thesis by simp
    qed
    from s nk None have e: "firsts' = firsts @ [(du_key (rows ! i), i)]" "a = (if du_key (rows ! i) \<in> set known then ''update'' else ''insert'')"
      by (auto simp: key_step_def Let_def)
    have "map_of firsts' key = Some j \<longleftrightarrow> j < Suc i \<and> key = du_key (rows ! j) \<and> \<not> no_key key \<and> first_of_key rows j" for key j
    proof (cases "key = du_key (rows ! i)")
      case True
      with None have "map_of firsts' key = Some i" by (simp add: e map_add_def)
      moreover have "j = i" if "j < Suc i" "key = du_key (rows ! j)" "first_of_key rows j"
        using that first True by (metis first_of_key_def less_Suc_eq)
      ultimately show ?thesis using True nk first by auto
    next
      case False
      then have "map_of firsts' key = map_of firsts key" by (auto simp: e map_add_def split: option.splits)
      with F False show ?thesis by (auto simp: firsts_ok_def less_Suc_eq)
    qed
    with first nk e show ?thesis by (simp add: firsts_ok_def action_fits_def)
  next
    case (Some j)
    with F have j: "j < i" "du_key (rows ! j) = du_key (rows ! i)" unfolding firsts_ok_def by auto
    then have nf: "\<not> first_of_key rows i" by (auto simp: first_of_key_def)
    from s nk Some have "firsts' = firsts" by (auto simp: key_step_def Let_def split: if_splits)
    with F nf have "firsts_ok rows (Suc i) firsts'" by (auto simp: firsts_ok_def less_Suc_eq)
    moreover have "action_fits known rows cs i a"
      using s nk Some nf by (auto simp: key_step_def Let_def action_fits_def split: if_splits)
    ultimately show ?thesis ..
  qed
qed

lemma key_pass_ok:
  "firsts_ok rows k firsts \<Longrightarrow> key_pass known rows [k..<k + m] firsts = (cs, acts, out)
   \<Longrightarrow> map fst acts = [k..<k + m] \<and> firsts_ok rows (k + m) out \<and> (\<forall>(i, a) \<in> set acts. action_fits known rows cs i a)"
proof (induction m arbitrary: k firsts cs acts out)
  case 0
  then show ?case by simp
next
  case (Suc m)
  obtain c a firsts' where s: "key_step known rows k firsts = (c, a, firsts')" by (cases "key_step known rows k firsts") auto
  obtain ds as out' where p: "key_pass known rows [Suc k..<Suc k + m] firsts' = (ds, as, out')"
    by (cases "key_pass known rows [Suc k..<Suc k + m] firsts'") auto
  have u: "[k..<k + Suc m] = k # [Suc k..<Suc k + m]" by (simp add: upt_conv_Cons)
  from Suc.prems(2)[unfolded u] s p have e: "cs = c @ ds" "acts = (k, a) # as" "out = out'"
    by (simp_all del: upt_Suc)
  from key_step_ok[OF Suc.prems(1) s] have k: "firsts_ok rows (Suc k) firsts'" "action_fits known rows c k a" by auto
  from Suc.IH[OF k(1) p] have IH: "map fst as = [Suc k..<Suc k + m]" "firsts_ok rows (Suc k + m) out'"
    "\<forall>(i, a) \<in> set as. action_fits known rows ds i a" by auto
  have "action_fits known rows cs k a" using k(2) by (rule action_fits_mono) (simp add: e)
  moreover have "\<forall>(i, a) \<in> set as. action_fits known rows cs i a"
    using IH(3) action_fits_mono[of known rows ds _ _ cs] by (auto simp: e)
  moreover have "map fst acts = [k..<k + Suc m]" unfolding u by (simp add: e IH(1) del: upt_Suc)
  ultimately show ?case using IH(2) by (simp add: e del: upt_Suc)
qed

lemma find_duplicates_actions:
  assumes "find_duplicates M entity rows existing = (cs, acts, ws)"
  shows "map fst acts = [0..<length rows] \<and> (\<forall>(i, a) \<in> set acts. action_fits (map fst existing) rows cs i a)"
proof -
  obtain ks as firsts where p: "key_pass (map fst existing) rows [0..<length rows] [] = (ks, as, firsts)"
    by (cases "key_pass (map fst existing) rows [0..<length rows] []") auto
  have "firsts_ok rows 0 []" by (simp add: firsts_ok_def)
  from key_pass_ok[OF this, of "map fst existing" "length rows"] p
  have k: "map fst as = [0..<length rows]" "\<forall>(i, a) \<in> set as. action_fits (map fst existing) rows ks i a" by auto
  from assms p have "acts = as" "set ks \<subseteq> set cs" by (auto simp: find_duplicates_def split: if_splits prod.splits)
  with k action_fits_mono[of "map fst existing" rows ks _ _ cs] show ?thesis by fastforce
qed

lemma key_pass_out: "key_pass known rows is firsts = (cs, acts, out) \<Longrightarrow> snd ` set out \<subseteq> snd ` set firsts \<union> set is"
proof (induction "is" arbitrary: firsts cs acts out)
  case Nil
  then show ?case by simp
next
  case (Cons i "is")
  obtain d a firsts' where s: "key_step known rows i firsts = (d, a, firsts')" by (cases "key_step known rows i firsts") auto
  obtain ds as out' where p: "key_pass known rows is firsts' = (ds, as, out')" by (cases "key_pass known rows is firsts'") auto
  have "snd ` set firsts' \<subseteq> insert i (snd ` set firsts)"
    using s by (auto simp: key_step_def Let_def split: if_splits option.splits)
  with Cons.IH[OF p] Cons.prems s p show ?case by auto
qed

lemma key_pass_kind:
  "key_pass known rows is firsts = (cs, acts, out) \<Longrightarrow> c \<in> set cs \<Longrightarrow> cd_kind c \<in> {''exact_key'', ''conflicting_key''}"
proof (induction "is" arbitrary: firsts cs acts out)
  case Nil
  then show ?case by simp
next
  case (Cons i "is")
  obtain d a firsts' where s: "key_step known rows i firsts = (d, a, firsts')" by (cases "key_step known rows i firsts") auto
  obtain ds as out' where p: "key_pass known rows is firsts' = (ds, as, out')" by (cases "key_pass known rows is firsts'") auto
  have "c \<in> set d \<Longrightarrow> cd_kind c \<in> {''exact_key'', ''conflicting_key''}"
    using s by (auto simp: key_step_def Let_def split: if_splits option.splits)
  with Cons.prems s p Cons.IH[OF p] show ?case by auto
qed

text \<open>A question that compares a row with a stored person is never about a row that updates a record.\<close>

lemma people_no_update:
  assumes "c \<in> set (people_of M rows keyed existing ignored batch i)" "du_key (rows ! i) \<in> fst ` set existing"
  shows "\<exists>j \<in> set keyed. i < j \<and> cd_right c = du_locator (rows ! j) \<and> du_key (rows ! j) \<notin> fst ` set existing"
  using assms by (auto simp: people_of_def Let_def scored_def probable_def)

lemma probable_people_from:
  assumes "c \<in> set (fst (probable_people M rows keyed existing))"
  shows "\<exists>ignored batch. \<exists>k \<in> set keyed. c \<in> set (people_of M rows keyed existing ignored batch k)"
proof -
  from assms have "c \<in> \<Union> (set ` people_of M rows keyed existing
      (oversized (ml_lib M) ((if length keyed \<le> MAX_PAIRWISE_ROWS then map (\<lambda>i. person_view (du_fields (rows ! i))) keyed else [])
        @ map (\<lambda>(k, d). person_view d) existing)) (length keyed \<le> MAX_PAIRWISE_ROWS) ` set keyed)"
    unfolding probable_people_def Let_def fst_conv set_concat set_map .
  then show ?thesis by blast
qed

lemma people_left: "c \<in> set (people_of M rows keyed existing ignored batch i) \<Longrightarrow> cd_left c = locator_of i (rows ! i)"
  by (auto simp: people_of_def Let_def probable_def)


definition dup_example :: "dup_row list" where
  "dup_example = [\<lparr>du_key = ''k1'', du_hash = ''x'', du_locator = Some ''row=7'', du_fields = []\<rparr>,
     \<lparr>du_key = ''k1'', du_hash = ''y'', du_locator = Some ''row=8'', du_fields = []\<rparr>]"

lemma dup_example_result:
  "find_duplicates wit_lib ''course'' dup_example [(''k1'', [])]
   = ([\<lparr>cd_kind = ''conflicting_key'', cd_left = ''row=8'', cd_right = Some ''row=7'', cd_key = Some ''k1'', cd_score = 95 / 100,
        cd_evidence = [(''differing_fields'', PList [])]\<rparr>], [(0, ''update''), (1, ''conflict_in_batch'')], [])"
  by (simp add: find_duplicates_def dup_example_def key_step_def Let_def no_key_def locator_of_def differing_fields_def dict_keys_def
      PERSON_ENTITIES_def upt_rec)


end
