(* ===== verification/Sheets.thy ===== *)
theory Sheets
  imports RecordChecks "HOL-Library.Multiset"
begin

text \<open>
  What a parser hands over (\<^verbatim>\<open>ingestion/models.py\<close>) and how the ingestion service chooses and
  merges the sheets of a workbook (the pure functions of \<^verbatim>\<open>ingestion/service.py\<close> up to
  \<^verbatim>\<open>_select_tables\<close>). A set of column names is the sorted list of its members.
\<close>

subsection \<open>Parsed files\<close>

record source_row =
  sr_source_file :: string
  sr_locator :: string
  sr_row_number :: int
  sr_fields :: "pyval dict"
  sr_sheet :: "string option"
  sr_page :: "int option"
  sr_ocr :: bool
  sr_ocr_confidence :: pyval

definition source_row_as_dict :: "source_row \<Rightarrow> pyval dict" where
  "source_row_as_dict r = [(''source_file'', PStr (sr_source_file r)), (''sheet'', opt_str (sr_sheet r)),
     (''page'', case sr_page r of None \<Rightarrow> PNone | Some n \<Rightarrow> PInt n), (''row_number'', PInt (sr_row_number r)),
     (''locator'', PStr (sr_locator r)), (''ocr'', PBool (sr_ocr r)), (''ocr_confidence'', sr_ocr_confidence r),
     (''fields'', PDict (sr_fields r))]"

record parsed_table =
  pt_name :: string
  pt_headers :: "string list"
  pt_records :: "source_row list"
  pt_warnings :: "string list"
  pt_ocr :: bool

definition row_count :: "parsed_table \<Rightarrow> nat" where
  "row_count t = length (pt_records t)"

record parse_result =
  pr_file_name :: string
  pr_file_kind :: string
  pr_tables :: "parsed_table list"
  pr_texts :: "string list"
  pr_warnings :: "string list"
  pr_page_count :: int
  pr_metadata :: "pyval dict"

definition total_rows :: "parse_result \<Rightarrow> nat" where
  "total_rows r = sum_list (map row_count (pr_tables r))"

text \<open>\<^verbatim>\<open>max\<close> by row count, then by number of headers: the first of the largest.\<close>

fun largest_of :: "parsed_table \<Rightarrow> parsed_table list \<Rightarrow> parsed_table" where
  "largest_of best [] = best"
| "largest_of best (t # ts) = largest_of
     (if row_count best < row_count t \<or> row_count best = row_count t \<and> length (pt_headers best) < length (pt_headers t) then t else best) ts"

definition largest_table :: "parse_result \<Rightarrow> parsed_table option" where
  "largest_table r = (case pr_tables r of [] \<Rightarrow> None | t # ts \<Rightarrow> Some (largest_of t ts))"

definition full_text :: "parse_result \<Rightarrow> string" where
  "full_text r = py_join [CHR 0x0A, CHR 0x0A] (filter (\<lambda>t. \<not> blank t) (pr_texts r))"

definition parse_result_as_dict :: "parse_result \<Rightarrow> pyval dict" where
  "parse_result_as_dict r = [(''file_name'', PStr (pr_file_name r)), (''file_kind'', PStr (pr_file_kind r)),
     (''page_count'', PInt (pr_page_count r)),
     (''tables'', PList (map (\<lambda>t. PDict [(''name'', PStr (pt_name t)), (''headers'', PList (map PStr (pt_headers t))),
        (''rows'', PInt (int (row_count t))), (''warnings'', PList (map PStr (pt_warnings t))), (''ocr'', PBool (pt_ocr t))]) (pr_tables r))),
     (''text_sections'', PInt (int (length (pr_texts r)))), (''warnings'', PList (map PStr (pr_warnings r))),
     (''metadata'', PDict (pr_metadata r))]"

subsection \<open>Cells and headers\<close>

definition WORKBOOK_KINDS :: "string list" where "WORKBOOK_KINDS = [''xlsx'', ''xls'']"

definition SERIAL_HEADERS :: "string list" where
  "SERIAL_HEADERS = [''sl'', ''sl no'', ''s no'', ''sr no'', ''si no'', ''sno'', ''slno'', ''srno'', ''serial no'', ''serial number'', ''no'', ''#'']"

definition wide_row :: "string \<Rightarrow> string option" where
  "wide_row loc = (let cuts = filter (\<lambda>n. prefix '';col='' (drop n loc)) [0..<length loc]
     in if cuts = [] then None else Some (take (last cuts) loc))"

definition filled :: "agent_lib \<Rightarrow> pyval \<Rightarrow> bool" where
  "filled L v = (v \<noteq> PNone \<and> \<not> blank (py_str (al_repr L) v))"

text \<open>A running count: whole numbers, each one more than the one before.\<close>

definition whole :: "py_float \<Rightarrow> int option" where
  "whole f = (case f of Finite_float r \<Rightarrow> (if of_int \<lfloor>r\<rfloor> = r then Some \<lfloor>r\<rfloor> else None) | _ \<Rightarrow> None)"

fun running :: "int option list \<Rightarrow> bool" where
  "running [] = True"
| "running [x] = (x \<noteq> None)"
| "running (x # y # xs) = ((case x of Some a \<Rightarrow> y = Some (a + 1) | None \<Rightarrow> False) \<and> running (y # xs))"

definition cell_number :: "agent_lib \<Rightarrow> string \<Rightarrow> py_float option" where
  "cell_number L s = al_float L (py_strip s)"

definition counts_rows :: "agent_lib \<Rightarrow> string list \<Rightarrow> bool" where
  "counts_rows L values = (list_all (\<lambda>s. cell_number L s \<noteq> None) values \<and> running (map (\<lambda>s. whole (the (cell_number L s))) values))"

definition serial_header :: "string \<Rightarrow> bool" where
  "serial_header h = (normalize_header h \<in> set SERIAL_HEADERS)"

text \<open>\<^verbatim>\<open>@|\d{6,}|\b\d{1,2}[./-]\d{1,2}[./-]\d{2,4}\b\<close> anywhere in the cell.\<close>

definition date_here :: "string \<Rightarrow> bool" where
  "date_here s = (let a = takeWhile is_digit s; r = dropWhile is_digit s; b = takeWhile is_digit (tl r);
       q = dropWhile is_digit (tl r); c = takeWhile is_digit (tl q); z = dropWhile is_digit (tl q)
     in 1 \<le> length a \<and> length a \<le> 2 \<and> r \<noteq> [] \<and> date_separator (hd r) \<and> 1 \<le> length b \<and> length b \<le> 2
      \<and> q \<noteq> [] \<and> date_separator (hd q) \<and> 2 \<le> length c \<and> length c \<le> 4 \<and> (z = [] \<or> \<not> word_char (hd z)))"

fun date_inside :: "bool \<Rightarrow> string \<Rightarrow> bool" where
  "date_inside after_word [] = False"
| "date_inside after_word (c # cs) = ((\<not> after_word \<and> date_here (c # cs)) \<or> date_inside (word_char c) cs)"

fun long_number :: "nat \<Rightarrow> string \<Rightarrow> bool" where
  "long_number n [] = (6 \<le> n)"
| "long_number n (c # cs) = (6 \<le> n \<or> long_number (if is_digit c then Suc n else 0) cs)"

definition value_like :: "string \<Rightarrow> bool" where
  "value_like s = (CHR ''@'' \<in> set s \<or> long_number 0 s \<or> date_inside False s)"

definition unnamed_column :: "string \<Rightarrow> bool" where
  "unnamed_column h = (prefix ''column_'' h \<and> 7 < length h \<and> list_all is_digit (drop 7 h))"

text \<open>The suffix of a repeated header: a space and a number in parentheses.\<close>

definition drop_repeat :: "string \<Rightarrow> string" where
  "drop_repeat h =
     (case rev h of
        [] \<Rightarrow> h
      | c # cs \<Rightarrow>
          (let n = length (takeWhile is_digit cs)
           in if c = CHR '')'' \<and> 0 < n \<and> prefix [CHR ''('', CHR '' ''] (drop n cs) then take (length h - (n + 3)) h else h))"

subsection \<open>Choosing sheets\<close>

definition column_values :: "agent_lib \<Rightarrow> parsed_table \<Rightarrow> string \<Rightarrow> string list" where
  "column_values L t h = map (py_str (al_repr L)) (filter (filled L) (map (\<lambda>r. get_or_none (sr_fields r) h) (pt_records t)))"

definition data_column :: "agent_lib \<Rightarrow> parsed_table \<Rightarrow> string \<Rightarrow> bool" where
  "data_column L t h = (let vs = column_values L t h in vs \<noteq> [] \<and> \<not> (serial_header h \<and> counts_rows L vs))"

definition unusable_sheet :: "agent_lib \<Rightarrow> parsed_table \<Rightarrow> string option" where
  "unusable_sheet L t =
     (if pt_headers t = [] then Some ''no header row was found (the sheet is empty or holds no table)''
      else if pt_records t = [] then Some ''no data rows under the header''
      else if 2 \<le> length (filter value_like (pt_headers t))
        then Some ''the first row holds values (e-mail addresses, numbers or dates), so the sheet has no header row; add one and upload the sheet again''
      else if 2 \<le> length (filter (data_column L t) (pt_headers t)) then None
      else Some ''fewer than two columns hold values (a blank form or a single list)'')"

definition sheet_columns :: "agent_lib \<Rightarrow> parsed_table \<Rightarrow> string list" where
  "sheet_columns L t = sort (remdups (map (\<lambda>h. normalize_header (drop_repeat h))
     (filter (\<lambda>h. list_ex (\<lambda>r. filled L (get_or_none (sr_fields r) h)) (pt_records t) \<or> \<not> unnamed_column h) (pt_headers t))))"

fun add_group :: "string list \<Rightarrow> parsed_table \<Rightarrow> (string list \<times> parsed_table list) list \<Rightarrow> (string list \<times> parsed_table list) list" where
  "add_group cols t [] = [(cols, [t])]"
| "add_group cols t ((c, ts) # gs) = (if c = cols then (c, ts @ [t]) # gs else (c, ts) # add_group cols t gs)"

fun group_sheets :: "agent_lib \<Rightarrow> parsed_table list \<Rightarrow> (string list \<times> parsed_table list) list \<Rightarrow> (string \<times> string) list
    \<Rightarrow> (string list \<times> parsed_table list) list \<times> (string \<times> string) list" where
  "group_sheets L [] groups skipped = (groups, skipped)"
| "group_sheets L (t # ts) groups skipped =
     (case unusable_sheet L t of
        Some reason \<Rightarrow> group_sheets L ts groups (skipped @ [(pt_name t, reason)])
      | None \<Rightarrow> group_sheets L ts (add_group (sheet_columns L t) t groups) skipped)"

definition unreadable_sheets :: "parse_result \<Rightarrow> (string \<times> string) list" where
  "unreadable_sheets r = map (\<lambda>w. (drop 17 w, ''the sheet could not be read'')) (filter (prefix ''sheet_unreadable:'') (pr_warnings r))"

definition named_table :: "parsed_table list \<Rightarrow> string \<Rightarrow> parsed_table option" where
  "named_table ts n = find (\<lambda>t. pt_name t = n) (rev ts)"

definition no_tables :: string where
  "no_tables = ''no tabular rows were found (no table with a header row was detected); upload the file through the documents API if it is a policy or circular''"

text \<open>
  The tables of this job, the groups that become jobs of their own and the sheets skipped; the
  error texts are those of \<^verbatim>\<open>IngestionError\<close>.
\<close>

definition workbook_tables :: "agent_lib \<Rightarrow> parse_result \<Rightarrow> string + parsed_table list \<times> parsed_table list list \<times> (string \<times> string) list" where
  "workbook_tables L r =
     (case group_sheets L (pr_tables r) [] (unreadable_sheets r) of (groups, skipped) \<Rightarrow>
        case map snd groups of
          [] \<Rightarrow> Inl (take 500 (''no sheet of the workbook has rows to import ('' @ py_join ''; '' (map (\<lambda>(s, w). s @ '': '' @ w) skipped)
                 @ ''); name the sheet on upload to import it anyway''))
        | first # others \<Rightarrow> Inr (first, others, skipped))"

definition select_tables :: "agent_lib \<Rightarrow> pyval \<Rightarrow> string list \<Rightarrow> bool \<Rightarrow> parse_result
    \<Rightarrow> string + parsed_table list \<times> parsed_table list list \<times> (string \<times> string) list" where
  "select_tables L wanted sheets has_file r =
     (let candidates = filter (\<lambda>t. pt_headers t \<noteq> [] \<and> pt_records t \<noteq> []) (pr_tables r)
      in if truthy wanted
         then (case find (\<lambda>t. PStr (pt_name t) = wanted) candidates of
               Some t \<Rightarrow> Inr ([t], [], [])
             | None \<Rightarrow> Inl (''sheet or table not found: '' @ py_str (al_repr L) wanted))
         else if sheets \<noteq> []
         then (let missing = filter (\<lambda>n. named_table candidates n = None) sheets
               in if missing \<noteq> [] then Inl (''sheet or table not found: '' @ py_join '', '' missing)
                  else Inr (map (\<lambda>n. the (named_table candidates n)) sheets, [], []))
         else if pr_file_kind r \<notin> set WORKBOOK_KINDS \<or> \<not> has_file
         then (case candidates of [] \<Rightarrow> Inl no_tables | t # ts \<Rightarrow> Inr ([largest_of t ts], [], []))
         else workbook_tables L r)"

subsection \<open>Merging sheets\<close>

definition rename_target :: "string \<Rightarrow> string dict \<Rightarrow> string dict \<Rightarrow> string \<Rightarrow> string" where
  "rename_target table spelling renames h =
     (let t = (case dict_get spelling (normalize_header h) of Some s \<Rightarrow> s | None \<Rightarrow> h); used = dict_values renames
      in if t \<in> set used then (if h \<notin> set used then h else h @ '' ('' @ table @ '')'') else t)"

definition merge_header :: "string \<Rightarrow> string \<Rightarrow> string list \<times> string dict \<times> string dict \<Rightarrow> string list \<times> string dict \<times> string dict" where
  "merge_header table h = (\<lambda>(headers, spelling, renames).
     let t = rename_target table spelling renames h; renames' = dict_set renames h t
     in if t \<in> set headers then (headers, spelling, renames')
        else (headers @ [t], (if dict_has spelling (normalize_header t) then spelling else dict_set spelling (normalize_header t) t), renames'))"

fun merge_headers :: "parsed_table list \<Rightarrow> string list \<Rightarrow> string dict \<Rightarrow> string list \<times> string dict list" where
  "merge_headers [] headers spelling = (headers, [])"
| "merge_headers (t # ts) headers spelling =
     (case fold (merge_header (pt_name t)) (pt_headers t) (headers, spelling, []) of (headers', spelling', renames) \<Rightarrow>
        (case merge_headers ts headers' spelling' of (out, rest) \<Rightarrow> (out, renames # rest)))"

definition sheet_label :: "nat \<Rightarrow> string" where
  "sheet_label n = (if n = 0 then ''Sheet'' else ''Sheet ('' @ nat_digits (n + 1) @ '')'')"

text \<open>The first label that is no header: the loop looks at one more label than there are headers.\<close>

definition free_label :: "string list \<Rightarrow> string option" where
  "free_label headers = find (\<lambda>s. s \<notin> set headers) (map sheet_label [0..<Suc (length headers)])"

definition merged_fields :: "string dict \<Rightarrow> string option \<Rightarrow> string \<Rightarrow> pyval dict \<Rightarrow> pyval dict" where
  "merged_fields renames column table d =
     (let out = foldl (\<lambda>acc (k, v). dict_set acc (case dict_get renames k of Some t \<Rightarrow> t | None \<Rightarrow> k) v) [] d
      in case column of Some c \<Rightarrow> dict_set out c (PStr table) | None \<Rightarrow> out)"

definition last_number :: "source_row list \<Rightarrow> int" where
  "last_number rs = (case map sr_row_number rs of [] \<Rightarrow> 0 | n # ns \<Rightarrow> foldl max n ns)"

fun merge_rows :: "string option \<Rightarrow> int \<Rightarrow> (parsed_table \<times> string dict) list \<Rightarrow> (source_row \<times> pyval dict \<times> int) list" where
  "merge_rows column offset [] = []"
| "merge_rows column offset ((t, renames) # rest) =
     map (\<lambda>r. (r, merged_fields renames column (pt_name t) (sr_fields r), sr_row_number r + offset)) (pt_records t)
     @ merge_rows column (offset + last_number (pt_records t)) rest"

definition merge_sheets :: "parsed_table list \<Rightarrow> string list \<times> (source_row \<times> pyval dict \<times> int) list" where
  "merge_sheets tables =
     (case merge_headers tables [] [] of (headers, renames) \<Rightarrow>
        let column = (if 1 < length tables then free_label headers else None)
        in (headers @ (case column of Some c \<Rightarrow> [c] | None \<Rightarrow> []), merge_rows column 0 (zip tables renames)))"

text \<open>The rows staged under the limit: a row of a wide marks sheet is staged whole or not at all.\<close>

definition staged_rows_of :: "nat \<Rightarrow> (source_row \<times> 'b) list \<Rightarrow> (source_row \<times> 'b) list" where
  "staged_rows_of limit all =
     (let rows = take limit all
      in if length rows < length all
         then (case wide_row (sr_locator (fst (all ! length rows))) of
              Some wide \<Rightarrow> if wide = [] then rows
                else rev (dropWhile (\<lambda>r. wide_row (sr_locator (fst r)) = Some wide) (rev rows))
            | None \<Rightarrow> rows)
         else rows)"

subsection \<open>No sheet and no row goes missing\<close>

lemma add_group_mset: "mset (concat (map snd (add_group cols t gs))) = add_mset t (mset (concat (map snd gs)))"
  by (induction cols t gs rule: add_group.induct) auto

definition same_columns :: "agent_lib \<Rightarrow> (string list \<times> parsed_table list) list \<Rightarrow> bool" where
  "same_columns L gs = (distinct (map fst gs) \<and> (\<forall>(c, ts) \<in> set gs. ts \<noteq> [] \<and> (\<forall>t \<in> set ts. sheet_columns L t = c)))"

lemma add_group_keys: "fst ` set (add_group cols t gs) = insert cols (fst ` set gs)"
  by (induction cols t gs rule: add_group.induct) auto

lemma add_group_same: "same_columns L gs \<Longrightarrow> cols = sheet_columns L t \<Longrightarrow> same_columns L (add_group cols t gs)"
proof (induction cols t gs rule: add_group.induct)
  case (1 cols t)
  then show ?case by (simp add: same_columns_def)
next
  case (2 cols t c ts gs)
  show ?case
  proof (cases "c = cols")
    case True
    with 2(2,3) show ?thesis by (auto simp: same_columns_def)
  next
    case False
    from 2(2) have s: "same_columns L gs" "c \<notin> fst ` set gs" by (auto simp: same_columns_def)
    from 2(1)[OF False s(1) 2(3)] have "same_columns L (add_group cols t gs)" .
    moreover have "c \<notin> fst ` set (add_group cols t gs)" using False s(2) by (simp add: add_group_keys)
    ultimately show ?thesis using 2(2) False by (auto simp: same_columns_def)
  qed
qed

lemma group_sheets_all:
  "group_sheets L ts gs sk = (groups, skipped) \<Longrightarrow> same_columns L gs \<Longrightarrow>
   same_columns L groups
   \<and> mset (concat (map snd groups)) = mset (concat (map snd gs)) + mset (filter (\<lambda>t. unusable_sheet L t = None) ts)
   \<and> skipped = sk @ map (\<lambda>t. (pt_name t, the (unusable_sheet L t))) (filter (\<lambda>t. unusable_sheet L t \<noteq> None) ts)"
proof (induction ts arbitrary: gs sk)
  case Nil
  then show ?case by simp
next
  case (Cons t ts)
  show ?case
  proof (cases "unusable_sheet L t")
    case None
    with Cons.prems(1) have "group_sheets L ts (add_group (sheet_columns L t) t gs) sk = (groups, skipped)" by simp
    from Cons.IH[OF this add_group_same[OF Cons.prems(2) refl]] None show ?thesis by (simp add: add_group_mset)
  next
    case (Some reason)
    with Cons.prems(1) have "group_sheets L ts gs (sk @ [(pt_name t, reason)]) = (groups, skipped)" by simp
    from Cons.IH[OF this Cons.prems(2)] Some show ?thesis by simp
  qed
qed

lemma find_some: "\<exists>x \<in> set xs. P x \<Longrightarrow> \<exists>x. find P xs = Some x"
  by (induction xs) auto

lemma nat_digits_inj: "nat_digits m = nat_digits n \<Longrightarrow> m = n"
proof (induction m arbitrary: n rule: less_induct)
  case (less m)
  have d: "(of_char (char_of (48 + k) :: char) :: nat) = 48 + k" if "k < 10" for k
    using that by (simp add: of_char_of)
  have last: "last (nat_digits k) = char_of (48 + k mod 10)" for k
    by (subst nat_digits.simps) (auto simp: mod_less)
  have front: "butlast (nat_digits k) = (if k < 10 then [] else nat_digits (k div 10))" for k
    by (subst nat_digits.simps) simp
  have ne: "nat_digits k \<noteq> []" for k by (subst nat_digits.simps) simp
  from less.prems last[of m] last[of n] d[of "m mod 10"] d[of "n mod 10"] have r: "m mod 10 = n mod 10"
    by (metis add_left_cancel mod_less_divisor zero_less_numeral)
  from less.prems front[of m] front[of n] have f: "(if m < 10 then [] else nat_digits (m div 10)) = (if n < 10 then [] else nat_digits (n div 10))"
    by metis
  show ?case
  proof (cases "m < 10")
    case True
    with f ne[of "n div 10"] have "n < 10" by (auto split: if_splits)
    with True r show ?thesis by simp
  next
    case False
    with f ne[of "m div 10"] have "\<not> n < 10" by (auto split: if_splits)
    with f False less.IH[of "m div 10" "n div 10"] have "m div 10 = n div 10" by auto
    with r show ?thesis by (metis div_mult_mod_eq)
  qed
qed

lemma sheet_label_inj: "inj sheet_label"
proof
  fix m n assume "sheet_label m = sheet_label n"
  then show "m = n" by (auto simp: sheet_label_def split: if_splits dest: nat_digits_inj)
qed

text \<open>The search for a free label always ends: there are more labels than headers.\<close>

lemma free_label_ends: "\<exists>c. free_label headers = Some c"
proof -
  have "card (sheet_label ` {0..<Suc (length headers)}) = Suc (length headers)"
    using sheet_label_inj by (simp add: card_image inj_on_def inj_def)
  moreover have "card (set headers) \<le> length headers" by (rule card_length)
  ultimately have "\<not> sheet_label ` {0..<Suc (length headers)} \<subseteq> set headers"
    using card_mono[of "set headers" "sheet_label ` {0..<Suc (length headers)}"] by auto
  then obtain n where "n \<in> {0..<Suc (length headers)}" "sheet_label n \<notin> set headers" by blast
  then have "\<exists>s \<in> set (map sheet_label [0..<Suc (length headers)]). s \<notin> set headers"
    unfolding set_map set_upt by blast
  then show ?thesis unfolding free_label_def by (rule find_some)
qed

lemma free_label_new: "free_label headers = Some c \<Longrightarrow> c \<notin> set headers"
  unfolding free_label_def by (drule find_Some_iff2) blast

lemma merge_headers_length: "length (snd (merge_headers ts hs sp)) = length ts"
  by (induction ts hs sp rule: merge_headers.induct) (auto split: prod.splits)

lemma merge_rows_fst: "length rs = length ts \<Longrightarrow> map fst (merge_rows column k (zip ts rs)) = concat (map pt_records ts)"
proof (induction ts arbitrary: rs k)
  case Nil
  then show ?case by simp
next
  case (Cons t ts)
  then obtain r rs' where "rs = r # rs'" by (cases rs) auto
  with Cons show ?case by (simp add: comp_def)
qed

lemma merge_sheets_rows: "map fst (snd (merge_sheets tables)) = concat (map pt_records tables)"
proof -
  obtain hs rs where m: "merge_headers tables [] [] = (hs, rs)" by (cases "merge_headers tables [] []")
  then have "length rs = length tables" using merge_headers_length[of tables "[]" "[]"] by simp
  then show ?thesis by (simp add: merge_sheets_def m Let_def merge_rows_fst)
qed

text \<open>Row numbers that grow within each sheet, from 1, grow across the merged sheets.\<close>

definition numbered :: "parsed_table \<Rightarrow> bool" where
  "numbered t = (sorted_wrt (<) (map sr_row_number (pt_records t)) \<and> (\<forall>r \<in> set (pt_records t). 1 \<le> sr_row_number r))"

lemma foldl_max_ge: "(x::int) \<in> insert n (set ns) \<Longrightarrow> x \<le> foldl max n ns"
proof (induction ns arbitrary: n)
  case Nil
  then show ?case by simp
next
  case (Cons m ns)
  show ?case
  proof (cases "x \<in> set ns")
    case False
    with Cons.prems have "x \<le> max n m" by auto
    moreover have "y \<le> foldl max y ns" for y :: int
      by (induction ns arbitrary: y) (auto intro: order_trans[OF max.cobounded1])
    ultimately show ?thesis by (simp add: order_trans)
  qed (use Cons.IH[of "max n m"] in simp)
qed

lemma last_number_ge: "r \<in> set rs \<Longrightarrow> sr_row_number r \<le> last_number rs"
  by (cases rs) (auto simp: last_number_def intro!: foldl_max_ge)

lemma last_number_nonneg: "numbered t \<Longrightarrow> 0 \<le> last_number (pt_records t)"
proof (cases "pt_records t")
  case Nil
  then show ?thesis by (simp add: last_number_def)
next
  case (Cons r rs)
  assume "numbered t"
  with Cons last_number_ge[of r "pt_records t"] show ?thesis by (auto simp: numbered_def)
qed

lemma merge_rows_numbers:
  "length rs = length ts \<Longrightarrow> \<forall>t \<in> set ts. numbered t \<Longrightarrow>
   sorted_wrt (<) (map (\<lambda>(r, d, n). n) (merge_rows column k (zip ts rs)))
   \<and> (\<forall>(r, d, n) \<in> set (merge_rows column k (zip ts rs)). k < n)"
proof (induction ts arbitrary: rs k)
  case Nil
  then show ?case by simp
next
  case (Cons t ts)
  then obtain r rs' where rs: "rs = r # rs'" by (cases rs) auto
  from Cons.prems have t: "numbered t" "\<forall>t \<in> set ts. numbered t" "length rs' = length ts" by (auto simp: rs)
  let ?k = "k + last_number (pt_records t)"
  let ?rest = "merge_rows column ?k (zip ts rs')" and ?here = "map (\<lambda>x. sr_row_number x + k) (pt_records t)"
  from Cons.IH[OF t(3,2)] have IH: "sorted_wrt (<) (map (\<lambda>(r, d, n). n) ?rest)" "\<forall>(r, d, n) \<in> set ?rest. ?k < n" by blast+
  have "sorted_wrt (<) ?here" using t(1) by (simp add: numbered_def sorted_wrt_map)
  moreover have "\<forall>x \<in> set ?here. k < x \<and> x \<le> ?k" using t(1) last_number_ge by (fastforce simp: numbered_def)
  moreover have "\<forall>y \<in> set (map (\<lambda>(r, d, n). n) ?rest). ?k < y" using IH(2) by auto
  ultimately show ?case using IH last_number_nonneg[OF t(1)] by (fastforce simp: rs comp_def sorted_wrt_append)
qed


text \<open>Cutting at the row limit keeps a prefix and never splits the row of a wide marks sheet.\<close>

lemma staged_rows_prefix:
  "\<exists>k \<le> limit. staged_rows_of limit all = take k all
     \<and> (k < length all \<longrightarrow> 0 < k \<longrightarrow> (\<forall>w. w \<noteq> [] \<longrightarrow> wide_row (sr_locator (fst (all ! k))) = Some w
          \<longrightarrow> wide_row (sr_locator (fst (all ! (k - 1)))) \<noteq> Some w))"
proof -
  let ?wide = "\<lambda>r. wide_row (sr_locator (fst r))"
  have drop: "\<exists>k \<le> n. rev (dropWhile (\<lambda>r. ?wide r = Some w) (rev (take n all))) = take k all
      \<and> (0 < k \<longrightarrow> ?wide (all ! (k - 1)) \<noteq> Some w) \<and> (k < n \<longrightarrow> ?wide (all ! k) = Some w)" if "n \<le> length all" for n w
    using that
  proof (induction n)
    case 0
    then show ?case by simp
  next
    case (Suc n)
    have t: "take (Suc n) all = take n all @ [all ! n]" using Suc.prems by (simp add: take_Suc_conv_app_nth)
    show ?case
    proof (cases "?wide (all ! n) = Some w")
      case False
      then show ?thesis by (intro exI[of _ "Suc n"]) (simp add: t)
    next
      case True
      from Suc.IH Suc.prems obtain k where "k \<le> n" "rev (dropWhile (\<lambda>r. ?wide r = Some w) (rev (take n all))) = take k all"
        "0 < k \<longrightarrow> ?wide (all ! (k - 1)) \<noteq> Some w" "k < n \<longrightarrow> ?wide (all ! k) = Some w" by auto
      with True show ?thesis by (intro exI[of _ k]) (auto simp: t less_Suc_eq)
    qed
  qed
  show ?thesis
  proof (cases "limit < length all")
    case False
    then show ?thesis by (intro exI[of _ limit]) (simp add: staged_rows_of_def)
  next
    case True
    then have l: "length (take limit all) = limit" by simp
    show ?thesis
    proof (cases "?wide (all ! limit) = None \<or> ?wide (all ! limit) = Some []")
      case none: True
      with True l show ?thesis by (intro exI[of _ limit]) (auto simp: staged_rows_of_def Let_def)
    next
      case False
      then obtain w where w: "?wide (all ! limit) = Some w" "w \<noteq> []" by auto
      from drop[of limit w] True obtain k where k: "k \<le> limit"
        "rev (dropWhile (\<lambda>r. ?wide r = Some w) (rev (take limit all))) = take k all"
        "0 < k \<longrightarrow> ?wide (all ! (k - 1)) \<noteq> Some w" "k < limit \<longrightarrow> ?wide (all ! k) = Some w" by auto
      have "?wide (all ! k) = Some w" using k(1,4) w(1) by (cases "k = limit") auto
      with k True w l show ?thesis by (intro exI[of _ k]) (simp add: staged_rows_of_def Let_def)
    qed
  qed
qed

text \<open>A workbook with a two-row sheet and an empty one.\<close>

definition example_row :: "int \<Rightarrow> string \<Rightarrow> source_row" where
  "example_row n s = \<lparr>sr_source_file = ''w'', sr_locator = ''r'', sr_row_number = n, sr_fields = [(''A'', PStr s), (''B'', PStr s)],
     sr_sheet = None, sr_page = None, sr_ocr = False, sr_ocr_confidence = PNone\<rparr>"

definition example_sheet :: parsed_table where
  "example_sheet = \<lparr>pt_name = ''S'', pt_headers = [''A'', ''B''], pt_records = [example_row 1 ''x'', example_row 2 ''y''], pt_warnings = [], pt_ocr = False\<rparr>"

definition example_blank :: parsed_table where
  "example_blank = \<lparr>pt_name = ''T'', pt_headers = [], pt_records = [], pt_warnings = [], pt_ocr = False\<rparr>"

definition example_book :: parse_result where
  "example_book = \<lparr>pr_file_name = ''w'', pr_file_kind = ''xlsx'', pr_tables = [example_sheet, example_blank], pr_texts = [],
     pr_warnings = [], pr_page_count = 0, pr_metadata = []\<rparr>"

lemma example_usable: "unusable_sheet (ml_lib wit_lib) example_sheet = None"
proof -
  have v: "\<not> value_like ''A''" "\<not> value_like ''B''" by (simp_all add: value_like_def date_here_def is_digit_def)
  have "lower_char CHR ''A'' = CHR ''a''" "lower_char CHR ''B'' = CHR ''b''"
    "lower_char CHR ''a'' = CHR ''a''" "lower_char CHR ''b'' = CHR ''b''"
    by (simp_all add: lower_char_def char_of_def bit_Suc_0_iff)
  then have "\<not> serial_header ''A''" "\<not> serial_header ''B''"
    by (simp_all add: serial_header_def normalize_header_def py_lower_def header_char_def is_digit_def is_alpha_def
        split_ws_def py_space_def SERIAL_HEADERS_def)
  with v show ?thesis
    by (simp add: unusable_sheet_def example_sheet_def data_column_def column_values_def filled_def example_row_def get_or_none_def dict_get_def
        py_str_def blank_def py_strip_def py_space_def Let_def)
qed

lemma example_chosen: "workbook_tables (ml_lib wit_lib) example_book
    = Inr ([example_sheet], [], [(''T'', ''no header row was found (the sheet is empty or holds no table)'')])"
proof -
  have "unusable_sheet (ml_lib wit_lib) example_blank = Some ''no header row was found (the sheet is empty or holds no table)''"
    by (simp add: unusable_sheet_def example_blank_def)
  with example_usable show ?thesis
    by (simp add: workbook_tables_def example_book_def unreadable_sheets_def example_blank_def)
qed


end
