(* ===== verification/Cleaning.thy ===== *)
theory Cleaning
  imports RecordChecks
begin

text \<open>
  Safe normalisation, \<^verbatim>\<open>normalization/cleaning.py\<close>: one value by the type of its field, a record
  field by field, and the columns that follow from others. Patterns are scans over texts. The
  conversion of a text to a float and rounding to two places are given by \<open>clean_lib\<close>; a text
  that names an infinity or no number, which a JSON row cannot hold, is reported as an error of
  the model. Capitals of the two letters whose capital lies above code point 255 are left as they are.
\<close>

subsection \<open>Texts\<close>

record clean_lib =
  cl_lib :: agent_lib
  cl_round2 :: "rat \<Rightarrow> rat"

definition normalize_whitespace :: "string \<Rightarrow> string" where
  "normalize_whitespace s = py_join '' '' (split_ws s)"

definition code_of :: "char \<Rightarrow> nat" where
  "code_of c = of_char c"

definition lower_letter :: "char \<Rightarrow> bool" where
  "lower_letter c = (let n = code_of c in (97 \<le> n \<and> n \<le> 122) \<or> n \<in> {170, 181, 186} \<or> (223 \<le> n \<and> n \<noteq> 247))"

definition upper_letter :: "char \<Rightarrow> bool" where
  "upper_letter c = (let n = code_of c in (65 \<le> n \<and> n \<le> 90) \<or> (192 \<le> n \<and> n \<le> 222 \<and> n \<noteq> 215))"

definition is_upper :: "string \<Rightarrow> bool" where
  "is_upper s = (list_ex upper_letter s \<and> \<not> list_ex lower_letter s)"

definition is_lower :: "string \<Rightarrow> bool" where
  "is_lower s = (list_ex lower_letter s \<and> \<not> list_ex upper_letter s)"

definition upper_of :: "char \<Rightarrow> string" where
  "upper_of c = (let n = code_of c in if n = 223 then ''SS''
     else if (97 \<le> n \<and> n \<le> 122) \<or> (224 \<le> n \<and> n \<le> 254 \<and> n \<noteq> 247) then [char_of (n - 32)] else [c])"

definition py_upper :: "string \<Rightarrow> string" where
  "py_upper s = concat (map upper_of s)"

definition capitalize :: "string \<Rightarrow> string" where
  "capitalize s = (case s of [] \<Rightarrow> [] | c # cs \<Rightarrow> (if code_of c = 223 then ''Ss'' else upper_of c) @ py_lower cs)"

definition strip_chars :: "string \<Rightarrow> string \<Rightarrow> string" where
  "strip_chars cs s = rev (dropWhile (\<lambda>c. c \<in> set cs) (rev (dropWhile (\<lambda>c. c \<in> set cs) s)))"

text \<open>\<^verbatim>\<open>str.replace\<close> of a non-empty text.\<close>

function py_replace :: "string \<Rightarrow> string \<Rightarrow> string \<Rightarrow> string" where
  "py_replace p q s = (if s = [] \<or> p = [] then s
     else if prefix p s then q @ py_replace p q (drop (length p) s) else hd s # py_replace p q (tl s))"
  by pat_completeness auto
termination by (relation "measure (\<lambda>(p, q, s). length s)") (auto simp: neq_Nil_conv)

declare py_replace.simps [simp del]

text \<open>A full stop with the space around it becomes a full stop and one space.\<close>

function space_dots :: "string \<Rightarrow> string" where
  "space_dots s = (case dropWhile py_space s of
      d # ds \<Rightarrow> if d = CHR ''.'' then ''. '' @ space_dots (dropWhile py_space ds) else hd s # space_dots (tl s)
    | [] \<Rightarrow> s)"
  by pat_completeness auto
termination
proof (relation "measure length", goal_cases)
  case (2 s d ds)
  then have "length (d # ds) \<le> length s" using length_dropWhile_le[of py_space s] by simp
  then show ?case using length_dropWhile_le[of py_space ds] by simp
next
  case (3 s d ds)
  then show ?case by (cases s) auto
qed simp

declare space_dots.simps [simp del]

definition name_part_case :: "string \<Rightarrow> string" where
  "name_part_case p = (if 1 < length p then capitalize p else py_upper p)"

definition normalize_person_name :: "string \<Rightarrow> string \<times> bool" where
  "normalize_person_name v =
     (let cleaned = normalize_whitespace (py_strip (space_dots (normalize_whitespace v)))
      in if is_upper cleaned \<or> is_lower cleaned
         then (let titled = py_join '' '' (map name_part_case (split_on (CHR '' '') cleaned)) in (titled, titled \<noteq> v))
         else (cleaned, cleaned \<noteq> v))"

text \<open>The pattern \<^verbatim>\<open>-?\d+(\.\d+)?%?\<close> over a whole text.\<close>

definition numeric_label :: "string \<Rightarrow> bool" where
  "numeric_label s =
     (let body = (case s of CHR ''-'' # cs \<Rightarrow> cs | _ \<Rightarrow> s);
          digits = takeWhile is_digit body; rest = dropWhile is_digit body;
          tail = (case rest of CHR ''.'' # cs \<Rightarrow> if takeWhile is_digit cs = [] then rest else dropWhile is_digit cs | _ \<Rightarrow> rest)
      in digits \<noteq> [] \<and> (tail = [] \<or> tail = ''%''))"

definition normalize_program :: "string \<Rightarrow> string \<times> bool" where
  "normalize_program v =
     (let cleaned = normalize_whitespace v;
          key = filter (\<lambda>c. is_digit c \<or> (97 \<le> code_of c \<and> code_of c \<le> 122)) (py_lower cleaned)
      in case dict_get PROGRAM_ALIASES key of
           Some r \<Rightarrow> (r, r \<noteq> v)
         | None \<Rightarrow> (let u = py_upper cleaned in (u, u \<noteq> v)))"

subsection \<open>Semesters\<close>

definition ORDINALS :: "(string \<times> int) list" where
  "ORDINALS = [
     (''first'', 1), (''1st'', 1), (''i'', 1), (''one'', 1),
     (''second'', 2), (''2nd'', 2), (''ii'', 2), (''two'', 2),
     (''third'', 3), (''3rd'', 3), (''iii'', 3), (''three'', 3),
     (''fourth'', 4), (''4th'', 4), (''iv'', 4), (''four'', 4),
     (''fifth'', 5), (''5th'', 5), (''v'', 5), (''five'', 5),
     (''sixth'', 6), (''6th'', 6), (''vi'', 6), (''six'', 6),
     (''seventh'', 7), (''7th'', 7), (''vii'', 7), (''seven'', 7),
     (''eighth'', 8), (''8th'', 8), (''viii'', 8), (''eight'', 8),
     (''ninth'', 9), (''9th'', 9), (''ix'', 9), (''nine'', 9),
     (''tenth'', 10), (''10th'', 10), (''x'', 10), (''ten'', 10)]"

definition word_char :: "char \<Rightarrow> bool" where
  "word_char c = (is_alnum c \<or> c = CHR ''_'')"

text \<open>A text as its runs of word characters and the characters between them.\<close>

function word_runs :: "string \<Rightarrow> (bool \<times> string) list" where
  "word_runs s = (case s of [] \<Rightarrow> []
     | c # cs \<Rightarrow> if word_char c then (True, takeWhile word_char s) # word_runs (dropWhile word_char cs)
        else (False, [c]) # word_runs cs)"
  by pat_completeness auto
termination by (relation "measure length") (auto simp: less_Suc_eq_le length_dropWhile_le)

declare word_runs.simps [simp del]

definition drop_term_words :: "string \<Rightarrow> string" where
  "drop_term_words s = concat (map (\<lambda>(w, t). if w \<and> t \<in> {''sem'', ''semester'', ''term''} then '' '' else t) (word_runs s))"

definition short_number :: "string \<Rightarrow> int option" where
  "short_number s = (case find (\<lambda>(w, t). w \<and> list_all is_digit t \<and> length t \<le> 2) (word_runs s) of
     Some (w, t) \<Rightarrow> py_int_of t | None \<Rightarrow> None)"

definition within_terms :: "int \<Rightarrow> int option" where
  "within_terms n = (if 0 < n \<and> n \<le> 20 then Some n else None)"

definition normalize_semester :: "clean_lib \<Rightarrow> pyval \<Rightarrow> int option \<times> bool" where
  "normalize_semester C v =
     (let text = strip_chars '' .-'' (drop_term_words (py_lower (normalize_whitespace (py_str (al_repr (cl_lib C)) v))));
          read = (case dict_get ORDINALS text of Some n \<Rightarrow> (Some n, True)
             | None \<Rightarrow> (case short_number text of Some n \<Rightarrow> (within_terms n, True) | None \<Rightarrow> (None, False)))
      in case v of PBool b \<Rightarrow> (None, False) | PInt n \<Rightarrow> (within_terms n, False)
         | PFloat r \<Rightarrow> if r = of_int \<lfloor>r\<rfloor> then (within_terms \<lfloor>r\<rfloor>, True) else read
         | _ \<Rightarrow> read)"

subsection \<open>Phones, addresses and numbers\<close>

definition whole_text :: "clean_lib \<Rightarrow> pyval \<Rightarrow> string option" where
  "whole_text C v = (case v of PFloat r \<Rightarrow> if r = of_int \<lfloor>r\<rfloor> then Some (int_str \<lfloor>r\<rfloor>) else None | _ \<Rightarrow> None)"

definition normalize_phone :: "clean_lib \<Rightarrow> pyval \<Rightarrow> string \<times> bool" where
  "normalize_phone C v =
     (let text = (case whole_text C v of Some t \<Rightarrow> t | None \<Rightarrow> py_strip (py_str (al_repr (cl_lib C)) v));
          kept = filter (\<lambda>c. is_digit c \<or> c = CHR ''+'') text;
          a = (case kept of c # cs \<Rightarrow> if c = CHR ''+'' then c # filter (\<lambda>x. x \<noteq> CHR ''+'') cs else kept | [] \<Rightarrow> kept);
          b = (if prefix ''0'' a \<and> length a = 11 then tl a else a);
          d = (if length b = 12 \<and> prefix ''91'' b then CHR ''+'' # b else b)
      in (d, d \<noteq> text))"

definition normalize_email :: "clean_lib \<Rightarrow> pyval \<Rightarrow> string \<times> bool" where
  "normalize_email C v = (let s = py_str (al_repr (cl_lib C)) v; t = py_lower (normalize_whitespace s) in (t, t \<noteq> s))"

definition NOT_FINITE :: pyerr where
  "NOT_FINITE = OtherError ''a float that is not finite''"

text \<open>\<^verbatim>\<open>float(text)\<close>, None when it raises a ValueError.\<close>

definition float_text :: "clean_lib \<Rightarrow> string \<Rightarrow> rat option res" where
  "float_text C s = (case al_float (cl_lib C) s of
      None \<Rightarrow> Inr None | Some (Finite_float r) \<Rightarrow> Inr (Some r) | Some _ \<Rightarrow> Inl NOT_FINITE)"

definition float_int :: "int \<Rightarrow> rat res" where
  "float_int n = (if FLOAT_OVERFLOW \<le> \<bar>n\<bar> then Inl (OtherError ''int too large to convert to float'') else Inr (of_int n))"

definition normalize_percent :: "clean_lib \<Rightarrow> pyval \<Rightarrow> (rat option \<times> bool) res" where
  "normalize_percent C v = (case v of
      PBool b \<Rightarrow> Inr (None, False)
    | PInt n \<Rightarrow> bindE (float_int n) (\<lambda>r. Inr (Some (cl_round2 C r), False))
    | PFloat r \<Rightarrow> Inr (if 0 \<le> r \<and> r \<le> 1 then (Some (cl_round2 C (r * 100)), True) else (Some (cl_round2 C r), False))
    | _ \<Rightarrow> bindE (float_text C (filter (\<lambda>c. c \<noteq> CHR ''%'' \<and> c \<noteq> CHR '','') (py_strip (py_str (al_repr (cl_lib C)) v)))) (\<lambda>x.
        Inr (case x of None \<Rightarrow> (None, False) | Some r \<Rightarrow> (Some (cl_round2 C r), True))))"

definition normalize_number :: "clean_lib \<Rightarrow> pyval \<Rightarrow> (rat option \<times> bool) res" where
  "normalize_number C v = (case v of
      PBool b \<Rightarrow> Inr (None, False)
    | PInt n \<Rightarrow> bindE (float_int n) (\<lambda>r. Inr (Some r, False))
    | PFloat r \<Rightarrow> Inr (Some r, False)
    | _ \<Rightarrow> bindE (float_text C (py_strip (py_replace ''inr'' [] (py_replace ''rs'' [] (py_replace ''rs.'' []
             (filter (\<lambda>c. c \<noteq> CHR '','') (py_strip (py_str (al_repr (cl_lib C)) v)))))))) (\<lambda>x.
        Inr (case x of None \<Rightarrow> (None, False) | Some r \<Rightarrow> (Some r, True))))"

definition normalize_integer :: "clean_lib \<Rightarrow> pyval \<Rightarrow> (int option \<times> bool) res" where
  "normalize_integer C v = bindE (normalize_number C v) (\<lambda>(x, changed). Inr (case x of
      None \<Rightarrow> (None, False)
    | Some r \<Rightarrow> if r \<noteq> of_int \<lfloor>r\<rfloor> then (None, False)
        else (Some \<lfloor>r\<rfloor>, changed \<or> (case v of PInt n \<Rightarrow> False | PBool b \<Rightarrow> False | _ \<Rightarrow> True))))"

definition TRUE_WORDS :: "string list" where
  "TRUE_WORDS = [''yes'', ''y'', ''true'', ''1'', ''hod'', ''active'', ''t'']"

definition FALSE_WORDS :: "string list" where
  "FALSE_WORDS = [''no'', ''n'', ''false'', ''0'', ''inactive'', ''f'', ''-'', '''']"

definition normalize_boolean :: "clean_lib \<Rightarrow> pyval \<Rightarrow> bool option \<times> bool" where
  "normalize_boolean C v = (case v of PBool b \<Rightarrow> (Some b, False)
    | _ \<Rightarrow> (let t = py_lower (normalize_whitespace (py_str (al_repr (cl_lib C)) v))
        in if t \<in> set TRUE_WORDS then (Some True, True) else if t \<in> set FALSE_WORDS then (Some False, True) else (None, False)))"

subsection \<open>Dates\<close>

text \<open>The proleptic Gregorian calendar of \<^verbatim>\<open>datetime\<close>.\<close>

definition leap :: "nat \<Rightarrow> bool" where
  "leap y = (y mod 4 = 0 \<and> (y mod 100 \<noteq> 0 \<or> y mod 400 = 0))"

definition month_days :: "nat \<Rightarrow> nat \<Rightarrow> nat" where
  "month_days y m = (if m = 2 then (if leap y then 29 else 28) else if m \<in> {4, 6, 9, 11} then 30 else 31)"

definition real_date :: "nat \<times> nat \<times> nat \<Rightarrow> bool" where
  "real_date = (\<lambda>(y, m, d). 1 \<le> y \<and> y \<le> 9999 \<and> 1 \<le> m \<and> m \<le> 12 \<and> 1 \<le> d \<and> d \<le> month_days y m)"

definition pad :: "nat \<Rightarrow> nat \<Rightarrow> string" where
  "pad w n = (let t = nat_digits n in replicate (w - length t) (CHR ''0'') @ t)"

definition iso_date :: "nat \<times> nat \<times> nat \<Rightarrow> string" where
  "iso_date = (\<lambda>(y, m, d). pad 4 y @ ''-'' @ pad 2 m @ ''-'' @ pad 2 d)"

definition next_day :: "nat \<times> nat \<times> nat \<Rightarrow> nat \<times> nat \<times> nat" where
  "next_day = (\<lambda>(y, m, d). if d < month_days y m then (y, m, d + 1) else if m < 12 then (y, m + 1, 1) else (y + 1, 1, 1))"

fun add_days :: "nat \<Rightarrow> nat \<times> nat \<times> nat \<Rightarrow> nat \<times> nat \<times> nat" where
  "add_days 0 t = t"
| "add_days (Suc n) t = add_days n (next_day t)"

definition EXCEL_EPOCH :: "nat \<times> nat \<times> nat" where
  "EXCEL_EPOCH = (1899, 12, 30)"

text \<open>
  \<^verbatim>\<open>strptime\<close> with the directives the formats use: each is a choice of texts at the front, longest
  first, with the number it stands for; month names are matched in any case, a space as one or
  more spaces.
\<close>

datatype directive = D_Y | D_y | D_m | D_d | D_b | D_B | D_H | D_M | D_S | D_space | D_lit char

definition MONTHS :: "string list" where
  "MONTHS = [''january'', ''february'', ''march'', ''april'', ''may'', ''june'', ''july'', ''august'', ''september'', ''october'', ''november'', ''december'']"

definition number_front :: "nat \<Rightarrow> (nat \<Rightarrow> bool) \<Rightarrow> string \<Rightarrow> (nat \<times> string) list" where
  "number_front w P s = (let t = take w s in if length t = w \<and> list_all is_digit t
     then (case py_int_of t of Some n \<Rightarrow> if P (nat n) then [(nat n, drop w s)] else [] | None \<Rightarrow> []) else [])"

definition month_front :: "(string \<Rightarrow> string) \<Rightarrow> string \<Rightarrow> (nat \<times> string) list" where
  "month_front f s = keep_some (map (\<lambda>(k, n). if prefix (f n) (py_lower s) then Some (k + 1, drop (length (f n)) s) else None) (zip [0..<12] MONTHS))"

fun front :: "directive \<Rightarrow> string \<Rightarrow> (nat \<times> string) list" where
  "front D_Y s = number_front 4 (\<lambda>n. True) s"
| "front D_y s = map (\<lambda>(n, t). (if n \<le> 68 then 2000 + n else 1900 + n, t)) (number_front 2 (\<lambda>n. True) s)"
| "front D_m s = number_front 2 (\<lambda>n. 1 \<le> n \<and> n \<le> 12) s @ number_front 1 (\<lambda>n. 1 \<le> n) s"
| "front D_d s = number_front 2 (\<lambda>n. 1 \<le> n \<and> n \<le> 31) s @ number_front 1 (\<lambda>n. 1 \<le> n) s
     @ (case s of c # cs \<Rightarrow> if c = CHR '' '' then number_front 1 (\<lambda>n. 1 \<le> n) cs else [] | [] \<Rightarrow> [])"
| "front D_b s = month_front (take 3) s"
| "front D_B s = month_front id s"
| "front D_H s = number_front 2 (\<lambda>n. n \<le> 23) s @ number_front 1 (\<lambda>n. True) s"
| "front D_M s = number_front 2 (\<lambda>n. n \<le> 59) s @ number_front 1 (\<lambda>n. True) s"
| "front D_S s = number_front 2 (\<lambda>n. n \<le> 61) s @ number_front 1 (\<lambda>n. True) s"
| "front D_space s = (if takeWhile py_space s = [] then [] else [(0, dropWhile py_space s)])"
| "front (D_lit c) s = (case s of x # xs \<Rightarrow> if lower_char x = lower_char c then [(0, xs)] else [] | [] \<Rightarrow> [])"

text \<open>The first way of reading the whole text, as the numbers of its directives.\<close>

fun read_format :: "directive list \<Rightarrow> string \<Rightarrow> (directive \<times> nat) list list" where
  "read_format [] s = (if s = [] then [[]] else [])"
| "read_format (d # ds) s = concat (map (\<lambda>(n, t). map (\<lambda>r. (d, n) # r) (read_format ds t)) (front d s))"

definition part_of :: "directive list \<Rightarrow> (directive \<times> nat) list \<Rightarrow> nat \<Rightarrow> nat" where
  "part_of ds r default_n = (case find (\<lambda>(d, n). d \<in> set ds) r of Some (d, n) \<Rightarrow> n | None \<Rightarrow> default_n)"

definition strptime :: "directive list \<Rightarrow> string \<Rightarrow> (nat \<times> nat \<times> nat) option" where
  "strptime fmt s = (case read_format fmt s of
      [] \<Rightarrow> None
    | r # rs \<Rightarrow> (let t = (part_of [D_Y, D_y] r 1900, part_of [D_m, D_b, D_B] r 1, part_of [D_d] r 1)
        in if real_date t \<and> part_of [D_S] r 0 \<le> 59 then Some t else None))"

definition DATE_FORMATS :: "directive list list" where
  "DATE_FORMATS = (let dash = D_lit (CHR ''-''); slash = D_lit (CHR ''/''); dot = D_lit (CHR ''.''); comma = D_lit (CHR '',''); colon = D_lit (CHR '':'') in
     [[D_Y, dash, D_m, dash, D_d], [D_d, dash, D_m, dash, D_Y], [D_d, slash, D_m, slash, D_Y], [D_d, dot, D_m, dot, D_Y],
      [D_Y, slash, D_m, slash, D_d], [D_d, D_space, D_b, D_space, D_Y], [D_d, D_space, D_B, D_space, D_Y],
      [D_b, D_space, D_d, comma, D_space, D_Y], [D_B, D_space, D_d, comma, D_space, D_Y], [D_d, dash, D_b, dash, D_Y], [D_d, dash, D_B, dash, D_Y],
      [D_d, dash, D_b, dash, D_y], [D_d, slash, D_m, slash, D_y], [D_d, dash, D_m, dash, D_y],
      [D_Y, dash, D_m, dash, D_d, D_lit (CHR ''T''), D_H, colon, D_M, colon, D_S], [D_Y, dash, D_m, dash, D_d, D_space, D_H, colon, D_M, colon, D_S]])"

definition ISO_FORMAT :: "directive list" where
  "ISO_FORMAT = [D_Y, D_lit (CHR ''-''), D_m, D_lit (CHR ''-''), D_d]"

text \<open>The pattern \<^verbatim>\<open>\d{4}-\d{2}-\d{2}\<close>, and day and month written as numbers.\<close>

definition iso_shape :: "string \<Rightarrow> bool" where
  "iso_shape s = (case split_on (CHR ''-'') s of
     [y, m, d] \<Rightarrow> length y = 4 \<and> length m = 2 \<and> length d = 2 \<and> list_all is_digit (y @ m @ d) | _ \<Rightarrow> False)"

definition numeric_date :: "string \<Rightarrow> (int \<times> int) option" where
  "numeric_date s = (let sep = (\<lambda>c. c \<in> {CHR ''-'', CHR ''/'', CHR ''.''});
       a = takeWhile is_digit s; r = dropWhile is_digit s; b = takeWhile is_digit (tl r); q = dropWhile is_digit (tl r); y = tl q
     in if a \<noteq> [] \<and> length a \<le> 2 \<and> r \<noteq> [] \<and> sep (hd r) \<and> b \<noteq> [] \<and> length b \<le> 2 \<and> q \<noteq> [] \<and> sep (hd q)
           \<and> 2 \<le> length y \<and> length y \<le> 4 \<and> list_all is_digit y
        then (case (py_int_of a, py_int_of b) of (Some m, Some n) \<Rightarrow> Some (m, n) | _ \<Rightarrow> None) else None)"

definition ambiguous_date :: "string \<Rightarrow> bool" where
  "ambiguous_date s = (case numeric_date s of Some (a, b) \<Rightarrow> a \<le> 12 \<and> b \<le> 12 \<and> a \<noteq> b | None \<Rightarrow> False)"

text \<open>The ISO date, whether it changed and whether the reading was ambiguous.\<close>

definition date_of_text :: "string \<Rightarrow> string option \<times> bool \<times> bool" where
  "date_of_text text = (if text = [] then (None, False, False)
     else if iso_shape text then (if strptime ISO_FORMAT text \<noteq> None then (Some text, False, False) else (None, False, False))
     else (case keep_some (map (\<lambda>f. strptime f text) DATE_FORMATS) of
         t # ts \<Rightarrow> (Some (iso_date t), True, ambiguous_date text) | [] \<Rightarrow> (None, False, False)))"

definition date_of_serial :: "rat \<Rightarrow> string option \<times> bool \<times> bool" where
  "date_of_serial r = (if 20000 \<le> r \<and> r \<le> 80000 then (Some (iso_date (add_days (nat \<lfloor>r\<rfloor>) EXCEL_EPOCH)), True, False) else (None, False, False))"

definition normalize_date :: "clean_lib \<Rightarrow> pyval \<Rightarrow> (string option \<times> bool \<times> bool) res" where
  "normalize_date C v = (case v of
      PInt n \<Rightarrow> bindE (float_int n) (\<lambda>r. Inr (date_of_serial r))
    | PFloat r \<Rightarrow> Inr (date_of_serial r)
    | _ \<Rightarrow> Inr (date_of_text (normalize_whitespace (py_str (al_repr (cl_lib C)) v))))"

subsection \<open>One value\<close>

type_synonym cleaned = "pyval \<times> string list \<times> pyval list"

definition clean_issue :: "clean_lib \<Rightarrow> string \<Rightarrow> string \<Rightarrow> string \<Rightarrow> pyval \<Rightarrow> pyval dict \<Rightarrow> pyval" where
  "clean_issue C n code severity v extra = PDict ([(''field'', PStr n), (''code'', PStr code), (''severity'', PStr severity),
     (''value'', PStr (take 40 (py_str (al_repr (cl_lib C)) v)))] @ extra)"

definition PLACEHOLDERS :: "string list" where
  "PLACEHOLDERS = [''na'', ''n/a'', ''nil'', ''null'', ''none'', ''-'', ''--'']"

definition note_text :: "string \<Rightarrow> string \<Rightarrow> string" where
  "note_text n what = n @ '':'' @ what"

definition noted :: "bool \<Rightarrow> string \<Rightarrow> string \<Rightarrow> string list" where
  "noted b n what = (if b then [note_text n what] else [])"

text \<open>A value read, with a note when it changed, or an issue when it could not be read.\<close>

definition read_or_issue :: "clean_lib \<Rightarrow> string \<Rightarrow> string \<Rightarrow> string \<Rightarrow> pyval \<Rightarrow> pyval option \<times> bool \<Rightarrow> cleaned" where
  "read_or_issue C n what code v = (\<lambda>(x, changed). case x of
      Some y \<Rightarrow> (y, noted changed n what, []) | None \<Rightarrow> (PNone, [], [clean_issue C n code ''warning'' v []]))"

definition clean_string :: "clean_lib \<Rightarrow> string \<Rightarrow> pyval \<Rightarrow> cleaned" where
  "clean_string C n v =
     (let s = py_str (al_repr (cl_lib C)) v
      in if n \<in> {''name'', ''student_name'', ''guardian_name'', ''hod_name''}
         then (case normalize_person_name s of (t, changed) \<Rightarrow> (PStr t, noted changed n ''name_case'', []))
         else if n = ''program''
         then (if numeric_label (py_strip s) then (PNone, [], [clean_issue C n ''numeric_program'' ''warning'' v []])
               else (case normalize_program s of (t, changed) \<Rightarrow> (PStr t, noted changed n ''program_alias'', [])))
         else if n \<in> {''department'', ''course_code'', ''fee_type'', ''exam_name'', ''status'', ''result_status'', ''gender'', ''category'', ''section''}
         then (let t = normalize_whitespace s;
                   u = (if n \<in> {''course_code'', ''section''} then py_upper t
                        else if n \<in> {''status'', ''result_status'', ''gender''} then py_lower t else t)
               in (PStr u, noted (PStr u \<noteq> v) n ''case'', []))
         else (PStr s, [], []))"

definition clean_identifier :: "clean_lib \<Rightarrow> string \<Rightarrow> pyval \<Rightarrow> cleaned" where
  "clean_identifier C n v =
     (let s = py_str (al_repr (cl_lib C)) v; t = (case whole_text C v of Some w \<Rightarrow> w | None \<Rightarrow> py_upper (normalize_whitespace s))
      in (PStr t, noted (t \<noteq> s) n ''identifier_case'', []))"

definition clean_date :: "clean_lib \<Rightarrow> string \<Rightarrow> pyval \<Rightarrow> cleaned res" where
  "clean_date C n v = bindE (normalize_date C v) (\<lambda>(iso, changed, ambiguous). Inr (case iso of
      None \<Rightarrow> (PNone, [], [clean_issue C n ''invalid_date'' ''warning'' v []])
    | Some t \<Rightarrow> (PStr t, noted changed n ''date_parsed'',
        if ambiguous then [clean_issue C n ''ambiguous_date_day_month'' ''info'' v [(''assumed'', PStr ''day/month/year'')]] else [])))"

text \<open>What remains once blanks and placeholders are gone, by the type of the field.\<close>

definition clean_typed :: "clean_lib \<Rightarrow> field_type \<Rightarrow> string \<Rightarrow> pyval \<Rightarrow> cleaned res" where
  "clean_typed C ty n v = (case ty of
      T_STRING \<Rightarrow> Inr (clean_string C n v)
    | T_IDENTIFIER \<Rightarrow> Inr (clean_identifier C n v)
    | T_INTEGER \<Rightarrow>
        if n = ''semester'' then Inr (read_or_issue C n ''semester_parsed'' ''invalid_semester'' v (map_prod (map_option PInt) id (normalize_semester C v)))
        else bindE (normalize_integer C v) (\<lambda>x. Inr (read_or_issue C n ''integer_parsed'' ''invalid_integer'' v (map_prod (map_option PInt) id x)))
    | T_NUMBER \<Rightarrow> bindE (normalize_number C v) (\<lambda>x. Inr (read_or_issue C n ''number_parsed'' ''invalid_number'' v (map_prod (map_option PFloat) id x)))
    | T_PERCENT \<Rightarrow> bindE (normalize_percent C v) (\<lambda>x. Inr (read_or_issue C n ''percent_parsed'' ''invalid_percent'' v (map_prod (map_option PFloat) id x)))
    | T_PHONE \<Rightarrow> (case normalize_phone C v of (t, changed) \<Rightarrow> Inr (PStr t, noted changed n ''phone_format'', []))
    | T_EMAIL \<Rightarrow> (case normalize_email C v of (t, changed) \<Rightarrow> Inr (PStr t, noted changed n ''email_case'', []))
    | T_BOOLEAN \<Rightarrow> Inr (read_or_issue C n ''boolean_parsed'' ''invalid_boolean'' v (map_prod (map_option PBool) id (normalize_boolean C v)))
    | T_DATE \<Rightarrow> clean_date C n v)"

definition clean_value :: "clean_lib \<Rightarrow> field_type \<Rightarrow> string \<Rightarrow> pyval \<Rightarrow> cleaned res" where
  "clean_value C ty n v = (case v of
      PNone \<Rightarrow> Inr (PNone, [], [])
    | PStr s \<Rightarrow>
        (let t = normalize_whitespace s; ns = noted (t \<noteq> s) n ''whitespace''
         in if t = [] then Inr (PNone, ns, [])
            else if py_lower t \<in> set PLACEHOLDERS then Inr (PNone, ns @ [note_text n ''placeholder_to_empty''], [])
            else bindE (clean_typed C ty n (PStr t)) (\<lambda>(x, notes, issues). Inr (x, ns @ notes, issues)))
    | _ \<Rightarrow> clean_typed C ty n v)"

subsection \<open>Derived columns and whole records\<close>

definition DERIVED_FIELDS :: "(string \<times> (string \<times> string list) list) list" where
  "DERIVED_FIELDS = [
     (''attendance'', [(''classes_attended'', [''classes_held'', ''classes_absent'']),
        (''attendance_percent'', [''classes_held'', ''classes_attended'', ''classes_absent''])]),
     (''fee'', [(''balance'', [''amount_due'', ''amount_paid'']), (''status'', [''amount_due'', ''amount_paid'', ''balance''])])]"

definition float_val :: "clean_lib \<Rightarrow> pyval \<Rightarrow> rat res" where
  "float_val C v = bindE (float_of (cl_lib C) v) (\<lambda>f. case f of Finite_float r \<Rightarrow> Inr r | _ \<Rightarrow> Inl NOT_FINITE)"

definition derive_attended :: "pyval dict \<Rightarrow> (pyval dict \<times> string list) res" where
  "derive_attended d =
     (let held = get_or_none d ''classes_held''; attended = get_or_none d ''classes_attended''; absent = get_or_none d ''classes_absent''
      in if attended = PNone \<and> held \<noteq> PNone \<and> absent \<noteq> PNone
         then bindE (int_of held) (\<lambda>h. bindE (int_of absent) (\<lambda>a.
                Inr (dict_set d ''classes_attended'' (PInt (max 0 (h - a))), [note_text ''classes_attended'' ''derived_from_absent''])))
         else Inr (d, []))"

definition derive_percent :: "clean_lib \<Rightarrow> pyval dict \<Rightarrow> (pyval dict \<times> string list) res" where
  "derive_percent C d =
     (let held = get_or_none d ''classes_held''; attended = get_or_none d ''classes_attended''
      in if get_or_none d ''attendance_percent'' = PNone \<and> truthy held \<and> attended \<noteq> PNone
         then bindE (float_val C attended) (\<lambda>a. bindE (float_val C held) (\<lambda>h.
                if h = 0 then Inl (OtherError ''float division by zero'')
                else Inr (dict_set d ''attendance_percent'' (PFloat (cl_round2 C (a / h * 100))), [note_text ''attendance_percent'' ''derived_from_counts''])))
         else Inr (d, []))"

definition derive_balance :: "clean_lib \<Rightarrow> pyval dict \<Rightarrow> (pyval dict \<times> string list) res" where
  "derive_balance C d =
     (let due = get_or_none d ''amount_due''; paid = get_or_none d ''amount_paid''
      in if get_or_none d ''balance'' = PNone \<and> due \<noteq> PNone
         then bindE (float_val C due) (\<lambda>x. bindE (if truthy paid then float_val C paid else Inr 0) (\<lambda>y.
                Inr (dict_set d ''balance'' (PFloat (cl_round2 C (x - y))), [note_text ''balance'' ''derived_from_due_minus_paid''])))
         else Inr (d, []))"

definition derive_status :: "clean_lib \<Rightarrow> pyval dict \<Rightarrow> (pyval dict \<times> string list) res" where
  "derive_status C d =
     (let paid = get_or_none d ''amount_paid'' in
      if get_or_none d ''status'' = PNone \<and> get_or_none d ''balance'' \<noteq> PNone
      then bindE (float_val C (get_or_none d ''balance'')) (\<lambda>b.
             Inr (dict_set d ''status'' (PStr (if b \<le> 0 then ''paid'' else if truthy paid then ''partial'' else ''pending'')), [note_text ''status'' ''derived_from_balance'']))
      else Inr (d, []))"

definition then_derive :: "(pyval dict \<Rightarrow> (pyval dict \<times> string list) res) \<Rightarrow> pyval dict \<times> string list \<Rightarrow> (pyval dict \<times> string list) res" where
  "then_derive f = (\<lambda>(d, ns). bindE (f d) (\<lambda>(e, ms). Inr (e, ns @ ms)))"

definition derive_fields :: "clean_lib \<Rightarrow> canonical_entity \<Rightarrow> pyval dict \<Rightarrow> (pyval dict \<times> string list) res" where
  "derive_fields C e d =
     (if ce_name e = ''attendance'' then bindE (derive_attended d) (then_derive (derive_percent C))
      else if ce_name e = ''fee'' then bindE (derive_balance C d) (then_derive (derive_status C))
      else Inr (d, []))"

definition clean_field :: "clean_lib \<Rightarrow> pyval dict \<Rightarrow> canonical_field \<Rightarrow> (string \<times> cleaned) list res" where
  "clean_field C d f = (case dict_get d (cf_name f) of None \<Rightarrow> Inr []
     | Some v \<Rightarrow> bindE (clean_value C (cf_type f) (cf_name f) v) (\<lambda>x. Inr [(cf_name f, x)]))"

definition clean_record :: "clean_lib \<Rightarrow> canonical_entity \<Rightarrow> pyval dict \<Rightarrow> (pyval dict \<times> string list \<times> pyval list) res" where
  "clean_record C e d = bindE (mapE (clean_field C d) (ce_fields e)) (\<lambda>xs. let cells = concat xs in
     bindE (derive_fields C e (map (\<lambda>(n, v, ns, iss). (n, v)) cells)) (\<lambda>(derived, dn).
       Inr (derived, concat (map (\<lambda>(n, v, ns, iss). ns) cells) @ dn, concat (map (\<lambda>(n, v, ns, iss). iss) cells))))"

subsection \<open>Cleaning invents nothing\<close>

text \<open>A cell that holds nothing: no value, blanks, or one of the words for nothing.\<close>

definition nothing_in :: "pyval \<Rightarrow> bool" where
  "nothing_in v = (case v of PNone \<Rightarrow> True
     | PStr s \<Rightarrow> normalize_whitespace s = [] \<or> py_lower (normalize_whitespace s) \<in> set PLACEHOLDERS | _ \<Rightarrow> False)"

lemma clean_value_nothing: "nothing_in v \<Longrightarrow> \<exists>ns. clean_value C ty n v = Inr (PNone, ns, [])"
  unfolding nothing_in_def clean_value_def by (cases v) (auto simp: Let_def split: if_splits)

lemma clean_field_mem:
  assumes "clean_field C d f = Inr xs" "(n, x) \<in> set xs"
  shows "n = cf_name f \<and> (\<exists>v. dict_get d n = Some v \<and> clean_value C (cf_type f) n v = Inr x)"
  using assms unfolding clean_field_def by (auto simp: bindE_eq_Inr split: option.splits)

lemma clean_cells_mem:
  assumes "mapE (clean_field C d) fs = Inr xs" "(n, x) \<in> set (concat xs)"
  shows "\<exists>f \<in> set fs. n = cf_name f \<and> (\<exists>v. dict_get d n = Some v \<and> clean_value C (cf_type f) n v = Inr x)"
proof -
  from assms(2) obtain ys where ys: "ys \<in> set xs" "(n, x) \<in> set ys" by auto
  from mapE_set[OF assms(1) ys(1)] obtain f where "f \<in> set fs" "clean_field C d f = Inr ys" by blast
  with clean_field_mem[OF this(2) ys(2)] show ?thesis by blast
qed

definition derived_note :: "string \<Rightarrow> string \<Rightarrow> bool" where
  "derived_note n t = prefix (n @ '':derived_from_'') t"

text \<open>A step of the derivation fills at most one column, which was empty, and notes it.\<close>

definition fills_one :: "pyval dict \<Rightarrow> (pyval dict \<times> string list) res \<Rightarrow> bool" where
  "fills_one d r = (\<forall>d' ns. r = Inr (d', ns) \<longrightarrow> (\<forall>n. get_or_none d' n = get_or_none d n \<or> (get_or_none d n = PNone \<and> list_ex (derived_note n) ns)))"

lemma get_or_none_set: "get_or_none (dict_set d k v) n = (if n = k then v else get_or_none d n)"
  by (simp add: get_or_none_def dict_get_set)

lemma fills_one_intros:
  "fills_one d (Inl x)" "fills_one d (Inr (d, []))" "(\<And>y. fills_one d (f y)) \<Longrightarrow> fills_one d (bindE r f)"
  "get_or_none d k = PNone \<Longrightarrow> derived_note k t \<Longrightarrow> fills_one d (Inr (dict_set d k v, [t]))"
  by (auto simp: fills_one_def bindE_eq_Inr get_or_none_set)

lemma derived_notes:
  "derived_note ''classes_attended'' (note_text ''classes_attended'' ''derived_from_absent'')"
  "derived_note ''attendance_percent'' (note_text ''attendance_percent'' ''derived_from_counts'')"
  "derived_note ''balance'' (note_text ''balance'' ''derived_from_due_minus_paid'')"
  "derived_note ''status'' (note_text ''status'' ''derived_from_balance'')"
  by (simp_all add: derived_note_def note_text_def)

lemma fills_one_if: "(b \<Longrightarrow> fills_one d r) \<Longrightarrow> (\<not> b \<Longrightarrow> fills_one d q) \<Longrightarrow> fills_one d (if b then r else q)"
  by simp

lemma derive_steps_fill:
  "fills_one d (derive_attended d)" "fills_one d (derive_percent C d)" "fills_one d (derive_balance C d)" "fills_one d (derive_status C d)"
  unfolding derive_attended_def derive_percent_def derive_balance_def derive_status_def Let_def
  by (intro fills_one_if fills_one_intros derived_notes; blast)+

lemma then_derive_fills:
  assumes "fills_one d r" "\<And>e. fills_one e (f e)"
  shows "fills_one d (bindE r (then_derive f))"
  unfolding fills_one_def
proof (intro allI impI)
  fix d' ns n
  assume "bindE r (then_derive f) = Inr (d', ns)"
  then obtain e ms ks where e: "r = Inr (e, ms)" "f e = Inr (d', ks)" "ns = ms @ ks"
    by (auto simp: bindE_eq_Inr then_derive_def)
  show "get_or_none d' n = get_or_none d n \<or> (get_or_none d n = PNone \<and> list_ex (derived_note n) ns)"
    using assms(1)[unfolded fills_one_def, rule_format, OF e(1), of n] assms(2)[unfolded fills_one_def, rule_format, OF e(2), of n] e(3) by auto
qed

lemma derive_fields_fills: "fills_one d (derive_fields C e d)"
  unfolding derive_fields_def
  by (intro fills_one_if then_derive_fills derive_steps_fill fills_one_intros)

lemma cells_keys: "map fst (map (\<lambda>(n, v, ns, iss). (n, v)) cs) = map fst cs"
  by (induction cs) auto

lemma cells_mem: "(n, y, ms, js) \<in> set cs \<Longrightarrow> (n, y) \<in> set (map (\<lambda>(n, v, ns, iss). (n, v)) cs)"
  by force

lemma clean_cells_keys:
  assumes "mapE (clean_field C d) fs = Inr xs" "distinct (map cf_name fs)"
  shows "distinct (map fst (concat xs)) \<and> set (map fst (concat xs)) \<subseteq> cf_name ` set fs"
  using assms
proof (induction fs arbitrary: xs)
  case (Cons f fs)
  from Cons.prems(1) obtain ys zs where y: "clean_field C d f = Inr ys" "mapE (clean_field C d) fs = Inr zs" "xs = ys # zs"
    by (auto split: sum.splits)
  have s: "map fst ys = [] \<or> map fst ys = [cf_name f]"
    using y(1) unfolding clean_field_def by (auto simp: bindE_eq_Inr split: option.splits)
  from Cons.IH[OF y(2)] Cons.prems(2) have i: "distinct (map fst (concat zs))" "set (map fst (concat zs)) \<subseteq> cf_name ` set fs" by auto
  from s show ?case
  proof
    assume "map fst ys = []"
    with i show ?thesis by (auto simp: y(3))
  next
    assume k: "map fst ys = [cf_name f]"
    have "cf_name f \<notin> set (map fst (concat zs))" using i(2) Cons.prems(2) by auto
    with k i show ?thesis unfolding y(3) concat.simps map_append by auto
  qed
qed simp

lemma clean_field_value:
  assumes "mapE (clean_field C d) fs = Inr xs" "f \<in> set fs" "dict_get d (cf_name f) = Some v" "clean_value C (cf_type f) (cf_name f) v = Inr x"
  shows "(cf_name f, x) \<in> set (concat xs)"
  using assms by (induction fs arbitrary: xs) (auto simp: clean_field_def split: sum.splits)


text \<open>A fee row with the amount due and the amount paid.\<close>

definition wit_clean_lib :: clean_lib where
  "wit_clean_lib = \<lparr>cl_lib = \<lparr>al_repr = (\<lambda>v. []), al_float = (\<lambda>s. None), al_number = (\<lambda>s. None),
     al_loads = (\<lambda>s. Inr PNone), al_dumps = (\<lambda>v. []), al_dumps_ascii = (\<lambda>v. []), al_round3 = id, al_balance = (\<lambda>v. Inr [])\<rparr>, cl_round2 = id\<rparr>"

lemma wit_fee: "clean_record wit_clean_lib FEE_ENTITY [(''amount_due'', PInt 500), (''amount_paid'', PInt 200)]
  = Inr ([(''amount_due'', PFloat 500), (''amount_paid'', PFloat 200), (''balance'', PFloat 300), (''status'', PStr ''partial'')],
      [''balance:derived_from_due_minus_paid'', ''status:derived_from_balance''], [])"
  by (simp add: clean_record_def FEE_ENTITY_def fld_def clean_field_def dict_get_def clean_value_def clean_typed_def normalize_number_def float_int_def
      FLOAT_OVERFLOW_def read_or_issue_def noted_def derive_fields_def derive_balance_def derive_status_def then_derive_def get_or_none_def
      dict_set_def float_val_def float_of_def wit_clean_lib_def note_text_def Let_def)


text \<open>A currency marker is stripped in lower case only.\<close>

lemma currency_in_capitals:
  assumes "al_float (cl_lib C) ''Rs. 500'' = None"
  shows "normalize_number C (PStr ''Rs. 500'') = Inr (None, False)"
    "normalize_number C (PStr ''rs. 500'') = bindE (float_text C ''500'') (\<lambda>x. Inr (case x of None \<Rightarrow> (None, False) | Some r \<Rightarrow> (Some r, True)))"
  using assms by (simp_all add: normalize_number_def py_str_def py_strip_def py_space_def float_text_def py_replace.simps)

end
