(* ===== verification/IngestStore.thy ===== *)
theory IngestStore
  imports InstitutionTables Sheets Cleaning
begin

text \<open>
  The ground of the ingestion service: its state (the tables it writes, what lies outside, and
  how many readings of the clock and random identifiers it took), actions that change the
  state and may raise, the store calls of \<^verbatim>\<open>ingestion/service.py\<close> as actions, and rules that
  carry two facts through a sequence of actions: a job stays in its table, and what a raised
  error says of it.
\<close>

subsection \<open>Actions\<close>

text \<open>\<^verbatim>\<open>IngestionError\<close> and its subclasses; \<open>Raised\<close> is any other exception.\<close>

datatype ing_error = IngestionError string | ProcessingError string | CommitError string | Raised pyerr

type_synonym ('s, 'a) act = "'s \<Rightarrow> (ing_error + 'a) \<times> 's"

definition retS :: "'a \<Rightarrow> ('s, 'a) act" where
  "retS x = (\<lambda>s. (Inr x, s))"

definition failS :: "ing_error \<Rightarrow> ('s, 'a) act" where
  "failS e = (\<lambda>s. (Inl e, s))"

definition bindS :: "('s, 'a) act \<Rightarrow> ('a \<Rightarrow> ('s, 'b) act) \<Rightarrow> ('s, 'b) act" where
  "bindS m f = (\<lambda>s. case m s of (Inl e, s') \<Rightarrow> (Inl e, s') | (Inr x, s') \<Rightarrow> f x s')"

definition thenS :: "('s, 'a) act \<Rightarrow> ('s, 'b) act \<Rightarrow> ('s, 'b) act" where
  "thenS m k = bindS m (\<lambda>_. k)"

text \<open>\<^verbatim>\<open>try ... except\<close>: the handler sees the error in the state the action left.\<close>

definition catchS :: "('s, 'a) act \<Rightarrow> (ing_error \<Rightarrow> ('s, 'a) act) \<Rightarrow> ('s, 'a) act" where
  "catchS m h = (\<lambda>s. case m s of (Inl e, s') \<Rightarrow> h e s' | (Inr x, s') \<Rightarrow> (Inr x, s'))"

definition liftS :: "'a res \<Rightarrow> ('s, 'a) act" where
  "liftS r = (\<lambda>s. (case r of Inl e \<Rightarrow> Inl (Raised e) | Inr x \<Rightarrow> Inr x, s))"

definition refuseS :: "string + 'a \<Rightarrow> ('s, 'a) act" where
  "refuseS r = (\<lambda>s. (case r of Inl m \<Rightarrow> Inl (IngestionError m) | Inr x \<Rightarrow> Inr x, s))"

fun each :: "('a \<Rightarrow> ('s, 'b) act) \<Rightarrow> 'a list \<Rightarrow> ('s, 'b list) act" where
  "each f [] = retS []"
| "each f (x # xs) = bindS (f x) (\<lambda>y. bindS (each f xs) (\<lambda>ys. retS (y # ys)))"

subsection \<open>State and environment\<close>

record 'w ing =
  is_jobs :: "job_row list"
  is_rows :: "staged_row list"
  is_reviews :: "review_row list"
  is_profiles :: "profile_row list"
  is_files :: "file_row list"
  is_world :: 'w
  is_tick :: nat
  is_remembered :: bool

record import_summary =
  sm_entity :: string
  sm_inserted :: int
  sm_updated :: int
  sm_unchanged :: int
  sm_skipped :: int
  sm_inserted_keys :: "string list"
  sm_updated_keys :: "string list"
  sm_skipped_reasons :: "int dict"
  sm_skipped_keys :: "pyval list"

definition summary_as_dict :: "import_summary \<Rightarrow> pyval dict" where
  "summary_as_dict m = [(''entity'', PStr (sm_entity m)), (''inserted'', PInt (sm_inserted m)), (''updated'', PInt (sm_updated m)),
     (''unchanged'', PInt (sm_unchanged m)), (''skipped'', PInt (sm_skipped m)),
     (''inserted_keys_sample'', PList (map PStr (take 50 (sm_inserted_keys m)))),
     (''updated_keys_sample'', PList (map PStr (take 50 (sm_updated_keys m)))),
     (''skipped_reasons'', PDict (map (\<lambda>(k, n). (k, PInt n)) (sm_skipped_reasons m))),
     (''skipped_keys_sample'', PList (take 50 (sm_skipped_keys m)))]"

text \<open>
  What the service is given: readings of the clock and random identifiers, the name of an
  exception's class, the object store, the parsers, rounding to two places, the digest and
  the table of canonical records.
\<close>

record 'w ing_lib =
  il_map :: map_lib
  il_clock :: "nat \<Rightarrow> int"
  il_uuid :: "nat \<Rightarrow> string"
  il_uuid5 :: "string \<Rightarrow> string"
  il_error_class :: "pyerr \<Rightarrow> string"
  il_safe_name :: "string \<Rightarrow> string res"
  il_file_kind :: "string \<Rightarrow> string \<Rightarrow> string \<Rightarrow> string"
  il_object_key :: "string \<Rightarrow> string \<Rightarrow> string \<Rightarrow> string \<Rightarrow> string res"
  il_put :: "string \<Rightarrow> string \<Rightarrow> string \<Rightarrow> 'w \<Rightarrow> 'w \<times> (int \<times> string) res"
  il_get :: "string \<Rightarrow> 'w \<Rightarrow> string res"
  il_parse :: "string \<Rightarrow> string \<Rightarrow> string \<Rightarrow> parse_result res"
  il_reshape :: "parse_result \<Rightarrow> string option \<Rightarrow> parse_result"
  il_round2 :: "rat \<Rightarrow> rat"
  il_hash :: "pyval \<Rightarrow> string"
  il_existing :: "string \<Rightarrow> string \<Rightarrow> string list \<Rightarrow> 'w \<Rightarrow> (string \<times> pyval dict) list res"
  il_people :: "string \<Rightarrow> string \<Rightarrow> pyval list \<times> pyval list \<times> pyval list \<Rightarrow> 'w \<Rightarrow> (string \<times> pyval dict) list res"
  il_upsert :: "string \<Rightarrow> canonical_record list \<Rightarrow> string list \<Rightarrow> string list \<Rightarrow> 'w \<Rightarrow> 'w \<times> import_summary res"

subsection \<open>Store calls\<close>

abbreviation ticked :: "nat \<Rightarrow> 'w ing \<Rightarrow> 'w ing" where
  "ticked n s \<equiv> s\<lparr>is_tick := is_tick s + n\<rparr>"

definition now_of :: "'w ing_lib \<Rightarrow> 'w ing \<Rightarrow> int" where
  "now_of L s = il_clock L (is_tick s)"

definition fresh :: "'w ing_lib \<Rightarrow> ('w ing, string) act" where
  "fresh L = (\<lambda>s. (Inr (il_uuid L (is_tick s)), ticked 1 s))"

definition st_get_job :: "string \<Rightarrow> string \<Rightarrow> ('w ing, job_row option) act" where
  "st_get_job i j = (\<lambda>s. liftS (get_job i j (is_jobs s)) s)"

text \<open>A job that is not there reads as a KeyError; jobs are never deleted.\<close>

definition st_update :: "'w ing_lib \<Rightarrow> string \<Rightarrow> string \<Rightarrow> job_change list \<Rightarrow> ('w ing, job_row) act" where
  "st_update L i j cs = (\<lambda>s. case update_job (now_of L s) i j cs (is_jobs s) of
      Inl e \<Rightarrow> (Inl (Raised e), ticked 1 s)
    | Inr (t, Some r) \<Rightarrow> (Inr r, ticked 1 (s\<lparr>is_jobs := t\<rparr>))
    | Inr (t, None) \<Rightarrow> (Inl (Raised (KeyError ''job_id'')), ticked 1 (s\<lparr>is_jobs := t\<rparr>)))"

definition st_create :: "'w ing_lib \<Rightarrow> string \<Rightarrow> string \<Rightarrow> string option \<Rightarrow> string option \<Rightarrow> string \<Rightarrow> string \<Rightarrow> pyval dict \<Rightarrow> ('w ing, job_row) act" where
  "st_create L i j file entity who kind options = (\<lambda>s. case create_job (now_of L s) i j file entity who kind options (is_jobs s) of
      Inl e \<Rightarrow> (Inl (Raised e), ticked 1 s)
    | Inr (t, Some r) \<Rightarrow> (Inr r, ticked 1 (s\<lparr>is_jobs := t\<rparr>))
    | Inr (t, None) \<Rightarrow> (Inl (Raised (KeyError ''job_id'')), ticked 1 (s\<lparr>is_jobs := t\<rparr>)))"

definition numbered_ids :: "'w ing_lib \<Rightarrow> nat \<Rightarrow> 'x list \<Rightarrow> (string \<times> 'x) list" where
  "numbered_ids L k xs = zip (map (il_uuid L) [k..<k + length xs]) xs"

definition st_replace :: "'w ing_lib \<Rightarrow> string \<Rightarrow> string \<Rightarrow> staged_item list \<Rightarrow> ('w ing, unit) act" where
  "st_replace L i j items = (\<lambda>s. case replace_job_records i j (numbered_ids L (is_tick s) items) (is_rows s) of
      Inl e \<Rightarrow> (Inl (Raised e), ticked (length items) s)
    | Inr (t, n) \<Rightarrow> (Inr (), ticked (length items) (s\<lparr>is_rows := t\<rparr>)))"

definition st_records :: "string \<Rightarrow> string \<Rightarrow> int \<Rightarrow> ('w ing, staged_row list) act" where
  "st_records i j limit = (\<lambda>s. liftS (job_records i j limit 0 None (is_rows s)) s)"

definition st_add_reviews :: "'w ing_lib \<Rightarrow> string \<Rightarrow> string \<Rightarrow> (string \<times> pyval dict) list \<Rightarrow> ('w ing, unit) act" where
  "st_add_reviews L i j items = (\<lambda>s. case add_review_items (now_of L s) i j (numbered_ids L (is_tick s) items) (is_reviews s) of
      Inl e \<Rightarrow> (Inl (Raised e), ticked (Suc (length items)) s)
    | Inr (t, ids) \<Rightarrow> (Inr (), ticked (Suc (length items)) (s\<lparr>is_reviews := t\<rparr>)))"

definition DEFAULT_REVIEW_LIMIT :: int where "DEFAULT_REVIEW_LIMIT = 200"

text \<open>The pending items of a job, as the calls that leave out the limit read them.\<close>

definition st_pending :: "string \<Rightarrow> string \<Rightarrow> ('w ing, review_row list) act" where
  "st_pending i j = (\<lambda>s. liftS (list_review_items i (Some j) (Some ''pending'') DEFAULT_REVIEW_LIMIT 0 (is_reviews s)) s)"

definition st_get_review :: "string \<Rightarrow> string \<Rightarrow> ('w ing, review_row option) act" where
  "st_get_review i v = (\<lambda>s. liftS (get_review_item i v (is_reviews s)) s)"

definition st_resolve :: "'w ing_lib \<Rightarrow> string \<Rightarrow> string \<Rightarrow> string \<Rightarrow> string \<Rightarrow> pyval dict \<Rightarrow> ('w ing, review_row option) act" where
  "st_resolve L i v status who resolution = (\<lambda>s. case resolve_review_item (now_of L s) i v status who resolution (is_reviews s) of
      Inl e \<Rightarrow> (Inl (Raised e), ticked 1 s)
    | Inr (t, r) \<Rightarrow> (Inr r, ticked 1 (s\<lparr>is_reviews := t\<rparr>)))"

definition st_save_profile :: "'w ing_lib \<Rightarrow> string \<Rightarrow> string \<Rightarrow> string \<Rightarrow> pyval dict \<Rightarrow> string \<Rightarrow> ('w ing, unit) act" where
  "st_save_profile L i entity headers mapping who = (\<lambda>s.
     case save_mapping_profile (il_uuid L (is_tick s)) (now_of L s) i entity headers mapping who (is_profiles s) of
      Inl e \<Rightarrow> (Inl (Raised e), ticked 1 s)
    | Inr (t, p) \<Rightarrow> (Inr (), ticked 1 (s\<lparr>is_profiles := t\<rparr>)))"

definition st_profile :: "string \<Rightarrow> string option \<Rightarrow> string \<Rightarrow> ('w ing, profile_row option) act" where
  "st_profile i entity signature = (\<lambda>s. liftS (case entity of
      Some e \<Rightarrow> find_mapping_profile i e signature (is_profiles s)
    | None \<Rightarrow> find_latest_mapping_profile i signature (is_profiles s)) s)"

definition st_get_file :: "string \<Rightarrow> string \<Rightarrow> ('w ing, file_row option) act" where
  "st_get_file i f = (\<lambda>s. liftS (get_file i f (is_files s)) s)"

definition st_record_file :: "'w ing_lib \<Rightarrow> string \<Rightarrow> file_row \<Rightarrow> ('w ing, unit) act" where
  "st_record_file L i f = (\<lambda>s. case record_file (now_of L s) i f (is_files s) of
      Inl e \<Rightarrow> (Inl (Raised e), ticked 1 s)
    | Inr (t, r) \<Rightarrow> (Inr (), ticked 1 (s\<lparr>is_files := t\<rparr>)))"

text \<open>Calls on what lies outside.\<close>

definition ask_world :: "('w \<Rightarrow> 'a res) \<Rightarrow> ('w ing, 'a) act" where
  "ask_world f = (\<lambda>s. liftS (f (is_world s)) s)"

definition tell_world :: "('w \<Rightarrow> 'w \<times> 'a res) \<Rightarrow> ('w ing, 'a) act" where
  "tell_world f = (\<lambda>s. case f (is_world s) of (w, r) \<Rightarrow> liftS r (s\<lparr>is_world := w\<rparr>))"

subsection \<open>Every review item, page by page\<close>

definition REVIEW_PAGE_SIZE :: nat where "REVIEW_PAGE_SIZE = 2000"

definition reviews_in_order :: "string \<Rightarrow> string \<Rightarrow> review_row list \<Rightarrow> review_row list" where
  "reviews_in_order i j t = sort_key (\<lambda>r. (rv_created_at r, rv_id r)) (filter (\<lambda>r. rv_institution_id r = i \<and> opt_filter (Some j) (rv_job_id r)) t)"

text \<open>The loop of \<^verbatim>\<open>_review_items\<close> from an offset; a page that is not full is the last.\<close>

function review_pages :: "review_row list \<Rightarrow> nat \<Rightarrow> review_row list" where
  "review_pages all n = (let batch = take REVIEW_PAGE_SIZE (drop n all)
     in if length batch < REVIEW_PAGE_SIZE then batch else batch @ review_pages all (n + length batch))"
  by pat_completeness auto
termination by (relation "measure (\<lambda>(all, n). length all - n)") (auto simp: REVIEW_PAGE_SIZE_def)

declare review_pages.simps [simp del]

lemma review_pages_all: "review_pages all n = drop n all"
proof (induction all n rule: review_pages.induct)
  case (1 all n)
  let ?batch = "take REVIEW_PAGE_SIZE (drop n all)"
  show ?case
  proof (cases "length ?batch < REVIEW_PAGE_SIZE")
    case True
    then have "length (drop n all) < REVIEW_PAGE_SIZE" by simp
    with True show ?thesis by (subst review_pages.simps) simp
  next
    case False
    then have l: "length ?batch = REVIEW_PAGE_SIZE" by simp
    have "drop n all = ?batch @ drop (n + REVIEW_PAGE_SIZE) all"
      by (metis add.commute append_take_drop_id drop_drop)
    with False 1[OF refl] l show ?thesis by (subst review_pages.simps) (simp add: Let_def)
  qed
qed

text \<open>The page the store returns is the slice the loop reads.\<close>

lemma review_page_is_slice:
  "list_review_items i (Some j) None (int REVIEW_PAGE_SIZE) (int n) t
   = tenant i (Inr (take REVIEW_PAGE_SIZE (drop n (reviews_in_order i j t))))"
  by (simp add: list_review_items_def page_def clamp_limit_def REVIEW_PAGE_SIZE_def reviews_in_order_def opt_filter_def[of None] take_int_def)

definition st_all_reviews :: "string \<Rightarrow> string \<Rightarrow> ('w ing, review_row list) act" where
  "st_all_reviews i j = (\<lambda>s. liftS (tenant i (Inr (review_pages (reviews_in_order i j (is_reviews s)) 0))) s)"

subsection \<open>A job stays, and which errors say its state is recorded\<close>

named_theorems acts \<open>rules of the actions\<close>

definition job_now :: "string \<Rightarrow> string \<Rightarrow> 'w ing \<Rightarrow> job_row option" where
  "job_now i j s = (if blank i then None else find (\<lambda>r. ij_institution_id r = i \<and> ij_id r = j) (is_jobs s))"

definition has_job :: "string \<Rightarrow> string \<Rightarrow> 'w ing \<Rightarrow> bool" where
  "has_job i j s = (job_now i j s \<noteq> None)"

text \<open>
  \<open>keeps\<close>: the job is still there afterwards; \<open>quiet\<close>: and no commit or processing error was
  raised, the two errors that say the job's state was already recorded.
\<close>

definition calm :: "ing_error + 'a \<Rightarrow> bool" where
  "calm r = (case r of Inl (CommitError x) \<Rightarrow> False | Inl (ProcessingError x) \<Rightarrow> False | _ \<Rightarrow> True)"

lemma calm_simps [simp]: "calm (Inr x)" "calm (Inl (IngestionError m))" "calm (Inl (Raised e))"
  "\<not> calm (Inl (CommitError m))" "\<not> calm (Inl (ProcessingError m))"
  by (simp_all add: calm_def)

lemma calm_Inl: "calm (Inl e :: ing_error + 'a) = calm (Inl e :: ing_error + 'b)"
  by (cases e) simp_all


definition keeps :: "string \<Rightarrow> string \<Rightarrow> ('w ing, 'a) act \<Rightarrow> bool" where
  "keeps i j m = (\<forall>s. has_job i j s \<longrightarrow> has_job i j (snd (m s)))"

definition quiet :: "string \<Rightarrow> string \<Rightarrow> ('w ing, 'a) act \<Rightarrow> bool" where
  "quiet i j m = (keeps i j m \<and> (\<forall>s. calm (fst (m s))))"

lemma get_job_now: "has_job i j s \<Longrightarrow> get_job i j (is_jobs s) = Inr (job_now i j s)"
  by (auto simp: has_job_def job_now_def get_job_def tenant_def split: if_splits)

lemma job_now_frame [simp]:
  "job_now i j (s\<lparr>is_rows := t1\<rparr>) = job_now i j s" "job_now i j (s\<lparr>is_reviews := t2\<rparr>) = job_now i j s"
  "job_now i j (s\<lparr>is_profiles := t3\<rparr>) = job_now i j s" "job_now i j (s\<lparr>is_files := t4\<rparr>) = job_now i j s"
  "job_now i j (s\<lparr>is_world := w\<rparr>) = job_now i j s" "job_now i j (s\<lparr>is_tick := n\<rparr>) = job_now i j s"
  "job_now i j (s\<lparr>is_remembered := b\<rparr>) = job_now i j s"
  by (simp_all add: job_now_def)

lemma has_job_frame [simp]:
  "has_job i j (s\<lparr>is_rows := t1\<rparr>) = has_job i j s" "has_job i j (s\<lparr>is_reviews := t2\<rparr>) = has_job i j s"
  "has_job i j (s\<lparr>is_profiles := t3\<rparr>) = has_job i j s" "has_job i j (s\<lparr>is_files := t4\<rparr>) = has_job i j s"
  "has_job i j (s\<lparr>is_world := w\<rparr>) = has_job i j s" "has_job i j (s\<lparr>is_tick := n\<rparr>) = has_job i j s"
  "has_job i j (s\<lparr>is_remembered := b\<rparr>) = has_job i j s"
  by (simp_all add: has_job_def)

lemma quietI: "(\<And>s. has_job i j s \<Longrightarrow> has_job i j (snd (m s))) \<Longrightarrow> (\<And>s. calm (fst (m s))) \<Longrightarrow> quiet i j m"
  by (simp add: quiet_def keeps_def)

lemma quiet_keeps: "quiet i j m \<Longrightarrow> keeps i j m"
  by (simp add: quiet_def)

lemma pure_quiet [acts]: "quiet i j (retS x)" "quiet i j (liftS r)" "quiet i j (refuseS q)"
  "quiet i j (failS (IngestionError m))" "quiet i j (failS (Raised e))"
  by (auto simp: quiet_def keeps_def retS_def liftS_def refuseS_def failS_def split: sum.splits)

lemma bindS_quiet [acts]: "quiet i j m \<Longrightarrow> (\<And>x. quiet i j (f x)) \<Longrightarrow> quiet i j (bindS m f)"
  unfolding quiet_def keeps_def bindS_def by (auto split: prod.splits sum.splits) (metis fst_conv snd_conv calm_Inl)+

lemma thenS_quiet [acts]: "quiet i j m \<Longrightarrow> quiet i j k \<Longrightarrow> quiet i j (thenS m k)"
  unfolding thenS_def by (rule bindS_quiet)

lemma catchS_quiet: "keeps i j m \<Longrightarrow> (\<And>e. quiet i j (h e)) \<Longrightarrow> quiet i j (catchS m h)"
  unfolding quiet_def keeps_def catchS_def by (auto split: prod.splits sum.splits)

lemma each_quiet [acts]: "(\<And>x. quiet i j (f x)) \<Longrightarrow> quiet i j (each f xs)"
  by (induction f xs rule: each.induct) (auto intro!: acts)

lemma if_quiet [acts]: "(b \<Longrightarrow> quiet i j m) \<Longrightarrow> (\<not> b \<Longrightarrow> quiet i j n) \<Longrightarrow> quiet i j (if b then m else n)"
  by simp

lemma option_quiet [acts]: "quiet i j m \<Longrightarrow> (\<And>x. quiet i j (f x)) \<Longrightarrow> quiet i j (case o' of None \<Rightarrow> m | Some x \<Rightarrow> f x)"
  by (cases o') simp_all

lemma prod_quiet [acts]: "(\<And>a b. quiet i j (f a b)) \<Longrightarrow> quiet i j (case p of (a, b) \<Rightarrow> f a b)"
  by (cases p) simp

lemma job_update_find:
  "job_now i j (s\<lparr>is_jobs := tbl_update (\<lambda>r. ij_institution_id r = i' \<and> ij_id r = j') (changed_job n cs) (is_jobs s)\<rparr>)
   = map_option (\<lambda>r. if ij_institution_id r = i' \<and> ij_id r = j' then changed_job n cs r else r) (job_now i j s)"
  by (simp add: job_now_def tbl_update_find)

text \<open>An update of known fields of a job that is there succeeds and returns the row it stored.\<close>

lemma st_update_run:
  assumes "job_now i j s = Some r" "unknown_change cs = None"
  shows "\<exists>s'. st_update L i j cs s = (Inr (changed_job (now_of L s) cs r), s') \<and> job_now i j s' = Some (changed_job (now_of L s) cs r)
    \<and> s' = ticked 1 (s\<lparr>is_jobs := tbl_update (\<lambda>r. ij_institution_id r = i \<and> ij_id r = j) (changed_job (now_of L s) cs) (is_jobs s)\<rparr>)"
proof -
  let ?t = "tbl_update (\<lambda>r. ij_institution_id r = i \<and> ij_id r = j) (changed_job (now_of L s) cs) (is_jobs s)"
  from assms(1) have b: "\<not> blank i" "find (\<lambda>r. ij_institution_id r = i \<and> ij_id r = j) (is_jobs s) = Some r"
    by (auto simp: job_now_def split: if_splits)
  from find_Some_iff2[OF b(2)] have k: "ij_institution_id r = i" "ij_id r = j" by auto
  have n: "job_now i j (s\<lparr>is_jobs := ?t\<rparr>) = Some (changed_job (now_of L s) cs r)"
    using assms(1) k by (simp add: job_update_find)
  then have "find (\<lambda>r. ij_institution_id r = i \<and> ij_id r = j) ?t = Some (changed_job (now_of L s) cs r)"
    using b(1) by (simp add: job_now_def)
  then show ?thesis using assms(2) b(1) n
    by (simp add: st_update_def update_job_def tenant_def get_job_def Let_def)
qed

lemma st_update_quiet [acts]: "quiet i j (st_update L i' j' cs)"
proof (rule quietI)
  fix s :: "'a ing"
  assume h: "has_job i j s"
  have k: "has_job i j (s\<lparr>is_jobs := tbl_update (\<lambda>r. ij_institution_id r = i' \<and> ij_id r = j') (changed_job n cs) (is_jobs s)\<rparr>)" for n
    using h by (simp add: has_job_def job_update_find)
  show "has_job i j (snd (st_update L i' j' cs s))"
    using h k by (auto simp: st_update_def update_job_def tenant_def get_job_def Let_def split: option.splits)
next
  show "calm (fst (st_update L i' j' cs s))" for s :: "'a ing"
    by (auto simp: st_update_def split: sum.splits option.splits prod.splits)
qed

lemma st_create_quiet [acts]: "quiet i j (st_create L i' j' file entity who kind options)"
proof (rule quietI)
  fix s :: "'a ing"
  assume h: "has_job i j s"
  have "has_job i j (s\<lparr>is_jobs := is_jobs s @ [r]\<rparr>)" for r
    using h by (auto simp: has_job_def job_now_def find_append split: option.splits if_splits)
  then show "has_job i j (snd (st_create L i' j' file entity who kind options s))"
    using h by (auto simp: st_create_def create_job_def bindE_def tenant_def get_job_def tbl_insert_def split: sum.splits option.splits)
next
  show "calm (fst (st_create L i' j' file entity who kind options s))" for s :: "'a ing"
    by (auto simp: st_create_def split: sum.splits option.splits prod.splits)
qed

lemma store_quiet [acts]:
  "quiet i j (fresh L)" "quiet i j (st_get_job i' j')" "quiet i j (st_replace L i' j' items)" "quiet i j (st_records i' j' n)"
  "quiet i j (st_add_reviews L i' j' revs)" "quiet i j (st_pending i' j')" "quiet i j (st_get_review i' v)"
  "quiet i j (st_resolve L i' v st who res)" "quiet i j (st_save_profile L i' en h mp who)" "quiet i j (st_profile i' oe sig)"
  "quiet i j (st_get_file i' f)" "quiet i j (st_record_file L i' fr)" "quiet i j (ask_world g)" "quiet i j (tell_world h')"
  "quiet i j (st_all_reviews i' j')"
  by (auto intro!: quietI simp: fresh_def st_get_job_def st_replace_def st_records_def st_add_reviews_def st_pending_def st_get_review_def
      st_resolve_def st_save_profile_def st_profile_def st_get_file_def st_record_file_def ask_world_def tell_world_def st_all_reviews_def liftS_def
      split: sum.splits prod.splits)

end
