(* ===== verification/Ingestion.thy ===== *)
theory Ingestion
  imports IngestStore
begin

text \<open>
  The ingestion service, \<^verbatim>\<open>ingestion/service.py\<close>: upload, staging, mapping, normalisation,
  review decisions and import, every method an action on the state of \<^verbatim>\<open>IngestStore\<close>. Cleaning,
  parsing, the reshaping of wide marks sheets and the table of canonical records are in \<open>ing_lib\<close>.
\<close>

record ing_service =
  sv_engine :: engine
  sv_max_upload :: nat
  sv_max_rows :: nat
  sv_auto_commit :: bool
  sv_restart_after :: int

subsection \<open>Reading stored documents\<close>

text \<open>\<^verbatim>\<open>(d.get(k) or {})\<close> and lists of texts inside a JSON column.\<close>

definition sub_dict :: "pyval dict \<Rightarrow> string \<Rightarrow> pyval dict" where
  "sub_dict d k = (case get_or_none d k of PDict e \<Rightarrow> e | _ \<Rightarrow> [])"

definition str_list :: "pyval \<Rightarrow> string list" where
  "str_list v = keep_some (map as_str (case v of PList xs \<Rightarrow> xs | _ \<Rightarrow> []))"

definition str_dict :: "pyval dict \<Rightarrow> string dict" where
  "str_dict d = keep_some (map (\<lambda>(k, v). case v of PStr s \<Rightarrow> Some (k, s) | _ \<Rightarrow> None) d)"

definition pystr_dict :: "string dict \<Rightarrow> pyval dict" where
  "pystr_dict d = map (\<lambda>(k, s). (k, PStr s)) d"

definition job_headers :: "job_row \<Rightarrow> string list" where
  "job_headers r = str_list (get_or_none (sub_dict (ij_report r) ''selected_table'') ''headers'')"

abbreviation rep_of :: "'w ing_lib \<Rightarrow> pyval \<Rightarrow> string" where
  "rep_of L \<equiv> al_repr (ml_lib (il_map L))"

definition text_of :: "'w ing_lib \<Rightarrow> pyval \<Rightarrow> string" where
  "text_of L v = py_str (rep_of L) v"

definition del_key :: "pyval dict \<Rightarrow> string \<Rightarrow> pyval dict" where
  "del_key d k = filter (\<lambda>(x, v). x \<noteq> k) d"

definition set_all :: "pyval dict \<Rightarrow> pyval dict \<Rightarrow> pyval dict" where
  "set_all d es = foldl (\<lambda>acc (k, v). dict_set acc k v) d es"

definition EXAM_HEADERS :: "string list" where
  "EXAM_HEADERS = [''student_id'', ''student_name'', ''course_code'', ''course_name'', ''exam_name'', ''marks_obtained'', ''result_status'']"

definition reshaped_entity :: "string list \<Rightarrow> string option" where
  "reshaped_entity headers = (if set EXAM_HEADERS \<subseteq> set headers then Some ''exam'' else None)"

definition job_of :: "string \<Rightarrow> string \<Rightarrow> ('w ing, job_row) act" where
  "job_of i j = bindS (st_get_job i j) (\<lambda>r. case r of Some x \<Rightarrow> retS x
     | None \<Rightarrow> failS (Raised (KeyError (''ingestion job not found: '' @ j))))"

subsection \<open>Upload\<close>

definition job_options :: "ing_service \<Rightarrow> pyval dict \<Rightarrow> pyval dict" where
  "job_options S options = (if dict_has options ''auto_commit'' then options else dict_set options ''auto_commit'' (PBool (sv_auto_commit S)))"

definition upload :: "ing_service \<Rightarrow> 'w ing_lib \<Rightarrow> string \<Rightarrow> string \<Rightarrow> string \<Rightarrow> string \<Rightarrow> string \<Rightarrow> string option \<Rightarrow> pyval dict \<Rightarrow> ('w ing, job_row) act" where
  "upload S L i who file content ctype hint options =
     (if content = [] then failS (IngestionError ''the uploaded file is empty'')
      else if sv_max_upload S < length content
        then failS (IngestionError (''the uploaded file exceeds the '' @ nat_digits (sv_max_upload S) @ '' byte limit''))
      else if hint \<noteq> None \<and> hint \<noteq> Some [] \<and> dict_get CANONICAL_ENTITIES (the hint) = None
        then failS (IngestionError (''unknown entity: '' @ the hint))
      else bindS (liftS (il_safe_name L file)) (\<lambda>name.
        bindS (fresh L) (\<lambda>u. let fid = ''file-'' @ u in
        bindS (liftS (il_object_key L i ''raw'' fid name)) (\<lambda>key.
        bindS (tell_world (il_put L key content ctype)) (\<lambda>(size, sha).
        thenS (st_record_file L i \<lparr>fi_id = fid, fi_institution_id = i, fi_file_name = name, fi_content_type = ctype, fi_size_bytes = size,
            fi_sha256 = sha, fi_object_key = key, fi_file_kind = il_file_kind L name content ctype, fi_uploaded_by = who, fi_uploaded_at = 0\<rparr>)
        (bindS (fresh L) (\<lambda>v. st_create L i (''job-'' @ v) (Some fid) hint who ''upload'' (job_options S options))))))))"

subsection \<open>Staging\<close>

definition raw_value :: "'w ing_lib \<Rightarrow> pyval \<Rightarrow> pyval" where
  "raw_value L v = (case v of PList _ \<Rightarrow> PStr (text_of L v) | PTuple _ \<Rightarrow> PStr (text_of L v) | PDict _ \<Rightarrow> PStr (text_of L v) | _ \<Rightarrow> v)"

definition staged_item_of :: "'w ing_lib \<Rightarrow> source_row \<times> pyval dict \<times> int \<Rightarrow> staged_item" where
  "staged_item_of L = (\<lambda>(r, d, n). \<lparr>it_row_number = n, it_locator = sr_locator r, it_raw = Some (map (\<lambda>(k, v). (k, raw_value L v)) d),
     it_normalized = Some [(''_ocr'', PBool (sr_ocr r)), (''_ocr_confidence'', sr_ocr_confidence r)],
     it_status = Some ''parsed'', it_action = Some ''pending'', it_record_key = None, it_issues = Some []\<rparr>)"

definition sheet_names :: "parsed_table list \<Rightarrow> pyval" where
  "sheet_names ts = PList (map (PStr \<circ> pt_name) ts)"

text \<open>One queued job per other group of sheets, under an identifier that a second parse finds again.\<close>

definition sibling_id :: "'w ing_lib \<Rightarrow> job_row \<Rightarrow> parsed_table list \<Rightarrow> string" where
  "sibling_id L r ts = ''job-'' @ il_uuid5 L (py_join ''|'' (ij_id r # map pt_name ts))"

definition sibling_options :: "job_row \<Rightarrow> parsed_table list \<Rightarrow> pyval dict" where
  "sibling_options r ts = set_all (filter (\<lambda>(k, v). k \<notin> {''sheet'', ''sheets'', ''origin_job_id''}) (ij_options r))
     [(''sheets'', sheet_names ts), (''origin_job_id'', PStr (ij_id r))]"

definition split_one :: "'w ing_lib \<Rightarrow> string \<Rightarrow> job_row \<Rightarrow> parsed_table list \<Rightarrow> ('w ing, pyval) act" where
  "split_one L i r ts = (let sid = sibling_id L r ts in
     bindS (st_get_job i sid) (\<lambda>old.
       let out = retS (PDict [(''job_id'', PStr sid), (''sheets'', sheet_names ts), (''rows'', PInt (int (sum_list (map row_count ts))))])
       in case old of Some x \<Rightarrow> out
          | None \<Rightarrow> thenS (st_create L i sid (ij_file_id r) (ij_entity r) (ij_requested_by r)
                (if ij_source_kind r = [] then ''upload'' else ij_source_kind r) (sibling_options r ts)) out))"

definition split_off :: "'w ing_lib \<Rightarrow> string \<Rightarrow> job_row \<Rightarrow> parsed_table list list \<Rightarrow> ('w ing, pyval list) act" where
  "split_off L i r groups = each (split_one L i r) groups"

definition other_jobs :: "job_row \<Rightarrow> pyval list" where
  "other_jobs r = (case get_or_none (sub_dict (ij_report r) ''sheets'') ''other_jobs'' of PList xs \<Rightarrow> xs | _ \<Rightarrow> [])"

definition queued_siblings :: "'w ing_lib \<Rightarrow> string \<Rightarrow> job_row \<Rightarrow> ('w ing, job_row list) act" where
  "queued_siblings L i r = bindS (each (\<lambda>x. st_get_job i (text_of L (issue_get x ''job_id''))) (other_jobs r)) (\<lambda>found.
     retS (filter (\<lambda>x. ij_status x = ''queued'') (keep_some found)))"

text \<open>The summaries of the reshape for the sheets of this job, with the rows the limit leaves.\<close>

definition reshape_summaries :: "parse_result \<Rightarrow> parsed_table list \<Rightarrow> (source_row \<times> 'b) list \<Rightarrow> pyval list" where
  "reshape_summaries result tables rows =
     map (\<lambda>x. let name = issue_get x ''sheet'';
          kept = length (filter (\<lambda>(r, b). list_ex (\<lambda>t. PStr (pt_name t) = name \<and> r \<in> set (pt_records t)) tables) rows)
        in case x of PDict d \<Rightarrow> PDict (set_all d [(''staged_rows'', PInt (int kept)),
             (''truncated'', PBool (case get_or_none d ''exam_rows'' of PInt n \<Rightarrow> int kept < n | _ \<Rightarrow> False))]) | _ \<Rightarrow> x)
       (filter (\<lambda>x. issue_get x ''sheet'' \<in> (\<lambda>t. PStr (pt_name t)) ` set tables)
         (case get_or_none (pr_metadata result) ''reshaped_marks'' of PList xs \<Rightarrow> xs | _ \<Rightarrow> []))"

definition table_warnings :: "parsed_table list \<Rightarrow> pyval" where
  "table_warnings ts = PList (map PStr (concat (map (\<lambda>t. if 1 < length ts then map (\<lambda>w. pt_name t @ '': '' @ w) (pt_warnings t) else pt_warnings t) ts)))"

definition parse_report :: "parse_result \<Rightarrow> parsed_table list \<Rightarrow> string list \<Rightarrow> nat \<Rightarrow> nat \<Rightarrow> pyval list \<Rightarrow> pyval dict \<Rightarrow> pyval dict" where
  "parse_report result tables headers kept all reshaped d =
     (let e = set_all d [(''parse'', PDict (parse_result_as_dict result)),
        (''selected_table'', PDict [(''name'', PStr (py_join '', '' (map pt_name tables))), (''headers'', PList (map PStr headers)),
           (''rows'', PInt (int kept)), (''truncated'', PBool (kept < all)), (''warnings'', table_warnings tables)])];
          f = del_key e ''reshaped_marks''
      in if reshaped = [] then f else dict_set f ''reshaped_marks'' (PList reshaped))"

definition stage_parsed_rows :: "ing_service \<Rightarrow> 'w ing_lib \<Rightarrow> string \<Rightarrow> job_row \<Rightarrow> parse_result \<Rightarrow> ('w ing, job_row) act" where
  "stage_parsed_rows S L i r result =
     bindS (refuseS (select_tables (ml_lib (il_map L)) (get_or_none (ij_options r) ''sheet'') (str_list (get_or_none (ij_options r) ''sheets''))
       (ij_file_id r \<noteq> None \<and> ij_file_id r \<noteq> Some []) result)) (\<lambda>(tables, others, skipped).
     case merge_sheets tables of (headers, merged) \<Rightarrow>
     let rows = staged_rows_of (sv_max_rows S) merged; name = py_join '', '' (map pt_name tables);
         report = parse_report result tables headers (length rows) (length merged) (reshape_summaries result tables rows) (ij_report r)
     in thenS (st_replace L i (ij_id r) (map (staged_item_of L) rows))
        (bindS (if others \<noteq> [] \<or> skipped \<noteq> [] \<or> 1 < length tables
             then bindS (split_off L i r others) (\<lambda>made. retS (dict_set report ''sheets'' (PDict [(''this_job'', sheet_names tables),
                (''other_jobs'', PList made),
                (''skipped'', PList (map (\<lambda>(n, w). PDict [(''sheet'', PStr n), (''reason'', PStr w)]) skipped))])))
             else retS report)
          (\<lambda>final. st_update L i (ij_id r) [JRowCount (int (length rows)), JSheetName (Some name), JReport final, JStage ''mapping''])))"

definition create_job_from_parse_result :: "ing_service \<Rightarrow> 'w ing_lib \<Rightarrow> string \<Rightarrow> string \<Rightarrow> parse_result \<Rightarrow> string \<Rightarrow> string option \<Rightarrow> pyval dict
    \<Rightarrow> ('w ing, job_row) act" where
  "create_job_from_parse_result S L i who result kind hint options =
     bindS (fresh L) (\<lambda>u.
     bindS (st_create L i (''job-'' @ u) None hint who kind (dict_set (job_options S options) ''source_label'' (PStr (pr_file_name result)))) (\<lambda>r.
     thenS (stage_parsed_rows S L i r (il_reshape L result hint))
     (bindS (st_get_job i (''job-'' @ u)) (\<lambda>x. retS (case x of Some y \<Rightarrow> y | None \<Rightarrow> r)))))"

definition parse_file :: "'w ing_lib \<Rightarrow> string \<Rightarrow> job_row \<Rightarrow> string \<Rightarrow> ('w ing, parse_result) act" where
  "parse_file L i r f = bindS (st_get_file i f) (\<lambda>x. case x of
      None \<Rightarrow> failS (IngestionError ''the uploaded file record is missing'')
    | Some fr \<Rightarrow> bindS (ask_world (il_get L (fi_object_key fr))) (\<lambda>content.
        bindS (liftS (il_parse L (fi_file_name fr) content (fi_content_type fr))) (\<lambda>result. retS (il_reshape L result (ij_entity r)))))"

subsection \<open>Import\<close>

definition skip_reason :: "'w ing_lib \<Rightarrow> staged_row \<Rightarrow> string" where
  "skip_reason L r = (if ir_status r = ''rejected'' then ''blocking_issues''
     else if ir_action r = ''missing_key'' then ''missing_natural_key''
     else if ir_action r \<noteq> [] then ir_action r else ir_status r)"

definition importable :: "string set \<Rightarrow> staged_row \<Rightarrow> bool" where
  "importable skip r = (ir_status r \<in> {''ready'', ''review''} \<and> ir_locator r \<notin> skip)"

definition skip_reasons :: "'w ing_lib \<Rightarrow> string set \<Rightarrow> staged_row list \<Rightarrow> string list" where
  "skip_reasons L skip rows = map (\<lambda>r. if ir_status r \<in> {''ready'', ''review''} then ''duplicate_review_decision'' else skip_reason L r)
     (filter (\<lambda>r. \<not> importable skip r) rows)"

definition count_reasons :: "string list \<Rightarrow> int dict" where
  "count_reasons rs = map (\<lambda>x. (x, int (count_list rs x))) (keep_first rs)"

definition source_label :: "'w ing_lib \<Rightarrow> job_row \<Rightarrow> string" where
  "source_label L r = text_of L (py_or (py_or (get_or_none (sub_dict (ij_report r) ''parse'') ''file_name'')
     (get_or_none (ij_options r) ''source_label'')) (PStr []))"

definition py_list :: "pyval \<Rightarrow> pyval list" where
  "py_list v = (case v of PList xs \<Rightarrow> xs | PTuple xs \<Rightarrow> xs | _ \<Rightarrow> [])"

definition import_record :: "'w ing_lib \<Rightarrow> job_row \<Rightarrow> canonical_entity \<Rightarrow> staged_row \<Rightarrow> canonical_record" where
  "import_record L r e x = \<lparr>cr_entity = ce_name e, cr_fields = sub_dict (ir_normalized x) ''fields'', cr_attributes = sub_dict (ir_normalized x) ''attributes'',
     cr_normalizations = py_list (get_or_none (ir_normalized x) ''normalizations''), cr_issues = ir_issues x,
     cr_lineage = \<lparr>ln_file_id = ij_file_id r, ln_file_name = Some (source_label L r), ln_locator = Some (ir_locator x), ln_job_id = Some (ij_id r)\<rparr>\<rparr>"

text \<open>The column that names each row's sheet, when the job holds several.\<close>

definition sheet_column :: "job_row \<Rightarrow> string option" where
  "sheet_column r = (if job_headers r \<noteq> [] \<and> 1 < length (py_list (get_or_none (sub_dict (ij_report r) ''sheets'') ''this_job''))
     then Some (last (job_headers r)) else None)"

definition add_reasons :: "int dict \<Rightarrow> int dict \<Rightarrow> int dict" where
  "add_reasons base extra = foldl (\<lambda>d (k, n). dict_set d k ((case dict_get d k of Some m \<Rightarrow> m | None \<Rightarrow> 0) + n)) base extra"

definition merge_message :: "'w ing_lib \<Rightarrow> import_summary \<Rightarrow> pyval dict" where
  "merge_message L m = (case dict_get (sm_skipped_reasons m) ''blocking_issues_after_merge'' of
      Some n \<Rightarrow> if n = 0 then [] else
        (let checks = map (\<lambda>x. text_of L (issue_get x ''field'') @ '' '' @ text_of L (issue_get x ''code''))
               (concat (map (\<lambda>k. py_list (issue_get k ''issues'')) (sm_skipped_keys m)))
         in [(''message'', PStr (take 500 (int_str n @ '' rows were not imported: with the values already stored they fail a check (''
              @ py_join '', '' (map fst (take 3 (most_common checks))) @ ''; see skipped_keys_sample), so those records were left as they were'')))])
    | None \<Rightarrow> [])"

definition run_import :: "ing_service \<Rightarrow> 'w ing_lib \<Rightarrow> string \<Rightarrow> job_row \<Rightarrow> canonical_entity \<Rightarrow> string set \<Rightarrow> string \<Rightarrow> ('w ing, job_row) act" where
  "run_import S L i r e skip who =
     bindS (st_records i (ij_id r) (int (sv_max_rows S))) (\<lambda>staged.
     let records = map (import_record L r e) (filter (importable skip) staged); reasons = skip_reasons L skip staged;
         counted = count_reasons reasons; skipped = int (length reasons);
         finish = (\<lambda>d. st_update L i (ij_id r) [JStatus ''imported'', JStage ''done'', JReport (dict_set (ij_report r) ''import'' (PDict d))])
     in if records = []
        then finish [(''entity'', PStr (ce_name e)), (''inserted'', PInt 0), (''updated'', PInt 0), (''unchanged'', PInt 0), (''skipped'', PInt skipped),
               (''skipped_reasons'', PDict (map (\<lambda>(k, n). (k, PInt n)) counted)), (''committed_by'', PStr who),
               (''message'', PStr ''no rows were eligible for import'')]
        else bindS (tell_world (il_upsert L i records (keep_first (concat (map (dict_keys \<circ> cr_fields) records)))
               (case sheet_column r of Some c \<Rightarrow> [c] | None \<Rightarrow> []))) (\<lambda>m.
          let total = m\<lparr>sm_skipped := sm_skipped m + skipped, sm_skipped_reasons := add_reasons (sm_skipped_reasons m) counted\<rparr>
          in finish (set_all (summary_as_dict total) ([(''committed_by'', PStr who), (''rows_considered'', PInt (int (length staged)))] @ merge_message L total))))"

subsection \<open>What the reviewer's decisions keep out\<close>

definition key_text :: "staged_row option \<Rightarrow> string" where
  "key_text x = (case x of Some r \<Rightarrow> (case ir_record_key r of Some k \<Rightarrow> k | None \<Rightarrow> []) | None \<Rightarrow> [])"

text \<open>A dict comprehension by locator: the last row with a locator counts.\<close>

definition by_locator :: "staged_row list \<Rightarrow> staged_row dict" where
  "by_locator rows = foldl (\<lambda>d r. dict_set d (ir_locator r) r) [] rows"

record skips =
  sk_locators :: "string set"
  sk_dropped :: "string set"
  sk_chosen :: "(int \<times> string) dict"

definition drop_row :: "staged_row dict \<Rightarrow> string \<Rightarrow> skips \<Rightarrow> skips" where
  "drop_row rows l k = (let key = key_text (dict_get rows l)
     in if no_key key then k\<lparr>sk_locators := insert l (sk_locators k)\<rparr> else k\<lparr>sk_dropped := insert key (sk_dropped k)\<rparr>)"

definition choose_row :: "staged_row dict \<Rightarrow> string \<Rightarrow> skips \<Rightarrow> skips" where
  "choose_row rows l k = (case dict_get rows l of
      Some r \<Rightarrow>
        (let key = key_text (Some r) in
         if ir_status r \<in> {''ready'', ''review''} \<and> \<not> no_key key
            \<and> (case dict_get (sk_chosen k) key of None \<Rightarrow> True | Some (n, x) \<Rightarrow> n < ir_row_number r)
         then k\<lparr>sk_chosen := dict_set (sk_chosen k) key (ir_row_number r, l)\<rparr> else k)
    | None \<Rightarrow> k)"

definition decide_item :: "'w ing_lib \<Rightarrow> staged_row dict \<Rightarrow> string set \<Rightarrow> review_row \<Rightarrow> skips \<Rightarrow> skips" where
  "decide_item L rows existing item k =
     (let left = text_of L (py_or (get_or_none (rv_payload item) ''left_locator'') (PStr []));
          right = get_or_none (rv_payload item) ''right_locator''; known = (\<lambda>l. key_text (dict_get rows l) \<in> existing)
      in if get_or_none (rv_payload item) ''kind'' = PStr ''conflicting_key''
         then (if rv_status item = ''approved'' then k\<lparr>sk_locators := insert left (sk_locators k)\<rparr> else choose_row rows left k)
         else if rv_status item \<noteq> ''approved'' then k
         else if \<not> truthy right then (if known left then k else drop_row rows left k)
         else (let other = text_of L right in
            if known left \<and> \<not> known other then drop_row rows other k
            else if known other \<and> \<not> known left then drop_row rows left k
            else if \<not> known left \<and> \<not> known other then drop_row rows other k
            else k))"

definition decided_items :: "pyval \<Rightarrow> review_row list \<Rightarrow> review_row list" where
  "decided_items run items = filter (\<lambda>x. rv_kind x = ''duplicate'' \<and> rv_status x \<in> {''approved'', ''rejected''}
     \<and> rv_resolved_by x \<noteq> Some ''system'' \<and> get_or_none (rv_payload x) ''normalization_run'' = run) items"

definition not_chosen :: "staged_row dict \<Rightarrow> (int \<times> string) dict \<Rightarrow> string set" where
  "not_chosen rows chosen = (\<Union>(key, n, keep) \<in> set chosen. fst ` set (filter (\<lambda>(l, r). ir_record_key r = Some key \<and> l \<noteq> keep) rows))"

definition dropped_rows :: "staged_row dict \<Rightarrow> string set \<Rightarrow> string set" where
  "dropped_rows rows dropped = fst ` set (filter (\<lambda>(l, r). ir_record_key r \<in> Some ` dropped) rows)"

definition rows_to_skip :: "'w ing_lib \<Rightarrow> staged_row dict \<Rightarrow> string set \<Rightarrow> review_row list \<Rightarrow> string set" where
  "rows_to_skip L rows existing items =
     (let k = fold (decide_item L rows existing) items \<lparr>sk_locators = {}, sk_dropped = {}, sk_chosen = []\<rparr>
      in sk_locators k \<union> not_chosen rows (sk_chosen k) \<union> dropped_rows rows (sk_dropped k))"

definition staged_keys :: "staged_row list \<Rightarrow> string list" where
  "staged_keys rows = sort (remdups (filter (\<lambda>k. \<not> no_key k) (map (\<lambda>r. key_text (Some r)) rows)))"

definition locators_to_skip :: "ing_service \<Rightarrow> 'w ing_lib \<Rightarrow> string \<Rightarrow> job_row \<Rightarrow> canonical_entity \<Rightarrow> review_row list \<Rightarrow> ('w ing, string set) act" where
  "locators_to_skip S L i r e items =
     (let decided = decided_items (get_or_none (sub_dict (ij_report r) ''normalization'') ''run_id'') items
      in if decided = [] then retS {}
         else bindS (st_records i (ij_id r) (int (sv_max_rows S))) (\<lambda>staged.
           let rows = by_locator staged; keys = staged_keys (map snd rows)
           in bindS (if keys = [] then retS [] else ask_world (il_existing L i (ce_name e) keys)) (\<lambda>existing.
             retS (rows_to_skip L rows (fst ` set existing) decided))))"

subsection \<open>Commit\<close>

definition request_commit :: "'w ing_lib \<Rightarrow> string \<Rightarrow> string \<Rightarrow> string \<Rightarrow> ('w ing, job_row) act" where
  "request_commit L i j who =
     bindS (job_of i j) (\<lambda>r.
     if ij_status r \<notin> {''ready'', ''needs_review''} then failS (IngestionError (''job cannot be committed from status '' @ ij_status r))
     else if ij_stage r \<notin> {''ready'', ''duplicate_review''} then failS (IngestionError (''job cannot be committed from stage '' @ ij_stage r))
     else bindS (st_pending i j) (\<lambda>pending.
       let duplicates = length (filter (\<lambda>x. rv_kind x = ''duplicate'') pending)
       in if list_ex (\<lambda>x. rv_kind x = ''mapping'') pending
          then failS (IngestionError ''the mapping still needs review before the job can be committed'')
          else if 0 < duplicates
          then failS (IngestionError (nat_digits duplicates @ '' duplicate review item(s) are still pending; resolve them before committing''))
          else st_update L i j [JStatus ''processing'', JStage ''importing'',
                 JReport (dict_set (ij_report r) ''commit'' (PDict [(''committed_by'', PStr who)])), JError None]))"

text \<open>\<^verbatim>\<open>type(exc).__name__\<close>.\<close>

definition class_of :: "'w ing_lib \<Rightarrow> ing_error \<Rightarrow> string" where
  "class_of L e = (case e of IngestionError m \<Rightarrow> ''IngestionError'' | ProcessingError m \<Rightarrow> ''ProcessingError''
     | CommitError m \<Rightarrow> ''CommitError'' | Raised x \<Rightarrow> il_error_class L x)"

definition import_failed :: "'w ing_lib \<Rightarrow> ing_error \<Rightarrow> string" where
  "import_failed L x = ''the import failed ('' @ class_of L x @ ''); the job can be committed again once the cause is fixed''"

definition entity_of_job :: "job_row \<Rightarrow> ('w ing, canonical_entity) act" where
  "entity_of_job r = (case ij_entity r of
      Some n \<Rightarrow> (case dict_get CANONICAL_ENTITIES n of Some e \<Rightarrow> retS e | None \<Rightarrow> failS (Raised (KeyError n)))
    | None \<Rightarrow> failS (Raised (KeyError ''None'')))"

definition run_commit :: "ing_service \<Rightarrow> 'w ing_lib \<Rightarrow> string \<Rightarrow> string \<Rightarrow> ('w ing, job_row) act" where
  "run_commit S L i j =
     bindS (job_of i j) (\<lambda>r.
     let who = text_of L (py_or (get_or_none (sub_dict (ij_report r) ''commit'') ''committed_by'') (PStr (ij_requested_by r)))
     in catchS
          (bindS (entity_of_job r) (\<lambda>e. bindS (st_all_reviews i j) (\<lambda>items.
             bindS (locators_to_skip S L i r e items) (\<lambda>skip. run_import S L i r e skip who))))
          (\<lambda>x. thenS (st_update L i j [JStatus ''ready'', JStage ''ready'', JError (Some (import_failed L x))])
             (failS (CommitError (import_failed L x)))))"

definition commit :: "ing_service \<Rightarrow> 'w ing_lib \<Rightarrow> string \<Rightarrow> string \<Rightarrow> string \<Rightarrow> ('w ing, job_row) act" where
  "commit S L i j who = thenS (request_commit L i j who) (run_commit S L i j)"

subsection \<open>Normalisation\<close>

definition heartbeat :: "'w ing_lib \<Rightarrow> string \<Rightarrow> string \<Rightarrow> ('w ing, unit) act" where
  "heartbeat L i j = thenS (st_update L i j []) (retS ())"

definition id_field_of :: "canonical_entity \<Rightarrow> string option" where
  "id_field_of e = find (\<lambda>k. list_ex (\<lambda>f. cf_name f = k \<and> cf_type f = T_IDENTIFIER) (ce_fields e)) (ce_natural_key e)"

abbreviation cleaning_of :: "'w ing_lib \<Rightarrow> clean_lib" where
  "cleaning_of L \<equiv> \<lparr>cl_lib = ml_lib (il_map L), cl_round2 = il_round2 L\<rparr>"

text \<open>One row under the mapping: split, cleaned, with where it came from.\<close>

definition normalise_row :: "'w ing_lib \<Rightarrow> canonical_entity \<Rightarrow> string dict \<Rightarrow> string option \<Rightarrow> string \<Rightarrow> string \<Rightarrow> staged_row \<Rightarrow> canonical_record res" where
  "normalise_row L e m fid source j x =
     (case apply_mapping (rep_of L) e m (ir_raw x) of (canonical, extras) \<Rightarrow>
        bindE (clean_record (cleaning_of L) e canonical) (\<lambda>(cleaned, notes, issues). Inr
          \<lparr>cr_entity = ce_name e, cr_fields = cleaned, cr_attributes = extras, cr_normalizations = map PStr notes, cr_issues = issues,
           cr_lineage = \<lparr>ln_file_id = fid, ln_file_name = Some source, ln_locator = Some (ir_locator x), ln_job_id = Some j\<rparr>\<rparr>))"

text \<open>The loop over the staged rows, with a heartbeat every five hundred.\<close>

fun prepare_rows :: "'w ing_lib \<Rightarrow> string \<Rightarrow> string \<Rightarrow> (staged_row \<Rightarrow> canonical_record res) \<Rightarrow> nat \<Rightarrow> staged_row list
    \<Rightarrow> ('w ing, (staged_row \<times> canonical_record) list) act" where
  "prepare_rows L i j f n [] = retS []"
| "prepare_rows L i j f n (x # xs) =
     thenS (if n mod 500 = 0 then heartbeat L i j else retS ())
       (bindS (liftS (f x)) (\<lambda>rec. bindS (prepare_rows L i j f (Suc n) xs) (\<lambda>rest. retS ((x, rec) # rest))))"

text \<open>Headers of row-number columns: under a serial header, counting from one down every sheet.\<close>

definition serial_text :: "'w ing_lib \<Rightarrow> pyval \<Rightarrow> string" where
  "serial_text L v = (let s = py_strip (text_of L v); paren = (\<lambda>c. c = CHR ''('' \<or> c = CHR '')'')
     in py_rstrip_char CHR ''.'' (rev (dropWhile paren (rev (dropWhile paren s)))))"

definition serial_cells :: "'w ing_lib \<Rightarrow> string option \<Rightarrow> staged_row list \<Rightarrow> ((string \<times> pyval \<times> int) \<times> pyval) list" where
  "serial_cells L column rows = concat (map (\<lambda>x. let sheet = (case column of Some c \<Rightarrow> if c = [] then PNone else get_or_none (ir_raw x) c | None \<Rightarrow> PNone)
     in map (\<lambda>(h, v). ((h, sheet, ir_row_number x), v)) (filter (\<lambda>(h, v). serial_header h \<and> filled (ml_lib (il_map L)) v) (ir_raw x))) rows)"

fun first_cells :: "'k list \<Rightarrow> ('k \<times> 'v) list \<Rightarrow> ('k \<times> 'v) list" where
  "first_cells seen [] = []"
| "first_cells seen ((k, v) # xs) = (if k \<in> set seen then first_cells seen xs else (k, v) # first_cells (k # seen) xs)"

definition row_number_columns :: "'w ing_lib \<Rightarrow> staged_row list \<Rightarrow> string option \<Rightarrow> string set" where
  "row_number_columns L rows column =
     (let cells = map (\<lambda>((h, sheet, n), v). ((h, sheet), serial_text L v)) (first_cells [] (serial_cells L column rows));
          groups = keep_first (map fst cells);
          column_of = (\<lambda>g. map snd (filter (\<lambda>(k, s). k = g) cells));
          counting = (\<lambda>vs. counts_rows (ml_lib (il_map L)) vs \<and> cell_number (ml_lib (il_map L)) (hd vs) = Some (Finite_float 1))
      in fst ` set groups - fst ` set (filter (\<lambda>g. \<not> counting (column_of g)) groups))"

definition ocr_flags :: "staged_row \<Rightarrow> bool \<times> pyval" where
  "ocr_flags x = (truthy (case dict_get (ir_normalized x) ''_ocr'' of Some v \<Rightarrow> v | None \<Rightarrow> PBool False), get_or_none (ir_normalized x) ''_ocr_confidence'')"

definition record_keyed :: "'w ing_lib \<Rightarrow> canonical_entity \<Rightarrow> canonical_record \<Rightarrow> string" where
  "record_keyed L e r = record_key_for (rep_of L) e (cr_fields r)"

definition validated :: "'w ing_lib \<Rightarrow> canonical_entity \<Rightarrow> string option \<Rightarrow> staged_row \<times> canonical_record \<Rightarrow> canonical_record res" where
  "validated L e pattern = (\<lambda>(x, r). case ocr_flags x of (ocr, conf) \<Rightarrow>
     bindE (validate_record (ml_lib (il_map L)) e (cr_fields r) ocr conf pattern) (\<lambda>issues. Inr (r\<lparr>cr_issues := cr_issues r @ issues\<rparr>)))"

text \<open>Marks a reshaped sheet would replace: the same marks again are no question.\<close>

definition MARK_FIELDS :: "string list" where "MARK_FIELDS = [''marks_obtained'', ''max_marks'', ''grade'', ''result_status'']"

definition same_value :: "'w ing_lib \<Rightarrow> pyval \<Rightarrow> pyval \<Rightarrow> bool res" where
  "same_value L new stored =
     (let texts = Inr (py_lower (py_strip (text_of L new)) = py_lower (py_strip (text_of L stored)))
      in if empty_val stored then Inr False
         else case float_of (ml_lib (il_map L)) new of
             Inl (OtherError m) \<Rightarrow> Inl (OtherError m) | Inl _ \<Rightarrow> texts
           | Inr a \<Rightarrow> (case float_of (ml_lib (il_map L)) stored of
                 Inl (OtherError m) \<Rightarrow> Inl (OtherError m) | Inl _ \<Rightarrow> texts
               | Inr b \<Rightarrow> Inr (pf_le a b \<and> pf_le b a)))"

definition differing_marks :: "'w ing_lib \<Rightarrow> pyval dict \<Rightarrow> pyval dict \<Rightarrow> string list res" where
  "differing_marks L new stored =
     bindE (mapE (\<lambda>n. bindE (same_value L (get_or_none new n) (get_or_none stored n)) (\<lambda>b. Inr (n, b)))
       (filter (\<lambda>n. \<not> empty_val (get_or_none new n)) MARK_FIELDS)) (\<lambda>ms. Inr (map fst (filter (\<lambda>(n, b). \<not> b) ms)))"

definition marks_question :: "'w ing_lib \<Rightarrow> canonical_entity \<Rightarrow> canonical_record list \<Rightarrow> (string \<times> pyval dict) list \<Rightarrow> nat \<times> string
    \<Rightarrow> (nat \<times> string \<times> candidate option) res" where
  "marks_question L e records existing = (\<lambda>(k, a).
     if a \<noteq> ''update'' then Inr (k, a, None)
     else let r = records ! k; key = record_keyed L e r; stored = (case map_of existing key of Some d \<Rightarrow> d | None \<Rightarrow> [])
       in bindE (differing_marks L (cr_fields r) stored) (\<lambda>ds. Inr (if ds = [] then (k, a, None)
          else (k, ''replaces_stored_marks'', Some \<lparr>cd_kind = ''conflicting_key'',
             cd_left = (case ln_locator (cr_lineage r) of Some l \<Rightarrow> if l = [] then ''row='' @ nat_digits (k + 1) else l | None \<Rightarrow> ''row='' @ nat_digits (k + 1)),
             cd_right = None, cd_key = Some key, cd_score = 95 / 100,
             cd_evidence = [(''differing_fields'', PList (map PStr ds)), (''exam_name'', get_or_none (cr_fields r) ''exam_name''),
               (''stored'', PDict (map (\<lambda>n. (n, get_or_none stored n)) ds)), (''new'', PDict (map (\<lambda>n. (n, get_or_none (cr_fields r) n)) ds))]\<rparr>))))"

text \<open>Duplicates among the importable rows, as questions, actions by row and warnings.\<close>

definition judge_rows :: "'w ing_lib \<Rightarrow> canonical_entity \<Rightarrow> bool \<Rightarrow> canonical_record list \<Rightarrow> (string \<times> pyval dict) list
    \<Rightarrow> (candidate list \<times> (nat \<times> string) list \<times> string list) res" where
  "judge_rows L e reshaped records existing =
     (let ok = filter (\<lambda>k. \<not> has_blocking_issues (records ! k)) [0..<length records];
          rows = map (\<lambda>k. \<lparr>du_key = record_keyed L e (records ! k), du_hash = content_hash (il_hash L) (records ! k),
             du_locator = ln_locator (cr_lineage (records ! k)), du_fields = cr_fields (records ! k)\<rparr>) ok
      in case find_duplicates (il_map L) (ce_name e) rows existing of (cs, found, warnings) \<Rightarrow>
         let actions = map (\<lambda>(p, a). (ok ! p, a)) found
         in if ce_name e = ''exam'' \<and> reshaped
            then bindE (mapE (marks_question L e records existing) actions) (\<lambda>qs.
              let asked = keep_some (map (\<lambda>(k, a, q). q) qs);
                  exams = sort (remdups (map (\<lambda>c. text_of L (get_or_none (cd_evidence c) ''exam_name'')) asked))
              in Inr (cs @ asked, map (\<lambda>(k, a, q). (k, a)) qs, warnings @ (if asked = [] then [] else
                [nat_digits (length asked) @ '' rows would replace marks already stored for exam '' @ py_join '', '' exams
                 @ ''; each waits for a decision: keep the stored marks or use the row''])))
            else Inr (cs, actions, warnings))"

definition row_status :: "bool \<Rightarrow> string \<Rightarrow> string" where
  "row_status blocked a = (if blocked then ''rejected''
     else if a \<in> {''duplicate_in_batch'', ''missing_key''} then ''skipped''
     else if a \<in> {''conflict_in_batch'', ''replaces_stored_marks''} then ''review'' else ''ready'')"

definition normalised_item :: "'w ing_lib \<Rightarrow> canonical_entity \<Rightarrow> (nat \<times> string) list \<Rightarrow> nat \<times> staged_row \<times> canonical_record \<Rightarrow> staged_item" where
  "normalised_item L e actions = (\<lambda>(k, x, r).
     let a = (case map_of actions k of Some a \<Rightarrow> a | None \<Rightarrow> ''insert'') in
     \<lparr>it_row_number = ir_row_number x, it_locator = ir_locator x, it_raw = Some (ir_raw x),
      it_normalized = Some [(''fields'', PDict (cr_fields r)), (''attributes'', PDict (cr_attributes r)), (''normalizations'', PList (cr_normalizations r)),
         (''_ocr'', PBool (fst (ocr_flags x))), (''_ocr_confidence'', snd (ocr_flags x))],
      it_status = Some (row_status (has_blocking_issues r) a), it_action = Some a, it_record_key = Some (record_keyed L e r), it_issues = Some (cr_issues r)\<rparr>)"

definition count_status :: "string \<Rightarrow> staged_item list \<Rightarrow> pyval" where
  "count_status st items = PInt (int (length (filter (\<lambda>x. it_status x = Some st) items)))"

definition note_kind :: "'w ing_lib \<Rightarrow> pyval \<Rightarrow> string" where
  "note_kind L v = (let s = text_of L v; rest = dropWhile (\<lambda>c. c \<noteq> CHR '':'') s in if rest = [] then s else tl rest)"

definition normalization_report :: "'w ing_lib \<Rightarrow> canonical_entity \<Rightarrow> canonical_record list \<Rightarrow> staged_item list \<Rightarrow> (nat \<times> string) list \<Rightarrow> candidate list
    \<Rightarrow> string list \<Rightarrow> string option \<Rightarrow> string \<Rightarrow> pyval dict" where
  "normalization_report L e records items actions cs warnings pattern run = [
     (''entity'', PStr (ce_name e)), (''rows'', PInt (int (length records))),
     (''rows_ready'', count_status ''ready'' items), (''rows_rejected'', count_status ''rejected'' items),
     (''rows_skipped'', count_status ''skipped'' items), (''rows_in_review'', count_status ''review'' items),
     (''planned_actions'', PDict (map (\<lambda>(k, n). (k, PInt n)) (count_reasons (map snd actions)))),
     (''issues'', PDict (summarize_issues (ml_lib (il_map L)) (map cr_issues records))),
     (''duplicate_candidates'', PList (map (PDict \<circ> candidate_as_dict (ml_lib (il_map L))) (take 100 cs))),
     (''normalizations_applied'', PList (map PStr (sort (remdups (map (note_kind L) (concat (map cr_normalizations records))))))),
     (''identifier_pattern'', opt_str pattern), (''warnings'', PList (map PStr warnings)), (''run_id'', PStr run)]"

text \<open>Why no row can be imported, in words for the uploader.\<close>

definition nothing_importable :: "'w ing_lib \<Rightarrow> staged_item list \<Rightarrow> string" where
  "nothing_importable L items =
     (let rejected = filter (\<lambda>x. it_status x = Some ''rejected'') items;
          errors = map (\<lambda>v. text_of L (issue_get v ''field'') @ '' '' @ text_of L (issue_get v ''code''))
             (filter is_error (concat (map (\<lambda>x. opt_or (it_issues x) []) rejected)));
          no_id = length (filter (\<lambda>x. it_status x \<noteq> Some ''rejected'' \<and> it_action x = Some ''missing_key'') items);
          detail = py_join '', '' (map (\<lambda>(n, c). n @ '' ('' @ nat_digits c @ '')'') (take 3 (most_common errors)));
          reasons = (if rejected = [] then [] else [nat_digits (length rejected) @ '' have errors'' @ (if detail = [] then [] else '': '' @ detail)])
             @ (if no_id = 0 then [] else [nat_digits no_id @ '' have no identifier''])
      in take 500 (''none of the '' @ nat_digits (length items) @ '' rows can be imported ('' @
           (if reasons = [] then ''no row is eligible'' else py_join ''; '' reasons)
           @ ''); check the column mapping and the file, then retry the job to map it again''))"

definition question_items :: "'w ing_lib \<Rightarrow> candidate list \<Rightarrow> string \<Rightarrow> (string \<times> pyval dict) list" where
  "question_items L cs run = map (\<lambda>c. (''duplicate'', candidate_as_dict (ml_lib (il_map L)) c @ [(''normalization_run'', PStr run)]))
     (filter (\<lambda>c. cd_kind c \<in> {''conflicting_key'', ''probable_person''}) cs)"

text \<open>What follows once the rows are judged: failed, in review, or ready (and imported).\<close>

definition after_judging :: "ing_service \<Rightarrow> 'w ing_lib \<Rightarrow> string \<Rightarrow> job_row \<Rightarrow> pyval dict \<Rightarrow> staged_item list \<Rightarrow> (string \<times> pyval dict) list
    \<Rightarrow> ('w ing, unit) act \<Rightarrow> ('w ing, job_row) act" where
  "after_judging S L i r report items questions before =
     (if \<not> list_ex (\<lambda>x. it_status x \<in> {Some ''ready'', Some ''review''}) items
      then st_update L i (ij_id r) [JStatus ''failed'', JStage ''normalizing'', JReport report, JError (Some (nothing_importable L items))]
      else if questions \<noteq> []
      then thenS (st_add_reviews L i (ij_id r) questions)
             (st_update L i (ij_id r) [JStatus ''needs_review'', JStage ''duplicate_review'', JReport report])
      else bindS (st_update L i (ij_id r) [JStatus ''ready'', JStage ''ready'', JReport report]) (\<lambda>r'.
             thenS before (if truthy (get_or_none (ij_options r') ''auto_commit'') then commit S L i (ij_id r) (ij_requested_by r') else retS r')))"

definition PEOPLE_CHECKED :: "string list" where "PEOPLE_CHECKED = [''student'', ''faculty'', ''staff'', ''admission'']"

definition existing_rows :: "'w ing_lib \<Rightarrow> string \<Rightarrow> canonical_entity \<Rightarrow> canonical_record list \<Rightarrow> ('w ing, (string \<times> pyval dict) list) act" where
  "existing_rows L i e records =
     bindS (ask_world (il_existing L i (ce_name e) (filter (\<lambda>k. \<not> no_key k) (map (record_keyed L e) records)))) (\<lambda>found.
     if ce_name e \<in> set PEOPLE_CHECKED
     then bindS (ask_world (il_people L i (ce_name e) (map (\<lambda>r. get_or_none (cr_fields r) ''name'') records,
            map (\<lambda>r. get_or_none (cr_fields r) ''phone'') records, map (\<lambda>r. get_or_none (cr_fields r) ''email'') records))) (\<lambda>people.
          retS (found @ filter (\<lambda>(k, d). k \<notin> fst ` set found) people))
     else retS found)"

definition source_of :: "'w ing_lib \<Rightarrow> string \<Rightarrow> job_row \<Rightarrow> ('w ing, string option \<times> string) act" where
  "source_of L i r = bindS (case ij_file_id r of Some f \<Rightarrow> if f = [] then retS None else st_get_file i f | None \<Rightarrow> retS None) (\<lambda>x.
     retS (case x of Some fr \<Rightarrow> (Some (fi_id fr), fi_file_name fr)
       | None \<Rightarrow> (None, text_of L (py_or (get_or_none (ij_options r) ''source_label'') (PStr (ij_source_kind r))))))"

definition without_row_numbers :: "string set \<Rightarrow> canonical_record \<Rightarrow> canonical_record" where
  "without_row_numbers hs r = r\<lparr>cr_attributes := filter (\<lambda>(h, v). h \<notin> hs) (cr_attributes r)\<rparr>"

definition id_values :: "'w ing_lib \<Rightarrow> canonical_entity \<Rightarrow> canonical_record list \<Rightarrow> string list" where
  "id_values L e records = (case id_field_of e of None \<Rightarrow> []
     | Some f \<Rightarrow> map (\<lambda>r. text_of L (get_or_none (cr_fields r) f)) (filter (\<lambda>r. truthy (get_or_none (cr_fields r) f)) records))"

definition normalize_job :: "ing_service \<Rightarrow> 'w ing_lib \<Rightarrow> string \<Rightarrow> job_row \<Rightarrow> string dict \<Rightarrow> ('w ing, unit) act \<Rightarrow> ('w ing, job_row) act" where
  "normalize_job S L i r m before =
     bindS (entity_of_job r) (\<lambda>e.
     bindS (st_records i (ij_id r) (int (sv_max_rows S))) (\<lambda>staged.
     bindS (source_of L i r) (\<lambda>(fid, source).
     bindS (prepare_rows L i (ij_id r) (normalise_row L e m fid source (ij_id r)) 0 staged) (\<lambda>prepared.
     let hs = row_number_columns L (map fst (filter (\<lambda>(x, c). \<not> no_key (record_keyed L e c)) prepared)) (sheet_column r);
         plain = map (\<lambda>(x, c). (x, without_row_numbers hs c)) prepared; ids = id_values L e (map snd plain);
         pattern = (if ids = [] then None else identifier_pattern ids)
     in bindS (liftS (mapE (validated L e pattern) plain)) (\<lambda>records.
     bindS (existing_rows L i e records) (\<lambda>existing.
     thenS (heartbeat L i (ij_id r))
     (bindS (liftS (judge_rows L e (get_or_none (ij_report r) ''reshaped_marks'' \<noteq> PNone) records existing)) (\<lambda>(cs, actions, warnings).
     thenS (heartbeat L i (ij_id r))
     (let items = map (normalised_item L e actions) (zip [0..<length staged] (zip staged records))
      in thenS (st_replace L i (ij_id r) items)
         (bindS (fresh L) (\<lambda>run.
          after_judging S L i r (dict_set (ij_report r) ''normalization''
              (PDict (normalization_report L e records items actions cs warnings pattern run))) items (question_items L cs run) before)))))))))))"

end
