(* ===== verification/IngestionFlow.thy ===== *)
theory IngestionFlow
  imports Ingestion
begin

text \<open>
  The workflow of \<^verbatim>\<open>ingestion/service.py\<close> on top of the stages of \<^verbatim>\<open>Ingestion\<close>: the proposed
  mapping and when it waits for a person, the mapping a person approves and the run under it,
  decisions on duplicates, the steps a restart resumes, and \<open>process\<close>; then what the workflow
  promises: a run always ends in a recorded state, an approved mapping is complete and
  unambiguous, nothing is imported past an open question, and decisions keep only what they say.
\<close>

subsection \<open>Mapping\<close>

definition map_headers :: "job_row \<Rightarrow> staged_row list \<Rightarrow> string list" where
  "map_headers r rows = (if job_headers r \<noteq> [] then job_headers r else dict_keys (ir_raw (hd rows)))"

definition samples_of :: "string list \<Rightarrow> staged_row list \<Rightarrow> samples" where
  "samples_of headers rows = map (\<lambda>h. (h, map (\<lambda>x. get_or_none (ir_raw x) h) (take 50 rows))) (keep_first headers)"

definition entity_hint :: "job_row \<Rightarrow> string list \<Rightarrow> string option" where
  "entity_hint r headers = (case ij_entity r of Some e \<Rightarrow> if e = [] then reshaped_entity headers else Some e | None \<Rightarrow> reshaped_entity headers)"

definition reshaped_marks :: "job_row \<Rightarrow> pyval list" where
  "reshaped_marks r = py_list (get_or_none (ij_report r) ''reshaped_marks'')"

definition entity_uncertain :: "engine \<Rightarrow> string option \<Rightarrow> proposal \<Rightarrow> bool" where
  "entity_uncertain G hint p = (hint = None \<and> \<not> pp_profile p \<and> pp_entity_confidence p < en_threshold_of G)"

definition shown_samples :: "'w ing_lib \<Rightarrow> samples \<Rightarrow> pyval dict" where
  "shown_samples L ss = map (\<lambda>(h, vs). (h, PList (map (\<lambda>v. PStr (take 60 (text_of L v)))
     (filter (\<lambda>v. \<not> empty_val v) (take 3 vs))))) ss"

definition proposed_mapping :: "proposal \<Rightarrow> pyval dict" where
  "proposed_mapping p = foldl (\<lambda>d m. dict_set d (fm_header m) (opt_str (fm_field m))) [] (pp_mappings p)"

definition mapping_question :: "'w ing_lib \<Rightarrow> proposal \<Rightarrow> string list \<Rightarrow> pyval dict \<Rightarrow> bool \<Rightarrow> string list \<Rightarrow> samples \<Rightarrow> string option \<Rightarrow> pyval list
    \<Rightarrow> pyval dict" where
  "mapping_question L p missing state uncertain headers samples previous reshaped = [
     (''entity'', PStr (pp_entity p)), (''entity_confidence'', get_or_none state ''entity_confidence''),
     (''entity_alternatives'', get_or_none state ''entity_alternatives''), (''entity_uncertain'', PBool uncertain),
     (''review_required'', PList (map (PDict \<circ> fm_as_dict (il_map L)) (review_required p))),
     (''missing_required'', PList (map PStr missing)), (''unmapped'', PList (map PStr (unmapped p))),
     (''proposed_mapping'', PDict (proposed_mapping p)), (''headers'', PList (map PStr headers)),
     (''samples'', PDict (shown_samples L samples)), (''previous_error'', opt_str previous), (''reshaped_marks'', PList reshaped)]"

text \<open>
  The proposal for a job: under a remembered profile when there is one, and afresh when that
  profile no longer covers the required fields.
\<close>

definition propose_job :: "ing_service \<Rightarrow> 'w ing_lib \<Rightarrow> string list \<Rightarrow> samples \<Rightarrow> string option \<Rightarrow> profile_row option
    \<Rightarrow> (proposal \<times> bool) res" where
  "propose_job S L headers samples hint profile =
     bindE (propose (il_map L) (sv_engine S) headers samples (case hint of Some e \<Rightarrow> Some e | None \<Rightarrow> map_option mp_entity profile)
         (case profile of Some x \<Rightarrow> str_dict (mp_mapping x) | None \<Rightarrow> [])) (\<lambda>p.
     bindE (if profile = None then Inr [] else missing_required p) (\<lambda>missing.
       if missing = [] then Inr (p, False)
       else bindE (propose (il_map L) (sv_engine S) headers samples hint []) (\<lambda>q. Inr (q, True))))"

definition map_job :: "ing_service \<Rightarrow> 'w ing_lib \<Rightarrow> string \<Rightarrow> job_row \<Rightarrow> staged_row list \<Rightarrow> bool \<Rightarrow> string option \<Rightarrow> ('w ing, job_row) act" where
  "map_job S L i r rows force previous =
     (let headers = map_headers r rows; samples = samples_of headers rows; hint = entity_hint r headers;
          reshaped = reshaped_marks r; signature = header_signature headers
      in bindS (if force \<or> reshaped \<noteq> [] then retS None else st_profile i hint signature) (\<lambda>profile.
         bindS (liftS (propose_job S L headers samples hint profile)) (\<lambda>(p, incomplete).
         bindS (liftS (proposal_as_dict (il_map L) p)) (\<lambda>d.
         bindS (liftS (missing_required p)) (\<lambda>missing.
         let uncertain = entity_uncertain (sv_engine S) hint p;
             state = set_all d [(''header_signature'', PStr signature), (''profile_incomplete'', PBool incomplete), (''entity_uncertain'', PBool uncertain)]
         in if force \<or> reshaped \<noteq> [] \<or> review_required p \<noteq> [] \<or> missing \<noteq> [] \<or> uncertain
            then thenS (st_add_reviews L i (ij_id r) [(''mapping'', mapping_question L p missing state uncertain headers samples previous reshaped)])
                   (st_update L i (ij_id r) [JStatus ''needs_review'', JStage ''mapping_review'', JEntity (Some (pp_entity p)), JMapping state])
            else bindS (st_update L i (ij_id r) [JEntity (Some (pp_entity p)), JMapping state, JStage ''normalizing'']) (\<lambda>r'.
                   normalize_job S L i r' (mapped p) (retS ())))))))"

subsection \<open>The mapping a person approves\<close>

definition awaits_mapping :: "job_row \<Rightarrow> bool" where
  "awaits_mapping r = (ij_status r \<in> {''needs_review'', ''failed''} \<and> ij_stage r \<in> {''mapping_review'', ''mapping'', ''normalizing''})"

text \<open>The loop over the submitted mapping; an empty target leaves a header unmapped.\<close>

fun check_targets :: "string list \<Rightarrow> string list \<Rightarrow> string \<Rightarrow> (string \<times> string option) list \<Rightarrow> string dict \<Rightarrow> string + string dict" where
  "check_targets valid headers entity [] approved = Inr approved"
| "check_targets valid headers entity ((h, t) # ms) approved =
     (case t of None \<Rightarrow> check_targets valid headers entity ms approved
      | Some f \<Rightarrow>
          if f = [] then check_targets valid headers entity ms approved
          else if f \<notin> set valid then Inl (f @ '' is not a field of '' @ entity)
          else if headers \<noteq> [] \<and> h \<notin> set headers then Inl (''unknown header: '' @ h)
          else (case find (\<lambda>(n, c). c = f) approved of
              Some (n, c) \<Rightarrow> Inl (''two headers were mapped to '' @ f @ '' ('' @ py_repr n @ '' and '' @ py_repr h @ ''); keep ''
                 @ f @ '' on one of them and leave the other unmapped'')
            | None \<Rightarrow> check_targets valid headers entity ms (dict_set approved h f)))"

definition checked_mapping :: "canonical_entity \<Rightarrow> string list \<Rightarrow> string \<Rightarrow> (string \<times> string option) list \<Rightarrow> string + string dict" where
  "checked_mapping e headers entity m =
     bindE (check_targets (field_names e) headers entity m []) (\<lambda>approved.
       let missing = missing_fields e (map snd approved)
       in if missing = [] then Inr approved else Inl (''required fields are not mapped: '' @ py_join '', '' missing))"

definition approved_state :: "job_row \<Rightarrow> string \<Rightarrow> string dict \<Rightarrow> string \<Rightarrow> bool \<Rightarrow> pyval \<Rightarrow> pyval dict" where
  "approved_state r entity approved who remember signature =
     set_all (del_key (ij_mapping r) ''approval_unscheduled'') [(''entity'', PStr entity), (''approved_mapping'', PDict (pystr_dict approved)),
       (''approved_by'', PStr who), (''remember'', PBool remember), (''header_signature'', signature),
       (''review_required'', PList []), (''missing_required'', PList []), (''entity_uncertain'', PBool False)]"

definition resolve_all :: "'w ing_lib \<Rightarrow> string \<Rightarrow> (review_row \<Rightarrow> bool) \<Rightarrow> string \<Rightarrow> string \<Rightarrow> pyval dict \<Rightarrow> review_row list \<Rightarrow> ('w ing, unit) act" where
  "resolve_all L i P status who resolution items =
     thenS (each (\<lambda>x. st_resolve L i (rv_id x) status who resolution) (filter P items)) (retS ())"

definition approve_mapping :: "'w ing_lib \<Rightarrow> string \<Rightarrow> string \<Rightarrow> (string \<times> string option) list \<Rightarrow> string option \<Rightarrow> string \<Rightarrow> bool \<Rightarrow> ('w ing, job_row) act" where
  "approve_mapping L i j m entity who remember =
     bindS (job_of i j) (\<lambda>r.
     if \<not> awaits_mapping r then failS (IngestionError ''the job is not waiting for a mapping decision'')
     else let name = (case entity of Some n \<Rightarrow> if n = [] then opt_or (ij_entity r) [] else n | None \<Rightarrow> opt_or (ij_entity r) []);
              headers = job_headers r
       in case dict_get CANONICAL_ENTITIES name of
            None \<Rightarrow> failS (IngestionError ''a valid canonical entity is required'')
          | Some e \<Rightarrow> bindS (refuseS (checked_mapping e headers name m)) (\<lambda>approved.
              let signature = py_or (get_or_none (ij_mapping r) ''header_signature'') (PStr (header_signature headers))
              in bindS (st_pending i j) (\<lambda>pending.
                 thenS (resolve_all L i (\<lambda>x. rv_kind x = ''mapping'') ''approved'' who
                    [(''mapping'', PDict (pystr_dict approved)), (''entity'', PStr name)] pending)
                 (st_update L i j [JStatus ''processing'', JStage ''normalizing'', JEntity (Some name),
                    JMapping (approved_state r name approved who remember signature), JError None]))))"

definition row_count_of :: "pyval dict \<Rightarrow> string \<Rightarrow> int" where
  "row_count_of d k = (case get_or_none d k of PInt n \<Rightarrow> n | _ \<Rightarrow> 0)"

text \<open>A mapping is remembered once it produced importable rows; saving is best effort.\<close>

definition remember_mapping :: "'w ing_lib \<Rightarrow> string \<Rightarrow> string \<Rightarrow> string \<Rightarrow> string \<Rightarrow> string dict \<Rightarrow> string \<Rightarrow> ('w ing, unit) act" where
  "remember_mapping L i j entity signature m who =
     bindS (job_of i j) (\<lambda>r. let n = sub_dict (ij_report r) ''normalization'' in
     if row_count_of n ''rows_ready'' + row_count_of n ''rows_in_review'' = 0 then retS ()
     else catchS (st_save_profile L i entity signature (pystr_dict m) who) (\<lambda>x. retS ()))"

definition remember_once :: "'w ing_lib \<Rightarrow> string \<Rightarrow> string \<Rightarrow> bool \<Rightarrow> string \<Rightarrow> string \<Rightarrow> string dict \<Rightarrow> string \<Rightarrow> ('w ing, unit) act" where
  "remember_once L i j remember entity signature m who = (\<lambda>s.
     if remember \<and> \<not> is_remembered s then remember_mapping L i j entity signature m who (s\<lparr>is_remembered := True\<rparr>) else (Inr (), s))"

definition set_remembered :: "bool \<Rightarrow> ('w ing, unit) act" where
  "set_remembered b = (\<lambda>s. (Inr (), s\<lparr>is_remembered := b\<rparr>))"

definition close_pending_reviews :: "'w ing_lib \<Rightarrow> string \<Rightarrow> string \<Rightarrow> string \<Rightarrow> ('w ing, unit) act" where
  "close_pending_reviews L i j note = bindS (st_all_reviews i j)
     (resolve_all L i (\<lambda>x. rv_status x = ''pending'') ''rejected'' ''system'' [(''note'', PStr note)])"

definition normalization_failed :: "'w ing_lib \<Rightarrow> ing_error \<Rightarrow> string" where
  "normalization_failed L x = ''normalization failed unexpectedly ('' @ class_of L x
     @ ''); retry the job or submit the mapping again once the cause is fixed''"

definition run_approved_mapping :: "ing_service \<Rightarrow> 'w ing_lib \<Rightarrow> string \<Rightarrow> string \<Rightarrow> ('w ing, job_row) act" where
  "run_approved_mapping S L i j =
     bindS (job_of i j) (\<lambda>r.
     let state = ij_mapping r; m = str_dict (sub_dict state ''approved_mapping'');
         once = remember_once L i j (truthy (case dict_get state ''remember'' of Some v \<Rightarrow> v | None \<Rightarrow> PBool True))
           (text_of L (opt_str (ij_entity r))) (text_of L (get_or_none state ''header_signature'')) m (text_of L (get_or_none state ''approved_by''))
     in thenS (set_remembered False)
        (bindS (catchS (thenS (close_pending_reviews L i j ''superseded: the rows were normalised again'') (normalize_job S L i r m once))
             (\<lambda>x. case x of CommitError t \<Rightarrow> thenS once (failS (CommitError t))
                | _ \<Rightarrow> thenS (st_update L i j [JStatus ''failed'', JStage ''normalizing'', JError (Some (normalization_failed L x))])
                     (failS (ProcessingError (normalization_failed L x)))))
          (\<lambda>r'. thenS once (retS r'))))"

text \<open>The method \<^verbatim>\<open>IngestionService.apply_mapping\<close>.\<close>

definition apply_reviewed :: "ing_service \<Rightarrow> 'w ing_lib \<Rightarrow> string \<Rightarrow> string \<Rightarrow> (string \<times> string option) list \<Rightarrow> string option \<Rightarrow> string \<Rightarrow> bool
    \<Rightarrow> ('w ing, job_row) act" where
  "apply_reviewed S L i j m entity who remember = thenS (approve_mapping L i j m entity who remember) (run_approved_mapping S L i j)"

subsection \<open>Decisions on duplicates\<close>

definition resolve_review :: "ing_service \<Rightarrow> 'w ing_lib \<Rightarrow> string \<Rightarrow> string \<Rightarrow> string \<Rightarrow> string \<Rightarrow> string \<Rightarrow> bool \<Rightarrow> ('w ing, job_row) act" where
  "resolve_review S L i v decision who note defer =
     bindS (st_get_review i v) (\<lambda>x.
     if x = None \<or> rv_status (the x) \<noteq> ''pending'' then failS (Raised (KeyError (''pending review item not found: '' @ v)))
     else if rv_kind (the x) \<noteq> ''duplicate''
       then failS (IngestionError ''a mapping review is resolved by submitting the mapping decision, not by approving the item'')
     else bindS (st_resolve L i v decision who [(''note'', PStr note)]) (\<lambda>y. case y of
         None \<Rightarrow> failS (Raised (KeyError (''review item not found: '' @ v)))
       | Some item \<Rightarrow> bindS (job_of i (rv_job_id item)) (\<lambda>r.
           bindS (st_pending i (ij_id r)) (\<lambda>items.
           if ij_stage r = ''duplicate_review'' \<and> \<not> list_ex (\<lambda>z. rv_kind z = ''duplicate'') items
           then bindS (st_update L i (ij_id r) [JStatus ''ready'', JStage ''ready'']) (\<lambda>r'.
             if truthy (get_or_none (ij_options r') ''auto_commit'')
             then (if defer then request_commit L i (ij_id r') who else commit S L i (ij_id r') who)
             else retS r')
           else retS r))))"

subsection \<open>Runs that were interrupted or never scheduled\<close>

definition record_unscheduled :: "'w ing_lib \<Rightarrow> string \<Rightarrow> string \<Rightarrow> string \<Rightarrow> ('w ing, job_row) act" where
  "record_unscheduled L i j error =
     bindS (job_of i j) (\<lambda>r.
     if ij_status r \<notin> {''queued'', ''processing''} then retS r
     else if ij_stage r = ''importing'' then st_update L i j [JStatus ''ready'', JStage ''ready'', JError (Some (take 500 error))]
     else if ij_stage r = ''normalizing'' \<and> truthy (get_or_none (ij_mapping r) ''approved_mapping'')
       then st_update L i j [JStatus ''failed'', JMapping (dict_set (ij_mapping r) ''approval_unscheduled'' (PBool True)), JError (Some (take 500 error))]
     else st_update L i j [JStatus ''failed'', JError (Some (take 500 error))])"

definition resume :: "ing_service \<Rightarrow> 'w ing_lib \<Rightarrow> string \<Rightarrow> job_row \<Rightarrow> ('w ing, job_row option) act" where
  "resume S L i r = catchS
     (if ij_stage r = ''importing'' then bindS (run_commit S L i (ij_id r)) (\<lambda>x. retS (Some x))
      else if ij_stage r = ''normalizing'' \<and> truthy (get_or_none (ij_mapping r) ''approved_mapping'')
        then bindS (run_approved_mapping S L i (ij_id r)) (\<lambda>x. retS (Some x))
      else retS None)
     (\<lambda>x. case x of ProcessingError t \<Rightarrow> bindS (job_of i (ij_id r)) (\<lambda>y. retS (Some y))
        | CommitError t \<Rightarrow> bindS (job_of i (ij_id r)) (\<lambda>y. retS (Some y))
        | _ \<Rightarrow> failS x)"

definition restart_report :: "job_row \<Rightarrow> pyval dict" where
  "restart_report r = dict_set (del_key (del_key (ij_report r) ''normalization'') ''import'') ''restarted''
     (PDict [(''from_stage'', PStr (ij_stage r)), (''reason'', PStr ''the previous run was interrupted'')])"

definition from_file :: "job_row \<Rightarrow> string option" where
  "from_file r = (case ij_file_id r of Some f \<Rightarrow> if f = [] then None else Some f | None \<Rightarrow> None)"

definition reset_interrupted :: "'w ing_lib \<Rightarrow> string \<Rightarrow> job_row \<Rightarrow> ('w ing, job_row) act" where
  "reset_interrupted L i r =
     thenS (close_pending_reviews L i (ij_id r) ''superseded: the job was restarted after an interruption'')
     (thenS (if from_file r \<noteq> None then st_replace L i (ij_id r) [] else retS ())
     (st_update L i (ij_id r) [JReport (restart_report r), JMapping []]))"

text \<open>The clock counts microseconds, the resolution of the stored timestamps.\<close>

definition heartbeat_stale :: "ing_service \<Rightarrow> 'w ing_lib \<Rightarrow> job_row \<Rightarrow> ('w ing, bool) act" where
  "heartbeat_stale S L r = (\<lambda>s. (Inr (sv_restart_after S * 1000000 < now_of L s - ij_updated_at r), ticked 1 s))"

subsection \<open>Processing\<close>

text \<open>A \<^verbatim>\<open>try\<close> whose handler reads a variable that its body assigns half-way.\<close>

definition attemptS :: "('s, 'a) act \<Rightarrow> (ing_error \<Rightarrow> ('s, 'b) act) \<Rightarrow> ('a \<Rightarrow> ('s, 'b) act) \<Rightarrow> ('s, 'b) act" where
  "attemptS m h f = (\<lambda>s. case m s of (Inl e, s') \<Rightarrow> h e s' | (Inr x, s') \<Rightarrow> f x s')"

definition unexpected_failure :: "'w ing_lib \<Rightarrow> ing_error \<Rightarrow> string" where
  "unexpected_failure L x = ''the job failed unexpectedly ('' @ class_of L x @ ''); the error has been logged for the operators''"

text \<open>\<^verbatim>\<open>ParserError\<close> and the ingestion errors are ValueErrors, whose text is shown.\<close>

definition shown_error :: "'w ing_lib \<Rightarrow> ing_error \<Rightarrow> string" where
  "shown_error L x = (case x of IngestionError m \<Rightarrow> take 500 m | ProcessingError m \<Rightarrow> take 500 m | CommitError m \<Rightarrow> take 500 m
     | Raised (ValueError m) \<Rightarrow> take 500 m | Raised _ \<Rightarrow> unexpected_failure L x)"

definition run_failed :: "'w ing_lib \<Rightarrow> string \<Rightarrow> string \<Rightarrow> job_row \<Rightarrow> ing_error \<Rightarrow> ('w ing, job_row) act" where
  "run_failed L i j r x = (case x of CommitError m \<Rightarrow> job_of i j
     | _ \<Rightarrow> st_update L i j [JStatus ''failed'', JStage (ij_stage r), JError (Some (shown_error L x))])"

definition stage_file :: "ing_service \<Rightarrow> 'w ing_lib \<Rightarrow> string \<Rightarrow> string \<Rightarrow> job_row \<Rightarrow> ('w ing, job_row) act" where
  "stage_file S L i j r = thenS (st_update L i j [JStatus ''processing'', JStage ''parsing'', JError None])
     (case from_file r of None \<Rightarrow> retS r | Some f \<Rightarrow> bindS (parse_file L i r f) (stage_parsed_rows S L i r))"

definition NO_ROWS :: string where
  "NO_ROWS = ''no tabular rows were found; upload the file through the documents API if it is a policy or circular''"

definition map_staged :: "ing_service \<Rightarrow> 'w ing_lib \<Rightarrow> string \<Rightarrow> string \<Rightarrow> bool \<Rightarrow> string option \<Rightarrow> job_row \<Rightarrow> ('w ing, job_row) act" where
  "map_staged S L i j remap previous r = bindS (st_records i j (int (sv_max_rows S))) (\<lambda>rows.
     if rows = [] then failS (IngestionError NO_ROWS) else map_job S L i r rows remap previous)"

definition run_pipeline :: "ing_service \<Rightarrow> 'w ing_lib \<Rightarrow> string \<Rightarrow> string \<Rightarrow> bool \<Rightarrow> string option \<Rightarrow> job_row \<Rightarrow> ('w ing, job_row) act" where
  "run_pipeline S L i j remap previous r = attemptS (stage_file S L i j r) (run_failed L i j r)
     (\<lambda>r'. catchS (map_staged S L i j remap previous r') (run_failed L i j r'))"

text \<open>What \<open>process\<close> does with a job still \<^verbatim>\<open>processing\<close>, and with any other.\<close>

definition restart_job :: "ing_service \<Rightarrow> 'w ing_lib \<Rightarrow> string \<Rightarrow> bool \<Rightarrow> job_row \<Rightarrow> (job_row \<Rightarrow> ('w ing, job_row) act) \<Rightarrow> ('w ing, job_row) act" where
  "restart_job S L i force r run =
     (if ij_status r \<noteq> ''processing'' then run r
      else bindS (if force then retS True else heartbeat_stale S L r) (\<lambda>dead.
        if \<not> dead then retS r
        else bindS (resume S L i r) (\<lambda>x. case x of Some y \<Rightarrow> retS y
          | None \<Rightarrow> bindS (reset_interrupted L i r) run)))"

definition was_unscheduled :: "job_row \<Rightarrow> bool" where
  "was_unscheduled r = (truthy (get_or_none (ij_mapping r) ''approved_mapping'')
     \<and> truthy (case dict_get (ij_mapping r) ''approval_unscheduled'' of Some v \<Rightarrow> v | None \<Rightarrow> PBool False))"

definition process :: "ing_service \<Rightarrow> 'w ing_lib \<Rightarrow> string \<Rightarrow> string \<Rightarrow> bool \<Rightarrow> ('w ing, job_row) act" where
  "process S L i j force =
     bindS (job_of i j) (\<lambda>r.
     if ij_status r \<notin> {''queued'', ''failed'', ''processing''} then retS r
     else let remap = (ij_status r = ''failed'' \<and> ij_stage r = ''normalizing'');
              run = run_pipeline S L i j remap (if remap then ij_error r else None)
       in if remap \<and> was_unscheduled r
          then bindS (st_update L i j [JStatus ''processing'', JMapping (del_key (ij_mapping r) ''approval_unscheduled''), JError None]) (\<lambda>r'.
               bindS (resume S L i r') (\<lambda>x. case x of Some y \<Rightarrow> retS y | None \<Rightarrow> restart_job S L i force r' run))
          else restart_job S L i force r run)"

subsection \<open>The report\<close>

definition import_report :: "string \<Rightarrow> string \<Rightarrow> ('w ing, pyval dict) act" where
  "import_report i j = bindS (job_of i j) (\<lambda>r. bindS (st_pending i j) (\<lambda>pending.
     retS (set_all (ij_report r) [(''job_id'', PStr j), (''status'', PStr (ij_status r)), (''stage'', PStr (ij_stage r)),
       (''entity'', opt_str (ij_entity r)), (''pending_reviews'', PInt (int (length pending)))])))"

end
