(* ===== verification/IngestionRuns.thy ===== *)
theory IngestionRuns
  imports IngestionFlow
begin

text \<open>
  What a run of the ingestion workflow promises, by triples over its actions: a precondition, what
  holds of a returned value and what holds of a raised error. A run of \<open>process\<close> always returns,
  with the job stored in a state that waits for nobody's worker; a commit leaves the job imported
  or ready again.
\<close>

subsection \<open>Triples\<close>

definition triple :: "('s \<Rightarrow> bool) \<Rightarrow> ('s, 'a) act \<Rightarrow> ('a \<Rightarrow> 's \<Rightarrow> bool) \<Rightarrow> (ing_error \<Rightarrow> 's \<Rightarrow> bool) \<Rightarrow> bool" where
  "triple P m Q E = (\<forall>s. P s \<longrightarrow> (case m s of (Inl e, s') \<Rightarrow> E e s' | (Inr x, s') \<Rightarrow> Q x s'))"

lemma tripleI: "(\<And>s. P s \<Longrightarrow> case m s of (Inl e, s') \<Rightarrow> E e s' | (Inr x, s') \<Rightarrow> Q x s') \<Longrightarrow> triple P m Q E"
  by (simp add: triple_def)

lemma tripleD: "triple P m Q E \<Longrightarrow> P s \<Longrightarrow> case m s of (Inl e, s') \<Rightarrow> E e s' | (Inr x, s') \<Rightarrow> Q x s'"
  by (simp add: triple_def)

lemma triple_weaken:
  "triple P m Q E \<Longrightarrow> (\<And>s. P' s \<Longrightarrow> P s) \<Longrightarrow> (\<And>x s. Q x s \<Longrightarrow> Q' x s) \<Longrightarrow> (\<And>e s. E e s \<Longrightarrow> E' e s) \<Longrightarrow> triple P' m Q' E'"
  unfolding triple_def by (fastforce split: prod.splits sum.splits)

lemma triple_ret: "(\<And>s. P s \<Longrightarrow> Q x s) \<Longrightarrow> triple P (retS x) Q E"
  by (simp add: triple_def retS_def)

lemma triple_fail: "(\<And>s. P s \<Longrightarrow> E e s) \<Longrightarrow> triple P (failS e) Q E"
  by (simp add: triple_def failS_def)

lemma triple_bind: "triple P m R E \<Longrightarrow> (\<And>x. triple (R x) (f x) Q E) \<Longrightarrow> triple P (bindS m f) Q E"
  unfolding triple_def bindS_def by (fastforce split: prod.splits sum.splits)

lemma triple_then: "triple P m (\<lambda>_. R) E \<Longrightarrow> triple R k Q E \<Longrightarrow> triple P (thenS m k) Q E"
  unfolding thenS_def by (rule triple_bind)

lemma triple_catch: "triple P m Q F \<Longrightarrow> (\<And>e. triple (F e) (h e) Q E) \<Longrightarrow> triple P (catchS m h) Q E"
  unfolding triple_def catchS_def by (fastforce split: prod.splits sum.splits)

lemma triple_attempt: "triple P m R F \<Longrightarrow> (\<And>e. triple (F e) (h e) Q E) \<Longrightarrow> (\<And>x. triple (R x) (f x) Q E) \<Longrightarrow> triple P (attemptS m h f) Q E"
  unfolding triple_def attemptS_def by (fastforce split: prod.splits sum.splits)

lemma triple_if: "(b \<Longrightarrow> triple P m Q E) \<Longrightarrow> (\<not> b \<Longrightarrow> triple P n Q E) \<Longrightarrow> triple P (if b then m else n) Q E"
  by simp

lemma triple_all: "triple P m (\<lambda>x s. Q x s \<and> g x) E \<Longrightarrow> (\<And>x. g x \<Longrightarrow> triple (Q x) (f x) R E) \<Longrightarrow> triple P (bindS m f) R E"
  unfolding triple_def bindS_def by (fastforce split: prod.splits sum.splits)

text \<open>What a result is known to be, whatever the state.\<close>

definition gives :: "('a \<Rightarrow> bool) \<Rightarrow> ('s, 'a) act \<Rightarrow> bool" where
  "gives g m = (\<forall>s x. fst (m s) = Inr x \<longrightarrow> g x)"

lemma gives_bind: "(\<And>x. gives g (f x)) \<Longrightarrow> gives g (bindS m f)"
  unfolding gives_def bindS_def by (auto split: prod.splits sum.splits)

lemma gives_then: "gives g k \<Longrightarrow> gives g (thenS m k)"
  unfolding thenS_def by (rule gives_bind)

subsection \<open>The job of a run\<close>

definition job_is :: "string \<Rightarrow> string \<Rightarrow> job_row \<Rightarrow> 'w ing \<Rightarrow> bool" where
  "job_is i j r s = (job_now i j s = Some r)"

definition settled :: "job_row \<Rightarrow> bool" where
  "settled r = (ij_status r \<in> {''needs_review'', ''ready'', ''imported'', ''failed''})"

definition stored :: "string \<Rightarrow> string \<Rightarrow> job_row \<Rightarrow> 'w ing \<Rightarrow> bool" where
  "stored i j r s = (job_is i j r s \<and> settled r)"

text \<open>A raised error, and what the job's row then says.\<close>

definition recorded :: "string \<Rightarrow> string \<Rightarrow> ing_error \<Rightarrow> 'w ing \<Rightarrow> bool" where
  "recorded i j e s = (has_job i j s \<and> (case e of
      CommitError m \<Rightarrow> (\<exists>r. job_is i j r s \<and> ij_status r = ''ready'') | ProcessingError m \<Rightarrow> (\<exists>r. job_is i j r s \<and> ij_status r = ''failed'') | _ \<Rightarrow> True))"

abbreviation never :: "ing_error \<Rightarrow> 'w ing \<Rightarrow> bool" where
  "never e s \<equiv> False"

lemma has_job_is: "has_job i j s \<longleftrightarrow> (\<exists>r. job_is i j r s)"
  by (auto simp: has_job_def job_is_def)

lemma job_is_key: "job_is i j r s \<Longrightarrow> ij_id r = j \<and> ij_institution_id r = i \<and> \<not> blank i"
  unfolding job_is_def job_now_def by (auto split: if_splits dest: find_Some_iff2)

lemma stored_has [simp]: "stored i j r s \<Longrightarrow> has_job i j s"
  by (auto simp: stored_def has_job_is)

lemma recorded_has [simp]: "recorded i j e s \<Longrightarrow> has_job i j s"
  by (simp add: recorded_def)

lemma recorded_calm: "has_job i j s \<Longrightarrow> calm (Inl e :: ing_error + 'a) \<Longrightarrow> recorded i j e s"
  by (cases e) (simp_all add: recorded_def)

lemma triple_quiet_gives:
  assumes "quiet i j m" "gives g m"
  shows "triple (has_job i j) m (\<lambda>x s. has_job i j s \<and> g x) (recorded i j)"
proof (rule tripleI)
  fix s :: "'a ing"
  assume h: "has_job i j s"
  obtain r s' where r: "m s = (r, s')" by (cases "m s")
  from assms(1) h have k: "has_job i j (snd (m s))" "calm (fst (m s))" by (simp_all add: quiet_def keeps_def)
  show "case m s of (Inl e, s') \<Rightarrow> recorded i j e s' | (Inr x, s') \<Rightarrow> has_job i j s' \<and> g x"
  proof (cases r)
    case (Inl e)
    with k r recorded_calm show ?thesis by fastforce
  next
    case (Inr x)
    then have "fst (m s) = Inr x" using r by simp
    then have "g x" using assms(2) by (auto simp: gives_def)
    with k r Inr show ?thesis by simp
  qed
qed

lemma triple_quiet: "quiet i j m \<Longrightarrow> triple (has_job i j) m (\<lambda>_. has_job i j) (recorded i j)"
  using triple_quiet_gives[of i j m "\<lambda>_. True"] by (simp add: gives_def)

lemma bind_quiet: "quiet i j m \<Longrightarrow> (\<And>x. triple (has_job i j) (f x) Q (recorded i j)) \<Longrightarrow> triple (has_job i j) (bindS m f) Q (recorded i j)"
  by (rule triple_bind[OF triple_quiet])

lemma then_quiet: "quiet i j m \<Longrightarrow> triple (has_job i j) k Q (recorded i j) \<Longrightarrow> triple (has_job i j) (thenS m k) Q (recorded i j)"
  by (rule triple_then[OF triple_quiet])

text \<open>Reading the job never fails; nor does an update of known fields, which returns the row it stored.\<close>

lemma job_of_ends: "triple (has_job i j) (job_of i j) (job_is i j) E"
  by (rule tripleI) (auto simp: job_of_def bindS_def st_get_job_def liftS_def get_job_now job_is_def retS_def has_job_def)

lemma job_of_same: "triple (job_is i j r) (job_of i j) (\<lambda>x s. x = r \<and> job_is i j r s) E"
  by (rule tripleI) (auto simp: job_of_def bindS_def st_get_job_def liftS_def get_job_now[OF has_job_is[THEN iffD2]] job_is_def retS_def)

lemma st_update_ends:
  assumes "unknown_change cs = None" "\<And>n r. g (changed_job n cs r)"
  shows "triple (has_job i j) (st_update L i j cs) (\<lambda>r s. job_is i j r s \<and> g r) E"
proof (rule tripleI)
  fix s :: "'a ing"
  assume "has_job i j s"
  then obtain r where r: "job_now i j s = Some r" by (auto simp: has_job_def)
  from st_update_run[OF this assms(1), of L] assms(2)
  show "case st_update L i j cs s of (Inl e, s') \<Rightarrow> E e s' | (Inr x, s') \<Rightarrow> job_is i j x s' \<and> g x" by (auto simp: job_is_def)
qed

lemmas change_simps = changed_job_def apply_change.simps foldl.simps unknown_change.simps

lemma st_update_stored:
  assumes "unknown_change cs = None" "\<And>n r. settled (changed_job n cs r)"
  shows "triple (has_job i j) (st_update L i j cs) (stored i j) E"
  using st_update_ends[where g = settled and E = E, OF assms] by (simp add: stored_def[abs_def])

text \<open>A step before a commit that touches no job and raises no recorded error.\<close>

definition aside :: "('w ing, 'a) act \<Rightarrow> bool" where
  "aside m = (\<forall>s. is_jobs (snd (m s)) = is_jobs s \<and> calm (fst (m s)))"

lemma job_is_jobs: "is_jobs s' = is_jobs s \<Longrightarrow> job_is i j r s' = job_is i j r s"
  by (simp add: job_is_def job_now_def)

lemma aside_keeps:
  assumes "aside m"
  shows "triple (stored i j r) m (\<lambda>_. stored i j r) (recorded i j)"
proof (rule tripleI)
  fix s :: "'a ing"
  assume h: "stored i j r s"
  obtain x s' where x: "m s = (x, s')" by (cases "m s")
  from assms have "is_jobs (snd (m s)) = is_jobs s \<and> calm (fst (m s))" unfolding aside_def by blast
  then have q: "is_jobs s' = is_jobs s" "calm x" by (simp_all add: x)
  with h have k: "stored i j r s'" unfolding stored_def job_is_jobs[OF q(1)] by simp
  show "case m s of (Inl e, s') \<Rightarrow> recorded i j e s' | (Inr x, s') \<Rightarrow> stored i j r s'"
  proof (cases x)
    case (Inl e)
    with q(2) stored_has[OF k] recorded_calm x show ?thesis by fastforce
  qed (simp add: x k)
qed

lemma aside_ret: "aside (retS x)"
  by (simp add: aside_def retS_def)

subsection \<open>Import and commit\<close>

definition imported :: "job_row \<Rightarrow> bool" where
  "imported r = (ij_status r = ''imported'' \<and> ij_stage r = ''done'')"

lemma imported_ends: "triple (has_job i j) (st_update L i j [JStatus ''imported'', JStage ''done'', JReport d]) (\<lambda>r s. job_is i j r s \<and> imported r) E"
  by (rule st_update_ends) (simp_all add: change_simps imported_def)

lemma run_import_ends:
  assumes "ij_id r = j"
  shows "triple (has_job i j) (run_import S L i r e skip who) (\<lambda>r s. job_is i j r s \<and> imported r) (recorded i j)"
  unfolding run_import_def Let_def assms
  by (intro bind_quiet triple_if imported_ends store_quiet)

lemma request_commit_quiet [acts]: "quiet i j (request_commit L i' j' who)"
  unfolding request_commit_def job_of_def Let_def by (intro acts)

lemma entity_of_job_quiet [acts]: "quiet i j (entity_of_job r)"
  unfolding entity_of_job_def by (intro acts)

lemma locators_to_skip_quiet [acts]: "quiet i j (locators_to_skip S L i' r e items)"
  unfolding locators_to_skip_def Let_def by (intro acts)

text \<open>A commit that failed: the job is ready again and holds the error that is raised.\<close>

definition put_back :: "string \<Rightarrow> string \<Rightarrow> ing_error \<Rightarrow> 'w ing \<Rightarrow> bool" where
  "put_back i j e s = (\<exists>r t. e = CommitError t \<and> job_is i j r s \<and> ij_status r = ''ready'' \<and> ij_stage r = ''ready'' \<and> ij_error r = Some t)"

lemma failed_commit_ends:
  "triple (has_job i j) (thenS (st_update L i j [JStatus ''ready'', JStage ''ready'', JError (Some t)]) (failS (CommitError t))) Q (put_back i j)"
proof (rule triple_then)
  show "triple (has_job i j) (st_update L i j [JStatus ''ready'', JStage ''ready'', JError (Some t)])
     (\<lambda>_ s. put_back i j (CommitError t) s) (put_back i j)"
    by (rule triple_weaken[OF st_update_ends[where g = "\<lambda>r. ij_status r = ''ready'' \<and> ij_stage r = ''ready'' \<and> ij_error r = Some t" and E = never]])
       (auto simp: change_simps put_back_def)
qed (rule triple_fail, simp)

lemma run_commit_exact: "triple (has_job i j) (run_commit S L i j) (\<lambda>r s. job_is i j r s \<and> imported r) (put_back i j)"
  unfolding run_commit_def Let_def
proof (rule triple_all[OF triple_weaken[OF job_of_ends[where E = never]]])
  show "has_job i j s \<and> ij_id x = j" if "job_is i j x s" for x :: job_row and s :: "'a ing"
    using that job_is_key by (auto simp: has_job_is)
  show "triple (has_job i j) (catchS (bindS (entity_of_job r) (\<lambda>e. bindS (st_all_reviews i j) (\<lambda>items.
             bindS (locators_to_skip S L i r e items) (\<lambda>skip. run_import S L i r e skip who))))
          (\<lambda>x. thenS (st_update L i j [JStatus ''ready'', JStage ''ready'', JError (Some (import_failed L x))])
             (failS (CommitError (import_failed L x))))) (\<lambda>r s. job_is i j r s \<and> imported r) (put_back i j)"
    if "ij_id r = j" for r who
    by (rule triple_catch[where F = "recorded i j"], intro bind_quiet acts run_import_ends that)
       (rule triple_weaken[OF failed_commit_ends], simp_all)
qed auto

lemma run_commit_ends:
  "triple (has_job i j) (run_commit S L i j) (stored i j) (\<lambda>e s. recorded i j e s \<and> (\<exists>m. e = CommitError m))"
  by (rule triple_weaken[OF run_commit_exact])
     (auto simp: stored_def imported_def settled_def put_back_def recorded_def has_job_is)

lemma commit_ends: "triple (has_job i j) (commit S L i j who) (stored i j) (recorded i j)"
  unfolding commit_def by (rule then_quiet[OF request_commit_quiet], rule triple_weaken[OF run_commit_ends]) simp_all

subsection \<open>Normalisation and mapping\<close>

lemma ready_ends: "triple (has_job i j) (st_update L i j [JStatus ''ready'', JStage g, JReport d]) (stored i j) E"
  and failed_ends: "triple (has_job i j) (st_update L i j [JStatus ''failed'', JStage g, JReport d, JError x]) (stored i j) E"
  and review_ends: "triple (has_job i j) (st_update L i j [JStatus ''needs_review'', JStage g, JReport d]) (stored i j) E"
  and mapping_ends: "triple (has_job i j) (st_update L i j [JStatus ''needs_review'', JStage g, JEntity n, JMapping d]) (stored i j) E"
  and broken_ends: "triple (has_job i j) (st_update L i j [JStatus ''failed'', JStage g, JError x]) (stored i j) E"
  by (rule st_update_stored; simp add: change_simps settled_def)+

lemma after_judging_ends:
  assumes "ij_id r = j" "aside before"
  shows "triple (has_job i j) (after_judging S L i r report items qs before) (stored i j) (recorded i j)"
proof -
  have "triple (stored i j r') (thenS before (if truthy (get_or_none (ij_options r') ''auto_commit'')
        then commit S L i (ij_id r) (ij_requested_by r') else retS r')) (stored i j) (recorded i j)" for r' :: job_row
    by (rule triple_then[OF aside_keeps[OF assms(2)]], rule triple_if)
       (auto simp: assms(1) intro: triple_weaken[OF commit_ends] triple_ret)
  then show ?thesis
    unfolding after_judging_def assms(1)
    by (intro triple_if failed_ends then_quiet store_quiet review_ends triple_bind[OF ready_ends])
qed

lemma heartbeat_quiet [acts]: "quiet i j (heartbeat L i' j')"
  unfolding heartbeat_def by (intro acts)

lemma prepare_rows_quiet [acts]: "quiet i j (prepare_rows L i' j' f n xs)"
  by (induction xs arbitrary: n) (auto intro!: acts)

lemma source_of_quiet [acts]: "quiet i j (source_of L i' r)"
  unfolding source_of_def by (intro acts)

lemma existing_rows_quiet [acts]: "quiet i j (existing_rows L i' e rs)"
  unfolding existing_rows_def by (intro acts)

lemma triple_split: "(\<And>a b. triple P (f a b) Q E) \<Longrightarrow> triple P (case p of (a, b) \<Rightarrow> f a b) Q E"
  by (cases p) simp

lemma normalize_job_ends:
  assumes "ij_id r = j" "aside before"
  shows "triple (has_job i j) (normalize_job S L i r m before) (stored i j) (recorded i j)"
  unfolding normalize_job_def Let_def assms(1)
  by (intro bind_quiet then_quiet triple_split entity_of_job_quiet store_quiet source_of_quiet prepare_rows_quiet pure_quiet
      existing_rows_quiet heartbeat_quiet after_judging_ends assms)

lemma st_update_id:
  "triple (has_job i j) (st_update L i j cs) (\<lambda>r s. has_job i j s \<and> ij_id r = j) (recorded i j)"
proof (rule triple_quiet_gives[OF st_update_quiet])
  show "gives (\<lambda>r. ij_id r = j) (st_update L i j cs)"
    unfolding gives_def st_update_def update_job_def get_job_def
    by (auto split: sum.splits option.splits prod.splits simp: bindE_eq_Inr Let_def dest!: find_Some_iff2)
qed

lemma map_job_ends:
  assumes "ij_id r = j"
  shows "triple (has_job i j) (map_job S L i r rows force previous) (stored i j) (recorded i j)"
  unfolding map_job_def Let_def assms
  by (intro bind_quiet then_quiet triple_if triple_split acts mapping_ends triple_all[OF st_update_id] normalize_job_ends aside_ret)

subsection \<open>The approved mapping\<close>

lemma save_profile_jobs: "is_jobs (snd (st_save_profile L i entity headers m who s)) = is_jobs s"
  by (simp add: st_save_profile_def split: sum.splits)

lemma remember_mapping_jobs: "is_jobs (snd (remember_mapping L i j entity signature m who s)) = is_jobs s"
  and remember_mapping_ok: "has_job i j s \<Longrightarrow> fst (remember_mapping L i j entity signature m who s) = Inr ()"
  using save_profile_jobs[of L i entity signature "pystr_dict m" who s]
  by (auto simp: remember_mapping_def bindS_def job_of_def st_get_job_def liftS_def retS_def failS_def catchS_def Let_def get_job_now has_job_def
      split: sum.splits prod.splits option.splits)

lemma remember_mapping_calm: "calm (fst (remember_mapping L i j entity signature m who s))"
  by (auto simp: remember_mapping_def bindS_def job_of_def st_get_job_def liftS_def retS_def failS_def catchS_def Let_def
      split: sum.splits prod.splits option.splits)

lemma remember_once_aside: "aside (remember_once L i j b entity signature m who)"
  by (simp add: aside_def remember_once_def remember_mapping_jobs remember_mapping_calm)

lemma remember_once_ends:
  assumes "\<And>s s'. is_jobs s' = is_jobs s \<Longrightarrow> P s' = P s" "\<And>s. P s \<Longrightarrow> has_job i j s"
  shows "triple P (remember_once L i j b entity signature m who) (\<lambda>_. P) E"
proof (rule tripleI)
  fix s
  assume p: "P s"
  let ?r = "remember_once L i j b entity signature m who s"
  have "is_jobs (snd ?r) = is_jobs s" by (simp add: remember_once_def remember_mapping_jobs)
  then have q: "P (snd ?r)" using assms(1) p by blast
  have "fst ?r = Inr ()" using assms(2)[OF p] by (simp add: remember_once_def remember_mapping_ok)
  with q show "case ?r of (Inl e, s') \<Rightarrow> E e s' | (Inr x, s') \<Rightarrow> P s'" by (cases ?r) simp
qed

lemma stored_jobs: "is_jobs s' = is_jobs s \<Longrightarrow> stored i j r s' = stored i j r s"
  by (simp add: stored_def job_is_jobs[of s' s])

lemma recorded_jobs: "is_jobs s' = is_jobs s \<Longrightarrow> recorded i j e s' = recorded i j e s"
  by (cases e) (simp_all add: recorded_def has_job_is job_is_jobs[of s' s])

text \<open>Closing questions never fails.\<close>

lemma st_resolve_ok: "\<not> blank i \<Longrightarrow> st \<in> {''approved'', ''rejected''} \<Longrightarrow> triple (\<lambda>s. is_jobs s = t) (st_resolve L i v st who res) (\<lambda>_ s. is_jobs s = t) E"
  by (rule tripleI) (auto simp: st_resolve_def resolve_review_item_def tenant_def Let_def)

lemma each_ends: "(\<And>x. triple P (f x) (\<lambda>_. P) E) \<Longrightarrow> triple P (each f xs) (\<lambda>_. P) E"
  by (induction xs) (auto intro!: triple_ret triple_bind)

lemma close_pending_ends:
  assumes "\<not> blank i"
  shows "triple (\<lambda>s. is_jobs s = t) (close_pending_reviews L i j note) (\<lambda>_ s. is_jobs s = t) E"
proof -
  have "triple (\<lambda>s. is_jobs s = t) (st_all_reviews i j) (\<lambda>_ s. is_jobs s = t) E"
    by (rule tripleI) (simp add: st_all_reviews_def liftS_def tenant_def assms)
  then show ?thesis
    unfolding close_pending_reviews_def resolve_all_def
    by (rule triple_bind) (rule triple_then[OF each_ends[OF st_resolve_ok[OF assms]] triple_ret]; simp)
qed

lemma resolve_all_quiet [acts]: "quiet i j (resolve_all L i' P st who res items)"
  unfolding resolve_all_def by (intro acts)

lemma close_pending_quiet [acts]: "quiet i j (close_pending_reviews L i' j' note)"
  unfolding close_pending_reviews_def by (intro acts)

lemma failed_mapping_ends:
  "triple (has_job i j) (thenS (st_update L i j [JStatus ''failed'', JStage ''normalizing'', JError m]) (failS (ProcessingError t))) Q
     (\<lambda>e s. recorded i j e s \<and> \<not> calm (Inl e :: ing_error + unit))"
proof (rule triple_then)
  show "triple (has_job i j) (st_update L i j [JStatus ''failed'', JStage ''normalizing'', JError m])
     (\<lambda>_ s. recorded i j (ProcessingError t) s) (\<lambda>e s. recorded i j e s \<and> \<not> calm (Inl e :: ing_error + unit))"
    by (rule triple_weaken[OF st_update_ends[where g = "\<lambda>r. ij_status r = ''failed''" and E = never]])
       (auto simp: change_simps recorded_def has_job_is)
qed (rule triple_fail, simp)

lemma set_remembered_ends: "triple (has_job i j) (set_remembered b) (\<lambda>_. has_job i j) E"
  by (simp add: triple_def set_remembered_def)

lemma run_approved_ends:
  "triple (has_job i j) (run_approved_mapping S L i j) (stored i j) (\<lambda>e s. recorded i j e s \<and> \<not> calm (Inl e :: ing_error + unit))"
  unfolding run_approved_mapping_def Let_def
proof (rule triple_all[OF triple_weaken[OF job_of_ends[where E = never]]])
  show "has_job i j s \<and> ij_id x = j" if "job_is i j x s" for x :: job_row and s :: "'a ing"
    using that job_is_key by (auto simp: has_job_is)
  fix r :: job_row
  assume k: "ij_id r = j"
  let ?once = "remember_once L i j (truthy (case dict_get (ij_mapping r) ''remember'' of Some v \<Rightarrow> v | None \<Rightarrow> PBool True))
           (text_of L (opt_str (ij_entity r))) (text_of L (get_or_none (ij_mapping r) ''header_signature''))
           (str_dict (sub_dict (ij_mapping r) ''approved_mapping'')) (text_of L (get_or_none (ij_mapping r) ''approved_by''))"
  let ?fail = "\<lambda>x. thenS (st_update L i j [JStatus ''failed'', JStage ''normalizing'', JError (Some (normalization_failed L x))])
     (failS (ProcessingError (normalization_failed L x)))"
  let ?E = "\<lambda>e s. recorded i j e s \<and> \<not> calm (Inl e :: ing_error + unit)"
  have handler: "triple (recorded i j x) (case x of CommitError t \<Rightarrow> thenS ?once (failS (CommitError t)) | _ \<Rightarrow> ?fail x) (stored i j) ?E" for x
  proof (cases x)
    case (CommitError t)
    have "triple (recorded i j x) (thenS ?once (failS (CommitError t))) (stored i j) ?E"
      by (rule triple_then[OF remember_once_ends[where P = "recorded i j x"]], erule recorded_jobs, simp)
         (rule triple_fail, simp add: CommitError)
    then show ?thesis by (simp add: CommitError)
  qed (simp_all, (rule triple_weaken[OF failed_mapping_ends]; simp)+)
  have "triple (has_job i j) (thenS (close_pending_reviews L i j ''superseded: the rows were normalised again'')
      (normalize_job S L i r (str_dict (sub_dict (ij_mapping r) ''approved_mapping'')) ?once)) (stored i j) (recorded i j)"
    by (rule then_quiet[OF close_pending_quiet normalize_job_ends[OF k remember_once_aside]])
  from triple_catch[OF this handler]
  have body: "triple (has_job i j) (bindS (catchS (thenS (close_pending_reviews L i j ''superseded: the rows were normalised again'')
      (normalize_job S L i r (str_dict (sub_dict (ij_mapping r) ''approved_mapping'')) ?once))
      (\<lambda>x. case x of CommitError t \<Rightarrow> thenS ?once (failS (CommitError t)) | _ \<Rightarrow> ?fail x)) (\<lambda>r'. thenS ?once (retS r'))) (stored i j) ?E"
    by (rule triple_bind) (rule triple_then[OF remember_once_ends], erule stored_jobs, simp, rule triple_ret, simp)
  show "triple (has_job i j) (thenS (set_remembered False) (bindS (catchS (thenS (close_pending_reviews L i j ''superseded: the rows were normalised again'')
      (normalize_job S L i r (str_dict (sub_dict (ij_mapping r) ''approved_mapping'')) ?once))
      (\<lambda>x. case x of CommitError t \<Rightarrow> thenS ?once (failS (CommitError t)) | _ \<Rightarrow> ?fail x)) (\<lambda>r'. thenS ?once (retS r')))) (stored i j) ?E"
    by (rule triple_then[OF set_remembered_ends body])
qed auto

subsection \<open>Restarts and the whole run\<close>

lemma job_of_recorded:
  "triple (\<lambda>s. recorded i j e s \<and> \<not> calm (Inl e :: ing_error + unit)) (job_of i j) (stored i j) E"
proof (rule tripleI)
  fix s :: "'a ing"
  assume a: "recorded i j e s \<and> \<not> calm (Inl e :: ing_error + unit)"
  then obtain r where r: "job_is i j r s" "settled r" by (cases e) (auto simp: recorded_def settled_def)
  from tripleD[OF job_of_same r(1)] show "case job_of i j s of (Inl e, s') \<Rightarrow> E e s' | (Inr x, s') \<Rightarrow> stored i j x s'"
    using r(2) by (auto simp: stored_def split: prod.splits sum.splits)
qed

definition resumed :: "string \<Rightarrow> string \<Rightarrow> job_row option \<Rightarrow> 'w ing \<Rightarrow> bool" where
  "resumed i j x s = (case x of Some r \<Rightarrow> stored i j r s | None \<Rightarrow> has_job i j s)"

definition resume_caught :: "string \<Rightarrow> string \<Rightarrow> ing_error \<Rightarrow> ('w ing, job_row option) act" where
  "resume_caught i j x = (case x of ProcessingError t \<Rightarrow> bindS (job_of i j) (\<lambda>y. retS (Some y))
     | CommitError t \<Rightarrow> bindS (job_of i j) (\<lambda>y. retS (Some y)) | _ \<Rightarrow> failS x)"

lemma some_ends: "triple P m Q E \<Longrightarrow> triple P (bindS m (\<lambda>x. retS (Some x))) (\<lambda>x s. \<exists>y. x = Some y \<and> Q y s) E"
  by (erule triple_bind) (rule triple_ret, simp)

lemma resume_step:
  assumes "triple P m (stored i j) (\<lambda>e s. recorded i j e s \<and> \<not> calm (Inl e :: ing_error + unit))"
  shows "triple P (catchS (bindS m (\<lambda>x. retS (Some x))) (resume_caught i j)) (\<lambda>x s. \<exists>y. x = Some y \<and> stored i j y s) never"
proof (rule triple_catch[OF some_ends[OF assms]])
  show "triple (\<lambda>s. recorded i j x s \<and> \<not> calm (Inl x :: ing_error + unit)) (resume_caught i j x) (\<lambda>x s. \<exists>y. x = Some y \<and> stored i j y s) never" for x
    using some_ends[OF job_of_recorded[where i = i and j = j and e = x and E = never]]
    by (cases x) (simp_all add: triple_def resume_caught_def)
qed

lemma resume_alt: "resume S L i r =
   (if ij_stage r = ''importing'' then catchS (bindS (run_commit S L i (ij_id r)) (\<lambda>x. retS (Some x))) (resume_caught i (ij_id r))
    else if ij_stage r = ''normalizing'' \<and> truthy (get_or_none (ij_mapping r) ''approved_mapping'')
    then catchS (bindS (run_approved_mapping S L i (ij_id r)) (\<lambda>x. retS (Some x))) (resume_caught i (ij_id r)) else retS None)"
  unfolding resume_def resume_caught_def[abs_def] by (simp add: catchS_def retS_def)

lemma run_commit_recorded:
  "triple (has_job i j) (run_commit S L i j) (stored i j) (\<lambda>e s. recorded i j e s \<and> \<not> calm (Inl e :: ing_error + unit))"
  by (rule triple_weaken[OF run_commit_ends]) auto

lemma resume_ends:
  assumes "ij_id r = j"
  shows "triple (has_job i j) (resume S L i r) (resumed i j) never"
  unfolding resume_alt assms
  by (intro triple_if triple_weaken[OF resume_step[OF run_commit_recorded]] triple_weaken[OF resume_step[OF run_approved_ends]] triple_ret)
     (auto simp: resumed_def)

lemma st_replace_nothing: "\<not> blank i \<Longrightarrow> triple (\<lambda>s. is_jobs s = t) (st_replace L i j []) (\<lambda>_ s. is_jobs s = t) E"
  by (rule tripleI) (simp add: st_replace_def replace_job_records_def numbered_ids_def tenant_def chunks_def WRITE_CHUNK_ROWS_def)

lemma reset_interrupted_ends:
  assumes "ij_id r = j"
  shows "triple (has_job i j) (reset_interrupted L i r) (\<lambda>x s. has_job i j s \<and> ij_id x = j) E"
proof (rule tripleI)
  fix s :: "'a ing"
  assume h: "has_job i j s"
  then have b: "\<not> blank i" by (auto simp: has_job_def job_now_def split: if_splits)
  have upd: "triple (\<lambda>s'. is_jobs s' = is_jobs s) (st_update L i j cs) (\<lambda>x s. has_job i j s \<and> ij_id x = j) E"
    if "unknown_change cs = None" for cs
  proof (rule triple_weaken[OF st_update_ends[where g = "\<lambda>_. True" and i = i and j = j, OF that]])
    show "has_job i j s'" if "is_jobs s' = is_jobs s" for s' :: "'a ing"
      using h by (simp add: has_job_is job_is_jobs[OF that])
    show "has_job i j s' \<and> ij_id x = j" if "job_is i j x s' \<and> True" for x and s' :: "'a ing"
      using that job_is_key[of i j x s'] by (auto simp: has_job_is)
  qed auto
  have "triple (\<lambda>s'. is_jobs s' = is_jobs s) (reset_interrupted L i r) (\<lambda>x s. has_job i j s \<and> ij_id x = j) E"
    unfolding reset_interrupted_def assms
    by (rule triple_then[OF close_pending_ends[OF b]], rule triple_then, rule triple_if, rule st_replace_nothing[OF b], rule triple_ret, assumption, rule upd)
       simp
  from tripleD[OF this refl] show "case reset_interrupted L i r s of (Inl e, s') \<Rightarrow> E e s' | (Inr x, s') \<Rightarrow> has_job i j s' \<and> ij_id x = j" .
qed

lemma run_failed_ends: "triple (recorded i j x) (run_failed L i j r x) (stored i j) E"
proof (cases "\<exists>m. x = CommitError m")
  case True
  then show ?thesis using triple_weaken[OF job_of_recorded[of i j x]] by (auto simp: run_failed_def)
next
  case False
  then have "run_failed L i j r x = st_update L i j [JStatus ''failed'', JStage (ij_stage r), JError (Some (shown_error L x))]"
    by (cases x) (simp_all add: run_failed_def)
  then show ?thesis by (auto intro: triple_weaken[OF broken_ends])
qed

lemma heartbeat_stale_ends: "triple (job_is i j r) (heartbeat_stale S L x) (\<lambda>_. job_is i j r) E"
  by (rule tripleI) (simp add: heartbeat_stale_def job_is_def)

lemma parse_file_quiet [acts]: "quiet i j (parse_file L i' r f)"
  unfolding parse_file_def by (intro acts)

lemma split_off_quiet [acts]: "quiet i j (split_off L i' r groups)"
  unfolding split_off_def split_one_def Let_def by (intro acts)

lemma stage_parsed_rows_ends:
  assumes "ij_id r = j"
  shows "triple (has_job i j) (stage_parsed_rows S L i r result) (\<lambda>x s. has_job i j s \<and> ij_id x = j) (recorded i j)"
  unfolding stage_parsed_rows_def Let_def assms
  by (intro bind_quiet then_quiet triple_split acts st_update_id)

lemma stage_file_ends:
  assumes "ij_id r = j"
  shows "triple (has_job i j) (stage_file S L i j r) (\<lambda>x s. has_job i j s \<and> ij_id x = j) (recorded i j)"
  unfolding stage_file_def
proof (rule then_quiet[OF st_update_quiet])
  show "triple (has_job i j) (case from_file r of None \<Rightarrow> retS r | Some f \<Rightarrow> bindS (parse_file L i r f) (stage_parsed_rows S L i r))
      (\<lambda>x s. has_job i j s \<and> ij_id x = j) (recorded i j)"
    by (cases "from_file r") (simp_all add: assms triple_ret bind_quiet[OF parse_file_quiet stage_parsed_rows_ends[OF assms]])
qed

lemma map_staged_ends: "ij_id r = j \<Longrightarrow> triple (has_job i j) (map_staged S L i j remap previous r) (stored i j) (recorded i j)"
  unfolding map_staged_def
  by (intro bind_quiet store_quiet triple_if map_job_ends triple_fail) (simp_all add: recorded_def)

lemma run_pipeline_ends:
  assumes "ij_id r = j"
  shows "triple (has_job i j) (run_pipeline S L i j remap previous r) (stored i j) never"
  unfolding run_pipeline_def
proof (rule triple_attempt[OF stage_file_ends[OF assms] run_failed_ends])
  fix x
  show "triple (\<lambda>s. has_job i j s \<and> ij_id x = j) (catchS (map_staged S L i j remap previous x) (run_failed L i j x)) (stored i j) never"
    by (cases "ij_id x = j") (auto intro: triple_catch[OF map_staged_ends run_failed_ends] simp: triple_def[of "\<lambda>s. False"])
qed

lemma reset_then_run:
  assumes "ij_id r = j" "\<And>x. ij_id x = j \<Longrightarrow> triple (has_job i j) (run x) (stored i j) never"
  shows "triple (has_job i j) (bindS (reset_interrupted L i r) run) (stored i j) never"
  by (rule triple_all[OF reset_interrupted_ends[OF assms(1)] assms(2)])

lemma resume_or:
  assumes "ij_id r = j" "triple (has_job i j) m (stored i j) never"
  shows "triple (has_job i j) (bindS (resume S L i r) (\<lambda>x. case x of Some y \<Rightarrow> retS y | None \<Rightarrow> m)) (stored i j) never"
proof (rule triple_bind[OF resume_ends[OF assms(1)]])
  show "triple (resumed i j x) (case x of Some y \<Rightarrow> retS y | None \<Rightarrow> m) (stored i j) never" for x
    using assms(2) by (cases x) (auto simp: resumed_def[abs_def] intro: triple_ret)
qed

lemma retS_bind [simp]: "bindS (retS x) f = f x"
  by (simp add: bindS_def retS_def)

text \<open>What a run may also return: the job as it is, when its own run is still alive.\<close>

lemma restart_job_ends:
  assumes "ij_id r = j" "force \<or> ij_status r \<noteq> ''processing''" "\<And>x. ij_id x = j \<Longrightarrow> triple (has_job i j) (run x) (stored i j) never"
  shows "triple (has_job i j) (restart_job S L i force r run) (stored i j) never"
proof (cases "ij_status r = ''processing''")
  case True
  with assms(2) have "force" by simp
  with True have "restart_job S L i force r run
      = bindS (resume S L i r) (\<lambda>x. case x of Some y \<Rightarrow> retS y | None \<Rightarrow> bindS (reset_interrupted L i r) run)"
    by (simp add: restart_job_def)
  then show ?thesis using resume_or[OF assms(1) reset_then_run[OF assms(1,3)]] by simp
next
  case False
  then show ?thesis using assms(1,3) by (simp add: restart_job_def)
qed

text \<open>An approval that was never scheduled is applied: the job it leaves is at the step \<open>resume\<close> carries on.\<close>

lemma st_update_exact:
  assumes "unknown_change cs = None"
  shows "triple (job_is i j r) (st_update L i j cs) (\<lambda>x s. job_is i j x s \<and> (\<exists>n. x = changed_job n cs r)) E"
  by (rule tripleI) (use st_update_run[OF _ assms, where i = i and j = j and r = r and L = L] in \<open>fastforce simp: job_is_def\<close>)

lemma resume_approved:
  assumes "ij_id r = j" "ij_stage r = ''normalizing''" "truthy (get_or_none (ij_mapping r) ''approved_mapping'')"
  shows "triple (has_job i j) (bindS (resume S L i r) (\<lambda>x. case x of Some y \<Rightarrow> retS y | None \<Rightarrow> m)) (stored i j) never"
proof (rule triple_bind)
  show "triple (has_job i j) (resume S L i r) (\<lambda>x s. \<exists>y. x = Some y \<and> stored i j y s) never"
    using resume_step[OF run_approved_ends[where i = i and j = j]] by (simp add: resume_alt assms)
  show "triple (\<lambda>s. \<exists>y. x = Some y \<and> stored i j y s) (case x of Some y \<Rightarrow> retS y | None \<Rightarrow> m) (stored i j) never" for x
    by (cases x) (auto simp: triple_def retS_def)
qed

lemma get_del_key: "k \<noteq> k' \<Longrightarrow> get_or_none (del_key d k') k = get_or_none d k"
proof -
  assume "k \<noteq> k'"
  then have "map_of (del_key d k') k = map_of d k" by (induction d) (auto simp: del_key_def)
  then show ?thesis by (simp add: get_or_none_def dict_get_def)
qed

lemma unscheduled_ends:
  assumes "ij_stage r = ''normalizing''" "was_unscheduled r"
  shows "triple (job_is i j r) (bindS (st_update L i j [JStatus ''processing'', JMapping (del_key (ij_mapping r) ''approval_unscheduled''), JError None]) (\<lambda>r'.
      bindS (resume S L i r') (\<lambda>x. case x of Some y \<Rightarrow> retS y | None \<Rightarrow> m r'))) (stored i j) never"
proof (rule triple_bind[OF st_update_exact])
  fix x
  let ?P = "\<lambda>s. job_is i j x s \<and> (\<exists>n. x = changed_job n [JStatus ''processing'', JMapping (del_key (ij_mapping r) ''approval_unscheduled''), JError None] r)"
  have "triple (has_job i j) (bindS (resume S L i x) (\<lambda>x'. case x' of Some y \<Rightarrow> retS y | None \<Rightarrow> m x)) (stored i j) never"
    if "?P s" for s :: "'a ing"
    by (rule resume_approved) (use that job_is_key[of i j x s] assms in \<open>auto simp: change_simps was_unscheduled_def get_del_key\<close>)
  then show "triple ?P (bindS (resume S L i x) (\<lambda>x'. case x' of Some y \<Rightarrow> retS y | None \<Rightarrow> m x)) (stored i j) never"
    unfolding triple_def by (metis has_job_is)
qed simp

lemma process_ends:
  assumes "force \<or> ij_status r \<noteq> ''processing''" "ij_status r \<in> {''queued'', ''failed'', ''processing''}"
  shows "triple (job_is i j r) (process S L i j force) (stored i j) never"
  unfolding process_def Let_def
proof (rule triple_all[OF triple_weaken[OF job_of_same[where E = never]]])
  show "job_is i j r s \<and> x = r" if "x = r \<and> job_is i j r s" for x and s :: "'a ing"
    using that by simp
  fix x
  assume x: "x = r"
  let ?remap = "ij_status r = ''failed'' \<and> ij_stage r = ''normalizing''"
  let ?run = "run_pipeline S L i j ?remap (if ?remap then ij_error r else None)"
  have run: "triple (job_is i j r) (restart_job S L i force r ?run) (stored i j) never"
  proof (rule tripleI)
    fix s :: "'a ing"
    assume r: "job_is i j r s"
    then have "ij_id r = j" "has_job i j s" using job_is_key[OF r] by (auto simp: has_job_is)
    from tripleD[OF restart_job_ends[OF this(1) assms(1) run_pipeline_ends] this(2)]
    show "case restart_job S L i force r ?run s of (Inl e, s') \<Rightarrow> False | (Inr x, s') \<Rightarrow> stored i j x s'" by simp
  qed
  have "triple (job_is i j r) (if ?remap \<and> was_unscheduled r
      then bindS (st_update L i j [JStatus ''processing'', JMapping (del_key (ij_mapping r) ''approval_unscheduled''), JError None]) (\<lambda>r'.
             bindS (resume S L i r') (\<lambda>y. case y of Some z \<Rightarrow> retS z | None \<Rightarrow> restart_job S L i force r' ?run))
      else restart_job S L i force r ?run) (stored i j) never"
    by (intro triple_if unscheduled_ends run) blast+
  then show "triple (job_is i j r) (if ij_status x \<notin> {''queued'', ''failed'', ''processing''} then retS x else
      if (ij_status x = ''failed'' \<and> ij_stage x = ''normalizing'') \<and> was_unscheduled x
      then bindS (st_update L i j [JStatus ''processing'', JMapping (del_key (ij_mapping x) ''approval_unscheduled''), JError None]) (\<lambda>r'.
             bindS (resume S L i r') (\<lambda>y. case y of Some z \<Rightarrow> retS z
               | None \<Rightarrow> restart_job S L i force r' (run_pipeline S L i j (ij_status x = ''failed'' \<and> ij_stage x = ''normalizing'')
                   (if ij_status x = ''failed'' \<and> ij_stage x = ''normalizing'' then ij_error x else None))))
      else restart_job S L i force x (run_pipeline S L i j (ij_status x = ''failed'' \<and> ij_stage x = ''normalizing'')
                   (if ij_status x = ''failed'' \<and> ij_stage x = ''normalizing'' then ij_error x else None))) (stored i j) never"
    unfolding x using assms(2) by simp
qed auto

subsection \<open>A run always ends\<close>

text \<open>C6: Processing a job that is queued or failed, or that is processing and is taken over, always
  returns: whatever a parser, the cleaning, the text model, the stores or the import raise, the
  call gives back the row as it is stored, and that row waits for a person, is ready, imported or
  failed, so no job is left in progress by a run that is over.
\<close>

theorem process_settles:
  assumes "job_is i j r s" "force \<or> ij_status r \<noteq> ''processing''" "ij_status r \<in> {''queued'', ''failed'', ''processing''}"
  shows "\<exists>r' s'. process S L i j force s = (Inr r', s') \<and> job_is i j r' s' \<and> settled r'"
  using tripleD[OF process_ends[OF assms(2,3)] assms(1), of S L]
  by (auto simp: stored_def split: prod.splits sum.splits)

text \<open>C15: Running the import of a job either returns with the job imported and done, or raises a
  commit error with the job ready to be committed again and that error recorded on it; an import
  never leaves its job importing and no other error leaves it.
\<close>

theorem import_settles:
  assumes "job_is i j r s"
  shows "(\<exists>r' s'. run_commit S L i j s = (Inr r', s') \<and> job_is i j r' s' \<and> ij_status r' = ''imported'' \<and> ij_stage r' = ''done'')
     \<or> (\<exists>t r' s'. run_commit S L i j s = (Inl (CommitError t), s') \<and> job_is i j r' s' \<and> ij_status r' = ''ready'' \<and> ij_stage r' = ''ready''
          \<and> ij_error r' = Some t)"
proof -
  have "has_job i j s" using assms by (auto simp: has_job_is)
  from tripleD[OF run_commit_exact this, of S L] show ?thesis
    by (cases "run_commit S L i j s") (auto simp: put_back_def imported_def split: sum.splits)
qed

subsection \<open>Where a broken normalisation is recorded\<close>

text \<open>
  When the rows of an uploaded file break after their mapping was chosen, \<open>process\<close> records the
  stage of the row it staged, so a retry does not see that the mapping was already chosen.
\<close>

lemma stage_file_mapping:
  assumes "from_file r \<noteq> None" "stage_file S L i j r s = (Inr r', s')"
  shows "ij_stage r' = ''mapping''"
proof -
  have "gives (\<lambda>x. ij_stage x = ''mapping'') (st_update L i k [JRowCount n, JSheetName nm, JReport d, JStage ''mapping''])" for k n nm d
    unfolding gives_def st_update_def update_job_def get_job_def tbl_update_find
    by (auto split: sum.splits option.splits prod.splits if_splits simp: bindE_eq_Inr Let_def change_simps tbl_update_find dest!: find_Some_iff2)
  then have "gives (\<lambda>x. ij_stage x = ''mapping'') (stage_parsed_rows S L i r res)" for res
    unfolding stage_parsed_rows_def Let_def by (intro gives_bind) (auto split: prod.splits intro!: gives_then gives_bind)
  then have "gives (\<lambda>x. ij_stage x = ''mapping'') (stage_file S L i j r)"
    using assms(1) unfolding stage_file_def by (cases "from_file r") (auto intro!: gives_then gives_bind)
  then show ?thesis using assms(2) unfolding gives_def by (metis fst_conv)
qed

lemma broken_normalising_unmarked:
  assumes "from_file r \<noteq> None" "stage_file S L i j r s = (Inr r', s')" "map_staged S L i j remap previous r' s' = (Inl (Raised x), s'')" "has_job i j s''"
  shows "\<exists>q s3. run_pipeline S L i j remap previous r s = (Inr q, s3) \<and> ij_status q = ''failed'' \<and> ij_stage q = ''mapping''"
proof -
  from assms(4) obtain q where q: "job_now i j s'' = Some q" by (auto simp: has_job_def)
  have "unknown_change [JStatus ''failed'', JStage (ij_stage r'), JError (Some (shown_error L (Raised x)))] = None" by simp
  from st_update_run[OF q this, of L] stage_file_mapping[OF assms(1,2)] assms(2,3) show ?thesis
    by (auto simp: run_pipeline_def attemptS_def catchS_def run_failed_def change_simps)
qed

subsection \<open>Examples\<close>

definition sample_service :: ing_service where
  "sample_service = \<lparr>sv_engine = wit_engine, sv_max_upload = 1000, sv_max_rows = 100, sv_auto_commit = True, sv_restart_after = 900\<rparr>"

definition sample_ing_lib :: "unit ing_lib" where
  "sample_ing_lib = \<lparr>il_map = wit_lib, il_clock = int, il_uuid = nat_digits, il_uuid5 = (\<lambda>x. x), il_error_class = (\<lambda>e. ''Exception''),
     il_safe_name = Inr, il_file_kind = (\<lambda>n c t. ''csv''), il_object_key = (\<lambda>i k f n. Inr (i @ ''/'' @ f)), il_put = (\<lambda>k c t w. (w, Inr (int (length c), k))),
     il_get = (\<lambda>k w. Inl (LookupError k)), il_parse = (\<lambda>n c t. Inl (ValueError n)), il_reshape = (\<lambda>r e. r),
     il_round2 = id, il_hash = (\<lambda>v. []), il_existing = (\<lambda>i e ks w. Inr []), il_people = (\<lambda>i e q w. Inr []),
     il_upsert = (\<lambda>i rs fs ks w. (w, Inl (RuntimeError ''the database is not reachable'')))\<rparr>"

definition sample_job :: "string \<Rightarrow> string \<Rightarrow> job_row" where
  "sample_job status stage = \<lparr>ij_id = ''job-1'', ij_institution_id = ''uni'', ij_file_id = None, ij_entity = Some ''student'', ij_status = status, ij_stage = stage,
     ij_source_kind = ''sheet'', ij_requested_by = ''p'', ij_created_at = 0, ij_updated_at = 0, ij_mapping = [], ij_report = [], ij_options = [],
     ij_error = None, ij_row_count = 0, ij_sheet_name = None\<rparr>"

definition sample_ing :: "job_row \<Rightarrow> unit ing" where
  "sample_ing r = \<lparr>is_jobs = [r], is_rows = [], is_reviews = [], is_profiles = [], is_files = [], is_world = (), is_tick = 0, is_remembered = False\<rparr>"

lemma sample_job_is: "job_is ''uni'' ''job-1'' (sample_job status stage) (sample_ing (sample_job status stage))"
  by (simp add: job_is_def job_now_def sample_ing_def sample_job_def blank_def py_strip_def py_space_def)

theorem process_settles_witness:
  "\<exists>r' s'. process sample_service sample_ing_lib ''uni'' ''job-1'' True (sample_ing (sample_job ''processing'' ''parsing'')) = (Inr r', s')
     \<and> job_is ''uni'' ''job-1'' r' s' \<and> settled r'"
  by (rule process_settles[OF sample_job_is]) (simp_all add: sample_job_def)

theorem import_settles_witness:
  "let s = sample_ing (sample_job ''processing'' ''importing'') in
     (\<exists>r' s'. run_commit sample_service sample_ing_lib ''uni'' ''job-1'' s = (Inr r', s') \<and> job_is ''uni'' ''job-1'' r' s'
        \<and> ij_status r' = ''imported'' \<and> ij_stage r' = ''done'')
     \<or> (\<exists>t r' s'. run_commit sample_service sample_ing_lib ''uni'' ''job-1'' s = (Inl (CommitError t), s') \<and> job_is ''uni'' ''job-1'' r' s'
        \<and> ij_status r' = ''ready'' \<and> ij_stage r' = ''ready'' \<and> ij_error r' = Some t)"
  unfolding Let_def by (rule import_settles[OF sample_job_is])

end
