(* ===== verification/ReviewDecisions.thy ===== *)
theory ReviewDecisions
  imports IngestionRuns
begin

text \<open>
  What people's decisions do to an ingestion job: the mapping a reviewer approves is complete and
  unambiguous, a proposal can be approved as it is shown, nothing is imported while a question is
  open, and the rows a duplicate decision keeps out are those it is about.
\<close>

subsection \<open>Approving a mapping\<close>

definition targets_ok :: "string list \<Rightarrow> string list \<Rightarrow> (string \<times> string option) list \<Rightarrow> string dict \<Rightarrow> bool" where
  "targets_ok valid headers m a = (distinct (map snd a) \<and> set (map snd a) \<subseteq> set valid
     \<and> (\<forall>(h, f) \<in> set a. (h, Some f) \<in> set m \<and> (headers = [] \<or> h \<in> set headers)))"

lemma dict_set_snd: "set (map snd (dict_set a h f)) \<subseteq> insert f (set (map snd a))" "set (dict_set a h f) \<subseteq> insert (h, f) (set a)"
  unfolding dict_set_def by (induction a) (auto split: prod.splits)

lemma dict_set_distinct: "distinct (map snd a) \<Longrightarrow> f \<notin> set (map snd a) \<Longrightarrow> distinct (map snd (dict_set a h f))"
  unfolding dict_set_def
proof (induction a)
  case (Cons p a)
  obtain k v where p: "p = (k, v)" by (cases p)
  have "v \<notin> set (map snd (AList.update h f a))" if "k \<noteq> h"
    using Cons.prems dict_set_snd(1)[of a h f] by (auto simp: p dict_set_def)
  with Cons show ?case by (auto simp: p)
qed simp

lemma find_target: "find (\<lambda>(n, c). c = f) a = None \<longleftrightarrow> f \<notin> set (map snd a)"
  by (force simp: find_None_iff)

lemma check_targets_ok:
  assumes "check_targets valid headers entity ms a = Inr b" "targets_ok valid headers m a" "set ms \<subseteq> set m"
  shows "targets_ok valid headers m b"
  using assms
proof (induction valid headers entity ms a rule: check_targets.induct)
  case (2 valid headers entity h t ms a)
  show ?case
  proof (cases "t = None \<or> t = Some []")
    case True
    with 2 show ?thesis by auto
  next
    case False
    then obtain f where f: "t = Some f" "f \<noteq> []" by auto
    with 2(4) have g: "f \<in> set valid" "headers = [] \<or> h \<in> set headers" "find (\<lambda>(n, c). c = f) a = None"
        "check_targets valid headers entity ms (dict_set a h f) = Inr b"
      by (auto split: if_splits option.splits)
    have n: "f \<notin> set (map snd a)" using g(3) unfolding find_target .
    have mem: "(h, Some f) \<in> set m" using 2(6) f(1) by auto
    have "targets_ok valid headers m (dict_set a h f)"
      unfolding targets_ok_def
    proof (intro conjI)
      show "distinct (map snd (dict_set a h f))" using 2(5) n unfolding targets_ok_def by (intro dict_set_distinct) auto
      show "set (map snd (dict_set a h f)) \<subseteq> set valid"
        using dict_set_snd(1)[of a h f] 2(5) g(1) unfolding targets_ok_def by blast
      show "\<forall>(h, f) \<in> set (dict_set a h f). (h, Some f) \<in> set m \<and> (headers = [] \<or> h \<in> set headers)"
        using dict_set_snd(2)[of a h f] 2(5) g(2) mem unfolding targets_ok_def by blast
    qed
    with g f 2(6) show ?thesis by (intro 2(3)[OF f(1,2)]) auto
  qed
qed simp

lemma checked_mapping_ok:
  assumes "checked_mapping e headers entity m = Inr a"
  shows "targets_ok (field_names e) headers m a \<and> missing_fields e (map snd a) = []"
proof -
  from assms obtain b where b: "check_targets (field_names e) headers entity m [] = Inr b" "missing_fields e (map snd b) = []" "a = b"
    unfolding checked_mapping_def bindE_eq_Inr by (auto simp: Let_def split: if_splits)
  with check_targets_ok[OF b(1), of m] show ?thesis by (simp add: targets_ok_def)
qed

lemma bindS_Inr: "bindS m f s = (Inr y, t) \<longleftrightarrow> (\<exists>x s'. m s = (Inr x, s') \<and> f x s' = (Inr y, t))"
  by (auto simp: bindS_def split: prod.splits sum.splits)

lemma thenS_Inr: "thenS m k s = (Inr y, t) \<longleftrightarrow> (\<exists>x s'. m s = (Inr x, s') \<and> k s' = (Inr y, t))"
  by (simp add: thenS_def bindS_Inr)

lemma lift_Inr:
  "liftS q s = (Inr y, t) \<longleftrightarrow> q = Inr y \<and> t = s" "refuseS p s = (Inr z, t) \<longleftrightarrow> p = Inr z \<and> t = s"
  "retS x s = (Inr w, t) \<longleftrightarrow> w = x \<and> t = s" "failS e s \<noteq> (Inr u, t)"
  by (auto simp: liftS_def refuseS_def retS_def failS_def split: sum.splits)

lemma job_of_Inr: "job_of i j s = (Inr r, t) \<longleftrightarrow> job_is i j r s \<and> t = s"
  by (auto simp: job_of_def bindS_Inr st_get_job_def lift_Inr get_job_def job_is_def job_now_def split: option.splits)

lemma st_pending_Inr: "st_pending i j s = (Inr xs, t) \<longleftrightarrow> t = s \<and> list_review_items i (Some j) (Some ''pending'') DEFAULT_REVIEW_LIMIT 0 (is_reviews s) = Inr xs"
  by (auto simp: st_pending_def lift_Inr)

text \<open>The count of open questions that the report shows stops at the page the store returns.\<close>

lemma pending_count_capped: "st_pending i j s = (Inr xs, t) \<Longrightarrow> length xs \<le> 200"
  using page_length by (auto simp: st_pending_Inr list_review_items_def DEFAULT_REVIEW_LIMIT_def clamp_limit_def intro: order_trans[OF page_length])

lemma resolve_all_jobs:
  assumes "\<not> blank i" "st \<in> {''approved'', ''rejected''}" "resolve_all L i P st who res items s = (x, s')"
  shows "is_jobs s' = is_jobs s"
proof -
  have "triple (\<lambda>u. is_jobs u = is_jobs s) (resolve_all L i P st who res items) (\<lambda>_ u. is_jobs u = is_jobs s) (\<lambda>_ u. is_jobs u = is_jobs s)"
    unfolding resolve_all_def by (rule triple_then[OF each_ends[OF st_resolve_ok[OF assms(1,2)]] triple_ret]; simp)
  from tripleD[OF this refl] assms(3) show ?thesis by (simp split: sum.splits)
qed

lemma st_update_Inr:
  assumes "unknown_change cs = None" "job_is i j r s" "st_update L i j cs s = (Inr x, s')"
  shows "job_is i j x s' \<and> (\<exists>n. x = changed_job n cs r) \<and> is_rows s' = is_rows s \<and> is_world s' = is_world s \<and> is_reviews s' = is_reviews s"
  using st_update_run[OF assms(2)[unfolded job_is_def] assms(1), of L] assms(3) by (auto simp: job_is_def)

lemma approved_state_get: "get_or_none (approved_state r entity a who b sig) ''approved_mapping'' = PDict (pystr_dict a)"
  by (simp add: approved_state_def set_all_def get_or_none_def dict_get_set)

text \<open>C12: A mapping that a reviewer's approval records is one the job can be normalised under: it was
  waiting for that decision, every target is a field of the approved entity, no two headers share
  one, every required field is supplied, and each pair is one the reviewer sent, of a header the
  file has. The job is then processing at the normalising step.
\<close>

theorem approved_mapping_sound:
  assumes "approve_mapping L i j m entity who remember s = (Inr r', s')"
  shows "\<exists>r e a. job_is i j r s \<and> awaits_mapping r \<and> job_is i j r' s' \<and> ij_status r' = ''processing'' \<and> ij_stage r' = ''normalizing''
    \<and> dict_get CANONICAL_ENTITIES (the (ij_entity r')) = Some e \<and> get_or_none (ij_mapping r') ''approved_mapping'' = PDict (pystr_dict a)
    \<and> distinct (map snd a) \<and> set (map snd a) \<subseteq> set (field_names e) \<and> missing_fields e (map snd a) = []
    \<and> (\<forall>(h, f) \<in> set a. (h, Some f) \<in> set m \<and> (job_headers r = [] \<or> h \<in> set (job_headers r)))"
proof -
  from assms obtain r where r: "job_is i j r s" "awaits_mapping r"
    unfolding approve_mapping_def bindS_Inr job_of_Inr by (auto simp: lift_Inr split: if_splits)
  let ?name = "case entity of Some n \<Rightarrow> if n = [] then opt_or (ij_entity r) [] else n | None \<Rightarrow> opt_or (ij_entity r) []"
  let ?sig = "py_or (get_or_none (ij_mapping r) ''header_signature'') (PStr (header_signature (job_headers r)))"
  from assms r obtain e a pending s1 u where e: "dict_get CANONICAL_ENTITIES ?name = Some e" "checked_mapping e (job_headers r) ?name m = Inr a"
    and s1: "resolve_all L i (\<lambda>x. rv_kind x = ''mapping'') ''approved'' who [(''mapping'', PDict (pystr_dict a)), (''entity'', PStr ?name)] pending s = (u, s1)"
    and upd: "st_update L i j [JStatus ''processing'', JStage ''normalizing'', JEntity (Some ?name),
        JMapping (approved_state r ?name a who remember ?sig), JError None] s1 = (Inr r', s')"
    unfolding approve_mapping_def bindS_Inr thenS_Inr job_of_Inr
    by (auto simp: lift_Inr Let_def bindS_Inr thenS_Inr st_pending_Inr job_is_def split: if_splits option.splits)
  have b: "\<not> blank i" using job_is_key[OF r(1)] by simp
  have k: "job_is i j r s1" using r(1) job_is_jobs[OF resolve_all_jobs[OF b _ s1]] by simp
  from st_update_Inr[OF _ k upd] checked_mapping_ok[OF e(2)] e(1) r show ?thesis
    by (intro exI[of _ r] exI[of _ e] exI[of _ a]) (auto simp: change_simps approved_state_get targets_ok_def)
qed

subsection \<open>A proposal can be approved as it is shown\<close>

definition chosen_targets :: "(string \<times> string option) list \<Rightarrow> string dict" where
  "chosen_targets ms = keep_some (map (\<lambda>(h, t). case t of Some f \<Rightarrow> if f = [] then None else Some (h, f) | None \<Rightarrow> None) ms)"

lemma keep_some_simps [simp]: "keep_some [] = []" "keep_some (None # xs) = keep_some xs" "keep_some (Some x # xs) = x # keep_some xs"
  by (simp_all add: keep_some_def)

lemma chosen_targets_simps [simp]:
  "chosen_targets [] = []" "chosen_targets ((h, None) # ms) = chosen_targets ms"
  "chosen_targets ((h, Some f) # ms) = (if f = [] then chosen_targets ms else (h, f) # chosen_targets ms)"
  by (simp_all add: chosen_targets_def)

lemma check_targets_total:
  assumes "distinct (map fst ms)" "fst ` set ms \<inter> fst ` set a = {}" "distinct (map snd (a @ chosen_targets ms))"
    "set (map snd (chosen_targets ms)) \<subseteq> set valid" "fst ` set ms \<subseteq> set headers"
  shows "check_targets valid headers entity ms a = Inr (a @ chosen_targets ms)"
  using assms
proof (induction valid headers entity ms a rule: check_targets.induct)
  case (2 valid headers entity h t ms a)
  show ?case
  proof (cases "t = None \<or> t = Some []")
    case True
    with 2 show ?thesis by auto
  next
    case False
    then obtain f where f: "t = Some f" "f \<noteq> []" by auto
    with 2(6) have n: "f \<notin> set (map snd a)" by auto
    have d: "dict_set a h f = a @ [(h, f)]"
      using 2(5) by (intro dict_set_new) (force simp: dict_has_keys dict_keys_def)
    have "check_targets valid headers entity ms (dict_set a h f) = Inr (dict_set a h f @ chosen_targets ms)"
      using 2(4-8) f d by (intro 2(3)[OF f(1,2)]) (auto simp: find_target)
    then show ?thesis using f n 2(7,8) d by (auto simp: find_target[THEN iffD2] split: option.splits)
  qed
qed simp

lemma chosen_fields: "map snd (chosen_targets (map (\<lambda>m. (fm_header m, fm_field m)) ms)) = map field_text (filter has_field ms)"
  by (induction ms) (auto simp: has_field_def field_text_def split: option.splits)

text \<open>C40: A reviewer who sends back the mapping exactly as the engine proposed it is never refused:
  if the proposal leaves no required field of its entity unsupplied, the check accepts every pair
  of it, for any file whose headers differ from each other.
\<close>

theorem proposal_approvable:
  assumes "propose M G headers samples hint profile = Inr p" "dict_get CANONICAL_ENTITIES (pp_entity p) = Some e" "distinct headers"
    "missing_fields e (map field_text (filter has_field (pp_mappings p))) = []"
  shows "\<exists>a. checked_mapping e headers (pp_entity p) (map (\<lambda>m. (fm_header m, fm_field m)) (pp_mappings p)) = Inr a
     \<and> map snd a = map field_text (filter has_field (pp_mappings p))"
proof -
  let ?ms = "map (\<lambda>m. (fm_header m, fm_field m)) (pp_mappings p)"
  from propose_facts[OF assms(1)] obtain e' where e': "canonical_entity_named (pp_entity p) = Inr e'" "map fm_header (pp_mappings p) = headers"
    "distinct (map field_text (filter has_field (pp_mappings p)))" "\<forall>m \<in> set (pp_mappings p). fields_in (set (field_names e')) m" by blast
  have e: "e' = e" using e'(1) assms(2) by (simp add: canonical_entity_named_def)
  have v: "set (map field_text (filter has_field (pp_mappings p))) \<subseteq> set (field_names e)"
    using e'(4) unfolding e by (auto simp: fields_in_def has_field_def field_text_def split: option.splits)
  have h: "map fst ?ms = headers" using e'(2) by (simp add: comp_def)
  have "check_targets (field_names e) headers (pp_entity p) ?ms [] = Inr ([] @ chosen_targets ?ms)"
    by (rule check_targets_total) (use h assms(3) e'(3) v in \<open>simp_all add: chosen_fields flip: set_map\<close>)
  then show ?thesis using assms(4) by (simp add: checked_mapping_def chosen_fields)
qed

subsection \<open>No import past an open question\<close>

text \<open>C18: A commit is accepted only for a job that is ready or waits on duplicates, and only when none
  of the job's questions, on its mapping or on duplicates, is still pending; accepting it imports
  nothing yet and leaves the job importing, so the import itself starts from an answered job.
\<close>

theorem commit_needs_answers:
  assumes "request_commit L i j who s = (Inr r', s')"
    "\<forall>x \<in> set (is_reviews s). rv_kind x \<in> {''mapping'', ''duplicate''}"
  shows "(\<exists>r. job_is i j r s \<and> ij_status r \<in> {''ready'', ''needs_review''} \<and> ij_stage r \<in> {''ready'', ''duplicate_review''})
    \<and> (\<forall>x \<in> set (is_reviews s). rv_institution_id x = i \<and> rv_job_id x = j \<longrightarrow> rv_status x \<noteq> ''pending'')
    \<and> job_is i j r' s' \<and> ij_status r' = ''processing'' \<and> ij_stage r' = ''importing'' \<and> is_world s' = is_world s \<and> is_rows s' = is_rows s"
proof -
  from assms(1) obtain r pending where r: "job_is i j r s" "ij_status r \<in> {''ready'', ''needs_review''}" "ij_stage r \<in> {''ready'', ''duplicate_review''}"
    and p: "list_review_items i (Some j) (Some ''pending'') DEFAULT_REVIEW_LIMIT 0 (is_reviews s) = Inr pending"
      "filter (\<lambda>x. rv_kind x = ''duplicate'') pending = []" "\<not> list_ex (\<lambda>x. rv_kind x = ''mapping'') pending"
    and u: "st_update L i j [JStatus ''processing'', JStage ''importing'',
        JReport (dict_set (ij_report r) ''commit'' (PDict [(''committed_by'', PStr who)])), JError None] s = (Inr r', s')"
    unfolding request_commit_def bindS_Inr job_of_Inr
    by (auto simp: lift_Inr Let_def bindS_Inr st_pending_Inr simp del: Set.insert_iff split: if_splits)
  let ?open = "filter (\<lambda>x. rv_institution_id x = i \<and> (j = [] \<or> rv_job_id x = j) \<and> rv_status x = ''pending'') (is_reviews s)"
  have q: "pending = take 200 (sort_key (\<lambda>x. (rv_created_at x, rv_id x)) ?open)"
    using p(1) by (auto simp: list_review_items_def page_def clamp_limit_def DEFAULT_REVIEW_LIMIT_def opt_filter_def take_int_def)
  have "pending = []"
  proof (rule ccontr)
    assume "pending \<noteq> []"
    then have h: "hd pending \<in> set pending" by simp
    then have "hd pending \<in> set (sort_key (\<lambda>x. (rv_created_at x, rv_id x)) ?open)" unfolding q by (rule in_set_takeD)
    then have "hd pending \<in> set (is_reviews s)" unfolding set_sort by simp
    with assms(2) have k: "rv_kind (hd pending) = ''mapping'' \<or> rv_kind (hd pending) = ''duplicate''" by blast
    have "rv_kind (hd pending) \<noteq> ''duplicate''" using p(2) h unfolding filter_empty_conv by blast
    moreover have "rv_kind (hd pending) \<noteq> ''mapping''" using p(3) h unfolding list_ex_iff by blast
    ultimately show False using k by blast
  qed
  then have "sort_key (\<lambda>x. (rv_created_at x, rv_id x)) ?open = []" using q by (simp del: sort_key_simps)
  from arg_cong[OF this, of set] have "?open = []" unfolding set_sort by simp
  then show ?thesis using r st_update_Inr[OF _ r(1) u] by (auto simp: change_simps filter_empty_conv)
qed

subsection \<open>What a duplicate decision keeps out\<close>

definition left_of :: "'w ing_lib \<Rightarrow> review_row \<Rightarrow> string" where
  "left_of L x = text_of L (py_or (get_or_none (rv_payload x) ''left_locator'') (PStr []))"

definition on_copies :: "review_row \<Rightarrow> bool" where
  "on_copies x = (get_or_none (rv_payload x) ''kind'' = PStr ''conflicting_key'')"

definition skips_ok :: "'w ing_lib \<Rightarrow> staged_row dict \<Rightarrow> string set \<Rightarrow> review_row set \<Rightarrow> skips \<Rightarrow> bool" where
  "skips_ok L rows existing X k = (sk_dropped k \<inter> existing = {}
     \<and> (\<forall>l \<in> sk_locators k. key_text (dict_get rows l) \<in> existing \<longrightarrow> (\<exists>x \<in> X. on_copies x \<and> rv_status x = ''approved'' \<and> left_of L x = l))
     \<and> (\<forall>(key, n, keep) \<in> set (sk_chosen k). \<exists>x \<in> X. on_copies x \<and> rv_status x \<noteq> ''approved'' \<and> key_text (dict_get rows (left_of L x)) = key))"

lemma drop_row_ok: "skips_ok L rows existing X k \<Longrightarrow> key_text (dict_get rows l) \<notin> existing \<Longrightarrow> skips_ok L rows existing X (drop_row rows l k)"
  unfolding skips_ok_def drop_row_def Let_def by simp

lemma choose_row_ok:
  assumes "skips_ok L rows existing X k" "x \<in> X" "on_copies x" "rv_status x \<noteq> ''approved''"
  shows "skips_ok L rows existing X (choose_row rows (left_of L x) k)"
proof (cases "choose_row rows (left_of L x) k = k")
  case False
  then obtain r where r: "dict_get rows (left_of L x) = Some r"
    "choose_row rows (left_of L x) k = k\<lparr>sk_chosen := dict_set (sk_chosen k) (key_text (Some r)) (ir_row_number r, left_of L x)\<rparr>"
    by (auto simp: choose_row_def Let_def split: option.splits if_splits)
  have "set (dict_set (sk_chosen k) (key_text (Some r)) (ir_row_number r, left_of L x)) \<subseteq> insert (key_text (Some r), ir_row_number r, left_of L x) (set (sk_chosen k))"
    by (rule dict_set_snd(2))
  moreover have "\<exists>y \<in> X. on_copies y \<and> rv_status y \<noteq> ''approved'' \<and> key_text (dict_get rows (left_of L y)) = key_text (Some r)"
    using assms(2-4) unfolding r(1)[symmetric] by blast
  ultimately show ?thesis unfolding r(2) using assms(1) unfolding skips_ok_def
    by (auto dest!: subsetD)
qed (simp add: assms)

lemma decide_item_ok:
  assumes "skips_ok L rows existing X k" "x \<in> X"
  shows "skips_ok L rows existing X (decide_item L rows existing x k)"
proof (cases "on_copies x")
  case True
  have "skips_ok L rows existing X (k\<lparr>sk_locators := insert (left_of L x) (sk_locators k)\<rparr>)" if "rv_status x = ''approved''"
    using assms True that unfolding skips_ok_def by auto
  then show ?thesis
    using True assms choose_row_ok[OF assms True] by (simp add: decide_item_def Let_def on_copies_def flip: left_of_def)
next
  case False
  then show ?thesis
    using assms drop_row_ok[OF assms(1)] by (simp add: decide_item_def Let_def on_copies_def flip: left_of_def)
qed

lemma fold_decide_ok: "skips_ok L rows existing X k \<Longrightarrow> set items \<subseteq> X \<Longrightarrow> skips_ok L rows existing X (fold (decide_item L rows existing) items k)"
  by (induction items arbitrary: k) (auto intro: decide_item_ok)

lemma by_locator_wf: "wf_dict (by_locator rows)"
proof -
  have "wf_dict d \<Longrightarrow> wf_dict (foldl (\<lambda>d r. dict_set d (ir_locator r) r) d rows)" for d :: "staged_row dict"
    by (induction rows arbitrary: d) (auto intro: wf_dict_set)
  then show ?thesis by (simp add: by_locator_def)
qed

lemma wf_dict_mem: "wf_dict d \<Longrightarrow> (k, v) \<in> set d \<Longrightarrow> dict_get d k = Some v"
  by (simp add: wf_dict_def dict_get_def)

text \<open>C11: The update of a record that already exists is never lost to a duplicate decision: a row whose
  key the records already hold is kept out only if a person decided between conflicting copies of
  a key, and then either kept the stored copy against this very row or chose another row with the
  same key. An answer that two people are the same never keeps such a row out.
\<close>

theorem update_kept_unless_decided:
  assumes "l \<in> rows_to_skip L (by_locator staged) existing items" "dict_get (by_locator staged) l = Some r" "ir_record_key r = Some key" "key \<in> existing"
  shows "\<exists>x \<in> set items. on_copies x \<and> (rv_status x = ''approved'' \<and> left_of L x = l
     \<or> rv_status x \<noteq> ''approved'' \<and> key_text (dict_get (by_locator staged) (left_of L x)) = key)"
proof -
  let ?rows = "by_locator staged"
  let ?k = "fold (decide_item L ?rows existing) items \<lparr>sk_locators = {}, sk_dropped = {}, sk_chosen = []\<rparr>"
  have ok: "skips_ok L ?rows existing (set items) ?k"
    by (rule fold_decide_ok) (simp_all add: skips_ok_def)
  have t: "key_text (dict_get ?rows l) = key" using assms(2,3) by (simp add: key_text_def)
  have same: "ir_record_key r' = Some key" if "(l, r') \<in> set ?rows" for r'
    using wf_dict_mem[OF by_locator_wf that] assms(2,3) by simp
  from assms(1) consider "l \<in> sk_locators ?k" | "l \<in> not_chosen ?rows (sk_chosen ?k)" | "l \<in> dropped_rows ?rows (sk_dropped ?k)"
    by (auto simp: rows_to_skip_def Let_def)
  then show ?thesis
  proof cases
    case 1
    with ok t assms(4) show ?thesis unfolding skips_ok_def by blast
  next
    case 2
    then obtain n keep where "(key, n, keep) \<in> set (sk_chosen ?k)" using same by (auto simp: not_chosen_def)
    with ok show ?thesis unfolding skips_ok_def by blast
  next
    case 3
    then have "key \<in> sk_dropped ?k" using same by (auto simp: dropped_rows_def)
    with ok assms(4) show ?thesis unfolding skips_ok_def by blast
  qed
qed

subsection \<open>Examples\<close>

lemma enrollment_named: "dict_get CANONICAL_ENTITIES ''enrollment'' = Some ENROLLMENT_ENTITY"
  by (simp add: CANONICAL_ENTITIES_def dict_get_def entity_names)

lemma enrollment_required: "required_fields ENROLLMENT_ENTITY = [''student_id'']" "''student_id'' \<in> set (field_names ENROLLMENT_ENTITY)"
  by (simp_all add: required_fields_def field_names_def ENROLLMENT_ENTITY_def fld_def)

lemma enrollment_missing: "missing_fields ENROLLMENT_ENTITY [''student_id''] = []"
  by (simp add: missing_fields_def enrollment_required with_name_def)

lemma sample_checked: "checked_mapping ENROLLMENT_ENTITY [] ''enrollment'' [(''ID'', Some ''student_id'')] = Inr [(''ID'', ''student_id'')]"
  by (simp add: checked_mapping_def enrollment_required enrollment_missing dict_set_def)

lemma sample_headers: "job_headers (sample_job status stage) = []"
  by (simp add: job_headers_def str_list_def sub_dict_def get_or_none_def dict_get_def sample_job_def keep_some_def)

lemma sample_pending: "st_pending ''uni'' ''job-1'' (sample_ing r) = (Inr [], sample_ing r)"
  by (simp add: st_pending_Inr list_review_items_def sample_ing_def page_def take_int_def blank_def py_strip_def py_space_def)

lemma sample_job_of: "job_of ''uni'' ''job-1'' (sample_ing (sample_job status stage)) = (Inr (sample_job status stage), sample_ing (sample_job status stage))"
  by (simp add: job_of_Inr sample_job_is)

lemma sample_updated:
  "unknown_change cs = None \<Longrightarrow> \<exists>x s'. st_update sample_ing_lib ''uni'' ''job-1'' cs (sample_ing (sample_job status stage)) = (Inr x, s')"
  using st_update_run[OF sample_job_is[unfolded job_is_def]] by blast

lemma sample_approved:
  "\<exists>r' s'. approve_mapping sample_ing_lib ''uni'' ''job-1'' [(''ID'', Some ''student_id'')] (Some ''enrollment'') ''p'' True
     (sample_ing (sample_job ''failed'' ''mapping'')) = (Inr r', s')"
proof -
  have a: "awaits_mapping (sample_job ''failed'' ''mapping'')" by (simp add: awaits_mapping_def sample_job_def)
  show ?thesis
    unfolding approve_mapping_def bindS_def[of "job_of _ _"] sample_job_of
    using sample_updated
    by (simp add: a sample_headers enrollment_named sample_checked bindS_def refuseS_def sample_pending resolve_all_def thenS_def retS_def Let_def)
qed

theorem approved_mapping_sound_witness:
  "\<exists>r' s' r e a. approve_mapping sample_ing_lib ''uni'' ''job-1'' [(''ID'', Some ''student_id'')] (Some ''enrollment'') ''p'' True
       (sample_ing (sample_job ''failed'' ''mapping'')) = (Inr r', s')
     \<and> awaits_mapping r \<and> get_or_none (ij_mapping r') ''approved_mapping'' = PDict (pystr_dict a)
     \<and> distinct (map snd a) \<and> missing_fields e (map snd a) = []"
proof -
  from sample_approved obtain r' s' where x: "approve_mapping sample_ing_lib ''uni'' ''job-1'' [(''ID'', Some ''student_id'')] (Some ''enrollment'') ''p'' True
       (sample_ing (sample_job ''failed'' ''mapping'')) = (Inr r', s')" by blast
  from approved_mapping_sound[OF x] x show ?thesis by blast
qed

definition remembered_proposal :: proposal where
  "remembered_proposal = \<lparr>pp_entity = ''enrollment'', pp_entity_confidence = 1,
     pp_mappings = resolve_conflicts [profile_mapping ENROLLMENT_ENTITY [(''id'', ''student_id'')] [''id''] ''id''],
     pp_threshold = DEFAULT_CONFIDENCE_THRESHOLD, pp_alternatives = [], pp_profile = True\<rparr>"

lemma remembered_proposed: "propose wit_lib wit_engine [''id''] [] (Some ''enrollment'') [(''id'', ''student_id'')] = Inr remembered_proposal"
  by (simp add: propose_def enrollment_named propose_for_def remembered_proposal_def wit_engine_def)

lemma remembered_fields: "map field_text (filter has_field (pp_mappings remembered_proposal)) = [''student_id'']"
proof -
  have f: "profile_mapping ENROLLMENT_ENTITY [(''id'', ''student_id'')] [''id''] ''id'' = \<lparr>fm_header = ''id'', fm_field = Some ''student_id'', fm_confidence = 1,
      fm_method = ''approved_profile'', fm_reason = ''reused an approved mapping profile'', fm_alternatives = []\<rparr>"
    by (simp add: profile_mapping_def remembered_def enrollment_required dict_get_def)
  show ?thesis
    unfolding remembered_proposal_def f by (subst resolve_one) (simp_all add: has_field_def field_text_def)
qed

theorem proposal_approvable_witness:
  "\<exists>a. checked_mapping ENROLLMENT_ENTITY [''id''] ''enrollment'' (map (\<lambda>m. (fm_header m, fm_field m)) (pp_mappings remembered_proposal)) = Inr a"
  using proposal_approvable[OF remembered_proposed, of ENROLLMENT_ENTITY]
  by (simp add: remembered_fields enrollment_missing) (auto simp: remembered_proposal_def enrollment_named)

theorem commit_needs_answers_witness:
  "\<exists>r' s'. request_commit sample_ing_lib ''uni'' ''job-1'' ''p'' (sample_ing (sample_job ''ready'' ''ready'')) = (Inr r', s') \<and> ij_stage r' = ''importing''"
proof -
  have s: "ij_status (sample_job a b) = a" "ij_stage (sample_job a b) = b" for a b by (simp_all add: sample_job_def)
  have "\<exists>r' s'. request_commit sample_ing_lib ''uni'' ''job-1'' ''p'' (sample_ing (sample_job ''ready'' ''ready'')) = (Inr r', s')"
    unfolding request_commit_def bindS_def[of "job_of _ _"] sample_job_of
    using sample_updated by (simp add: s bindS_def sample_pending Let_def)
  then obtain r' s' where x: "request_commit sample_ing_lib ''uni'' ''job-1'' ''p'' (sample_ing (sample_job ''ready'' ''ready'')) = (Inr r', s')" by blast
  from commit_needs_answers[OF x] x show ?thesis by (auto simp: sample_ing_def)
qed

definition sample_copy :: staged_row where
  "sample_copy = \<lparr>ir_id = ''row-1'', ir_job_id = ''job-1'', ir_institution_id = ''uni'', ir_row_number = 1, ir_locator = ''row=1'', ir_raw = [], ir_normalized = [],
     ir_status = ''review'', ir_action = ''conflict_in_batch'', ir_record_key = Some ''s1'', ir_issues = []\<rparr>"

definition sample_decision :: review_row where
  "sample_decision = \<lparr>rv_id = ''rev-1'', rv_institution_id = ''uni'', rv_job_id = ''job-1'', rv_kind = ''duplicate'', rv_status = ''approved'',
     rv_payload = [(''kind'', PStr ''conflicting_key''), (''left_locator'', PStr ''row=1'')], rv_created_at = 0, rv_resolved_at = Some 1,
     rv_resolved_by = Some ''p'', rv_resolution = []\<rparr>"

theorem update_kept_unless_decided_witness:
  "\<exists>x \<in> set [sample_decision]. on_copies x \<and> (rv_status x = ''approved'' \<and> left_of sample_ing_lib x = ''row=1''
     \<or> rv_status x \<noteq> ''approved'' \<and> key_text (dict_get (by_locator [sample_copy]) (left_of sample_ing_lib x)) = ''s1'')"
proof (rule update_kept_unless_decided[where r = sample_copy])
  show "''row=1'' \<in> rows_to_skip sample_ing_lib (by_locator [sample_copy]) {''s1''} [sample_decision]"
    by (simp add: rows_to_skip_def decide_item_def sample_decision_def get_or_none_def dict_get_def py_or_def text_of_def py_str_def)
qed (simp_all add: by_locator_def sample_copy_def dict_set_def dict_get_def)

end
