(* ===== verification/CleanDates.thy ===== *)
theory CleanDates
  imports Cleaning
begin

text \<open>
  The dates \<^verbatim>\<open>normalization/cleaning.py\<close> keeps: digits are read and written back unchanged, the
  reading of a text in the ISO shape is forced by its dashes, days counted from the spreadsheet
  epoch stay in the calendar, and so every date of a cleaned value is the ISO text of a real day.
\<close>

subsection \<open>Digits\<close>

fun digit_number :: "nat \<Rightarrow> string \<Rightarrow> nat" where
  "digit_number acc [] = acc"
| "digit_number acc (c # cs) = digit_number (10 * acc + (of_char c - 48)) cs"

lemma digit_cases: "is_digit c \<Longrightarrow> \<exists>k < 10. c = char_of (48 + k) \<and> of_char c = 48 + (k :: nat)"
proof -
  assume "is_digit c"
  then have "48 \<le> (of_char c :: nat)" "(of_char c :: nat) \<le> 57" by (auto simp: is_digit_def Let_def)
  then show ?thesis by (intro exI[of _ "of_char c - 48 :: nat"]) simp
qed

lemma digit_no_space: "is_digit c \<Longrightarrow> \<not> py_space c"
  by (auto simp: is_digit_def py_space_def Let_def)

lemma digit_lower: "is_digit c \<Longrightarrow> lower_char c = c"
  by (auto simp: is_digit_def lower_char_def Let_def)

lemma strip_digits: "list_all is_digit s \<Longrightarrow> py_strip s = s"
proof -
  assume a: "list_all is_digit s"
  have d: "list_all is_digit t \<Longrightarrow> dropWhile py_space t = t" for t by (cases t) (auto simp: digit_no_space)
  from a have "list_all is_digit (rev s)" by (simp add: list_all_iff)
  with a show ?thesis by (simp add: py_strip_def d)
qed

lemma int_digit_number: "list_all is_digit s \<Longrightarrow> s \<noteq> [] \<or> b \<Longrightarrow> int_digits b (int acc) s = Some (int (digit_number acc s))"
proof (induction s arbitrary: acc b)
  case (Cons c cs)
  then have "is_digit c" by simp
  from digit_cases[OF this] obtain k :: nat where k: "k < 10" "of_char c = 48 + k" "is_digit c" using \<open>is_digit c\<close> by blast
  have e: "10 * int acc + int (of_char c) - 48 = int (10 * acc + (of_char c - 48))" using k(2) by simp
  have l: "list_all is_digit cs" using Cons.prems by simp
  show ?case unfolding int_digits.simps digit_number.simps e if_P[OF k(3)] by (rule Cons.IH[OF l]) simp
qed simp

lemma py_int_digits: "list_all is_digit s \<Longrightarrow> s \<noteq> [] \<Longrightarrow> py_int_of s = Some (int (digit_number 0 s))"
proof -
  assume a: "list_all is_digit s" "s \<noteq> []"
  then obtain c cs where c: "s = c # cs" by (cases s) auto
  with a have "is_digit c" by simp
  then have "c \<noteq> CHR ''-''" "c \<noteq> CHR ''+''" by (auto simp: is_digit_def Let_def)
  moreover have "int_digits False 0 s = Some (int (digit_number 0 s))" using int_digit_number[OF a(1), of False 0] a(2) by simp
  ultimately show ?thesis using strip_digits[OF a(1)] c by (simp add: py_int_of_def)
qed

lemma digit_number_snoc: "digit_number acc (s @ [c]) = 10 * digit_number acc s + (of_char c - 48)"
  by (induction s arbitrary: acc) simp_all

lemma nat_digits_snoc: "k < 10 \<Longrightarrow> nat_digits (10 * n + k) = (if n = 0 then [] else nat_digits n) @ [char_of (48 + k)]"
  by (subst nat_digits.simps) auto

lemma char_zero: "char_of (48 :: nat) = CHR ''0''"
  by (simp add: char_of_def bit_0)

lemma nat_digits_small: "k < 10 \<Longrightarrow> nat_digits k = [char_of (48 + k)]"
  by (subst nat_digits.simps) simp

lemma pad_value: "list_all is_digit s \<Longrightarrow> s \<noteq> [] \<Longrightarrow> pad (length s) (digit_number 0 s) = s"
proof (induction s rule: rev_induct)
  case (snoc c s)
  then have "is_digit c" by simp
  from digit_cases[OF this] obtain k :: nat where k: "k < 10" "c = char_of (48 + k)" "of_char c = 48 + k" by blast
  have v: "digit_number 0 (s @ [c]) = 10 * digit_number 0 s + k" by (simp add: digit_number_snoc k(3))
  show ?case
  proof (cases "s = []")
    case True
    then show ?thesis using k by (simp add: pad_def nat_digits.simps)
  next
    case False
    with snoc have i: "pad (length s) (digit_number 0 s) = s" by simp
    show ?thesis
    proof (cases "digit_number 0 s = 0")
      case True
      obtain m where m: "length s = Suc m" using \<open>s \<noteq> []\<close> by (cases s) auto
      from i have "s = replicate m (CHR ''0'') @ [CHR ''0'']" by (simp add: True m pad_def nat_digits.simps char_zero)
      then have "s = replicate (Suc m) (CHR ''0'')" by (simp add: replicate_append_same)
      with v True k m show ?thesis unfolding v by (simp add: pad_def nat_digits_small Let_def)
    next
      case False
      with i k show ?thesis unfolding v by (simp add: pad_def nat_digits_snoc Let_def)
    qed
  qed
qed simp

subsection \<open>Texts in the ISO shape\<close>

lemma split_on_aux_not_Nil: "split_on_aux d acc cs \<noteq> []"
  by (induction cs arbitrary: acc) simp_all

lemma py_join_Cons: "xs \<noteq> [] \<Longrightarrow> py_join sep (x # xs) = x @ sep @ py_join sep xs"
  by (cases xs) simp_all

lemma split_on_aux_join: "py_join [c] (split_on_aux c acc s) = rev acc @ s"
  by (induction s arbitrary: acc) (simp_all add: py_join_Cons split_on_aux_not_Nil)

lemma iso_shape_parts:
  assumes "iso_shape s"
  shows "\<exists>y m d. s = y @ ''-'' @ m @ ''-'' @ d \<and> length y = 4 \<and> length m = 2 \<and> length d = 2 \<and> list_all is_digit y \<and> list_all is_digit m \<and> list_all is_digit d"
proof -
  from assms obtain y m d where p: "split_on (CHR ''-'') s = [y, m, d]" and l: "length y = 4" "length m = 2" "length d = 2" "list_all is_digit (y @ m @ d)"
    unfolding iso_shape_def by (auto split: list.splits)
  have "s = py_join ''-'' [y, m, d]" using split_on_aux_join[of "CHR ''-''" "[]" s] p by (simp add: split_on_def)
  with l show ?thesis by auto
qed

lemma number_front_mem:
  "(n, t) \<in> set (number_front w P s) \<Longrightarrow> 0 < w \<Longrightarrow> n = digit_number 0 (take w s) \<and> t = drop w s \<and> length (take w s) = w \<and> list_all is_digit (take w s)"
proof -
  assume a: "(n, t) \<in> set (number_front w P s)" "0 < w"
  have d: "length (take w s) = w \<and> list_all is_digit (take w s)"
  proof (rule ccontr)
    assume "\<not> (length (take w s) = w \<and> list_all is_digit (take w s))"
    with a(1) show False unfolding number_front_def Let_def by (simp only: if_False list.set empty_iff)
  qed
  with a(2) have "take w s \<noteq> []" by (cases "take w s") simp_all
  then have i: "py_int_of (take w s) = Some (int (digit_number 0 (take w s)))" using d py_int_digits by blast
  have "(n, t) \<in> set (if P (digit_number 0 (take w s)) then [(digit_number 0 (take w s), drop w s)] else [])"
    using a(1) unfolding number_front_def Let_def if_P[OF d] i option.case nat_int .
  with d show ?thesis by (simp split: if_splits)
qed

lemma front_month:
  "(n, t) \<in> set (front D_m s) \<Longrightarrow> (n = digit_number 0 (take 2 s) \<and> t = drop 2 s) \<or> t = drop 1 s"
  by (auto dest!: number_front_mem)

lemma front_day:
  assumes "(n, t) \<in> set (front D_d s)" "s \<noteq> []" "hd s \<noteq> CHR '' ''"
  shows "(n = digit_number 0 (take 2 s) \<and> t = drop 2 s) \<or> t = drop 1 s"
proof -
  from assms(2,3) obtain c cs where "s = c # cs" "c \<noteq> CHR '' ''" by (cases s) auto
  then have "(n, t) \<in> set (number_front 2 (\<lambda>n. 1 \<le> n \<and> n \<le> 31) s) \<or> (n, t) \<in> set (number_front 1 (\<lambda>n. 1 \<le> n) s)"
    using assms(1) by simp
  then show ?thesis by (auto dest!: number_front_mem)
qed

lemma read_format_step: "r \<in> set (read_format (d # ds) s) \<longleftrightarrow> (\<exists>n t q. (n, t) \<in> set (front d s) \<and> q \<in> set (read_format ds t) \<and> r = (d, n) # q)"
  by force

lemma iso_reading:
  assumes "length y = 4" "length m = 2" "length d = 2" "list_all is_digit y" "list_all is_digit m" "list_all is_digit d"
    "r \<in> set (read_format ISO_FORMAT (y @ ''-'' @ m @ ''-'' @ d))"
  shows "\<exists>i j. r = [(D_Y, digit_number 0 y), (D_lit (CHR ''-''), i), (D_m, digit_number 0 m), (D_lit (CHR ''-''), j), (D_d, digit_number 0 d)]"
proof -
  let ?dash = "D_lit (CHR ''-'')"
  from assms(2) obtain a b where m: "m = [a, b]" by (auto simp: numeral_2_eq_2 length_Suc_conv)
  from assms(3) obtain e f where d: "d = [e, f]" by (auto simp: numeral_2_eq_2 length_Suc_conv)
  have dig: "is_digit b" "is_digit e" "is_digit f" using assms(5,6) m d by auto
  then have nd: "lower_char b \<noteq> lower_char (CHR ''-'')" "e \<noteq> CHR '' ''" by (auto simp: digit_lower is_digit_def lower_char_def Let_def)
  from assms(7) obtain n1 t1 r1 where 1: "(n1, t1) \<in> set (front D_Y (y @ ''-'' @ m @ ''-'' @ d))" "r1 \<in> set (read_format [?dash, D_m, ?dash, D_d] t1)" "r = (D_Y, n1) # r1"
    unfolding ISO_FORMAT_def read_format_step by blast
  have y1: "n1 = digit_number 0 y" "t1 = ''-'' @ m @ ''-'' @ d"
    using number_front_mem[of n1 t1 4 "\<lambda>n. True" "y @ ''-'' @ m @ ''-'' @ d"] 1(1) assms(1) by simp_all
  from 1(2) obtain n2 t2 r2 where 2: "(n2, t2) \<in> set (front ?dash t1)" "r2 \<in> set (read_format [D_m, ?dash, D_d] t2)" "r1 = (?dash, n2) # r2"
    unfolding read_format_step by blast
  from 2(1) have t2: "t2 = m @ ''-'' @ d" by (simp add: y1)
  from 2(2) obtain n3 t3 r3 where 3: "(n3, t3) \<in> set (front D_m t2)" "r3 \<in> set (read_format [?dash, D_d] t3)" "r2 = (D_m, n3) # r3"
    unfolding read_format_step by blast
  from 3(2) obtain n4 t4 r4 where 4: "(n4, t4) \<in> set (front ?dash t3)" "r4 \<in> set (read_format [D_d] t4)" "r3 = (?dash, n4) # r4"
    unfolding read_format_step by blast
  have "n3 = digit_number 0 m \<and> t3 = ''-'' @ d \<or> t3 = b # ''-'' @ d"
    using front_month[OF 3(1)] by (simp add: t2 m)
  with 4(1) nd(1) have m3: "n3 = digit_number 0 m" "t3 = ''-'' @ d" by auto
  from 4(1) have t4: "t4 = d" by (simp add: m3)
  from 4(2) obtain n5 t5 r5 where 5: "(n5, t5) \<in> set (front D_d t4)" "r5 \<in> set (read_format [] t5)" "r4 = (D_d, n5) # r5"
    unfolding read_format_step by blast
  from 5(2) have t5: "t5 = []" "r5 = []" by (auto split: if_splits)
  have "n5 = digit_number 0 d"
    using front_day[OF 5(1)] nd(2) by (simp add: t4 t5 d)
  with 1 2 3 4 5 y1 m3 t5 show ?thesis by blast
qed

lemma iso_text_real:
  assumes "iso_shape s" "strptime ISO_FORMAT s \<noteq> None"
  shows "\<exists>p. real_date p \<and> s = iso_date p"
proof -
  from iso_shape_parts[OF assms(1)] obtain y m d where s: "s = y @ ''-'' @ m @ ''-'' @ d"
    and l: "length y = 4" "length m = 2" "length d = 2" "list_all is_digit y" "list_all is_digit m" "list_all is_digit d" by blast
  from assms(2) obtain r rs where r: "read_format ISO_FORMAT s = r # rs" by (cases "read_format ISO_FORMAT s") (auto simp: strptime_def)
  then have "r \<in> set (read_format ISO_FORMAT s)" by simp
  from iso_reading[OF l this[unfolded s]] obtain i j where
    q: "r = [(D_Y, digit_number 0 y), (D_lit (CHR ''-''), i), (D_m, digit_number 0 m), (D_lit (CHR ''-''), j), (D_d, digit_number 0 d)]" by blast
  let ?p = "(digit_number 0 y, digit_number 0 m, digit_number 0 d)"
  have "real_date ?p" using assms(2) r q by (auto simp: strptime_def part_of_def Let_def split: if_splits)
  moreover have "y \<noteq> []" "m \<noteq> []" "d \<noteq> []" using l(1-3) by auto
  then have "s = iso_date ?p" using pad_value[OF l(4)] pad_value[OF l(5)] pad_value[OF l(6)] by (simp add: l(1-3) s iso_date_def)
  ultimately show ?thesis by blast
qed

subsection \<open>Days counted from the epoch\<close>

definition day_bound :: "nat \<times> nat \<times> nat \<Rightarrow> nat" where
  "day_bound = (\<lambda>(y, m, d). 336 * y + 28 * (m - 1) + (d - 1))"

definition calendar_day :: "nat \<times> nat \<times> nat \<Rightarrow> bool" where
  "calendar_day = (\<lambda>(y, m, d). 1 \<le> y \<and> 1 \<le> m \<and> m \<le> 12 \<and> 1 \<le> d \<and> d \<le> month_days y m)"

lemma month_days_bounds: "28 \<le> month_days y m"
  by (simp add: month_days_def)

lemma next_day_in_calendar:
  assumes "calendar_day t"
  shows "calendar_day (next_day t) \<and> day_bound (next_day t) \<le> day_bound t + 1"
proof -
  obtain y m d where t: "t = (y, m, d)" by (cases t)
  from assms show ?thesis using month_days_bounds[of y m] month_days_bounds[of y "m + 1"] month_days_bounds[of "y + 1" 1]
    by (auto simp: t calendar_day_def next_day_def day_bound_def)
qed

lemma add_days_in_calendar:
  "calendar_day t \<Longrightarrow> calendar_day (add_days n t) \<and> day_bound (add_days n t) \<le> day_bound t + n"
proof (induction n arbitrary: t)
  case (Suc n)
  from next_day_in_calendar[OF Suc.prems] have a: "calendar_day (next_day t)" "day_bound (next_day t) \<le> day_bound t + 1" by auto
  from Suc.IH[OF a(1)] a(2) show ?case by simp
qed simp

lemma serial_date_real:
  assumes "n \<le> 80000" shows "real_date (add_days n EXCEL_EPOCH)"
proof -
  have "calendar_day EXCEL_EPOCH" by (simp add: calendar_day_def EXCEL_EPOCH_def month_days_def)
  from add_days_in_calendar[OF this, of n] assms show ?thesis
    by (cases "add_days n EXCEL_EPOCH") (auto simp: calendar_day_def real_date_def day_bound_def EXCEL_EPOCH_def)
qed

subsection \<open>The dates of cleaned values\<close>

definition real_or_none :: "string option \<Rightarrow> bool" where
  "real_or_none x = (case x of None \<Rightarrow> True | Some t \<Rightarrow> \<exists>p. real_date p \<and> t = iso_date p)"

lemma real_or_none_intros: "real_or_none None" "real_date p \<Longrightarrow> real_or_none (Some (iso_date p))"
  unfolding real_or_none_def option.case by (rule TrueI, blast)

lemma strptime_real: "strptime f s = Some p \<Longrightarrow> real_date p"
  by (auto simp: strptime_def Let_def split: list.splits if_splits)

lemma keep_some_head: "keep_some xs = t # ts \<Longrightarrow> Some t \<in> set xs"
  using keep_some_mem[of t xs] by simp

lemma date_of_text_real: "real_or_none (fst (date_of_text s))"
proof (cases "s = [] \<or> iso_shape s")
  case True
  then show ?thesis using iso_text_real[of s] by (auto simp: date_of_text_def real_or_none_def)
next
  case False
  show ?thesis
  proof (cases "keep_some (map (\<lambda>f. strptime f s) DATE_FORMATS)")
    case Nil
    with False show ?thesis by (simp add: date_of_text_def real_or_none_intros)
  next
    case (Cons t ts)
    from keep_some_head[OF Cons] obtain f where "strptime f s = Some t" by auto
    from real_or_none_intros(2)[OF strptime_real[OF this]] False Cons show ?thesis by (simp add: date_of_text_def)
  qed
qed

lemma date_of_serial_real: "real_or_none (fst (date_of_serial r))"
proof (cases "20000 \<le> r \<and> r \<le> 80000")
  case True
  then have "nat \<lfloor>r\<rfloor> \<le> 80000" by linarith
  from real_or_none_intros(2)[OF serial_date_real[OF this]] True show ?thesis by (simp add: date_of_serial_def)
next
  case False
  then have "date_of_serial r = (None, False, False)" unfolding date_of_serial_def by (rule if_not_P)
  then show ?thesis by (simp add: real_or_none_intros)
qed

lemma normalize_date_cases:
  "normalize_date C v = Inr r \<Longrightarrow> (\<exists>s. r = date_of_text s) \<or> (\<exists>q. r = date_of_serial q)"
  unfolding normalize_date_def by (cases v) (auto simp: bindE_eq_Inr)

lemma clean_date_real: "clean_date C n v = Inr (x, ns, iss) \<Longrightarrow> x = PNone \<or> (\<exists>p. real_date p \<and> x = PStr (iso_date p))"
proof -
  assume "clean_date C n v = Inr (x, ns, iss)"
  then obtain iso changed ambiguous where r: "normalize_date C v = Inr (iso, changed, ambiguous)"
    and x: "x = (case iso of None \<Rightarrow> PNone | Some t \<Rightarrow> PStr t)"
    unfolding clean_date_def bindE_eq_Inr by (auto split: option.splits)
  have "real_or_none iso"
    using normalize_date_cases[OF r] date_of_text_real date_of_serial_real by (metis fst_conv)
  with x show ?thesis by (cases iso) (simp_all add: real_or_none_def)
qed

lemma clean_value_date: "clean_value C T_DATE n v = Inr (x, ns, iss) \<Longrightarrow> x \<noteq> PNone \<Longrightarrow> \<exists>w ms. clean_date C n w = Inr (x, ms, iss)"
  unfolding clean_value_def by (cases v) (auto simp: clean_typed_def bindE_eq_Inr Let_def split: if_splits)

text \<open>C29: a date that cleaning keeps is always a day of the calendar, written year, month and day: a
  cell that names no real day is emptied and reported, whichever of the formats it is in, and a
  number is read as a spreadsheet day only when it leads to one.
\<close>

theorem kept_dates_are_real:
  assumes "clean_value C T_DATE n v = Inr (x, ns, iss)"
  shows "x = PNone \<or> (\<exists>y m d. x = PStr (pad 4 y @ ''-'' @ pad 2 m @ ''-'' @ pad 2 d)
    \<and> 1 \<le> y \<and> y \<le> 9999 \<and> 1 \<le> m \<and> m \<le> 12 \<and> 1 \<le> d \<and> d \<le> month_days y m)"
proof -
  have "x = PNone \<or> (\<exists>p. real_date p \<and> x = PStr (iso_date p))"
    using clean_value_date[OF assms] clean_date_real by blast
  then show ?thesis by (auto simp: real_date_def iso_date_def)
qed

lemma wit_date: "clean_value wit_clean_lib T_DATE ''due_date'' (PStr ''31-1-2024'')
  = Inr (PStr ''2024-01-31'', [''due_date:date_parsed''], [])"
  by code_simp

lemma kept_dates_are_real_witness:
  "\<exists>y m d. ''2024-01-31'' = pad 4 y @ ''-'' @ pad 2 m @ ''-'' @ pad 2 d \<and> 1 \<le> d \<and> d \<le> month_days y m"
  using kept_dates_are_real[OF wit_date] by auto

end
