(* ===== verification/RecordStore.thy ===== *)
theory RecordStore
  imports IngestStore
begin

text \<open>
  The canonical record tables, \<^verbatim>\<open>institution_data/store.py\<close>: reading rows back as records, laying a
  sheet over a stored row, the import of a batch in one transaction, lookups, filters and edits.
  A table is the list of its rows; JSON columns hold the values they encode. What the database
  decides (whether a condition holds of a cell, the order of a result) is given by \<open>store_lib\<close>.
\<close>

subsection \<open>Values\<close>

text \<open>Python's \<^verbatim>\<open>==\<close>: numbers by value, mappings whatever their order.\<close>

definition num_of :: "pyval \<Rightarrow> rat option" where
  "num_of v = (case v of PBool b \<Rightarrow> Some (if b then 1 else 0) | PInt n \<Rightarrow> Some (of_int n) | PFloat r \<Rightarrow> Some r | _ \<Rightarrow> None)"

function py_eq :: "pyval \<Rightarrow> pyval \<Rightarrow> bool" where
  "py_eq v w = (case (num_of v, num_of w) of (Some a, Some b) \<Rightarrow> a = b
     | (None, None) \<Rightarrow> (case (v, w) of
           (PNone, PNone) \<Rightarrow> True
         | (PStr s, PStr t) \<Rightarrow> s = t
         | (PList xs, PList ys) \<Rightarrow> length xs = length ys \<and> list_all (\<lambda>(x, y). py_eq x y) (zip xs ys)
         | (PTuple xs, PTuple ys) \<Rightarrow> length xs = length ys \<and> list_all (\<lambda>(x, y). py_eq x y) (zip xs ys)
         | (PDict d, PDict e) \<Rightarrow> length d = length e \<and> list_all (\<lambda>(k, x). case dict_get e k of Some y \<Rightarrow> py_eq x y | None \<Rightarrow> False) d
         | _ \<Rightarrow> False)
     | _ \<Rightarrow> False)"
  by pat_completeness auto

lemma size_mem_list: "x \<in> set xs \<Longrightarrow> size x < Suc (size_list size xs)"
  by (induction xs) auto

lemma size_mem_dict: "(k, x) \<in> set d \<Longrightarrow> size x < Suc (size_list (size_prod (\<lambda>_. 0) size) d)"
  by (induction d) auto

termination py_eq
  by (relation "measure (\<lambda>(v, w). size v)") (auto dest!: set_zip_leftD intro: size_mem_list size_mem_dict)

declare py_eq.simps [simp del]

definition casefold :: "string \<Rightarrow> string" where
  "casefold s = concat (map (\<lambda>c. if (of_char c :: nat) = 223 then ''ss'' else [lower_char c]) s)"

definition blank_val :: "pyval \<Rightarrow> bool" where
  "blank_val v = (case v of PNone \<Rightarrow> True | PStr s \<Rightarrow> blank s | _ \<Rightarrow> False)"

subsection \<open>Rows\<close>

record entity_row =
  er_id :: string
  er_institution :: string
  er_key :: string
  er_cells :: "pyval dict"
  er_attributes :: "pyval dict"
  er_notes :: "pyval list"
  er_issues :: "pyval list"
  er_hash :: string
  er_lineage :: lineage
  er_imported_at :: int
  er_updated_at :: int

datatype sql_cond = Contains string | One_of "pyval list" | Never | Compare string pyval | Same_lower string | Same pyval | Lower_in "string list"

record store_lib =
  rs_clean :: clean_lib
  rs_hash :: "pyval \<Rightarrow> string"
  rs_iso :: "int \<Rightarrow> string"
  rs_holds :: "sql_cond \<Rightarrow> pyval \<Rightarrow> bool"
  rs_sorted :: "(string \<times> bool) option \<Rightarrow> entity_row list \<Rightarrow> entity_row list"
  rs_sorted_values :: "pyval list \<Rightarrow> pyval list"

abbreviation rs_lib :: "store_lib \<Rightarrow> agent_lib" where
  "rs_lib L \<equiv> cl_lib (rs_clean L)"

definition row_hash :: "store_lib \<Rightarrow> canonical_entity \<Rightarrow> pyval dict \<Rightarrow> pyval dict \<Rightarrow> string" where
  "row_hash L e fs attributes = content_hash (rs_hash L)
     \<lparr>cr_entity = ce_name e, cr_fields = filter (\<lambda>(k, v). \<not> blank_val v) fs, cr_attributes = attributes, cr_normalizations = [], cr_issues = [],
      cr_lineage = \<lparr>ln_file_id = None, ln_file_name = None, ln_locator = None, ln_job_id = None\<rparr>\<rparr>"

text \<open>A cell as it is read: a column of the type BOOLEAN holds 1 or 0.\<close>

definition read_cell :: "canonical_field \<Rightarrow> pyval \<Rightarrow> pyval" where
  "read_cell f v = (if cf_type f = T_BOOLEAN \<and> v \<noteq> PNone then PBool (truthy v) else v)"

definition stored_fields :: "canonical_entity \<Rightarrow> entity_row \<Rightarrow> pyval dict" where
  "stored_fields e r = map (\<lambda>f. (cf_name f, read_cell f (get_or_none (er_cells r) (cf_name f)))) (ce_fields e)"

definition row_to_record :: "store_lib \<Rightarrow> canonical_entity \<Rightarrow> entity_row \<Rightarrow> pyval dict" where
  "row_to_record L e r = [(''record_key'', PStr (er_key r))] @ stored_fields e r @
     [(''attributes'', PDict (er_attributes r)), (''issues'', PList (er_issues r)),
      (''lineage'', PDict [(''source_file_id'', opt_str (ln_file_id (er_lineage r))), (''source_file_name'', opt_str (ln_file_name (er_lineage r))),
         (''source_locator'', opt_str (ln_locator (er_lineage r))), (''ingestion_job_id'', opt_str (ln_job_id (er_lineage r))),
         (''imported_at'', PStr (rs_iso L (er_imported_at r))), (''updated_at'', PStr (rs_iso L (er_updated_at r)))])]"

subsection \<open>A sheet laid over a stored row\<close>

record merged =
  mg_fields :: "pyval dict"
  mg_attributes :: "pyval dict"
  mg_notes :: "pyval list"
  mg_issues :: "pyval list"
  mg_hash :: string
  mg_rederived :: "string list"
  mg_held_back :: "string list"
  mg_blocking :: bool

definition MERGE_CODES :: "string list" where
  "MERGE_CODES = [''stale_after_partial_update'', ''recomputed_after_partial_update'']"

definition CROSS_FIELD_CODES :: "string list" where
  "CROSS_FIELD_CODES = [''attended_exceeds_held'', ''attendance_unknown'', ''marks_exceed_maximum'', ''paid_far_exceeds_due'']"

definition derived_in :: "store_lib \<Rightarrow> pyval list \<Rightarrow> string \<Rightarrow> bool" where
  "derived_in L notes name = list_ex (\<lambda>x. derived_note name (py_str (al_repr (rs_lib L)) x)) notes"

text \<open>The column a note or an issue is about.\<close>

definition about :: "store_lib \<Rightarrow> pyval \<Rightarrow> pyval" where
  "about L item = (case item of PDict d \<Rightarrow> get_or_none d ''field''
     | _ \<Rightarrow> PStr (takeWhile (\<lambda>c. c \<noteq> CHR '':'') (py_str (al_repr (rs_lib L)) item)))"

definition about_one_of :: "store_lib \<Rightarrow> string list \<Rightarrow> pyval \<Rightarrow> bool" where
  "about_one_of L names item = (case about L item of PStr s \<Rightarrow> s \<in> set names | _ \<Rightarrow> False)"

definition has_code :: "string list \<Rightarrow> pyval \<Rightarrow> bool" where
  "has_code codes item = (case item of PDict d \<Rightarrow> (case get_or_none d ''code'' of PStr c \<Rightarrow> c \<in> set codes | _ \<Rightarrow> False) | _ \<Rightarrow> False)"

definition half_apart :: "py_float \<Rightarrow> py_float \<Rightarrow> bool" where
  "half_apart x y = (case (x, y) of (Finite_float a, Finite_float b) \<Rightarrow> \<bar>a - b\<bar> \<le> 1 / 2 | _ \<Rightarrow> False)"

text \<open>Whether a derived column holds what its formula gives; only a number too large for a float escapes the except.\<close>

definition agrees :: "store_lib \<Rightarrow> pyval \<Rightarrow> pyval \<Rightarrow> bool res" where
  "agrees L left right =
     (let txt = (\<lambda>v. casefold (py_strip (py_str (al_repr (rs_lib L)) v))); texts = Inr (txt left = txt right)
      in if left = PNone \<or> right = PNone then Inr (left = PNone \<and> right = PNone)
         else case float_of (rs_lib L) left of
             Inl (OtherError m) \<Rightarrow> Inl (OtherError m) | Inl _ \<Rightarrow> texts
           | Inr a \<Rightarrow> (case float_of (rs_lib L) right of
                 Inl (OtherError m) \<Rightarrow> Inl (OtherError m) | Inl _ \<Rightarrow> texts | Inr b \<Rightarrow> Inr (half_apart a b)))"

definition merge_warning :: "store_lib \<Rightarrow> string \<Rightarrow> string \<Rightarrow> pyval \<Rightarrow> pyval" where
  "merge_warning L name code v = PDict [(''field'', PStr name), (''code'', PStr code), (''severity'', PStr ''warning''),
     (''value'', PStr (take 40 (py_str (al_repr (rs_lib L)) v)))]"

record merge_state =
  ms_fields :: "pyval dict"
  ms_notes :: "pyval list"
  ms_issues :: "pyval list"
  ms_rederived :: "string list"
  ms_doubtful :: "string list"

text \<open>What the loop over the derived columns works with: the stored fields and notes, what was written and what changed.\<close>

record merge_scope =
  sc_stored :: "pyval dict"
  sc_notes :: "pyval list"
  sc_written :: "string list"
  sc_changed :: "string list"

definition keeps_stated :: "store_lib \<Rightarrow> canonical_entity \<Rightarrow> merge_scope \<Rightarrow> string \<Rightarrow> bool \<Rightarrow> pyval \<Rightarrow> bool res" where
  "keeps_stated L e S name was_noted v =
     (let before = get_or_none (sc_stored S) name in
      if blank_val before then Inr False
      else if v = PNone \<and> \<not> was_noted then Inr True
      else if was_noted then Inr False
      else bindE (derive_fields (rs_clean L) e (dict_set (sc_stored S) name PNone)) (\<lambda>(own, ns).
             bindE (agrees L (get_or_none own name) before) (\<lambda>b. Inr (\<not> b))))"

definition warn :: "store_lib \<Rightarrow> string \<Rightarrow> string \<Rightarrow> pyval \<Rightarrow> merge_state \<Rightarrow> merge_state" where
  "warn L name code v s = s\<lparr>ms_issues := ms_issues s @ [merge_warning L name code v]\<rparr>"

definition doubt_it :: "string \<Rightarrow> merge_state \<Rightarrow> merge_state" where
  "doubt_it name s = s\<lparr>ms_doubtful := ms_doubtful s @ [name]\<rparr>"

definition replace_value :: "store_lib \<Rightarrow> string \<Rightarrow> pyval \<Rightarrow> string list \<Rightarrow> merge_state \<Rightarrow> merge_state" where
  "replace_value L name v worked s = s\<lparr>ms_fields := dict_set (ms_fields s) name v, ms_rederived := ms_rederived s @ [name],
     ms_notes := filter (\<lambda>x. about L x \<noteq> PStr name) (ms_notes s) @ filter (\<lambda>x. about L x = PStr name) (map PStr worked),
     ms_issues := filter (\<lambda>x. about L x \<noteq> PStr name) (ms_issues s)\<rparr>"

definition settle_value :: "store_lib \<Rightarrow> string \<Rightarrow> pyval \<Rightarrow> bool \<Rightarrow> bool \<Rightarrow> pyval \<Rightarrow> string list \<Rightarrow> merge_state \<Rightarrow> merge_state" where
  "settle_value L name before was_noted doubt v worked s =
     (let replaced = (\<not> py_eq v before \<and> \<not> (blank_val before \<and> v = PNone));
          s1 = (if replaced then replace_value L name v worked s else s)
      in if doubt \<and> v \<noteq> PNone then doubt_it name (warn L name ''stale_after_partial_update'' (if blank_val before then v else before) s1)
         else if replaced \<and> v = PNone then warn L name ''stale_after_partial_update'' before s1
         else if replaced \<and> \<not> blank_val before \<and> \<not> was_noted then warn L name ''recomputed_after_partial_update'' before s1
         else s1)"

definition touches :: "string list \<Rightarrow> string list \<Rightarrow> bool" where
  "touches xs inputs = list_ex (\<lambda>x. x \<in> set inputs) xs"

definition rederive :: "store_lib \<Rightarrow> canonical_entity \<Rightarrow> merge_scope \<Rightarrow> string \<times> string list \<Rightarrow> merge_state \<Rightarrow> merge_state res" where
  "rederive L e S = (\<lambda>(name, inputs) s.
     (let before = get_or_none (sc_stored S) name; was_noted = derived_in L (sc_notes S) name in
      if name \<in> set (sc_written S) \<or> \<not> touches (sc_written S) inputs \<or> \<not> (touches (sc_changed S) inputs \<or> blank_val before \<or> was_noted)
      then Inr s
      else bindE (derive_fields (rs_clean L) e (dict_set (ms_fields s) name PNone)) (\<lambda>(worked, worked_notes).
        let v = get_or_none worked name; doubt = touches (ms_doubtful s) inputs;
            s1 = s\<lparr>ms_issues := filter (\<lambda>x. \<not> (about L x = PStr name \<and> has_code MERGE_CODES x)) (ms_issues s)\<rparr>
        in bindE (keeps_stated L e S name was_noted v) (\<lambda>stated.
          if stated
          then bindE (if doubt then Inr True else bindE (agrees L v before) (\<lambda>b. Inr (\<not> b))) (\<lambda>stale.
                 Inr (if stale then doubt_it name (warn L name ''stale_after_partial_update'' before s1) else s1))
          else Inr (settle_value L name before was_noted doubt v worked_notes s1)))))"

fun rederive_all :: "store_lib \<Rightarrow> canonical_entity \<Rightarrow> merge_scope \<Rightarrow> (string \<times> string list) list \<Rightarrow> merge_state \<Rightarrow> merge_state res" where
  "rederive_all L e S [] s = Inr s"
| "rederive_all L e S (x # xs) s = bindE (rederive L e S x s) (rederive_all L e S xs)"

definition derivations :: "canonical_entity \<Rightarrow> (string \<times> string list) list" where
  "derivations e = (case dict_get DERIVED_FIELDS (ce_name e) of Some d \<Rightarrow> d | None \<Rightarrow> [])"

definition own_derived :: "store_lib \<Rightarrow> canonical_entity \<Rightarrow> canonical_record \<Rightarrow> string list" where
  "own_derived L e r = filter (derived_in L (cr_normalizations r)) (map fst (derivations e))"

definition written_columns :: "store_lib \<Rightarrow> canonical_entity \<Rightarrow> canonical_record \<Rightarrow> string list \<Rightarrow> string list" where
  "written_columns L e r columns = filter (\<lambda>n. n \<notin> set (own_derived L e r) \<and> \<not> blank_val (get_or_none (cr_fields r) n)) columns"

definition laid_over :: "canonical_entity \<Rightarrow> pyval dict \<Rightarrow> canonical_record \<Rightarrow> string list \<Rightarrow> pyval dict" where
  "laid_over e stored r written = map (\<lambda>f. (cf_name f, if cf_name f \<in> set written then get_or_none (cr_fields r) (cf_name f) else get_or_none stored (cf_name f))) (ce_fields e)"

definition merged_attributes :: "string list \<Rightarrow> pyval dict \<Rightarrow> pyval dict \<Rightarrow> pyval dict" where
  "merged_attributes kept old new = foldl (\<lambda>d (k, v). dict_set d k v) old (filter (\<lambda>(k, v). k \<notin> set kept \<or> \<not> dict_has old k) new)"

text \<open>Notes and issues follow the values they are about.\<close>

definition laid_items :: "store_lib \<Rightarrow> string list \<Rightarrow> string list \<Rightarrow> pyval list \<Rightarrow> pyval list \<Rightarrow> pyval list" where
  "laid_items L written own old new = (let kept = filter (\<lambda>x. \<not> about_one_of L written x) old
     in kept @ filter (\<lambda>x. \<not> list_ex (py_eq x) kept \<and> \<not> about_one_of L own x) new)"

definition merge_stored :: "store_lib \<Rightarrow> canonical_entity \<Rightarrow> entity_row \<Rightarrow> canonical_record \<Rightarrow> string list \<Rightarrow> string list \<Rightarrow> merged res" where
  "merge_stored L e row r columns kept =
     (let stored = stored_fields e row; own = own_derived L e r; written = written_columns L e r columns;
          fs = laid_over e stored r written; attributes = merged_attributes kept (er_attributes row) (cr_attributes r);
          S = \<lparr>sc_stored = stored, sc_notes = er_notes row, sc_written = written,
               sc_changed = filter (\<lambda>n. \<not> py_eq (get_or_none fs n) (get_or_none stored n)) written\<rparr>;
          s = \<lparr>ms_fields = fs, ms_notes = laid_items L written own (er_notes row) (cr_normalizations r),
               ms_issues = laid_items L written own (er_issues row) (cr_issues r), ms_rederived = [], ms_doubtful = []\<rparr>
      in bindE (rederive_all L e S (derivations e) s) (\<lambda>s.
         bindE (cross_field_issues (rs_lib L) e (ms_fields s)) (\<lambda>checks. Inr
           \<lparr>mg_fields = ms_fields s, mg_attributes = attributes, mg_notes = ms_notes s,
            mg_issues = filter (\<lambda>x. \<not> has_code CROSS_FIELD_CODES x) (ms_issues s) @ checks,
            mg_hash = row_hash L e (ms_fields s) attributes, mg_rederived = ms_rederived s,
            mg_held_back = filter (\<lambda>n. n \<notin> set (ms_rederived s)) own, mg_blocking = list_ex is_error checks\<rparr>)))"

subsection \<open>Importing a batch\<close>

text \<open>What the loop decides for a record: skipped for a reason, unchanged, or a row to write.\<close>

record pending_row =
  pw_new :: bool
  pw_row :: entity_row
  pw_rederived :: "string list"

datatype verdict = Skipped string | Skipped_after_merge pyval | Unchanged | Write pending_row

definition stored_row :: "string \<Rightarrow> string \<Rightarrow> entity_row list \<Rightarrow> entity_row option" where
  "stored_row i key t = find (\<lambda>r. er_institution r = i \<and> er_key r = key) t"

definition cell_value :: "bool \<Rightarrow> pyval dict \<Rightarrow> merged option \<Rightarrow> canonical_field \<Rightarrow> pyval" where
  "cell_value merging fs m f =
     (let n = cf_name f;
          v = (case m of Some x \<Rightarrow> if n \<in> set (mg_rederived x) then get_or_none (mg_fields x) n
                 else if n \<in> set (mg_held_back x) then PNone else get_or_none fs n
               | None \<Rightarrow> get_or_none fs n);
          w = (if cf_type f = T_BOOLEAN \<and> v \<noteq> PNone then PInt (if truthy v then 1 else 0) else v)
      in if merging \<and> blank_val w then PNone else w)"

definition new_row :: "canonical_entity \<Rightarrow> string \<Rightarrow> string \<Rightarrow> string \<Rightarrow> int \<Rightarrow> bool \<Rightarrow> canonical_record \<Rightarrow> merged option \<Rightarrow> string \<Rightarrow> entity_row" where
  "new_row e rid i key stamp merging r m hash =
     \<lparr>er_id = rid, er_institution = i, er_key = key, er_cells = map (\<lambda>f. (cf_name f, cell_value merging (cr_fields r) m f)) (ce_fields e),
      er_attributes = (case m of Some x \<Rightarrow> mg_attributes x | None \<Rightarrow> cr_attributes r),
      er_notes = (case m of Some x \<Rightarrow> mg_notes x | None \<Rightarrow> cr_normalizations r),
      er_issues = (case m of Some x \<Rightarrow> mg_issues x | None \<Rightarrow> cr_issues r),
      er_hash = hash, er_lineage = cr_lineage r, er_imported_at = stamp, er_updated_at = stamp\<rparr>"

text \<open>The import's fixed part: the entity, the tenant, the mapped columns of a merge, the attributes kept.\<close>

record import_scope =
  is_entity :: canonical_entity
  is_tenant :: string
  is_columns :: "string list option"
  is_kept :: "string list"
  is_skip :: bool
  is_stamp :: int

definition to_write :: "import_scope \<Rightarrow> entity_row option \<Rightarrow> string \<Rightarrow> string \<Rightarrow> canonical_record \<Rightarrow> merged option \<Rightarrow> string \<Rightarrow> verdict" where
  "to_write A old rid key r m hash =
     (if map_option er_hash old = Some hash then Unchanged
      else Write \<lparr>pw_new = (old = None), pw_row = new_row (is_entity A) rid (is_tenant A) key (is_stamp A) (is_columns A \<noteq> None) r m hash,
             pw_rederived = (case m of Some x \<Rightarrow> mg_rederived x | None \<Rightarrow> [])\<rparr>)"

definition import_verdict :: "store_lib \<Rightarrow> import_scope \<Rightarrow> entity_row list \<Rightarrow> string list \<Rightarrow> string \<Rightarrow> string \<Rightarrow> canonical_record \<Rightarrow> verdict res" where
  "import_verdict L A t seen rid key r =
     (if no_key key then Inr (Skipped ''missing_natural_key'')
      else if is_skip A \<and> has_blocking_issues r then Inr (Skipped ''blocking_issues'')
      else if key \<in> set seen then Inr (Skipped ''duplicate_in_batch'')
      else let old = stored_row (is_tenant A) key t in
        case is_columns A of
          None \<Rightarrow> Inr (to_write A old rid key r None (content_hash (rs_hash L) r))
        | Some columns \<Rightarrow> (case old of
              None \<Rightarrow> Inr (to_write A old rid key r None (row_hash L (is_entity A) (cr_fields r) (cr_attributes r)))
            | Some row \<Rightarrow> bindE (merge_stored L (is_entity A) row r columns (is_kept A)) (\<lambda>m.
                if is_skip A \<and> mg_blocking m
                then Inr (Skipped_after_merge (PDict [(''record_key'', PStr key), (''reason'', PStr ''blocking_issues_after_merge''),
                       (''issues'', PList (filter is_error (mg_issues m)))]))
                else Inr (to_write A old rid key r (Some m) (mg_hash m)))))"

text \<open>A key is seen once it passed the first three tests; a key skipped after the merge is seen too.\<close>

definition sees_key :: "verdict \<Rightarrow> bool" where
  "sees_key v = (case v of Skipped m \<Rightarrow> False | _ \<Rightarrow> True)"

fun import_verdicts :: "store_lib \<Rightarrow> import_scope \<Rightarrow> entity_row list \<Rightarrow> string list \<Rightarrow> (string \<times> canonical_record) list \<Rightarrow> verdict list res" where
  "import_verdicts L A t seen [] = Inr []"
| "import_verdicts L A t seen ((rid, r) # xs) =
     (let key = record_key_for (al_repr (rs_lib L)) (is_entity A) (cr_fields r) in
      bindE (import_verdict L A t seen rid key r) (\<lambda>v.
      bindE (import_verdicts L A t (if sees_key v then key # seen else seen) xs) (\<lambda>vs. Inr (v # vs))))"

definition count_reason :: "string \<Rightarrow> import_summary \<Rightarrow> import_summary" where
  "count_reason m s = s\<lparr>sm_skipped := sm_skipped s + 1,
     sm_skipped_reasons := dict_set (sm_skipped_reasons s) m ((case dict_get (sm_skipped_reasons s) m of Some n \<Rightarrow> n | None \<Rightarrow> 0) + 1)\<rparr>"

definition sample_up_to :: "nat \<Rightarrow> 'a \<Rightarrow> 'a list \<Rightarrow> 'a list" where
  "sample_up_to n x xs = (if length xs < n then xs @ [x] else xs)"

definition count_verdict :: "verdict \<Rightarrow> import_summary \<Rightarrow> import_summary" where
  "count_verdict v s = (case v of
      Skipped m \<Rightarrow> count_reason m s
    | Skipped_after_merge x \<Rightarrow> (count_reason ''blocking_issues_after_merge'' s)\<lparr>sm_skipped_keys := sample_up_to 50 x (sm_skipped_keys s)\<rparr>
    | Unchanged \<Rightarrow> s\<lparr>sm_unchanged := sm_unchanged s + 1\<rparr>
    | Write w \<Rightarrow> s)"

definition count_write :: "pending_row \<Rightarrow> import_summary \<Rightarrow> import_summary" where
  "count_write w s = (if pw_new w
     then s\<lparr>sm_inserted := sm_inserted s + 1, sm_inserted_keys := sample_up_to 50 (er_key (pw_row w)) (sm_inserted_keys s)\<rparr>
     else s\<lparr>sm_updated := sm_updated s + 1, sm_updated_keys := sample_up_to 50 (er_key (pw_row w)) (sm_updated_keys s)\<rparr>)"

definition writes_of :: "verdict list \<Rightarrow> pending_row list" where
  "writes_of vs = concat (map (\<lambda>v. case v of Write w \<Rightarrow> [w] | _ \<Rightarrow> []) vs)"

text \<open>The assignments of the upsert: COALESCE for the mapped columns of a merge, the columns derived again as they are.\<close>

definition assign_cells :: "canonical_entity \<Rightarrow> string list option \<Rightarrow> string list \<Rightarrow> pyval dict \<Rightarrow> pyval dict \<Rightarrow> pyval dict" where
  "assign_cells e columns rederived new old = map (\<lambda>f. let n = cf_name f; x = get_or_none new n; y = get_or_none old n in
     (n, case columns of None \<Rightarrow> x
       | Some cs \<Rightarrow> if n \<in> set rederived then x else if n \<in> set cs then (if x = PNone then y else x) else y)) (ce_fields e)"

definition assign_row :: "canonical_entity \<Rightarrow> string list option \<Rightarrow> pending_row \<Rightarrow> entity_row \<Rightarrow> entity_row" where
  "assign_row e columns w old = (let r = pw_row w in
     old\<lparr>er_cells := assign_cells e columns (pw_rederived w) (er_cells r) (er_cells old), er_attributes := er_attributes r, er_notes := er_notes r,
        er_issues := er_issues r, er_hash := er_hash r, er_lineage := er_lineage r, er_updated_at := er_updated_at r\<rparr>)"

definition same_slot :: "entity_row \<Rightarrow> entity_row \<Rightarrow> bool" where
  "same_slot x y = (er_institution x = er_institution y \<and> er_key x = er_key y)"

definition put_row :: "canonical_entity \<Rightarrow> string list option \<Rightarrow> pending_row \<Rightarrow> entity_row list \<Rightarrow> entity_row list res" where
  "put_row e columns w t =
     (if list_ex (\<lambda>x. er_id x = er_id (pw_row w) \<and> \<not> same_slot x (pw_row w)) t then Inl (IntegrityError ''UNIQUE constraint failed'')
      else if list_ex (same_slot (pw_row w)) t then Inr (tbl_update (same_slot (pw_row w)) (assign_row e columns w) t)
      else Inr (t @ [pw_row w]))"

fun put_rows :: "canonical_entity \<Rightarrow> string list option \<Rightarrow> pending_row list \<Rightarrow> entity_row list \<Rightarrow> entity_row list res" where
  "put_rows e columns [] t = Inr t"
| "put_rows e columns (w # ws) t = bindE (put_row e columns w t) (put_rows e columns ws)"

text \<open>The rows statement by statement; a statement is known by the columns it assigns as they are.\<close>

definition by_statement :: "pending_row list \<Rightarrow> pending_row list" where
  "by_statement ws = concat (map (\<lambda>k. filter (\<lambda>w. pw_rederived w = k) ws) (keep_first (map pw_rederived ws)))"

definition empty_summary :: "string \<Rightarrow> import_summary" where
  "empty_summary n = \<lparr>sm_entity = n, sm_inserted = 0, sm_updated = 0, sm_unchanged = 0, sm_skipped = 0, sm_inserted_keys = [],
     sm_updated_keys = [], sm_skipped_reasons = [], sm_skipped_keys = []\<rparr>"

definition merge_columns_of :: "canonical_entity \<Rightarrow> string list option \<Rightarrow> string list option res" where
  "merge_columns_of e mapped_fields = (case mapped_fields of None \<Rightarrow> Inr None
     | Some ms \<Rightarrow> (let unknown = filter (\<lambda>n. n \<notin> set (field_names e)) (sort (remdups ms)) in
         if unknown \<noteq> [] then Inl (ValueError (''not fields of '' @ ce_name e @ '': '' @ py_join '', '' unknown))
         else Inr (Some (filter (\<lambda>n. n \<in> set ms) (field_names e)))))"

text \<open>
  The lookup goes in chunks and the write in batches of one transaction; neither shows in what is
  read or written. A failed write leaves the table as it was.
\<close>

definition upsert_records :: "store_lib \<Rightarrow> int \<Rightarrow> (nat \<Rightarrow> string) \<Rightarrow> string \<Rightarrow> canonical_record list \<Rightarrow> bool \<Rightarrow> string list option \<Rightarrow> string list
    \<Rightarrow> entity_row list \<Rightarrow> (entity_row list \<times> import_summary) res" where
  "upsert_records L stamp uuid i records skip mapped_fields kept t =
     (case records of [] \<Rightarrow> Inl (ValueError ''no records to import'')
      | first # others \<Rightarrow>
        bindE (canonical_entity_named (cr_entity first)) (\<lambda>e.
        if list_ex (\<lambda>r. cr_entity r \<noteq> ce_name e) records then Inl (ValueError ''all records in one import must share an entity'')
        else bindE (merge_columns_of e mapped_fields) (\<lambda>columns. tenant i (
        bindE (import_verdicts L \<lparr>is_entity = e, is_tenant = i, is_columns = columns, is_kept = kept, is_skip = skip, is_stamp = stamp\<rparr> t []
                (zip (map (\<lambda>n. ce_name e @ ''-'' @ uuid n) [0..<length records]) records)) (\<lambda>vs.
        bindE (put_rows e columns (by_statement (writes_of vs)) t) (\<lambda>t'.
        Inr (t', fold count_write (writes_of vs) (fold count_verdict vs (empty_summary (ce_name e))))))))))"

subsection \<open>Lookups and filters\<close>

definition existing_keys :: "store_lib \<Rightarrow> string \<Rightarrow> string \<Rightarrow> string list \<Rightarrow> (string \<Rightarrow> entity_row list) \<Rightarrow> pyval dict dict res" where
  "existing_keys L i name keys T = bindE (canonical_entity_named name) (\<lambda>e.
     if keys = [] then Inr []
     else tenant i (Inr (foldl (\<lambda>d r. dict_set d (er_key r) (row_to_record L e r)) []
       (concat (map (\<lambda>c. filter (\<lambda>r. er_institution r = i \<and> er_key r \<in> set c) (T (ce_table e))) (chunks 500 keys))))))"

definition cond_holds :: "store_lib \<Rightarrow> string \<times> sql_cond \<Rightarrow> entity_row \<Rightarrow> bool" where
  "cond_holds L c r = (case c of (column, Never) \<Rightarrow> False | (column, k) \<Rightarrow> rs_holds L k (get_or_none (er_cells r) column))"

definition person_texts :: "store_lib \<Rightarrow> pyval list \<Rightarrow> string list" where
  "person_texts L vs = take 500 (sort (remdups (map (\<lambda>v. py_lower (py_strip (py_str (al_repr (rs_lib L)) v))) (filter truthy vs))))"

definition person_conds :: "store_lib \<Rightarrow> canonical_entity \<Rightarrow> pyval list \<times> pyval list \<times> pyval list \<Rightarrow> (string \<times> sql_cond) list" where
  "person_conds L e = (\<lambda>(names, phones, emails). concat (map (\<lambda>(column, vs).
     if column \<in> set (field_names e) \<and> person_texts L vs \<noteq> [] then [(column, Lower_in (person_texts L vs))] else [])
     [(''name'', names), (''phone'', phones), (''email'', emails)]))"

definition lookup_person_matches :: "store_lib \<Rightarrow> string \<Rightarrow> string \<Rightarrow> pyval list \<times> pyval list \<times> pyval list \<Rightarrow> int \<Rightarrow> (string \<Rightarrow> entity_row list)
    \<Rightarrow> pyval dict dict res" where
  "lookup_person_matches L i name q limit T = bindE (canonical_entity_named name) (\<lambda>e.
     let conds = person_conds L e q in
     if conds = [] then Inr []
     else tenant i (Inr (foldl (\<lambda>d r. dict_set d (er_key r) (row_to_record L e r)) []
       (take_int (clamp_limit limit MAX_QUERY_ROWS) (filter (\<lambda>r. er_institution r = i \<and> list_ex (\<lambda>c. cond_holds L c r) conds) (T (ce_table e)))))))"

definition safe_column :: "store_lib \<Rightarrow> string \<Rightarrow> string res" where
  "safe_column L n = (let low = (\<lambda>c. 97 \<le> (of_char c :: nat) \<and> (of_char c :: nat) \<le> 122 \<or> c = CHR ''_'') in
     if (case n of [] \<Rightarrow> False | c # cs \<Rightarrow> low c \<and> length cs \<le> 62 \<and> list_all (\<lambda>x. low x \<or> is_digit x) cs) then Inr n
     else Inl (ValueError (''unsafe column name: '' @ al_repr (rs_lib L) (PStr n))))"

definition bool_param :: "canonical_field \<Rightarrow> pyval \<Rightarrow> pyval" where
  "bool_param f v = (if cf_type f \<noteq> T_BOOLEAN then v else case v of
      PBool b \<Rightarrow> PInt (if b then 1 else 0)
    | PInt n \<Rightarrow> PInt (if n \<noteq> 0 then 1 else 0)
    | PStr s \<Rightarrow> (let x = py_lower (py_strip s) in
        if x \<in> {''1'', ''true'', ''yes'', ''y'', ''t''} then PInt 1 else if x \<in> {''0'', ''false'', ''no'', ''n'', ''f''} then PInt 0 else v)
    | _ \<Rightarrow> v)"

definition field_column :: "store_lib \<Rightarrow> canonical_entity \<Rightarrow> string \<Rightarrow> canonical_field res" where
  "field_column L e n = bindE (safe_column L n) (entity_field e)"

definition drop_end :: "string \<Rightarrow> string \<Rightarrow> string" where
  "drop_end suffix_text s = take (length s - length suffix_text) s"

definition where_cond :: "store_lib \<Rightarrow> canonical_entity \<Rightarrow> string \<times> pyval \<Rightarrow> (string \<times> sql_cond) list res" where
  "where_cond L e = (\<lambda>(key, v).
     if v = PNone \<or> v = PStr [] then Inr []
     else if suffix ''__contains'' key
     then bindE (field_column L e (drop_end ''__contains'' key)) (\<lambda>f. Inr [(cf_name f, Contains (py_lower (py_str (al_repr (rs_lib L)) v)))])
     else if suffix ''__in'' key
     then bindE (field_column L e (drop_end ''__in'' key)) (\<lambda>f.
            let vs = (case v of PList xs \<Rightarrow> xs | PTuple xs \<Rightarrow> xs | _ \<Rightarrow> [v])
            in Inr [(cf_name f, if vs = [] then Never else One_of (map (bool_param f) vs))])
     else case find (\<lambda>(op, sign). suffix op key) [(''__gte'', ''>=''), (''__lte'', ''<=''), (''__lt'', ''<''), (''__gt'', ''>'')] of
         Some (op, sign) \<Rightarrow> bindE (field_column L e (drop_end op key)) (\<lambda>f. Inr [(cf_name f, Compare sign (bool_param f v))])
       | None \<Rightarrow> bindE (field_column L e key) (\<lambda>f. Inr [(cf_name f, case bool_param f v of PStr s \<Rightarrow> Same_lower (py_lower s) | x \<Rightarrow> Same x)]))"

definition where_conds :: "store_lib \<Rightarrow> canonical_entity \<Rightarrow> pyval dict \<Rightarrow> (string \<times> sql_cond) list res" where
  "where_conds L e filters = bindE (mapE (where_cond L e) filters) (\<lambda>cs. Inr (concat cs))"

definition matching :: "store_lib \<Rightarrow> string \<Rightarrow> (string \<times> sql_cond) list \<Rightarrow> entity_row list \<Rightarrow> entity_row list" where
  "matching L i conds t = filter (\<lambda>r. er_institution r = i \<and> list_all (\<lambda>c. cond_holds L c r) conds) t"

definition order_of :: "store_lib \<Rightarrow> canonical_entity \<Rightarrow> string option \<Rightarrow> (string \<times> bool) option res" where
  "order_of L e order_by = (case order_by of None \<Rightarrow> Inr None
     | Some s \<Rightarrow> if s = [] then Inr None
         else bindE (field_column L e (dropWhile (\<lambda>c. c = CHR ''-'') s)) (\<lambda>f. Inr (Some (cf_name f, prefix ''-'' s))))"

definition query_records :: "store_lib \<Rightarrow> string \<Rightarrow> string \<Rightarrow> pyval dict \<Rightarrow> int \<Rightarrow> int \<Rightarrow> string option \<Rightarrow> (string \<Rightarrow> entity_row list) \<Rightarrow> pyval dict list res" where
  "query_records L i name filters limit offset order_by T = bindE (canonical_entity_named name) (\<lambda>e.
     bindE (where_conds L e filters) (\<lambda>conds. bindE (order_of L e order_by) (\<lambda>order. tenant i (Inr
       (map (row_to_record L e) (take_int (clamp_limit limit MAX_QUERY_ROWS) (drop (nat (max 0 offset)) (rs_sorted L order (matching L i conds (T (ce_table e)))))))))))"

definition count_records :: "store_lib \<Rightarrow> string \<Rightarrow> string \<Rightarrow> pyval dict \<Rightarrow> (string \<Rightarrow> entity_row list) \<Rightarrow> int res" where
  "count_records L i name filters T = bindE (canonical_entity_named name) (\<lambda>e.
     bindE (where_conds L e filters) (\<lambda>conds. tenant i (Inr (int (length (matching L i conds (T (ce_table e))))))))"

definition get_record :: "store_lib \<Rightarrow> string \<Rightarrow> string \<Rightarrow> string \<Rightarrow> (string \<Rightarrow> entity_row list) \<Rightarrow> pyval dict option res" where
  "get_record L i name key T = bindE (canonical_entity_named name) (\<lambda>e.
     tenant i (Inr (map_option (row_to_record L e) (stored_row i (py_lower key) (T (ce_table e))))))"

definition distinct_values :: "store_lib \<Rightarrow> string \<Rightarrow> string \<Rightarrow> string \<Rightarrow> int \<Rightarrow> (string \<Rightarrow> entity_row list) \<Rightarrow> string list res" where
  "distinct_values L i name column limit T = bindE (canonical_entity_named name) (\<lambda>e. bindE (field_column L e column) (\<lambda>f. tenant i (Inr
     (map (py_str (al_repr (rs_lib L))) (take_int (clamp_limit limit MAX_QUERY_ROWS) (rs_sorted_values L (remdups (filter (\<lambda>v. v \<noteq> PNone \<and> v \<noteq> PStr [])
       (map (\<lambda>r. get_or_none (er_cells r) (cf_name f)) (filter (\<lambda>r. er_institution r = i) (T (ce_table e))))))))))))"

definition entity_counts :: "string \<Rightarrow> (string \<Rightarrow> entity_row list) \<Rightarrow> int dict res" where
  "entity_counts i T = tenant i (Inr (map (\<lambda>(n, e). (ce_name e, int (tbl_count (\<lambda>r. er_institution r = i) (T (ce_table e))))) CANONICAL_ENTITIES))"

subsection \<open>Edits and deletions\<close>

definition edit_cell :: "store_lib \<Rightarrow> canonical_entity \<Rightarrow> string \<times> pyval \<Rightarrow> (string \<times> pyval) res" where
  "edit_cell L e = (\<lambda>(key, v). bindE (safe_column L key) (\<lambda>column.
     if column \<in> set (ce_natural_key e) then Inl (ValueError (''natural key field cannot be updated: '' @ column))
     else bindE (entity_field e column) (\<lambda>f. Inr (column, if cf_type f = T_BOOLEAN \<and> v \<noteq> PNone then PInt (if truthy v then 1 else 0) else v))))"

definition edit_row :: "(string \<times> pyval) list \<Rightarrow> int \<Rightarrow> string \<Rightarrow> entity_row \<Rightarrow> entity_row" where
  "edit_row cells stamp locator r = r\<lparr>er_cells := foldl (\<lambda>d (k, v). dict_set d k v) (er_cells r) cells, er_updated_at := stamp,
     er_lineage := (er_lineage r)\<lparr>ln_locator := Some locator\<rparr>\<rparr>"

definition update_record_fields :: "store_lib \<Rightarrow> int \<Rightarrow> string \<Rightarrow> string \<Rightarrow> string \<Rightarrow> pyval dict \<Rightarrow> string \<Rightarrow> (string \<Rightarrow> entity_row list)
    \<Rightarrow> ((string \<Rightarrow> entity_row list) \<times> pyval dict \<times> pyval dict) res" where
  "update_record_fields L stamp i name key changes locator T = bindE (canonical_entity_named name) (\<lambda>e.
     if changes = [] then Inl (ValueError ''no changes supplied'')
     else bindE (get_record L i name key T) (\<lambda>found. case found of
         None \<Rightarrow> Inl (KeyError (name @ '' record not found: '' @ key))
       | Some before \<Rightarrow> bindE (mapE (edit_cell L e) changes) (\<lambda>cells.
           let t = tbl_update (\<lambda>r. er_institution r = i \<and> er_key r = py_lower key) (edit_row cells stamp locator) (T (ce_table e))
           in Inr (T(ce_table e := t), before, case stored_row i (py_lower key) t of Some r \<Rightarrow> row_to_record L e r | None \<Rightarrow> before))))"

definition delete_by_job :: "string \<Rightarrow> string \<Rightarrow> string \<Rightarrow> (string \<Rightarrow> entity_row list) \<Rightarrow> ((string \<Rightarrow> entity_row list) \<times> int) res" where
  "delete_by_job i name job T = bindE (canonical_entity_named name) (\<lambda>e.
     let P = (\<lambda>r. er_institution r = i \<and> ln_job_id (er_lineage r) = Some job)
     in tenant i (Inr (T(ce_table e := tbl_delete P (T (ce_table e))), int (tbl_count P (T (ce_table e))))))"

subsection \<open>Institutions\<close>

record institution_row =
  in_id :: string
  in_name :: string
  in_location :: string
  in_timezone :: string
  in_status :: string
  in_settings :: "pyval dict"
  in_created_at :: int
  in_updated_at :: int

definition get_institution :: "string \<Rightarrow> institution_row list \<Rightarrow> institution_row option" where
  "get_institution i t = find (\<lambda>r. in_id r = i) t"

definition upsert_institution :: "int \<Rightarrow> string \<Rightarrow> string \<Rightarrow> string \<Rightarrow> string \<Rightarrow> pyval dict \<Rightarrow> institution_row list
    \<Rightarrow> institution_row list \<times> institution_row option" where
  "upsert_institution stamp i name location zone settings t =
     (let t' = (if list_ex (\<lambda>r. in_id r = i) t
        then tbl_update (\<lambda>r. in_id r = i) (\<lambda>r. r\<lparr>in_name := name, in_location := location, in_timezone := zone, in_settings := settings, in_updated_at := stamp\<rparr>) t
        else t @ [\<lparr>in_id = i, in_name = name, in_location = location, in_timezone = zone, in_status = ''active'', in_settings = settings,
               in_created_at = stamp, in_updated_at = stamp\<rparr>])
      in (t', get_institution i t'))"

definition list_institutions :: "int \<Rightarrow> institution_row list \<Rightarrow> institution_row list" where
  "list_institutions limit t = page in_name (clamp_limit limit MAX_QUERY_ROWS) 0 t"

end
