(* ===== verification/RecordImports.thy ===== *)
theory RecordImports
  imports RecordStore
begin

text \<open>
  What an import of canonical records promises: every record is counted once and the table grows by
  the inserted ones, a merge never erases what another sheet supplied nor touches a column outside
  its mapping or another tenant's row, and keys stay unique.
\<close>

subsection \<open>Writing the rows\<close>

definition row_of_write :: "entity_row \<Rightarrow> pending_row \<Rightarrow> bool" where
  "row_of_write r w = same_slot (pw_row w) r"

definition written_over :: "canonical_entity \<Rightarrow> string list option \<Rightarrow> pending_row list \<Rightarrow> entity_row \<Rightarrow> entity_row" where
  "written_over e columns ws r = (case find (row_of_write r) ws of None \<Rightarrow> r | Some w \<Rightarrow> assign_row e columns w r)"

definition slot_in :: "entity_row list \<Rightarrow> pending_row \<Rightarrow> bool" where
  "slot_in t w = list_ex (same_slot (pw_row w)) t"

definition slot :: "entity_row \<Rightarrow> string \<times> string" where
  "slot r = (er_institution r, er_key r)"

lemma same_slot_iff: "same_slot x y \<longleftrightarrow> slot x = slot y"
  by (simp add: same_slot_def slot_def)

lemma slot_assign [simp]: "slot (assign_row e columns w r) = slot r" "er_id (assign_row e columns w r) = er_id r"
  by (simp_all add: slot_def assign_row_def Let_def)

lemma slot_written_over [simp]: "slot (written_over e columns ws r) = slot r" "er_id (written_over e columns ws r) = er_id r"
  by (simp_all add: written_over_def split: option.splits)

lemma slot_in_slots: "slot_in t w \<longleftrightarrow> slot (pw_row w) \<in> slot ` set t"
  by (auto simp: slot_in_def list_ex_iff same_slot_iff)

lemma written_over_other: "slot r \<notin> (slot \<circ> pw_row) ` set ws \<Longrightarrow> written_over e columns ws r = r"
  unfolding written_over_def row_of_write_def same_slot_iff
  by (subst find_None_iff[THEN iffD2]) (auto simp: image_iff)

lemma written_over_Cons:
  assumes "distinct (map (slot \<circ> pw_row) (w # ws))"
  shows "written_over e columns (w # ws) r = written_over e columns ws (if same_slot (pw_row w) r then assign_row e columns w r else r)"
proof (cases "same_slot (pw_row w) r")
  case True
  then have "slot (assign_row e columns w r) \<notin> (slot \<circ> pw_row) ` set ws" using assms by (auto simp: same_slot_iff)
  from written_over_other[OF this] True show ?thesis by (simp add: written_over_def row_of_write_def)
qed (simp add: written_over_def row_of_write_def)

lemma put_row_cases:
  assumes "put_row e columns w t = Inr t'"
  shows "(slot_in t w \<and> t' = map (\<lambda>r. if same_slot (pw_row w) r then assign_row e columns w r else r) t)
    \<or> (\<not> slot_in t w \<and> t' = t @ [pw_row w])"
  using assms by (auto simp: put_row_def slot_in_def tbl_update_def split: if_splits)

lemma put_row_slots:
  assumes "put_row e columns w t = Inr t'"
  shows "slot ` set t' = insert (slot (pw_row w)) (slot ` set t)"
proof -
  have m: "map slot (map (\<lambda>r. if same_slot (pw_row w) r then assign_row e columns w r else r) t) = map slot t" by simp
  have s: "slot ` set (map (\<lambda>r. if same_slot (pw_row w) r then assign_row e columns w r else r) t) = slot ` set t"
    using m by (metis list.set_map)
  from put_row_cases[OF assms] show ?thesis
  proof
    assume "slot_in t w \<and> t' = map (\<lambda>r. if same_slot (pw_row w) r then assign_row e columns w r else r) t"
    with s show ?thesis unfolding slot_in_slots by (metis insert_absorb)
  qed auto
qed

text \<open>The table after the write: every stored row with what is written over it, then the new rows.\<close>

lemma put_rows_result:
  assumes "put_rows e columns ws t = Inr t'" "distinct (map (slot \<circ> pw_row) ws)"
  shows "t' = map (written_over e columns ws) t @ map pw_row (filter (\<lambda>w. \<not> slot_in t w) ws)"
  using assms
proof (induction ws arbitrary: t)
  case Nil
  have "written_over e columns [] = (\<lambda>r. r)" by (simp add: written_over_def fun_eq_iff)
  with Nil show ?case by simp
next
  case (Cons w ws)
  from Cons.prems(1) obtain u where u: "put_row e columns w t = Inr u" "put_rows e columns ws u = Inr t'"
    by (auto simp: bindE_eq_Inr)
  from Cons.prems(2) have d: "distinct (map (slot \<circ> pw_row) ws)" and nw: "slot (pw_row w) \<notin> (slot \<circ> pw_row) ` set ws" by (auto simp: comp_def)
  have same: "slot_in u v = slot_in t v" if "v \<in> set ws" for v
    using that nw put_row_slots[OF u(1)] unfolding slot_in_slots by (auto simp: image_iff)
  have f: "filter (\<lambda>v. \<not> slot_in u v) ws = filter (\<lambda>v. \<not> slot_in t v) ws" by (rule filter_cong[OF refl]) (simp add: same)
  note over = written_over_Cons[OF Cons.prems(2)]
  from put_row_cases[OF u(1)] show ?case
  proof
    assume a: "slot_in t w \<and> u = map (\<lambda>r. if same_slot (pw_row w) r then assign_row e columns w r else r) t"
    have "map (written_over e columns ws) u = map (written_over e columns (w # ws)) t" using a by (simp add: over comp_def)
    with Cons.IH[OF u(2) d] f a show ?thesis by simp
  next
    assume a: "\<not> slot_in t w \<and> u = t @ [pw_row w]"
    have "map (written_over e columns (w # ws)) t = map (written_over e columns ws) t"
      using a by (intro map_cong refl) (auto simp: over slot_in_slots same_slot_iff image_iff)
    moreover have "written_over e columns ws (pw_row w) = pw_row w" using nw by (rule written_over_other)
    ultimately show ?thesis using Cons.IH[OF u(2) d] f a by simp
  qed
qed

lemma put_rows_unique:
  assumes "put_rows e columns ws t = Inr t'" "distinct (map slot t)" "distinct (map er_id t)"
  shows "distinct (map slot t') \<and> distinct (map er_id t')"
  using assms
proof (induction ws arbitrary: t)
  case (Cons w ws)
  from Cons.prems(1) obtain u where u: "put_row e columns w t = Inr u" "put_rows e columns ws u = Inr t'"
    by (auto simp: bindE_eq_Inr)
  have "distinct (map slot u) \<and> distinct (map er_id u)"
  proof (cases "slot_in t w")
    case True
    with put_row_cases[OF u(1)] have "map slot u = map slot t" "map er_id u = map er_id t" by auto
    with Cons.prems(2,3) show ?thesis by simp
  next
    case False
    with put_row_cases[OF u(1)] have n: "u = t @ [pw_row w]" "slot (pw_row w) \<notin> slot ` set t" by (auto simp: slot_in_slots)
    have "er_id (pw_row w) \<notin> er_id ` set t"
      using u(1) n(2) unfolding put_row_def by (auto simp: list_ex_iff same_slot_iff image_iff split: if_splits)
    with n Cons.prems(2,3) show ?thesis by auto
  qed
  with Cons.IH[OF u(2)] show ?case by blast
qed simp

subsection \<open>Verdicts\<close>

lemma import_verdicts_length: "import_verdicts L A t seen xs = Inr vs \<Longrightarrow> length vs = length xs"
  by (induction xs arbitrary: seen vs) (auto simp: bindE_eq_Inr Let_def)

definition is_write :: "verdict \<Rightarrow> pending_row \<Rightarrow> bool" where
  "is_write v w = (v = Write w)"

lemma writes_of_simps [simp]: "writes_of [] = []" "writes_of (Skipped m # vs) = writes_of vs" "writes_of (Skipped_after_merge x # vs) = writes_of vs"
  "writes_of (Unchanged # vs) = writes_of vs" "writes_of (Write w # vs) = w # writes_of vs"
  by (simp_all add: writes_of_def)

text \<open>What a row to be written comes from.\<close>

definition write_from :: "store_lib \<Rightarrow> import_scope \<Rightarrow> entity_row list \<Rightarrow> string \<Rightarrow> string \<Rightarrow> canonical_record \<Rightarrow> pending_row \<Rightarrow> bool" where
  "write_from L A t rid key r w = (pw_new w = (stored_row (is_tenant A) key t = None) \<and>
     (\<exists>m hash. pw_row w = new_row (is_entity A) rid (is_tenant A) key (is_stamp A) (is_columns A \<noteq> None) r m hash
        \<and> pw_rederived w = (case m of Some x \<Rightarrow> mg_rederived x | None \<Rightarrow> [])
        \<and> (m = None \<longrightarrow> is_columns A = None \<or> stored_row (is_tenant A) key t = None)
        \<and> (\<forall>x. m = Some x \<longrightarrow> (\<exists>row columns. is_columns A = Some columns \<and> stored_row (is_tenant A) key t = Some row
              \<and> merge_stored L (is_entity A) row r columns (is_kept A) = Inr x))))"

lemma to_write_from: "to_write A old rid key r m hash = Write w \<Longrightarrow> pw_new w = (old = None)
    \<and> pw_row w = new_row (is_entity A) rid (is_tenant A) key (is_stamp A) (is_columns A \<noteq> None) r m hash
    \<and> pw_rederived w = (case m of Some x \<Rightarrow> mg_rederived x | None \<Rightarrow> [])"
  by (auto simp: to_write_def split: if_splits)

lemma import_verdict_write:
  assumes "import_verdict L A t seen rid key r = Inr (Write w)"
  shows "key \<notin> set seen \<and> \<not> no_key key \<and> write_from L A t rid key r w"
proof -
  from assms have k: "\<not> no_key key" "key \<notin> set seen" by (auto simp: import_verdict_def split: if_splits)
  show ?thesis
  proof (cases "is_columns A")
    case None
    with assms k have "to_write A (stored_row (is_tenant A) key t) rid key r None (content_hash (rs_hash L) r) = Write w"
      by (auto simp: import_verdict_def Let_def split: if_splits)
    from to_write_from[OF this] k None show ?thesis unfolding write_from_def by (intro conjI exI[of _ None]) auto
  next
    case (Some columns)
    show ?thesis
    proof (cases "stored_row (is_tenant A) key t")
      case None
      with assms k Some have "to_write A None rid key r None (row_hash L (is_entity A) (cr_fields r) (cr_attributes r)) = Write w"
        by (auto simp: import_verdict_def Let_def split: if_splits)
      from to_write_from[OF this] k None show ?thesis unfolding write_from_def by (intro conjI exI[of _ None]) auto
    next
      case (Some row)
      note S = \<open>is_columns A = Some columns\<close> Some
      from assms k S obtain m where m: "merge_stored L (is_entity A) row r columns (is_kept A) = Inr m"
        and w: "to_write A (Some row) rid key r (Some m) (mg_hash m) = Write w"
        by (auto simp: import_verdict_def bindE_eq_Inr split: if_splits)
      from to_write_from[OF w] m k S show ?thesis unfolding write_from_def by auto
    qed
  qed
qed

lemma write_from_key: "write_from L A t rid key r w \<Longrightarrow> er_key (pw_row w) = key \<and> er_institution (pw_row w) = is_tenant A
    \<and> pw_new w = (stored_row (is_tenant A) (er_key (pw_row w)) t = None)"
  by (auto simp: write_from_def new_row_def)

lemma import_verdicts_writes:
  assumes "import_verdicts L A t seen xs = Inr vs"
  shows "distinct (map (er_key \<circ> pw_row) (writes_of vs)) \<and> set (map (er_key \<circ> pw_row) (writes_of vs)) \<inter> set seen = {}
    \<and> (\<forall>w \<in> set (writes_of vs). \<exists>rid r. (rid, r) \<in> set xs \<and>
         write_from L A t rid (record_key_for (al_repr (rs_lib L)) (is_entity A) (cr_fields r)) r w)"
  using assms
proof (induction xs arbitrary: seen vs)
  case (Cons x xs)
  obtain rid r where x: "x = (rid, r)" by (cases x)
  let ?key = "record_key_for (al_repr (rs_lib L)) (is_entity A) (cr_fields r)"
  from Cons.prems obtain v us where v: "import_verdict L A t seen rid ?key r = Inr v"
    and us: "import_verdicts L A t (if sees_key v then ?key # seen else seen) xs = Inr us" and vs: "vs = v # us"
    by (auto simp: x bindE_eq_Inr Let_def)
  note IH = Cons.IH[OF us]
  let ?from = "\<lambda>ys u. \<exists>rid r. (rid, r) \<in> set ys \<and> write_from L A t rid (record_key_for (al_repr (rs_lib L)) (is_entity A) (cr_fields r)) r u"
  have rest: "?from (x # xs) u" if "u \<in> set (writes_of us)" for u
  proof -
    from IH that obtain q r where "(q, r) \<in> set xs"
      "write_from L A t q (record_key_for (al_repr (rs_lib L)) (is_entity A) (cr_fields r)) r u" by blast
    then show ?thesis by (intro exI[of _ q] exI[of _ r]) simp
  qed
  show ?case
  proof (cases v)
    case (Write w)
    from import_verdict_write[OF v[unfolded Write]] have w: "?key \<notin> set seen" "write_from L A t rid ?key r w" by auto
    have "er_key (pw_row w) = ?key" using write_from_key[OF w(2)] by simp
    with IH w have k: "distinct (map (er_key \<circ> pw_row) (writes_of vs))" "set (map (er_key \<circ> pw_row) (writes_of vs)) \<inter> set seen = {}"
      by (auto simp: vs Write sees_key_def comp_def)
    from w(2) have "?from (x # xs) w" unfolding x by (intro exI[of _ rid] exI[of _ r]) simp
    with rest have "?from (x # xs) u" if "u \<in> set (writes_of vs)" for u
      using that unfolding vs Write writes_of_simps by (cases "u = w") simp_all
    with k show ?thesis by blast
  qed (use IH rest in \<open>simp_all add: vs sees_key_def\<close>)
qed simp

subsection \<open>An import as a whole\<close>

lemma merge_columns_of_Inr: "merge_columns_of e mapped_names = Inr columns \<Longrightarrow>
    (case mapped_names of None \<Rightarrow> columns = None | Some ms \<Rightarrow> columns = Some (filter (\<lambda>n. n \<in> set ms) (field_names e)))"
  by (auto simp: merge_columns_of_def Let_def split: option.splits if_splits)

lemma upsert_parts:
  assumes "upsert_records L stamp uuid i records skip mapped_names kept t = Inr (t', m)"
  shows "\<exists>e columns A vs. canonical_entity_named (ce_name e) = Inr e \<and> merge_columns_of e mapped_names = Inr columns
    \<and> A = \<lparr>is_entity = e, is_tenant = i, is_columns = columns, is_kept = kept, is_skip = skip, is_stamp = stamp\<rparr>
    \<and> (\<forall>r \<in> set records. cr_entity r = ce_name e)
    \<and> import_verdicts L A t [] (zip (map (\<lambda>n. ce_name e @ ''-'' @ uuid n) [0..<length records]) records) = Inr vs
    \<and> put_rows e columns (by_statement (writes_of vs)) t = Inr t'
    \<and> m = fold count_write (writes_of vs) (fold count_verdict vs (empty_summary (ce_name e)))"
proof -
  from assms obtain r rs where r: "records = r # rs" by (cases records) (simp_all add: upsert_records_def)
  from assms obtain e where e: "canonical_entity_named (cr_entity r) = Inr e" by (auto simp: upsert_records_def r bindE_eq_Inr)
  have n: "ce_name e = cr_entity r" using canonical_named[OF e] by simp
  from assms e show ?thesis
    unfolding upsert_records_def r list.case bindE_simps
    by (intro exI[of _ e]) (auto simp: n bindE_eq_Inr list_ex_iff simp del: upt_Suc import_verdicts.simps split: if_splits)
qed

lemma by_statement_mset: "mset (by_statement ws) = mset ws"
proof -
  have "distinct ks \<Longrightarrow> mset (concat (map (\<lambda>k. filter (\<lambda>w. pw_rederived w = k) ws) ks)) = mset (filter (\<lambda>w. pw_rederived w \<in> set ks) ws)" for ks
  proof (induction ks)
    case (Cons k ks)
    then have "k \<notin> set ks" by simp
    then have "filter (\<lambda>w. pw_rederived w \<in> set (k # ks)) ws = filter (\<lambda>w. pw_rederived w = k \<or> pw_rederived w \<in> set ks) ws" by simp
    moreover have "mset (filter (\<lambda>w. pw_rederived w = k \<or> pw_rederived w \<in> set ks) ws)
        = mset (filter (\<lambda>w. pw_rederived w = k) ws) + mset (filter (\<lambda>w. pw_rederived w \<in> set ks) ws)"
      using \<open>k \<notin> set ks\<close> by (induction ws) auto
    ultimately show ?case using Cons by simp
  qed simp
  from this[of "keep_first (map pw_rederived ws)"] show ?thesis
    unfolding by_statement_def keep_first_def by (simp add: filter_True[of ws, OF ballI])
qed

lemma by_statement_facts: "set (by_statement ws) = set ws" "length (by_statement ws) = length ws"
  "distinct (map f ws) \<Longrightarrow> distinct (map f (by_statement ws))"
  "length (filter P (by_statement ws)) = length (filter P ws)"
proof -
  note m = by_statement_mset[of ws]
  show "set (by_statement ws) = set ws" using m by (rule mset_eq_setD)
  show "length (by_statement ws) = length ws" using m by (rule mset_eq_length)
  have "mset (map f (by_statement ws)) = mset (map f ws)" using m by simp
  then show "distinct (map f ws) \<Longrightarrow> distinct (map f (by_statement ws))" using mset_eq_imp_distinct_iff by blast
  have "mset (filter P (by_statement ws)) = mset (filter P ws)" using m by simp
  then show "length (filter P (by_statement ws)) = length (filter P ws)" by (rule mset_eq_length)
qed

lemma count_write_sum:
  "sm_inserted (fold count_write ws s) = sm_inserted s + int (length (filter pw_new ws))"
  "sm_inserted (fold count_write ws s) + sm_updated (fold count_write ws s) = sm_inserted s + sm_updated s + int (length ws)"
  "sm_unchanged (fold count_write ws s) = sm_unchanged s" "sm_skipped (fold count_write ws s) = sm_skipped s"
  by (induction ws arbitrary: s) (simp_all add: count_write_def)

lemma count_verdict_simps:
  "sm_inserted (count_verdict v s) = sm_inserted s" "sm_updated (count_verdict v s) = sm_updated s"
  "sm_unchanged (count_verdict v s) + sm_skipped (count_verdict v s) + int (length (writes_of [v])) = sm_unchanged s + sm_skipped s + 1"
  by (cases v; simp add: count_verdict_def count_reason_def)+

lemma writes_of_Cons: "writes_of (v # vs) = writes_of [v] @ writes_of vs"
  by (simp add: writes_of_def)

lemma count_verdict_sum:
  "sm_inserted (fold count_verdict vs s) = sm_inserted s" "sm_updated (fold count_verdict vs s) = sm_updated s"
  by (induction vs arbitrary: s) (simp_all add: count_verdict_simps)

lemma count_verdict_total:
  "sm_unchanged (fold count_verdict vs s) + sm_skipped (fold count_verdict vs s) + int (length (writes_of vs))
     = sm_unchanged s + sm_skipped s + int (length vs)"
proof (induction vs arbitrary: s)
  case (Cons v vs)
  from Cons[of "count_verdict v s"] count_verdict_simps(3)[of v s] show ?case
    by (simp add: writes_of_Cons[of v vs])
qed simp

lemma import_slots:
  assumes "import_verdicts L A t [] xs = Inr vs"
  shows "distinct (map (slot \<circ> pw_row) (writes_of vs))"
    "w \<in> set (writes_of vs) \<Longrightarrow> pw_new w = (\<not> slot_in t w)"
    "w \<in> set (writes_of vs) \<Longrightarrow> er_institution (pw_row w) = is_tenant A"
proof -
  note W = import_verdicts_writes[OF assms]
  have k: "w \<in> set (writes_of vs) \<Longrightarrow> er_institution (pw_row w) = is_tenant A \<and> pw_new w = (stored_row (is_tenant A) (er_key (pw_row w)) t = None)" for w
    using W write_from_key by blast
  then show "w \<in> set (writes_of vs) \<Longrightarrow> er_institution (pw_row w) = is_tenant A" by blast
  have "stored_row (er_institution x) (er_key x) t = None \<longleftrightarrow> \<not> list_ex (same_slot x) t" for x
    by (auto simp: stored_row_def find_None_iff list_ex_iff same_slot_def)
  with k show "w \<in> set (writes_of vs) \<Longrightarrow> pw_new w = (\<not> slot_in t w)" unfolding slot_in_def by metis
  have "map snd (map (slot \<circ> pw_row) (writes_of vs)) = map (er_key \<circ> pw_row) (writes_of vs)" by (simp add: slot_def comp_def)
  with W show "distinct (map (slot \<circ> pw_row) (writes_of vs))" by (metis distinct_map)
qed

lemma upsert_result:
  assumes "upsert_records L stamp uuid i records skip mapped_names kept t = Inr (t', m)"
  shows "\<exists>e columns A vs ws. canonical_entity_named (ce_name e) = Inr e \<and> merge_columns_of e mapped_names = Inr columns
    \<and> A = \<lparr>is_entity = e, is_tenant = i, is_columns = columns, is_kept = kept, is_skip = skip, is_stamp = stamp\<rparr>
    \<and> (\<forall>r \<in> set records. cr_entity r = ce_name e)
    \<and> import_verdicts L A t [] (zip (map (\<lambda>n. ce_name e @ ''-'' @ uuid n) [0..<length records]) records) = Inr vs
    \<and> set ws = set (writes_of vs) \<and> put_rows e columns ws t = Inr t'
    \<and> t' = map (written_over e columns ws) t @ map pw_row (filter pw_new ws)
    \<and> sm_inserted m = int (length (filter pw_new ws)) \<and> sm_inserted m + sm_updated m + sm_unchanged m + sm_skipped m = int (length records)"
proof -
  from upsert_parts[OF assms] obtain e columns A vs where
    P: "canonical_entity_named (ce_name e) = Inr e" "merge_columns_of e mapped_names = Inr columns"
      "A = \<lparr>is_entity = e, is_tenant = i, is_columns = columns, is_kept = kept, is_skip = skip, is_stamp = stamp\<rparr>"
      "\<forall>r \<in> set records. cr_entity r = ce_name e" and
    v: "import_verdicts L A t [] (zip (map (\<lambda>n. ce_name e @ ''-'' @ uuid n) [0..<length records]) records) = Inr vs"
    and p: "put_rows e columns (by_statement (writes_of vs)) t = Inr t'"
    and m: "m = fold count_write (writes_of vs) (fold count_verdict vs (empty_summary (ce_name e)))" by blast
  let ?ws = "by_statement (writes_of vs)"
  note F = by_statement_facts[where ws = "writes_of vs"]
  have r: "t' = map (written_over e columns ?ws) t @ map pw_row (filter (\<lambda>w. \<not> slot_in t w) ?ws)"
    by (rule put_rows_result[OF p F(3)[OF import_slots(1)[OF v]]])
  have f: "filter (\<lambda>w. \<not> slot_in t w) ?ws = filter pw_new ?ws"
    by (rule filter_cong[OF refl]) (simp add: F(1) import_slots(2)[OF v])
  have c: "sm_inserted m = int (length (filter pw_new ?ws))"
    unfolding m count_write_sum(1) count_verdict_sum(1) F(4) by (simp add: empty_summary_def)
  have "sm_inserted m + sm_updated m + sm_unchanged m + sm_skipped m = int (length vs)"
    using count_write_sum(2)[of "writes_of vs" "fold count_verdict vs (empty_summary (ce_name e))"]
      count_verdict_sum[of vs "empty_summary (ce_name e)"] count_verdict_total[of vs "empty_summary (ce_name e)"]
    unfolding m count_write_sum(3,4) by (simp add: empty_summary_def)
  moreover have "length vs = length records" using import_verdicts_length[OF v] by simp
  ultimately show ?thesis using P v F(1) p r f c by (intro exI[of _ e] exI[of _ columns] exI[of _ A] exI[of _ vs] exI[of _ ?ws]) auto
qed

text \<open>C17: an import accounts for every record exactly once, as inserted, updated, unchanged or skipped;
  the table grows by exactly the inserted rows; and it still has one row per institution and key,
  with row ids of their own.
\<close>

theorem import_accounts_for_all:
  assumes "upsert_records L stamp uuid i records skip mapped_names kept t = Inr (t', m)"
    "distinct (map slot t)" "distinct (map er_id t)"
  shows "sm_inserted m + sm_updated m + sm_unchanged m + sm_skipped m = int (length records)
    \<and> int (length t') = int (length t) + sm_inserted m \<and> distinct (map slot t') \<and> distinct (map er_id t')"
proof -
  from upsert_result[OF assms(1)] obtain e columns ws where
    w: "put_rows e columns ws t = Inr t'" "t' = map (written_over e columns ws) t @ map pw_row (filter pw_new ws)"
      "sm_inserted m = int (length (filter pw_new ws))" "sm_inserted m + sm_updated m + sm_unchanged m + sm_skipped m = int (length records)" by blast
  from w(2) have "length t' = length t + length (filter pw_new ws)" by simp
  with w put_rows_unique[OF w(1) assms(2,3)] show ?thesis by simp
qed

subsection \<open>Merging keeps what is there\<close>

definition cell :: "entity_row \<Rightarrow> string \<Rightarrow> pyval" where
  "cell r n = get_or_none (er_cells r) n"

lemma get_or_none_map:
  "get_or_none (map (\<lambda>f. (cf_name f, g f)) fs) n = (case find (\<lambda>f. cf_name f = n) fs of Some f \<Rightarrow> g f | None \<Rightarrow> PNone)"
  by (induction fs) (auto simp: get_or_none_def dict_get_def)

lemma get_assign_cells:
  assumes "n \<in> set (field_names e)"
  shows "get_or_none (assign_cells e (Some cs) rederived new old) n =
    (if n \<in> set rederived then get_or_none new n
     else if n \<in> set cs \<and> get_or_none new n \<noteq> PNone then get_or_none new n else get_or_none old n)"
proof -
  from assms obtain f where f: "find (\<lambda>f. cf_name f = n) (ce_fields e) = Some f"
    by (cases "find (\<lambda>f. cf_name f = n) (ce_fields e)") (auto simp: field_names_def find_None_iff)
  then have "cf_name f = n" by (auto dest: find_Some_iff2)
  with f show ?thesis unfolding assign_cells_def Let_def by (simp add: get_or_none_map)
qed

lemma cell_value_tidy: "blank_val (cell_value True fs m f) \<Longrightarrow> cell_value True fs m f = PNone"
  by (auto simp: cell_value_def Let_def split: if_splits)

lemma new_row_tidy: "blank_val (cell (new_row e rid i key stamp True r m hash) n) \<Longrightarrow> cell (new_row e rid i key stamp True r m hash) n = PNone"
  by (auto simp: cell_def new_row_def get_or_none_map dest: cell_value_tidy split: option.splits)

text \<open>
  A column that merging must not work out by itself: one that no formula derives, or a derived one
  that a sheet stated and that the stored row does not bear out.
\<close>

definition stated :: "store_lib \<Rightarrow> canonical_entity \<Rightarrow> entity_row \<Rightarrow> string \<Rightarrow> bool" where
  "stated L e r n = (n \<notin> set (map fst (derivations e)) \<or>
     (let before = get_or_none (stored_fields e r) n
      in \<not> blank_val before \<and> \<not> derived_in L (er_notes r) n \<and>
         (case derive_fields (rs_clean L) e (dict_set (stored_fields e r) n PNone) of
            Inl x \<Rightarrow> True | Inr (own, ns) \<Rightarrow> agrees L (get_or_none own n) before = Inr False)))"

lemma rederived_simps [simp]:
  "ms_rederived (doubt_it n s) = ms_rederived s" "ms_rederived (warn L n c v s) = ms_rederived s"
  "ms_rederived (replace_value L n v ws s) = ms_rederived s @ [n]"
  by (simp_all add: doubt_it_def warn_def replace_value_def)

lemma settle_rederived: "set (ms_rederived (settle_value L n before derived_before doubt v ws s)) \<subseteq> insert n (set (ms_rederived s))"
  by (auto simp: settle_value_def Let_def)

lemma rederive_names:
  assumes "rederive L e S (n, inputs) s = Inr s'"
  shows "set (ms_rederived s') \<subseteq> set (ms_rederived s) \<or>
    (set (ms_rederived s') \<subseteq> insert n (set (ms_rederived s)) \<and> n \<notin> set (sc_written S) \<and>
     (\<exists>v. keeps_stated L e S n (derived_in L (sc_notes S) n) v = Inr False))"
proof (cases "n \<in> set (sc_written S) \<or> \<not> touches (sc_written S) inputs
    \<or> \<not> (touches (sc_changed S) inputs \<or> blank_val (get_or_none (sc_stored S) n) \<or> derived_in L (sc_notes S) n)")
  case True
  with assms show ?thesis by (simp add: rederive_def Let_def)
next
  case False
  with assms obtain worked ws b where w: "derive_fields (rs_clean L) e (dict_set (ms_fields s) n PNone) = Inr (worked, ws)"
    and b: "keeps_stated L e S n (derived_in L (sc_notes S) n) (get_or_none worked n) = Inr b"
    by (auto simp: rederive_def Let_def bindE_eq_Inr)
  show ?thesis
  proof (cases b)
    case True
    with assms False w b have "ms_rederived s' = ms_rederived s"
      by (auto simp: rederive_def Let_def bindE_eq_Inr split: if_splits)
    then show ?thesis by simp
  next
    case f: False
    let ?s1 = "s\<lparr>ms_issues := filter (\<lambda>x. \<not> (about L x = PStr n \<and> has_code MERGE_CODES x)) (ms_issues s)\<rparr>"
    let ?s' = "settle_value L n (get_or_none (sc_stored S) n) (derived_in L (sc_notes S) n) (touches (ms_doubtful s) inputs) (get_or_none worked n) ws ?s1"
    have "b = False" using f by simp
    then have "rederive L e S (n, inputs) s = Inr ?s'"
      unfolding rederive_def Let_def prod.case if_not_P[OF False] w bindE_simps b by (simp only: if_False bindE_simps)
    from trans[OF sym[OF assms] this] have r: "s' = ?s'" by (rule sum.inject(2)[THEN iffD1])
    have "set (ms_rederived (settle_value L n x y z v ws ?s1)) \<subseteq> insert n (set (ms_rederived s))" for x y z v
      using settle_rederived[of L n x y z v ws ?s1] by simp
    then have "set (ms_rederived s') \<subseteq> insert n (set (ms_rederived s))" unfolding r .
    moreover have "n \<notin> set (sc_written S)" using False by simp
    moreover have "keeps_stated L e S n (derived_in L (sc_notes S) n) (get_or_none worked n) = Inr False" using b f by simp
    ultimately show ?thesis by (intro disjI2 conjI exI)
  qed
qed

lemma rederive_all_names:
  assumes "rederive_all L e S ds s = Inr s'" "n \<in> set (ms_rederived s')" "n \<notin> set (ms_rederived s)"
  shows "n \<in> set (map fst ds) \<and> n \<notin> set (sc_written S) \<and> (\<exists>v. keeps_stated L e S n (derived_in L (sc_notes S) n) v = Inr False)"
  using assms
proof (induction ds arbitrary: s)
  case (Cons d ds)
  obtain name inputs where d: "d = (name, inputs)" by (cases d)
  from Cons.prems(1) obtain u where u: "rederive L e S (name, inputs) s = Inr u" "rederive_all L e S ds u = Inr s'"
    by (auto simp: d bindE_eq_Inr)
  show ?case
  proof (cases "n \<in> set (ms_rederived u)")
    case True
    with rederive_names[OF u(1)] Cons.prems(3) show ?thesis by (auto simp: d)
  next
    case False
    from Cons.IH[OF u(2) Cons.prems(2) False] show ?thesis by simp
  qed
qed simp

lemma stated_not_rederived:
  assumes "merge_stored L e row r columns kept = Inr m" "stated L e row n"
  shows "n \<notin> set (mg_rederived m)"
proof
  assume n: "n \<in> set (mg_rederived m)"
  let ?written = "written_columns L e r columns" and ?fs = "laid_over e (stored_fields e row) r (written_columns L e r columns)"
  let ?S = "\<lparr>sc_stored = stored_fields e row, sc_notes = er_notes row, sc_written = ?written,
      sc_changed = filter (\<lambda>n. \<not> py_eq (get_or_none ?fs n) (get_or_none (stored_fields e row) n)) ?written\<rparr>"
  let ?s = "\<lparr>ms_fields = ?fs, ms_notes = laid_items L ?written (own_derived L e r) (er_notes row) (cr_normalizations r),
      ms_issues = laid_items L ?written (own_derived L e r) (er_issues row) (cr_issues r), ms_rederived = [], ms_doubtful = []\<rparr>"
  from assms(1) obtain s' where s: "rederive_all L e ?S (derivations e) ?s = Inr s'" "mg_rederived m = ms_rederived s'"
    unfolding merge_stored_def Let_def bindE_eq_Inr by auto
  from rederive_all_names[OF s(1), of n] n s(2) obtain v where
    d: "n \<in> set (map fst (derivations e))" and v: "keeps_stated L e ?S n (derived_in L (er_notes row) n) v = Inr False" by auto
  let ?before = "get_or_none (stored_fields e row) n"
  from assms(2) d have b: "\<not> blank_val ?before" "\<not> derived_in L (er_notes row) n"
    and a: "case derive_fields (rs_clean L) e (dict_set (stored_fields e row) n PNone) of Inl x \<Rightarrow> True
      | Inr (own, ns) \<Rightarrow> agrees L (get_or_none own n) ?before = Inr False"
    by (auto simp: stated_def Let_def)
  from v b show False
    unfolding keeps_stated_def Let_def using a by (auto simp: bindE_eq_Inr split: if_splits)
qed

lemma dict_has_foldl: "dict_has d k \<Longrightarrow> dict_has (foldl (\<lambda>d (k, v). dict_set d k v) d xs) k"
  by (induction xs arbitrary: d) auto

lemma dict_get_foldl_other: "k \<notin> fst ` set xs \<Longrightarrow> dict_get (foldl (\<lambda>d (k, v). dict_set d k v) d xs) k = dict_get d k"
  by (induction xs arbitrary: d) (auto simp: dict_get_set)

lemma merged_attributes_keep:
  "dict_has old k \<Longrightarrow> dict_has (merged_attributes kept old new) k"
  "dict_has old k \<Longrightarrow> k \<in> set kept \<Longrightarrow> dict_get (merged_attributes kept old new) k = dict_get old k"
  unfolding merged_attributes_def by (rule dict_has_foldl) (auto intro!: dict_get_foldl_other)

lemma merge_stored_attributes: "merge_stored L e row r columns kept = Inr m \<Longrightarrow> mg_attributes m = merged_attributes kept (er_attributes row) (cr_attributes r)"
  by (auto simp: merge_stored_def Let_def bindE_eq_Inr)

text \<open>A row of the tenant under a write that merges with it.\<close>

lemma stored_row_unique:
  assumes "distinct (map slot t)" "r \<in> set t"
  shows "stored_row (er_institution r) (er_key r) t = Some r"
  unfolding stored_row_def using assms by (intro find_unique[where key = slot]) (auto simp: slot_def)

lemma merged_write_from:
  assumes "write_from L A t rid key q w" "is_entity A = e" "is_columns A = Some cs" "same_slot (pw_row w) r" "r \<in> set t" "distinct (map slot t)"
  shows "\<exists>x hash. merge_stored L e r q cs (is_kept A) = Inr x \<and> pw_rederived w = mg_rederived x
    \<and> pw_row w = new_row e rid (is_tenant A) key (is_stamp A) True q (Some x) hash"
proof -
  from assms(1,2,3) obtain m hash where w: "pw_row w = new_row e rid (is_tenant A) key (is_stamp A) True q m hash"
    "pw_rederived w = (case m of Some x \<Rightarrow> mg_rederived x | None \<Rightarrow> [])"
    and m: "m = None \<longrightarrow> stored_row (is_tenant A) key t = None"
      "\<forall>x. m = Some x \<longrightarrow> (\<exists>row. stored_row (is_tenant A) key t = Some row \<and> merge_stored L e row q cs (is_kept A) = Inr x)"
    unfolding write_from_def by auto
  have "er_institution r = is_tenant A" "er_key r = key" using assms(4) by (auto simp: w(1) same_slot_def new_row_def)
  with stored_row_unique[OF assms(6,5)] have r: "stored_row (is_tenant A) key t = Some r" by simp
  with m obtain x where "m = Some x" "merge_stored L e r q cs (is_kept A) = Inr x" by (cases m) auto
  with w show ?thesis by auto
qed

lemma merged_write_attributes:
  assumes "write_from L A t rid key q w" "is_entity A = e" "is_columns A = Some cs" "same_slot (pw_row w) r" "r \<in> set t" "distinct (map slot t)"
    "dict_has (er_attributes r) k"
  shows "dict_has (er_attributes (assign_row e (Some cs) w r)) k \<and>
    (k \<in> set (is_kept A) \<longrightarrow> dict_get (er_attributes (assign_row e (Some cs) w r)) k = dict_get (er_attributes r) k)"
proof -
  from merged_write_from[OF assms(1-6)] obtain x hash where x: "merge_stored L e r q cs (is_kept A) = Inr x"
    and w: "pw_row w = new_row e rid (is_tenant A) key (is_stamp A) True q (Some x) hash" by blast
  have "er_attributes (assign_row e (Some cs) w r) = merged_attributes (is_kept A) (er_attributes r) (cr_attributes q)"
    using merge_stored_attributes[OF x] by (simp add: assign_row_def Let_def w new_row_def)
  with assms(7) show ?thesis by (simp add: merged_attributes_keep)
qed

lemma merged_write_keeps:
  assumes "write_from L A t rid key q w" "is_entity A = e" "is_columns A = Some cs" "same_slot (pw_row w) r" "r \<in> set t" "distinct (map slot t)"
    "n \<in> set (field_names e)" "stated L e r n"
  shows "(n \<notin> set cs \<longrightarrow> cell (assign_row e (Some cs) w r) n = cell r n) \<and>
    (\<not> blank_val (cell r n) \<longrightarrow> \<not> blank_val (cell (assign_row e (Some cs) w r) n))"
proof -
  from merged_write_from[OF assms(1-6)] obtain x hash where x: "merge_stored L e r q cs (is_kept A) = Inr x" "pw_rederived w = mg_rederived x"
    and w: "pw_row w = new_row e rid (is_tenant A) key (is_stamp A) True q (Some x) hash" by blast
  have red: "n \<notin> set (pw_rederived w)" using stated_not_rederived[OF x(1) assms(8)] by (simp add: x(2))
  have c: "cell (assign_row e (Some cs) w r) n = (if n \<in> set cs \<and> cell (pw_row w) n \<noteq> PNone then cell (pw_row w) n else cell r n)"
    using red by (simp add: cell_def assign_row_def Let_def get_assign_cells[OF assms(7)])
  show ?thesis
  proof (intro conjI impI)
    assume "\<not> blank_val (cell r n)"
    then show "\<not> blank_val (cell (assign_row e (Some cs) w r) n)"
      unfolding c w using new_row_tidy by auto
  qed (simp add: c)
qed

text \<open>A stored row after a merging import.\<close>

lemma merge_keeps_row:
  assumes "upsert_records L stamp uuid i records skip (Some mapped_names) kept t = Inr (t', m)" "distinct (map slot t)"
    "q \<in> set records" "canonical_entity_named (cr_entity q) = Inr e" "r \<in> set t"
  shows "\<exists>r' \<in> set t'. slot r' = slot r \<and> er_id r' = er_id r \<and> (er_institution r \<noteq> i \<longrightarrow> r' = r)
    \<and> (\<forall>n \<in> set (field_names e). stated L e r n \<longrightarrow>
         (n \<notin> set mapped_names \<longrightarrow> cell r' n = cell r n) \<and> (\<not> blank_val (cell r n) \<longrightarrow> \<not> blank_val (cell r' n)))
    \<and> (\<forall>k. dict_has (er_attributes r) k \<longrightarrow> dict_has (er_attributes r') k
         \<and> (k \<in> set kept \<longrightarrow> dict_get (er_attributes r') k = dict_get (er_attributes r) k))"
proof -
  from upsert_result[OF assms(1)] obtain e' columns A vs ws where e': "canonical_entity_named (ce_name e') = Inr e'"
    and cs: "merge_columns_of e' (Some mapped_names) = Inr columns"
    and A: "A = \<lparr>is_entity = e', is_tenant = i, is_columns = columns, is_kept = kept, is_skip = skip, is_stamp = stamp\<rparr>"
    and same: "\<forall>r \<in> set records. cr_entity r = ce_name e'"
    and v: "import_verdicts L A t [] (zip (map (\<lambda>n. ce_name e' @ ''-'' @ uuid n) [0..<length records]) records) = Inr vs"
    and ws: "set ws = set (writes_of vs)" and t': "t' = map (written_over e' columns ws) t @ map pw_row (filter pw_new ws)" by blast
  have e: "e' = e" using e' same assms(3,4) by simp
  let ?cs = "filter (\<lambda>n. n \<in> set mapped_names) (field_names e)"
  have c: "columns = Some ?cs" using merge_columns_of_Inr[OF cs] by (simp add: e)
  let ?r = "written_over e columns ws r"
  have m: "?r \<in> set t'" using assms(5) by (auto simp: t' e)
  show ?thesis
  proof (cases "find (row_of_write r) ws")
    case None
    then have "?r = r" by (simp add: written_over_def)
    with m show ?thesis by (intro bexI[of _ r]) auto
  next
    case (Some w)
    then have over: "?r = assign_row e (Some ?cs) w r" and w: "w \<in> set (writes_of vs)" "same_slot (pw_row w) r"
      using find_Some_iff2[OF Some] ws by (auto simp: written_over_def row_of_write_def c)
    have inst: "er_institution r = i" using import_slots(3)[OF v w(1)] w(2) by (simp add: A same_slot_def)
    from import_verdicts_writes[OF v] w(1) obtain rid key q where wf: "write_from L A t rid key q w" by blast
    have a: "is_entity A = e" "is_columns A = Some ?cs" "is_kept A = kept" by (simp_all add: A e c)
    note keeps = merged_write_keeps[OF wf a(1,2) w(2) assms(5,2)]
    have cols: "(n \<notin> set mapped_names \<longrightarrow> cell ?r n = cell r n) \<and> (\<not> blank_val (cell r n) \<longrightarrow> \<not> blank_val (cell ?r n))"
      if "n \<in> set (field_names e)" "stated L e r n" for n
      using keeps[OF that] that(1) by (simp add: over)
    have atts: "dict_has (er_attributes ?r) k \<and> (k \<in> set kept \<longrightarrow> dict_get (er_attributes ?r) k = dict_get (er_attributes r) k)"
      if "dict_has (er_attributes r) k" for k
      using merged_write_attributes[OF wf a(1,2) w(2) assms(5,2)] that by (simp add: over a(3))
    show ?thesis using m inst cols atts by (intro bexI[of _ ?r]) auto
  qed
qed


subsection \<open>An edit between two imports\<close>

definition dept_record :: "string \<Rightarrow> canonical_record" where
  "dept_record hod = \<lparr>cr_entity = ''department'', cr_fields = [(''code'', PStr ''CS''), (''name'', PStr ''Computing''), (''hod_name'', PStr hod)],
     cr_attributes = [], cr_normalizations = [], cr_issues = [],
     cr_lineage = \<lparr>ln_file_id = None, ln_file_name = None, ln_locator = Some ''row=1'', ln_job_id = Some ''job-1''\<rparr>\<rparr>"

definition dept_columns :: "string list" where "dept_columns = [''code'', ''name'', ''hod_name'']"

definition dept_row :: "store_lib \<Rightarrow> string \<Rightarrow> string \<Rightarrow> int \<Rightarrow> entity_row" where
  "dept_row L rid hod stamp = \<lparr>er_id = rid, er_institution = ''uni'', er_key = ''cs'',
     er_cells = [(''code'', PStr ''CS''), (''name'', PStr ''Computing''), (''hod_id'', PNone), (''hod_name'', PStr hod), (''hod_email'', PNone), (''status'', PNone)],
     er_attributes = [], er_notes = [], er_issues = [], er_hash = row_hash L DEPARTMENT_ENTITY (cr_fields (dept_record ''Rao'')) [],
     er_lineage = cr_lineage (dept_record ''Rao''), er_imported_at = stamp, er_updated_at = stamp\<rparr>"

lemma dept_named: "canonical_entity_named ''department'' = Inr DEPARTMENT_ENTITY"
  by (simp add: canonical_entity_named_def CANONICAL_ENTITIES_def entity_names dict_get_def)

lemma dept_parts: "ce_name DEPARTMENT_ENTITY = ''department''" "ce_natural_key DEPARTMENT_ENTITY = [''code'']"
  "field_names DEPARTMENT_ENTITY = [''code'', ''name'', ''hod_id'', ''hod_name'', ''hod_email'', ''status'']"
  "derivations DEPARTMENT_ENTITY = []"
  by (simp_all add: DEPARTMENT_ENTITY_def field_names_def derivations_def DERIVED_FIELDS_def dict_get_def)

lemma dept_columns_of: "merge_columns_of DEPARTMENT_ENTITY (Some dept_columns) = Inr (Some dept_columns)"
  by (simp add: merge_columns_of_def dept_columns_def dept_parts Let_def)

lemma dept_key: "record_key_for rep DEPARTMENT_ENTITY (cr_fields (dept_record hod)) = ''cs''"
  by (simp add: record_key_for_def dept_parts dept_record_def get_or_none_def dict_get_def key_part_def py_str_def) code_simp

lemma dept_fields:
  "ce_fields DEPARTMENT_ENTITY = [
    fld ''code'' T_IDENTIFIER ''Department code'' [''department code'', ''dept code'', ''code'', ''department'', ''dept'', ''short name''] True False False,
    fld ''name'' T_STRING ''Department name'' [''department name'', ''dept name'', ''name'', ''title''] True False False,
    fld ''hod_id'' T_IDENTIFIER ''HOD faculty identifier'' [''hod id'', ''hod faculty id'', ''head id''] False False False,
    fld ''hod_name'' T_STRING ''HOD name'' [''hod'', ''hod name'', ''head of department'', ''head''] False True False,
    fld ''hod_email'' T_EMAIL ''HOD email'' [''hod email'', ''head email''] False True True,
    fld ''status'' T_STRING ''Status'' [''status'', ''active''] False False False]"
  by (simp add: DEPARTMENT_ENTITY_def)

lemma not_blank_names: "\<not> blank ''CS''" "\<not> blank ''Computing''" "\<not> blank ''Rao''" "\<not> blank ''Iyer''" "\<not> blank ''uni''"
  by (simp_all add: blank_def py_strip_def py_space_def)

lemmas dept_simps = dept_named dept_parts dept_columns_of dept_fields dept_key[unfolded dept_record_def, simplified] not_blank_names
  tenant_def no_key_def has_blocking_issues_def stored_row_def get_or_none_def dict_get_def blank_val_def

lemma dept_first:
  "upsert_records L s uuid ''uni'' [dept_record ''Rao''] True (Some dept_columns) [] []
    = Inr ([dept_row L (''department-'' @ uuid 0) ''Rao'' s], (empty_summary ''department'')\<lparr>sm_inserted := 1, sm_inserted_keys := [''cs'']\<rparr>)"
  by (simp add: upsert_records_def dept_record_def dept_row_def dept_simps import_verdict_def to_write_def new_row_def cell_value_def Let_def
      sees_key_def by_statement_def keep_first_def put_row_def count_write_def count_verdict_def empty_summary_def sample_up_to_def)

lemmas dept_merge_simps = merge_stored_def stored_fields_def own_derived_def written_columns_def laid_over_def merged_attributes_def laid_items_def
  read_cell_def cross_field_issues_def row_hash_def

lemma dept_edit:
  "\<exists>b a. update_record_fields L s2 ''uni'' ''department'' ''cs'' [(''hod_name'', PStr ''Iyer'')] ''edit'' (\<lambda>n. [dept_row L rid ''Rao'' s])
     = Inr ((\<lambda>n. [dept_row L rid ''Rao'' s])(ce_table DEPARTMENT_ENTITY :=
         [(dept_row L rid ''Iyer'' s)\<lparr>er_updated_at := s2, er_lineage := \<lparr>ln_file_id = None, ln_file_name = None, ln_locator = Some ''edit'', ln_job_id = Some ''job-1''\<rparr>\<rparr>]), b, a)"
  by (simp add: update_record_fields_def dept_simps get_record_def dept_row_def dept_record_def edit_cell_def safe_column_def is_digit_def entity_field_def
      tbl_update_def edit_row_def dict_set_def py_lower_def lower_char_def Let_def)

lemma dept_again:
  "\<exists>m. upsert_records L s3 uuid ''uni'' [dept_record ''Rao''] True (Some dept_columns) [] [(dept_row L rid ''Iyer'' s)\<lparr>er_updated_at := s2, er_lineage := l\<rparr>]
     = Inr ([(dept_row L rid ''Iyer'' s)\<lparr>er_updated_at := s2, er_lineage := l\<rparr>], m) \<and> sm_unchanged m = 1"
  by (simp add: upsert_records_def dept_record_def dept_row_def dept_simps import_verdict_def to_write_def dept_merge_simps dept_columns_of[unfolded dept_columns_def] dept_columns_def Let_def
      sees_key_def by_statement_def keep_first_def count_verdict_def empty_summary_def)

text \<open>
  An edit does not change the content hash of a row, so importing the sheet the row came from again
  finds it unchanged and the edited value stays, although the sheet states another one.
\<close>

lemma edit_hides_import:
  "\<exists>t m T b a m'. upsert_records L s uuid ''uni'' [dept_record ''Rao''] True (Some dept_columns) [] [] = Inr (t, m)
    \<and> update_record_fields L s2 ''uni'' ''department'' ''cs'' [(''hod_name'', PStr ''Iyer'')] ''edit'' (\<lambda>n. t) = Inr (T, b, a)
    \<and> upsert_records L s3 uuid ''uni'' [dept_record ''Rao''] True (Some dept_columns) [] (T (ce_table DEPARTMENT_ENTITY)) = Inr (T (ce_table DEPARTMENT_ENTITY), m')
    \<and> sm_unchanged m' = 1 \<and> map (\<lambda>r. cell r ''hod_name'') (T (ce_table DEPARTMENT_ENTITY)) = [PStr ''Iyer'']"
proof -
  let ?rid = "''department-'' @ uuid 0"
  let ?l = "\<lparr>ln_file_id = None, ln_file_name = None, ln_locator = Some ''edit'', ln_job_id = Some ''job-1''\<rparr>"
  from dept_edit[of L s2 ?rid s] obtain b a where e: "update_record_fields L s2 ''uni'' ''department'' ''cs'' [(''hod_name'', PStr ''Iyer'')] ''edit''
      (\<lambda>n. [dept_row L ?rid ''Rao'' s]) = Inr ((\<lambda>n. [dept_row L ?rid ''Rao'' s])(ce_table DEPARTMENT_ENTITY :=
         [(dept_row L ?rid ''Iyer'' s)\<lparr>er_updated_at := s2, er_lineage := ?l\<rparr>]), b, a)" by blast
  from dept_again[where L = L and ?s3.0 = s3 and uuid = uuid and rid = ?rid and s = s and ?s2.0 = s2 and l = ?l] obtain m where m: "upsert_records L s3 uuid ''uni'' [dept_record ''Rao''] True (Some dept_columns) []
      [(dept_row L ?rid ''Iyer'' s)\<lparr>er_updated_at := s2, er_lineage := ?l\<rparr>]
     = Inr ([(dept_row L ?rid ''Iyer'' s)\<lparr>er_updated_at := s2, er_lineage := ?l\<rparr>], m)" "sm_unchanged m = 1" by blast
  have c: "cell ((dept_row L ?rid ''Iyer'' s)\<lparr>er_updated_at := s2, er_lineage := ?l\<rparr>) ''hod_name'' = PStr ''Iyer''"
    by (simp add: cell_def dept_row_def get_or_none_def dict_get_def)
  show ?thesis
    by (rule exI, rule exI, rule exI, rule exI, rule exI, rule exI, rule conjI, rule dept_first, rule conjI, rule e)
      (unfold fun_upd_same list.map c, rule conjI, rule m(1), rule conjI, rule m(2), rule refl)
qed

definition wit_store_lib :: store_lib where
  "wit_store_lib = \<lparr>rs_clean = wit_clean_lib, rs_hash = (\<lambda>v. ''new''), rs_iso = (\<lambda>n. []), rs_holds = (\<lambda>c v. True), rs_sorted = (\<lambda>k t. t), rs_sorted_values = (\<lambda>vs. vs)\<rparr>"

lemma import_accounts_for_all_witness:
  "int (length [dept_row wit_store_lib ''department-'' ''Rao'' 0]) = int (length ([] :: entity_row list)) + 1"
  using import_accounts_for_all[OF dept_first[of wit_store_lib 0 "\<lambda>n. []"]] by (simp add: empty_summary_def)

definition stale_row :: "string \<Rightarrow> entity_row" where
  "stale_row hash = (dept_row wit_store_lib ''d1'' ''Rao'' 0)\<lparr>er_hash := hash\<rparr>"

lemma dept_partial:
  "\<exists>m. upsert_records wit_store_lib 5 (\<lambda>n. []) ''uni'' [dept_record ''Iyer''] True (Some [''code'', ''name'']) [] [stale_row ''old'']
     = Inr ([(stale_row ''new'')\<lparr>er_updated_at := 5\<rparr>], m)"
  by (simp add: upsert_records_def dept_record_def dept_row_def stale_row_def wit_store_lib_def dept_simps import_verdict_def to_write_def dept_merge_simps
      merge_columns_of_def Let_def new_row_def cell_value_def content_hash_def
      sees_key_def by_statement_def keep_first_def put_row_def same_slot_def tbl_update_def assign_row_def assign_cells_def count_verdict_def empty_summary_def)


end
