(* ===== verification/RecordIngestion.thy ===== *)
theory RecordIngestion
  imports RecordImports IngestionRuns
begin

text \<open>
  The import of an ingestion job on the canonical tables: the locale \<open>record_importer\<close> is what
  \<^verbatim>\<open>ingestion/service.py\<close> relies on in \<^verbatim>\<open>store.upsert_records\<close>, and its interpretation on the tables of
  \<open>RecordStore\<close> gives what a committed job leaves behind.
\<close>

subsection \<open>Runs of actions\<close>

lemma bindS_run:
  assumes "bindS m f s = (res, s')"
  shows "(\<exists>x. m s = (Inl x, s') \<and> res = Inl x) \<or> (\<exists>x u. m s = (Inr x, u) \<and> f x u = (res, s'))"
  using assms by (cases "m s") (auto simp: bindS_def split: sum.splits)

lemma st_update_world: "st_update L i j cs s = (res, s') \<Longrightarrow> is_world s' = is_world s"
  by (auto simp: st_update_def split: sum.splits option.splits prod.splits)

lemma st_update_report:
  assumes "st_update L i j [JStatus a, JStage b, JReport d] s = (Inr job, s')"
  shows "ij_report job = d"
proof -
  let ?P = "\<lambda>r. ij_institution_id r = i \<and> ij_id r = j" and ?f = "changed_job (now_of L s) [JStatus a, JStage b, JReport d]"
  from assms obtain t where "update_job (now_of L s) i j [JStatus a, JStage b, JReport d] (is_jobs s) = Inr (t, Some job)"
    by (auto simp: st_update_def split: sum.splits option.splits prod.splits)
  then have "get_job i j (tbl_update ?P ?f (is_jobs s)) = Inr (Some job)"
    unfolding update_job_def unknown_change.simps option.case Let_def tenant_Inr bindE_eq_Inr by blast
  then have "find ?P (tbl_update ?P ?f (is_jobs s)) = Some job" by (simp add: get_job_def)
  note found = find_Some_iff2[OF this]
  have m: "job \<in> (\<lambda>r. if ?P r then ?f r else r) ` set (is_jobs s)" "?P job"
    using found[THEN conjunct1] found[THEN conjunct2] unfolding tbl_update_def set_map .
  from m(1) obtain r where r: "job = (if ?P r then ?f r else r)" by blast
  have "job = ?f r"
  proof (cases "?P r")
    case False
    with r have "job = r" by (simp only: if_False)
    with m(2) False show ?thesis by blast
  next
    case True
    show ?thesis using r unfolding if_P[OF True] .
  qed
  then show ?thesis by (simp add: changed_job_def)
qed

lemma st_records_run: "st_records i j n s = (res, s') \<Longrightarrow> s' = s"
  by (auto simp: st_records_def liftS_def split: sum.splits)

lemma tell_world_run: "tell_world f s = (res, s') \<Longrightarrow> f (is_world s) = (w, r) \<Longrightarrow> is_world s' = w \<and> (case r of Inl x \<Rightarrow> res = Inl (Raised x) | Inr y \<Rightarrow> res = Inr y)"
  by (auto simp: tell_world_def liftS_def split: sum.splits)

subsection \<open>The report of an import\<close>

definition counts_of :: "pyval dict \<Rightarrow> pyval list" where
  "counts_of d = map (get_or_none d) [''inserted'', ''updated'', ''unchanged'', ''skipped'']"

definition all_counted :: "pyval dict \<Rightarrow> int \<Rightarrow> bool" where
  "all_counted d n = (\<exists>a b c k. counts_of d = [PInt a, PInt b, PInt c, PInt k] \<and> a + b + c + k = n)"

lemma set_all_other: "list_all (\<lambda>(k', v). k' \<noteq> k) es \<Longrightarrow> get_or_none (set_all d es) k = get_or_none d k"
  unfolding set_all_def by (induction es arbitrary: d) (auto simp: get_or_none_set)

lemma merge_message_keys: "list_all (\<lambda>(k, v). k = ''message'') (merge_message L m)"
  by (auto simp: merge_message_def Let_def split: option.splits)

lemma summary_counts:
  "counts_of (set_all (summary_as_dict m) ([(''committed_by'', x), (''rows_considered'', y)] @ merge_message L m'))
    = [PInt (sm_inserted m), PInt (sm_updated m), PInt (sm_unchanged m), PInt (sm_skipped m)]"
proof -
  have "list_all (\<lambda>(k', v). k' \<noteq> k) ([(''committed_by'', x), (''rows_considered'', y)] @ merge_message L m')"
    if "k \<in> {''inserted'', ''updated'', ''unchanged'', ''skipped''}" for k
    using that merge_message_keys[of L m'] by (auto simp: list_all_iff)
  from set_all_other[OF this] show ?thesis by (simp add: counts_of_def summary_as_dict_def get_or_none_def dict_get_def)
qed

subsection \<open>What the service relies on\<close>

locale record_importer =
  fixes upsert :: "string \<Rightarrow> canonical_record list \<Rightarrow> string list \<Rightarrow> string list \<Rightarrow> 'w \<Rightarrow> 'w \<times> import_summary res"
    and sound :: "'w \<Rightarrow> bool"
    and kept :: "string \<Rightarrow> 'w \<Rightarrow> 'w \<Rightarrow> bool"
  assumes upsert_fails: "upsert i rs ms ks w = (w', Inl x) \<Longrightarrow> w' = w"
    and upsert_keeps: "sound w \<Longrightarrow> upsert i rs ms ks w = (w', Inr m) \<Longrightarrow> sound w' \<and> kept i w w'"
    and upsert_counts: "upsert i rs ms ks w = (w', Inr m) \<Longrightarrow> sm_inserted m + sm_updated m + sm_unchanged m + sm_skipped m = int (length rs)"
    and kept_refl: "kept i w w"
begin

lemma run_import_cases:
  assumes "il_upsert L = upsert" "run_import S L i r e skip who s = (res, s')"
  shows "(\<exists>x. res = Inl x \<and> is_world s' = is_world s) \<or> (\<exists>staged. st_records i (ij_id r) (int (sv_max_rows S)) s = (Inr staged, s) \<and>
    (\<exists>w m d rs. (\<forall>job. res = Inr job \<longrightarrow> ij_report job = dict_set (ij_report r) ''import'' (PDict d)) \<and> is_world s' = w \<and>
       ((rs = [] \<and> w = is_world s) \<or> (\<exists>ms ks. upsert i rs ms ks (is_world s) = (w, Inr m))) \<and>
       all_counted d (int (length staged))))"
proof -
  from bindS_run[OF assms(2)[unfolded run_import_def]] consider
    (failed) x where "st_records i (ij_id r) (int (sv_max_rows S)) s = (Inl x, s')" "res = Inl x"
  | (rows) staged u where "st_records i (ij_id r) (int (sv_max_rows S)) s = (Inr staged, u)"
      "(let records = map (import_record L r e) (filter (importable skip) staged); reasons = skip_reasons L skip staged;
         counted = count_reasons reasons; skipped = int (length reasons);
         finish = (\<lambda>d. st_update L i (ij_id r) [JStatus ''imported'', JStage ''done'', JReport (dict_set (ij_report r) ''import'' (PDict d))])
       in if records = []
        then finish [(''entity'', PStr (ce_name e)), (''inserted'', PInt 0), (''updated'', PInt 0), (''unchanged'', PInt 0), (''skipped'', PInt skipped),
               (''skipped_reasons'', PDict (map (\<lambda>(k, n). (k, PInt n)) counted)), (''committed_by'', PStr who),
               (''message'', PStr ''no rows were eligible for import'')]
        else bindS (tell_world (il_upsert L i records (keep_first (concat (map (dict_keys \<circ> cr_fields) records)))
               (case sheet_column r of Some c \<Rightarrow> [c] | None \<Rightarrow> []))) (\<lambda>m.
          let total = m\<lparr>sm_skipped := sm_skipped m + skipped, sm_skipped_reasons := add_reasons (sm_skipped_reasons m) counted\<rparr>
          in finish (set_all (summary_as_dict total) ([(''committed_by'', PStr who), (''rows_considered'', PInt (int (length staged)))] @ merge_message L total)))) u = (res, s')"
    by blast
  then show ?thesis
  proof cases
    case failed
    with st_records_run[OF failed(1)] show ?thesis by blast
  next
    case rows
    have u: "u = s" using st_records_run[OF rows(1)] .
    let ?rs = "map (import_record L r e) (filter (importable skip) staged)" and ?k = "int (length (skip_reasons L skip staged))"
    have n: "int (length ?rs) + ?k = int (length staged)"
      using sum_length_filter_compl[of "importable skip" staged] by (simp add: skip_reasons_def)
    show ?thesis
    proof (cases "?rs = []")
      case True
      let ?d = "[(''entity'', PStr (ce_name e)), (''inserted'', PInt 0), (''updated'', PInt 0), (''unchanged'', PInt 0), (''skipped'', PInt ?k),
               (''skipped_reasons'', PDict (map (\<lambda>(k, n). (k, PInt n)) (count_reasons (skip_reasons L skip staged)))), (''committed_by'', PStr who),
               (''message'', PStr ''no rows were eligible for import'')]"
      from rows(2) True have fin: "st_update L i (ij_id r) [JStatus ''imported'', JStage ''done'', JReport (dict_set (ij_report r) ''import'' (PDict ?d))] s = (res, s')"
        by (simp add: Let_def u)
      have "all_counted ?d (int (length staged))"
        using n True unfolding all_counted_def counts_of_def by (simp add: get_or_none_def dict_get_def)
      moreover have "\<forall>job. res = Inr job \<longrightarrow> ij_report job = dict_set (ij_report r) ''import'' (PDict ?d)" using fin st_update_report by blast
      ultimately show ?thesis using rows(1) u st_update_world[OF fin] by blast
    next
      case False
      let ?ms = "keep_first (concat (map (dict_keys \<circ> cr_fields) ?rs))" and ?ks = "case sheet_column r of Some c \<Rightarrow> [c] | None \<Rightarrow> []"
      obtain w q where up: "upsert i ?rs ?ms ?ks (is_world s) = (w, q)" by (cases "upsert i ?rs ?ms ?ks (is_world s)")
      let ?total = "\<lambda>m. m\<lparr>sm_skipped := sm_skipped m + ?k, sm_skipped_reasons := add_reasons (sm_skipped_reasons m) (count_reasons (skip_reasons L skip staged))\<rparr>"
      let ?d = "\<lambda>m. set_all (summary_as_dict (?total m)) ([(''committed_by'', PStr who), (''rows_considered'', PInt (int (length staged)))] @ merge_message L (?total m))"
      from rows(2) False have b: "bindS (tell_world (upsert i ?rs ?ms ?ks)) (\<lambda>m. st_update L i (ij_id r)
          [JStatus ''imported'', JStage ''done'', JReport (dict_set (ij_report r) ''import'' (PDict (?d m)))]) s = (res, s')"
        unfolding Let_def u assms(1) by (simp only: if_False)
      from bindS_run[OF b] show ?thesis
      proof (elim disjE exE conjE)
        fix x assume t: "tell_world (upsert i ?rs ?ms ?ks) s = (Inl x, s')" "res = Inl x"
        from tell_world_run[OF t(1) up] obtain y where y: "is_world s' = w" "q = Inl y" by (cases q) auto
        have "w = is_world s" using upsert_fails[OF up[unfolded y(2)]] .
        with y(1) t(2) show ?thesis by (intro disjI1 exI[of _ x] conjI) simp_all
      next
        fix m v assume t: "tell_world (upsert i ?rs ?ms ?ks) s = (Inr m, v)" and fin: "st_update L i (ij_id r)
          [JStatus ''imported'', JStage ''done'', JReport (dict_set (ij_report r) ''import'' (PDict (?d m)))] v = (res, s')"
        from tell_world_run[OF t up] have v: "is_world v = w" "q = Inr m" by (cases q; auto)+
        have "sm_inserted m + sm_updated m + sm_unchanged m + sm_skipped m = int (length ?rs)"
          using upsert_counts up v(2) by blast
        then have c: "all_counted (?d m) (int (length staged))"
          using n unfolding all_counted_def summary_counts by (simp add: algebra_simps)
        have d: "\<forall>job. res = Inr job \<longrightarrow> ij_report job = dict_set (ij_report r) ''import'' (PDict (?d m))" using fin st_update_report by blast
        have w: "is_world s' = w" using st_update_world[OF fin] v(1) by simp
        have o: "\<exists>ms ks. upsert i ?rs ms ks (is_world s) = (w, Inr m)" using up v(2) by blast
        show ?thesis
          by (rule disjI2, rule exI[of _ staged], rule conjI, rule rows(1)[unfolded u], rule exI[of _ w], rule exI[of _ m], rule exI[of _ "?d m"], rule exI[of _ ?rs],
              rule conjI, rule d, rule conjI, rule w, rule conjI, rule disjI2, rule o, rule c)
      qed
    qed
  qed
qed

lemma run_import_keeps:
  assumes "il_upsert L = upsert" "sound (is_world s)" "run_import S L i r e skip who s = (res, s')"
  shows "sound (is_world s') \<and> kept i (is_world s) (is_world s')"
  using run_import_cases[OF assms(1,3)] assms(2) upsert_keeps kept_refl by metis

lemma run_import_counts:
  assumes "il_upsert L = upsert" "run_import S L i r e skip who s = (Inr job, s')"
  shows "\<exists>staged. st_records i (ij_id r) (int (sv_max_rows S)) s = (Inr staged, s) \<and> all_counted (sub_dict (ij_report job) ''import'') (int (length staged))"
proof -
  from run_import_cases[OF assms] obtain staged d where "st_records i (ij_id r) (int (sv_max_rows S)) s = (Inr staged, s)"
    "ij_report job = dict_set (ij_report r) ''import'' (PDict d)" "all_counted d (int (length staged))" by blast
  then show ?thesis by (intro exI[of _ staged]) (simp add: sub_dict_def get_or_none_set)
qed

end

subsection \<open>The canonical tables as the importer\<close>

record record_world =
  rw_tables :: "string \<Rightarrow> entity_row list"
  rw_tick :: nat

text \<open>The call the service makes: a merging import into the table of the records' entity.\<close>

definition world_upsert :: "store_lib \<Rightarrow> (nat \<Rightarrow> int) \<Rightarrow> (nat \<Rightarrow> string) \<Rightarrow> string \<Rightarrow> canonical_record list \<Rightarrow> string list \<Rightarrow> string list
    \<Rightarrow> record_world \<Rightarrow> record_world \<times> import_summary res" where
  "world_upsert L clock uuid i rs ms ks w =
     (case rs of [] \<Rightarrow> (w, Inl (ValueError ''no records to import''))
      | first # others \<Rightarrow> (case canonical_entity_named (cr_entity first) of
            Inl x \<Rightarrow> (w, Inl x)
          | Inr e \<Rightarrow> (case upsert_records L (clock (rw_tick w)) (\<lambda>n. uuid (rw_tick w + n)) i rs True (Some ms) ks (rw_tables w (ce_table e)) of
                Inl x \<Rightarrow> (w, Inl x)
              | Inr (t, m) \<Rightarrow> (w\<lparr>rw_tables := (rw_tables w)(ce_table e := t), rw_tick := rw_tick w + length rs + 1\<rparr>, Inr m))))"

definition tables_sound :: "record_world \<Rightarrow> bool" where
  "tables_sound w = (\<forall>n. distinct (map slot (rw_tables w n)) \<and> distinct (map er_id (rw_tables w n)))"

definition erases_nothing :: "store_lib \<Rightarrow> string \<Rightarrow> record_world \<Rightarrow> record_world \<Rightarrow> bool" where
  "erases_nothing L i w w' = (\<forall>name e. canonical_entity_named name = Inr e \<longrightarrow> (\<forall>r \<in> set (rw_tables w (ce_table e)).
     \<exists>r' \<in> set (rw_tables w' (ce_table e)). slot r' = slot r \<and> er_id r' = er_id r \<and> (er_institution r \<noteq> i \<longrightarrow> r' = r)
       \<and> (\<forall>n \<in> set (field_names e). stated L e r n \<and> \<not> blank_val (cell r n) \<longrightarrow> \<not> blank_val (cell r' n))))"

lemma erases_nothing_refl: "erases_nothing L i w w"
  unfolding erases_nothing_def by blast

lemma entity_of_table:
  assumes "canonical_entity_named n = Inr e" "canonical_entity_named n' = Inr e'" "ce_table e = ce_table e'"
  shows "e = e'"
proof -
  have m: "(n, e) \<in> set CANONICAL_ENTITIES" "(n', e') \<in> set CANONICAL_ENTITIES"
    using assms(1,2) by (auto simp: canonical_entity_named_def dict_get_def split: option.splits dest: map_of_SomeD)
  have "distinct (map (\<lambda>(k, e). ce_table e) CANONICAL_ENTITIES)" unfolding canonical_tables by simp
  then have "inj_on (\<lambda>(k, e). ce_table e) (set CANONICAL_ENTITIES)" by (simp add: distinct_map)
  from inj_onD[OF this _ m] assms(3) show ?thesis by simp
qed

lemma world_upsert_ok:
  assumes "world_upsert L clock uuid i rs ms ks w = (w', Inr m)"
  shows "\<exists>q e t. q \<in> set rs \<and> canonical_entity_named (cr_entity q) = Inr e
    \<and> upsert_records L (clock (rw_tick w)) (\<lambda>n. uuid (rw_tick w + n)) i rs True (Some ms) ks (rw_tables w (ce_table e)) = Inr (t, m)
    \<and> rw_tables w' = (rw_tables w)(ce_table e := t)"
  using assms by (cases rs) (auto simp: world_upsert_def split: sum.splits prod.splits)

lemma world_upsert_fails: "world_upsert L clock uuid i rs ms ks w = (w', Inl x) \<Longrightarrow> w' = w"
  by (cases rs) (auto simp: world_upsert_def split: sum.splits prod.splits)

lemma upsert_keeps_unique:
  assumes "upsert_records L stamp uuid i records skip mapped_names kept t = Inr (t', m)" "distinct (map slot t)" "distinct (map er_id t)"
  shows "distinct (map slot t') \<and> distinct (map er_id t')"
  using upsert_result[OF assms(1)] put_rows_unique[OF _ assms(2,3)] by blast

lemma world_upsert_keeps:
  assumes "tables_sound w" "world_upsert L clock uuid i rs ms ks w = (w', Inr m)"
  shows "tables_sound w' \<and> erases_nothing L i w w'"
proof -
  from world_upsert_ok[OF assms(2)] obtain q e t where q: "q \<in> set rs" "canonical_entity_named (cr_entity q) = Inr e"
    and u: "upsert_records L (clock (rw_tick w)) (\<lambda>n. uuid (rw_tick w + n)) i rs True (Some ms) ks (rw_tables w (ce_table e)) = Inr (t, m)"
    and w': "rw_tables w' = (rw_tables w)(ce_table e := t)" by blast
  from assms(1) have s: "distinct (map slot (rw_tables w n))" "distinct (map er_id (rw_tables w n))" for n by (auto simp: tables_sound_def)
  have "tables_sound w'" using upsert_keeps_unique[OF u s] s by (simp add: tables_sound_def w')
  moreover have "\<exists>r' \<in> set (rw_tables w' (ce_table f)). slot r' = slot r \<and> er_id r' = er_id r \<and> (er_institution r \<noteq> i \<longrightarrow> r' = r)
       \<and> (\<forall>n \<in> set (field_names f). stated L f r n \<and> \<not> blank_val (cell r n) \<longrightarrow> \<not> blank_val (cell r' n))"
    if "canonical_entity_named name = Inr f" "r \<in> set (rw_tables w (ce_table f))" for name f r
  proof (cases "ce_table f = ce_table e")
    case True
    with entity_of_table[OF that(1) q(2)] have "f = e" by simp
    with merge_keeps_row[OF u s(1) q, of r] that(2) show ?thesis by (fastforce simp: w')
  next
    case False
    with that(2) show ?thesis by (intro bexI[of _ r]) (auto simp: w')
  qed
  ultimately show ?thesis unfolding erases_nothing_def by blast
qed

interpretation canonical: record_importer "world_upsert L clock uuid" tables_sound "erases_nothing L" for L clock uuid
proof (unfold_locales, goal_cases)
  case (1 i rs ms ks w w' x)
  then show ?case by (rule world_upsert_fails)
next
  case (2 w i rs ms ks w' m)
  then show ?case by (rule world_upsert_keeps)
next
  case (3 i rs ms ks w w' m)
  from world_upsert_ok[OF this] obtain e :: canonical_entity and t where
    "upsert_records L (clock (rw_tick w)) (\<lambda>n. uuid (rw_tick w + n)) i rs True (Some ms) ks (rw_tables w (ce_table e)) = Inr (t, m)" by blast
  from upsert_result[OF this] show ?case by blast
next
  case (4 i w)
  show ?case by (rule erases_nothing_refl)
qed


definition rec_ing_lib :: "record_world ing_lib" where
  "rec_ing_lib = \<lparr>il_map = wit_lib, il_clock = int, il_uuid = nat_digits, il_uuid5 = (\<lambda>x. x), il_error_class = (\<lambda>e. ''Exception''),
     il_safe_name = Inr, il_file_kind = (\<lambda>n c t. ''csv''), il_object_key = (\<lambda>i k f n. Inr (i @ ''/'' @ f)), il_put = (\<lambda>k c t w. (w, Inr (int (length c), k))),
     il_get = (\<lambda>k w. Inl (LookupError k)), il_parse = (\<lambda>n c t. Inl (ValueError n)), il_reshape = (\<lambda>r e. r),
     il_round2 = id, il_hash = (\<lambda>v. []), il_existing = (\<lambda>i e ks w. Inr []), il_people = (\<lambda>i e q w. Inr []),
     il_upsert = world_upsert wit_store_lib int nat_digits\<rparr>"

definition rec_ing :: "record_world ing" where
  "rec_ing = \<lparr>is_jobs = [sample_job ''processing'' ''importing''],
     is_rows = [\<lparr>ir_id = ''1'', ir_job_id = ''job-1'', ir_institution_id = ''uni'', ir_row_number = 1, ir_locator = ''row=1'', ir_raw = [],
        ir_normalized = [(''fields'', PDict (cr_fields (dept_record ''Iyer'')))], ir_status = ''ready'', ir_action = ''update'', ir_record_key = Some ''cs'', ir_issues = []\<rparr>],
     is_reviews = [], is_profiles = [], is_files = [],
     is_world = \<lparr>rw_tables = (\<lambda>n. if n = ''departments'' then [stale_row ''old''] else []), rw_tick = 0\<rparr>, is_tick = 0, is_remembered = False\<rparr>"


end
