(* ===== verification/Spec2Isabelle.thy ===== *)
theory Spec2Isabelle
  imports Streaming Cerbos BackgroundJobs Gateway PostgresStore InstitutionStore JobQueue Assistant Middleware MasterAgent DeterministicPlanner ReviewDecisions CleanDates RecordIngestion
begin

text \<open>
  A verification development of the Guru-Ji API, the service under \<^verbatim>\<open>src/apps/api/app\<close>: an assistant
  that answers questions about an institution from its records, lets people and their agents
  change those records under confirmation, and imports the records from uploaded sheets. File
  names below are relative to that directory; \<open>Name.thy\<close> is named \<open>Name\<close>.

  The parts and how they meet. A request carries a principal (\<^verbatim>\<open>domain/principals.py\<close>); the policy
  decision point says whether an action is allowed for it (\<^verbatim>\<open>policy/\<close>). The read-only assistant
  (\<^verbatim>\<open>orchestration/\<close>) plans tool calls, asks the decision point before each, runs them on
  connectors (\<^verbatim>\<open>connectors/\<close>), words an answer and records it in the control store
  (\<^verbatim>\<open>persistence/database.py\<close>), whose outbox a dispatcher empties. The master agent (\<^verbatim>\<open>agents/\<close>)
  plans steps that all go through the tool gateway (\<^verbatim>\<open>gateway/\<close>): it validates arguments, asks the
  policy, demands a confirmation for what changes records and audits every call. Approvals, jobs,
  files and documents are tables of the institution store (\<^verbatim>\<open>institution_data/store.py\<close>); the job
  queue (\<^verbatim>\<open>workers/queue.py\<close>) runs what is handed to it. The ingestion service
  (\<^verbatim>\<open>ingestion/service.py\<close>) takes a parsed file through mapping, cleaning, validation, duplicate
  search, a person's decisions and the import.

  Theories, with the files they model.
  \<^item> \<open>Prelude\<close>: Python's exceptions, strings, values and dictionaries as HOL data, shared lemmas.
  \<^item> \<open>Principals\<close> (\<^verbatim>\<open>domain/principals.py\<close>, \<^verbatim>\<open>auth/\<close> roles and the demo identity), \<open>Contracts\<close> and
    \<open>Streaming\<close> (\<^verbatim>\<open>domain/\<close>), \<open>Policy\<close> and \<open>Cerbos\<close> (\<^verbatim>\<open>policy/\<close>), \<open>Redaction\<close> (\<^verbatim>\<open>policy/redaction.py\<close>,
    \<^verbatim>\<open>data_access/field_policy.py\<close>).
  \<^item> \<open>SqlTable\<close>: what the stores use of SQL, and the locale of a table shared by tenants. \<open>Approvals\<close>,
    \<open>BackgroundJobs\<close>, \<open>InstitutionTables\<close>, \<open>InstitutionStore\<close> (\<^verbatim>\<open>institution_data/store.py\<close>),
    \<open>ControlStore\<close>, \<open>PostgresStore\<close>, \<open>VoiceSessions\<close> (\<^verbatim>\<open>persistence/database.py\<close>,
    \<^verbatim>\<open>voice/session_manager.py\<close>), \<open>JobQueue\<close> (\<^verbatim>\<open>workers/queue.py\<close>).
  \<^item> \<open>ToolSpec\<close>, \<open>Gateway\<close> (\<^verbatim>\<open>gateway/\<close>), \<open>Sources\<close>, \<open>Connectors\<close>, \<open>RemoteHttp\<close> (\<^verbatim>\<open>config/source_registry.py\<close>,
    \<^verbatim>\<open>tools/\<close>, \<^verbatim>\<open>connectors/\<close>), \<open>Orchestration\<close>, \<open>Synthesis\<close>, \<open>Tracing\<close>, \<open>Assistant\<close>, \<open>Middleware\<close>
    (\<^verbatim>\<open>orchestration/\<close>, \<^verbatim>\<open>observability/tracing.py\<close>, \<^verbatim>\<open>middleware/\<close>), \<open>AgentPlans\<close>, \<open>Words\<close>,
    \<open>DeterministicPlanner\<close>, \<open>MasterAgent\<close> (\<^verbatim>\<open>agents/\<close>, \<^verbatim>\<open>open_task/routing.py\<close>).
  \<^item> \<open>Canonical\<close> (\<^verbatim>\<open>normalization/canonical.py\<close>, \<^verbatim>\<open>institution_data/models.py\<close>), \<open>FieldMapping\<close>
    (\<^verbatim>\<open>normalization/mapping.py\<close>), \<open>RecordChecks\<close> (\<^verbatim>\<open>normalization/validation.py\<close>,
    \<^verbatim>\<open>normalization/deduplication.py\<close>), \<open>Sheets\<close> (\<^verbatim>\<open>ingestion/models.py\<close> and the choice of sheets),
    \<open>IngestStore\<close>, \<open>Ingestion\<close>, \<open>IngestionFlow\<close> (\<^verbatim>\<open>ingestion/service.py\<close>), \<open>IngestionRuns\<close>,
    \<open>ReviewDecisions\<close> (what the workflow promises).
  \<^item> \<open>Cleaning\<close> and \<open>CleanDates\<close> (\<^verbatim>\<open>normalization/cleaning.py\<close>: one value
    by the type of its field, the date formats tried in order, derived columns; a date that is kept is a
    real day); \<open>RecordStore\<close> (\<^verbatim>\<open>institution_data/store.py\<close>: the tables of canonical records, a sheet
    laid over a stored row, the import of a batch, lookups, filters, edits); \<open>RecordImports\<close> (what an
    import promises); \<open>RecordIngestion\<close> (a committed job on those tables).

  How code becomes definitions. A dataclass is a record and its \<^verbatim>\<open>__post_init__\<close> a constructor that
  may fail; an enum is a datatype; a method that changes a store takes the store's state and
  returns the new one; an exception is the left of a sum (\<open>res\<close>), with the text the code gives it
  where the text is shown. The ingestion service and the assistant are written as actions that pass
  their state, with \<^verbatim>\<open>try\<close> as a combinator whose handler sees the state the body left. SQL tables
  are lists of rows in insertion order; a transaction is one function on the state. Loops are
  structural recursion, or carry their measure (the paging of review items, the reference
  patterns, the chunks of a bulk write); nothing in the model needs fuel except the turns of the
  job queue, whose number is an argument. Texts are lists of characters with code points below
  256; instants are integers counting microseconds; Python's integers are unbounded, and its
  floats are rationals, so rounding is where the code calls \<^verbatim>\<open>round\<close> and there is no other.

  What each group of lemmas shows. Gateway, approvals and agents: nothing that changes records runs
  without a permitting decision, valid arguments and, where the tool demands it, a confirmation
  claimed once for exactly these arguments; every call leaves one audit event; a command changes
  at most one record per confirmation and resumes where it stopped. Policy and redaction: an
  unreachable or unclear decision point denies; contact fields are gone from what is shown. Stores:
  a tenant's operations read and change that tenant's rows only; finished jobs stay finished and a
  late worker cannot overwrite them; the in-memory and SQL stores agree. Connectors and answers: a
  remote result counts only when it attests the requested scope; a model's wording cannot leave the
  facts; asking always ends in an answer that is recorded once. Ingestion: the engine's proposals
  never share a field and a model's suggestion is never applied unseen; duplicates leave exactly one
  row per key; sheets lose no row; a run of the workflow always ends in a recorded state; an import
  ends done or ready to be tried again; what a reviewer approves is complete and unambiguous, and
  their decisions keep out only what they are about.
  Canonical records: cleaning invents no value; an import counts every record once, keeps one row per
  institution and key, and when it merges it erases nothing.

  Interfaces. A locale stands where one part relies on a contract of another: \<open>scope_containment\<close>
  (what contains a scope), \<open>policy_decision_point\<close> (interpreted on the local and the Cerbos decision
  point), \<open>tenant_machine\<close> (a store whose steps belong to a tenant, interpreted on the institution
  store), \<open>answer_store\<close>, \<open>usage_counter\<close> and \<open>voice_session_store\<close> (interpreted on the in-memory, the
  SQLite and, where it differs, the PostgreSQL definitions). The ingestion service sees the canonical tables through
  \<open>record_importer\<close>, interpreted on \<open>RecordStore\<close>'s import.

  Parameters. Code outside the repository and the parts of the standard library without a closed
  form here are arguments: the network, the language and text models, JSON printing and parsing,
  \<^verbatim>\<open>repr\<close> and \<^verbatim>\<open>float\<close> of a text, similarity of two texts, hashes, random identifiers, the clock,
  the object store and the parsers of files. No law is assumed of them unless a theorem names it.

  Bounds. The limits of the code are the constants of the code (pages of 2000 review items and of
  200 by default, 500 rows per write, 5000 rows per query, 8 steps per plan, 4000 characters per
  command, and so on), used as they stand; no bound is added by the model.

  Not modelled, and why. Routes and application assembly (framework declarations); actions, document
  chunking, conversation and voice transports, providers, web research, the crawler of public
  sources and the open-task sandbox (their work is done by external services, models and
  libraries); settings (one pydantic model); schema migrations and connection handling; threads and
  timers, so a turn of the queue and a request are each one step and interleavings are sequences of
  such steps. The rollups
  over canonical records (joins computed by the database) are read-only and left out. The manifest lists each of them.
\<close>

end
